(* ===== verification/Prelude.thy ===== *)
theory Prelude
  imports Complex_Main "HOL-Library.List_Lexorder" "HOL-Library.Char_ord" "HOL-Library.Sublist"
begin

text \<open>
  What the components share: results that may be a raised exception, the JSON values the
  artifacts are made of, and the parts of Python's \<open>str\<close>, \<open>int\<close> and \<open>float\<close> the source
  calls.  Text is ASCII (a \<open>char\<close> is one code point); Python integers are \<open>int\<close>.  A Python
  float is either a special value or an exact rational together with the text \<open>repr\<close> prints
  for it: no arithmetic is done on floats by the modelled code, only comparisons.
\<close>

section \<open>Fact collections\<close>

named_theorems result_simps \<open>unfolding results of fallible steps\<close>
named_theorems enum_defs \<open>definitions of enum value tables\<close>

section \<open>Results\<close>

text \<open>A raising function returns \<open>Inl\<close> of the exception or \<open>Inr\<close> of its value.\<close>

fun ebind :: "'e + 'a \<Rightarrow> ('a \<Rightarrow> 'e + 'b) \<Rightarrow> 'e + 'b" where
  "ebind (Inl e) k = Inl e"
| "ebind (Inr a) k = k a"

definition guard :: "bool \<Rightarrow> 'e \<Rightarrow> 'e + unit" where
  "guard b e = (if b then Inr () else Inl e)"

fun err_map :: "('e \<Rightarrow> 'f) \<Rightarrow> 'e + 'a \<Rightarrow> 'f + 'a" where
  "err_map f (Inl e) = Inl (f e)"
| "err_map f (Inr a) = Inr a"

text \<open>A comprehension over a list whose body may raise: the first error wins.\<close>

fun emap :: "('a \<Rightarrow> 'e + 'b) \<Rightarrow> 'a list \<Rightarrow> 'e + 'b list" where
  "emap f [] = Inr []"
| "emap f (x # xs) = ebind (f x) (\<lambda>y. ebind (emap f xs) (\<lambda>ys. Inr (y # ys)))"

text \<open>The same over \<open>enumerate\<close>.\<close>

definition emap_enum :: "(nat \<Rightarrow> 'a \<Rightarrow> 'e + 'b) \<Rightarrow> 'a list \<Rightarrow> 'e + 'b list" where
  "emap_enum f xs = emap (\<lambda>(i, x). f i x) (enumerate 0 xs)"

lemma ebind_Inr_iff [result_simps]: "ebind r k = Inr b \<longleftrightarrow> (\<exists>a. r = Inr a \<and> k a = Inr b)"
  by (cases r) auto

lemma ebind_Inl_iff: "ebind r k = Inl e \<longleftrightarrow> r = Inl e \<or> (\<exists>a. r = Inr a \<and> k a = Inl e)"
  by (cases r) auto

lemma guard_Inr_iff [result_simps]: "guard b e = Inr u \<longleftrightarrow> b"
  by (simp add: guard_def)

lemma guard_Inl_iff: "guard b e = Inl d \<longleftrightarrow> \<not> b \<and> d = e"
  by (auto simp: guard_def)

lemma ebind_guard [simp]: "ebind (guard b e) k = (if b then k () else Inl e)"
  by (simp add: guard_def)

lemma if_Inl_iff [result_simps]: "(if b then r else Inl e) = Inr a \<longleftrightarrow> b \<and> r = Inr a"
  by simp

lemma err_map_Inr_iff [result_simps]: "err_map f r = Inr a \<longleftrightarrow> r = Inr a"
  by (cases r) auto

lemma ebind_Inr_E:
  assumes "ebind r k = Inr b"
  obtains a where "r = Inr a" "k a = Inr b"
  using assms by (auto simp: ebind_Inr_iff)

lemma ebind_cong [fundef_cong]:
  "r = r' \<Longrightarrow> (\<And>a. r' = Inr a \<Longrightarrow> k a = k' a) \<Longrightarrow> ebind r k = ebind r' k'"
  by (cases r') auto

lemma emap_Inr_iff: "emap f xs = Inr ys \<longleftrightarrow> list_all2 (\<lambda>x y. f x = Inr y) xs ys"
proof (induction xs arbitrary: ys)
  case Nil
  then show ?case by auto
next
  case (Cons x xs)
  then show ?case by (auto simp: ebind_Inr_iff list_all2_Cons1)
qed

lemma emap_length: "emap f xs = Inr ys \<Longrightarrow> length ys = length xs"
  by (auto simp: emap_Inr_iff dest: list_all2_lengthD)

lemma emap_set: "emap f xs = Inr ys \<Longrightarrow> y \<in> set ys \<Longrightarrow> \<exists>x \<in> set xs. f x = Inr y"
  by (induction xs arbitrary: ys) (auto simp: ebind_Inr_iff)

lemma emap_map: "emap f (map g xs) = emap (\<lambda>x. f (g x)) xs"
  by (induction xs) auto

lemma emap_all: "(\<And>x. x \<in> set xs \<Longrightarrow> f x = Inr (g x)) \<Longrightarrow> emap f xs = Inr (map g xs)"
  by (induction xs) auto

lemma emap_cong [fundef_cong]:
  "xs = ys \<Longrightarrow> (\<And>x. x \<in> set ys \<Longrightarrow> f x = g x) \<Longrightarrow> emap f xs = emap g ys"
  by (induction ys arbitrary: xs) auto

lemma emap_enum_set:
  "emap_enum f xs = Inr ys \<Longrightarrow> y \<in> set ys \<Longrightarrow> \<exists>i < length xs. f i (xs ! i) = Inr y"
  unfolding emap_enum_def by (drule (1) emap_set) (auto simp: in_set_enumerate_eq)

lemma emap_enum_all:
  "(\<And>i. i < length xs \<Longrightarrow> f i (xs ! i) = Inr (g (xs ! i))) \<Longrightarrow> emap_enum f xs = Inr (map g xs)"
proof -
  assume a: "\<And>i. i < length xs \<Longrightarrow> f i (xs ! i) = Inr (g (xs ! i))"
  have "emap (\<lambda>(i, x). f i x) (enumerate 0 xs) = Inr (map (\<lambda>(i, x). g x) (enumerate 0 xs))"
    by (rule emap_all) (auto simp: in_set_enumerate_eq a)
  also have "map (\<lambda>(i, x). g x) (enumerate 0 xs) = map g (map snd (enumerate 0 xs))"
    by (simp add: case_prod_beta del: map_snd_enumerate)
  finally show ?thesis by (simp add: emap_enum_def)
qed


text \<open>A decoder that undoes an encoder elementwise undoes it on a whole array.\<close>

lemma emap_enum_decode:
  assumes "\<And>i x. x \<in> set xs \<Longrightarrow> f i (g x) = Inr x"
  shows "emap_enum f (map g xs) = Inr xs"
proof -
  have "emap (\<lambda>(i, x). f i x) (enumerate n (map g xs)) = Inr xs" for n
    using assms by (induction xs arbitrary: n) auto
  then show ?thesis by (simp add: emap_enum_def)
qed

section \<open>Python values read from JSON\<close>

datatype pyfloat = FloatNaN | FloatInf bool | FloatFin rat string

text \<open>\<open>FloatInf True\<close> is \<open>inf\<close>; comparisons with NaN are false.\<close>

fun float_le :: "pyfloat \<Rightarrow> pyfloat \<Rightarrow> bool" where
  "float_le FloatNaN g = False"
| "float_le (FloatInf b) g =
     (case g of FloatNaN \<Rightarrow> False | FloatInf c \<Rightarrow> b \<longrightarrow> c | FloatFin _ _ \<Rightarrow> \<not> b)"
| "float_le (FloatFin a s) g =
     (case g of FloatNaN \<Rightarrow> False | FloatInf c \<Rightarrow> c | FloatFin b _ \<Rightarrow> a \<le> b)"

fun float_repr :: "pyfloat \<Rightarrow> string" where
  "float_repr FloatNaN = ''nan''"
| "float_repr (FloatInf True) = ''inf''"
| "float_repr (FloatInf False) = ''-inf''"
| "float_repr (FloatFin _ s) = s"

definition float_0 :: pyfloat where "float_0 = FloatFin 0 ''0.0''"
definition float_1 :: pyfloat where "float_1 = FloatFin 1 ''1.0''"

lemma float_le_refl: "f \<noteq> FloatNaN \<Longrightarrow> float_le f f"
  by (cases f) auto

lemma float_le_trans: "float_le a b \<Longrightarrow> float_le b c \<Longrightarrow> float_le a c"
  by (cases a; cases b; cases c) (auto split: pyfloat.splits)

text \<open>Objects keep their keys in order; \<open>json.loads\<close> never repeats one.\<close>

datatype json =
    JNull
  | JBool bool
  | JInt int
  | JFloat pyfloat
  | JStr string
  | JList "json list"
  | JObj "(string \<times> json) list"

text \<open>\<open>d.get(k)\<close>, which is \<open>None\<close> for a missing key, and \<open>d.get(k, default)\<close>.\<close>

definition jget_or :: "(string \<times> json) list \<Rightarrow> string \<Rightarrow> json \<Rightarrow> json" where
  "jget_or d k v = (case map_of d k of None \<Rightarrow> v | Some x \<Rightarrow> x)"

abbreviation jget :: "(string \<times> json) list \<Rightarrow> string \<Rightarrow> json" where
  "jget d k \<equiv> jget_or d k JNull"

lemma jget_or_Nil [simp]: "jget_or [] k v = v"
  by (simp add: jget_or_def)

lemma jget_or_Cons [simp]: "jget_or ((k', x) # d) k v = (if k = k' then x else jget_or d k v)"
  by (simp add: jget_or_def)

fun jtruthy :: "json \<Rightarrow> bool" where
  "jtruthy JNull = False"
| "jtruthy (JBool b) = b"
| "jtruthy (JInt i) = (i \<noteq> 0)"
| "jtruthy (JFloat f) = (case f of FloatFin r _ \<Rightarrow> r \<noteq> 0 | _ \<Rightarrow> True)"
| "jtruthy (JStr s) = (s \<noteq> [])"
| "jtruthy (JList xs) = (xs \<noteq> [])"
| "jtruthy (JObj xs) = (xs \<noteq> [])"

text \<open>What \<open>json.loads\<close> returns: no object of the value repeats a key.\<close>

fun json_wf :: "json \<Rightarrow> bool" where
  "json_wf (JList xs) = list_all json_wf xs"
| "json_wf (JObj d) = (distinct (map fst d) \<and> list_all (\<lambda>(k, v). json_wf v) d)"
| "json_wf _ = True"

lemma json_wf_jget_or: "json_wf (JObj d) \<Longrightarrow> json_wf v \<Longrightarrow> json_wf (jget_or d k v)"
  by (auto simp: jget_or_def list_all_iff split: option.splits dest!: map_of_SomeD)

section \<open>Python text\<close>

definition ascii_upper :: "char \<Rightarrow> bool" where
  "ascii_upper c = (65 \<le> (of_char c :: nat) \<and> (of_char c :: nat) \<le> 90)"

definition ascii_lower :: "char \<Rightarrow> bool" where
  "ascii_lower c = (97 \<le> (of_char c :: nat) \<and> (of_char c :: nat) \<le> 122)"

definition ascii_digit :: "char \<Rightarrow> bool" where
  "ascii_digit c = (48 \<le> (of_char c :: nat) \<and> (of_char c :: nat) \<le> 57)"

definition py_space :: "char \<Rightarrow> bool" where
  "py_space c = (let n = (of_char c :: nat) in (9 \<le> n \<and> n \<le> 13) \<or> (28 \<le> n \<and> n \<le> 32))"

definition lower_char :: "char \<Rightarrow> char" where
  "lower_char c = (if ascii_upper c then char_of ((of_char c :: nat) + 32) else c)"

definition upper_char :: "char \<Rightarrow> char" where
  "upper_char c = (if ascii_lower c then char_of ((of_char c :: nat) - 32) else c)"

abbreviation py_lower :: "string \<Rightarrow> string" where
  "py_lower \<equiv> map lower_char"

abbreviation py_upper :: "string \<Rightarrow> string" where
  "py_upper \<equiv> map upper_char"

definition rstrip_while :: "(char \<Rightarrow> bool) \<Rightarrow> string \<Rightarrow> string" where
  "rstrip_while p s = rev (dropWhile p (rev s))"

definition py_strip :: "string \<Rightarrow> string" where
  "py_strip s = rstrip_while py_space (dropWhile py_space s)"

definition starts_with :: "string \<Rightarrow> string \<Rightarrow> bool" where
  "starts_with s p = (take (length p) s = p)"

fun split_on :: "char \<Rightarrow> string \<Rightarrow> string list" where
  "split_on c [] = [[]]"
| "split_on c (x # xs) =
     (if x = c then [] # split_on c xs
      else (case split_on c xs of [] \<Rightarrow> [[x]] | w # ws \<Rightarrow> (x # w) # ws))"

text \<open>\<open>sep.join(words)\<close>\<close>

fun join_with :: "string \<Rightarrow> string list \<Rightarrow> string" where
  "join_with sep [] = []"
| "join_with sep [w] = w"
| "join_with sep (w # ws) = w @ sep @ join_with sep ws"

fun show_nat :: "nat \<Rightarrow> string" where
  "show_nat n = (if n < 10 then [char_of (48 + n)] else show_nat (n div 10) @ [char_of (48 + n mod 10)])"

declare show_nat.simps [simp del]

definition show_int :: "int \<Rightarrow> string" where
  "show_int i = (if i < 0 then CHR ''-'' # show_nat (nat (- i)) else show_nat (nat i))"

definition at_index :: "string \<Rightarrow> nat \<Rightarrow> string" where
  "at_index loc i = loc @ ''['' @ show_nat i @ '']''"

text \<open>
  \<open>str(x)\<close>; \<open>None\<close> stands for the rendering of a container, which the callers only
  ever compare with keywords and parse as addresses or integers, and which is none of them.
\<close>

fun py_str :: "json \<Rightarrow> string option" where
  "py_str JNull = Some ''None''"
| "py_str (JBool b) = Some (if b then ''True'' else ''False'')"
| "py_str (JInt i) = Some (show_int i)"
| "py_str (JFloat f) = Some (float_repr f)"
| "py_str (JStr s) = Some s"
| "py_str _ = None"

lemma starts_with_append [simp]: "starts_with (p @ s) p"
  by (simp add: starts_with_def)

lemma starts_with_iff: "starts_with s p \<longleftrightarrow> (\<exists>t. s = p @ t)"
  by (metis append_eq_conv_conj append_take_drop_id starts_with_def)

lemma split_on_not_Nil [simp]: "split_on c s \<noteq> []"
  by (induction s) (auto split: list.splits)

lemma split_on_no_sep: "w \<in> set (split_on c s) \<Longrightarrow> c \<notin> set w"
  by (induction s arbitrary: w) (auto split: list.splits if_splits)

lemma split_on_word [simp]: "c \<notin> set w \<Longrightarrow> split_on c w = [w]"
  by (induction w) auto

lemma split_on_append: "c \<notin> set w \<Longrightarrow> split_on c (w @ c # s) = w # split_on c s"
  by (induction w) auto

lemma join_split: "join_with [c] (split_on c s) = s"
proof (induction s)
  case Nil
  then show ?case by simp
next
  case (Cons x xs)
  then show ?case
    by (cases "split_on c xs"; cases "tl (split_on c xs)") auto
qed

lemma split_join: "ws \<noteq> [] \<Longrightarrow> \<forall>w \<in> set ws. c \<notin> set w \<Longrightarrow> split_on c (join_with [c] ws) = ws"
  by (induction "[c]" ws rule: join_with.induct) (auto simp: split_on_append)

lemma cut_at_first:
  "xs @ c # ys = xs' @ c # ys' \<Longrightarrow> c \<notin> set xs \<Longrightarrow> c \<notin> set xs' \<Longrightarrow> xs = xs' \<and> ys = ys'"
proof (induction xs arbitrary: xs')
  case Nil
  then show ?case by (cases xs') auto
next
  case (Cons x xs)
  then show ?case by (cases xs') auto
qed

lemma rstrip_while_id: "s = [] \<or> \<not> p (last s) \<Longrightarrow> rstrip_while p s = s"
  by (cases s rule: rev_cases) (auto simp: rstrip_while_def)

lemma rstrip_while_last: "rstrip_while p s = [] \<or> \<not> p (last (rstrip_while p s))"
  by (cases "dropWhile p (rev s)") (auto simp: rstrip_while_def dest: dropWhile_eq_Cons_conv[THEN iffD1])

lemma lower_char_idem [simp]: "lower_char (lower_char c) = lower_char c"
  by (auto simp: lower_char_def ascii_upper_def)

lemma py_lower_idem [simp]: "py_lower (py_lower s) = py_lower s"
  by (induction s) auto

lemma upper_char_idem [simp]: "upper_char (upper_char c) = upper_char c"
  by (auto simp: upper_char_def ascii_lower_def)

lemma py_upper_idem [simp]: "py_upper (py_upper s) = py_upper s"
  by (induction s) auto

text \<open>Evaluates case changes and stripping on concrete letters.\<close>

lemma letter_cases:
  "lower_char CHR ''a'' = CHR ''a''" "lower_char CHR ''b'' = CHR ''b''" "lower_char CHR ''c'' = CHR ''c''"
  "lower_char CHR ''d'' = CHR ''d''" "lower_char CHR ''e'' = CHR ''e''" "lower_char CHR ''f'' = CHR ''f''"
  "lower_char CHR ''g'' = CHR ''g''" "lower_char CHR ''h'' = CHR ''h''" "lower_char CHR ''i'' = CHR ''i''"
  "lower_char CHR ''j'' = CHR ''j''" "lower_char CHR ''k'' = CHR ''k''" "lower_char CHR ''l'' = CHR ''l''"
  "lower_char CHR ''m'' = CHR ''m''" "lower_char CHR ''n'' = CHR ''n''" "lower_char CHR ''o'' = CHR ''o''"
  "lower_char CHR ''p'' = CHR ''p''" "lower_char CHR ''q'' = CHR ''q''" "lower_char CHR ''r'' = CHR ''r''"
  "lower_char CHR ''s'' = CHR ''s''" "lower_char CHR ''t'' = CHR ''t''" "lower_char CHR ''u'' = CHR ''u''"
  "lower_char CHR ''v'' = CHR ''v''" "lower_char CHR ''w'' = CHR ''w''" "lower_char CHR ''x'' = CHR ''x''"
  "lower_char CHR ''y'' = CHR ''y''" "lower_char CHR ''z'' = CHR ''z''" "lower_char CHR ''A'' = CHR ''a''"
  "lower_char CHR ''B'' = CHR ''b''" "lower_char CHR ''C'' = CHR ''c''" "lower_char CHR ''D'' = CHR ''d''"
  "lower_char CHR ''E'' = CHR ''e''" "lower_char CHR ''F'' = CHR ''f''" "lower_char CHR ''G'' = CHR ''g''"
  "lower_char CHR ''H'' = CHR ''h''" "lower_char CHR ''I'' = CHR ''i''" "lower_char CHR ''J'' = CHR ''j''"
  "lower_char CHR ''K'' = CHR ''k''" "lower_char CHR ''L'' = CHR ''l''" "lower_char CHR ''M'' = CHR ''m''"
  "lower_char CHR ''N'' = CHR ''n''" "lower_char CHR ''O'' = CHR ''o''" "lower_char CHR ''P'' = CHR ''p''"
  "lower_char CHR ''Q'' = CHR ''q''" "lower_char CHR ''R'' = CHR ''r''" "lower_char CHR ''S'' = CHR ''s''"
  "lower_char CHR ''T'' = CHR ''t''" "lower_char CHR ''U'' = CHR ''u''" "lower_char CHR ''V'' = CHR ''v''"
  "lower_char CHR ''W'' = CHR ''w''" "lower_char CHR ''X'' = CHR ''x''" "lower_char CHR ''Y'' = CHR ''y''"
  "lower_char CHR ''Z'' = CHR ''z''" "lower_char CHR ''_'' = CHR ''_''" "lower_char CHR ''.'' = CHR ''.''"
  "lower_char CHR ''-'' = CHR ''-''" "lower_char CHR ''/'' = CHR ''/''" "upper_char CHR ''a'' = CHR ''A''"
  "upper_char CHR ''b'' = CHR ''B''" "upper_char CHR ''c'' = CHR ''C''" "upper_char CHR ''d'' = CHR ''D''"
  "upper_char CHR ''e'' = CHR ''E''" "upper_char CHR ''f'' = CHR ''F''" "upper_char CHR ''g'' = CHR ''G''"
  "upper_char CHR ''h'' = CHR ''H''" "upper_char CHR ''i'' = CHR ''I''" "upper_char CHR ''j'' = CHR ''J''"
  "upper_char CHR ''k'' = CHR ''K''" "upper_char CHR ''l'' = CHR ''L''" "upper_char CHR ''m'' = CHR ''M''"
  "upper_char CHR ''n'' = CHR ''N''" "upper_char CHR ''o'' = CHR ''O''" "upper_char CHR ''p'' = CHR ''P''"
  "upper_char CHR ''q'' = CHR ''Q''" "upper_char CHR ''r'' = CHR ''R''" "upper_char CHR ''s'' = CHR ''S''"
  "upper_char CHR ''t'' = CHR ''T''" "upper_char CHR ''u'' = CHR ''U''" "upper_char CHR ''v'' = CHR ''V''"
  "upper_char CHR ''w'' = CHR ''W''" "upper_char CHR ''x'' = CHR ''X''" "upper_char CHR ''y'' = CHR ''Y''"
  "upper_char CHR ''z'' = CHR ''Z''" "upper_char CHR ''A'' = CHR ''A''" "upper_char CHR ''B'' = CHR ''B''"
  "upper_char CHR ''C'' = CHR ''C''" "upper_char CHR ''D'' = CHR ''D''" "upper_char CHR ''E'' = CHR ''E''"
  "upper_char CHR ''F'' = CHR ''F''" "upper_char CHR ''G'' = CHR ''G''" "upper_char CHR ''H'' = CHR ''H''"
  "upper_char CHR ''I'' = CHR ''I''" "upper_char CHR ''J'' = CHR ''J''" "upper_char CHR ''K'' = CHR ''K''"
  "upper_char CHR ''L'' = CHR ''L''" "upper_char CHR ''M'' = CHR ''M''" "upper_char CHR ''N'' = CHR ''N''"
  "upper_char CHR ''O'' = CHR ''O''" "upper_char CHR ''P'' = CHR ''P''" "upper_char CHR ''Q'' = CHR ''Q''"
  "upper_char CHR ''R'' = CHR ''R''" "upper_char CHR ''S'' = CHR ''S''" "upper_char CHR ''T'' = CHR ''T''"
  "upper_char CHR ''U'' = CHR ''U''" "upper_char CHR ''V'' = CHR ''V''" "upper_char CHR ''W'' = CHR ''W''"
  "upper_char CHR ''X'' = CHR ''X''" "upper_char CHR ''Y'' = CHR ''Y''" "upper_char CHR ''Z'' = CHR ''Z''"
  "upper_char CHR ''_'' = CHR ''_''" "upper_char CHR ''.'' = CHR ''.''" "upper_char CHR ''-'' = CHR ''-''"
  "upper_char CHR ''/'' = CHR ''/''"
  by code_simp+

lemma letter_spaces:
  "\<not> py_space CHR ''a''" "\<not> py_space CHR ''b''" "\<not> py_space CHR ''c''"
  "\<not> py_space CHR ''d''" "\<not> py_space CHR ''e''" "\<not> py_space CHR ''f''"
  "\<not> py_space CHR ''g''" "\<not> py_space CHR ''h''" "\<not> py_space CHR ''i''"
  "\<not> py_space CHR ''j''" "\<not> py_space CHR ''k''" "\<not> py_space CHR ''l''"
  "\<not> py_space CHR ''m''" "\<not> py_space CHR ''n''" "\<not> py_space CHR ''o''"
  "\<not> py_space CHR ''p''" "\<not> py_space CHR ''q''" "\<not> py_space CHR ''r''"
  "\<not> py_space CHR ''s''" "\<not> py_space CHR ''t''" "\<not> py_space CHR ''u''"
  "\<not> py_space CHR ''v''" "\<not> py_space CHR ''w''" "\<not> py_space CHR ''x''"
  "\<not> py_space CHR ''y''" "\<not> py_space CHR ''z''" "\<not> py_space CHR ''A''"
  "\<not> py_space CHR ''B''" "\<not> py_space CHR ''C''" "\<not> py_space CHR ''D''"
  "\<not> py_space CHR ''E''" "\<not> py_space CHR ''F''" "\<not> py_space CHR ''G''"
  "\<not> py_space CHR ''H''" "\<not> py_space CHR ''I''" "\<not> py_space CHR ''J''"
  "\<not> py_space CHR ''K''" "\<not> py_space CHR ''L''" "\<not> py_space CHR ''M''"
  "\<not> py_space CHR ''N''" "\<not> py_space CHR ''O''" "\<not> py_space CHR ''P''"
  "\<not> py_space CHR ''Q''" "\<not> py_space CHR ''R''" "\<not> py_space CHR ''S''"
  "\<not> py_space CHR ''T''" "\<not> py_space CHR ''U''" "\<not> py_space CHR ''V''"
  "\<not> py_space CHR ''W''" "\<not> py_space CHR ''X''" "\<not> py_space CHR ''Y''"
  "\<not> py_space CHR ''Z''" "\<not> py_space CHR ''0''" "\<not> py_space CHR ''1''"
  "\<not> py_space CHR ''2''" "\<not> py_space CHR ''3''" "\<not> py_space CHR ''4''"
  "\<not> py_space CHR ''5''" "\<not> py_space CHR ''6''" "\<not> py_space CHR ''7''"
  "\<not> py_space CHR ''8''" "\<not> py_space CHR ''9''" "\<not> py_space CHR ''_''"
  "\<not> py_space CHR ''.''" "\<not> py_space CHR ''-''" "\<not> py_space CHR ''/''"
  "\<not> py_space CHR '':''"
  by code_simp+

section \<open>Sorted sets of Python values\<close>

text \<open>\<open>tuple(sorted(set(xs)))\<close>\<close>

definition sorted_set :: "'a::linorder list \<Rightarrow> 'a list" where
  "sorted_set xs = sort (remdups xs)"

lemma set_sorted_set [simp]: "set (sorted_set xs) = set xs"
  by (simp add: sorted_set_def)

lemma sorted_sorted_set [simp]: "sorted (sorted_set xs)"
  by (simp add: sorted_set_def)

lemma distinct_sorted_set [simp]: "distinct (sorted_set xs)"
  by (simp add: sorted_set_def)

lemma sorted_set_Nil_iff [simp]: "sorted_set xs = [] \<longleftrightarrow> xs = []"
  by (metis set_empty set_sorted_set)

lemma sorted_set_eqI: "set xs = set ys \<Longrightarrow> sorted_set xs = sorted_set ys"
  by (simp add: sorted_set_def sorted_list_of_set_sort_remdups [symmetric])

lemma sorted_set_id: "sorted xs \<Longrightarrow> distinct xs \<Longrightarrow> sorted_set xs = xs"
  by (simp add: sorted_set_def sorted_sort_id)

end
