(* ===== verification/Enums.thy ===== *)
theory Enums
  imports Prelude
begin

text \<open>
  Every persisted state and classification of the program is a \<open>StrEnum\<close>: a finite type with
  a text value per member, parsed back with \<open>EnumType(text)\<close>.  The locale states what the
  artifact codecs rely on, and each enum of the model is an interpretation of it.
\<close>

definition enum_of :: "'a list \<Rightarrow> ('a \<Rightarrow> string) \<Rightarrow> string \<Rightarrow> 'a option" where
  "enum_of members val s = find (\<lambda>m. val m = s) members"

locale str_enum =
  fixes members :: "'a list"
    and val :: "'a \<Rightarrow> string"
  assumes members_all: "x \<in> set members"
    and val_eq: "val x = val y \<Longrightarrow> x = y"
    and val_nonempty: "val x \<noteq> []"
begin

lemma parse_val [simp]: "enum_of members val (val x) = Some x"
proof -
  obtain y where "enum_of members val (val x) = Some y"
    using members_all [of x] by (fastforce simp: enum_of_def find_None_iff dest: option.exhaust)
  moreover from this have "val y = val x"
    by (auto simp: enum_of_def find_Some_iff)
  ultimately show ?thesis using val_eq by blast
qed

lemma parse_iff: "enum_of members val s = Some x \<longleftrightarrow> s = val x"
  using parse_val by (auto simp: enum_of_def find_Some_iff)

lemma parse_None_iff: "enum_of members val s = None \<longleftrightarrow> s \<notin> range val"
  by (metis not_None_eq parse_iff rangeE rangeI)

end

end
