(* ===== verification/Field_Checks.thy ===== *)
theory Field_Checks
  imports Enums
begin

text \<open>
  The field checks every artifact codec repeats (\<open>_require_dict\<close>, \<open>_require_string\<close>, \<dots>):
  each module has its own copy that raises its own exception class, so the checks are stated
  once over \<open>field_error\<close>, which carries the location text, and each module embeds it in
  its error type.  The lemmas say exactly which values a check accepts.
\<close>


datatype field_error =
    NotObject string
  | NotNonEmptyString string
  | NotStringOrNull string
  | NotBoolean string
  | NotNumber string
  | FloatOverflow
  | NotInteger string
  | NotString string
  | NotMember string
  | NotArray string

fun require_dict :: "json \<Rightarrow> string \<Rightarrow> field_error + (string \<times> json) list" where
  "require_dict (JObj d) loc = Inr d"
| "require_dict _ loc = Inl (NotObject loc)"

fun require_nonempty_string :: "json \<Rightarrow> string \<Rightarrow> field_error + string" where
  "require_nonempty_string (JStr s) loc = (if s = [] then Inl (NotNonEmptyString loc) else Inr s)"
| "require_nonempty_string _ loc = Inl (NotNonEmptyString loc)"

fun optional_string :: "json \<Rightarrow> string \<Rightarrow> field_error + string option" where
  "optional_string JNull loc = Inr None"
| "optional_string (JStr s) loc = Inr (Some s)"
| "optional_string _ loc = Inl (NotStringOrNull loc)"

fun require_bool :: "json \<Rightarrow> string \<Rightarrow> field_error + bool" where
  "require_bool (JBool b) loc = Inr b"
| "require_bool _ loc = Inl (NotBoolean loc)"

text \<open>
  \<open>float(i)\<close> of an integer: exact up to \<open>2 ^ 53\<close>, and an \<open>OverflowError\<close> where the rounded
  value leaves the range of a double.  Between the two the model keeps the exact integer as
  the value; the only caller rejects every integer but 0 and 1.
\<close>

definition float_of_int :: "int \<Rightarrow> field_error + pyfloat" where
  "float_of_int i =
     (if \<bar>i\<bar> \<ge> 2 ^ 1024 - 2 ^ 970 then Inl FloatOverflow
      else Inr (FloatFin (of_int i) (show_int i @ ''.0'')))"

fun require_float :: "json \<Rightarrow> string \<Rightarrow> field_error + pyfloat" where
  "require_float (JInt i) loc = float_of_int i"
| "require_float (JFloat f) loc = Inr f"
| "require_float _ loc = Inl (NotNumber loc)"

fun require_int :: "json \<Rightarrow> string \<Rightarrow> field_error + int" where
  "require_int (JInt i) loc = Inr i"
| "require_int _ loc = Inl (NotInteger loc)"

fun optional_int :: "json \<Rightarrow> string \<Rightarrow> field_error + int option" where
  "optional_int JNull loc = Inr None"
| "optional_int v loc = ebind (require_int v loc) (\<lambda>i. Inr (Some i))"

fun parse_enum :: "'a list \<Rightarrow> ('a \<Rightarrow> string) \<Rightarrow> json \<Rightarrow> string \<Rightarrow> field_error + 'a" where
  "parse_enum members val (JStr s) loc =
     (case enum_of members val s of Some x \<Rightarrow> Inr x | None \<Rightarrow> Inl (NotMember loc))"
| "parse_enum members val _ loc = Inl (NotString loc)"

fun require_list :: "json \<Rightarrow> string \<Rightarrow> field_error + json list" where
  "require_list (JList xs) loc = Inr xs"
| "require_list _ loc = Inl (NotArray loc)"

fun all_strings :: "json list \<Rightarrow> string list option" where
  "all_strings [] = Some []"
| "all_strings (JStr s # xs) = map_option ((#) s) (all_strings xs)"
| "all_strings (_ # xs) = None"

definition opt_json :: "('a \<Rightarrow> json) \<Rightarrow> 'a option \<Rightarrow> json" where
  "opt_json f x = (case x of None \<Rightarrow> JNull | Some y \<Rightarrow> f y)"

text \<open>
  What a path holds for the \<open>load\<close> functions: nothing, something that is not a regular file,
  or a file with its text.  \<open>json.loads\<close> is an argument: \<open>None\<close> is a decode error.
\<close>

datatype file_view = FileMissing | FileOther | FileText string

section \<open>Accepted values\<close>

lemma require_dict_Inr [result_simps]: "require_dict v loc = Inr d \<longleftrightarrow> v = JObj d"
  by (cases v) auto

lemma require_nonempty_string_Inr [result_simps]:
  "require_nonempty_string v loc = Inr s \<longleftrightarrow> v = JStr s \<and> s \<noteq> []"
  by (cases v) auto

lemma optional_string_Inr [result_simps]: "optional_string v loc = Inr s \<longleftrightarrow> v = opt_json JStr s"
  by (cases v; cases s) (auto simp: opt_json_def)

lemma require_bool_Inr [result_simps]: "require_bool v loc = Inr b \<longleftrightarrow> v = JBool b"
  by (cases v) auto

lemma require_int_Inr [result_simps]: "require_int v loc = Inr i \<longleftrightarrow> v = JInt i"
  by (cases v) auto

lemma optional_int_Inr [result_simps]: "optional_int v loc = Inr i \<longleftrightarrow> v = opt_json JInt i"
  by (cases v; cases i) (auto simp: opt_json_def)

lemma require_list_Inr [result_simps]: "require_list v loc = Inr xs \<longleftrightarrow> v = JList xs"
  by (cases v) auto

lemma require_float_JFloat [simp]: "require_float (JFloat f) loc = Inr f"
  by simp

lemma optional_string_opt_json [simp]: "optional_string (opt_json JStr s) loc = Inr s"
  by (simp add: optional_string_Inr)

lemma optional_int_opt_json [simp]: "optional_int (opt_json JInt i) loc = Inr i"
  by (simp add: optional_int_Inr)

lemma all_strings_map [simp]: "all_strings (map JStr ws) = Some ws"
  by (induction ws) auto

lemma all_strings_Some: "all_strings xs = Some ws \<longleftrightarrow> xs = map JStr ws"
  by (induction xs arbitrary: ws rule: all_strings.induct) auto

context str_enum
begin

lemma parse_enum_Inr: "parse_enum members val v loc = Inr x \<longleftrightarrow> v = JStr (val x)"
proof
  assume "v = JStr (val x)"
  then show "parse_enum members val v loc = Inr x" by (simp add: parse_val)
next
  assume "parse_enum members val v loc = Inr x"
  then show "v = JStr (val x)" by (cases v) (auto simp: parse_iff split: option.splits)
qed

end

end
