(* ===== verification/Sha256.thy ===== *)
theory Sha256
  imports Prelude "HOL-Library.Word"
begin

text \<open>
  SHA-256 (FIPS 180-4) as \<open>hashlib.sha256(data).hexdigest()\<close> computes it, on the bytes of an
  ASCII text.  Every identifier and digest of the artifacts is one of these hex strings,
  so the model computes them instead of assuming a hash.
\<close>

unbundle bit_operations_syntax

type_synonym u32 = "32 word"

definition rotr :: "nat \<Rightarrow> u32 \<Rightarrow> u32" where
  "rotr n x = drop_bit n x OR push_bit (32 - n) x"

text \<open>
  The standard's constants are the first 32 bits of the fractional parts of the cube roots of the
  first 64 primes and of the square roots of the first 8.  They are computed: \<open>root_bits n x k r\<close>
  extends \<open>r\<close> by \<open>k\<close> binary digits of the integer \<open>n\<close>-th root of \<open>x\<close>.
\<close>

fun root_bits :: "nat \<Rightarrow> nat \<Rightarrow> nat \<Rightarrow> nat \<Rightarrow> nat" where
  "root_bits n x 0 r = r"
| "root_bits n x (Suc k) r = root_bits n x k (if (r + 2 ^ k) ^ n \<le> x then r + 2 ^ k else r)"

definition root_fraction :: "nat \<Rightarrow> nat \<Rightarrow> u32" where
  "root_fraction n p = of_nat (root_bits n (p * 2 ^ (32 * n)) 40 0)"

definition primes_below :: "nat \<Rightarrow> nat list" where
  "primes_below k = filter (\<lambda>n. list_all (\<lambda>d. n mod d \<noteq> 0) [2..<n]) [2..<k]"

definition sha_K :: "u32 list" where
  "sha_K = map (root_fraction 3) (primes_below 312)"

definition sha_H0 :: "u32 list" where
  "sha_H0 = map (root_fraction 2) (primes_below 20)"

section \<open>Padding\<close>

fun be_bytes :: "nat \<Rightarrow> nat \<Rightarrow> nat list" where
  "be_bytes 0 n = []"
| "be_bytes (Suc k) n = be_bytes k (n div 256) @ [n mod 256]"

definition sha_pad :: "nat list \<Rightarrow> nat list" where
  "sha_pad bs = bs @ [128] @ replicate ((119 - length bs mod 64) mod 64) 0 @ be_bytes 8 (8 * length bs)"

lemma length_be_bytes [simp]: "length (be_bytes k n) = k"
  by (induction k n rule: be_bytes.induct) auto

lemma pad_amount: "64 dvd n + (119 - n mod 64) mod 64 + (9::nat)"
proof -
  define r where "r = n mod 64"
  have n: "n = 64 * (n div 64) + r" and r: "r < 64"
    by (simp_all add: r_def)
  have "(119 - r) mod 64 = (if r \<le> 55 then 55 - r else 119 - r)"
    using r by (simp add: mod_if)
  then have "64 dvd r + (119 - r) mod 64 + 9"
    using r by (cases "r \<le> 55") simp_all
  then have "64 dvd 64 * (n div 64) + (r + (119 - r) mod 64 + 9)"
    by simp
  also have "64 * (n div 64) + (r + (119 - r) mod 64 + 9) = n + (119 - r) mod 64 + 9"
    using n by linarith
  finally show ?thesis by (simp add: r_def)
qed

lemma sha_pad_blocks: "64 dvd length (sha_pad bs)"
  using pad_amount [of "length bs"] by (simp add: sha_pad_def add.commute add.left_commute)

section \<open>Compression\<close>

fun be_words :: "nat list \<Rightarrow> u32 list" where
  "be_words (a # b # c # d # bs) = (push_bit 24 (of_nat a) OR push_bit 16 (of_nat b) OR push_bit 8 (of_nat c) OR of_nat d) # be_words bs"
| "be_words _ = []"

definition small_sigma0 :: "u32 \<Rightarrow> u32" where
  "small_sigma0 x = rotr 7 x XOR rotr 18 x XOR drop_bit 3 x"

definition small_sigma1 :: "u32 \<Rightarrow> u32" where
  "small_sigma1 x = rotr 17 x XOR rotr 19 x XOR drop_bit 10 x"

definition big_sigma0 :: "u32 \<Rightarrow> u32" where
  "big_sigma0 x = rotr 2 x XOR rotr 13 x XOR rotr 22 x"

definition big_sigma1 :: "u32 \<Rightarrow> u32" where
  "big_sigma1 x = rotr 6 x XOR rotr 11 x XOR rotr 25 x"

text \<open>The message schedule, over a window of the last 16 words.\<close>

fun sha_schedule :: "nat \<Rightarrow> u32 list \<Rightarrow> u32 list" where
  "sha_schedule 0 w = w"
| "sha_schedule (Suc n) w =
     hd w # sha_schedule n (tl w @ [small_sigma1 (w ! 14) + w ! 9 + small_sigma0 (w ! 1) + w ! 0])"

fun sha_round :: "u32 list \<Rightarrow> u32 \<times> u32 \<Rightarrow> u32 list" where
  "sha_round [a, b, c, d, e, f, g, h] (k, w) =
     (let t1 = h + big_sigma1 e + ((e AND f) XOR (NOT e AND g)) + k + w;
          t2 = big_sigma0 a + ((a AND b) XOR (a AND c) XOR (b AND c))
      in [t1 + t2, a, b, c, d + t1, e, f, g])"
| "sha_round st _ = st"

definition sha_block :: "u32 list \<Rightarrow> nat list \<Rightarrow> u32 list" where
  "sha_block st bs = map2 (+) st (foldl sha_round st (zip sha_K (sha_schedule 48 (be_words bs))))"

fun sha_blocks :: "nat \<Rightarrow> u32 list \<Rightarrow> nat list \<Rightarrow> u32 list" where
  "sha_blocks 0 st bs = st"
| "sha_blocks (Suc n) st bs = sha_blocks n (sha_block st (take 64 bs)) (drop 64 bs)"

section \<open>The hex digest\<close>

definition hex_char :: "nat \<Rightarrow> char" where
  "hex_char n = (if n < 10 then char_of (48 + n) else char_of (87 + n))"

fun hex_digits :: "nat \<Rightarrow> u32 \<Rightarrow> string" where
  "hex_digits 0 w = []"
| "hex_digits (Suc k) w = hex_digits k (drop_bit 4 w) @ [hex_char (unat (take_bit 4 w))]"

definition sha256_hex :: "string \<Rightarrow> string" where
  "sha256_hex s =
     (let p = sha_pad (map of_char s)
      in concat (map (\<lambda>w. hex_digits 8 w) (sha_blocks (length p div 64) sha_H0 p)))"

text \<open>\<open>re.fullmatch("[0-9a-f]{64}", s)\<close>\<close>

definition lower_hex :: "char \<Rightarrow> bool" where
  "lower_hex c = (ascii_digit c \<or> (97 \<le> (of_char c :: nat) \<and> (of_char c :: nat) \<le> 102))"

definition is_sha256 :: "string \<Rightarrow> bool" where
  "is_sha256 s = (length s = 64 \<and> list_all lower_hex s)"

lemma primes_below_20: "primes_below 20 = [2, 3, 5, 7, 11, 13, 17, 19]"
  by (simp add: primes_below_def upt_rec)

lemma length_sha_round: "length (sha_round st kw) = length st"
  by (cases "(st, kw)" rule: sha_round.cases) (auto simp: Let_def)

lemma length_sha_rounds: "length (foldl sha_round st kws) = length st"
  by (induction kws arbitrary: st) (auto simp: length_sha_round)

lemma length_sha_blocks: "length (sha_blocks n st bs) = length st"
  by (induction n st bs rule: sha_blocks.induct) (auto simp: sha_block_def length_sha_rounds)

lemma length_hex_digits [simp]: "length (hex_digits k w) = k"
  by (induction k w rule: hex_digits.induct) auto

lemma lower_hex_hex_char: "n < 16 \<Longrightarrow> lower_hex (hex_char n)"
  by (auto simp: lower_hex_def hex_char_def ascii_digit_def)

lemma unat_take_bit_4: "unat (take_bit 4 (w :: u32)) < 16"
  using take_bit_nat_less_exp [of 4 "unat w"] by (simp only: unsigned_take_bit_eq) simp

lemma hex_digits_lower: "list_all lower_hex (hex_digits k w)"
  by (induction k w rule: hex_digits.induct) (auto simp: lower_hex_hex_char unat_take_bit_4)

lemma length_sha256_hex [simp]: "length (sha256_hex s) = 64"
proof -
  have "length (concat (map (\<lambda>w. hex_digits 8 w) ws)) = 8 * length ws" for ws :: "u32 list"
    by (induction ws) auto
  then show ?thesis
    by (simp add: sha256_hex_def Let_def length_sha_blocks sha_H0_def primes_below_20)
qed

lemma sha256_hex_valid [simp]: "is_sha256 (sha256_hex s)"
proof -
  have "list_all lower_hex (concat (map (hex_digits 8) ws))" for ws :: "u32 list"
    using hex_digits_lower by (auto simp: list_all_iff)
  then show ?thesis
    by (simp add: is_sha256_def) (simp add: sha256_hex_def Let_def)
qed

end
