(* ===== verification/Requirements.thy ===== *)
theory Requirements
  imports Field_Checks Sha256 "HOL-Library.AList"
begin

text \<open>
  Runtime requirements (\<open>taintforge_env/requirements.py\<close>): the record types, the identifier
  derived from a requirement's key, the report's summary, and the strict JSON codec.  The
  lemmas show that the codec accepts exactly the well-formed reports and returns them unchanged.
\<close>

section \<open>Enumerations\<close>

datatype requirement_kind =
  KFilesystem | KDevice | KNetwork | KLibrary | KSyscall | KExecution

datatype requirement_status = SUnmet | SProvided | SUnknown

datatype blocking_assessment = BLikely | BPossible | BUnlikely | BUnknown

fun kind_value :: "requirement_kind \<Rightarrow> string" where
  "kind_value KFilesystem = ''filesystem''"
| "kind_value KDevice = ''device''"
| "kind_value KNetwork = ''network''"
| "kind_value KLibrary = ''library''"
| "kind_value KSyscall = ''syscall''"
| "kind_value KExecution = ''execution''"

definition all_kinds :: "requirement_kind list" where
  "all_kinds = [KFilesystem, KDevice, KNetwork, KLibrary, KSyscall, KExecution]"

fun status_value :: "requirement_status \<Rightarrow> string" where
  "status_value SUnmet = ''unmet''"
| "status_value SProvided = ''provided''"
| "status_value SUnknown = ''unknown''"

definition all_statuses :: "requirement_status list" where
  "all_statuses = [SUnmet, SProvided, SUnknown]"

fun blocking_value :: "blocking_assessment \<Rightarrow> string" where
  "blocking_value BLikely = ''likely''"
| "blocking_value BPossible = ''possible''"
| "blocking_value BUnlikely = ''unlikely''"
| "blocking_value BUnknown = ''unknown''"

definition all_blockings :: "blocking_assessment list" where
  "all_blockings = [BLikely, BPossible, BUnlikely, BUnknown]"

interpretation kind_enum: str_enum all_kinds kind_value
proof unfold_locales
  show "x \<in> set all_kinds" for x by (cases x) (auto simp: all_kinds_def)
  show "kind_value x = kind_value y \<Longrightarrow> x = y" for x y by (cases x; cases y) auto
  show "kind_value x \<noteq> []" for x by (cases x) auto
qed

interpretation status_enum: str_enum all_statuses status_value
proof unfold_locales
  show "x \<in> set all_statuses" for x by (cases x) (auto simp: all_statuses_def)
  show "status_value x = status_value y \<Longrightarrow> x = y" for x y by (cases x; cases y) auto
  show "status_value x \<noteq> []" for x by (cases x) auto
qed

interpretation blocking_enum: str_enum all_blockings blocking_value
proof unfold_locales
  show "x \<in> set all_blockings" for x by (cases x) (auto simp: all_blockings_def)
  show "blocking_value x = blocking_value y \<Longrightarrow> x = y" for x y by (cases x; cases y) auto
  show "blocking_value x \<noteq> []" for x by (cases x) auto
qed

section \<open>Records\<close>

record req_evidence =
  ev_source :: string
  ev_summary :: string
  ev_raw :: "string option"
  ev_event_index :: "int option"

record runtime_requirement =
  rq_id :: string
  rq_kind :: requirement_kind
  rq_resource :: string
  rq_operation :: string
  rq_status :: requirement_status
  rq_blocking :: blocking_assessment
  rq_confidence :: pyfloat
  rq_repairable :: bool
  rq_errno :: "string option"
  rq_evidence :: "req_evidence list"
  rq_details :: "(string \<times> string) list"

record requirement_report =
  rr_requirements :: "runtime_requirement list"
  rr_warnings :: "string list"
  rr_schema_version :: int
  rr_generated_at :: string

definition requirement_key :: "runtime_requirement \<Rightarrow> string \<times> string \<times> string" where
  "requirement_key r = (kind_value (rq_kind r), rq_operation r, rq_resource r)"

definition requirement_canonical :: "requirement_kind \<Rightarrow> string \<Rightarrow> string \<Rightarrow> string" where
  "requirement_canonical k op res = kind_value k @ [CHR 0x00] @ op @ [CHR 0x00] @ res"

definition make_requirement_id :: "requirement_kind \<Rightarrow> string \<Rightarrow> string \<Rightarrow> string" where
  "make_requirement_id k op res =
     ''req_'' @ take 16 (sha256_hex (requirement_canonical k op res))"

section \<open>Errors and field checks\<close>

datatype req_error =
    ReqField field_error
  | ReqConfidenceRange string
  | ReqDetailKey string
  | ReqDetailNotScalar string string
  | ReqIdMismatch string string string
  | ReqUnsupportedSchema int
  | ReqDuplicateKeys
  | ReqWarningsNotStrings
  | ReqFileMissing
  | ReqNotFile
  | ReqInvalidJson

definition req_dict :: "json \<Rightarrow> string \<Rightarrow> req_error + (string \<times> json) list" where
  "req_dict v loc = err_map ReqField (require_dict v loc)"

definition req_nonempty :: "json \<Rightarrow> string \<Rightarrow> req_error + string" where
  "req_nonempty v loc = err_map ReqField (require_nonempty_string v loc)"

definition req_opt_string :: "json \<Rightarrow> string \<Rightarrow> req_error + string option" where
  "req_opt_string v loc = err_map ReqField (optional_string v loc)"

definition req_bool :: "json \<Rightarrow> string \<Rightarrow> req_error + bool" where
  "req_bool v loc = err_map ReqField (require_bool v loc)"

definition req_float :: "json \<Rightarrow> string \<Rightarrow> req_error + pyfloat" where
  "req_float v loc = err_map ReqField (require_float v loc)"

definition req_int :: "json \<Rightarrow> string \<Rightarrow> req_error + int" where
  "req_int v loc = err_map ReqField (require_int v loc)"

definition req_opt_int :: "json \<Rightarrow> string \<Rightarrow> req_error + int option" where
  "req_opt_int v loc = err_map ReqField (optional_int v loc)"

definition req_enum :: "'a list \<Rightarrow> ('a \<Rightarrow> string) \<Rightarrow> json \<Rightarrow> string \<Rightarrow> req_error + 'a" where
  "req_enum members val v loc = err_map ReqField (parse_enum members val v loc)"

definition req_list :: "json \<Rightarrow> string \<Rightarrow> req_error + json list" where
  "req_list v loc = err_map ReqField (require_list v loc)"

lemmas req_field_defs =
  req_dict_def req_nonempty_def req_opt_string_def req_bool_def req_float_def req_int_def
  req_opt_int_def req_enum_def req_list_def

section \<open>The codec\<close>

definition evidence_to_dict :: "req_evidence \<Rightarrow> json" where
  "evidence_to_dict e = JObj
     [(''source'', JStr (ev_source e)),
      (''summary'', JStr (ev_summary e)),
      (''raw'', opt_json JStr (ev_raw e)),
      (''event_index'', opt_json JInt (ev_event_index e))]"

definition evidence_from_dict :: "string \<Rightarrow> json \<Rightarrow> req_error + req_evidence" where
  "evidence_from_dict loc raw =
     ebind (req_dict raw loc) (\<lambda>value.
     ebind (req_nonempty (jget value ''source'') (loc @ ''.source'')) (\<lambda>source.
     ebind (req_nonempty (jget value ''summary'') (loc @ ''.summary'')) (\<lambda>summary.
     ebind (req_opt_string (jget value ''raw'') (loc @ ''.raw'')) (\<lambda>raw_text.
     ebind (req_opt_int (jget value ''event_index'') (loc @ ''.event_index'')) (\<lambda>event_index.
     Inr \<lparr>ev_source = source, ev_summary = summary, ev_raw = raw_text,
          ev_event_index = event_index\<rparr>)))))"

definition requirement_to_dict :: "runtime_requirement \<Rightarrow> json" where
  "requirement_to_dict r = JObj
     [(''requirement_id'', JStr (rq_id r)),
      (''kind'', JStr (kind_value (rq_kind r))),
      (''resource'', JStr (rq_resource r)),
      (''operation'', JStr (rq_operation r)),
      (''status'', JStr (status_value (rq_status r))),
      (''blocking'', JStr (blocking_value (rq_blocking r))),
      (''confidence'', JFloat (rq_confidence r)),
      (''repairable'', JBool (rq_repairable r)),
      (''errno'', opt_json JStr (rq_errno r)),
      (''evidence'', JList (map evidence_to_dict (rq_evidence r))),
      (''details'', JObj (map (\<lambda>(k, v). (k, JStr v)) (rq_details r)))]"

text \<open>One entry of \<open>details\<close>: a non-empty key and a scalar, rendered as text.\<close>

fun render_detail :: "string \<Rightarrow> string \<times> json \<Rightarrow> req_error + (string \<times> string)" where
  "render_detail loc (key, v) =
     (if key = [] then Inl (ReqDetailKey (loc @ ''.details''))
      else (case v of
          JBool b \<Rightarrow> Inr (key, if b then ''true'' else ''false'')
        | JNull \<Rightarrow> Inr (key, ''null'')
        | JStr s \<Rightarrow> Inr (key, s)
        | JInt i \<Rightarrow> Inr (key, show_int i)
        | JFloat f \<Rightarrow> Inr (key, float_repr f)
        | _ \<Rightarrow> Inl (ReqDetailNotScalar loc key)))"

definition requirement_from_dict :: "string \<Rightarrow> json \<Rightarrow> req_error + runtime_requirement" where
  "requirement_from_dict loc raw =
     ebind (req_dict raw loc) (\<lambda>value.
     ebind (req_nonempty (jget value ''requirement_id'') (loc @ ''.requirement_id'')) (\<lambda>rid.
     ebind (req_nonempty (jget value ''resource'') (loc @ ''.resource'')) (\<lambda>res.
     ebind (req_nonempty (jget value ''operation'') (loc @ ''.operation'')) (\<lambda>op.
     ebind (req_enum all_kinds kind_value (jget value ''kind'') (loc @ ''.kind'')) (\<lambda>kind.
     ebind (req_enum all_statuses status_value (jget value ''status'') (loc @ ''.status'')) (\<lambda>status.
     ebind (req_enum all_blockings blocking_value (jget value ''blocking'') (loc @ ''.blocking'')) (\<lambda>blocking.
     ebind (req_float (jget value ''confidence'') (loc @ ''.confidence'')) (\<lambda>confidence.
     ebind (guard (float_le float_0 confidence \<and> float_le confidence float_1)
              (ReqConfidenceRange (loc @ ''.confidence''))) (\<lambda>_.
     ebind (req_bool (jget value ''repairable'') (loc @ ''.repairable'')) (\<lambda>repairable.
     ebind (req_opt_string (jget value ''errno'') (loc @ ''.errno'')) (\<lambda>errno.
     ebind (req_list (jget_or value ''evidence'' (JList [])) (loc @ ''.evidence'')) (\<lambda>evidence_raw.
     ebind (emap_enum (\<lambda>i. evidence_from_dict (at_index (loc @ ''.evidence'') i)) evidence_raw) (\<lambda>evidence.
     ebind (req_dict (jget_or value ''details'' (JObj [])) (loc @ ''.details'')) (\<lambda>details_dict.
     ebind (emap (render_detail loc) (sort_key fst details_dict)) (\<lambda>details.
     ebind (guard (rid = make_requirement_id kind op res)
              (ReqIdMismatch loc (make_requirement_id kind op res) rid)) (\<lambda>_.
     Inr \<lparr>rq_id = rid, rq_kind = kind, rq_resource = res, rq_operation = op,
          rq_status = status, rq_blocking = blocking, rq_confidence = confidence,
          rq_repairable = repairable, rq_errno = errno, rq_evidence = evidence,
          rq_details = details\<rparr>))))))))))))))))"

text \<open>
  \<open>summary\<close>: each loop is \<open>by[k] = by.get(k, 0) + 1\<close>, and the result \<open>dict(sorted(by.items()))\<close>.
\<close>

definition count_step :: "(string \<times> nat) list \<Rightarrow> string \<Rightarrow> (string \<times> nat) list" where
  "count_step by k = AList.update k (Suc (case map_of by k of None \<Rightarrow> 0 | Some n \<Rightarrow> n)) by"

definition count_by :: "('a \<Rightarrow> string) \<Rightarrow> 'a list \<Rightarrow> (string \<times> nat) list" where
  "count_by f xs = sort_key fst (foldl count_step [] (map f xs))"

definition counts_json :: "(string \<times> nat) list \<Rightarrow> json" where
  "counts_json by = JObj (map (\<lambda>(k, n). (k, JInt (int n))) by)"

definition report_summary :: "requirement_report \<Rightarrow> json" where
  "report_summary rep = (let rs = rr_requirements rep in JObj
     [(''requirements_total'', JInt (int (length rs))),
      (''repairable_total'', JInt (int (length (filter rq_repairable rs)))),
      (''by_kind'', counts_json (count_by (\<lambda>r. kind_value (rq_kind r)) rs)),
      (''by_status'', counts_json (count_by (\<lambda>r. status_value (rq_status r)) rs)),
      (''by_blocking'', counts_json (count_by (\<lambda>r. blocking_value (rq_blocking r)) rs))])"

definition report_to_dict :: "requirement_report \<Rightarrow> json" where
  "report_to_dict rep = JObj
     [(''schema_version'', JInt (rr_schema_version rep)),
      (''generated_at_utc'', JStr (rr_generated_at rep)),
      (''summary'', report_summary rep),
      (''warnings'', JList (map JStr (rr_warnings rep))),
      (''requirements'', JList (map requirement_to_dict (rr_requirements rep)))]"

definition report_from_dict :: "json \<Rightarrow> req_error + requirement_report" where
  "report_from_dict raw =
     ebind (req_dict raw ''requirements report'') (\<lambda>value.
     ebind (req_int (jget value ''schema_version'') ''requirements report.schema_version'') (\<lambda>schema.
     ebind (guard (schema = 1) (ReqUnsupportedSchema schema)) (\<lambda>_.
     ebind (req_list (jget value ''requirements'') ''requirements report.requirements'') (\<lambda>requirements_raw.
     ebind (emap_enum (\<lambda>i. requirement_from_dict (at_index ''requirements report.requirements'' i))
              requirements_raw) (\<lambda>requirements.
     ebind (guard (distinct (map requirement_key requirements)) ReqDuplicateKeys) (\<lambda>_.
     ebind (case jget_or value ''warnings'' (JList []) of
              JList xs \<Rightarrow> (case all_strings xs of Some ws \<Rightarrow> Inr ws | None \<Rightarrow> Inl ReqWarningsNotStrings)
            | _ \<Rightarrow> Inl ReqWarningsNotStrings) (\<lambda>warnings.
     ebind (req_nonempty (jget value ''generated_at_utc'') ''requirements report.generated_at_utc'')
       (\<lambda>generated_at.
     Inr \<lparr>rr_requirements = requirements, rr_warnings = warnings,
          rr_schema_version = schema, rr_generated_at = generated_at\<rparr>))))))))"

definition report_load ::
    "(string \<Rightarrow> json option) \<Rightarrow> file_view \<Rightarrow> req_error + requirement_report" where
  "report_load loads f =
     (case f of
        FileMissing \<Rightarrow> Inl ReqFileMissing
      | FileOther \<Rightarrow> Inl ReqNotFile
      | FileText t \<Rightarrow>
          (case loads t of None \<Rightarrow> Inl ReqInvalidJson | Some raw \<Rightarrow> report_from_dict raw))"

section \<open>Well-formed values\<close>

definition wf_evidence :: "req_evidence \<Rightarrow> bool" where
  "wf_evidence e \<longleftrightarrow> ev_source e \<noteq> [] \<and> ev_summary e \<noteq> []"

definition wf_requirement :: "runtime_requirement \<Rightarrow> bool" where
  "wf_requirement r \<longleftrightarrow>
     rq_id r = make_requirement_id (rq_kind r) (rq_operation r) (rq_resource r) \<and>
     rq_resource r \<noteq> [] \<and> rq_operation r \<noteq> [] \<and>
     float_le float_0 (rq_confidence r) \<and> float_le (rq_confidence r) float_1 \<and>
     list_all wf_evidence (rq_evidence r) \<and>
     sorted (map fst (rq_details r)) \<and> distinct (map fst (rq_details r)) \<and>
     [] \<notin> fst ` set (rq_details r)"

definition wf_report :: "requirement_report \<Rightarrow> bool" where
  "wf_report rep \<longleftrightarrow>
     rr_schema_version rep = 1 \<and> rr_generated_at rep \<noteq> [] \<and>
     list_all wf_requirement (rr_requirements rep) \<and>
     distinct (map requirement_key (rr_requirements rep))"

section \<open>Correctness of the codec\<close>

lemmas req_field_Inr =
  kind_enum.parse_enum_Inr status_enum.parse_enum_Inr blocking_enum.parse_enum_Inr
  req_field_defs result_simps

lemma evidence_roundtrip: "wf_evidence e \<Longrightarrow> evidence_from_dict loc (evidence_to_dict e) = Inr e"
  by (simp add: evidence_from_dict_def evidence_to_dict_def wf_evidence_def req_field_defs)

lemma evidence_accepts: "evidence_from_dict loc raw = Inr e \<Longrightarrow> wf_evidence e"
  by (auto simp: evidence_from_dict_def wf_evidence_def req_field_Inr)

lemma render_detail_key: "emap (render_detail loc) d = Inr d' \<Longrightarrow> map fst d' = map fst d \<and> [] \<notin> fst ` set d"
  by (induction d arbitrary: d') (auto simp: ebind_Inr_iff split: json.splits if_splits)

lemma render_details_strings:
  "[] \<notin> fst ` set d \<Longrightarrow> emap (render_detail loc) (map (\<lambda>(k, v). (k, JStr v)) d) = Inr d"
  by (induction d) auto

lemma sort_key_sorted: "sorted (map f xs) \<Longrightarrow> sort_key f xs = xs"
  by (simp add: sort_key_id_if_sorted)

lemma requirement_roundtrip:
  assumes "wf_requirement r"
  shows "requirement_from_dict loc (requirement_to_dict r) = Inr r"
proof -
  let ?d = "map (\<lambda>(k, v). (k, JStr v)) (rq_details r)"
  have fsts: "map fst ?d = map fst (rq_details r)" by auto
  have srt: "sort_key fst ?d = ?d"
    using assms by (intro sort_key_sorted) (simp only: fsts wf_requirement_def)
  have ev: "emap_enum (\<lambda>i. evidence_from_dict (at_index l i)) (map evidence_to_dict (rq_evidence r))
      = Inr (rq_evidence r)" for l
    using assms by (intro emap_enum_decode evidence_roundtrip) (auto simp: wf_requirement_def list_all_iff)
  have nonempty: "make_requirement_id k op res \<noteq> []" for k op res
    by (simp add: make_requirement_id_def)
  show ?thesis
    using assms
    by (simp add: requirement_from_dict_def requirement_to_dict_def req_field_defs wf_requirement_def
        nonempty ev srt render_details_strings)
qed

lemma requirement_accepts:
  assumes "requirement_from_dict loc raw = Inr r" and "json_wf raw"
  shows "wf_requirement r"
proof -
  from assms(1) obtain obj d evs where raw: "raw = JObj obj"
    and det: "jget_or obj ''details'' (JObj []) = JObj d"
    and ren: "emap (render_detail loc) (sort_key fst d) = Inr (rq_details r)"
    and evs: "emap_enum (\<lambda>i. evidence_from_dict (at_index (loc @ ''.evidence'') i)) evs = Inr (rq_evidence r)"
    and rest: "rq_id r = make_requirement_id (rq_kind r) (rq_operation r) (rq_resource r)"
      "rq_resource r \<noteq> []" "rq_operation r \<noteq> []"
      "float_le float_0 (rq_confidence r)" "float_le (rq_confidence r) float_1"
    by (auto simp: requirement_from_dict_def req_field_Inr)
  have "distinct (map fst d)"
    using json_wf_jget_or [of obj "JObj []" "''details''"] assms(2) by (simp add: raw det)
  then have "distinct (map fst (sort_key fst d))" "sorted (map fst (sort_key fst d))"
    by (simp_all add: distinct_map)
  with render_detail_key [OF ren] have "sorted (map fst (rq_details r))"
      "distinct (map fst (rq_details r))" "[] \<notin> set (map fst (rq_details r))"
    by simp_all
  moreover have "list_all wf_evidence (rq_evidence r)"
    unfolding list_all_iff using emap_enum_set [OF evs] evidence_accepts by blast
  ultimately show ?thesis
    using rest by (simp add: wf_requirement_def)
qed

lemma report_roundtrip:
  assumes "wf_report rep"
  shows "report_from_dict (report_to_dict rep) = Inr rep"
proof -
  have "emap_enum (\<lambda>i. requirement_from_dict (at_index l i)) (map requirement_to_dict (rr_requirements rep))
      = Inr (rr_requirements rep)" for l
    using assms by (intro emap_enum_decode requirement_roundtrip) (auto simp: wf_report_def list_all_iff)
  then show ?thesis
    using assms by (simp add: report_from_dict_def report_to_dict_def req_field_defs wf_report_def)
qed

lemma report_accepts:
  assumes "report_from_dict raw = Inr rep" and "json_wf raw"
  shows "wf_report rep"
proof -
  from assms(1) obtain obj xs where raw: "raw = JObj obj"
    and xs: "jget obj ''requirements'' = JList xs"
    and rs: "emap_enum (\<lambda>i. requirement_from_dict (at_index ''requirements report.requirements'' i)) xs
             = Inr (rr_requirements rep)"
    by (auto simp: report_from_dict_def req_field_Inr)
  have "list_all json_wf xs"
    using json_wf_jget_or [of obj JNull "''requirements''"] assms(2) by (simp add: raw xs)
  then have "list_all wf_requirement (rr_requirements rep)"
    using emap_enum_set [OF rs] requirement_accepts
    unfolding list_all_iff by (metis nth_mem)
  with assms(1) show ?thesis
    by (auto simp: report_from_dict_def req_field_Inr wf_report_def)
qed

section \<open>Counts and identifiers\<close>

lemma map_of_sort_key: "distinct (map fst xs) \<Longrightarrow> map_of (sort_key fst xs) k = map_of xs k"
  by (rule map_of_eqI [THEN fun_cong]) (auto simp: distinct_map)

lemma count_steps:
  "distinct (map fst (foldl count_step [] ks)) \<and>
   map_of (foldl count_step [] ks) k = (if k \<in> set ks then Some (count_list ks k) else None)"
proof (induction ks arbitrary: k rule: rev_induct)
  case Nil
  then show ?case by simp
next
  case (snoc a ks)
  then show ?case
    by (auto simp: count_step_def update_conv' count_notin intro: distinct_update)
qed

lemma count_by_lookup:
  "map_of (count_by f xs) k = (if k \<in> f ` set xs then Some (count_list (map f xs) k) else None)"
  using count_steps [of "map f xs" k] by (simp add: count_by_def map_of_sort_key)

lemma count_by_keys: "sorted (map fst (count_by f xs)) \<and> distinct (map fst (count_by f xs))"
  using count_steps [of "map f xs"] by (auto simp: count_by_def distinct_map)

text \<open>The hashed text determines the key as long as the operation holds no NUL.\<close>

lemma requirement_canonical_inj:
  assumes "requirement_canonical k op res = requirement_canonical k' op' res'"
    and "CHR 0x00 \<notin> set op" "CHR 0x00 \<notin> set op'"
  shows "k = k' \<and> op = op' \<and> res = res'"
proof -
  have nul: "CHR 0x00 \<notin> set (kind_value j)" for j by (cases j) auto
  from assms(1) have "kind_value k = kind_value k' \<and> op @ CHR 0x00 # res = op' @ CHR 0x00 # res'"
    by (intro cut_at_first [where c = "CHR 0x00"]) (simp_all add: requirement_canonical_def nul)
  with cut_at_first [OF _ assms(2,3)] kind_enum.val_eq show ?thesis by blast
qed

end
