(* ===== verification/Repair_Plan.thy ===== *)
theory Repair_Plan
  imports Requirements
begin

text \<open>
  The persisted repair plan (\<open>taintforge_env/repair_plan.py\<close>): decisions with their action,
  disposition, priority and risk, the identifier of a decision, the summary and the codec.
  The lemmas show that a loaded plan satisfies the authorization rules of its decisions and
  that the codec returns well-formed plans unchanged.
\<close>

section \<open>Enumerations\<close>

datatype repair_disposition = AutoCandidate | ReviewRequired | ManualAnalysis | NotRequired

datatype repair_priority = PCritical | PHigh | PNormal | PLow

datatype repair_risk = RiskLow | RiskMedium | RiskHigh

datatype repair_action =
    ActNone | CreateDirectory | ProvideFile | AdjustPathAccess | MakePathWritable
  | RepairPathLayout | ProvideDeviceBackend | ConfigureTcpService | ConfigureUdpService
  | ResolveLibrary | ProvideInterpreter | ProvideExecutable

fun disposition_value :: "repair_disposition \<Rightarrow> string" where
  "disposition_value AutoCandidate = ''auto_candidate''"
| "disposition_value ReviewRequired = ''review_required''"
| "disposition_value ManualAnalysis = ''manual_analysis''"
| "disposition_value NotRequired = ''not_required''"

definition all_dispositions :: "repair_disposition list" where
  "all_dispositions = [AutoCandidate, ReviewRequired, ManualAnalysis, NotRequired]"

fun priority_value :: "repair_priority \<Rightarrow> string" where
  "priority_value PCritical = ''critical''"
| "priority_value PHigh = ''high''"
| "priority_value PNormal = ''normal''"
| "priority_value PLow = ''low''"

definition all_priorities :: "repair_priority list" where
  "all_priorities = [PCritical, PHigh, PNormal, PLow]"

fun risk_value :: "repair_risk \<Rightarrow> string" where
  "risk_value RiskLow = ''low''"
| "risk_value RiskMedium = ''medium''"
| "risk_value RiskHigh = ''high''"

definition all_risks :: "repair_risk list" where
  "all_risks = [RiskLow, RiskMedium, RiskHigh]"

fun action_value :: "repair_action \<Rightarrow> string" where
  "action_value ActNone = ''none''"
| "action_value CreateDirectory = ''create_directory''"
| "action_value ProvideFile = ''provide_file''"
| "action_value AdjustPathAccess = ''adjust_path_access''"
| "action_value MakePathWritable = ''make_path_writable''"
| "action_value RepairPathLayout = ''repair_path_layout''"
| "action_value ProvideDeviceBackend = ''provide_device_backend''"
| "action_value ConfigureTcpService = ''configure_tcp_service''"
| "action_value ConfigureUdpService = ''configure_udp_service''"
| "action_value ResolveLibrary = ''resolve_library''"
| "action_value ProvideInterpreter = ''provide_interpreter''"
| "action_value ProvideExecutable = ''provide_executable''"

definition all_actions :: "repair_action list" where
  "all_actions =
    [ActNone, CreateDirectory, ProvideFile, AdjustPathAccess, MakePathWritable,
     RepairPathLayout, ProvideDeviceBackend, ConfigureTcpService, ConfigureUdpService,
     ResolveLibrary, ProvideInterpreter, ProvideExecutable]"

interpretation disposition_enum: str_enum all_dispositions disposition_value
proof unfold_locales
  show "x \<in> set all_dispositions" for x by (cases x) (auto simp: all_dispositions_def)
  show "disposition_value x = disposition_value y \<Longrightarrow> x = y" for x y by (cases x; cases y) auto
  show "disposition_value x \<noteq> []" for x by (cases x) auto
qed

interpretation priority_enum: str_enum all_priorities priority_value
proof unfold_locales
  show "x \<in> set all_priorities" for x by (cases x) (auto simp: all_priorities_def)
  show "priority_value x = priority_value y \<Longrightarrow> x = y" for x y by (cases x; cases y) auto
  show "priority_value x \<noteq> []" for x by (cases x) auto
qed

interpretation risk_enum: str_enum all_risks risk_value
proof unfold_locales
  show "x \<in> set all_risks" for x by (cases x) (auto simp: all_risks_def)
  show "risk_value x = risk_value y \<Longrightarrow> x = y" for x y by (cases x; cases y) auto
  show "risk_value x \<noteq> []" for x by (cases x) auto
qed

interpretation action_enum: str_enum all_actions action_value
proof unfold_locales
  show "x \<in> set all_actions" for x by (cases x) (auto simp: all_actions_def)
  show "action_value x = action_value y \<Longrightarrow> x = y" for x y by (cases x; cases y) auto
  show "action_value x \<noteq> []" for x by (cases x) auto
qed

section \<open>Records\<close>

record repair_decision =
  rd_id :: string
  rd_requirement_id :: string
  rd_requirement_kind :: string
  rd_resource :: string
  rd_operation :: string
  rd_action :: repair_action
  rd_disposition :: repair_disposition
  rd_priority :: repair_priority
  rd_risk :: repair_risk
  rd_automatic :: bool
  rd_reason :: string
  rd_parameters :: "(string \<times> json) list"

record repair_plan =
  rp_source_requirements :: string
  rp_source_sha256 :: string
  rp_decisions :: "repair_decision list"
  rp_warnings :: "string list"
  rp_schema_version :: int
  rp_planner_version :: int
  rp_generated_at :: string

definition make_decision_id ::
    "string \<Rightarrow> repair_action \<Rightarrow> repair_disposition \<Rightarrow> string \<Rightarrow> string" where
  "make_decision_id requirement_id act disp res =
     ''repair_'' @ take 16 (sha256_hex
       (requirement_id @ [CHR 0x00] @ action_value act @ [CHR 0x00] @
        disposition_value disp @ [CHR 0x00] @ res))"

section \<open>Errors and field checks\<close>

datatype plan_error =
    PlanField field_error
  | PlanParameterKey string
  | PlanParameterValue string string
  | PlanAutomaticDisposition string
  | PlanAutomaticNone string
  | PlanIdMismatch string string string
  | PlanUnsupportedSchema int
  | PlanUnsupportedPlanner int
  | PlanBadSha256
  | PlanDuplicateDecisionIds
  | PlanDuplicateRequirementIds
  | PlanWarningsNotStrings
  | PlanFileMissing
  | PlanNotFile
  | PlanInvalidJson

definition plan_dict :: "json \<Rightarrow> string \<Rightarrow> plan_error + (string \<times> json) list" where
  "plan_dict v loc = err_map PlanField (require_dict v loc)"

definition plan_nonempty :: "json \<Rightarrow> string \<Rightarrow> plan_error + string" where
  "plan_nonempty v loc = err_map PlanField (require_nonempty_string v loc)"

definition plan_bool :: "json \<Rightarrow> string \<Rightarrow> plan_error + bool" where
  "plan_bool v loc = err_map PlanField (require_bool v loc)"

definition plan_int :: "json \<Rightarrow> string \<Rightarrow> plan_error + int" where
  "plan_int v loc = err_map PlanField (require_int v loc)"

definition plan_enum :: "'a list \<Rightarrow> ('a \<Rightarrow> string) \<Rightarrow> json \<Rightarrow> string \<Rightarrow> plan_error + 'a" where
  "plan_enum members val v loc = err_map PlanField (parse_enum members val v loc)"

definition plan_list :: "json \<Rightarrow> string \<Rightarrow> plan_error + json list" where
  "plan_list v loc = err_map PlanField (require_list v loc)"

lemmas plan_field_defs =
  plan_dict_def plan_nonempty_def plan_bool_def plan_int_def plan_enum_def plan_list_def

text \<open>\<open>_validate_json_value\<close>: every value \<open>json.loads\<close> can return passes.\<close>

fun validate_json_value :: "json \<Rightarrow> bool" where
  "validate_json_value (JList xs) = list_all validate_json_value xs"
| "validate_json_value (JObj d) = list_all (\<lambda>(k, v). validate_json_value v) d"
| "validate_json_value _ = True"

section \<open>The codec\<close>

definition decision_to_dict :: "repair_decision \<Rightarrow> json" where
  "decision_to_dict d = JObj
     [(''decision_id'', JStr (rd_id d)),
      (''requirement_id'', JStr (rd_requirement_id d)),
      (''requirement_kind'', JStr (rd_requirement_kind d)),
      (''resource'', JStr (rd_resource d)),
      (''operation'', JStr (rd_operation d)),
      (''action'', JStr (action_value (rd_action d))),
      (''disposition'', JStr (disposition_value (rd_disposition d))),
      (''priority'', JStr (priority_value (rd_priority d))),
      (''risk'', JStr (risk_value (rd_risk d))),
      (''automatic_allowed'', JBool (rd_automatic d)),
      (''reason'', JStr (rd_reason d)),
      (''parameters'', JObj (rd_parameters d))]"

fun check_parameter :: "string \<Rightarrow> string \<times> json \<Rightarrow> plan_error + (string \<times> json)" where
  "check_parameter loc (key, v) =
     (if key = [] then Inl (PlanParameterKey (loc @ ''.parameters''))
      else if \<not> validate_json_value v then Inl (PlanParameterValue loc key)
      else Inr (key, v))"

definition decision_from_dict :: "string \<Rightarrow> json \<Rightarrow> plan_error + repair_decision" where
  "decision_from_dict loc raw =
     ebind (plan_dict raw loc) (\<lambda>obj.
     ebind (plan_nonempty (jget obj ''decision_id'') (loc @ ''.decision_id'')) (\<lambda>did.
     ebind (plan_nonempty (jget obj ''requirement_id'') (loc @ ''.requirement_id'')) (\<lambda>rid.
     ebind (plan_nonempty (jget obj ''requirement_kind'') (loc @ ''.requirement_kind'')) (\<lambda>kind.
     ebind (plan_nonempty (jget obj ''resource'') (loc @ ''.resource'')) (\<lambda>res.
     ebind (plan_nonempty (jget obj ''operation'') (loc @ ''.operation'')) (\<lambda>op.
     ebind (plan_enum all_actions action_value (jget obj ''action'') (loc @ ''.action'')) (\<lambda>act.
     ebind (plan_enum all_dispositions disposition_value (jget obj ''disposition'')
              (loc @ ''.disposition'')) (\<lambda>disp.
     ebind (plan_enum all_priorities priority_value (jget obj ''priority'') (loc @ ''.priority'')) (\<lambda>prio.
     ebind (plan_enum all_risks risk_value (jget obj ''risk'') (loc @ ''.risk'')) (\<lambda>risk.
     ebind (plan_bool (jget obj ''automatic_allowed'') (loc @ ''.automatic_allowed'')) (\<lambda>auto.
     ebind (plan_nonempty (jget obj ''reason'') (loc @ ''.reason'')) (\<lambda>reason.
     ebind (plan_dict (jget_or obj ''parameters'' (JObj [])) (loc @ ''.parameters'')) (\<lambda>parameters_raw.
     ebind (emap (check_parameter loc) (sort_key fst parameters_raw)) (\<lambda>parameters.
     ebind (guard (\<not> (auto \<and> disp \<noteq> AutoCandidate)) (PlanAutomaticDisposition loc)) (\<lambda>_.
     ebind (guard (\<not> (auto \<and> act = ActNone)) (PlanAutomaticNone loc)) (\<lambda>_.
     ebind (guard (did = make_decision_id rid act disp res)
              (PlanIdMismatch loc (make_decision_id rid act disp res) did)) (\<lambda>_.
     Inr \<lparr>rd_id = did, rd_requirement_id = rid, rd_requirement_kind = kind, rd_resource = res,
          rd_operation = op, rd_action = act, rd_disposition = disp, rd_priority = prio,
          rd_risk = risk, rd_automatic = auto, rd_reason = reason,
          rd_parameters = parameters\<rparr>)))))))))))))))))"

definition plan_summary :: "repair_plan \<Rightarrow> json" where
  "plan_summary p = (let ds = rp_decisions p in JObj
     [(''decisions_total'', JInt (int (length ds))),
      (''automatic_candidates'', JInt (int (length (filter rd_automatic ds)))),
      (''by_disposition'', counts_json (count_by (\<lambda>d. disposition_value (rd_disposition d)) ds)),
      (''by_action'', counts_json (count_by (\<lambda>d. action_value (rd_action d)) ds)),
      (''by_priority'', counts_json (count_by (\<lambda>d. priority_value (rd_priority d)) ds))])"

definition plan_to_dict :: "repair_plan \<Rightarrow> json" where
  "plan_to_dict p = JObj
     [(''schema_version'', JInt (rp_schema_version p)),
      (''planner_version'', JInt (rp_planner_version p)),
      (''generated_at_utc'', JStr (rp_generated_at p)),
      (''source_requirements'', JStr (rp_source_requirements p)),
      (''source_sha256'', JStr (rp_source_sha256 p)),
      (''summary'', plan_summary p),
      (''warnings'', JList (map JStr (rp_warnings p))),
      (''decisions'', JList (map decision_to_dict (rp_decisions p)))]"

definition plan_from_dict :: "json \<Rightarrow> plan_error + repair_plan" where
  "plan_from_dict raw =
     ebind (plan_dict raw ''repair plan'') (\<lambda>obj.
     ebind (plan_int (jget obj ''schema_version'') ''repair plan.schema_version'') (\<lambda>schema.
     ebind (guard (schema = 1) (PlanUnsupportedSchema schema)) (\<lambda>_.
     ebind (plan_int (jget obj ''planner_version'') ''repair plan.planner_version'') (\<lambda>planner.
     ebind (guard (planner = 1) (PlanUnsupportedPlanner planner)) (\<lambda>_.
     ebind (plan_nonempty (jget obj ''generated_at_utc'') ''repair plan.generated_at_utc'') (\<lambda>generated.
     ebind (plan_nonempty (jget obj ''source_requirements'') ''repair plan.source_requirements'') (\<lambda>source.
     ebind (plan_nonempty (jget obj ''source_sha256'') ''repair plan.source_sha256'') (\<lambda>sha.
     ebind (guard (is_sha256 sha) PlanBadSha256) (\<lambda>_.
     ebind (plan_list (jget obj ''decisions'') ''repair plan.decisions'') (\<lambda>decisions_raw.
     ebind (emap_enum (\<lambda>i. decision_from_dict (at_index ''repair plan.decisions'' i)) decisions_raw) (\<lambda>decisions.
     ebind (guard (distinct (map rd_id decisions)) PlanDuplicateDecisionIds) (\<lambda>_.
     ebind (guard (distinct (map rd_requirement_id decisions)) PlanDuplicateRequirementIds) (\<lambda>_.
     ebind (case jget_or obj ''warnings'' (JList []) of
              JList xs \<Rightarrow> (case all_strings xs of Some ws \<Rightarrow> Inr ws | None \<Rightarrow> Inl PlanWarningsNotStrings)
            | _ \<Rightarrow> Inl PlanWarningsNotStrings) (\<lambda>warnings.
     Inr \<lparr>rp_source_requirements = source, rp_source_sha256 = sha, rp_decisions = decisions,
          rp_warnings = warnings, rp_schema_version = schema, rp_planner_version = planner,
          rp_generated_at = generated\<rparr>))))))))))))))"

definition plan_load :: "(string \<Rightarrow> json option) \<Rightarrow> file_view \<Rightarrow> plan_error + repair_plan" where
  "plan_load loads f =
     (case f of
        FileMissing \<Rightarrow> Inl PlanFileMissing
      | FileOther \<Rightarrow> Inl PlanNotFile
      | FileText t \<Rightarrow> (case loads t of None \<Rightarrow> Inl PlanInvalidJson | Some raw \<Rightarrow> plan_from_dict raw))"

section \<open>Well-formed plans\<close>

definition wf_decision :: "repair_decision \<Rightarrow> bool" where
  "wf_decision d \<longleftrightarrow>
     rd_id d = make_decision_id (rd_requirement_id d) (rd_action d) (rd_disposition d) (rd_resource d) \<and>
     rd_requirement_id d \<noteq> [] \<and> rd_requirement_kind d \<noteq> [] \<and> rd_resource d \<noteq> [] \<and>
     rd_operation d \<noteq> [] \<and> rd_reason d \<noteq> [] \<and>
     (rd_automatic d \<longrightarrow> rd_disposition d = AutoCandidate \<and> rd_action d \<noteq> ActNone) \<and>
     sorted (map fst (rd_parameters d)) \<and> distinct (map fst (rd_parameters d)) \<and>
     [] \<notin> set (map fst (rd_parameters d))"

definition wf_plan :: "repair_plan \<Rightarrow> bool" where
  "wf_plan p \<longleftrightarrow>
     rp_schema_version p = 1 \<and> rp_planner_version p = 1 \<and> rp_generated_at p \<noteq> [] \<and>
     rp_source_requirements p \<noteq> [] \<and> is_sha256 (rp_source_sha256 p) \<and>
     list_all wf_decision (rp_decisions p) \<and>
     distinct (map rd_id (rp_decisions p)) \<and> distinct (map rd_requirement_id (rp_decisions p))"

section \<open>Correctness of the codec\<close>

lemmas plan_field_Inr =
  disposition_enum.parse_enum_Inr priority_enum.parse_enum_Inr risk_enum.parse_enum_Inr
  action_enum.parse_enum_Inr plan_field_defs result_simps

lemma validate_json_value_all [simp]: "validate_json_value v"
  by (induction v rule: validate_json_value.induct) (auto simp: list_all_iff)

lemma check_parameters: "emap (check_parameter loc) d = Inr d' \<longleftrightarrow> d' = d \<and> [] \<notin> set (map fst d)"
  by (induction d arbitrary: d') (auto simp: ebind_Inr_iff split: if_splits)

lemma decision_roundtrip:
  assumes "wf_decision d"
  shows "decision_from_dict loc (decision_to_dict d) = Inr d"
proof -
  have ps: "emap (check_parameter loc) (sort_key fst (rd_parameters d)) = Inr (rd_parameters d)"
    using assms by (simp add: wf_decision_def sort_key_sorted check_parameters)
  have nonempty: "make_decision_id r a p res \<noteq> []" for r a p res
    by (simp add: make_decision_id_def)
  show ?thesis
    using assms
    by (simp add: decision_from_dict_def decision_to_dict_def plan_field_defs wf_decision_def
        nonempty ps)
qed

lemma decision_accepts:
  assumes "decision_from_dict loc raw = Inr d" and "json_wf raw"
  shows "wf_decision d"
proof -
  from assms(1) obtain obj ps where raw: "raw = JObj obj"
    and det: "jget_or obj ''parameters'' (JObj []) = JObj ps"
    and ren: "emap (check_parameter loc) (sort_key fst ps) = Inr (rd_parameters d)"
    and rest: "rd_id d = make_decision_id (rd_requirement_id d) (rd_action d) (rd_disposition d) (rd_resource d)"
      "rd_requirement_id d \<noteq> []" "rd_requirement_kind d \<noteq> []" "rd_resource d \<noteq> []"
      "rd_operation d \<noteq> []" "rd_reason d \<noteq> []"
      "rd_automatic d \<Longrightarrow> rd_disposition d = AutoCandidate" "rd_automatic d \<Longrightarrow> rd_action d \<noteq> ActNone"
    by (auto simp: decision_from_dict_def plan_field_Inr)
  have "distinct (map fst ps)"
    using json_wf_jget_or [of obj "JObj []" "''parameters''"] assms(2) by (simp add: raw det)
  then have "distinct (map fst (sort_key fst ps))" "sorted (map fst (sort_key fst ps))"
    by (simp_all add: distinct_map)
  with ren rest show ?thesis
    by (simp add: wf_decision_def check_parameters)
qed

lemma plan_roundtrip:
  assumes "wf_plan p"
  shows "plan_from_dict (plan_to_dict p) = Inr p"
proof -
  have "emap_enum (\<lambda>i. decision_from_dict (at_index l i)) (map decision_to_dict (rp_decisions p))
      = Inr (rp_decisions p)" for l
    using assms by (intro emap_enum_decode decision_roundtrip) (auto simp: wf_plan_def list_all_iff)
  moreover have "is_sha256 s \<Longrightarrow> s \<noteq> []" for s
    by (auto simp: is_sha256_def)
  ultimately show ?thesis
    using assms by (simp add: plan_from_dict_def plan_to_dict_def plan_field_defs wf_plan_def)
qed

lemma plan_accepts:
  assumes "plan_from_dict raw = Inr p" and "json_wf raw"
  shows "wf_plan p"
proof -
  from assms(1) obtain obj xs where raw: "raw = JObj obj"
    and xs: "jget obj ''decisions'' = JList xs"
    and rs: "emap_enum (\<lambda>i. decision_from_dict (at_index ''repair plan.decisions'' i)) xs
             = Inr (rp_decisions p)"
    by (auto simp: plan_from_dict_def plan_field_Inr)
  have "list_all json_wf xs"
    using json_wf_jget_or [of obj JNull "''decisions''"] assms(2) by (simp add: raw xs)
  then have "list_all wf_decision (rp_decisions p)"
    using emap_enum_set [OF rs] decision_accepts unfolding list_all_iff by (metis nth_mem)
  with assms(1) show ?thesis
    by (auto simp: plan_from_dict_def plan_field_Inr wf_plan_def)
qed

end
