(* ===== verification/Posix_Path.thy ===== *)
theory Posix_Path
  imports Prelude
begin

text \<open>
  \<open>pathlib.PurePosixPath\<close>: the root is empty, \<open>/\<close>, or \<open>//\<close> for a text that starts with exactly
  two slashes; empty and \<open>.\<close> components are dropped, \<open>..\<close> is kept.  The last section
  characterises the guest paths that pass the program's two path validators.
\<close>

datatype ppath = PPath (pp_root: string) (pp_comps: "string list")

abbreviation slash :: char where "slash \<equiv> CHR ''/''"

definition lead_slashes :: "string \<Rightarrow> nat" where
  "lead_slashes s = length (takeWhile (\<lambda>c. c = slash) s)"

definition pp_parse :: "string \<Rightarrow> ppath" where
  "pp_parse s =
     PPath (if lead_slashes s = 0 then '''' else if lead_slashes s = 2 then ''//'' else ''/'')
       (filter (\<lambda>x. x \<noteq> [] \<and> x \<noteq> ''.'') (split_on slash (drop (lead_slashes s) s)))"

text \<open>\<open>str(path)\<close> and \<open>path.as_posix()\<close>\<close>

definition pp_str :: "ppath \<Rightarrow> string" where
  "pp_str p =
     (if pp_root p = [] \<and> pp_comps p = [] then ''.'' else pp_root p @ join_with [slash] (pp_comps p))"

text \<open>\<open>path.parts\<close>: the root, when there is one, is the first part.\<close>

definition pp_parts :: "ppath \<Rightarrow> string list" where
  "pp_parts p = (if pp_root p = [] then [] else [pp_root p]) @ pp_comps p"

definition pp_parent :: "ppath \<Rightarrow> ppath" where
  "pp_parent p = PPath (pp_root p) (butlast (pp_comps p))"

definition pp_name :: "ppath \<Rightarrow> string" where
  "pp_name p = (if pp_comps p = [] then [] else last (pp_comps p))"

section \<open>Normal forms\<close>

definition plain_component :: "string \<Rightarrow> bool" where
  "plain_component c \<longleftrightarrow> c \<noteq> [] \<and> c \<noteq> ''.'' \<and> c \<noteq> ''..'' \<and> slash \<notin> set c"

lemma join_with_head:
  "ws \<noteq> [] \<Longrightarrow> hd ws \<noteq> [] \<Longrightarrow> join_with sep ws \<noteq> [] \<and> hd (join_with sep ws) = hd (hd ws)"
  by (cases "(sep, ws)" rule: join_with.cases) auto

lemma join_with_last:
  "ws \<noteq> [] \<Longrightarrow> last ws \<noteq> [] \<Longrightarrow> join_with sep ws \<noteq> [] \<and> last (join_with sep ws) = last (last ws)"
  by (induction sep ws rule: join_with.induct) (auto split: if_splits)

lemma lead_slashes_replicate:
  "s = [] \<or> hd s \<noteq> slash \<Longrightarrow> lead_slashes (replicate n slash @ s) = n"
  by (induction n) (cases s; auto simp: lead_slashes_def)+

lemma lead_slashes_zero: "lead_slashes s = 0 \<longleftrightarrow> s = [] \<or> hd s \<noteq> slash"
  by (cases s) (auto simp: lead_slashes_def)

lemma lead_slashes_pos: "starts_with s ''/'' \<longleftrightarrow> 0 < lead_slashes s"
  by (cases s) (auto simp: lead_slashes_def starts_with_def)

text \<open>Joining plain components below a root and parsing the text back is the identity.\<close>

lemma pp_parse_join:
  assumes "\<forall>c \<in> set cs. c \<noteq> [] \<and> c \<noteq> ''.'' \<and> slash \<notin> set c" and "rt = ''/'' \<or> rt = ''//''"
  shows "pp_parse (rt @ join_with [slash] cs) = PPath rt cs"
proof -
  have j: "join_with [slash] cs = [] \<or> hd (join_with [slash] cs) \<noteq> slash"
    using assms(1) join_with_head [of cs "[slash]"] by (cases cs) (auto dest: hd_in_set)
  obtain n where rt: "rt = replicate n slash" and n: "n = 1 \<or> n = 2"
    using assms(2) by (metis One_nat_def Suc_1 replicate_0 replicate_Suc)
  have lead: "lead_slashes (rt @ join_with [slash] cs) = n"
    using lead_slashes_replicate [OF j] by (simp add: rt)
  have "filter (\<lambda>x. x \<noteq> [] \<and> x \<noteq> ''.'') (split_on slash (join_with [slash] cs)) = cs"
  proof (cases cs)
    case Nil
    then show ?thesis by simp
  next
    case (Cons c cs')
    then show ?thesis
      using assms(1) split_join [of cs slash] by (auto simp: filter_id_conv)
  qed
  then show ?thesis
    using n lead by (auto simp: pp_parse_def rt numeral_2_eq_2)
qed

lemma pp_comps_no_slash: "c \<in> set (pp_comps (pp_parse s)) \<Longrightarrow> c \<noteq> [] \<and> c \<noteq> ''.'' \<and> slash \<notin> set c"
  by (auto simp: pp_parse_def dest: split_on_no_sep)

lemma pp_root_cases: "pp_root (pp_parse s) \<in> {'''', ''/'', ''//''}"
  by (auto simp: pp_parse_def)

lemma pp_root_absolute: "starts_with s ''/'' \<longleftrightarrow> pp_root (pp_parse s) \<noteq> []"
  by (auto simp: pp_parse_def lead_slashes_pos)

section \<open>Normalized absolute paths\<close>

text \<open>The test both validators make: normal form up to trailing slashes.\<close>

abbreviation strip_slashes :: "string \<Rightarrow> string" where
  "strip_slashes \<equiv> rstrip_while (\<lambda>c. c = slash)"

lemma takeWhile_eq_replicate: "takeWhile (\<lambda>y. y = c) xs = replicate (length (takeWhile (\<lambda>y. y = c) xs)) c"
  by (induction xs) auto

lemma strip_slashes_split: "\<exists>k. p = strip_slashes p @ replicate k slash"
proof -
  have "p = rev (takeWhile (\<lambda>c. c = slash) (rev p) @ dropWhile (\<lambda>c. c = slash) (rev p))"
    by (simp only: takeWhile_dropWhile_id rev_rev_ident)
  also have "\<dots> = strip_slashes p @ rev (takeWhile (\<lambda>c. c = slash) (rev p))"
    by (simp only: rev_append rstrip_while_def)
  finally show ?thesis
    by (metis rev_replicate takeWhile_eq_replicate)
qed

lemma strip_slashes_replicate:
  assumes "s \<noteq> []" and "last s \<noteq> slash"
  shows "strip_slashes (s @ replicate k slash) = s"
proof -
  have "dropWhile (\<lambda>c. c = slash) (replicate k slash @ rev s) = rev s"
    using assms by (induction k) (cases s rule: rev_cases; simp)+
  then show ?thesis by (simp add: rstrip_while_def)
qed

lemma split_on_sep: "split_on c (s @ c # t) = split_on c s @ split_on c t"
  by (induction s) (auto split: list.splits)

lemma split_on_trailing: "split_on c (s @ replicate k c) = split_on c s @ replicate k []"
proof (induction k arbitrary: s)
  case 0
  then show ?case by simp
next
  case (Suc k)
  have "split_on c (s @ replicate (Suc k) c) = split_on c ((s @ [c]) @ replicate k c)" by simp
  also have "\<dots> = split_on c (s @ [c]) @ replicate k []" by (rule Suc.IH)
  finally show ?case by (simp add: split_on_sep)
qed

lemma pp_parse_trailing:
  assumes "s \<noteq> []" and "last s \<noteq> slash"
  shows "pp_parse (s @ replicate k slash) = pp_parse s"
proof -
  obtain ys x where s: "s = ys @ [x]" and x: "x \<noteq> slash"
    using assms by (metis append_butlast_last_id)
  then have lead: "takeWhile (\<lambda>c. c = slash) (s @ t) = takeWhile (\<lambda>c. c = slash) s" for t
    by (intro takeWhile_append1 [of x]) auto
  have "lead_slashes s \<le> length ys"
    using x by (simp add: lead_slashes_def s takeWhile_tail length_takeWhile_le)
  then have "drop (lead_slashes s) (s @ t) = drop (lead_slashes s) s @ t" for t
    by (simp add: s)
  then show ?thesis
    using lead by (simp add: pp_parse_def lead_slashes_def split_on_trailing)
qed

definition normal_absolute :: "string \<Rightarrow> bool" where
  "normal_absolute p \<longleftrightarrow>
     starts_with p ''/'' \<and> ''..'' \<notin> set (pp_parts (pp_parse p)) \<and>
     pp_str (pp_parse p) = strip_slashes p"

lemma normal_absolute_iff:
  "normal_absolute p \<longleftrightarrow>
     (\<exists>rt cs k. (rt = ''/'' \<or> rt = ''//'') \<and> cs \<noteq> [] \<and> (\<forall>c \<in> set cs. plain_component c) \<and>
        p = rt @ join_with [slash] cs @ replicate k slash)"
    (is "_ \<longleftrightarrow> ?R")
proof
  assume n: "normal_absolute p"
  let ?rt = "pp_root (pp_parse p)" and ?cs = "pp_comps (pp_parse p)"
  have rt: "?rt = ''/'' \<or> ?rt = ''//''"
    using n pp_root_cases [of p] by (auto simp: normal_absolute_def pp_root_absolute)
  have str: "?rt @ join_with [slash] ?cs = strip_slashes p"
    using n rt by (auto simp: normal_absolute_def pp_str_def)
  have "?cs \<noteq> []"
    using str rt rstrip_while_last [of "\<lambda>c. c = slash" p] by (metis append_Nil2 join_with.simps(1)
        last.simps list.distinct(1))
  moreover have "\<forall>c \<in> set ?cs. plain_component c"
    using n pp_comps_no_slash by (auto simp: normal_absolute_def plain_component_def pp_parts_def)
  ultimately show ?R
    using str rt strip_slashes_split [of p] by (metis append.assoc)
next
  assume ?R
  then obtain rt cs k where rt: "rt = ''/'' \<or> rt = ''//''" and cs: "cs \<noteq> []"
    and plain: "\<forall>c \<in> set cs. plain_component c"
    and p: "p = rt @ join_with [slash] cs @ replicate k slash"
    by blast
  let ?b = "rt @ join_with [slash] cs"
  have lst: "last cs \<noteq> []" "slash \<notin> set (last cs)"
    using plain last_in_set [OF cs] by (auto simp: plain_component_def)
  then have "join_with [slash] cs \<noteq> [] \<and> last (join_with [slash] cs) = last (last cs)"
    by (intro join_with_last cs)
  moreover have "last (last cs) \<noteq> slash"
    using lst last_in_set by metis
  ultimately have b: "?b \<noteq> []" "last ?b \<noteq> slash"
    by simp_all
  have p2: "p = ?b @ replicate k slash"
    using p by simp
  have strip: "strip_slashes p = ?b"
    unfolding p2 by (rule strip_slashes_replicate [OF b])
  have plain': "\<forall>c \<in> set cs. c \<noteq> [] \<and> c \<noteq> ''.'' \<and> slash \<notin> set c"
    using plain by (auto simp: plain_component_def)
  have parse: "pp_parse p = PPath rt cs"
    unfolding p2 pp_parse_trailing [OF b] by (rule pp_parse_join [OF plain' rt])
  have "starts_with p ''/''"
    using rt by (auto simp: p starts_with_def)
  moreover have "''..'' \<notin> set cs"
    using plain by (auto simp: plain_component_def)
  ultimately show "normal_absolute p"
    using rt cs by (auto simp: normal_absolute_def parse pp_parts_def pp_str_def strip)
qed

end
