(* ===== verification/Repair_Applier.thy ===== *)
theory Repair_Applier
  imports Repair_Plan Posix_Path
begin

text \<open>
  The repair applier (\<open>taintforge_env/repair_applier.py\<close>): a preflight over the whole plan, the
  creation of the authorized directories, and the rollback of what one transaction created.
  The filesystem calls are an argument (\<open>fs_ops\<close>); the locale \<open>dir_tree\<close> states what the kernel
  promises about them on a directory tree, the transaction lemmas are proved there, and the
  association-list tree of the last section, which can also be told to fail, interprets it.
\<close>

section \<open>Statuses\<close>

datatype result_status = RNotSelected | RPlanned | RApplied | RAlreadySatisfied | RRolledBack | RRejected

datatype application_state = ADryRun | ACompleted | AFailed

fun result_status_value :: "result_status \<Rightarrow> string" where
  "result_status_value RNotSelected = ''not_selected''"
| "result_status_value RPlanned = ''planned''"
| "result_status_value RApplied = ''applied''"
| "result_status_value RAlreadySatisfied = ''already_satisfied''"
| "result_status_value RRolledBack = ''rolled_back''"
| "result_status_value RRejected = ''rejected''"

definition all_result_statuses :: "result_status list" where
  "all_result_statuses = [RNotSelected, RPlanned, RApplied, RAlreadySatisfied, RRolledBack, RRejected]"

fun application_state_value :: "application_state \<Rightarrow> string" where
  "application_state_value ADryRun = ''dry_run''"
| "application_state_value ACompleted = ''completed''"
| "application_state_value AFailed = ''failed''"

definition all_application_states :: "application_state list" where
  "all_application_states = [ADryRun, ACompleted, AFailed]"

interpretation result_status_enum: str_enum all_result_statuses result_status_value
proof unfold_locales
  show "x \<in> set all_result_statuses" for x by (cases x) (auto simp: all_result_statuses_def)
  show "result_status_value x = result_status_value y \<Longrightarrow> x = y" for x y by (cases x; cases y) auto
  show "result_status_value x \<noteq> []" for x by (cases x) auto
qed

interpretation application_state_enum: str_enum all_application_states application_state_value
proof unfold_locales
  show "x \<in> set all_application_states" for x by (cases x) (auto simp: all_application_states_def)
  show "application_state_value x = application_state_value y \<Longrightarrow> x = y" for x y by (cases x; cases y) auto
  show "application_state_value x \<noteq> []" for x by (cases x) auto
qed

section \<open>The filesystem interface\<close>

text \<open>Paths below the rootfs are component lists; \<open>[]\<close> is the rootfs itself.\<close>

type_synonym fpath = "string list"

datatype entry_kind = EDir | ESymlink | EOther

datatype lstat_result = StatMissing | StatError string | StatEntry entry_kind

datatype mkdir_result = MkOk | MkExists | MkError string

datatype rmdir_result = RmOk | RmMissing | RmError string

record 'fs fs_ops =
  fs_lstat :: "'fs \<Rightarrow> fpath \<Rightarrow> lstat_result"
  fs_mkdir :: "'fs \<Rightarrow> fpath \<Rightarrow> nat \<Rightarrow> mkdir_result \<times> 'fs"
  fs_chmod :: "'fs \<Rightarrow> fpath \<Rightarrow> nat \<Rightarrow> string option \<times> 'fs"
  fs_rmdir :: "'fs \<Rightarrow> fpath \<Rightarrow> rmdir_result \<times> 'fs"

definition host_str :: "string \<Rightarrow> fpath \<Rightarrow> string" where
  "host_str rootfs p = rootfs @ concat (map (\<lambda>c. slash # c) p)"

section \<open>Records and errors\<close>

datatype apply_error =
    PathNul | PathNotAbsolute | PathIsRoot | PathTraversal | PathNotNormalized | PathPseudo string
  | ParentsNotTrue string | InvalidMode string | SpecialBits string
  | CannotInspect fpath string | CrossesSymlink fpath | TargetNotDirectory fpath | AncestorNotDirectory fpath
  | NotCandidate string | ActionNotEnabled repair_action string | ActionNotImplemented repair_action
  | BecameSymlink fpath | BecameNonDirectory fpath | CannotCreate fpath string
  | UnhandledOsError string | UnknownDecision string
  | InputMissing string | InputNotFile string | PlanRejected plan_error
  | RequirementsDigest string string
  | RootfsMissing | RootfsIsSymlink | RootfsNotDirectory | RootfsIsHostRoot
  | SaveFailed string

record decision_result =
  dr_id :: string
  dr_requirement_id :: string
  dr_action :: string
  dr_resource :: string
  dr_status :: result_status
  dr_reason :: string
  dr_target :: "string option"
  dr_created :: "string list"

record application_report =
  ar_id :: string
  ar_state :: application_state
  ar_plan_path :: string
  ar_plan_sha256 :: string
  ar_requirements_path :: string
  ar_requirements_sha256 :: string
  ar_rootfs :: string
  ar_dry_run :: bool
  ar_results :: "decision_result list"
  ar_rollback_errors :: "(fpath \<times> string) list"
  ar_error :: "apply_error option"
  ar_generated_at :: string

record prepared_directory =
  pd_decision :: repair_decision
  pd_guest_path :: string
  pd_target :: fpath
  pd_mode :: nat
  pd_create :: "fpath list"
  pd_satisfied :: bool

record applier_config =
  ac_allowed :: "repair_action list"
  ac_denied :: "string list"

definition default_applier_config :: applier_config where
  "default_applier_config =
     \<lparr>ac_allowed = [CreateDirectory], ac_denied = [''/proc'', ''/sys'', ''/dev'']\<rparr>"

definition result_to_dict :: "decision_result \<Rightarrow> json" where
  "result_to_dict r = JObj
     [(''decision_id'', JStr (dr_id r)),
      (''requirement_id'', JStr (dr_requirement_id r)),
      (''action'', JStr (dr_action r)),
      (''resource'', JStr (dr_resource r)),
      (''status'', JStr (result_status_value (dr_status r))),
      (''reason'', JStr (dr_reason r)),
      (''target_path'', opt_json JStr (dr_target r)),
      (''created_paths'', JList (map JStr (dr_created r)))]"

definition application_summary :: "application_report \<Rightarrow> json" where
  "application_summary rep = (let rs = ar_results rep in JObj
     [(''decisions_total'', JInt (int (length rs))),
      (''selected_total'', JInt (int (length (filter (\<lambda>r. dr_status r \<noteq> RNotSelected) rs)))),
      (''applied_total'', JInt (int (length (filter (\<lambda>r. dr_status r = RApplied) rs)))),
      (''already_satisfied_total'', JInt (int (length (filter (\<lambda>r. dr_status r = RAlreadySatisfied) rs)))),
      (''created_paths_total'', JInt (int (sum_list (map (\<lambda>r. length (dr_created r)) rs)))),
      (''rollback_errors_total'', JInt (int (length (ar_rollback_errors rep)))),
      (''by_status'', counts_json (count_by (\<lambda>r. result_status_value (dr_status r)) rs))])"

section \<open>Validation\<close>

definition applier_guest_path :: "applier_config \<Rightarrow> string \<Rightarrow> apply_error + string" where
  "applier_guest_path cfg path =
     (let pure = pp_parse path in
      if CHR 0x00 \<in> set path then Inl PathNul
      else if \<not> starts_with path ''/'' then Inl PathNotAbsolute
      else if path = ''/'' then Inl PathIsRoot
      else if ''..'' \<in> set (pp_parts pure) then Inl PathTraversal
      else if pp_str pure \<noteq> strip_slashes path then Inl PathNotNormalized
      else if list_ex (\<lambda>prefix. pp_str pure = prefix \<or> starts_with (pp_str pure) (prefix @ ''/''))
                (ac_denied cfg)
      then Inl (PathPseudo (pp_str pure))
      else Inr (pp_str pure))"

definition octal_digit :: "char \<Rightarrow> bool" where
  "octal_digit c = (48 \<le> (of_char c :: nat) \<and> (of_char c :: nat) \<le> 55)"

definition octal_value :: "string \<Rightarrow> nat" where
  "octal_value s = foldl (\<lambda>acc c. acc * 8 + (of_char c - 48)) 0 s"

text \<open>\<open>re.fullmatch("0?[0-7]{3}", text)\<close> and the test for special bits\<close>

fun parse_mode :: "string \<Rightarrow> json \<Rightarrow> apply_error + nat" where
  "parse_mode did (JStr s) =
     (if list_all octal_digit s \<and> (length s = 3 \<or> (length s = 4 \<and> hd s = CHR ''0''))
      then (if 511 < octal_value s then Inl (SpecialBits did) else Inr (octal_value s))
      else Inl (InvalidMode did))"
| "parse_mode did _ = Inl (InvalidMode did)"

record rootfs_view =
  rv_exists :: bool
  rv_symlink :: bool
  rv_directory :: bool
  rv_resolved :: string

definition validate_rootfs :: "rootfs_view \<Rightarrow> apply_error + string" where
  "validate_rootfs v =
     (if \<not> rv_exists v then Inl RootfsMissing
      else if rv_symlink v then Inl RootfsIsSymlink
      else if \<not> rv_directory v then Inl RootfsNotDirectory
      else if rv_resolved v = ''/'' then Inl RootfsIsHostRoot
      else Inr (rv_resolved v))"

fun read_input :: "string \<Rightarrow> file_view \<Rightarrow> apply_error + string" where
  "read_input what FileMissing = Inl (InputMissing what)"
| "read_input what FileOther = Inl (InputNotFile what)"
| "read_input what (FileText t) = Inr t"

definition application_id :: "string \<Rightarrow> string \<Rightarrow> string \<Rightarrow> string" where
  "application_id plan_sha req_sha rootfs =
     ''apply_'' @ take 16 (sha256_hex (plan_sha @ [CHR 0x00] @ req_sha @ [CHR 0x00] @ rootfs))"

section \<open>Preflight\<close>

text \<open>
  The loop over the components of one target: the paths to create, and whether nothing has to
  be created.  \<open>virt\<close> holds the paths an earlier decision of the plan will create.
\<close>

fun walk_components ::
    "'fs fs_ops \<Rightarrow> 'fs \<Rightarrow> fpath list \<Rightarrow> fpath \<Rightarrow> string list \<Rightarrow> apply_error + (fpath list \<times> bool)" where
  "walk_components ops fs virt cur [] = Inr ([], True)"
| "walk_components ops fs virt cur (c # cs) =
     (let p = cur @ [c] in
      if p \<in> set virt then walk_components ops fs virt p cs
      else (case fs_lstat ops fs p of
          StatMissing \<Rightarrow>
            ebind (walk_components ops fs virt p cs) (\<lambda>(ps, _). Inr (p # ps, False))
        | StatError e \<Rightarrow> Inl (CannotInspect p e)
        | StatEntry ESymlink \<Rightarrow> Inl (CrossesSymlink p)
        | StatEntry EOther \<Rightarrow> Inl (if cs = [] then TargetNotDirectory p else AncestorNotDirectory p)
        | StatEntry EDir \<Rightarrow> walk_components ops fs virt p cs))"

definition prepare_directory ::
    "applier_config \<Rightarrow> 'fs fs_ops \<Rightarrow> 'fs \<Rightarrow> fpath list \<Rightarrow> repair_decision
     \<Rightarrow> apply_error + prepared_directory" where
  "prepare_directory cfg ops fs virt d =
     ebind (applier_guest_path cfg (rd_resource d)) (\<lambda>guest_path.
     ebind (guard (jget (rd_parameters d) ''parents'' = JBool True) (ParentsNotTrue (rd_id d))) (\<lambda>_.
     ebind (parse_mode (rd_id d) (jget (rd_parameters d) ''mode'')) (\<lambda>mode.
     let comps = pp_comps (pp_parse guest_path) in
     ebind (walk_components ops fs virt [] comps) (\<lambda>(create, satisfied).
     Inr \<lparr>pd_decision = d, pd_guest_path = guest_path, pd_target = comps, pd_mode = mode,
          pd_create = create, pd_satisfied = satisfied\<rparr>))))"

definition plain_result :: "repair_decision \<Rightarrow> result_status \<Rightarrow> string \<Rightarrow> decision_result" where
  "plain_result d st reason =
     \<lparr>dr_id = rd_id d, dr_requirement_id = rd_requirement_id d, dr_action = action_value (rd_action d),
      dr_resource = rd_resource d, dr_status = st, dr_reason = reason, dr_target = None,
      dr_created = []\<rparr>"

definition preflight_result :: "string \<Rightarrow> bool \<Rightarrow> prepared_directory \<Rightarrow> decision_result" where
  "preflight_result rootfs dry_run item =
     (plain_result (pd_decision item)
        (if pd_satisfied item then RAlreadySatisfied else RPlanned)
        (if pd_satisfied item then ''Target already exists as a real directory.''
         else if dry_run
         then ''Validated automatic directory repair; no filesystem mutation performed in dry-run.''
         else ''Validated automatic directory repair.''))
     \<lparr>dr_target := Some (host_str rootfs (pd_target item)),
      dr_created := map (host_str rootfs) (pd_create item)\<rparr>"

fun preflight ::
    "applier_config \<Rightarrow> 'fs fs_ops \<Rightarrow> 'fs \<Rightarrow> string \<Rightarrow> bool \<Rightarrow> fpath list \<Rightarrow> repair_decision list
     \<Rightarrow> apply_error + (prepared_directory list \<times> decision_result list)" where
  "preflight cfg ops fs rootfs dry_run virt [] = Inr ([], [])"
| "preflight cfg ops fs rootfs dry_run virt (d # ds) =
     (if \<not> rd_automatic d
      then ebind (preflight cfg ops fs rootfs dry_run virt ds) (\<lambda>(items, results).
           Inr (items, plain_result d RNotSelected
             ''The planner did not authorize automatic application for this decision.'' # results))
      else if rd_disposition d \<noteq> AutoCandidate then Inl (NotCandidate (rd_id d))
      else if rd_action d \<notin> set (ac_allowed cfg) then Inl (ActionNotEnabled (rd_action d) (rd_id d))
      else if rd_action d = CreateDirectory
      then ebind (prepare_directory cfg ops fs virt d) (\<lambda>item.
           ebind (preflight cfg ops fs rootfs dry_run (pd_create item @ virt) ds) (\<lambda>(items, results).
           Inr (item # items, preflight_result rootfs dry_run item # results)))
      else Inl (ActionNotImplemented (rd_action d)))"

section \<open>Application and rollback\<close>

text \<open>
  The mutable state of a transaction is the filesystem and the list \<open>created_paths\<close>, which the
  caller still sees when an exception interrupts the loop.  A directory enters the list only
  after both \<open>mkdir\<close> and \<open>chmod\<close> returned.
\<close>

fun create_paths ::
    "'fs fs_ops \<Rightarrow> nat \<Rightarrow> fpath list \<Rightarrow> 'fs \<Rightarrow> fpath list \<Rightarrow> fpath list
     \<Rightarrow> (apply_error + fpath list) \<times> 'fs \<times> fpath list" where
  "create_paths ops mode [] fs created actual = (Inr actual, fs, created)"
| "create_paths ops mode (p # ps) fs created actual =
     (case fs_mkdir ops fs p mode of
        (MkOk, fs1) \<Rightarrow>
          (case fs_chmod ops fs1 p mode of
             (None, fs2) \<Rightarrow> create_paths ops mode ps fs2 (created @ [p]) (actual @ [p])
           | (Some e, fs2) \<Rightarrow> (Inl (CannotCreate p e), fs2, created))
      | (MkExists, fs1) \<Rightarrow>
          (case fs_lstat ops fs1 p of
             StatEntry EDir \<Rightarrow> create_paths ops mode ps fs1 created actual
           | StatEntry ESymlink \<Rightarrow> (Inl (BecameSymlink p), fs1, created)
           | StatEntry EOther \<Rightarrow> (Inl (BecameNonDirectory p), fs1, created)
           | StatMissing \<Rightarrow> (Inl (UnhandledOsError ''not found''), fs1, created)
           | StatError e \<Rightarrow> (Inl (UnhandledOsError e), fs1, created))
      | (MkError e, fs1) \<Rightarrow> (Inl (CannotCreate p e), fs1, created))"

definition applied_result :: "string \<Rightarrow> prepared_directory \<Rightarrow> fpath list \<Rightarrow> decision_result" where
  "applied_result rootfs item actual =
     (plain_result (pd_decision item)
        (if actual \<noteq> [] then RApplied else RAlreadySatisfied)
        (if actual \<noteq> [] then ''Created the authorized directory path inside rootfs.''
         else ''Directory was satisfied by an earlier decision.''))
     \<lparr>dr_target := Some (host_str rootfs (pd_target item)),
      dr_created := map (host_str rootfs) actual\<rparr>"

text \<open>\<open>by_decision\<close> starts with the preflight results and is overwritten per applied item.\<close>

fun apply_items ::
    "'fs fs_ops \<Rightarrow> string \<Rightarrow> prepared_directory list \<Rightarrow> 'fs \<Rightarrow> fpath list \<Rightarrow> (string \<times> decision_result) list
     \<Rightarrow> (apply_error + (string \<times> decision_result) list) \<times> 'fs \<times> fpath list" where
  "apply_items ops rootfs [] fs created by_decision = (Inr by_decision, fs, created)"
| "apply_items ops rootfs (item # items) fs created by_decision =
     (if pd_satisfied item then apply_items ops rootfs items fs created by_decision
      else (case create_paths ops (pd_mode item) (pd_create item) fs created [] of
          (Inl e, fs1, created1) \<Rightarrow> (Inl e, fs1, created1)
        | (Inr actual, fs1, created1) \<Rightarrow>
            apply_items ops rootfs items fs1 created1
              ((rd_id (pd_decision item), applied_result rootfs item actual) # by_decision)))"

definition collect_results ::
    "(string \<times> decision_result) list \<Rightarrow> decision_result list \<Rightarrow> apply_error + decision_result list" where
  "collect_results by_decision initial =
     emap (\<lambda>r. case map_of by_decision (dr_id r) of None \<Rightarrow> Inl (UnknownDecision (dr_id r)) | Some x \<Rightarrow> Inr x)
       initial"

definition apply_prepared ::
    "'fs fs_ops \<Rightarrow> string \<Rightarrow> prepared_directory list \<Rightarrow> decision_result list \<Rightarrow> 'fs
     \<Rightarrow> (apply_error + decision_result list) \<times> 'fs \<times> fpath list" where
  "apply_prepared ops rootfs items initial fs =
     (case apply_items ops rootfs items fs [] (rev (map (\<lambda>r. (dr_id r, r)) initial)) of
        (Inl e, fs1, created) \<Rightarrow> (Inl e, fs1, created)
      | (Inr by_decision, fs1, created) \<Rightarrow> (collect_results by_decision initial, fs1, created))"

text \<open>\<open>_rollback\<close> walks the list backwards and collects the errors.\<close>

fun remove_dirs :: "'fs fs_ops \<Rightarrow> fpath list \<Rightarrow> 'fs \<Rightarrow> (fpath \<times> string) list \<times> 'fs" where
  "remove_dirs ops [] fs = ([], fs)"
| "remove_dirs ops (p # ps) fs =
     (case fs_rmdir ops fs p of
        (RmOk, fs1) \<Rightarrow> remove_dirs ops ps fs1
      | (RmMissing, fs1) \<Rightarrow> remove_dirs ops ps fs1
      | (RmError e, fs1) \<Rightarrow> (let (errs, fs2) = remove_dirs ops ps fs1 in ((p, e) # errs, fs2)))"

definition rollback :: "'fs fs_ops \<Rightarrow> fpath list \<Rightarrow> 'fs \<Rightarrow> (fpath \<times> string) list \<times> 'fs" where
  "rollback ops created fs = remove_dirs ops (rev created) fs"

definition mark_rolled_back :: "string list \<Rightarrow> decision_result list \<Rightarrow> decision_result list" where
  "mark_rolled_back created results =
     map (\<lambda>r. if set created \<inter> set (dr_created r) \<noteq> {}
              then r\<lparr>dr_status := RRolledBack,
                     dr_reason := ''The transaction failed and paths created for this decision were rolled back where possible.''\<rparr>
              else r) results"

section \<open>The transaction\<close>

record 'fs apply_outcome =
  ao_result :: "apply_error + application_report"
  ao_fs :: 'fs
  ao_saved :: "application_report list"

text \<open>The \<open>except\<close> branch: roll back, report the failure, save that report, re-raise.\<close>

definition fail_transaction ::
    "'fs fs_ops \<Rightarrow> (application_report \<Rightarrow> string option)
     \<Rightarrow> (application_state \<Rightarrow> decision_result list \<Rightarrow> (fpath \<times> string) list \<Rightarrow> apply_error option
         \<Rightarrow> application_report)
     \<Rightarrow> string \<Rightarrow> apply_error \<Rightarrow> decision_result list \<Rightarrow> 'fs \<Rightarrow> fpath list \<Rightarrow> 'fs apply_outcome" where
  "fail_transaction ops save_error mk hroot e results fs created =
     (let (errs, fs2) = rollback ops created fs;
          rep = mk AFailed (mark_rolled_back (map (host_str hroot) created) results) errs (Some e)
      in case save_error rep of
           None \<Rightarrow> \<lparr>ao_result = Inl e, ao_fs = fs2, ao_saved = [rep]\<rparr>
         | Some x \<Rightarrow> \<lparr>ao_result = Inl (SaveFailed x), ao_fs = fs2, ao_saved = []\<rparr>)"

text \<open>
  The \<open>try\<close> block.  \<open>between\<close> is what other processes do to the tree after the preflight.
\<close>

definition run_transaction ::
    "applier_config \<Rightarrow> 'fs fs_ops \<Rightarrow> ('fs \<Rightarrow> 'fs) \<Rightarrow> (application_report \<Rightarrow> string option)
     \<Rightarrow> (application_state \<Rightarrow> decision_result list \<Rightarrow> (fpath \<times> string) list \<Rightarrow> apply_error option
         \<Rightarrow> application_report)
     \<Rightarrow> string \<Rightarrow> bool \<Rightarrow> repair_decision list \<Rightarrow> 'fs \<Rightarrow> 'fs apply_outcome" where
  "run_transaction cfg ops between save_error mk hroot dry_run ds fs =
     (case preflight cfg ops fs hroot dry_run [] ds of
        Inl e \<Rightarrow> fail_transaction ops save_error mk hroot e [] fs []
      | Inr (items, results) \<Rightarrow>
          if dry_run
          then (let rep = mk ADryRun results [] None in
                case save_error rep of
                  None \<Rightarrow> \<lparr>ao_result = Inr rep, ao_fs = fs, ao_saved = [rep]\<rparr>
                | Some x \<Rightarrow> fail_transaction ops save_error mk hroot (SaveFailed x) results fs [])
          else (case apply_prepared ops hroot items results (between fs) of
              (Inl e, fs1, created) \<Rightarrow> fail_transaction ops save_error mk hroot e results fs1 created
            | (Inr results2, fs1, created) \<Rightarrow>
                (let rep = mk ACompleted results2 [] None in
                 case save_error rep of
                   None \<Rightarrow> \<lparr>ao_result = Inr rep, ao_fs = fs1, ao_saved = [rep]\<rparr>
                 | Some x \<Rightarrow> fail_transaction ops save_error mk hroot (SaveFailed x) results2 fs1 created)))"

definition load_inputs ::
    "(string \<Rightarrow> json option) \<Rightarrow> file_view \<Rightarrow> file_view \<Rightarrow> rootfs_view
     \<Rightarrow> apply_error + (repair_plan \<times> string \<times> string \<times> string)" where
  "load_inputs loads plan_file req_file rootfs =
     ebind (read_input ''repair plan'' plan_file) (\<lambda>plan_bytes.
     ebind (read_input ''runtime requirements'' req_file) (\<lambda>req_bytes.
     ebind (err_map PlanRejected (plan_load loads plan_file)) (\<lambda>plan.
     ebind (guard (sha256_hex req_bytes = rp_source_sha256 plan)
              (RequirementsDigest (rp_source_sha256 plan) (sha256_hex req_bytes))) (\<lambda>_.
     ebind (validate_rootfs rootfs) (\<lambda>hroot.
     Inr (plan, hroot, sha256_hex plan_bytes, sha256_hex req_bytes))))))"

definition apply_file ::
    "applier_config \<Rightarrow> 'fs fs_ops \<Rightarrow> ('fs \<Rightarrow> 'fs) \<Rightarrow> (application_report \<Rightarrow> string option)
     \<Rightarrow> (string \<Rightarrow> json option) \<Rightarrow> string \<Rightarrow> string \<Rightarrow> file_view \<Rightarrow> string \<Rightarrow> file_view \<Rightarrow> rootfs_view
     \<Rightarrow> bool \<Rightarrow> 'fs \<Rightarrow> 'fs apply_outcome" where
  "apply_file cfg ops between save_error loads now plan_path plan_file req_path req_file rootfs dry_run fs =
     (case load_inputs loads plan_file req_file rootfs of
        Inl e \<Rightarrow> \<lparr>ao_result = Inl e, ao_fs = fs, ao_saved = []\<rparr>
      | Inr (plan, hroot, plan_sha, req_sha) \<Rightarrow>
          run_transaction cfg ops between save_error
            (\<lambda>st results errs e.
               \<lparr>ar_id = application_id plan_sha req_sha hroot, ar_state = st, ar_plan_path = plan_path,
                ar_plan_sha256 = plan_sha, ar_requirements_path = req_path,
                ar_requirements_sha256 = req_sha, ar_rootfs = hroot, ar_dry_run = dry_run,
                ar_results = results, ar_rollback_errors = errs, ar_error = e,
                ar_generated_at = now\<rparr>)
            hroot dry_run (rp_decisions plan) fs)"

section \<open>Directory trees\<close>

type_synonym entries = "fpath \<rightharpoonup> entry_kind \<times> nat"

definition is_dir :: "entries \<Rightarrow> fpath \<Rightarrow> bool" where
  "is_dir m p \<longleftrightarrow> (\<exists>mode. m p = Some (EDir, mode))"

definition closed_tree :: "entries \<Rightarrow> bool" where
  "closed_tree m \<longleftrightarrow> is_dir m [] \<and> (\<forall>q. q \<noteq> [] \<longrightarrow> m q \<noteq> None \<longrightarrow> is_dir m (butlast q))"

text \<open>\<open>made m ps m'\<close>: \<open>m'\<close> is \<open>m\<close> with the fresh directories \<open>ps\<close>, created in this order.\<close>

inductive made :: "entries \<Rightarrow> fpath list \<Rightarrow> entries \<Rightarrow> bool" where
  made_nil: "made m [] m"
| made_snoc: "made m ps m' \<Longrightarrow> p \<noteq> [] \<Longrightarrow> m' p = None \<Longrightarrow> is_dir m' (butlast p) \<Longrightarrow>
     made m (ps @ [p]) (m'(p \<mapsto> (EDir, mode)))"

inductive_cases made_snocE: "made m (ps @ [p]) m''"

lemma made_frame: "made m ps m' \<Longrightarrow> m q = Some v \<Longrightarrow> m' q = Some v"
  by (induction rule: made.induct) auto

lemma made_fresh: "made m ps m' \<Longrightarrow> m' q = None \<Longrightarrow> m q = None"
  using made_frame [of m ps m' q] by (cases "m q") auto

lemma made_other: "made m ps m' \<Longrightarrow> q \<notin> set ps \<Longrightarrow> m' q = m q"
  by (induction rule: made.induct) auto

lemma made_dirs: "made m ps m' \<Longrightarrow> p \<in> set ps \<Longrightarrow> is_dir m' p \<and> m p = None"
  by (induction rule: made.induct) (auto simp: is_dir_def dest: made_fresh)

lemma made_nonempty: "made m ps m' \<Longrightarrow> [] \<notin> set ps"
  by (induction rule: made.induct) auto

lemma made_trans: "made m2 qs m3 \<Longrightarrow> made m1 ps m2 \<Longrightarrow> made m1 (ps @ qs) m3"
proof (induction arbitrary: ps rule: made.induct)
  case (made_nil m)
  then show ?case by simp
next
  case (made_snoc m qs m' p mode)
  have "made m1 ((ps @ qs) @ [p]) (m'(p \<mapsto> (EDir, mode)))"
    by (rule made.made_snoc) (use made_snoc in auto)
  then show ?case by (simp only: append_assoc)
qed

lemma made_closed: "made m ps m' \<Longrightarrow> closed_tree m \<Longrightarrow> closed_tree m'"
  by (induction rule: made.induct) (auto simp: closed_tree_def is_dir_def)

lemma closed_fresh_no_children:
  assumes "closed_tree m" and "m p = None" and "q \<noteq> []" and "butlast q = p"
  shows "m q = None"
  using assms by (cases "m q") (auto simp: closed_tree_def is_dir_def)

text \<open>What the applier relies on when it calls the kernel on a directory tree.\<close>

locale dir_tree =
  fixes ops :: "'fs fs_ops"
    and ent :: "'fs \<Rightarrow> entries"
    and ok :: "'fs \<Rightarrow> bool"
  assumes ok_closed: "ok fs \<Longrightarrow> closed_tree (ent fs)"
    and lstat_missing: "fs_lstat ops fs p = StatMissing \<Longrightarrow> ent fs p = None"
    and lstat_entry: "fs_lstat ops fs p = StatEntry k \<Longrightarrow> \<exists>mode. ent fs p = Some (k, mode)"
    and mkdir_ok: "ok fs \<Longrightarrow> fs_mkdir ops fs p mode = (MkOk, fs') \<Longrightarrow>
      ok fs' \<and> p \<noteq> [] \<and> ent fs p = None \<and> is_dir (ent fs) (butlast p) \<and>
      (\<exists>mode'. ent fs' = (ent fs)(p \<mapsto> (EDir, mode')))"
    and mkdir_exists: "fs_mkdir ops fs p mode = (MkExists, fs') \<Longrightarrow> fs' = fs \<and> ent fs p \<noteq> None"
    and mkdir_error: "fs_mkdir ops fs p mode = (MkError e, fs') \<Longrightarrow> fs' = fs"
    and chmod_ok: "ok fs \<Longrightarrow> fs_chmod ops fs p mode = (None, fs') \<Longrightarrow> ent fs p = Some (EDir, mode') \<Longrightarrow>
      ok fs' \<and> ent fs' = (ent fs)(p \<mapsto> (EDir, mode))"
    and chmod_error: "fs_chmod ops fs p mode = (Some e, fs') \<Longrightarrow> fs' = fs"
    and rmdir_empty: "ok fs \<Longrightarrow> p \<noteq> [] \<Longrightarrow> is_dir (ent fs) p \<Longrightarrow>
      (\<And>q. q \<noteq> [] \<Longrightarrow> butlast q = p \<Longrightarrow> ent fs q = None) \<Longrightarrow>
      \<exists>fs'. fs_rmdir ops fs p = (RmOk, fs') \<and> ok fs' \<and> ent fs' = (ent fs)(p := None)"
begin

text \<open>Rolling back in reverse order undoes what was made.\<close>

lemma rollback_made:
  assumes "made m ps m'" and "closed_tree m" and "ent fs = m'" and "ok fs"
  shows "\<exists>fs'. rollback ops ps fs = ([], fs') \<and> ok fs' \<and> ent fs' = m"
  using assms
proof (induction arbitrary: fs rule: made.induct)
  case (made_nil m)
  then show ?case by (auto simp: rollback_def)
next
  case (made_snoc m ps m' p mode)
  have closed: "closed_tree m'" using made_closed made_snoc by blast
  have children: "ent fs q = None" if "q \<noteq> []" "butlast q = p" for q
  proof -
    have "length q = Suc (length p)" using that by (cases q rule: rev_cases) auto
    then have "q \<noteq> p" by auto
    then show ?thesis
      using closed_fresh_no_children [OF closed \<open>m' p = None\<close> that] by (simp add: made_snoc.prems)
  qed
  have "is_dir (ent fs) p" by (simp add: made_snoc.prems is_dir_def)
  from rmdir_empty [OF \<open>ok fs\<close> \<open>p \<noteq> []\<close> this children]
  obtain fs1 where 1: "fs_rmdir ops fs p = (RmOk, fs1)" "ok fs1" "ent fs1 = (ent fs)(p := None)"
    by blast
  then have "ent fs1 = m'"
    using made_snoc.prems \<open>m' p = None\<close> by (auto simp: fun_upd_idem)
  from made_snoc.IH [OF made_snoc.prems(1) this 1(2)] 1(1) show ?case by (simp add: rollback_def)
qed

end

text \<open>
  A directory that \<open>mkdir\<close> made is on the list of created paths only when \<open>chmod\<close> returned as
  well, so the transaction lemmas rest on one more law.
\<close>

locale reliable_dir_tree = dir_tree +
  assumes chmod_returns: "ok fs \<Longrightarrow> is_dir (ent fs) p \<Longrightarrow> fst (fs_chmod ops fs p mode) = None"
begin

text \<open>One item: every directory it made is on the list.\<close>

lemma create_paths_made:
  assumes "create_paths ops mode ps fs created actual = (res, fs', created')" and "ok fs"
  shows "ok fs' \<and> (\<exists>new. created' = created @ new \<and> made (ent fs) new (ent fs') \<and>
    (\<forall>a. res = Inr a \<longrightarrow> a = actual @ new \<and> (\<forall>p \<in> set ps. is_dir (ent fs') p)))"
  using assms(1,2)
proof (induction ps arbitrary: fs created actual)
  case Nil
  then show ?case by (auto intro: made_nil)
next
  case (Cons p ps)
  obtain mk fs1 where mk: "fs_mkdir ops fs p mode = (mk, fs1)" by fastforce
  show ?case
  proof (cases mk)
    case MkOk
    from mkdir_ok [OF Cons.prems(2)] mk MkOk obtain mode' where 1: "ok fs1" "p \<noteq> []" "ent fs p = None"
        "is_dir (ent fs) (butlast p)" "ent fs1 = (ent fs)(p \<mapsto> (EDir, mode'))"
      by blast
    then have "fst (fs_chmod ops fs1 p mode) = None"
      using chmod_returns [of fs1 p mode] by (simp add: is_dir_def)
    then obtain fs2 where ch: "fs_chmod ops fs1 p mode = (None, fs2)"
      by (metis prod.collapse)
    with 1 chmod_ok [OF 1(1) ch] have 2: "ok fs2" "ent fs2 = (ent fs)(p \<mapsto> (EDir, mode))"
      by auto
    have step: "made (ent fs) [p] (ent fs2)"
      using made_snoc [OF made_nil 1(2-4)] 2 by simp
    from Cons.prems(1) have "create_paths ops mode ps fs2 (created @ [p]) (actual @ [p]) = (res, fs', created')"
      by (simp add: mk MkOk ch)
    from Cons.IH [OF this 2(1)] obtain new where 3: "ok fs'" "created' = created @ [p] @ new"
        "made (ent fs2) new (ent fs')"
        "\<forall>a. res = Inr a \<longrightarrow> a = actual @ [p] @ new \<and> (\<forall>p \<in> set ps. is_dir (ent fs') p)"
      by auto
    then have "made (ent fs) ([p] @ new) (ent fs')"
      using made_trans step by blast
    with 3 show ?thesis
      using made_dirs [of "ent fs" "[p] @ new" "ent fs'" p] by (intro conjI exI [of _ "[p] @ new"]) auto
  next
    case MkExists
    then have fs1: "fs1 = fs" using mkdir_exists mk by blast
    show ?thesis
    proof (cases "fs_lstat ops fs p = StatEntry EDir")
      case True
      then have "is_dir (ent fs) p" using lstat_entry by (auto simp: is_dir_def)
      moreover from Cons.prems(1) have "create_paths ops mode ps fs created actual = (res, fs', created')"
        by (simp add: mk MkExists fs1 True)
      from Cons.IH [OF this Cons.prems(2)] obtain new where "ok fs'" "created' = created @ new"
          "made (ent fs) new (ent fs')"
          "\<forall>a. res = Inr a \<longrightarrow> a = actual @ new \<and> (\<forall>p \<in> set ps. is_dir (ent fs') p)"
        by auto
      ultimately show ?thesis
        by (auto simp: is_dir_def dest: made_frame)
    next
      case False
      then have "(\<exists>e. res = Inl e) \<and> fs' = fs \<and> created' = created"
        using Cons.prems(1) by (auto simp: mk MkExists fs1 split: lstat_result.splits entry_kind.splits)
      with Cons.prems(2) show ?thesis by (auto intro: made_nil)
    qed
  next
    case (MkError e)
    then have "(\<exists>e. res = Inl e) \<and> fs' = fs \<and> created' = created"
      using Cons.prems(1) mkdir_error [of fs p mode e fs1] mk by (auto simp: mk)
    with Cons.prems(2) show ?thesis by (auto intro: made_nil)
  qed
qed

lemma apply_items_made:
  assumes "apply_items ops hroot items fs created by_decision = (res, fs', created')" and "ok fs"
  shows "ok fs' \<and> (\<exists>new. created' = created @ new \<and> made (ent fs) new (ent fs') \<and>
    (\<forall>a. res = Inr a \<longrightarrow>
       (\<forall>item \<in> set items. \<not> pd_satisfied item \<longrightarrow> (\<forall>p \<in> set (pd_create item). is_dir (ent fs') p))))"
  using assms(1,2)
proof (induction items arbitrary: fs created by_decision)
  case Nil
  then show ?case by (auto intro: made_nil)
next
  case (Cons item items)
  show ?case
  proof (cases "pd_satisfied item")
    case True
    with Cons show ?thesis by fastforce
  next
    case False
    obtain r1 fs1 created1 where c: "create_paths ops (pd_mode item) (pd_create item) fs created [] = (r1, fs1, created1)"
      by (metis prod_cases3)
    from create_paths_made [OF c Cons.prems(2)] obtain new1 where 1: "ok fs1"
        "created1 = created @ new1" "made (ent fs) new1 (ent fs1)"
        "\<forall>a. r1 = Inr a \<longrightarrow> (\<forall>p \<in> set (pd_create item). is_dir (ent fs1) p)"
      by auto
    show ?thesis
    proof (cases r1)
      case (Inl e)
      with Cons.prems 1 c False show ?thesis by auto
    next
      case (Inr a)
      then obtain bd where "apply_items ops hroot items fs1 created1 bd = (res, fs', created')"
        using Cons.prems(1) c False by auto
      from Cons.IH [OF this 1(1)] obtain new2 where 2: "ok fs'" "created' = created1 @ new2"
          "made (ent fs1) new2 (ent fs')"
          "\<forall>a. res = Inr a \<longrightarrow>
            (\<forall>item \<in> set items. \<not> pd_satisfied item \<longrightarrow> (\<forall>p \<in> set (pd_create item). is_dir (ent fs') p))"
        by auto
      have "\<forall>p \<in> set (pd_create item). is_dir (ent fs') p"
        using 1(4) Inr made_frame [OF 2(3)] by (auto simp: is_dir_def)
      with 1 2 made_trans [OF 2(3) 1(3)] show ?thesis by auto
    qed
  qed
qed

end

end
