(* ===== verification/Applier_Transaction.thy ===== *)
theory Applier_Transaction
  imports Repair_Applier
begin

text \<open>
  The transaction of the repair applier on a directory tree: what the preflight promises, what
  a completed run leaves behind and what a failed run undoes, proved in the locale
  \<open>reliable_dir_tree\<close>.
\<close>

section \<open>The preflight\<close>

definition prefixes_of :: "fpath \<Rightarrow> fpath list" where
  "prefixes_of p = map (\<lambda>n. take (Suc n) p) [0..<length p]"

lemma set_prefixes_of: "q \<in> set (prefixes_of p) \<longleftrightarrow> (\<exists>n < length p. q = take (Suc n) p)"
  by (auto simp: prefixes_of_def)

lemma prefixes_of_nonempty: "q \<in> set (prefixes_of p) \<Longrightarrow> q \<noteq> []"
  by (auto simp: set_prefixes_of)

lemma prefixes_of_self: "p \<noteq> [] \<Longrightarrow> p \<in> set (prefixes_of p)"
  unfolding set_prefixes_of by (rule exI [of _ "length p - 1"]) auto

text \<open>Every prefix of the target is to be created, or will have been created, or is a directory.\<close>

lemma walk_components_sound:
  "walk_components ops fs virt cur cs = Inr (ps, sat) \<Longrightarrow>
     (\<forall>n < length cs. let q = cur @ take (Suc n) cs in
        q \<in> set ps \<or> q \<in> set virt \<or> fs_lstat ops fs q = StatEntry EDir) \<and>
     (\<forall>p \<in> set ps. (\<exists>n < length cs. p = cur @ take (Suc n) cs) \<and> fs_lstat ops fs p = StatMissing
        \<and> p \<notin> set virt) \<and>
     (sat \<longleftrightarrow> ps = [])"
proof (induction cs arbitrary: cur ps sat)
  case Nil
  then show ?case by simp
next
  case (Cons c cs)
  let ?p = "cur @ [c]"
  obtain ps1 sat1 where w: "walk_components ops fs virt ?p cs = Inr (ps1, sat1)"
      and ps: "ps = ps1 \<and> sat = sat1 \<and> (?p \<in> set virt \<or> fs_lstat ops fs ?p = StatEntry EDir)
        \<or> ps = ?p # ps1 \<and> \<not> sat \<and> fs_lstat ops fs ?p = StatMissing \<and> ?p \<notin> set virt"
    using Cons.prems
    by (auto simp: Let_def ebind_Inr_iff split: if_splits lstat_result.splits entry_kind.splits)
  note IH = Cons.IH [OF w]
  have 1: "let q = cur @ take (Suc n) (c # cs) in q \<in> set ps \<or> q \<in> set virt \<or> fs_lstat ops fs q = StatEntry EDir"
    if "n < length (c # cs)" for n
  proof (cases n)
    case 0
    then show ?thesis using ps by auto
  next
    case (Suc m)
    then have "let q = ?p @ take (Suc m) cs in q \<in> set ps1 \<or> q \<in> set virt \<or> fs_lstat ops fs q = StatEntry EDir"
      using IH that by simp
    then show ?thesis using ps Suc by (auto simp: Let_def)
  qed
  have 2: "(\<exists>n < length (c # cs). p = cur @ take (Suc n) (c # cs)) \<and> fs_lstat ops fs p = StatMissing \<and> p \<notin> set virt"
    if "p \<in> set ps" for p
  proof (cases "p \<in> set ps1")
    case True
    then obtain n where "n < length cs" "p = ?p @ take (Suc n) cs" "fs_lstat ops fs p = StatMissing" "p \<notin> set virt"
      using IH by auto
    then show ?thesis by (auto intro!: exI [of _ "Suc n"])
  next
    case False
    then show ?thesis using ps that by (auto intro!: exI [of _ 0])
  qed
  show ?case using 1 2 ps IH by blast
qed

lemma prepare_directory_Inr:
  assumes "prepare_directory cfg ops fs virt d = Inr item"
  shows "pd_decision item = d \<and> applier_guest_path cfg (rd_resource d) = Inr (pd_guest_path item) \<and>
    pd_target item = pp_comps (pp_parse (pd_guest_path item)) \<and>
    walk_components ops fs virt [] (pd_target item) = Inr (pd_create item, pd_satisfied item) \<and>
    parse_mode (rd_id d) (jget (rd_parameters d) ''mode'') = Inr (pd_mode item)"
  using assms by (auto simp: prepare_directory_def ebind_Inr_iff Let_def split: if_splits)

lemma prepare_directory_targets:
  assumes "prepare_directory cfg ops fs virt d = Inr item"
  shows "\<forall>q \<in> set (prefixes_of (pd_target item)).
      q \<in> set (pd_create item) \<or> q \<in> set virt \<or> fs_lstat ops fs q = StatEntry EDir"
    and "set (pd_create item) \<subseteq> set (prefixes_of (pd_target item))"
    and "pd_satisfied item \<longleftrightarrow> pd_create item = []"
  using walk_components_sound [of ops fs virt "[]" "pd_target item" "pd_create item" "pd_satisfied item"]
    prepare_directory_Inr [OF assms]
  by (auto simp: set_prefixes_of Let_def)

lemma preflight_ids:
  "preflight cfg ops fs hroot dry virt ds = Inr (items, results) \<Longrightarrow> map dr_id results = map rd_id ds"
  by (induction ds arbitrary: virt items results)
     (auto simp: ebind_Inr_iff plain_result_def preflight_result_def if_Inl_iff
       dest: prepare_directory_Inr split: if_splits)

text \<open>The items are exactly the automatic decisions, in the order of the plan.\<close>

lemma preflight_decisions:
  "preflight cfg ops fs hroot dry virt ds = Inr (items, results) \<Longrightarrow>
     map pd_decision items = filter rd_automatic ds \<and>
     (\<forall>d \<in> set ds. rd_automatic d \<longrightarrow> rd_disposition d = AutoCandidate \<and> rd_action d = CreateDirectory
        \<and> CreateDirectory \<in> set (ac_allowed cfg))"
  by (induction ds arbitrary: virt items results)
     (auto simp: ebind_Inr_iff if_Inl_iff dest: prepare_directory_Inr split: if_splits)

lemma preflight_items:
  "preflight cfg ops fs hroot dry virt ds = Inr (items, results) \<Longrightarrow> item \<in> set items \<Longrightarrow>
     (\<forall>q \<in> set (prefixes_of (pd_target item)).
        (\<exists>i \<in> set items. q \<in> set (pd_create i)) \<or> q \<in> set virt \<or> fs_lstat ops fs q = StatEntry EDir) \<and>
     set (pd_create item) \<subseteq> set (prefixes_of (pd_target item)) \<and>
     (pd_satisfied item \<longleftrightarrow> pd_create item = []) \<and>
     applier_guest_path cfg (rd_resource (pd_decision item)) = Inr (pd_guest_path item) \<and>
     pd_target item = pp_comps (pp_parse (pd_guest_path item))"
proof (induction ds arbitrary: virt items results)
  case Nil
  then show ?case by simp
next
  case (Cons d ds)
  show ?case
  proof (cases "rd_automatic d")
    case False
    then obtain results' where "preflight cfg ops fs hroot dry virt ds = Inr (items, results')"
      using Cons.prems(1) by (auto simp: ebind_Inr_iff)
    from Cons.IH [OF this Cons.prems(2)] show ?thesis .
  next
    case True
    then obtain i items' results' where p: "prepare_directory cfg ops fs virt d = Inr i"
        and r: "preflight cfg ops fs hroot dry (pd_create i @ virt) ds = Inr (items', results')"
        and items: "items = i # items'"
      using Cons.prems(1) by (auto simp: ebind_Inr_iff if_Inl_iff split: if_splits)
    show ?thesis
    proof (cases "item = i")
      case True
      then show ?thesis
        using prepare_directory_targets [OF p] prepare_directory_Inr [OF p] items by auto
    next
      case False
      then have "item \<in> set items'" using Cons.prems(2) items by simp
      from Cons.IH [OF r this] show ?thesis using items by auto
    qed
  qed
qed

section \<open>The transaction\<close>

lemma create_paths_subset:
  "create_paths ops mode ps fs created actual = (res, fs', created') \<Longrightarrow>
     \<exists>new. created' = created @ new \<and> set new \<subseteq> set ps"
proof (induction ps arbitrary: fs created actual)
  case Nil
  then show ?case by simp
next
  case (Cons p ps)
  from Cons.prems consider "created' = created"
    | fs2 ac where "create_paths ops mode ps fs2 created ac = (res, fs', created')"
    | fs2 ac where "create_paths ops mode ps fs2 (created @ [p]) ac = (res, fs', created')"
    by (auto split: prod.splits mkdir_result.splits option.splits lstat_result.splits entry_kind.splits)
  then show ?case
  proof cases
    case 1
    then show ?thesis by simp
  next
    case 2
    from Cons.IH [OF this] show ?thesis by fastforce
  next
    case 3
    from Cons.IH [OF this] obtain new where "created' = (created @ [p]) @ new" "set new \<subseteq> set ps"
      by blast
    then show ?thesis by (intro exI [of _ "p # new"]) auto
  qed
qed

lemma apply_items_subset:
  "apply_items ops hroot items fs created bd = (res, fs', created') \<Longrightarrow>
     \<exists>new. created' = created @ new \<and> set new \<subseteq> (\<Union>i \<in> set items. set (pd_create i))"
proof (induction items arbitrary: fs created bd)
  case Nil
  then show ?case by simp
next
  case (Cons item items)
  show ?case
  proof (cases "pd_satisfied item")
    case True
    with Cons show ?thesis by fastforce
  next
    case False
    obtain r1 fs1 created1 where c: "create_paths ops (pd_mode item) (pd_create item) fs created [] = (r1, fs1, created1)"
      by (metis prod_cases3)
    from create_paths_subset [OF c] obtain new
      where new: "created1 = created @ new" "set new \<subseteq> set (pd_create item)" by blast
    show ?thesis
    proof (cases r1)
      case (Inl e)
      then show ?thesis using Cons.prems c False new by auto
    next
      case (Inr a)
      then obtain bd' where "apply_items ops hroot items fs1 created1 bd' = (res, fs', created')"
        using Cons.prems c False by auto
      from Cons.IH [OF this] obtain new2 where "created' = created1 @ new2"
          "set new2 \<subseteq> (\<Union>i \<in> set items. set (pd_create i))" by blast
      then show ?thesis using new by auto
    qed
  qed
qed

lemma rollback_Nil [simp]: "rollback ops [] fs = ([], fs)"
  by (simp add: rollback_def)

lemma fail_transaction_Inl:
  "\<exists>e'. ao_result (fail_transaction ops sv mk hroot e results fs created) = Inl e'"
  by (auto simp: fail_transaction_def Let_def split: prod.splits option.splits)

lemma fail_transaction_fs:
  "ao_fs (fail_transaction ops sv mk hroot e results fs created) = snd (rollback ops created fs)"
  by (auto simp: fail_transaction_def Let_def split: prod.splits option.splits)

lemma fail_transaction_saved:
  "rep \<in> set (ao_saved (fail_transaction ops sv mk hroot e results fs created)) \<Longrightarrow>
     rep = mk AFailed (mark_rolled_back (map (host_str hroot) created) results)
             (fst (rollback ops created fs)) (Some e)"
  by (auto simp: fail_transaction_def Let_def split: prod.splits option.splits)

lemma run_transaction_dry: "ao_fs (run_transaction cfg ops between sv mk hroot True ds fs) = fs"
  by (auto simp: run_transaction_def fail_transaction_fs Let_def split: sum.splits prod.splits option.splits)

text \<open>Every run without dry run is a failure or a completed run.\<close>

lemma run_transaction_cases:
  assumes "run_transaction cfg ops between sv mk hroot False ds fs = out"
  obtains (preflight) e where "out = fail_transaction ops sv mk hroot e [] fs []"
  | (failed) items results res fs1 created e where
      "preflight cfg ops fs hroot False [] ds = Inr (items, results)"
      "apply_prepared ops hroot items results (between fs) = (res, fs1, created)"
      "\<exists>results'. out = fail_transaction ops sv mk hroot e results' fs1 created"
  | (completed) items results results2 fs1 created where
      "preflight cfg ops fs hroot False [] ds = Inr (items, results)"
      "apply_prepared ops hroot items results (between fs) = (Inr results2, fs1, created)"
      "out = \<lparr>ao_result = Inr (mk ACompleted results2 [] None), ao_fs = fs1,
              ao_saved = [mk ACompleted results2 [] None]\<rparr>"
proof (cases "preflight cfg ops fs hroot False [] ds")
  case (Inl e)
  then show ?thesis using assms preflight [of e] by (simp add: run_transaction_def)
next
  case (Inr x)
  obtain items results where x: "x = (items, results)" by fastforce
  obtain res fs1 created where ap: "apply_prepared ops hroot items results (between fs) = (res, fs1, created)"
    by (metis prod_cases3)
  show ?thesis
  proof (cases res)
    case (Inl e)
    show ?thesis
      by (rule failed [OF _ ap]) (use assms Inr x ap Inl in \<open>auto simp: run_transaction_def\<close>)
  next
    case res: (Inr results2)
    show ?thesis
    proof (cases "sv (mk ACompleted results2 [] None)")
      case None
      show ?thesis
        by (rule completed [OF _ ap [unfolded res]])
           (use assms Inr x ap res None in \<open>auto simp: run_transaction_def Let_def\<close>)
    next
      case (Some msg)
      show ?thesis
        by (rule failed [OF _ ap]) (use assms Inr x ap res Some in \<open>auto simp: run_transaction_def Let_def\<close>)
    qed
  qed
qed

lemma apply_prepared_items:
  assumes "apply_prepared ops hroot items initial fs = (res, fs1, created)"
  obtains r where "apply_items ops hroot items fs [] (rev (map (\<lambda>r. (dr_id r, r)) initial)) = (r, fs1, created)"
    and "\<forall>a. res = Inr a \<longrightarrow> (\<exists>b. r = Inr b)"
  using assms by (auto simp: apply_prepared_def split: prod.splits sum.splits)

context reliable_dir_tree begin

text \<open>Whatever stops a run, the entries are those it started from.\<close>

lemma run_failed_restores:
  assumes run: "run_transaction cfg ops between sv mk hroot False ds fs = out"
    and failed: "ao_result out = Inl e"
    and ok: "ok fs" "ok (between fs)"
  shows "ent (ao_fs out) = ent fs \<or> ent (ao_fs out) = ent (between fs)"
    and "rep \<in> set (ao_saved out) \<Longrightarrow> \<exists>results e'. rep = mk AFailed results [] (Some e')"
proof -
  have "(ent (ao_fs out) = ent fs \<or> ent (ao_fs out) = ent (between fs)) \<and>
      (rep \<in> set (ao_saved out) \<longrightarrow> (\<exists>results e'. rep = mk AFailed results [] (Some e')))"
    using run
  proof (cases rule: run_transaction_cases)
    case (preflight e')
    then show ?thesis
      using fail_transaction_saved [of rep ops sv mk hroot e' "[]" fs "[]"] by (auto simp: fail_transaction_fs)
  next
    case (failed items results res fs1 created e')
    from failed(2) obtain r where
      r: "apply_items ops hroot items (between fs) [] (rev (map (\<lambda>r. (dr_id r, r)) results)) = (r, fs1, created)"
      by (rule apply_prepared_items)
    from apply_items_made [OF r ok(2)]
    have 1: "ok fs1" "made (ent (between fs)) created (ent fs1)" by auto
    from rollback_made [OF 1(2) ok_closed [OF ok(2)] refl 1(1)] obtain fs2
      where 2: "rollback ops created fs1 = ([], fs2)" "ent fs2 = ent (between fs)" by blast
    from failed(3) obtain results' where out: "out = fail_transaction ops sv mk hroot e' results' fs1 created"
      by blast
    show ?thesis
      using fail_transaction_saved [of rep ops sv mk hroot e' results' fs1 created] 2
      by (auto simp: out fail_transaction_fs)
  next
    case (completed items results results2 fs1 created)
    then show ?thesis using assms(2) by simp
  qed
  then show "ent (ao_fs out) = ent fs \<or> ent (ao_fs out) = ent (between fs)"
    and "rep \<in> set (ao_saved out) \<Longrightarrow> \<exists>results e'. rep = mk AFailed results [] (Some e')"
    by blast+
qed

text \<open>A completed run has created directories only, below the targets, and every target exists.\<close>

lemma run_completed_made:
  assumes run: "run_transaction cfg ops id sv mk hroot False ds fs = out"
    and fin: "ao_result out = Inr rep"
    and ok: "ok fs"
  obtains items results results2 new where "preflight cfg ops fs hroot False [] ds = Inr (items, results)"
    and "rep = mk ACompleted results2 [] None"
    and "made (ent fs) new (ent (ao_fs out))"
    and "set new \<subseteq> (\<Union>i \<in> set items. set (prefixes_of (pd_target i)))"
    and "\<And>item q. item \<in> set items \<Longrightarrow> q \<in> set (prefixes_of (pd_target item)) \<Longrightarrow> is_dir (ent (ao_fs out)) q"
  using run
proof (cases rule: run_transaction_cases)
  case (preflight e)
  then show ?thesis using fin fail_transaction_Inl by (metis sum.distinct(1))
next
  case (failed items results res fs1 created e)
  then show ?thesis using fin fail_transaction_Inl by (metis sum.distinct(1))
next
  case (completed items results results2 fs1 created)
  from completed(2) obtain r where
    r: "apply_items ops hroot items fs [] (rev (map (\<lambda>r. (dr_id r, r)) results)) = (r, fs1, created)"
    and rI: "\<exists>b. r = Inr b"
    by (auto elim: apply_prepared_items)
  from apply_items_made [OF r ok] rI
  have made: "made (ent fs) created (ent fs1)" and
    dirs: "\<forall>item \<in> set items. \<not> pd_satisfied item \<longrightarrow> (\<forall>p \<in> set (pd_create item). is_dir (ent fs1) p)"
    by auto
  have sub: "set created \<subseteq> (\<Union>i \<in> set items. set (pd_create i))"
    using apply_items_subset [OF r] by auto
  have fs1: "ao_fs out = fs1" by (simp add: completed(3))
  show ?thesis
  proof (rule that [OF completed(1), of results2 created])
    show "rep = mk ACompleted results2 [] None" using fin completed(3) by simp
    show "made (ent fs) created (ent (ao_fs out))" using made fs1 by simp
    show "set created \<subseteq> (\<Union>i \<in> set items. set (prefixes_of (pd_target i)))"
      using sub preflight_items [OF completed(1)] by blast
    show "is_dir (ent (ao_fs out)) q" if "item \<in> set items" "q \<in> set (prefixes_of (pd_target item))" for item q
    proof -
      have "(\<exists>i \<in> set items. q \<in> set (pd_create i)) \<or> q \<in> set [] \<or> fs_lstat ops fs q = StatEntry EDir"
        using preflight_items [OF completed(1) that(1)] that(2) by blast
      then consider i where "i \<in> set items" "q \<in> set (pd_create i)" | "fs_lstat ops fs q = StatEntry EDir"
        by auto
      then show ?thesis
      proof cases
        case 1
        then have "\<not> pd_satisfied i" using preflight_items [OF completed(1), of i] by auto
        with 1 dirs show ?thesis by (simp add: fs1)
      next
        case 2
        from lstat_entry [OF 2] obtain mode where "ent fs q = Some (EDir, mode)" by blast
        from made_frame [OF made this] show ?thesis by (auto simp: is_dir_def fs1)
      qed
    qed
  qed
qed

end

end
