(* ===== verification/Applier_Results.thy ===== *)
theory Applier_Results
  imports Applier_Transaction
begin

text \<open>
  The result list of a completed run: one result per decision of the plan, in its order, with a
  status that says what happened to the decision.
\<close>

section \<open>Results by decision\<close>

lemma preflight_results:
  "preflight cfg ops fs hroot dry virt ds = Inr (items, results) \<Longrightarrow>
     list_all2 (\<lambda>d r. if rd_automatic d
         then \<exists>item \<in> set items. pd_decision item = d \<and> r = preflight_result hroot dry item
         else dr_id r = rd_id d \<and> dr_status r = RNotSelected) ds results"
proof (induction ds arbitrary: virt items results)
  case Nil
  then show ?case by simp
next
  case (Cons d ds)
  show ?case
  proof (cases "rd_automatic d")
    case False
    then obtain results' where r: "preflight cfg ops fs hroot dry virt ds = Inr (items, results')"
        and results: "results = plain_result d RNotSelected
             ''The planner did not authorize automatic application for this decision.'' # results'"
      using Cons.prems by (auto simp: ebind_Inr_iff)
    show ?thesis using Cons.IH [OF r] False by (simp add: results plain_result_def)
  next
    case True
    then obtain i items' results' where p: "prepare_directory cfg ops fs virt d = Inr i"
        and r: "preflight cfg ops fs hroot dry (pd_create i @ virt) ds = Inr (items', results')"
        and eq: "items = i # items'" "results = preflight_result hroot dry i # results'"
      using Cons.prems by (auto simp: ebind_Inr_iff if_Inl_iff split: if_splits)
    show ?thesis
      using Cons.IH [OF r] prepare_directory_Inr [OF p] True unfolding eq
      by (auto elim!: list_all2_mono split: if_splits)
  qed
qed

lemma apply_items_results:
  "apply_items ops hroot items fs created bd = (Inr bd', fs', created') \<Longrightarrow>
     (k \<notin> rd_id ` pd_decision ` {i \<in> set items. \<not> pd_satisfied i} \<longrightarrow> map_of bd' k = map_of bd k) \<and>
     (k \<in> rd_id ` pd_decision ` {i \<in> set items. \<not> pd_satisfied i} \<longrightarrow>
        (\<exists>i \<in> set items. \<exists>actual. rd_id (pd_decision i) = k \<and> map_of bd' k = Some (applied_result hroot i actual)))"
proof (induction items arbitrary: fs created bd)
  case Nil
  then show ?case by simp
next
  case (Cons item items)
  let ?unsat = "\<lambda>items. rd_id ` pd_decision ` {i \<in> set items. \<not> pd_satisfied i}"
  show ?case
  proof (cases "pd_satisfied item")
    case True
    then have ids: "?unsat (item # items) = ?unsat items" by auto
    from Cons.prems True have "apply_items ops hroot items fs created bd = (Inr bd', fs', created')" by simp
    from Cons.IH [OF this] show ?thesis unfolding ids by auto
  next
    case False
    then obtain actual fs1 created1 where "apply_items ops hroot items fs1 created1
        ((rd_id (pd_decision item), applied_result hroot item actual) # bd) = (Inr bd', fs', created')"
      using Cons.prems by (auto split: prod.splits sum.splits)
    note IH = Cons.IH [OF this]
    have ids: "?unsat (item # items) = insert (rd_id (pd_decision item)) (?unsat items)"
      using False by auto
    show ?thesis
    proof (cases "k \<in> ?unsat items")
      case True
      then show ?thesis using IH unfolding ids by auto
    next
      case out: False
      then show ?thesis using IH unfolding ids by auto
    qed
  qed
qed

lemma collect_results_nth:
  assumes "collect_results bd initial = Inr results"
  shows "list_all2 (\<lambda>r r'. map_of bd (dr_id r) = Some r') initial results"
  using assms unfolding collect_results_def
  by (induction initial arbitrary: results) (auto simp: ebind_Inr_iff split: option.splits)

lemma map_of_ids:
  assumes "distinct (map dr_id rs)" and "r \<in> set rs"
  shows "map_of (rev (map (\<lambda>r. (dr_id r, r)) rs)) (dr_id r) = Some r"
proof -
  have "distinct (map fst (rev (map (\<lambda>r. (dr_id r, r)) rs)))"
    using assms(1) by (simp add: rev_map [symmetric] comp_def)
  then show ?thesis using assms(2) by (simp add: map_of_eq_Some_iff)
qed

definition settled :: "repair_decision \<Rightarrow> decision_result \<Rightarrow> bool" where
  "settled d r \<longleftrightarrow> dr_id r = rd_id d \<and>
     (if rd_automatic d then dr_status r = RApplied \<and> dr_created r \<noteq> [] \<or> dr_status r = RAlreadySatisfied
      else dr_status r = RNotSelected)"

lemma applied_result_settled:
  "rd_id (pd_decision i) = rd_id d \<Longrightarrow> rd_automatic d \<Longrightarrow> settled d (applied_result hroot i actual)"
  by (simp add: settled_def applied_result_def plain_result_def)

lemma apply_prepared_settled:
  assumes pre: "preflight cfg ops fs hroot dry virt ds = Inr (items, initial)"
    and ap: "apply_prepared ops hroot items initial fs0 = (Inr results, fs1, created)"
    and ids: "distinct (map rd_id ds)"
  shows "list_all2 settled ds results"
proof -
  obtain bd where items: "apply_items ops hroot items fs0 [] (rev (map (\<lambda>r. (dr_id r, r)) initial)) = (Inr bd, fs1, created)"
      and col: "collect_results bd initial = Inr results"
    using ap by (auto simp: apply_prepared_def split: prod.splits sum.splits)
  note final = apply_items_results [OF items]
  have pres: "list_all2 (\<lambda>d r. if rd_automatic d
         then \<exists>item \<in> set items. pd_decision item = d \<and> r = preflight_result hroot dry item
         else dr_id r = rd_id d \<and> dr_status r = RNotSelected) ds initial"
    by (rule preflight_results [OF pre])
  have di: "distinct (map dr_id initial)" using preflight_ids [OF pre] ids by simp
  have idi: "map dr_id initial = map rd_id ds" by (rule preflight_ids [OF pre])
  have auto_items: "i \<in> set items \<Longrightarrow> rd_automatic (pd_decision i) \<and> pd_decision i \<in> set ds" for i
  proof -
    assume "i \<in> set items"
    then have "pd_decision i \<in> set (map pd_decision items)" by simp
    also have "map pd_decision items = filter rd_automatic ds" using preflight_decisions [OF pre] by blast
    finally show ?thesis by simp
  qed
  show ?thesis
  proof (rule list_all2_all_nthI)
    show "length ds = length results"
      using list_all2_lengthD [OF pres] list_all2_lengthD [OF collect_results_nth [OF col]] by simp
    fix n assume n: "n < length ds"
    let ?d = "ds ! n" and ?r = "initial ! n"
    have len: "n < length initial" using n list_all2_lengthD [OF pres] by simp
    have id: "dr_id ?r = rd_id ?d" using idi n len by (metis nth_map)
    have res: "map_of bd (rd_id ?d) = Some (results ! n)"
      using list_all2_nthD [OF collect_results_nth [OF col] len] id by simp
    have start: "map_of (rev (map (\<lambda>r. (dr_id r, r)) initial)) (rd_id ?d) = Some ?r"
      using map_of_ids [OF di nth_mem [OF len]] id by simp
    have p: "if rd_automatic ?d
         then \<exists>item \<in> set items. pd_decision item = ?d \<and> ?r = preflight_result hroot dry item
         else dr_id ?r = rd_id ?d \<and> dr_status ?r = RNotSelected"
      using list_all2_nthD [OF pres n] .
    have own: "pd_decision i = ?d" if "i \<in> set items" "rd_id (pd_decision i) = rd_id ?d" for i
      using auto_items [OF that(1)] that(2) ids n by (metis distinct_map inj_onD nth_mem)
    show "settled ?d (results ! n)"
    proof (cases "rd_id ?d \<in> rd_id ` pd_decision ` {i \<in> set items. \<not> pd_satisfied i}")
      case True
      then obtain i actual where i: "i \<in> set items" "rd_id (pd_decision i) = rd_id ?d"
          "map_of bd (rd_id ?d) = Some (applied_result hroot i actual)"
        using final [of "rd_id ?d"] by blast
      have "rd_automatic ?d" using auto_items [OF i(1)] own [OF i(1,2)] by simp
      then show ?thesis using applied_result_settled [OF i(2)] i(3) res by simp
    next
      case False
      then have same: "results ! n = ?r" using final [of "rd_id ?d"] res start by simp
      show ?thesis
      proof (cases "rd_automatic ?d")
        case True
        then obtain i where i: "i \<in> set items" "pd_decision i = ?d" "?r = preflight_result hroot dry i"
          using p by auto
        have "pd_satisfied i"
        proof (rule ccontr)
          assume "\<not> pd_satisfied i"
          with i(1) have "rd_id (pd_decision i) \<in> rd_id ` pd_decision ` {i \<in> set items. \<not> pd_satisfied i}" by blast
          with False i(2) show False by simp
        qed
        then show ?thesis
          using True i by (simp add: same settled_def preflight_result_def plain_result_def)
      next
        case not_auto: False
        then show ?thesis using p by (simp add: same settled_def)
      qed
    qed
  qed
qed

section \<open>Completed runs\<close>

lemma apply_file_run:
  assumes "apply_file cfg ops between sv loads now pp pf rp rf hroot dry fs = out"
  obtains (refused) e where "out = \<lparr>ao_result = Inl e, ao_fs = fs, ao_saved = []\<rparr>"
  | (run) plan hr psha rsha where
      "load_inputs loads pf rf hroot = Inr (plan, hr, psha, rsha)"
      "run_transaction cfg ops between sv
        (\<lambda>st results errs e.
           \<lparr>ar_id = application_id psha rsha hr, ar_state = st, ar_plan_path = pp, ar_plan_sha256 = psha,
            ar_requirements_path = rp, ar_requirements_sha256 = rsha, ar_rootfs = hr, ar_dry_run = dry,
            ar_results = results, ar_rollback_errors = errs, ar_error = e, ar_generated_at = now\<rparr>)
        hr dry (rp_decisions plan) fs = out"
proof (cases "load_inputs loads pf rf hroot")
  case (Inl e)
  then show ?thesis using assms refused [of e] by (simp add: apply_file_def)
next
  case (Inr x)
  obtain plan hr psha rsha where x: "x = (plan, hr, psha, rsha)" by (metis prod_cases4)
  show ?thesis by (rule run [OF Inr [unfolded x]]) (use assms Inr x in \<open>simp add: apply_file_def\<close>)
qed

context reliable_dir_tree
begin

lemma apply_completed:
  assumes out: "apply_file cfg ops id sv loads now pp pf rp rf hroot False fs = out"
    and ok: "ok fs" and fin: "ao_result out = Inr rep" and plan: "plan_load loads pf = Inr plan"
  shows "(\<forall>d \<in> set (rp_decisions plan). rd_automatic d \<longrightarrow>
       (\<exists>g. applier_guest_path cfg (rd_resource d) = Inr g \<and>
          (\<forall>q \<in> set (prefixes_of (pp_comps (pp_parse g))). is_dir (ent (ao_fs out)) q))) \<and>
    (\<forall>q v. ent fs q = Some v \<longrightarrow> ent (ao_fs out) q = Some v) \<and>
    (\<forall>q. ent fs q = None \<longrightarrow> ent (ao_fs out) q \<noteq> None \<longrightarrow> is_dir (ent (ao_fs out)) q \<and>
       (\<exists>d g. d \<in> set (rp_decisions plan) \<and> rd_automatic d \<and> applier_guest_path cfg (rd_resource d) = Inr g \<and>
          q \<in> set (prefixes_of (pp_comps (pp_parse g)))))"
proof -
  from out show ?thesis
  proof (cases rule: apply_file_run)
    case (refused e)
    then show ?thesis using fin by simp
  next
    case (run plan' hr psha rsha)
    have "plan' = plan"
      using run(1) plan by (auto simp: load_inputs_def ebind_Inr_iff split: if_splits)
    from run_completed_made [OF run(2) fin ok]
    obtain items results results2 new where
        pre: "preflight cfg ops fs hr False [] (rp_decisions plan') = Inr (items, results)"
      and made: "made (ent fs) new (ent (ao_fs out))"
      and sub: "set new \<subseteq> (\<Union>i \<in> set items. set (prefixes_of (pd_target i)))"
      and dirs: "\<And>item q. item \<in> set items \<Longrightarrow> q \<in> set (prefixes_of (pd_target item)) \<Longrightarrow>
            is_dir (ent (ao_fs out)) q"
      by metis
    have decs: "map pd_decision items = filter rd_automatic (rp_decisions plan)"
      using preflight_decisions [OF pre] \<open>plan' = plan\<close> by blast
    have item: "applier_guest_path cfg (rd_resource (pd_decision i)) = Inr (pd_guest_path i) \<and>
        pd_target i = pp_comps (pp_parse (pd_guest_path i))" if "i \<in> set items" for i
      using preflight_items [OF pre that] by blast
    have 1: "\<exists>g. applier_guest_path cfg (rd_resource d) = Inr g \<and>
          (\<forall>q \<in> set (prefixes_of (pp_comps (pp_parse g))). is_dir (ent (ao_fs out)) q)"
      if "d \<in> set (rp_decisions plan)" "rd_automatic d" for d
    proof -
      have "d \<in> set (map pd_decision items)" using that by (simp add: decs del: set_map)
      then obtain i where i: "i \<in> set items" "pd_decision i = d" by auto
      then show ?thesis using item [OF i(1)] dirs [OF i(1)] by auto
    qed
    have 2: "is_dir (ent (ao_fs out)) q \<and>
       (\<exists>d g. d \<in> set (rp_decisions plan) \<and> rd_automatic d \<and> applier_guest_path cfg (rd_resource d) = Inr g \<and>
          q \<in> set (prefixes_of (pp_comps (pp_parse g))))"
      if "ent fs q = None" "ent (ao_fs out) q \<noteq> None" for q
    proof -
      have "q \<in> set new" using that made_other [OF made, of q] by (cases "q \<in> set new") auto
      then obtain i where i: "i \<in> set items" "q \<in> set (prefixes_of (pd_target i))" using sub by blast
      have "pd_decision i \<in> set (map pd_decision items)" using i by simp
      then have "pd_decision i \<in> set (rp_decisions plan) \<and> rd_automatic (pd_decision i)"
        unfolding decs by simp
      then show ?thesis using dirs [OF i] item [OF i(1)] i(2) by auto
    qed
    show ?thesis using 1 2 made_frame [OF made] by blast
  qed
qed


end

end
