(* ===== verification/Applier_Tree.thy ===== *)
theory Applier_Tree
  imports Applier_Results
begin

text \<open>
  A directory tree as an association list, with calls that can be told to fail: the instance of
  \<open>dir_tree\<close> on which the applier is run.  Symbolic links are entries that resolve nowhere: the
  applier never walks through one, and a concurrent process that plants one is not modelled.
\<close>

unbundle bit_operations_syntax

record tree =
  tr_entries :: "(fpath \<times> entry_kind \<times> nat) list"
  tr_umask :: nat
  tr_lstat_fail :: "(fpath \<times> string) list"
  tr_mkdir_fail :: "(fpath \<times> string) list"
  tr_chmod_fail :: "(fpath \<times> string) list"
  tr_rmdir_fail :: "(fpath \<times> string) list"

definition tree_ent :: "tree \<Rightarrow> entries" where
  "tree_ent t = map_of (tr_entries t)"

lemma is_dir_code [code]:
  "is_dir m p = (case m p of Some (EDir, _) \<Rightarrow> True | _ \<Rightarrow> False)"
  by (auto simp: is_dir_def split: option.splits entry_kind.splits prod.splits)

definition tree_lstat :: "tree \<Rightarrow> fpath \<Rightarrow> lstat_result" where
  "tree_lstat t p =
     (case map_of (tr_lstat_fail t) p of
        Some e \<Rightarrow> StatError e
      | None \<Rightarrow> (case tree_ent t p of None \<Rightarrow> StatMissing | Some (k, _) \<Rightarrow> StatEntry k))"

definition put_entry :: "fpath \<Rightarrow> entry_kind \<Rightarrow> nat \<Rightarrow> tree \<Rightarrow> tree" where
  "put_entry p k mode t = t\<lparr>tr_entries := (p, k, mode) # tr_entries t\<rparr>"

definition tree_mkdir :: "tree \<Rightarrow> fpath \<Rightarrow> nat \<Rightarrow> mkdir_result \<times> tree" where
  "tree_mkdir t p mode =
     (if p = [] \<or> tree_ent t p \<noteq> None then (if tree_ent t p = None then MkError ''No such file or directory''
        else MkExists, t)
      else if \<not> is_dir (tree_ent t) (butlast p)
      then (MkError (if tree_ent t (butlast p) = None then ''No such file or directory''
                     else ''Not a directory''), t)
      else (case map_of (tr_mkdir_fail t) p of
          Some e \<Rightarrow> (MkError e, t)
        | None \<Rightarrow> (MkOk, put_entry p EDir (mode - (mode AND tr_umask t)) t)))"

definition tree_chmod :: "tree \<Rightarrow> fpath \<Rightarrow> nat \<Rightarrow> string option \<times> tree" where
  "tree_chmod t p mode =
     (case tree_ent t p of
        None \<Rightarrow> (Some ''No such file or directory'', t)
      | Some (k, _) \<Rightarrow>
          (case map_of (tr_chmod_fail t) p of
             Some e \<Rightarrow> (Some e, t)
           | None \<Rightarrow> (None, put_entry p k mode t)))"

definition tree_rmdir :: "tree \<Rightarrow> fpath \<Rightarrow> rmdir_result \<times> tree" where
  "tree_rmdir t p =
     (if tree_ent t p = None then (RmMissing, t)
      else if \<not> is_dir (tree_ent t) p then (RmError ''Not a directory'', t)
      else if p = [] then (RmError ''Device or resource busy'', t)
      else if list_ex (\<lambda>(q, _). q \<noteq> [] \<and> butlast q = p) (tr_entries t)
      then (RmError ''Directory not empty'', t)
      else (case map_of (tr_rmdir_fail t) p of
          Some e \<Rightarrow> (RmError e, t)
        | None \<Rightarrow> (RmOk, t\<lparr>tr_entries := filter (\<lambda>(q, _). q \<noteq> p) (tr_entries t)\<rparr>)))"

definition tree_ops :: "tree fs_ops" where
  "tree_ops = \<lparr>fs_lstat = tree_lstat, fs_mkdir = tree_mkdir, fs_chmod = tree_chmod, fs_rmdir = tree_rmdir\<rparr>"

section \<open>The laws hold\<close>

definition tree_ok :: "tree \<Rightarrow> bool" where
  "tree_ok t \<longleftrightarrow> closed_tree (tree_ent t) \<and> tr_rmdir_fail t = []"

definition tree_reliable :: "tree \<Rightarrow> bool" where
  "tree_reliable t \<longleftrightarrow> tree_ok t \<and> tr_chmod_fail t = []"

lemma tree_ent_put [simp]: "tree_ent (put_entry p k mode t) = (tree_ent t)(p \<mapsto> (k, mode))"
  by (simp add: tree_ent_def put_entry_def)

lemma put_entry_fails [simp]:
  "tr_rmdir_fail (put_entry p k mode t) = tr_rmdir_fail t"
  "tr_chmod_fail (put_entry p k mode t) = tr_chmod_fail t"
  by (simp_all add: put_entry_def)

lemma map_of_remove: "map_of (filter (\<lambda>(q, _). q \<noteq> p) xs) = (map_of xs)(p := None)"
  by (induction xs) (auto simp: fun_eq_iff)

lemma no_entry: "(\<forall>a b. m p \<noteq> Some (a, b)) \<longleftrightarrow> m p = None"
  by (cases "m p") auto

lemma butlast_self: "butlast p = p \<longleftrightarrow> p = []"
  by (cases p rule: rev_cases) auto

lemma closed_tree_put_dir:
  "closed_tree m \<Longrightarrow> is_dir m (butlast p) \<Longrightarrow> closed_tree (m(p \<mapsto> (EDir, mode)))"
  by (auto simp: closed_tree_def is_dir_def)

lemma closed_tree_chmod:
  "closed_tree m \<Longrightarrow> m p = Some (k, mode') \<Longrightarrow> closed_tree (m(p \<mapsto> (k, mode)))"
  by (auto simp: closed_tree_def is_dir_def butlast_self)

lemma closed_tree_remove:
  "closed_tree m \<Longrightarrow> p \<noteq> [] \<Longrightarrow> (\<And>q. q \<noteq> [] \<Longrightarrow> butlast q = p \<Longrightarrow> m q = None) \<Longrightarrow> closed_tree (m(p := None))"
  by (auto simp: closed_tree_def is_dir_def)

lemmas tree_call_defs = tree_ops_def tree_lstat_def tree_mkdir_def tree_chmod_def tree_rmdir_def

lemma tree_rmdir_empty:
  assumes "tree_ok t" and "p \<noteq> []" and "is_dir (tree_ent t) p"
    and children: "\<And>q. q \<noteq> [] \<Longrightarrow> butlast q = p \<Longrightarrow> tree_ent t q = None"
  shows "\<exists>t'. tree_rmdir t p = (RmOk, t') \<and> tree_ok t' \<and> tree_ent t' = (tree_ent t)(p := None)
    \<and> tr_chmod_fail t' = tr_chmod_fail t"
proof -
  have none: "\<not> list_ex (\<lambda>(q, _). q \<noteq> [] \<and> butlast q = p) (tr_entries t)"
    using children by (force simp: list_ex_iff tree_ent_def map_of_eq_None_iff)
  have "tree_ent t p \<noteq> None" using assms(3) by (auto simp: is_dir_def)
  then show ?thesis
    using assms(1-3) none closed_tree_remove [of "tree_ent t" p] children
    by (auto simp: tree_rmdir_def tree_ok_def tree_ent_def map_of_remove)
qed

interpretation tree: dir_tree tree_ops tree_ent tree_ok
proof unfold_locales
  show "tree_ok fs \<Longrightarrow> p \<noteq> [] \<Longrightarrow> is_dir (tree_ent fs) p \<Longrightarrow>
      (\<And>q. q \<noteq> [] \<Longrightarrow> butlast q = p \<Longrightarrow> tree_ent fs q = None) \<Longrightarrow>
      \<exists>fs'. fs_rmdir tree_ops fs p = (RmOk, fs') \<and> tree_ok fs' \<and> tree_ent fs' = (tree_ent fs)(p := None)" for fs p
    using tree_rmdir_empty [of fs p] by (auto simp: tree_ops_def)
qed (auto simp: tree_ok_def tree_call_defs closed_tree_put_dir closed_tree_chmod no_entry
    split: if_splits option.splits prod.splits)

interpretation reliable_tree: reliable_dir_tree tree_ops tree_ent tree_reliable
proof unfold_locales
  show "tree_reliable fs \<Longrightarrow> p \<noteq> [] \<Longrightarrow> is_dir (tree_ent fs) p \<Longrightarrow>
      (\<And>q. q \<noteq> [] \<Longrightarrow> butlast q = p \<Longrightarrow> tree_ent fs q = None) \<Longrightarrow>
      \<exists>fs'. fs_rmdir tree_ops fs p = (RmOk, fs') \<and> tree_reliable fs' \<and> tree_ent fs' = (tree_ent fs)(p := None)" for fs p
    using tree_rmdir_empty [of fs p] by (auto simp: tree_ops_def tree_reliable_def)
qed (auto simp: tree_reliable_def tree_ok_def tree_call_defs closed_tree_put_dir closed_tree_chmod no_entry is_dir_def
    split: if_splits option.splits prod.splits)

end
