(* ===== verification/Ip_Address.thy ===== *)
theory Ip_Address
  imports Prelude
begin

text \<open>
  What the program uses of Python's \<open>ipaddress\<close> module (the behaviour and the registry tables of
  CPython 3.11): parsing and printing of addresses, parsing of networks with \<open>strict=False\<close>,
  membership, and \<open>is_global\<close>.  An address is its integer, with the scope text for IPv6.
\<close>

datatype ipaddr = V4 nat | V6 nat "string option"

datatype ipnet = Net4 nat nat | Net6 nat nat \<comment> \<open>network address, prefix length\<close>

section \<open>Parsing\<close>

definition digit_value :: "char \<Rightarrow> nat" where
  "digit_value c = (let n = (of_char c :: nat) in
     if n \<le> 57 then n - 48 else if n \<le> 70 then n - 55 else n - 87)"

definition base_value :: "nat \<Rightarrow> string \<Rightarrow> nat" where
  "base_value b s = foldl (\<lambda>acc c. acc * b + digit_value c) 0 s"

definition all_digits :: "string \<Rightarrow> bool" where
  "all_digits s = (s \<noteq> [] \<and> list_all ascii_digit s)"

definition hex_digit :: "char \<Rightarrow> bool" where
  "hex_digit c = (ascii_digit c \<or> (let n = (of_char c :: nat) in (65 \<le> n \<and> n \<le> 70) \<or> (97 \<le> n \<and> n \<le> 102)))"

definition parse_octet :: "string \<Rightarrow> nat option" where
  "parse_octet s =
     (if \<not> all_digits s \<or> 3 < length s \<or> (s \<noteq> ''0'' \<and> hd s = CHR ''0'') \<or> 255 < base_value 10 s
      then None else Some (base_value 10 s))"

fun those_opt :: "'a option list \<Rightarrow> 'a list option" where
  "those_opt [] = Some []"
| "those_opt (None # xs) = None"
| "those_opt (Some x # xs) = map_option ((#) x) (those_opt xs)"

definition parse_ipv4 :: "string \<Rightarrow> nat option" where
  "parse_ipv4 s =
     (let octets = split_on (CHR ''.'') s in
      if length octets \<noteq> 4 then None
      else map_option (foldl (\<lambda>a b. a * 256 + b) 0) (those_opt (map parse_octet octets)))"

definition parse_hextet :: "string \<Rightarrow> nat option" where
  "parse_hextet s =
     (if s = [] \<or> \<not> list_all hex_digit s \<or> 4 < length s then None else Some (base_value 16 s))"

definition nibble_char :: "nat \<Rightarrow> char" where
  "nibble_char n = (if n < 10 then char_of (48 + n) else char_of (87 + n))"

fun show_hex :: "nat \<Rightarrow> string" where
  "show_hex n = (if n < 16 then [nibble_char n] else show_hex (n div 16) @ [nibble_char (n mod 16)])"

declare show_hex.simps [simp del]

text \<open>The parts of an IPv6 text, with a dotted tail turned into two hextets.\<close>

definition v6_parts :: "string \<Rightarrow> string list option" where
  "v6_parts s =
     (let parts = split_on (CHR '':'') s in
      if length parts < 3 then None
      else if CHR ''.'' \<in> set (last parts)
      then (case parse_ipv4 (last parts) of
              None \<Rightarrow> None
            | Some v \<Rightarrow> Some (butlast parts @ [show_hex (v div 65536), show_hex (v mod 65536)]))
      else Some parts)"

definition inner_gaps :: "string list \<Rightarrow> nat list" where
  "inner_gaps parts = filter (\<lambda>i. parts ! i = []) [1..<length parts - 1]"

definition hextets_value :: "string list \<Rightarrow> nat option" where
  "hextets_value ps = map_option (foldl (\<lambda>a b. a * 65536 + b) 0) (those_opt (map parse_hextet ps))"

definition parse_ipv6_int :: "string \<Rightarrow> nat option" where
  "parse_ipv6_int s =
     (case v6_parts s of
        None \<Rightarrow> None
      | Some parts \<Rightarrow>
          if 9 < length parts then None
          else (case inner_gaps parts of
              [] \<Rightarrow> if length parts \<noteq> 8 then None else hextets_value parts
            | [k] \<Rightarrow>
                (let hi = (if hd parts = [] then k - 1 else k);
                     lo = (if last parts = [] then length parts - k - 2 else length parts - k - 1)
                 in if (hd parts = [] \<and> hi \<noteq> 0) \<or> (last parts = [] \<and> lo \<noteq> 0) \<or> 8 < hi + lo + 1
                    then None
                    else (case (hextets_value (take hi parts), hextets_value (drop (length parts - lo) parts)) of
                        (Some a, Some b) \<Rightarrow> Some (a * 65536 ^ (8 - hi) + b)
                      | _ \<Rightarrow> None))
            | _ \<Rightarrow> None))"

definition parse_ipv6 :: "string \<Rightarrow> ipaddr option" where
  "parse_ipv6 s =
     (case split_on (CHR ''%'') s of
        [a] \<Rightarrow> map_option (\<lambda>n. V6 n None) (parse_ipv6_int a)
      | [a, scope] \<Rightarrow> if scope = [] then None else map_option (\<lambda>n. V6 n (Some scope)) (parse_ipv6_int a)
      | _ \<Rightarrow> None)"

text \<open>\<open>ipaddress.ip_address(text)\<close>; \<open>None\<close> is its \<open>ValueError\<close>.\<close>

definition ip_address :: "string \<Rightarrow> ipaddr option" where
  "ip_address s =
     (if CHR ''/'' \<in> set s then None
      else case parse_ipv4 s of Some n \<Rightarrow> Some (V4 n) | None \<Rightarrow> parse_ipv6 s)"

section \<open>Printing\<close>

fun show_ipv4 :: "nat \<Rightarrow> string" where
  "show_ipv4 n = join_with ''.'' (map show_nat
     [n div 16777216 mod 256, n div 65536 mod 256, n div 256 mod 256, n mod 256])"

text \<open>The first longest run of zero hextets (start, length), scanning left to right.\<close>

fun zero_run :: "nat \<Rightarrow> nat \<times> nat \<Rightarrow> nat \<Rightarrow> nat list \<Rightarrow> nat \<times> nat" where
  "zero_run i best cur [] = best"
| "zero_run i best cur (h # hs) =
     (if h = 0
      then zero_run (Suc i) (if snd best < Suc cur then (i - cur, Suc cur) else best) (Suc cur) hs
      else zero_run (Suc i) best 0 hs)"

definition show_ipv6_int :: "nat \<Rightarrow> string" where
  "show_ipv6_int n =
     (let hs = map (\<lambda>k. n div 65536 ^ k mod 65536) [7, 6, 5, 4, 3, 2, 1, 0];
          (start, len) = zero_run 0 (0, 0) 0 hs;
          ws = map show_hex hs
      in join_with '':''
           (if len \<le> 1 then ws
            else (if start = 0 then [[]] else []) @ take start ws @ [[]] @ drop (start + len) ws @
                 (if start + len = 8 then [[]] else [])))"

fun show_ip :: "ipaddr \<Rightarrow> string" where
  "show_ip (V4 n) = show_ipv4 n"
| "show_ip (V6 n None) = show_ipv6_int n"
| "show_ip (V6 n (Some scope)) = show_ipv6_int n @ ''%'' @ scope"

section \<open>Networks\<close>

definition mask_to :: "nat \<Rightarrow> nat \<Rightarrow> nat \<Rightarrow> nat" where
  "mask_to bits p n = n div 2 ^ (bits - p) * 2 ^ (bits - p)"

fun in_net :: "ipaddr \<Rightarrow> ipnet \<Rightarrow> bool" where
  "in_net (V4 n) (Net4 a p) = (mask_to 32 p n = a)"
| "in_net (V6 n sc) (Net6 a p) = (mask_to 128 p n = a)"
| "in_net _ _ = False"

text \<open>A prefix length, or for IPv4 a dotted netmask or hostmask.\<close>

definition prefix_of_text :: "nat \<Rightarrow> string \<Rightarrow> nat option" where
  "prefix_of_text bits s =
     (if all_digits s \<and> base_value 10 s \<le> bits then Some (base_value 10 s) else None)"

definition netmask_prefix :: "nat \<Rightarrow> nat option" where
  "netmask_prefix m = find (\<lambda>p. m = 2 ^ 32 - 2 ^ (32 - p)) [0..<33]"

definition prefix_of_mask_text :: "string \<Rightarrow> nat option" where
  "prefix_of_mask_text s =
     (case prefix_of_text 32 s of
        Some p \<Rightarrow> Some p
      | None \<Rightarrow>
          (case parse_ipv4 s of
             None \<Rightarrow> None
           | Some m \<Rightarrow>
               (case netmask_prefix m of Some p \<Rightarrow> Some p | None \<Rightarrow> netmask_prefix (2 ^ 32 - 1 - m))))"

definition parse_net4 :: "string list \<Rightarrow> ipnet option" where
  "parse_net4 ws =
     (case ws of
        [a] \<Rightarrow> map_option (\<lambda>n. Net4 n 32) (parse_ipv4 a)
      | [a, m] \<Rightarrow>
          (case (parse_ipv4 a, prefix_of_mask_text m) of
             (Some n, Some p) \<Rightarrow> Some (Net4 (mask_to 32 p n) p) | _ \<Rightarrow> None)
      | _ \<Rightarrow> None)"

definition parse_net6 :: "string list \<Rightarrow> ipnet option" where
  "parse_net6 ws =
     (case ws of
        [a] \<Rightarrow> (case parse_ipv6 a of Some (V6 n _) \<Rightarrow> Some (Net6 n 128) | _ \<Rightarrow> None)
      | [a, m] \<Rightarrow>
          (case (parse_ipv6 a, prefix_of_text 128 m) of
             (Some (V6 n _), Some p) \<Rightarrow> Some (Net6 (mask_to 128 p n) p) | _ \<Rightarrow> None)
      | _ \<Rightarrow> None)"

text \<open>\<open>ipaddress.ip_network(text, strict=False)\<close>\<close>

definition ip_network :: "string \<Rightarrow> ipnet option" where
  "ip_network s =
     (let ws = split_on (CHR ''/'') s in
      case parse_net4 ws of Some n \<Rightarrow> Some n | None \<Rightarrow> parse_net6 ws)"

section \<open>Globally reachable addresses\<close>

definition v4_net :: "nat \<Rightarrow> nat \<Rightarrow> nat \<Rightarrow> nat \<Rightarrow> nat \<Rightarrow> ipnet" where
  "v4_net a b c d p = Net4 (((a * 256 + b) * 256 + c) * 256 + d) p"

definition v6_net :: "nat \<Rightarrow> nat \<Rightarrow> nat \<Rightarrow> nat \<Rightarrow> nat \<Rightarrow> ipnet" where
  "v6_net a b c d p = Net6 (a * 65536 ^ 7 + b * 65536 ^ 6 + c * 65536 ^ 5 + d) p"

definition private_nets :: "ipnet list" where
  "private_nets =
    [v4_net 0 0 0 0 8, v4_net 10 0 0 0 8, v4_net 127 0 0 0 8, v4_net 169 254 0 0 16,
     v4_net 172 16 0 0 12, v4_net 192 0 0 0 24, v4_net 192 0 0 170 31, v4_net 192 0 2 0 24,
     v4_net 192 168 0 0 16, v4_net 198 18 0 0 15, v4_net 198 51 100 0 24, v4_net 203 0 113 0 24,
     v4_net 240 0 0 0 4, v4_net 255 255 255 255 32,
     v6_net 0 0 0 1 128, v6_net 0 0 0 0 128, v6_net 0 0 0 (0xFFFF * 65536 ^ 2) 96,
     v6_net 0x64 0xFF9B 1 0 48, v6_net 0x100 0 0 0 64, v6_net 0x2001 0 0 0 23,
     v6_net 0x2001 0xDB8 0 0 32, v6_net 0x2002 0 0 0 16, v6_net 0xFC00 0 0 0 7, v6_net 0xFE80 0 0 0 10]"

definition private_exceptions :: "ipnet list" where
  "private_exceptions =
    [v4_net 192 0 0 9 32, v4_net 192 0 0 10 32,
     v6_net 0x2001 1 0 1 128, v6_net 0x2001 1 0 2 128, v6_net 0x2001 3 0 0 32,
     v6_net 0x2001 4 0x112 0 48, v6_net 0x2001 0x20 0 0 28, v6_net 0x2001 0x30 0 0 28]"

definition is_private_plain :: "ipaddr \<Rightarrow> bool" where
  "is_private_plain a \<longleftrightarrow>
     list_ex (in_net a) private_nets \<and> \<not> list_ex (in_net a) private_exceptions"

text \<open>The IPv4 address inside an IPv4-mapped IPv6 address decides in its place.\<close>

fun is_private :: "ipaddr \<Rightarrow> bool" where
  "is_private (V4 n) = is_private_plain (V4 n)"
| "is_private (V6 n sc) =
     (if n div 2 ^ 32 = 0xFFFF then is_private_plain (V4 (n mod 2 ^ 32)) else is_private_plain (V6 n sc))"

fun is_global :: "ipaddr \<Rightarrow> bool" where
  "is_global (V4 n) = (\<not> in_net (V4 n) (v4_net 100 64 0 0 10) \<and> \<not> is_private (V4 n))"
| "is_global (V6 n sc) = (\<not> is_private (V6 n sc))"

text \<open>Evaluates the parsers on a concrete text.\<close>

lemmas ip_eval = ip_address_def ip_network_def parse_net4_def parse_net6_def parse_ipv4_def parse_ipv6_def
  parse_ipv6_int_def v6_parts_def inner_gaps_def hextets_value_def parse_hextet_def parse_octet_def
  all_digits_def ascii_digit_def hex_digit_def base_value_def digit_value_def mask_to_def
  prefix_of_mask_text_def prefix_of_text_def show_hex.simps nibble_char_def upt_rec_numeral Let_def

section \<open>Facts\<close>

lemma base_value_digits_less:
  "list_all hex_digit s \<Longrightarrow> base_value 16 s < 16 ^ length s"
proof (induction s rule: rev_induct)
  case Nil
  then show ?case by (simp add: base_value_def)
next
  case (snoc c s)
  have "digit_value c < 16"
    using snoc.prems by (auto simp: hex_digit_def ascii_digit_def digit_value_def Let_def)
  with snoc show ?case by (simp add: base_value_def)
qed

lemma parse_octet_le: "parse_octet s = Some n \<Longrightarrow> n \<le> 255"
  by (auto simp: parse_octet_def split: if_splits)

lemma mask_to_idem: "mask_to bits p (mask_to bits p n) = mask_to bits p n"
  by (simp add: mask_to_def)

text \<open>A parsed network contains its own network address.\<close>

lemma ip_network_self:
  assumes "ip_network s = Some net"
  shows "case net of Net4 a p \<Rightarrow> in_net (V4 a) net | Net6 a p \<Rightarrow> in_net (V6 a None) net"
  using assms
  by (auto simp: ip_network_def parse_net4_def parse_net6_def Let_def mask_to_idem
      split: option.splits list.splits ipaddr.splits)
     (simp_all add: mask_to_def)

end
