(* ===== verification/Url_Split.thy ===== *)
theory Url_Split
  imports Ip_Address
begin

text \<open>
  \<open>urllib.parse.urlsplit\<close> on ASCII text (CPython 3.11) with the \<open>hostname\<close> and \<open>port\<close>
  attributes of its result.  \<open>None\<close> is the \<open>ValueError\<close>.
\<close>

record url_parts =
  u_scheme :: string
  u_netloc :: string
  u_path :: string
  u_query :: string
  u_fragment :: string

text \<open>\<open>s.partition(c)\<close>, \<open>s.rpartition(c)\<close>: before, whether found, after.\<close>

definition partition_at :: "char \<Rightarrow> string \<Rightarrow> string \<times> bool \<times> string" where
  "partition_at c s = (takeWhile (\<lambda>x. x \<noteq> c) s, c \<in> set s, drop 1 (dropWhile (\<lambda>x. x \<noteq> c) s))"

definition after_last :: "char \<Rightarrow> string \<Rightarrow> string" where
  "after_last c s = rev (takeWhile (\<lambda>x. x \<noteq> c) (rev s))"

definition ascii_alpha :: "char \<Rightarrow> bool" where
  "ascii_alpha c = (ascii_upper c \<or> ascii_lower c)"

definition scheme_char :: "char \<Rightarrow> bool" where
  "scheme_char c = (ascii_alpha c \<or> ascii_digit c \<or> c \<in> set ''+-.'')"

definition clean_url :: "string \<Rightarrow> string" where
  "clean_url s =
     filter (\<lambda>c. (of_char c :: nat) \<notin> {9, 10, 13}) (dropWhile (\<lambda>c. (of_char c :: nat) \<le> 32) s)"

definition split_scheme :: "string \<Rightarrow> string \<times> string" where
  "split_scheme url =
     (let (pre, found, post) = partition_at (CHR '':'') url in
      if found \<and> pre \<noteq> [] \<and> ascii_alpha (hd pre) \<and> list_all scheme_char pre
      then (py_lower pre, post) else ([], url))"

text \<open>A bracketed host is an IPv6 address or an IPvFuture text.\<close>

definition bracketed_host_ok :: "string \<Rightarrow> bool" where
  "bracketed_host_ok h =
     (if starts_with h ''v''
      then (let hexes = takeWhile hex_digit (drop 1 h); rest = dropWhile hex_digit (drop 1 h)
            in hexes \<noteq> [] \<and> rest \<noteq> [] \<and> hd rest = CHR ''.'' \<and> tl rest \<noteq> [])
      else (case ip_address h of Some (V6 _ _) \<Rightarrow> True | _ \<Rightarrow> False))"

definition netloc_ok :: "string \<Rightarrow> bool" where
  "netloc_ok n =
     (let op = CHR ''['' \<in> set n; cl = CHR '']'' \<in> set n in
      op = cl \<and>
      (op \<longrightarrow> bracketed_host_ok (fst (partition_at (CHR '']'') (snd (snd (partition_at (CHR ''['') n)))))))"

definition urlsplit :: "string \<Rightarrow> url_parts option" where
  "urlsplit s =
     (let (scheme, url) = split_scheme (clean_url s);
          has_net = starts_with url ''//'';
          after = drop 2 url;
          netloc = (if has_net then takeWhile (\<lambda>c. c \<notin> set ''/?#'') after else []);
          rest = (if has_net then dropWhile (\<lambda>c. c \<notin> set ''/?#'') after else url);
          (before_f, _, fragment) = partition_at (CHR ''#'') rest;
          (path, _, query) = partition_at (CHR ''?'') before_f
      in if has_net \<and> \<not> netloc_ok netloc then None
         else Some \<lparr>u_scheme = scheme, u_netloc = netloc, u_path = path, u_query = query,
                    u_fragment = fragment\<rparr>)"

definition hostinfo :: "string \<Rightarrow> string \<times> string option" where
  "hostinfo netloc =
     (let info = after_last (CHR ''@'') netloc;
          (_, bracket, bracketed) = partition_at (CHR ''['') info;
          (hostname, port) =
            (if bracket
             then (let (h, _, p) = partition_at (CHR '']'') bracketed
                   in (h, snd (snd (partition_at (CHR '':'') p))))
             else (let (h, _, p) = partition_at (CHR '':'') info in (h, p)))
      in (hostname, if port = [] then None else Some port))"

definition url_hostname :: "url_parts \<Rightarrow> string option" where
  "url_hostname u =
     (let h = fst (hostinfo (u_netloc u)) in
      if h = [] then None
      else (let (name, pct, zone) = partition_at (CHR ''%'') h
            in Some (py_lower name @ (if pct then CHR ''%'' # zone else []))))"

text \<open>\<open>url.port\<close>: \<open>Inl\<close> of the \<open>ValueError\<close>, or the port when there is one.\<close>

definition url_port :: "url_parts \<Rightarrow> unit + nat option" where
  "url_port u =
     (case snd (hostinfo (u_netloc u)) of
        None \<Rightarrow> Inr None
      | Some p \<Rightarrow>
          if all_digits p \<and> base_value 10 p \<le> 65535 then Inr (Some (base_value 10 p)) else Inl ())"

end
