(* ===== verification/Repair_Planner.thy ===== *)
theory Repair_Planner
  imports Repair_Plan Posix_Path Url_Split "HOL-Library.Product_Lexorder" "HOL-Library.Multiset"
begin

text \<open>
  The repair planner (\<open>taintforge_env/repair_planner.py\<close>): one decision per runtime requirement,
  by kind and operation, sorted by priority.  The lemmas show that planning never raises, when
  a decision is authorized for automatic application, and that the plan is an ordered
  permutation of the decisions that the plan codec accepts.
\<close>

section \<open>Configuration\<close>

datatype planning_error =
    AutomaticNeedsCandidate
  | MinimumConfidenceRange
  | RequirementsUnreadable
  | RequirementsInvalid req_error

record planner_config =
  minimum_auto_confidence :: pyfloat

definition default_planner_config :: planner_config where
  "default_planner_config = \<lparr>minimum_auto_confidence = FloatFin (19 / 20) ''0.95''\<rparr>"

definition check_planner_config :: "planner_config \<Rightarrow> planning_error + planner_config" where
  "check_planner_config c =
     (if float_le float_0 (minimum_auto_confidence c) \<and> float_le (minimum_auto_confidence c) float_1
      then Inr c else Inl MinimumConfidenceRange)"

section \<open>Guest paths and endpoints\<close>

definition validate_guest_path :: "string \<Rightarrow> string option" where
  "validate_guest_path path =
     (if CHR 0x00 \<in> set path then Some ''path contains a NUL byte''
      else if \<not> starts_with path ''/'' then Some ''path is not absolute''
      else if ''..'' \<in> set (pp_parts (pp_parse path))
      then Some ''path contains a parent traversal component''
      else if pp_str (pp_parse path) \<noteq> strip_slashes path \<and> path \<noteq> ''/''
      then Some ''path is not in normalized POSIX form''
      else None)"

definition pseudo_prefixes :: "string list" where
  "pseudo_prefixes = [''/proc'', ''/sys'', ''/dev'']"

definition is_pseudo_filesystem_path :: "string \<Rightarrow> bool" where
  "is_pseudo_filesystem_path path =
     list_ex (\<lambda>prefix. path = prefix \<or> starts_with path (prefix @ ''/'')) pseudo_prefixes"

definition parse_endpoint :: "string \<Rightarrow> (string \<times> string \<times> nat) option" where
  "parse_endpoint res =
     (case urlsplit res of
        None \<Rightarrow> None
      | Some u \<Rightarrow>
          if u_scheme u \<notin> set [''tcp'', ''udp''] then None
          else (case (url_hostname u, url_port u) of
              (Some host, Inr (Some port)) \<Rightarrow>
                if u_path u \<notin> set ['''', ''/''] \<or> u_query u \<noteq> [] \<or> u_fragment u \<noteq> [] then None
                else if \<not> (1 \<le> port \<and> port \<le> 65535) then None
                else Some (u_scheme u, host, port)
            | _ \<Rightarrow> None))"

section \<open>Reasons\<close>

definition reason_provided :: string where "reason_provided =
  ''The current execution already demonstrated that the environment provides this capability. Preserve it during later minimization, but do not add a repair.''"

definition reason_not_repairable :: string where "reason_not_repairable =
  ''The observation is important but cannot be repaired by a safe filesystem or network mutation. It requires backend, binary, syscall, or crash analysis.''"

definition reason_device :: string where "reason_device =
  ''A device path may require ioctl and kernel semantics; creating a node alone is not evidence-equivalent.''"

definition reason_syscall :: string where "reason_syscall =
  ''Kernel or QEMU syscall support cannot be synthesized as a rootfs repair. Select another backend or implement an explicit syscall compatibility layer.''"

definition reason_bad_path :: "string \<Rightarrow> string" where "reason_bad_path e =
  ''Unsafe or invalid guest path: '' @ e @ ''.''"

definition reason_pseudo :: string where "reason_pseudo =
  ''Pseudo-filesystem and root paths require mount or backend semantics; mkdir is not sufficient.''"

definition reason_mkdir_auto :: string where "reason_mkdir_auto =
  ''Creating an absent directory inside a disposable rootfs is structurally reversible and does not invent file content.''"

definition reason_mkdir_review :: string where "reason_mkdir_review =
  ''The directory requirement is plausible, but the evidence is not strong enough for automatic application.''"

definition reason_path_exists :: string where "reason_path_exists =
  ''Existence alone does not reveal required content. The planner must not create an empty file and claim semantic satisfaction.''"

definition reason_path_access :: string where "reason_path_access =
  ''Changing ownership or permissions may alter malware behavior and must be justified from the requested access mode and sandbox identity.''"

definition reason_path_writable :: string where "reason_path_writable =
  ''Writable access may require an overlay, tmpfs, ownership change, or mode change. The correct mechanism is not inferable from one failure alone.''"

definition reason_path_layout :: string where "reason_path_layout =
  ''ENOTDIR indicates a type conflict in an ancestor path. Replacing existing nodes automatically could destroy evidence or break unrelated dependencies.''"

definition reason_no_filesystem_rule :: string where "reason_no_filesystem_rule =
  ''No safe filesystem repair rule exists for this operation.''"

definition reason_bad_endpoint :: string where "reason_bad_endpoint =
  ''The network resource is not a valid tcp:// or udp:// endpoint.''"

definition reason_network :: string where "reason_network =
  ''Transport reachability is not equivalent to protocol satisfaction. Use a recorded response or a protocol-specific emulator rather than an arbitrary generic reply.''"

definition reason_interpreter :: string where "reason_interpreter =
  ''The ELF interpreter must match the target architecture and ABI. Resolve it from a verified sysroot before copying it.''"

definition reason_library :: string where "reason_library =
  ''A shared object must match architecture, ABI, SONAME, and dependency closure. A filename-only stub is unsafe.''"

definition reason_executable :: string where "reason_executable =
  ''An executed path may be a helper binary, shell, interpreter, or second-stage payload. Its exact bytes and architecture must be established before adding it.''"

definition reason_execution :: string where "reason_execution =
  ''Execution failures and fatal signals require crash, loader, or binary reconstruction analysis rather than environment mutation.''"

lemmas reason_defs =
  reason_provided_def reason_not_repairable_def reason_device_def reason_syscall_def
  reason_bad_path_def reason_pseudo_def reason_mkdir_auto_def reason_mkdir_review_def
  reason_path_exists_def reason_path_access_def reason_path_writable_def reason_path_layout_def
  reason_no_filesystem_rule_def reason_bad_endpoint_def reason_network_def
  reason_interpreter_def reason_library_def reason_executable_def reason_execution_def

section \<open>Decisions\<close>

definition decide ::
    "runtime_requirement \<Rightarrow> repair_action \<Rightarrow> repair_disposition \<Rightarrow> repair_priority \<Rightarrow> repair_risk
     \<Rightarrow> bool \<Rightarrow> string \<Rightarrow> (string \<times> json) list \<Rightarrow> planning_error + repair_decision" where
  "decide r act disp prio risk auto reason params =
     (if auto \<and> disp \<noteq> AutoCandidate then Inl AutomaticNeedsCandidate
      else Inr \<lparr>rd_id = make_decision_id (rq_id r) act disp (rq_resource r),
                rd_requirement_id = rq_id r, rd_requirement_kind = kind_value (rq_kind r),
                rd_resource = rq_resource r, rd_operation = rq_operation r, rd_action = act,
                rd_disposition = disp, rd_priority = prio, rd_risk = risk, rd_automatic = auto,
                rd_reason = reason, rd_parameters = sort_key fst params\<rparr>)"

fun priority_from_blocking :: "blocking_assessment \<Rightarrow> repair_priority" where
  "priority_from_blocking BLikely = PCritical"
| "priority_from_blocking BPossible = PHigh"
| "priority_from_blocking BUnknown = PNormal"
| "priority_from_blocking BUnlikely = PLow"

fun priority_order :: "repair_priority \<Rightarrow> nat" where
  "priority_order PCritical = 0"
| "priority_order PHigh = 1"
| "priority_order PNormal = 2"
| "priority_order PLow = 3"

definition needs_semantic_network_review :: "runtime_requirement \<Rightarrow> bool" where
  "needs_semantic_network_review r \<longleftrightarrow>
     rq_kind r = KNetwork \<and> map_of (rev (rq_details r)) ''semantic_satisfaction'' \<noteq> Some ''confirmed''"

definition mkdir_parameters :: "(string \<times> json) list" where
  "mkdir_parameters = [(''mode'', JStr ''0755''), (''parents'', JBool True)]"

definition plan_filesystem ::
    "planner_config \<Rightarrow> runtime_requirement \<Rightarrow> repair_priority \<Rightarrow> planning_error + repair_decision" where
  "plan_filesystem cfg r prio =
     (case validate_guest_path (rq_resource r) of
        Some e \<Rightarrow> decide r ActNone ManualAnalysis prio RiskHigh False (reason_bad_path e) []
      | None \<Rightarrow>
          if rq_operation r = ''directory_exists''
          then (if rq_resource r = ''/'' \<or> is_pseudo_filesystem_path (rq_resource r)
                then decide r CreateDirectory ManualAnalysis prio RiskHigh False reason_pseudo mkdir_parameters
                else (let automatic =
                            (rq_status r = SUnmet \<and>
                             float_le (minimum_auto_confidence cfg) (rq_confidence r))
                      in decide r CreateDirectory
                           (if automatic then AutoCandidate else ReviewRequired) prio RiskLow automatic
                           (if automatic then reason_mkdir_auto else reason_mkdir_review)
                           mkdir_parameters))
          else if rq_operation r = ''path_exists''
          then decide r ProvideFile ReviewRequired prio RiskMedium False reason_path_exists
                 [(''content_strategy'', JStr ''derive_or_supply''), (''create_empty'', JBool False)]
          else if rq_operation r = ''path_access''
          then decide r AdjustPathAccess ReviewRequired prio RiskHigh False reason_path_access
                 [(''preserve_entry_type'', JBool True)]
          else if rq_operation r = ''path_writable''
          then decide r MakePathWritable ReviewRequired prio RiskMedium False reason_path_writable
                 [(''strategy'', JStr ''overlay_or_permissions'')]
          else if rq_operation r = ''valid_path_layout''
          then decide r RepairPathLayout ManualAnalysis prio RiskHigh False reason_path_layout []
          else decide r ActNone ManualAnalysis prio RiskHigh False reason_no_filesystem_rule [])"

text \<open>\<open>dict(details)\<close> keeps the last value of a repeated key.\<close>

definition detail_parameter :: "runtime_requirement \<Rightarrow> string \<Rightarrow> (string \<times> json) list" where
  "detail_parameter r k =
     (case map_of (rev (rq_details r)) k of None \<Rightarrow> [] | Some v \<Rightarrow> [(k, JStr v)])"

definition plan_network ::
    "runtime_requirement \<Rightarrow> repair_priority \<Rightarrow> planning_error + repair_decision" where
  "plan_network r prio =
     (case parse_endpoint (rq_resource r) of
        None \<Rightarrow> decide r ActNone ManualAnalysis prio RiskHigh False reason_bad_endpoint []
      | Some (transport, host, port) \<Rightarrow>
          decide r (if transport = ''tcp'' then ConfigureTcpService else ConfigureUdpService)
            ReviewRequired prio RiskMedium False reason_network
            ([(''transport'', JStr transport), (''remote_ip'', JStr host),
              (''remote_port'', JInt (int port)),
              (''response_strategy'', JStr ''recorded_or_protocol_specific'')] @
             detail_parameter r ''role'' @ detail_parameter r ''listener_type''))"

definition plan_library ::
    "runtime_requirement \<Rightarrow> repair_priority \<Rightarrow> planning_error + repair_decision" where
  "plan_library r prio =
     (let interp = (rq_operation r = ''interpreter_available'') in
      decide r (if interp then ProvideInterpreter else ResolveLibrary) ReviewRequired prio RiskMedium
        False (if interp then reason_interpreter else reason_library)
        [(''source'', JStr ''verified_sysroot_or_bundle''),
         (''exact_architecture_required'', JBool True),
         (''dependency_closure_required'', JBool True)])"

definition plan_execution ::
    "runtime_requirement \<Rightarrow> repair_priority \<Rightarrow> planning_error + repair_decision" where
  "plan_execution r prio =
     (if rq_operation r = ''executable_available''
      then decide r ProvideExecutable ReviewRequired prio RiskHigh False reason_executable
             [(''source'', JStr ''verified_artifact'')]
      else decide r ActNone ManualAnalysis prio RiskHigh False reason_execution [])"

definition plan_requirement ::
    "planner_config \<Rightarrow> runtime_requirement \<Rightarrow> planning_error + repair_decision" where
  "plan_requirement cfg r =
     (let prio = priority_from_blocking (rq_blocking r) in
      if rq_status r = SProvided \<and> \<not> needs_semantic_network_review r
      then decide r ActNone NotRequired PLow RiskLow False reason_provided []
      else if \<not> rq_repairable r
      then decide r ActNone ManualAnalysis prio RiskHigh False reason_not_repairable []
      else (case rq_kind r of
          KFilesystem \<Rightarrow> plan_filesystem cfg r prio
        | KDevice \<Rightarrow> decide r ProvideDeviceBackend ManualAnalysis prio RiskHigh False reason_device
                       [(''backend_semantics_required'', JBool True)]
        | KNetwork \<Rightarrow> plan_network r prio
        | KLibrary \<Rightarrow> plan_library r prio
        | KExecution \<Rightarrow> plan_execution r prio
        | KSyscall \<Rightarrow> decide r ActNone ManualAnalysis prio RiskHigh False reason_syscall []))"

definition decision_key :: "repair_decision \<Rightarrow> nat \<times> string \<times> string \<times> string \<times> string" where
  "decision_key d =
     (priority_order (rd_priority d), rd_requirement_kind d, rd_resource d, rd_operation d, rd_id d)"

definition plan_report ::
    "planner_config \<Rightarrow> string \<Rightarrow> requirement_report \<Rightarrow> string \<Rightarrow> string
     \<Rightarrow> planning_error + repair_plan" where
  "plan_report cfg now report source sha =
     ebind (emap (plan_requirement cfg) (rr_requirements report)) (\<lambda>ds.
     Inr \<lparr>rp_source_requirements = source, rp_source_sha256 = sha,
          rp_decisions = sort_key decision_key ds, rp_warnings = rr_warnings report,
          rp_schema_version = 1, rp_planner_version = 1, rp_generated_at = now\<rparr>)"

text \<open>
  \<open>plan_file\<close>: the digest is taken over the file's bytes, the plan from its parsed content.
  The returned plan is also what is written to the output path.
\<close>

definition plan_file ::
    "planner_config \<Rightarrow> (string \<Rightarrow> json option) \<Rightarrow> string \<Rightarrow> string \<Rightarrow> file_view
     \<Rightarrow> planning_error + repair_plan" where
  "plan_file cfg loads now path f =
     (case f of
        FileText t \<Rightarrow>
          ebind (err_map RequirementsInvalid (report_load loads f)) (\<lambda>report.
          plan_report cfg now report path (sha256_hex t))
      | _ \<Rightarrow> Inl RequirementsUnreadable)"

section \<open>Planning is total and sound\<close>

text \<open>What every call of \<open>decide\<close> in the planner satisfies.\<close>

definition authorized :: "planner_config \<Rightarrow> runtime_requirement \<Rightarrow> bool" where
  "authorized cfg r \<longleftrightarrow>
     rq_kind r = KFilesystem \<and> rq_operation r = ''directory_exists'' \<and> rq_status r = SUnmet \<and>
     rq_repairable r \<and> float_le (minimum_auto_confidence cfg) (rq_confidence r) \<and>
     validate_guest_path (rq_resource r) = None \<and> rq_resource r \<noteq> ''/'' \<and>
     \<not> is_pseudo_filesystem_path (rq_resource r)"

definition planned :: "planner_config \<Rightarrow> runtime_requirement \<Rightarrow> repair_decision \<Rightarrow> bool" where
  "planned cfg r d \<longleftrightarrow>
     rd_requirement_id d = rq_id r \<and> rd_requirement_kind d = kind_value (rq_kind r) \<and>
     rd_resource d = rq_resource r \<and> rd_operation d = rq_operation r \<and>
     rd_id d = make_decision_id (rq_id r) (rd_action d) (rd_disposition d) (rq_resource r) \<and>
     rd_reason d \<noteq> [] \<and>
     sorted (map fst (rd_parameters d)) \<and> distinct (map fst (rd_parameters d)) \<and>
     [] \<notin> set (map fst (rd_parameters d)) \<and>
     (rd_automatic d \<longleftrightarrow> authorized cfg r) \<and>
     (rd_disposition d = AutoCandidate \<longleftrightarrow> rd_automatic d) \<and>
     (rd_automatic d \<longrightarrow> rd_action d = CreateDirectory \<and> rd_risk d = RiskLow \<and>
        rd_parameters d = mkdir_parameters)"

lemma decide_planned:
  assumes "auto \<longleftrightarrow> authorized cfg r" and "disp = AutoCandidate \<longleftrightarrow> auto"
    and "auto \<Longrightarrow> act = CreateDirectory \<and> risk = RiskLow \<and> params = mkdir_parameters"
    and "reason \<noteq> []" and "distinct (map fst params)" and "[] \<notin> set (map fst params)"
  shows "\<exists>d. decide r act disp prio risk auto reason params = Inr d \<and> planned cfg r d"
  using assms by (auto simp: decide_def planned_def mkdir_parameters_def distinct_map)

lemma detail_parameter_keys:
  "map fst (detail_parameter r k) = (if k \<in> fst ` set (rq_details r) then [k] else [])"
proof -
  have "map_of (rev (rq_details r)) k = None \<longleftrightarrow> k \<notin> fst ` set (rq_details r)"
    by (simp add: map_of_eq_None_iff)
  then show ?thesis
    by (auto simp: detail_parameter_def split: option.splits)
qed

lemma reasons_nonempty [simp]:
  "reason_provided \<noteq> []" "reason_not_repairable \<noteq> []" "reason_device \<noteq> []"
  "reason_syscall \<noteq> []" "reason_bad_path e \<noteq> []" "reason_pseudo \<noteq> []"
  "reason_mkdir_auto \<noteq> []" "reason_mkdir_review \<noteq> []" "reason_path_exists \<noteq> []"
  "reason_path_access \<noteq> []" "reason_path_writable \<noteq> []" "reason_path_layout \<noteq> []"
  "reason_no_filesystem_rule \<noteq> []" "reason_bad_endpoint \<noteq> []" "reason_network \<noteq> []"
  "reason_interpreter \<noteq> []" "reason_library \<noteq> []" "reason_executable \<noteq> []"
  "reason_execution \<noteq> []"
  by (simp_all add: reason_defs)

lemma mkdir_parameters_keys [simp]:
  "distinct (map fst mkdir_parameters)" "[] \<notin> fst ` set mkdir_parameters"
  by (simp_all add: mkdir_parameters_def)

lemma if_planned:
  assumes "b \<Longrightarrow> \<exists>d. x = Inr d \<and> P d" and "\<not> b \<Longrightarrow> \<exists>d. y = Inr d \<and> P d"
  shows "\<exists>d. (if b then x else y) = Inr d \<and> P d"
  using assms by simp

lemma plan_network_planned:
  assumes "rq_kind r = KNetwork"
  shows "\<exists>d. plan_network r prio = Inr d \<and> planned cfg r d"
proof (cases "parse_endpoint (rq_resource r)")
  case None
  then show ?thesis
    unfolding plan_network_def by (simp only: option.case) (rule decide_planned; simp add: authorized_def assms)
next
  case (Some e)
  obtain transport host port where e: "e = (transport, host, port)" by (cases e)
  show ?thesis
    unfolding plan_network_def Some e option.case prod.case
    by (rule decide_planned; simp add: authorized_def assms detail_parameter_keys del: set_map flip: set_map)
qed

lemma plan_filesystem_planned:
  assumes "rq_kind r = KFilesystem" and "rq_repairable r"
  shows "\<exists>d. plan_filesystem cfg r prio = Inr d \<and> planned cfg r d"
proof (cases "validate_guest_path (rq_resource r)")
  case (Some e)
  show ?thesis
    unfolding plan_filesystem_def Some option.case
    by (rule decide_planned; simp add: authorized_def assms Some)
next
  case None
  show ?thesis
    unfolding plan_filesystem_def None option.case Let_def
    by (intro if_planned; rule decide_planned; simp add: authorized_def assms None)
qed

lemma plan_requirement_planned: "\<exists>d. plan_requirement cfg r = Inr d \<and> planned cfg r d"
proof -
  have library: "rq_kind r = KLibrary \<Longrightarrow> \<exists>d. plan_library r prio = Inr d \<and> planned cfg r d" for prio
    unfolding plan_library_def Let_def by (rule decide_planned; simp add: authorized_def)
  have execution: "rq_kind r = KExecution \<Longrightarrow> \<exists>d. plan_execution r prio = Inr d \<and> planned cfg r d" for prio
    unfolding plan_execution_def by (intro if_planned; rule decide_planned; simp add: authorized_def)
  show ?thesis
    unfolding plan_requirement_def Let_def
  proof (intro if_planned)
    assume "\<not> \<not> rq_repairable r"
    then show "\<exists>d. (case rq_kind r of
          KFilesystem \<Rightarrow> plan_filesystem cfg r (priority_from_blocking (rq_blocking r))
        | KDevice \<Rightarrow> decide r ProvideDeviceBackend ManualAnalysis (priority_from_blocking (rq_blocking r))
                       RiskHigh False reason_device [(''backend_semantics_required'', JBool True)]
        | KNetwork \<Rightarrow> plan_network r (priority_from_blocking (rq_blocking r))
        | KLibrary \<Rightarrow> plan_library r (priority_from_blocking (rq_blocking r))
        | KSyscall \<Rightarrow> decide r ActNone ManualAnalysis (priority_from_blocking (rq_blocking r)) RiskHigh
                        False reason_syscall []
        | KExecution \<Rightarrow> plan_execution r (priority_from_blocking (rq_blocking r))) = Inr d \<and> planned cfg r d"
      by (cases "rq_kind r"; simp only: requirement_kind.case not_not)
         (rule plan_filesystem_planned plan_network_planned library execution decide_planned;
           simp add: authorized_def)+
  qed (rule decide_planned; simp add: authorized_def)+
qed

lemma plan_requirement_priority:
  "plan_requirement cfg r = Inr d \<Longrightarrow>
     rd_priority d = (if rq_status r = SProvided \<and> \<not> needs_semantic_network_review r then PLow
                      else priority_from_blocking (rq_blocking r))"
  by (auto simp: plan_requirement_def plan_filesystem_def plan_network_def plan_library_def
      plan_execution_def decide_def Let_def
      split: if_splits option.splits requirement_kind.splits prod.splits)

definition the_decision :: "planner_config \<Rightarrow> runtime_requirement \<Rightarrow> repair_decision" where
  "the_decision cfg r = (case plan_requirement cfg r of Inr d \<Rightarrow> d)"

lemma plan_requirement_eq: "plan_requirement cfg r = Inr (the_decision cfg r)"
  using plan_requirement_planned [of cfg r] by (auto simp: the_decision_def)

lemma the_decision_planned: "planned cfg r (the_decision cfg r)"
  using plan_requirement_planned [of cfg r] by (auto simp: the_decision_def)

lemma plan_report_total:
  "\<exists>plan. plan_report cfg now report source sha = Inr plan \<and>
     rp_decisions plan = sort_key decision_key (map (the_decision cfg) (rr_requirements report)) \<and>
     rp_warnings plan = rr_warnings report \<and> rp_source_requirements plan = source \<and>
     rp_source_sha256 plan = sha \<and> rp_schema_version plan = 1 \<and> rp_planner_version plan = 1 \<and>
     rp_generated_at plan = now"
  by (simp add: plan_report_def emap_all [where g = "the_decision cfg"] plan_requirement_eq)

lemma planned_wf:
  assumes "planned cfg r d" and "wf_requirement r"
  shows "wf_decision d"
proof -
  have "kind_value k \<noteq> []" for k by (rule kind_enum.val_nonempty)
  moreover have "rq_id r \<noteq> []"
    using assms(2) by (simp add: wf_requirement_def make_requirement_id_def)
  ultimately show ?thesis
    using assms by (auto simp: planned_def wf_decision_def wf_requirement_def)
qed

lemma plan_report_wf:
  assumes "wf_report report" and "plan_report cfg now report source sha = Inr plan"
    and "now \<noteq> []" and "source \<noteq> []" and "is_sha256 sha"
    and "distinct (map rq_id (rr_requirements report))"
    and "distinct (map rd_id (rp_decisions plan))"
  shows "wf_plan plan"
proof -
  let ?ds = "map (the_decision cfg) (rr_requirements report)"
  have eq: "rp_decisions plan = sort_key decision_key ?ds" "rp_source_requirements plan = source"
    "rp_source_sha256 plan = sha" "rp_schema_version plan = 1" "rp_planner_version plan = 1"
    "rp_generated_at plan = now"
    using plan_report_total [of cfg now report source sha] assms(2) by auto
  have "list_all wf_decision (rp_decisions plan)"
    using assms(1) the_decision_planned planned_wf
    by (fastforce simp: eq list_all_iff wf_report_def)
  moreover have ids: "map rd_requirement_id ?ds = map rq_id (rr_requirements report)"
    using the_decision_planned by (auto simp: planned_def)
  have "mset (map rd_requirement_id (rp_decisions plan)) = mset (map rd_requirement_id ?ds)"
    unfolding eq by (simp only: mset_map mset_sort)
  then have "distinct (map rd_requirement_id (rp_decisions plan))"
    using assms(6) mset_eq_imp_distinct_iff unfolding ids by blast
  ultimately show ?thesis
    using assms(3-5,7) by (simp add: wf_plan_def eq)
qed

section \<open>Which paths can be authorized\<close>

lemma validate_guest_path_None:
  "validate_guest_path path = None \<longleftrightarrow>
     CHR 0x00 \<notin> set path \<and> (path = ''/'' \<or> normal_absolute path)"
  by (auto simp: validate_guest_path_def normal_absolute_def starts_with_def pp_parse_def pp_parts_def
      lead_slashes_def split: if_splits)

lemma authorized_path:
  assumes "authorized cfg r"
  obtains rt cs k where "rt = ''/'' \<or> rt = ''//''" "cs \<noteq> []" "\<forall>c \<in> set cs. plain_component c"
    "rq_resource r = rt @ join_with [slash] cs @ replicate k slash"
    "rt = ''/'' \<Longrightarrow> hd cs \<notin> {''proc'', ''sys'', ''dev''}"
proof -
  from assms have "normal_absolute (rq_resource r)"
    and pseudo: "\<not> is_pseudo_filesystem_path (rq_resource r)"
    by (auto simp: authorized_def validate_guest_path_None)
  then obtain rt cs k where *: "rt = ''/'' \<or> rt = ''//''" "cs \<noteq> []" "\<forall>c \<in> set cs. plain_component c"
    "rq_resource r = rt @ join_with [slash] cs @ replicate k slash"
    by (auto simp: normal_absolute_iff)
  moreover have "hd cs \<notin> {''proc'', ''sys'', ''dev''}" if "rt = ''/''"
  proof
    assume hd: "hd cs \<in> {''proc'', ''sys'', ''dev''}"
    have "rq_resource r = slash # hd cs \<or> starts_with (rq_resource r) (slash # hd cs @ ''/'')"
      using * that by (cases cs; cases "tl cs"; cases k) (auto simp: starts_with_def)
    then show False
      using pseudo hd by (auto simp: is_pseudo_filesystem_path_def pseudo_prefixes_def)
  qed
  ultimately show ?thesis by (rule that)
qed

end
