(* ===== verification/Guest_Paths.thy ===== *)
theory Guest_Paths
  imports Repair_Applier Repair_Planner
begin

text \<open>
  Which guest paths the applier accepts, what the accepted paths are below the rootfs, and that
  the planner's authorized decisions are decisions the applier accepts.
\<close>

section \<open>Accepted guest paths\<close>

lemma slashed_prefix:
  assumes "s = b @ replicate k slash" and "b = p \<or> starts_with b (p @ ''/'')"
  shows "s = p \<or> starts_with s (p @ ''/'')"
  using assms by (cases k) (auto simp: starts_with_iff)

lemma set_join_with: "c \<in> set ws \<Longrightarrow> set c \<subseteq> set (join_with sep ws)"
  by (induction sep ws rule: join_with.induct) auto

lemma applier_guest_path_Inr:
  "applier_guest_path cfg path = Inr g \<longleftrightarrow>
     CHR 0x00 \<notin> set path \<and> normal_absolute path \<and> g = pp_str (pp_parse path) \<and>
     \<not> list_ex (\<lambda>prefix. g = prefix \<or> starts_with g (prefix @ ''/'')) (ac_denied cfg)"
proof -
  have "\<not> normal_absolute ''/''"
    by (simp add: normal_absolute_def pp_parse_def pp_str_def rstrip_while_def lead_slashes_def split_on.simps)
  then show ?thesis
    by (auto simp: applier_guest_path_def normal_absolute_def Let_def)
qed

lemma normal_absolute_parse:
  assumes "normal_absolute path"
  obtains rt cs k where "rt = ''/'' \<or> rt = ''//''" "cs \<noteq> []" "\<forall>c \<in> set cs. plain_component c"
    "path = rt @ join_with [slash] cs @ replicate k slash" "pp_parse path = PPath rt cs"
    "pp_str (pp_parse path) = rt @ join_with [slash] cs"
    "pp_parse (pp_str (pp_parse path)) = PPath rt cs"
proof -
  from assms obtain rt cs k where *: "rt = ''/'' \<or> rt = ''//''" "cs \<noteq> []" "\<forall>c \<in> set cs. plain_component c"
      "path = rt @ join_with [slash] cs @ replicate k slash"
    by (auto simp: normal_absolute_iff)
  have plain: "\<forall>c \<in> set cs. c \<noteq> [] \<and> c \<noteq> ''.'' \<and> slash \<notin> set c"
    using *(3) by (auto simp: plain_component_def)
  have "last cs \<noteq> []" "last (last cs) \<noteq> slash"
    using plain last_in_set [OF *(2)] last_in_set [of "last cs"] by (blast, metis)
  then have "rt @ join_with [slash] cs \<noteq> []" "last (rt @ join_with [slash] cs) \<noteq> slash"
    using join_with_last [of cs "[slash]"] *(2) by auto
  from pp_parse_trailing [OF this, of k] have "pp_parse path = PPath rt cs"
    using *(4) pp_parse_join [OF plain *(1)] by simp
  then show ?thesis
    using * that [of rt cs k] pp_parse_join [OF plain *(1)] by (auto simp: pp_str_def)
qed

lemma applier_guest_path_confined:
  assumes "applier_guest_path cfg path = Inr g"
  shows "pp_comps (pp_parse g) \<noteq> []"
    and "\<forall>c \<in> set (pp_comps (pp_parse g)). plain_component c \<and> CHR 0x00 \<notin> set c"
    and "\<not> starts_with path ''//'' \<Longrightarrow> slash # d \<in> set (ac_denied cfg) \<Longrightarrow> hd (pp_comps (pp_parse g)) \<noteq> d"
proof -
  from assms have n: "normal_absolute path" "CHR 0x00 \<notin> set path" "g = pp_str (pp_parse path)"
    and denied: "\<not> list_ex (\<lambda>prefix. g = prefix \<or> starts_with g (prefix @ ''/'')) (ac_denied cfg)"
    by (auto simp: applier_guest_path_Inr)
  from n(1) obtain rt cs k where *: "rt = ''/'' \<or> rt = ''//''" "cs \<noteq> []" "\<forall>c \<in> set cs. plain_component c"
    "path = rt @ join_with [slash] cs @ replicate k slash" "pp_parse path = PPath rt cs"
    "pp_str (pp_parse path) = rt @ join_with [slash] cs"
    "pp_parse (pp_str (pp_parse path)) = PPath rt cs"
    by (rule normal_absolute_parse)
  have comps: "pp_comps (pp_parse g) = cs" by (simp add: n(3) *(7))
  show "pp_comps (pp_parse g) \<noteq> []" using comps *(2) by simp
  have "set c \<subseteq> set path" if "c \<in> set cs" for c
    using set_join_with [OF that, of "[slash]"] by (auto simp: *(4))
  then show "\<forall>c \<in> set (pp_comps (pp_parse g)). plain_component c \<and> CHR 0x00 \<notin> set c"
    using *(3) n(2) by (auto simp: comps)
  assume single: "\<not> starts_with path ''//''" and d: "slash # d \<in> set (ac_denied cfg)"
  have rt: "rt = ''/''" using single *(1) by (auto simp: *(4) starts_with_def)
  show "hd (pp_comps (pp_parse g)) \<noteq> d"
  proof
    assume "hd (pp_comps (pp_parse g)) = d"
    then have hd: "hd cs = d" by (simp add: comps)
    have g: "g = slash # join_with [slash] cs" by (simp add: n(3) *(6) rt)
    have "g = slash # d \<or> starts_with g ((slash # d) @ ''/'')"
      unfolding g starts_with_iff using *(2) hd by (cases cs; cases "tl cs") auto
    then show False using denied d by (auto simp: list_ex_iff)
  qed
qed

section \<open>The planner's decisions are accepted\<close>

lemma authorized_applier_path:
  assumes "authorized cfg r"
  shows "\<exists>g. applier_guest_path default_applier_config (rq_resource r) = Inr g"
proof -
  have n: "normal_absolute (rq_resource r)" "CHR 0x00 \<notin> set (rq_resource r)"
    and pseudo: "\<not> is_pseudo_filesystem_path (rq_resource r)"
    using assms by (auto simp: authorized_def validate_guest_path_None)
  obtain rt cs k where *: "rt = ''/'' \<or> rt = ''//''" "cs \<noteq> []"
    "rq_resource r = rt @ join_with [slash] cs @ replicate k slash"
    "pp_str (pp_parse (rq_resource r)) = rt @ join_with [slash] cs"
    using n(1) by (rule normal_absolute_parse)
  let ?g = "pp_str (pp_parse (rq_resource r))"
  have "rq_resource r = ?g @ replicate k slash" unfolding *(4) by (simp add: *(3))
  then have "rq_resource r = p \<or> starts_with (rq_resource r) (p @ ''/'')"
    if "?g = p \<or> starts_with ?g (p @ ''/'')" for p
    using that by (rule slashed_prefix)
  then have "\<not> list_ex (\<lambda>prefix. ?g = prefix \<or> starts_with ?g (prefix @ ''/'')) pseudo_prefixes"
    using pseudo unfolding is_pseudo_filesystem_path_def list_ex_iff by blast
  moreover have "ac_denied default_applier_config = pseudo_prefixes"
    by (simp add: default_applier_config_def pseudo_prefixes_def)
  ultimately show ?thesis
    using n unfolding applier_guest_path_Inr by simp
qed

lemma parse_mode_default: "parse_mode did (JStr ''0755'') = Inr 493"
  by (simp add: parse_mode.simps octal_digit_def octal_value_def)

definition filesystem_error :: "apply_error \<Rightarrow> bool" where
  "filesystem_error e = (case e of CannotInspect _ _ \<Rightarrow> True | CrossesSymlink _ \<Rightarrow> True
     | TargetNotDirectory _ \<Rightarrow> True | AncestorNotDirectory _ \<Rightarrow> True | _ \<Rightarrow> False)"

lemma walk_components_error: "walk_components ops fs virt cur cs = Inl e \<Longrightarrow> filesystem_error e"
  by (induction cs arbitrary: cur)
     (auto simp: Let_def filesystem_error_def ebind_Inl_iff split: if_splits lstat_result.splits entry_kind.splits)

lemma planned_prepared:
  assumes "planned cfg r d" and "rd_automatic d"
  shows "(\<exists>item. prepare_directory default_applier_config ops fs virt d = Inr item) \<or>
    (\<exists>e. prepare_directory default_applier_config ops fs virt d = Inl e \<and> filesystem_error e)"
proof -
  have d: "authorized cfg r" "rd_resource d = rq_resource r" "rd_parameters d = mkdir_parameters"
    using assms by (auto simp: planned_def)
  from authorized_applier_path [OF d(1)] obtain g where
    g: "applier_guest_path default_applier_config (rq_resource r) = Inr g" by blast
  show ?thesis
    using walk_components_error [of ops fs virt "[]" "pp_comps (pp_parse g)"]
    by (cases "walk_components ops fs virt [] (pp_comps (pp_parse g))")
       (auto simp: prepare_directory_def d g mkdir_parameters_def parse_mode_default Let_def
         simp del: parse_mode.simps)
qed

lemma planned_preflight:
  assumes "\<forall>d \<in> set ds. \<exists>r. planned cfg r d"
    and "preflight default_applier_config ops fs hroot dry virt ds = Inl e"
  shows "filesystem_error e"
  using assms
proof (induction ds arbitrary: virt)
  case Nil
  then show ?case by simp
next
  case (Cons d ds)
  show ?case
  proof (cases "rd_automatic d")
    case False
    then show ?thesis using Cons by (auto simp: ebind_Inl_iff)
  next
    case True
    from Cons.prems(1) obtain r where p: "planned cfg r d" by auto
    then have "rd_disposition d = AutoCandidate" "rd_action d = CreateDirectory"
      using True by (auto simp: planned_def)
    moreover have "CreateDirectory \<in> set (ac_allowed default_applier_config)"
      by (simp add: default_applier_config_def)
    ultimately have step: "ebind (prepare_directory default_applier_config ops fs virt d) (\<lambda>item.
           ebind (preflight default_applier_config ops fs hroot dry (pd_create item @ virt) ds) (\<lambda>(items, results).
           Inr (item # items, preflight_result hroot dry item # results))) = Inl e"
      using Cons.prems(2) True by simp
    from planned_prepared [OF p True, of ops fs virt] show ?thesis
    proof (elim disjE exE)
      fix item
      assume "prepare_directory default_applier_config ops fs virt d = Inr item"
      then have "preflight default_applier_config ops fs hroot dry (pd_create item @ virt) ds = Inl e"
        using step by (auto simp: ebind_Inl_iff)
      then show ?thesis using Cons.IH Cons.prems(1) by auto
    next
      fix e'
      assume "prepare_directory default_applier_config ops fs virt d = Inl e' \<and> filesystem_error e'"
      then show ?thesis using step by simp
    qed
  qed
qed

end
