(* ===== verification/Repair_Pipeline.thy ===== *)
theory Repair_Pipeline
  imports Applier_Tree Guest_Paths
begin

text \<open>
  The properties of the repair pipeline: the codecs of the two persisted files, the planner, and
  the application of a plan to a directory tree.
\<close>

section \<open>Example data for the witnesses\<close>

definition example_requirement :: "string \<Rightarrow> runtime_requirement" where
  "example_requirement path =
     \<lparr>rq_id = make_requirement_id KFilesystem ''directory_exists'' path, rq_kind = KFilesystem,
      rq_resource = path, rq_operation = ''directory_exists'', rq_status = SUnmet,
      rq_blocking = BLikely, rq_confidence = FloatFin (97 / 100) ''0.97'', rq_repairable = True,
      rq_errno = Some ''ENOENT'',
      rq_evidence = [\<lparr>ev_source = ''strace'', ev_summary = ''open failed'', ev_raw = None, ev_event_index = Some 3\<rparr>],
      rq_details = [(''errno'', ''ENOENT'')]\<rparr>"

definition example_report :: "string \<Rightarrow> requirement_report" where
  "example_report path =
     \<lparr>rr_requirements = [example_requirement path], rr_warnings = [], rr_schema_version = 1,
      rr_generated_at = ''2025-01-01T00:00:00Z''\<rparr>"

lemma example_requirement_wf: "path \<noteq> [] \<Longrightarrow> wf_requirement (example_requirement path)"
  by (simp add: wf_requirement_def example_requirement_def wf_evidence_def float_0_def float_1_def)

lemma example_report_wf: "path \<noteq> [] \<Longrightarrow> wf_report (example_report path)"
  using example_requirement_wf [of path] by (simp add: wf_report_def example_report_def)

definition example_decision :: "string \<Rightarrow> repair_decision" where
  "example_decision path =
     \<lparr>rd_id = make_decision_id ''req_1'' CreateDirectory AutoCandidate path, rd_requirement_id = ''req_1'',
      rd_requirement_kind = ''filesystem'', rd_resource = path, rd_operation = ''directory_exists'',
      rd_action = CreateDirectory, rd_disposition = AutoCandidate, rd_priority = PHigh, rd_risk = RiskLow,
      rd_automatic = True, rd_reason = ''absent'', rd_parameters = mkdir_parameters\<rparr>"

definition example_plan :: "string \<Rightarrow> repair_plan" where
  "example_plan path =
     \<lparr>rp_source_requirements = ''req.json'', rp_source_sha256 = sha256_hex ''{}'',
      rp_decisions = [example_decision path], rp_warnings = [], rp_schema_version = 1,
      rp_planner_version = 1, rp_generated_at = ''2025-01-01T00:00:00Z''\<rparr>"

lemma example_decision_wf: "path \<noteq> [] \<Longrightarrow> wf_decision (example_decision path)"
  by (simp add: wf_decision_def example_decision_def mkdir_parameters_def)

lemma example_plan_wf: "path \<noteq> [] \<Longrightarrow> wf_plan (example_plan path)"
  using example_decision_wf [of path] sha256_hex_valid [of "''{}''"]
  by (simp add: wf_plan_def example_plan_def)

section \<open>Persisted requirements and plans\<close>

lemma requirements_accepted_wf:
  assumes "report_load loads f = Inr rep" and "\<And>t raw. loads t = Some raw \<Longrightarrow> json_wf raw"
  shows "wf_report rep"
  using assms(1) report_accepts assms(2)
  by (auto simp: report_load_def split: file_view.splits option.splits)

lemma counts_json_wf: "json_wf (counts_json (count_by f xs))"
proof -
  have keys: "map fst (map (\<lambda>(k, n). (k, JInt (int n))) d) = map fst d" for d :: "(string \<times> nat) list"
    by (induction d) auto
  have "list_all (\<lambda>(k, y). json_wf y) (map (\<lambda>(k, n). (k, JInt (int n))) d)" for d :: "(string \<times> nat) list"
    by (induction d) auto
  with keys [of "count_by f xs"] count_by_keys [of f xs] show ?thesis
    by (simp add: counts_json_def del: map_map)
qed

lemma example_report_json: "json_wf (report_to_dict (example_report ''/v''))"
  by (simp add: report_to_dict_def example_report_def example_requirement_def requirement_to_dict_def
      evidence_to_dict_def report_summary_def counts_json_wf opt_json_def Let_def)

lemma plan_accepted_wf:
  assumes "plan_load loads f = Inr p" and "\<And>t raw. loads t = Some raw \<Longrightarrow> json_wf raw"
  shows "wf_plan p"
  using assms(1) plan_accepts assms(2)
  by (auto simp: plan_load_def split: file_view.splits option.splits)

lemma example_plan_json: "json_wf (plan_to_dict (example_plan ''/v''))"
  by (simp add: plan_to_dict_def example_plan_def example_decision_def decision_to_dict_def
      plan_summary_def counts_json_wf mkdir_parameters_def Let_def)

text \<open>
  C33: A well-formed requirement report and a well-formed repair plan load back exactly as they were
  saved.
\<close>

theorem repair_inputs_round_trip:
  assumes "wf_report rep" and "wf_plan p"
  shows "report_from_dict (report_to_dict rep) = Inr rep \<and> plan_from_dict (plan_to_dict p) = Inr p"
  using report_roundtrip [OF assms(1)] plan_roundtrip [OF assms(2)] by simp

theorem repair_inputs_round_trip_witness:
  "report_from_dict (report_to_dict (example_report ''/var/run'')) = Inr (example_report ''/var/run'') \<and>
    plan_from_dict (plan_to_dict (example_plan ''/v'')) = Inr (example_plan ''/v'')"
  by (rule repair_inputs_round_trip) (simp_all add: example_report_wf example_plan_wf)

text \<open>
  C34: What the loaders accept is well-formed.  A report has schema 1, every identifier is the hash of
  its kind, operation and resource, confidences lie in [0, 1] and no requirement occurs twice; in a plan
  every automatic decision is an auto_candidate with an action, and every decision carries the
  identifier of its content.
\<close>

theorem loaded_repair_inputs_wf:
  assumes "\<And>t raw. loads t = Some raw \<Longrightarrow> json_wf raw"
  shows "(report_load loads f = Inr rep \<longrightarrow> wf_report rep) \<and> (plan_load loads g = Inr p \<longrightarrow> wf_plan p)"
  using requirements_accepted_wf [of loads f rep] plan_accepted_wf [of loads g p] assms by blast

theorem loaded_repair_inputs_wf_witness:
  "wf_report (example_report ''/v'') \<and> wf_plan (example_plan ''/v'')"
proof -
  let ?loads = "\<lambda>t. if t = ''R'' then Some (report_to_dict (example_report ''/v'')) else Some (plan_to_dict (example_plan ''/v''))"
  have "json_wf raw" if "?loads t = Some raw" for t raw
    using that example_report_json example_plan_json by (auto split: if_splits)
  moreover have "report_load ?loads (FileText ''R'') = Inr (example_report ''/v'')"
    by (simp add: report_load_def report_roundtrip example_report_wf)
  moreover have "plan_load ?loads (FileText ''P'') = Inr (example_plan ''/v'')"
    by (simp add: plan_load_def plan_roundtrip example_plan_wf)
  ultimately show ?thesis
    using loaded_repair_inputs_wf [of ?loads "FileText ''R''" "example_report ''/v''" "FileText ''P''" "example_plan ''/v''"] by blast
qed

text \<open>
  The requirement identifier hashes a text that determines kind, operation and resource, as
  long as the operations hold no NUL: two requirements with different keys hash different texts.
\<close>

theorem requirement_id_text_injective:
  assumes "CHR 0x00 \<notin> set (rq_operation r)" and "CHR 0x00 \<notin> set (rq_operation r')"
    and "requirement_key r \<noteq> requirement_key r'"
  shows "requirement_canonical (rq_kind r) (rq_operation r) (rq_resource r)
    \<noteq> requirement_canonical (rq_kind r') (rq_operation r') (rq_resource r')"
proof
  assume "requirement_canonical (rq_kind r) (rq_operation r) (rq_resource r)
    = requirement_canonical (rq_kind r') (rq_operation r') (rq_resource r')"
  from requirement_canonical_inj [OF this assms(1,2)] assms(3) show False
    by (simp add: requirement_key_def)
qed

theorem requirement_id_text_injective_witness:
  "requirement_canonical KFilesystem ''directory_exists'' ''/a'' \<noteq>
   requirement_canonical KFilesystem ''directory_exists'' ''/b''"
  using requirement_id_text_injective [of "example_requirement ''/a''" "example_requirement ''/b''"]
  by (simp add: example_requirement_def requirement_key_def)

text \<open>
  The summary's counts are exact: each value that occurs is counted as often as it occurs,
  and no other value is listed; keys are sorted and distinct.
\<close>

theorem summary_counts_exact:
  "map_of (count_by f xs) k = (if k \<in> f ` set xs then Some (count_list (map f xs) k) else None) \<and>
   sorted (map fst (count_by f xs)) \<and> distinct (map fst (count_by f xs))"
  using count_by_lookup count_by_keys by blast

section \<open>Planning\<close>

text \<open>
  Planning never raises: every report has a plan, in which every requirement has exactly
  one decision, ordered by priority, kind, resource, operation and identifier.
\<close>

theorem planning_total_and_ordered:
  "\<exists>plan. plan_report cfg now report source sha = Inr plan \<and>
     sorted (map decision_key (rp_decisions plan)) \<and>
     mset (map rd_requirement_id (rp_decisions plan)) = mset (map rq_id (rr_requirements report)) \<and>
     rp_warnings plan = rr_warnings report \<and> rp_source_sha256 plan = sha"
proof -
  obtain plan where plan: "plan_report cfg now report source sha = Inr plan"
    and ds: "rp_decisions plan = sort_key decision_key (map (the_decision cfg) (rr_requirements report))"
    and rest: "rp_warnings plan = rr_warnings report" "rp_source_sha256 plan = sha"
    using plan_report_total [of cfg now report source sha] by blast
  have ids: "map rd_requirement_id (map (the_decision cfg) (rr_requirements report)) = map rq_id (rr_requirements report)"
    using the_decision_planned by (auto simp: planned_def)
  have "mset (map rd_requirement_id (rp_decisions plan)) = mset (map rq_id (rr_requirements report))"
    unfolding ds ids [symmetric] by (simp only: mset_map mset_sort)
  moreover have "sorted (map decision_key (rp_decisions plan))"
    unfolding ds by (rule sorted_sort_key)
  ultimately show ?thesis using plan rest by blast
qed

text \<open>
  C6: The planner authorizes automatic application exactly for an unmet, repairable directory
  requirement of sufficient confidence on a normalized, absolute path that is neither the root nor
  under a pseudo-filesystem prefix, and then only the creation of a directory at low risk.
\<close>

theorem planner_authorizes_iff:
  assumes "plan_requirement cfg r = Inr d"
  shows "(rd_automatic d \<longleftrightarrow>
      rq_kind r = KFilesystem \<and> rq_operation r = ''directory_exists'' \<and> rq_status r = SUnmet \<and>
      rq_repairable r \<and> float_le (minimum_auto_confidence cfg) (rq_confidence r) \<and>
      validate_guest_path (rq_resource r) = None \<and> rq_resource r \<noteq> ''/'' \<and>
      \<not> is_pseudo_filesystem_path (rq_resource r)) \<and>
    (rd_automatic d \<longrightarrow> rd_disposition d = AutoCandidate \<and> rd_action d = CreateDirectory \<and>
      rd_risk d = RiskLow \<and> rd_parameters d = mkdir_parameters)"
  using plan_requirement_planned [of cfg r] assms by (auto simp: planned_def authorized_def)

theorem planner_authorizes_iff_witness:
  "\<exists>d. plan_requirement default_planner_config (example_requirement ''/var/run'') = Inr d \<and>
     rd_automatic d \<and> rd_action d = CreateDirectory"
proof -
  let ?r = "example_requirement ''/var/run''"
  obtain d where d: "plan_requirement default_planner_config ?r = Inr d"
    using plan_requirement_eq by blast
  have "validate_guest_path ''/var/run'' = None" by code_simp
  moreover have "\<not> is_pseudo_filesystem_path ''/var/run''" by code_simp
  ultimately have "rd_automatic d"
    using planner_authorizes_iff [OF d]
    by (simp add: example_requirement_def default_planner_config_def)
  with planner_authorizes_iff [OF d] d show ?thesis by blast
qed

text \<open>
  The plan made from an accepted report is one the plan loader accepts unchanged, when the
  truncated hashes of its requirements and decisions do not collide.
\<close>

theorem planned_file_loads_back:
  assumes "report_load loads (FileText t) = Inr report" and "\<And>t raw. loads t = Some raw \<Longrightarrow> json_wf raw"
    and "plan_file cfg loads now path (FileText t) = Inr plan" and "now \<noteq> []" and "path \<noteq> []"
    and "distinct (map rq_id (rr_requirements report))" and "distinct (map rd_id (rp_decisions plan))"
  shows "wf_plan plan \<and> plan_from_dict (plan_to_dict plan) = Inr plan \<and>
    rp_source_sha256 plan = sha256_hex t"
proof -
  have report: "wf_report report"
    using assms(1,2) report_accepts by (auto simp: report_load_def split: option.splits)
  have plan: "plan_report cfg now report path (sha256_hex t) = Inr plan"
    using assms(1,3) by (simp add: plan_file_def)
  have "wf_plan plan"
    by (rule plan_report_wf [OF report plan assms(4,5) sha256_hex_valid assms(6,7)])
  moreover have "rp_source_sha256 plan = sha256_hex t"
    using plan_report_total [of cfg now report path "sha256_hex t"] plan by auto
  ultimately show ?thesis using plan_roundtrip by blast
qed

theorem planned_file_loads_back_witness:
  "\<exists>plan. wf_plan plan \<and> plan_from_dict (plan_to_dict plan) = Inr plan \<and>
     rp_source_sha256 plan = sha256_hex ''{}'' \<and> length (rp_decisions plan) = 1"
proof -
  let ?loads = "\<lambda>t :: string. Some (report_to_dict (example_report ''/v''))"
  let ?rep = "example_report ''/v''" and ?cfg = default_planner_config
  have report: "report_load ?loads (FileText ''{}'') = Inr ?rep"
    by (simp add: report_load_def report_roundtrip example_report_wf)
  obtain plan where plan: "plan_report ?cfg ''now'' ?rep ''req.json'' (sha256_hex ''{}'') = Inr plan"
    and ds: "rp_decisions plan = sort_key decision_key (map (the_decision ?cfg) (rr_requirements ?rep))"
    using plan_report_total by blast
  have one: "rp_decisions plan = [the_decision ?cfg (example_requirement ''/v'')]"
    by (simp add: ds example_report_def)
  have "wf_plan plan \<and> plan_from_dict (plan_to_dict plan) = Inr plan \<and> rp_source_sha256 plan = sha256_hex ''{}''"
  proof (rule planned_file_loads_back [OF report])
    show "json_wf raw" if "?loads t = Some raw" for t raw
      using that example_report_json by simp
    show "plan_file ?cfg ?loads ''now'' ''req.json'' (FileText ''{}'') = Inr plan"
      using plan report by (simp add: plan_file_def)
  qed (simp_all add: one example_report_def)
  then show ?thesis using one by auto
qed

text \<open>
  C31: A decision the planner made never fails the applier's validation: with the default
  configurations the preflight of a plan can only fail on what it finds in the rootfs.
\<close>

theorem planned_decisions_pass_preflight:
  assumes "plan_report cfg now report source sha = Inr plan"
    and "preflight default_applier_config ops fs hroot dry_run [] (rp_decisions plan) = Inl e"
  shows "(\<exists>p msg. e = CannotInspect p msg) \<or> (\<exists>p. e = CrossesSymlink p) \<or>
    (\<exists>p. e = TargetNotDirectory p) \<or> (\<exists>p. e = AncestorNotDirectory p)"
proof -
  have "rp_decisions plan = sort_key decision_key (map (the_decision cfg) (rr_requirements report))"
    using plan_report_total [of cfg now report source sha] assms(1) by auto
  then have "\<forall>d \<in> set (rp_decisions plan). \<exists>r. planned cfg r d"
    using the_decision_planned by auto
  then have "filesystem_error e" using planned_preflight [OF _ assms(2)] by blast
  then show ?thesis by (auto simp: filesystem_error_def split: apply_error.splits)
qed

definition example_tree :: "(fpath \<times> entry_kind \<times> nat) list \<Rightarrow> tree" where
  "example_tree es =
     \<lparr>tr_entries = es @ [([], EDir, 493)], tr_umask = 18, tr_lstat_fail = [], tr_mkdir_fail = [],
      tr_chmod_fail = [], tr_rmdir_fail = []\<rparr>"

lemma example_paths:
  "applier_guest_path default_applier_config ''/v'' = Inr ''/v''"
  "pp_comps (pp_parse ''/v'') = [''v'']"
  "validate_guest_path ''/v'' = None"
  "\<not> is_pseudo_filesystem_path ''/v''"
  by code_simp+

lemma example_authorized: "authorized default_planner_config (example_requirement ''/v'')"
  using example_paths by (simp add: authorized_def example_requirement_def default_planner_config_def)

lemma example_planned:
  defines "d \<equiv> the_decision default_planner_config (example_requirement ''/v'')"
  shows "rd_automatic d" "rd_disposition d = AutoCandidate" "rd_action d = CreateDirectory"
    "rd_resource d = ''/v''" "rd_parameters d = mkdir_parameters"
  using example_authorized the_decision_planned [of default_planner_config "example_requirement ''/v''"]
  by (auto simp: d_def planned_def example_requirement_def)

theorem planned_decisions_pass_preflight_witness:
  "\<exists>plan e. plan_report default_planner_config ''now'' (example_report ''/v'') ''s'' ''d'' = Inr plan \<and>
     preflight default_applier_config tree_ops (example_tree [([''v''], ESymlink, 511)]) ''/r'' False []
       (rp_decisions plan) = Inl e \<and> (\<exists>p. e = CrossesSymlink p)"
proof -
  obtain plan where plan: "plan_report default_planner_config ''now'' (example_report ''/v'') ''s'' ''d'' = Inr plan"
    and ds: "rp_decisions plan = [the_decision default_planner_config (example_requirement ''/v'')]"
    using plan_report_total [of default_planner_config "''now''" "example_report ''/v''" "''s''" "''d''"]
    by (auto simp: example_report_def)
  have pre: "preflight default_applier_config tree_ops (example_tree [([''v''], ESymlink, 511)]) ''/r'' False []
       (rp_decisions plan) = Inl (CrossesSymlink [''v''])"
    using example_paths parse_mode_default
    by (simp add: ds example_planned default_applier_config_def prepare_directory_def
        mkdir_parameters_def tree_ops_def tree_lstat_def example_tree_def tree_ent_def Let_def
        del: parse_mode.simps)
  from planned_decisions_pass_preflight [OF plan pre] plan pre show ?thesis by blast
qed

end
