(* ===== verification/Applier_Credit.thy ===== *)
theory Applier_Credit
  imports Applier_Tree Guest_Paths
begin

text \<open>
  What a completed run says of each decision: which directories it is credited with, and that these are
  the ones that were missing, each under the first decision that needs it.  The locale
  \<open>entry_calls\<close> asks only what the calls do to the set of entries.
\<close>

section \<open>Which directories a decision is credited with\<close>

definition decision_path :: "repair_decision \<Rightarrow> fpath" where
  "decision_path d = (if rd_automatic d then pp_comps (pp_parse (rd_resource d)) else [])"

definition credited :: "(fpath \<Rightarrow> bool) \<Rightarrow> repair_decision list \<Rightarrow> nat \<Rightarrow> fpath list" where
  "credited missing ds n =
     filter (\<lambda>q. missing q \<and> (\<forall>k < n. q \<notin> set (prefixes_of (decision_path (ds ! k))))) (prefixes_of (decision_path (ds ! n)))"

text \<open>The result of a decision that is credited with the directories \<open>new\<close>\<close>

definition credits :: "string \<Rightarrow> repair_decision \<Rightarrow> fpath list \<Rightarrow> decision_result \<Rightarrow> bool" where
  "credits hroot d new r \<longleftrightarrow>
     dr_id r = rd_id d \<and> dr_requirement_id r = rd_requirement_id d \<and> dr_action r = action_value (rd_action d) \<and>
     dr_resource r = rd_resource d \<and> dr_created r = map (host_str hroot) new \<and>
     (if rd_automatic d
      then dr_status r = (if new = [] then RAlreadySatisfied else RApplied) \<and>
        dr_target r = Some (host_str hroot (decision_path d))
      else dr_status r = RNotSelected \<and> dr_target r = None)"

text \<open>The items that the preflight found unsatisfied\<close>

definition open_items :: "prepared_directory list \<Rightarrow> prepared_directory set" where
  "open_items items = {i \<in> set items. \<not> pd_satisfied i}"

lemma prefixes_of_Nil [simp]: "prefixes_of [] = []"
  by (simp add: prefixes_of_def)

lemma distinct_prefixes_of: "distinct (prefixes_of p)"
proof -
  have "inj_on (\<lambda>n. take (Suc n) p) (set [0..<length p])"
  proof (rule inj_onI)
    fix x y
    assume a: "x \<in> set [0..<length p]" "y \<in> set [0..<length p]" "take (Suc x) p = take (Suc y) p"
    then have "length (take (Suc x) p) = length (take (Suc y) p)" by simp
    with a(1,2) show "x = y" by simp
  qed
  then show ?thesis by (simp add: prefixes_of_def distinct_map)
qed

lemma decision_path_item:
  assumes "applier_guest_path cfg (rd_resource d) = Inr g" and "rd_automatic d"
  shows "pp_comps (pp_parse g) = decision_path d"
proof -
  have n: "normal_absolute (rd_resource d)" "g = pp_str (pp_parse (rd_resource d))"
    using assms(1) by (simp_all add: applier_guest_path_Inr)
  from n(1) obtain rt cs where "pp_parse (rd_resource d) = PPath rt cs" "pp_parse (pp_str (pp_parse (rd_resource d))) = PPath rt cs"
    by (rule normal_absolute_parse)
  then show ?thesis using assms(2) by (simp add: n(2) decision_path_def)
qed

lemma credited_Cons:
  "credited (\<lambda>q. missing q \<and> q \<notin> set (prefixes_of (decision_path d))) ds n = credited missing (d # ds) (Suc n)"
  by (auto simp: credited_def less_Suc_eq_0_disj intro!: filter_cong)

lemma credited_cong:
  "(\<And>q. q \<in> set (prefixes_of (decision_path (ds ! n))) \<Longrightarrow> f q = g q) \<Longrightarrow> credited f ds n = credited g ds n"
  by (auto simp: credited_def intro!: filter_cong)

section \<open>The calls and the set of entries\<close>

locale entry_calls =
  fixes ops :: "'fs fs_ops" and ent :: "'fs \<Rightarrow> entries"
  assumes no_entry_seen: "fs_lstat ops fs p = StatMissing \<Longrightarrow> ent fs p = None"
    and entry_seen: "fs_lstat ops fs p = StatEntry k \<Longrightarrow> ent fs p \<noteq> None"
    and entry_added: "fs_mkdir ops fs p mode = (MkOk, fs') \<Longrightarrow> ent fs p = None \<and> dom (ent fs') = insert p (dom (ent fs))"
    and entry_found: "fs_mkdir ops fs p mode = (MkExists, fs') \<Longrightarrow> fs' = fs \<and> ent fs p \<noteq> None"
    and entries_kept: "fs_chmod ops fs p mode = (None, fs') \<Longrightarrow> ent fs p \<noteq> None \<Longrightarrow> dom (ent fs') = dom (ent fs)"
begin

lemma walk_missing:
  "walk_components ops fs virt cur cs = Inr (ps, sat) \<Longrightarrow>
     ps = filter (\<lambda>q. ent fs q = None \<and> q \<notin> set virt) (map (\<lambda>n. cur @ take (Suc n) cs) [0..<length cs]) \<and> (sat \<longleftrightarrow> ps = [])"
proof (induction cs arbitrary: cur ps sat)
  case Nil
  then show ?case by simp
next
  case (Cons c cs)
  let ?p = "cur @ [c]"
  obtain ps1 sat1 where w: "walk_components ops fs virt ?p cs = Inr (ps1, sat1)"
      and ps: "ps = ps1 \<and> sat = sat1 \<and> (?p \<in> set virt \<or> fs_lstat ops fs ?p = StatEntry EDir)
        \<or> ps = ?p # ps1 \<and> \<not> sat \<and> fs_lstat ops fs ?p = StatMissing \<and> ?p \<notin> set virt"
    using Cons.prems
    by (auto simp: Let_def ebind_Inr_iff split: if_splits lstat_result.splits entry_kind.splits)
  have "map (\<lambda>n. cur @ take (Suc n) (c # cs)) [0..<length (c # cs)] = ?p # map (\<lambda>n. ?p @ take (Suc n) cs) [0..<length cs]"
    by (simp add: upt_conv_Cons map_Suc_upt [symmetric] comp_def del: upt_Suc)
  with Cons.IH [OF w] ps entry_seen [of fs ?p] no_entry_seen [of fs ?p] show ?case by auto
qed

lemma prepared_credit:
  assumes "prepare_directory cfg ops fs virt d = Inr item" and "rd_automatic d"
  shows "pd_decision item = d \<and> pd_target item = decision_path d \<and>
    pd_create item = filter (\<lambda>q. ent fs q = None \<and> q \<notin> set virt) (prefixes_of (decision_path d)) \<and>
    (pd_satisfied item \<longleftrightarrow> pd_create item = [])"
proof -
  note item = prepare_directory_Inr [OF assms(1)]
  from item have "pd_target item = decision_path d" using decision_path_item assms(2) by metis
  moreover from walk_missing [of fs virt "[]" "decision_path d" "pd_create item" "pd_satisfied item"] this item
  have "pd_create item = filter (\<lambda>q. ent fs q = None \<and> q \<notin> set virt) (prefixes_of (decision_path d)) \<and>
      (pd_satisfied item \<longleftrightarrow> pd_create item = [])" by (auto simp: prefixes_of_def)
  ultimately show ?thesis using item by blast
qed

text \<open>The results of the preflight, by position in the plan\<close>

definition item_for :: "'fs \<Rightarrow> fpath list \<Rightarrow> string \<Rightarrow> bool \<Rightarrow> repair_decision list \<Rightarrow> nat \<Rightarrow> prepared_directory \<Rightarrow> decision_result \<Rightarrow> bool" where
  "item_for fs virt hroot dry ds n i r \<longleftrightarrow> pd_decision i = ds ! n \<and> r = preflight_result hroot dry i \<and>
     pd_target i = decision_path (ds ! n) \<and> (pd_satisfied i \<longleftrightarrow> pd_create i = []) \<and>
     pd_create i = credited (\<lambda>q. ent fs q = None \<and> q \<notin> set virt) ds n"

lemma preflight_credit:
  "preflight cfg ops fs hroot dry virt ds = Inr (items, results) \<Longrightarrow> n < length ds \<Longrightarrow>
     if rd_automatic (ds ! n) then \<exists>i \<in> set items. item_for fs virt hroot dry ds n i (results ! n)
     else \<exists>reason. results ! n = plain_result (ds ! n) RNotSelected reason"
proof (induction ds arbitrary: virt items results n)
  case (Cons d ds)
  show ?case
  proof (cases "rd_automatic d")
    case False
    then obtain results' where r: "preflight cfg ops fs hroot dry virt ds = Inr (items, results')"
        and results: "\<exists>reason. results = plain_result d RNotSelected reason # results'"
      using Cons.prems by (auto simp: ebind_Inr_iff)
    have path: "decision_path d = []" using False by (simp add: decision_path_def)
    show ?thesis
    proof (cases n)
      case (Suc m)
      have "credited (\<lambda>q. ent fs q = None \<and> q \<notin> set virt) (d # ds) (Suc m) = credited (\<lambda>q. ent fs q = None \<and> q \<notin> set virt) ds m"
        by (simp add: credited_Cons [symmetric] path)
      with Cons.IH [OF r, of m] Cons.prems(2) results show ?thesis by (auto simp: Suc item_for_def)
    qed (use False results in auto)
  next
    case True
    then obtain i items' results' where p: "prepare_directory cfg ops fs virt d = Inr i"
        and r: "preflight cfg ops fs hroot dry (pd_create i @ virt) ds = Inr (items', results')"
        and eq: "items = i # items'" "results = preflight_result hroot dry i # results'"
      using Cons.prems by (auto simp: ebind_Inr_iff if_Inl_iff split: if_splits)
    note i = prepared_credit [OF p True]
    show ?thesis
    proof (cases n)
      case 0
      with i True show ?thesis by (auto simp: eq item_for_def credited_def)
    next
      case (Suc m)
      have "(ent fs q = None \<and> q \<notin> set (pd_create i @ virt)) =
          ((ent fs q = None \<and> q \<notin> set virt) \<and> q \<notin> set (prefixes_of (decision_path d)))" for q
        using i by auto
      then have "credited (\<lambda>q. ent fs q = None \<and> q \<notin> set (pd_create i @ virt)) ds m =
          credited (\<lambda>q. ent fs q = None \<and> q \<notin> set virt) (d # ds) (Suc m)"
        unfolding credited_Cons [symmetric] by (intro credited_cong)
      with Cons.IH [OF r, of m] Cons.prems(2) show ?thesis by (auto simp: Suc eq item_for_def)
    qed
  qed
qed simp

lemma preflight_disjoint:
  "preflight cfg ops fs hroot dry virt ds = Inr (items, results) \<Longrightarrow>
     distinct (concat (map pd_create items)) \<and> set (concat (map pd_create items)) \<inter> set virt = {}"
proof (induction ds arbitrary: virt items results)
  case (Cons d ds)
  show ?case
  proof (cases "rd_automatic d")
    case False
    then obtain results' where "preflight cfg ops fs hroot dry virt ds = Inr (items, results')"
      using Cons.prems by (auto simp: ebind_Inr_iff)
    from Cons.IH [OF this] show ?thesis .
  next
    case True
    then obtain i items' results' where p: "prepare_directory cfg ops fs virt d = Inr i"
        and r: "preflight cfg ops fs hroot dry (pd_create i @ virt) ds = Inr (items', results')" and eq: "items = i # items'"
      using Cons.prems by (auto simp: ebind_Inr_iff if_Inl_iff split: if_splits)
    have "distinct (pd_create i)" "set (pd_create i) \<inter> set virt = {}"
      using prepared_credit [OF p True] distinct_prefixes_of by auto
    with Cons.IH [OF r] show ?thesis by (auto simp: eq)
  qed
qed simp

section \<open>What is created\<close>

lemma create_paths_credit:
  "create_paths ops mode ps fs created actual = (Inr a, fs', created') \<Longrightarrow> distinct ps \<Longrightarrow>
     a = actual @ filter (\<lambda>q. ent fs q = None) ps \<and> dom (ent fs') = dom (ent fs) \<union> set ps"
proof (induction ps arbitrary: fs created actual)
  case (Cons p ps)
  obtain mk fs1 where mk: "fs_mkdir ops fs p mode = (mk, fs1)" by fastforce
  show ?case
  proof (cases mk)
    case MkOk
    note added = entry_added [OF mk [unfolded MkOk]]
    from Cons.prems(1) obtain fs2 where ch: "fs_chmod ops fs1 p mode = (None, fs2)"
        and rest: "create_paths ops mode ps fs2 (created @ [p]) (actual @ [p]) = (Inr a, fs', created')"
      by (auto simp: mk MkOk split: prod.splits option.splits)
    have "ent fs1 p \<noteq> None" using added by (metis domIff insertI1)
    then have dom2: "dom (ent fs2) = insert p (dom (ent fs))" using entries_kept [OF ch] added by simp
    have "filter (\<lambda>q. ent fs2 q = None) ps = filter (\<lambda>q. ent fs q = None) ps"
    proof (rule filter_cong)
      fix q
      assume "q \<in> set ps"
      then have "q \<in> dom (ent fs2) \<longleftrightarrow> q \<in> dom (ent fs)" using Cons.prems(2) by (auto simp: dom2 simp del: domIff)
      then show "(ent fs2 q = None) = (ent fs q = None)" by (metis domIff)
    qed simp
    with Cons.IH [OF rest] Cons.prems(2) added dom2 show ?thesis by auto
  next
    case MkExists
    note found = entry_found [OF mk [unfolded MkExists]]
    from Cons.prems(1) have "create_paths ops mode ps fs1 created actual = (Inr a, fs', created')"
      by (auto simp: mk MkExists split: lstat_result.splits entry_kind.splits)
    from Cons.IH [OF this] Cons.prems(2) found show ?thesis by auto
  next
    case (MkError e)
    with Cons.prems(1) show ?thesis by (simp add: mk)
  qed
qed simp

lemma apply_items_credit:
  "apply_items ops hroot items fs created bd = (Inr bd', fs', created') \<Longrightarrow>
     distinct (map (\<lambda>i. rd_id (pd_decision i)) items) \<Longrightarrow> distinct (concat (map pd_create items)) \<Longrightarrow>
     (\<forall>i \<in> open_items items. map_of bd' (rd_id (pd_decision i)) =
        Some (applied_result hroot i (filter (\<lambda>q. ent fs q = None) (pd_create i)))) \<and>
     (\<forall>k. k \<notin> (\<lambda>i. rd_id (pd_decision i)) ` open_items items \<longrightarrow> map_of bd' k = map_of bd k) \<and>
     dom (ent fs') = dom (ent fs) \<union> (\<Union>i \<in> open_items items. set (pd_create i))"
proof (induction items arbitrary: fs created bd)
  case Nil
  then show ?case by (simp add: open_items_def)
next
  case (Cons item items)
  show ?case
  proof (cases "pd_satisfied item")
    case True
    then have "open_items (item # items) = open_items items" by (auto simp: open_items_def)
    with Cons True show ?thesis by simp
  next
    case False
    then obtain actual fs1 created1 where c: "create_paths ops (pd_mode item) (pd_create item) fs created [] = (Inr actual, fs1, created1)"
      and rest: "apply_items ops hroot items fs1 created1
        ((rd_id (pd_decision item), applied_result hroot item actual) # bd) = (Inr bd', fs', created')"
      using Cons.prems(1) by (auto split: prod.splits sum.splits)
    have c': "actual = filter (\<lambda>q. ent fs q = None) (pd_create item)" "dom (ent fs1) = dom (ent fs) \<union> set (pd_create item)"
      using create_paths_credit [OF c] Cons.prems(3) by simp_all
    have opened: "open_items (item # items) = insert item (open_items items)" using False by (auto simp: open_items_def)
    have later: "filter (\<lambda>q. ent fs1 q = None) (pd_create i) = filter (\<lambda>q. ent fs q = None) (pd_create i)" if "i \<in> open_items items" for i
    proof (rule filter_cong)
      fix q
      assume "q \<in> set (pd_create i)"
      then have "q \<notin> set (pd_create item)" using Cons.prems(3) that by (auto simp: open_items_def)
      then have "q \<in> dom (ent fs1) \<longleftrightarrow> q \<in> dom (ent fs)" by (simp add: c'(2) del: domIff)
      then show "(ent fs1 q = None) = (ent fs q = None)" by (metis domIff)
    qed simp
    have own: "rd_id (pd_decision item) \<notin> (\<lambda>i. rd_id (pd_decision i)) ` open_items items"
      using Cons.prems(2) by (auto simp: open_items_def)
    from Cons.IH [OF rest] Cons.prems(2,3) later own c' show ?thesis unfolding opened by auto
  qed
qed

end

section \<open>Results and entries of a completed run\<close>

context entry_calls
begin

lemma preflight_item_ids:
  assumes "preflight cfg ops fs hroot dry virt ds = Inr (items, initial)" and "distinct (map rd_id ds)"
  shows "distinct (map (\<lambda>i. rd_id (pd_decision i)) items)" "i \<in> set items \<Longrightarrow> pd_decision i \<in> set ds \<and> rd_automatic (pd_decision i)"
proof -
  have decisions: "map pd_decision items = filter rd_automatic ds" using preflight_decisions [OF assms(1)] by blast
  have "map (\<lambda>i. rd_id (pd_decision i)) items = map rd_id (map pd_decision items)" by simp
  then have "map (\<lambda>i. rd_id (pd_decision i)) items = map rd_id (filter rd_automatic ds)" by (simp only: decisions)
  then show "distinct (map (\<lambda>i. rd_id (pd_decision i)) items)" using assms(2) by (simp add: distinct_map_filter)
  assume "i \<in> set items"
  then have "pd_decision i \<in> set (map pd_decision items)" by simp
  then show "pd_decision i \<in> set ds \<and> rd_automatic (pd_decision i)" unfolding decisions by simp
qed

text \<open>The item of a position is the only one with that identifier.\<close>

lemma item_unique:
  assumes pre: "preflight cfg ops fs hroot dry virt ds = Inr (items, initial)" and ids: "distinct (map rd_id ds)"
    and n: "n < length ds" and i: "i \<in> set items" "rd_id (pd_decision i) = rd_id (ds ! n)"
  shows "rd_automatic (ds ! n) \<and> item_for fs virt hroot dry ds n i (initial ! n)"
proof -
  note items = preflight_item_ids [OF pre ids]
  from items(2) [OF i(1)] i(2) n ids have "pd_decision i = ds ! n" by (metis distinct_map inj_onD nth_mem)
  then have auto: "rd_automatic (ds ! n)" using items(2) [OF i(1)] by simp
  with preflight_credit [OF pre n] obtain j where j: "j \<in> set items" "item_for fs virt hroot dry ds n j (initial ! n)" by auto
  then have "rd_id (pd_decision j) = rd_id (pd_decision i)" by (simp add: item_for_def i(2))
  with items(1) i(1) j(1) have "j = i" by (auto simp: distinct_map dest: inj_onD)
  with auto j(2) show ?thesis by simp
qed

lemma open_items_credited:
  assumes pre: "preflight cfg ops fs hroot dry [] ds = Inr (items, initial)" and ids: "distinct (map rd_id ds)"
  shows "(\<Union>i \<in> open_items items. set (pd_create i)) = (\<Union>n < length ds. set (credited (\<lambda>q. ent fs q = None) ds n))"
proof (intro equalityI subsetI)
  fix q
  assume "q \<in> (\<Union>i \<in> open_items items. set (pd_create i))"
  then obtain i where i: "i \<in> set items" "q \<in> set (pd_create i)" by (auto simp: open_items_def)
  with preflight_item_ids(2) [OF pre ids] obtain n where n: "n < length ds" "pd_decision i = ds ! n"
    by (metis in_set_conv_nth)
  with item_unique [OF pre ids n(1) i(1)] i(2) show "q \<in> (\<Union>n < length ds. set (credited (\<lambda>q. ent fs q = None) ds n))"
    by (auto simp: item_for_def)
next
  fix q
  assume "q \<in> (\<Union>n < length ds. set (credited (\<lambda>q. ent fs q = None) ds n))"
  then obtain n where n: "n < length ds" "q \<in> set (credited (\<lambda>q. ent fs q = None) ds n)" by auto
  then have "rd_automatic (ds ! n)" by (auto simp: credited_def decision_path_def split: if_splits)
  with preflight_credit [OF pre n(1)] obtain i where i: "i \<in> set items" "item_for fs [] hroot dry ds n i (initial ! n)" by auto
  with n(2) have "q \<in> set (pd_create i)" "i \<in> open_items items" by (auto simp: item_for_def open_items_def)
  then show "q \<in> (\<Union>i \<in> open_items items. set (pd_create i))" by blast
qed

lemma collected_result:
  assumes pre: "preflight cfg ops fs hroot dry virt ds = Inr (items, initial)" and ids: "distinct (map rd_id ds)" and n: "n < length ds"
    and col: "collect_results bd initial = Inr results"
  shows "map_of bd (rd_id (ds ! n)) = Some (results ! n)"
    and "map_of (rev (map (\<lambda>r. (dr_id r, r)) initial)) (rd_id (ds ! n)) = Some (initial ! n)"
proof -
  note names = preflight_ids [OF pre]
  have m: "n < length initial" "dr_id (initial ! n) = rd_id (ds ! n)"
    using arg_cong [OF names, where f = length] n arg_cong [OF names, where f = "\<lambda>xs. xs ! n"] by simp_all
  show "map_of bd (rd_id (ds ! n)) = Some (results ! n)"
    using list_all2_nthD [OF collect_results_nth [OF col] m(1)] m(2) by simp
  show "map_of (rev (map (\<lambda>r. (dr_id r, r)) initial)) (rd_id (ds ! n)) = Some (initial ! n)"
    using map_of_ids [of initial "initial ! n"] names ids m by simp
qed

lemma settled_result_credit:
  assumes pre: "preflight cfg ops fs hroot False [] ds = Inr (items, initial)" and ids: "distinct (map rd_id ds)" and n: "n < length ds"
    and final: "\<forall>i \<in> open_items items. map_of bd (rd_id (pd_decision i)) =
        Some (applied_result hroot i (filter (\<lambda>q. ent fs0 q = None) (pd_create i)))"
      "\<forall>k. k \<notin> (\<lambda>i. rd_id (pd_decision i)) ` open_items items \<longrightarrow>
        map_of bd k = map_of (rev (map (\<lambda>r. (dr_id r, r)) initial)) k"
    and col: "collect_results bd initial = Inr results"
  shows "credits hroot (ds ! n) (credited (\<lambda>q. ent fs q = None \<and> ent fs0 q = None) ds n) (results ! n)"
proof -
  note collected = collected_result [OF pre ids n col]
  have new: "credited (\<lambda>q. ent fs q = None \<and> ent fs0 q = None) ds n = filter (\<lambda>q. ent fs0 q = None) (credited (\<lambda>q. ent fs q = None) ds n)"
    by (auto simp: credited_def intro!: filter_cong)
  show ?thesis
  proof (cases "rd_id (ds ! n) \<in> (\<lambda>i. rd_id (pd_decision i)) ` open_items items")
    case True
    then obtain i where i: "i \<in> open_items items" "rd_id (pd_decision i) = rd_id (ds ! n)" by auto
    then have "rd_automatic (ds ! n) \<and> item_for fs [] hroot False ds n i (initial ! n)"
      by (intro item_unique [OF pre ids n]) (auto simp: open_items_def)
    moreover have "results ! n = applied_result hroot i (filter (\<lambda>q. ent fs0 q = None) (pd_create i))"
      using final(1) i collected(1) by auto
    ultimately show ?thesis by (simp add: new credits_def item_for_def applied_result_def plain_result_def)
  next
    case False
    then have result: "results ! n = initial ! n" using final(2) collected by simp
    show ?thesis
    proof (cases "rd_automatic (ds ! n)")
      case True
      with preflight_credit [OF pre n] obtain i where i: "i \<in> set items" "item_for fs [] hroot False ds n i (initial ! n)" by auto
      with False have "pd_satisfied i" by (auto simp: open_items_def item_for_def image_iff)
      moreover from this i(2) have "credited (\<lambda>q. ent fs q = None) ds n = []" by (auto simp: item_for_def)
      ultimately show ?thesis
        using i(2) True by (simp add: result new credits_def item_for_def preflight_result_def plain_result_def)
    next
      case not_auto: False
      with preflight_credit [OF pre n] obtain reason where "initial ! n = plain_result (ds ! n) RNotSelected reason" by auto
      with not_auto show ?thesis
        by (simp add: result credits_def plain_result_def credited_def decision_path_def)
    qed
  qed
qed

lemma apply_prepared_credit:
  assumes pre: "preflight cfg ops fs hroot False [] ds = Inr (items, initial)"
    and ap: "apply_prepared ops hroot items initial fs0 = (Inr results, fs1, created)" and ids: "distinct (map rd_id ds)"
  shows "length results = length ds \<and>
    (\<forall>n < length ds. credits hroot (ds ! n) (credited (\<lambda>q. ent fs q = None \<and> ent fs0 q = None) ds n) (results ! n)) \<and>
    dom (ent fs1) = dom (ent fs0) \<union> (\<Union>n < length ds. set (credited (\<lambda>q. ent fs q = None) ds n))"
proof -
  obtain bd where run: "apply_items ops hroot items fs0 [] (rev (map (\<lambda>r. (dr_id r, r)) initial)) = (Inr bd, fs1, created)"
      and col: "collect_results bd initial = Inr results"
    using ap by (auto simp: apply_prepared_def split: prod.splits sum.splits)
  have "length results = length ds"
    using arg_cong [OF preflight_ids [OF pre], where f = length] list_all2_lengthD [OF collect_results_nth [OF col]] by simp
  moreover note final = apply_items_credit [OF run preflight_item_ids(1) [OF pre ids] conjunct1 [OF preflight_disjoint [OF pre]]]
  from final have bd: "\<forall>i \<in> open_items items. map_of bd (rd_id (pd_decision i)) =
        Some (applied_result hroot i (filter (\<lambda>q. ent fs0 q = None) (pd_create i)))"
      "\<forall>k. k \<notin> (\<lambda>i. rd_id (pd_decision i)) ` open_items items \<longrightarrow>
        map_of bd k = map_of (rev (map (\<lambda>r. (dr_id r, r)) initial)) k" by blast+
  note settled_result_credit [OF pre ids _ bd col]
  moreover from final open_items_credited [OF pre ids]
  have "dom (ent fs1) = dom (ent fs0) \<union> (\<Union>n < length ds. set (credited (\<lambda>q. ent fs q = None) ds n))" by metis
  ultimately show ?thesis by blast
qed

end

section \<open>The directory tree\<close>

interpretation tree_calls: entry_calls tree_ops tree_ent
  by unfold_locales
    (auto simp: tree_call_defs no_entry split: if_splits option.splits prod.splits)

end
