(* ===== verification/Apply_Properties.thy ===== *)
theory Apply_Properties
  imports Repair_Pipeline Applier_Credit
begin

text \<open>The properties of applying a plan to a rootfs.\<close>

section \<open>An example run\<close>

abbreviation example_loads :: "string \<Rightarrow> json option" where
  "example_loads \<equiv> (\<lambda>_. Some (plan_to_dict (example_plan ''/v'')))"

abbreviation example_run :: "string \<Rightarrow> tree \<Rightarrow> tree apply_outcome" where
  "example_run reqs t \<equiv> apply_file default_applier_config tree_ops id (\<lambda>_. None) example_loads ''now''
     ''plan.json'' (FileText ''{}'') ''req.json'' (FileText reqs)
     \<lparr>rv_exists = True, rv_symlink = False, rv_directory = True, rv_resolved = ''/r''\<rparr> False t"

lemma example_plan_loads: "plan_load example_loads (FileText ''{}'') = Inr (example_plan ''/v'')"
  by (simp add: plan_load_def plan_roundtrip example_plan_wf)

lemma example_fields:
  "rp_decisions (example_plan p) = [example_decision p]"
  "rp_source_sha256 (example_plan p) = sha256_hex ''{}''"
  "ac_allowed default_applier_config = [CreateDirectory]"
  "rd_automatic (example_decision p)" "rd_disposition (example_decision p) = AutoCandidate"
  "rd_action (example_decision p) = CreateDirectory" "rd_resource (example_decision p) = p"
  "rd_parameters (example_decision p) = mkdir_parameters"
  by (simp_all add: example_plan_def example_decision_def default_applier_config_def)

lemma example_inputs:
  "load_inputs example_loads (FileText ''{}'') (FileText ''{}'')
     \<lparr>rv_exists = True, rv_symlink = False, rv_directory = True, rv_resolved = ''/r''\<rparr> =
   Inr (example_plan ''/v'', ''/r'', sha256_hex ''{}'', sha256_hex ''{}'')"
  by (simp add: load_inputs_def example_plan_loads example_fields validate_rootfs_def)

lemma example_tree_reliable: "tree_reliable (example_tree [])"
  "tree_reliable (example_tree [] \<lparr>tr_mkdir_fail := [([''v''], ''No space left on device'')]\<rparr>)"
  by (auto simp: tree_reliable_def tree_ok_def example_tree_def closed_tree_def is_dir_def tree_ent_def)

lemmas example_run_defs = apply_file_def example_inputs run_transaction_def example_fields
  prepare_directory_def mkdir_parameters_def example_paths parse_mode_default
  apply_prepared_def collect_results_def preflight_result_def plain_result_def tree_ops_def tree_lstat_def
  tree_mkdir_def tree_chmod_def tree_rmdir_def put_entry_def example_tree_def tree_ent_def is_dir_def
  applied_result_def fail_transaction_def rollback_def Let_def

lemma example_completed: "\<exists>rep. ao_result (example_run ''{}'' (example_tree [])) = Inr rep"
  by (simp add: example_run_defs del: parse_mode.simps)

lemma example_failed:
  "ao_result (example_run ''{}'' (example_tree [] \<lparr>tr_mkdir_fail := [([''v''], ''No space left on device'')]\<rparr>)) =
     Inl (CannotCreate [''v''] ''No space left on device'')"
  by (simp add: example_run_defs del: parse_mode.simps)

section \<open>What stops a run before it touches the tree\<close>

text \<open>A dry run leaves the rootfs as it is, whatever its inputs and its outcome.\<close>

theorem dry_run_leaves_rootfs:
  "ao_fs (apply_file cfg ops between sv loads now pp pf rp rf hroot True fs) = fs"
  by (auto simp: apply_file_def run_transaction_dry split: sum.splits)

text \<open>
  A plan is refused, before the rootfs is read and before any report is written, when the
  requirements file is not the one whose digest the plan records.
\<close>

theorem foreign_requirements_refused:
  assumes "plan_load loads (FileText t) = Inr plan" and "sha256_hex reqs \<noteq> rp_source_sha256 plan"
  shows "apply_file cfg ops between sv loads now pp (FileText t) rp (FileText reqs) hroot dry fs =
    \<lparr>ao_result = Inl (RequirementsDigest (rp_source_sha256 plan) (sha256_hex reqs)), ao_fs = fs, ao_saved = []\<rparr>"
  using assms by (simp add: apply_file_def load_inputs_def)

theorem foreign_requirements_refused_witness:
  "\<exists>c e. ao_result (apply_file default_applier_config tree_ops id (\<lambda>_. None)
       (\<lambda>_. Some (plan_to_dict (example_plan ''/v'' \<lparr>rp_source_sha256 := replicate 64 c\<rparr>))) ''now''
       ''plan.json'' (FileText ''{}'') ''req.json'' (FileText ''{}'')
       \<lparr>rv_exists = True, rv_symlink = False, rv_directory = True, rv_resolved = ''/r''\<rparr> False (example_tree [])) = Inl e"
proof -
  let ?plan = "\<lambda>c. example_plan ''/v'' \<lparr>rp_source_sha256 := replicate 64 c\<rparr>"
  have wf: "wf_plan (?plan c)" if "c = CHR ''0'' \<or> c = CHR ''1''" for c
    using that example_plan_wf [of "''/v''"] by (auto simp: wf_plan_def is_sha256_def list_all_iff lower_hex_def ascii_digit_def)
  have loads: "plan_load (\<lambda>_. Some (plan_to_dict (?plan c))) (FileText ''{}'') = Inr (?plan c)"
    if "c = CHR ''0'' \<or> c = CHR ''1''" for c
    using plan_roundtrip [OF wf [OF that]] by (simp add: plan_load_def)
  have "replicate 64 (CHR ''0'') \<noteq> replicate 64 (CHR ''1'')" by (simp add: replicate_eq_replicate)
  then obtain c where c: "c = CHR ''0'' \<or> c = CHR ''1''" and ne: "sha256_hex ''{}'' \<noteq> rp_source_sha256 (?plan c)"
    by (cases "sha256_hex ''{}'' = replicate 64 (CHR ''0'')") auto
  show ?thesis
    by (rule exI [of _ c]) (simp add: foreign_requirements_refused [OF loads [OF c] ne])
qed

section \<open>Failures\<close>

text \<open>
  C2: Atomicity. When chmod and rmdir do not fail, a run that raises, for whatever reason and
  at whatever point, leaves every entry of the tree as it was, and the report it saves says FAILED
  and has no rollback error.
\<close>

theorem failed_run_restores_rootfs:
  assumes out: "apply_file cfg tree_ops id sv loads now pp pf rp rf hroot False t = out"
    and "tree_reliable t" and failed: "ao_result out = Inl e"
  shows "tree_ent (ao_fs out) = tree_ent t \<and>
    (\<forall>rep \<in> set (ao_saved out).
       ar_state rep = AFailed \<and> ar_rollback_errors rep = [])"
proof -
  from out show ?thesis
  proof (cases rule: apply_file_run)
    case (refused e)
    then show ?thesis by simp
  next
    case (run plan hr psha rsha)
    note restores = reliable_tree.run_failed_restores [OF run(2) failed assms(2)]
    show ?thesis using restores(1) restores(2) assms(2) by fastforce
  qed
qed

theorem failed_run_restores_rootfs_witness:
  "tree_ent (ao_fs (example_run ''{}'' (example_tree [] \<lparr>tr_mkdir_fail := [([''v''], ''No space left on device'')]\<rparr>)))
     = tree_ent (example_tree [] \<lparr>tr_mkdir_fail := [([''v''], ''No space left on device'')]\<rparr>)"
  using failed_run_restores_rootfs [OF refl example_tree_reliable(2) example_failed] by blast

text \<open>
  When chmod fails after mkdir made the directory, the run raises and reports no rollback
  error, but the directory stays: it was never entered in the list of created paths.
\<close>

theorem chmod_failure_leaves_directory:
  "\<exists>t. tree_ok t \<and> (\<exists>e. ao_result (example_run ''{}'' t) = Inl e) \<and> tree_ent t [''v''] = None \<and>
     is_dir (tree_ent (ao_fs (example_run ''{}'' t))) [''v''] \<and>
     map ar_rollback_errors (ao_saved (example_run ''{}'' t)) = [[]]"
proof (intro exI conjI)
  let ?t = "example_tree [] \<lparr>tr_chmod_fail := [([''v''], ''Operation not permitted'')]\<rparr>"
  show "tree_ok ?t"
    by (auto simp: tree_ok_def example_tree_def closed_tree_def is_dir_def tree_ent_def)
  show "ao_result (example_run ''{}'' ?t) = Inl (CannotCreate [''v''] ''Operation not permitted'')"
    by (simp add: example_run_defs del: parse_mode.simps)
  show "tree_ent ?t [''v''] = None"
    by (simp add: example_tree_def tree_ent_def)
  show "is_dir (tree_ent (ao_fs (example_run ''{}'' ?t))) [''v'']"
    by (simp add: example_run_defs del: parse_mode.simps)
  show "map ar_rollback_errors (ao_saved (example_run ''{}'' ?t)) = [[]]"
    by (simp add: example_run_defs del: parse_mode.simps)
qed

section \<open>Completed runs\<close>

text \<open>
  C3: Completed runs. Afterwards every prefix of every authorized target is a directory, every
  entry that existed is unchanged, and every new entry is a directory on the way to such a target.
\<close>

theorem completed_run_creates_targets:
  assumes out: "apply_file cfg tree_ops id sv loads now pp pf rp rf hroot False t = out"
    and "tree_reliable t" and fin: "ao_result out = Inr rep" and "plan_load loads pf = Inr plan"
  shows "(\<forall>d \<in> set (rp_decisions plan). rd_automatic d \<longrightarrow>
       (\<exists>g. applier_guest_path cfg (rd_resource d) = Inr g \<and>
          (\<forall>q \<in> set (prefixes_of (pp_comps (pp_parse g))).
             is_dir (tree_ent (ao_fs out)) q))) \<and>
    (\<forall>q v. tree_ent t q = Some v \<longrightarrow>
       tree_ent (ao_fs out) q = Some v) \<and>
    (\<forall>q. tree_ent t q = None \<longrightarrow>
       tree_ent (ao_fs out) q \<noteq> None \<longrightarrow>
       is_dir (tree_ent (ao_fs out)) q \<and>
       (\<exists>d g. d \<in> set (rp_decisions plan) \<and> rd_automatic d \<and> applier_guest_path cfg (rd_resource d) = Inr g \<and>
          q \<in> set (prefixes_of (pp_comps (pp_parse g)))))"
  by (rule reliable_tree.apply_completed [OF out assms(2) fin assms(4)])

theorem completed_run_creates_targets_witness:
  "\<exists>g. applier_guest_path default_applier_config ''/v'' = Inr g \<and>
     (\<forall>q \<in> set (prefixes_of (pp_comps (pp_parse g))).
        is_dir (tree_ent (ao_fs (example_run ''{}'' (example_tree [])))) q)"
proof -
  obtain rep where "ao_result (example_run ''{}'' (example_tree [])) = Inr rep" using example_completed by blast
  from completed_run_creates_targets [OF refl example_tree_reliable(1) this example_plan_loads]
  show ?thesis using example_fields by simp
qed

text \<open>
  C32: The report of a completed run has one result per decision, in the order of the plan, naming it.
  An automatic decision is credited with the directories on the way to its target that no earlier
  decision needs and that were missing at the preflight and when the run began to create (whatever
  happened in between): exactly these are its created paths, and it is APPLIED when there is one and
  ALREADY_SATISFIED when there is none.  The others are NOT_SELECTED with no created path.  The entries
  of the tree afterwards are those it had plus the directories on the way that were missing at the
  preflight, and the report names the digests of the two files it was made from.
\<close>

theorem completed_report_settles_decisions:
  assumes out: "apply_file cfg tree_ops between sv loads now pp (FileText t) rp (FileText reqs) hroot False fs = out"
    and "ao_result out = Inr rep"
    and "plan_load loads (FileText t) = Inr plan" and "distinct (map rd_id (rp_decisions plan))"
  shows "length (ar_results rep) = length (rp_decisions plan) \<and>
    (\<forall>n < length (rp_decisions plan).
       credits (ar_rootfs rep) (rp_decisions plan ! n)
         (credited (\<lambda>q. tree_ent fs q = None \<and> tree_ent (between fs) q = None) (rp_decisions plan) n) (ar_results rep ! n)) \<and>
    dom (tree_ent (ao_fs out)) = dom (tree_ent (between fs)) \<union>
      (\<Union>n < length (rp_decisions plan). set (credited (\<lambda>q. tree_ent fs q = None) (rp_decisions plan) n)) \<and>
    list_all2 settled (rp_decisions plan) (ar_results rep) \<and> ar_state rep = ACompleted \<and>
    ar_plan_sha256 rep = sha256_hex t \<and> ar_requirements_sha256 rep = rp_source_sha256 plan \<and>
    sha256_hex reqs = rp_source_sha256 plan"
  using out
proof (cases rule: apply_file_run)
  case (refused e)
  then show ?thesis using assms(2) by simp
next
  case (run plan' hr psha rsha)
  have inputs: "plan' = plan" "psha = sha256_hex t" "rsha = sha256_hex reqs" "sha256_hex reqs = rp_source_sha256 plan"
    using run(1) assms(3) by (auto simp: load_inputs_def ebind_Inr_iff split: if_splits)
  from run(2) show ?thesis
  proof (cases rule: run_transaction_cases)
    case (preflight e)
    have "\<exists>e. ao_result out = Inl e" unfolding preflight by (rule fail_transaction_Inl)
    then show ?thesis using assms(2) by simp
  next
    case (failed items results res fs1 created e)
    then have "\<exists>e. ao_result out = Inl e" using fail_transaction_Inl by auto
    then show ?thesis using assms(2) by simp
  next
    case (completed items results results2 fs1 created)
    have ids: "distinct (map rd_id (rp_decisions plan'))" by (simp add: inputs assms(4))
    have rep: "ao_fs out = fs1" "ar_results rep = results2" "ar_rootfs rep = hr" "ar_state rep = ACompleted"
        "ar_plan_sha256 rep = psha" "ar_requirements_sha256 rep = rsha"
      using assms(2) completed(3) by auto
    show ?thesis
      using apply_prepared_settled [OF completed(1,2) ids] tree_calls.apply_prepared_credit [OF completed(1,2) ids]
      unfolding rep inputs by blast
  qed
qed

theorem completed_report_settles_decisions_witness:
  "\<exists>rep. ao_result (example_run ''{}'' (example_tree [])) = Inr rep \<and>
     map dr_status (ar_results rep) = [RApplied] \<and> map dr_created (ar_results rep) = [[host_str (ar_rootfs rep) [''v'']]]"
proof -
  obtain rep where rep: "ao_result (example_run ''{}'' (example_tree [])) = Inr rep" using example_completed by blast
  have path: "decision_path (example_decision ''/v'') = [''v'']"
    using example_fields(4,7) [of "''/v''"] by (simp add: decision_path_def example_paths)
  have "credited (\<lambda>q. tree_ent (example_tree []) q = None \<and> tree_ent (id (example_tree [])) q = None) [example_decision ''/v''] 0 = [[''v'']]"
    by (simp add: credited_def path prefixes_of_def example_tree_def tree_ent_def)
  with completed_report_settles_decisions [OF refl rep example_plan_loads]
  have "length (ar_results rep) = 1" "credits (ar_rootfs rep) (example_decision ''/v'') [[''v'']] (ar_results rep ! 0)"
    by (simp_all add: example_fields)
  then show ?thesis using rep by (cases "ar_results rep") (auto simp: credits_def example_fields)
qed

section \<open>Confinement\<close>

text \<open>
  C35: Confinement. An accepted guest path names a nonempty list of plain components, so that the
  target lies strictly below the rootfs; with a single leading slash its first component is no
  denied prefix.
\<close>

theorem accepted_targets_confined:
  assumes "applier_guest_path default_applier_config path = Inr g"
  shows "pp_comps (pp_parse g) \<noteq> [] \<and>
    (\<forall>c \<in> set (pp_comps (pp_parse g)). plain_component c \<and> CHR 0x00 \<notin> set c) \<and>
    (starts_with path ''//'' \<or> hd (pp_comps (pp_parse g)) \<notin> {''proc'', ''sys'', ''dev''})"
proof -
  have "hd (pp_comps (pp_parse g)) \<noteq> d" if "\<not> starts_with path ''//''" "d \<in> {''proc'', ''sys'', ''dev''}" for d
    by (rule applier_guest_path_confined(3) [OF assms that(1)]) (use that(2) in \<open>auto simp: default_applier_config_def\<close>)
  then show ?thesis
    using applier_guest_path_confined(1,2) [OF assms] by blast
qed

theorem accepted_targets_confined_witness:
  "plain_component ''v'' \<and> hd (pp_comps (pp_parse ''/v'')) \<notin> {''proc'', ''sys'', ''dev''}"
  using accepted_targets_confined [OF example_paths(1)] example_paths(2) by (simp add: starts_with_def)

text \<open>
  A path with exactly two leading slashes keeps them when it is normalized, so that neither
  the planner's nor the applier's prefix test sees that it lies under /proc: the planner authorizes
  the directory and the applier's target is proc/taint below the rootfs.
\<close>

theorem double_slash_passes_prefix_tests:
  "(\<exists>d. plan_requirement default_planner_config (example_requirement ''//proc/taint'') = Inr d \<and> rd_automatic d) \<and>
   applier_guest_path default_applier_config ''//proc/taint'' = Inr ''//proc/taint'' \<and>
   pp_comps (pp_parse ''//proc/taint'') = [''proc'', ''taint'']"
proof (intro conjI)
  have "validate_guest_path ''//proc/taint'' = None" "\<not> is_pseudo_filesystem_path ''//proc/taint''"
    by code_simp+
  then have "authorized default_planner_config (example_requirement ''//proc/taint'')"
    by (simp add: authorized_def example_requirement_def default_planner_config_def)
  then show "\<exists>d. plan_requirement default_planner_config (example_requirement ''//proc/taint'') = Inr d \<and> rd_automatic d"
    using plan_requirement_planned by (fastforce simp: planned_def)
  show "applier_guest_path default_applier_config ''//proc/taint'' = Inr ''//proc/taint''" by code_simp
  show "pp_comps (pp_parse ''//proc/taint'') = [''proc'', ''taint'']" by code_simp
qed

end
