(* ===== verification/Network_Modes.thy ===== *)
theory Network_Modes
  imports Enums Ip_Address
begin

text \<open>
  Network modes (\<open>taintforge_env/network_modes.py\<close>) and the numeric conversions of Python values
  read from JSON that the policy loaders apply.
\<close>

section \<open>Conversions\<close>

text \<open>\<open>int(text)\<close>: blanks around, a sign, digits grouped by single underscores.\<close>

definition py_int_text :: "string \<Rightarrow> int option" where
  "py_int_text s =
     (let t = py_strip s;
          signed = (t \<noteq> [] \<and> (hd t = CHR ''-'' \<or> hd t = CHR ''+''));
          groups = split_on (CHR ''_'') (if signed then tl t else t)
      in if list_all all_digits groups \<and> length (concat groups) \<le> 4300
         then Some ((if signed \<and> hd t = CHR ''-'' then - 1 else 1) * int (base_value 10 (concat groups)))
         else None)"

datatype convert_error = ConvertType | ConvertValue | ConvertOverflow

definition truncate_rat :: "rat \<Rightarrow> int" where
  "truncate_rat r = (if r < 0 then - \<lfloor>- r\<rfloor> else \<lfloor>r\<rfloor>)"

text \<open>\<open>int(value)\<close>\<close>

fun py_int :: "json \<Rightarrow> convert_error + int" where
  "py_int (JInt i) = Inr i"
| "py_int (JBool b) = Inr (if b then 1 else 0)"
| "py_int (JFloat (FloatFin r s)) = Inr (truncate_rat r)"
| "py_int (JFloat FloatNaN) = Inl ConvertValue"
| "py_int (JFloat (FloatInf b)) = Inl ConvertOverflow"
| "py_int (JStr s) = (case py_int_text s of None \<Rightarrow> Inl ConvertValue | Some i \<Rightarrow> Inr i)"
| "py_int _ = Inl ConvertType"

text \<open>
  A JSON number kept as read. \<open>float(value)\<close> raises exactly for the integers that round to
  \<open>2 ^ 1024\<close> or beyond.
\<close>

datatype py_number = NumInt int | NumFloat pyfloat

fun as_number :: "json \<Rightarrow> py_number option" where
  "as_number (JInt i) = Some (NumInt i)"
| "as_number (JFloat f) = Some (NumFloat f)"
| "as_number _ = None"

text \<open>\<open>value <= 0\<close>\<close>

fun number_le_0 :: "py_number \<Rightarrow> bool" where
  "number_le_0 (NumInt i) = (i \<le> 0)"
| "number_le_0 (NumFloat f) = float_le f float_0"

fun float_overflows :: "py_number \<Rightarrow> bool" where
  "float_overflows (NumInt i) = (2 ^ 1024 - 2 ^ 970 \<le> \<bar>i\<bar>)"
| "float_overflows (NumFloat f) = False"

section \<open>Network modes\<close>

datatype network_mode = NetNone | NetEmulated | NetReplay | NetFetch | NetRelay | NetRecord

fun network_mode_value :: "network_mode \<Rightarrow> string" where
  "network_mode_value NetNone = ''none''"
| "network_mode_value NetEmulated = ''emulated''"
| "network_mode_value NetReplay = ''replay''"
| "network_mode_value NetFetch = ''brokered_fetch''"
| "network_mode_value NetRelay = ''brokered_relay''"
| "network_mode_value NetRecord = ''brokered_record''"

definition all_network_modes :: "network_mode list" where
  "all_network_modes = [NetNone, NetEmulated, NetReplay, NetFetch, NetRelay, NetRecord]"

interpretation network_mode_enum: str_enum all_network_modes network_mode_value
proof unfold_locales
  show "x \<in> set all_network_modes" for x by (cases x) (auto simp: all_network_modes_def)
  show "network_mode_value x = network_mode_value y \<Longrightarrow> x = y" for x y by (cases x; cases y) auto
  show "network_mode_value x \<noteq> []" for x by (cases x) auto
qed

definition mode_aliases :: "(string \<times> network_mode) list" where
  "mode_aliases = [(''controlled'', NetEmulated)]"

text \<open>The \<open>ValueError\<close> of an unsupported mode carries the text given.\<close>

definition normalize_network_mode :: "string \<Rightarrow> bool \<Rightarrow> string + network_mode" where
  "normalize_network_mode value_text has_network_dependencies =
     (let normalized = py_lower (py_strip value_text) in
      if normalized = ''auto'' then Inr (if has_network_dependencies then NetEmulated else NetNone)
      else (case map_of mode_aliases normalized of
          Some m \<Rightarrow> Inr m
        | None \<Rightarrow>
            (case enum_of all_network_modes network_mode_value normalized of
               Some m \<Rightarrow> Inr m
             | None \<Rightarrow> Inl value_text)))"

definition requires_egress_policy :: "network_mode \<Rightarrow> bool" where
  "requires_egress_policy m \<longleftrightarrow> m \<in> {NetFetch, NetRelay}"

definition is_live_egress_mode :: "network_mode \<Rightarrow> bool" where
  "is_live_egress_mode m = requires_egress_policy m"

definition requires_record_policy :: "network_mode \<Rightarrow> bool" where
  "requires_record_policy m \<longleftrightarrow> m = NetRecord"

text \<open>A live mode is only ever chosen by naming it.\<close>

lemma normalize_live:
  assumes "normalize_network_mode s dep = Inr m" and "is_live_egress_mode m \<or> requires_record_policy m"
  shows "py_lower (py_strip s) = network_mode_value m"
  using assms
  by (auto simp: normalize_network_mode_def mode_aliases_def is_live_egress_mode_def
      requires_egress_policy_def requires_record_policy_def network_mode_enum.parse_iff Let_def
      split: if_splits option.splits)

end
