(* ===== verification/Egress_Policy.thy ===== *)
theory Egress_Policy
  imports Network_Modes Field_Checks
begin

text \<open>
  The egress policy (\<open>taintforge_env/egress_policy.py\<close>): the rules of a default-deny policy, the
  checks on a destination address, the evaluation of one request, and the loader.
\<close>

section \<open>Data\<close>

datatype egress_error =
    EgSchema int | EgDefaultAction | EgMode | EgNetworkText string
  | EgInvalidIp string | EgBlockedBy ipnet string | EgNotGlobal string | EgNoAddresses string
  | EgHostEmpty | EgHostWildcard
  | EgNotObject string | EgNotList string | EgNotPositive string | EgPortRange string int
  | EgEmpty string | EgNotString string | EgNotIp string string | EgUnsupported string string
  | EgNameEmpty string | EgNoMatch string | EgFetchMethods | EgRate
  | EgFileMissing | EgNotFile | EgInvalidJson | EgInvalidNetwork nat
  | EgConversion convert_error

record global_limits =
  gl_max_connections :: int
  gl_max_uploaded_bytes :: int
  gl_max_downloaded_bytes :: int
  gl_max_duration_seconds :: int
  gl_requests_per_second :: py_number

record destination_rule =
  de_name :: string
  de_hosts :: "string list"
  de_ips :: "string list"
  de_schemes :: "string list"
  de_ports :: "int list"
  de_methods :: "string list"
  de_max_connections :: int
  de_max_request_bytes :: int
  de_max_response_bytes :: int
  de_timeout_seconds :: int
  de_cache_response :: bool
  de_allow_redirects :: bool
  de_max_redirects :: int
  de_verify_tls :: bool

datatype egress_reason = PortBlocked int | IpBlocked egress_error | MatchedAllowRule | NoMatchingRule

record egress_decision =
  ed_allowed :: bool
  ed_reason :: egress_reason
  ed_rule :: "string option"

record egress_policy =
  ep_schema_version :: int
  ep_mode :: network_mode
  ep_default_action :: string
  ep_rules :: "destination_rule list"
  ep_blocked_networks :: "string list"
  ep_blocked_ports :: "int list"
  ep_block_non_global :: bool
  ep_limits :: global_limits
  ep_networks :: "ipnet list"

definition default_blocked_networks :: "string list" where
  "default_blocked_networks =
    [''0.0.0.0/8'', ''10.0.0.0/8'', ''100.64.0.0/10'', ''127.0.0.0/8'', ''169.254.0.0/16'',
     ''172.16.0.0/12'', ''192.0.0.0/24'', ''192.0.2.0/24'', ''192.168.0.0/16'', ''198.18.0.0/15'',
     ''198.51.100.0/24'', ''203.0.113.0/24'', ''224.0.0.0/4'', ''240.0.0.0/4'', ''::/128'', ''::1/128'',
     ''fc00::/7'', ''fe80::/10'', ''ff00::/8'', ''2001:db8::/32'']"

definition default_blocked_ports :: "int list" where
  "default_blocked_ports = [22, 23, 25, 445, 2375, 2376, 3389, 6379, 11211]"

definition fetch_methods :: "string list" where "fetch_methods = [''GET'', ''HEAD'']"
definition fetch_schemes :: "string list" where "fetch_schemes = [''http'', ''https'']"

text \<open>\<open>__post_init__\<close>: the checks, then the parsed networks.\<close>

definition make_egress_policy ::
    "int \<Rightarrow> network_mode \<Rightarrow> string option \<Rightarrow> destination_rule list \<Rightarrow> string list \<Rightarrow> int list \<Rightarrow> bool
     \<Rightarrow> global_limits \<Rightarrow> egress_error + egress_policy" where
  "make_egress_policy schema m action rules networks ports non_global limits =
     ebind (guard (schema = 1) (EgSchema schema)) (\<lambda>_.
     ebind (guard (action = Some ''deny'') EgDefaultAction) (\<lambda>_.
     ebind (guard (m \<in> {NetFetch, NetRelay}) EgMode) (\<lambda>_.
     ebind (emap (\<lambda>t. case ip_network t of None \<Rightarrow> Inl (EgNetworkText t) | Some n \<Rightarrow> Inr n) networks) (\<lambda>nets.
     Inr \<lparr>ep_schema_version = schema, ep_mode = m, ep_default_action = ''deny'', ep_rules = rules,
          ep_blocked_networks = networks, ep_blocked_ports = ports, ep_block_non_global = non_global,
          ep_limits = limits, ep_networks = nets\<rparr>))))"

section \<open>Evaluation\<close>

definition normalize_host :: "string \<Rightarrow> egress_error + string" where
  "normalize_host v =
     (let host = rstrip_while (\<lambda>c. c = CHR ''.'') (py_lower (py_strip v)) in
      if host = [] then Inl EgHostEmpty
      else if CHR ''*'' \<in> set host then Inl EgHostWildcard
      else Inr host)"

text \<open>An empty host is falsy, like a missing one; an invalid one raises.\<close>

definition matches_identity ::
    "destination_rule \<Rightarrow> string option \<Rightarrow> string option \<Rightarrow> egress_error + bool" where
  "matches_identity rule host ip =
     ebind (case host of None \<Rightarrow> Inr None
            | Some h \<Rightarrow> if h = [] then Inr None else ebind (normalize_host h) (\<lambda>n. Inr (Some n))) (\<lambda>nh.
     Inr ((case nh of None \<Rightarrow> False | Some n \<Rightarrow> n \<in> set (de_hosts rule)) \<or>
          (case ip of None \<Rightarrow> False | Some a \<Rightarrow> a \<noteq> [] \<and> a \<in> set (de_ips rule))))"

definition matches_request ::
    "destination_rule \<Rightarrow> string option \<Rightarrow> string option \<Rightarrow> string \<Rightarrow> int \<Rightarrow> string \<Rightarrow> egress_error + bool" where
  "matches_request rule host ip scheme port meth =
     ebind (matches_identity rule host ip) (\<lambda>same.
     Inr (same \<and> py_lower scheme \<in> set (de_schemes rule) \<and> port \<in> set (de_ports rule) \<and>
          py_upper meth \<in> set (de_methods rule)))"

definition validate_external_ip :: "egress_policy \<Rightarrow> string \<Rightarrow> egress_error + unit" where
  "validate_external_ip p v =
     (case ip_address v of
        None \<Rightarrow> Inl (EgInvalidIp v)
      | Some a \<Rightarrow>
          (case find (in_net a) (ep_networks p) of
             Some n \<Rightarrow> Inl (EgBlockedBy n v)
           | None \<Rightarrow> if ep_block_non_global p \<and> \<not> is_global a then Inl (EgNotGlobal v) else Inr ()))"

definition validate_resolved_ips :: "egress_policy \<Rightarrow> string \<Rightarrow> string list \<Rightarrow> egress_error + string list" where
  "validate_resolved_ips p host addresses =
     ebind (emap (\<lambda>v. ebind (validate_external_ip p v) (\<lambda>_. Inr v)) addresses) (\<lambda>validated.
     if validated = [] then Inl (EgNoAddresses host) else Inr validated)"

fun first_match ::
    "destination_rule list \<Rightarrow> string option \<Rightarrow> string option \<Rightarrow> string \<Rightarrow> int \<Rightarrow> string
     \<Rightarrow> egress_error + destination_rule option" where
  "first_match [] host ip scheme port meth = Inr None"
| "first_match (r # rs) host ip scheme port meth =
     ebind (matches_request r host ip scheme port meth) (\<lambda>m.
     if m then Inr (Some r) else first_match rs host ip scheme port meth)"

definition evaluate_request ::
    "egress_policy \<Rightarrow> string option \<Rightarrow> string option \<Rightarrow> string \<Rightarrow> int \<Rightarrow> string \<Rightarrow> egress_error + egress_decision" where
  "evaluate_request p host ip scheme port meth =
     (let sch = py_lower scheme; m = py_upper meth;
          match = ebind (first_match (ep_rules p) host ip sch port m) (\<lambda>r. Inr
            (case r of
               Some rule \<Rightarrow> \<lparr>ed_allowed = True, ed_reason = MatchedAllowRule, ed_rule = Some (de_name rule)\<rparr>
             | None \<Rightarrow> \<lparr>ed_allowed = False, ed_reason = NoMatchingRule, ed_rule = None\<rparr>))
      in if port \<in> set (ep_blocked_ports p)
         then Inr \<lparr>ed_allowed = False, ed_reason = PortBlocked port, ed_rule = None\<rparr>
         else (case ip of
             None \<Rightarrow> match
           | Some a \<Rightarrow>
               (case validate_external_ip p a of
                  Inl e \<Rightarrow> Inr \<lparr>ed_allowed = False, ed_reason = IpBlocked e, ed_rule = None\<rparr>
                | Inr _ \<Rightarrow> match)))"

section \<open>The loader\<close>

fun eg_dict :: "json \<Rightarrow> string \<Rightarrow> egress_error + (string \<times> json) list" where
  "eg_dict (JObj d) context = Inr d"
| "eg_dict _ context = Inl (EgNotObject context)"

fun eg_list :: "json \<Rightarrow> string \<Rightarrow> egress_error + json list" where
  "eg_list JNull context = Inr []"
| "eg_list (JList xs) context = Inr xs"
| "eg_list _ context = Inl (EgNotList context)"

fun eg_positive_int :: "json \<Rightarrow> string \<Rightarrow> egress_error + int" where
  "eg_positive_int (JInt i) context = (if i \<le> 0 then Inl (EgNotPositive context) else Inr i)"
| "eg_positive_int _ context = Inl (EgNotPositive context)"

definition parse_ports :: "json \<Rightarrow> string \<Rightarrow> egress_error + int list" where
  "parse_ports values context =
     ebind (eg_list values context) (\<lambda>xs.
     ebind (emap_enum (\<lambda>i v. ebind (eg_positive_int v (at_index context i)) (\<lambda>port.
              if 65535 < port then Inl (EgPortRange (at_index context i) port) else Inr port)) xs) (\<lambda>ports.
     if ports = [] then Inl (EgEmpty context) else Inr (sorted_set ports)))"

fun eg_string :: "json \<Rightarrow> string \<Rightarrow> egress_error + string" where
  "eg_string (JStr s) context = Inr s"
| "eg_string _ context = Inl (EgNotString context)"

definition parse_hosts :: "json \<Rightarrow> string \<Rightarrow> egress_error + string list" where
  "parse_hosts values context =
     ebind (eg_list values context) (\<lambda>xs.
     ebind (emap_enum (\<lambda>i v. ebind (eg_string v (at_index context i)) normalize_host) xs) (\<lambda>hosts.
     Inr (sorted_set hosts)))"

definition parse_ips :: "json \<Rightarrow> string \<Rightarrow> egress_error + string list" where
  "parse_ips values context =
     ebind (eg_list values context) (\<lambda>xs.
     ebind (emap_enum (\<lambda>i v. ebind (eg_string v (at_index context i)) (\<lambda>s.
              case ip_address s of None \<Rightarrow> Inl (EgNotIp (at_index context i) s) | Some a \<Rightarrow> Inr (show_ip a))) xs) (\<lambda>ips.
     Inr (sorted_set ips)))"

definition parse_strings :: "json \<Rightarrow> string \<Rightarrow> string list \<Rightarrow> bool \<Rightarrow> egress_error + string list" where
  "parse_strings values context allowed uppercase =
     ebind (eg_list values context) (\<lambda>xs.
     ebind (emap_enum (\<lambda>i v. ebind (eg_string v (at_index context i)) (\<lambda>s.
              let n = (if uppercase then py_upper s else py_lower s) in
              if n \<in> set allowed then Inr n else Inl (EgUnsupported (at_index context i) s))) xs) (\<lambda>result.
     if result = [] then Inl (EgEmpty context) else Inr (sorted_set result)))"

definition json_strings :: "string list \<Rightarrow> json" where
  "json_strings xs = JList (map JStr xs)"

fun stripped_name :: "json \<Rightarrow> string \<Rightarrow> egress_error + string" where
  "stripped_name (JStr n) context = (if py_strip n = [] then Inl (EgNameEmpty context) else Inr (py_strip n))"
| "stripped_name _ context = Inl (EgNameEmpty context)"

definition parse_destination_rule :: "nat \<Rightarrow> network_mode \<Rightarrow> json \<Rightarrow> egress_error + destination_rule" where
  "parse_destination_rule index m raw =
     (let context = at_index ''allowed_destinations'' index in
      ebind (eg_dict raw context) (\<lambda>obj.
      ebind (stripped_name (jget_or obj ''name'' (JStr (''rule-'' @ show_nat index))) context) (\<lambda>name.
      ebind (eg_dict (jget_or obj ''match'' (JObj [])) (context @ ''.match'')) (\<lambda>mt.
      ebind (parse_hosts (jget_or mt ''hosts'' (JList [])) (context @ ''.match.hosts'')) (\<lambda>hosts.
      ebind (parse_ips (jget_or mt ''ips'' (JList [])) (context @ ''.match.ips'')) (\<lambda>ips.
      ebind (guard (\<not> (hosts = [] \<and> ips = [])) (EgNoMatch context)) (\<lambda>_.
      ebind (parse_strings (jget_or obj ''schemes'' (json_strings fetch_schemes)) (context @ ''.schemes'')
               fetch_schemes False) (\<lambda>schemes.
      ebind (parse_strings (jget_or obj ''methods'' (json_strings fetch_methods)) (context @ ''.methods'')
               fetch_methods True) (\<lambda>methods.
      ebind (guard (\<not> (m = NetFetch \<and> set methods - set fetch_methods \<noteq> {})) EgFetchMethods) (\<lambda>_.
      ebind (parse_ports (jget_or obj ''ports'' (JList [JInt 80, JInt 443])) (context @ ''.ports'')) (\<lambda>ports.
      ebind (eg_positive_int (jget_or obj ''max_connections'' (JInt 2)) (context @ ''.max_connections'')) (\<lambda>conns.
      ebind (eg_positive_int (jget_or obj ''max_request_bytes'' (JInt 65536)) (context @ ''.max_request_bytes'')) (\<lambda>reqb.
      ebind (eg_positive_int (jget_or obj ''max_response_bytes'' (JInt 8388608)) (context @ ''.max_response_bytes'')) (\<lambda>respb.
      ebind (eg_positive_int (jget_or obj ''timeout_seconds'' (JInt 10)) (context @ ''.timeout_seconds'')) (\<lambda>tmo.
      ebind (err_map EgConversion (py_int (jget_or obj ''max_redirects'' (JInt 0)))) (\<lambda>redirects.
      Inr \<lparr>de_name = name, de_hosts = hosts, de_ips = ips, de_schemes = schemes, de_ports = ports,
           de_methods = methods, de_max_connections = conns, de_max_request_bytes = reqb,
           de_max_response_bytes = respb, de_timeout_seconds = tmo,
           de_cache_response = jtruthy (jget_or obj ''cache_response'' (JBool True)),
           de_allow_redirects = jtruthy (jget_or obj ''allow_redirects'' (JBool False)),
           de_max_redirects = redirects,
           de_verify_tls = jtruthy (jget_or obj ''verify_tls'' (JBool True))\<rparr>))))))))))))))))"

definition parse_global_limits :: "json \<Rightarrow> egress_error + global_limits" where
  "parse_global_limits raw =
     ebind (eg_dict (if jtruthy raw then raw else JObj []) ''global_limits'') (\<lambda>obj.
     ebind (case as_number (jget_or obj ''requests_per_second'' (JFloat float_1)) of
              None \<Rightarrow> Inl EgRate
            | Some n \<Rightarrow> if number_le_0 n then Inl EgRate else Inr n) (\<lambda>rate.
     ebind (eg_positive_int (jget_or obj ''max_connections'' (JInt 4)) ''global_limits.max_connections'') (\<lambda>conns.
     ebind (eg_positive_int (jget_or obj ''max_uploaded_bytes'' (JInt 131072))
              ''global_limits.max_uploaded_bytes'') (\<lambda>up.
     ebind (eg_positive_int (jget_or obj ''max_downloaded_bytes'' (JInt 16777216))
              ''global_limits.max_downloaded_bytes'') (\<lambda>down.
     ebind (eg_positive_int (jget_or obj ''max_duration_seconds'' (JInt 30))
              ''global_limits.max_duration_seconds'') (\<lambda>dur.
     ebind (guard (\<not> float_overflows rate) (EgConversion ConvertOverflow)) (\<lambda>_.
     Inr \<lparr>gl_max_connections = conns, gl_max_uploaded_bytes = up, gl_max_downloaded_bytes = down,
          gl_max_duration_seconds = dur, gl_requests_per_second = rate\<rparr>)))))))"

text \<open>\<open>str(value)\<close> of each blocked network; a container's text is no network.\<close>

definition network_texts :: "json list \<Rightarrow> egress_error + string list" where
  "network_texts xs =
     emap_enum (\<lambda>i v. case py_str v of
         None \<Rightarrow> Inl (EgInvalidNetwork i)
       | Some t \<Rightarrow> if ip_network t = None then Inl (EgInvalidNetwork i) else Inr t) xs"

definition policy_of_json :: "json \<Rightarrow> egress_error + egress_policy" where
  "policy_of_json doc =
     ebind (eg_dict doc ''egress_policy'') (\<lambda>obj.
     ebind (case py_str (jget_or obj ''mode'' (JStr [])) of
              None \<Rightarrow> Inl EgMode
            | Some t \<Rightarrow> (case enum_of all_network_modes network_mode_value (py_lower t) of
                          None \<Rightarrow> Inl EgMode | Some m \<Rightarrow> Inr m)) (\<lambda>m.
     ebind (eg_list (jget obj ''allowed_destinations'') ''allowed_destinations'') (\<lambda>items.
     ebind (emap_enum (\<lambda>i. parse_destination_rule i m) items) (\<lambda>rules.
     ebind (eg_list (jget_or obj ''blocked_networks'' (json_strings default_blocked_networks))
              ''blocked_networks'') (\<lambda>nets_raw.
     ebind (network_texts nets_raw) (\<lambda>nets.
     ebind (parse_ports (jget_or obj ''blocked_ports'' (JList (map JInt default_blocked_ports)))
              ''blocked_ports'') (\<lambda>ports.
     ebind (err_map EgConversion (py_int (jget_or obj ''schema_version'' (JInt 0)))) (\<lambda>schema.
     ebind (parse_global_limits (jget_or obj ''global_limits'' (JObj []))) (\<lambda>limits.
     make_egress_policy schema m (py_str (jget_or obj ''default_action'' (JStr []))) rules nets ports
       (jtruthy (jget_or obj ''block_non_global_ips'' (JBool True))) limits)))))))))"

definition load_egress_policy :: "(string \<Rightarrow> json option) \<Rightarrow> file_view \<Rightarrow> egress_error + egress_policy" where
  "load_egress_policy loads f =
     (case f of
        FileMissing \<Rightarrow> Inl EgFileMissing
      | FileOther \<Rightarrow> Inl EgNotFile
      | FileText t \<Rightarrow> (case loads t of None \<Rightarrow> Inl EgInvalidJson | Some raw \<Rightarrow> policy_of_json raw))"

section \<open>What an accepted request satisfies\<close>

lemma first_match_Some:
  "first_match rules host ip scheme port meth = Inr (Some r) \<Longrightarrow>
     r \<in> set rules \<and> matches_request r host ip scheme port meth = Inr True"
  by (induction rules) (auto simp: ebind_Inr_iff split: if_splits)

lemma first_match_None:
  "first_match rules host ip scheme port meth = Inr None \<Longrightarrow> r \<in> set rules \<Longrightarrow>
     matches_request r host ip scheme port meth = Inr False"
  by (induction rules) (auto simp: ebind_Inr_iff split: if_splits)

lemma validate_external_ip_Inr:
  "validate_external_ip p v = Inr u \<longleftrightarrow>
     (\<exists>a. ip_address v = Some a \<and> (\<forall>n \<in> set (ep_networks p). \<not> in_net a n) \<and>
        (ep_block_non_global p \<longrightarrow> is_global a))"
  by (auto simp: validate_external_ip_def find_None_iff find_Some_iff split: option.splits if_splits)

definition request_permitted :: "egress_policy \<Rightarrow> string option \<Rightarrow> bool" where
  "request_permitted p ip = (case ip of None \<Rightarrow> True | Some v \<Rightarrow> validate_external_ip p v = Inr ())"

lemma evaluate_request_cases:
  assumes "evaluate_request p host ip scheme port meth = Inr d"
  obtains (denied) "\<not> ed_allowed d" "port \<in> set (ep_blocked_ports p) \<or> \<not> request_permitted p ip"
  | (matched) r where "port \<notin> set (ep_blocked_ports p)" "request_permitted p ip"
      "first_match (ep_rules p) host ip (py_lower scheme) port (py_upper meth) = Inr (Some r)"
      "ed_allowed d" "ed_rule d = Some (de_name r)"
  | (unmatched) "port \<notin> set (ep_blocked_ports p)" "request_permitted p ip"
      "first_match (ep_rules p) host ip (py_lower scheme) port (py_upper meth) = Inr None" "\<not> ed_allowed d"
proof -
  note assms = assms [unfolded evaluate_request_def Let_def]
  show thesis
  proof (cases "port \<in> set (ep_blocked_ports p) \<or> \<not> request_permitted p ip")
    case True
    then have "\<not> ed_allowed d"
      using assms by (auto simp: request_permitted_def split: if_splits option.splits sum.splits)
    then show thesis using denied True by blast
  next
    case False
    then have "ebind (first_match (ep_rules p) host ip (py_lower scheme) port (py_upper meth)) (\<lambda>r. Inr
            (case r of
               Some rule \<Rightarrow> \<lparr>ed_allowed = True, ed_reason = MatchedAllowRule, ed_rule = Some (de_name rule)\<rparr>
             | None \<Rightarrow> \<lparr>ed_allowed = False, ed_reason = NoMatchingRule, ed_rule = None\<rparr>)) = Inr d"
      using assms by (cases ip) (auto simp: request_permitted_def)
    then obtain m where m: "first_match (ep_rules p) host ip (py_lower scheme) port (py_upper meth) = Inr m"
      and d: "d = (case m of
               Some rule \<Rightarrow> \<lparr>ed_allowed = True, ed_reason = MatchedAllowRule, ed_rule = Some (de_name rule)\<rparr>
             | None \<Rightarrow> \<lparr>ed_allowed = False, ed_reason = NoMatchingRule, ed_rule = None\<rparr>)"
      by (auto simp: ebind_Inr_iff)
    have ok: "port \<notin> set (ep_blocked_ports p)" "request_permitted p ip" using False by auto
    show thesis
    proof (cases m)
      case None
      show thesis by (rule unmatched [OF ok]) (simp_all add: m d None)
    next
      case (Some r)
      show thesis by (rule matched [OF ok, of r]) (simp_all add: m d Some)
    qed
  qed
qed

lemma evaluate_request_Inr:
  assumes "evaluate_request p host ip scheme port meth = Inr d"
  shows "ed_allowed d \<longleftrightarrow> port \<notin> set (ep_blocked_ports p) \<and> request_permitted p ip \<and>
       (\<exists>r \<in> set (ep_rules p). matches_request r host ip (py_lower scheme) port (py_upper meth) = Inr True)"
  using assms
proof (cases rule: evaluate_request_cases)
  case (matched r)
  then show ?thesis using first_match_Some [OF matched(3)] by auto
next
  case unmatched
  then show ?thesis using first_match_None [OF unmatched(3)] by fastforce
qed auto

lemma evaluate_request_rule:
  assumes "evaluate_request p host ip scheme port meth = Inr d" and "ed_allowed d"
  shows "\<exists>r \<in> set (ep_rules p). ed_rule d = Some (de_name r) \<and>
       matches_request r host ip (py_lower scheme) port (py_upper meth) = Inr True"
  using assms(1)
proof (cases rule: evaluate_request_cases)
  case (matched r)
  then show ?thesis using first_match_Some [OF matched(3)] by auto
qed (use assms(2) in auto)

definition ip_listed :: "destination_rule \<Rightarrow> string option \<Rightarrow> bool" where
  "ip_listed r ip \<longleftrightarrow> (\<exists>a. ip = Some a \<and> a \<noteq> [] \<and> a \<in> set (de_ips r))"

definition host_listed :: "destination_rule \<Rightarrow> string option \<Rightarrow> bool" where
  "host_listed r host \<longleftrightarrow>
     (\<exists>h n. host = Some h \<and> h \<noteq> [] \<and> normalize_host h = Inr n \<and> n \<in> set (de_hosts r))"

lemma matches_identity_Inr:
  assumes "matches_identity r host ip = Inr b"
  shows "b \<longleftrightarrow> host_listed r host \<or> ip_listed r ip"
proof -
  have ip: "(case ip of None \<Rightarrow> False | Some a \<Rightarrow> a \<noteq> [] \<and> a \<in> set (de_ips r)) = ip_listed r ip"
    by (cases ip) (simp_all add: ip_listed_def)
  show ?thesis
  proof (cases host)
    case None
    then show ?thesis using assms by (simp add: matches_identity_def ip host_listed_def)
  next
    case (Some h)
    then show ?thesis
      using assms
      by (cases "h = []"; cases "normalize_host h") (simp_all add: matches_identity_def ip host_listed_def)
  qed
qed

lemma matches_request_True:
  assumes "matches_request r host ip scheme port meth = Inr True"
  shows "(host_listed r host \<or> ip_listed r ip) \<and> py_lower scheme \<in> set (de_schemes r) \<and>
    port \<in> set (de_ports r) \<and> py_upper meth \<in> set (de_methods r)"
  using assms matches_identity_Inr [of r host ip] by (auto simp: matches_request_def ebind_Inr_iff)

section \<open>Accepted policies\<close>

definition wf_rule :: "destination_rule \<Rightarrow> bool" where
  "wf_rule r \<longleftrightarrow>
     de_name r \<noteq> [] \<and> (de_hosts r \<noteq> [] \<or> de_ips r \<noteq> []) \<and>
     (\<forall>h \<in> set (de_hosts r). h \<noteq> [] \<and> CHR ''*'' \<notin> set h) \<and>
     (\<forall>t \<in> set (de_ips r). \<exists>a. t = show_ip a) \<and>
     de_schemes r \<noteq> [] \<and> set (de_schemes r) \<subseteq> set fetch_schemes \<and>
     de_methods r \<noteq> [] \<and> set (de_methods r) \<subseteq> set fetch_methods \<and>
     de_ports r \<noteq> [] \<and> (\<forall>q \<in> set (de_ports r). 1 \<le> q \<and> q \<le> 65535) \<and> sorted (de_ports r) \<and> distinct (de_ports r) \<and>
     0 < de_max_connections r \<and> 0 < de_max_request_bytes r \<and> 0 < de_max_response_bytes r \<and>
     0 < de_timeout_seconds r"

definition wf_policy :: "egress_policy \<Rightarrow> bool" where
  "wf_policy p \<longleftrightarrow>
     ep_schema_version p = 1 \<and> ep_default_action p = ''deny'' \<and> requires_egress_policy (ep_mode p) \<and>
     (\<forall>r \<in> set (ep_rules p). wf_rule r) \<and>
     map Some (ep_networks p) = map ip_network (ep_blocked_networks p) \<and>
     ep_blocked_ports p \<noteq> [] \<and> (\<forall>q \<in> set (ep_blocked_ports p). 1 \<le> q \<and> q \<le> 65535) \<and>
     0 < gl_max_connections (ep_limits p) \<and> 0 < gl_max_uploaded_bytes (ep_limits p) \<and>
     0 < gl_max_downloaded_bytes (ep_limits p) \<and> 0 < gl_max_duration_seconds (ep_limits p) \<and>
     \<not> number_le_0 (gl_requests_per_second (ep_limits p))"

lemma eg_dict_Inr [result_simps]: "eg_dict v c = Inr d \<longleftrightarrow> v = JObj d"
  by (cases v) auto

lemma eg_positive_int_Inr [result_simps]: "eg_positive_int v c = Inr i \<longleftrightarrow> v = JInt i \<and> 0 < i"
  by (cases v) auto

lemma eg_string_Inr [result_simps]: "eg_string v c = Inr s \<longleftrightarrow> v = JStr s"
  by (cases v) auto

lemma stripped_name_Inr [result_simps]:
  "stripped_name v c = Inr n \<longleftrightarrow> (\<exists>s. v = JStr s \<and> n = py_strip s \<and> n \<noteq> [])"
  by (cases v) auto

lemma emap_enum_ball:
  assumes "emap_enum f xs = Inr ys" and "\<And>i x y. f i x = Inr y \<Longrightarrow> P y"
  shows "\<forall>y \<in> set ys. P y"
  using emap_enum_set [OF assms(1)] assms(2) by blast

lemma parse_ports_Inr:
  assumes "parse_ports v c = Inr ports"
  shows "ports \<noteq> [] \<and> (\<forall>q \<in> set ports. 1 \<le> q \<and> q \<le> 65535) \<and> sorted ports \<and> distinct ports"
proof -
  from assms obtain xs ys where e: "emap_enum (\<lambda>i v. ebind (eg_positive_int v (at_index c i)) (\<lambda>port.
      if 65535 < port then Inl (EgPortRange (at_index c i) port) else Inr port)) xs = Inr ys"
      and "ys \<noteq> []" "ports = sorted_set ys"
    by (auto simp: parse_ports_def ebind_Inr_iff split: if_splits)
  moreover have "\<forall>q \<in> set ys. 1 \<le> q \<and> q \<le> 65535"
    by (rule emap_enum_ball [OF e]) (auto simp: result_simps split: if_splits)
  ultimately show ?thesis by simp
qed

lemma normalize_host_Inr: "normalize_host v = Inr h \<Longrightarrow> h \<noteq> [] \<and> CHR ''*'' \<notin> set h"
  by (auto simp: normalize_host_def Let_def split: if_splits)

lemma parse_hosts_Inr:
  assumes "parse_hosts v c = Inr hosts"
  shows "\<forall>h \<in> set hosts. h \<noteq> [] \<and> CHR ''*'' \<notin> set h"
proof -
  from assms obtain xs ys where e: "emap_enum (\<lambda>i v. ebind (eg_string v (at_index c i)) normalize_host) xs = Inr ys"
      and "hosts = sorted_set ys"
    by (auto simp: parse_hosts_def ebind_Inr_iff)
  moreover have "\<forall>h \<in> set ys. h \<noteq> [] \<and> CHR ''*'' \<notin> set h"
    by (rule emap_enum_ball [OF e]) (auto simp: ebind_Inr_iff dest: normalize_host_Inr)
  ultimately show ?thesis by simp
qed

lemma parse_ips_Inr:
  assumes "parse_ips v c = Inr ips"
  shows "\<forall>t \<in> set ips. \<exists>a. t = show_ip a"
proof -
  from assms obtain xs ys where e: "emap_enum (\<lambda>i v. ebind (eg_string v (at_index c i)) (\<lambda>s.
      case ip_address s of None \<Rightarrow> Inl (EgNotIp (at_index c i) s) | Some a \<Rightarrow> Inr (show_ip a))) xs = Inr ys"
      and "ips = sorted_set ys"
    by (auto simp: parse_ips_def ebind_Inr_iff)
  moreover have "\<forall>t \<in> set ys. \<exists>a. t = show_ip a"
    by (rule emap_enum_ball [OF e]) (force simp: ebind_Inr_iff split: option.splits)
  ultimately show ?thesis by simp
qed

lemma parse_strings_Inr:
  assumes "parse_strings v c allowed up = Inr r"
  shows "r \<noteq> [] \<and> set r \<subseteq> set allowed"
proof -
  from assms obtain xs ys where e: "emap_enum (\<lambda>i v. ebind (eg_string v (at_index c i)) (\<lambda>s.
      let n = (if up then py_upper s else py_lower s) in
      if n \<in> set allowed then Inr n else Inl (EgUnsupported (at_index c i) s))) xs = Inr ys"
      and "ys \<noteq> []" "r = sorted_set ys"
    by (auto simp: parse_strings_def ebind_Inr_iff split: if_splits)
  moreover have "\<forall>s \<in> set ys. s \<in> set allowed"
    by (rule emap_enum_ball [OF e]) (auto simp: ebind_Inr_iff Let_def split: if_splits)
  ultimately show ?thesis by auto
qed

lemma parse_destination_rule_wf: "parse_destination_rule i m raw = Inr r \<Longrightarrow> wf_rule r"
  unfolding parse_destination_rule_def Let_def
  by (elim ebind_Inr_E)
     (simp add: result_simps, drule parse_hosts_Inr, drule parse_ips_Inr, drule parse_strings_Inr,
      drule parse_strings_Inr, drule parse_ports_Inr, clarsimp simp: wf_rule_def)

lemma parse_global_limits_wf:
  "parse_global_limits raw = Inr l \<Longrightarrow>
     0 < gl_max_connections l \<and> 0 < gl_max_uploaded_bytes l \<and> 0 < gl_max_downloaded_bytes l \<and>
     0 < gl_max_duration_seconds l \<and> \<not> number_le_0 (gl_requests_per_second l)"
  unfolding parse_global_limits_def
  by (elim ebind_Inr_E) (auto simp: result_simps simp del: float_overflows.simps split: option.splits if_splits)

lemma emap_networks:
  "emap (\<lambda>t. case ip_network t of None \<Rightarrow> Inl (EgNetworkText t) | Some n \<Rightarrow> Inr n) ts = Inr nets \<Longrightarrow>
     map Some nets = map ip_network ts"
  by (induction ts arbitrary: nets) (auto simp: ebind_Inr_iff split: option.splits)

lemma policy_of_json_wf:
  assumes "policy_of_json doc = Inr p"
  shows "wf_policy p"
proof -
  from assms obtain items m v c g where
      rules: "emap_enum (\<lambda>i. parse_destination_rule i m) items = Inr (ep_rules p)"
    and ports: "parse_ports v c = Inr (ep_blocked_ports p)"
    and limits: "parse_global_limits g = Inr (ep_limits p)"
    and nets: "emap (\<lambda>t. case ip_network t of None \<Rightarrow> Inl (EgNetworkText t) | Some n \<Rightarrow> Inr n)
        (ep_blocked_networks p) = Inr (ep_networks p)"
    and "ep_schema_version p = 1" "ep_default_action p = ''deny''" "requires_egress_policy (ep_mode p)"
    by (auto simp: policy_of_json_def make_egress_policy_def result_simps requires_egress_policy_def)
  moreover have "\<forall>r \<in> set (ep_rules p). wf_rule r"
    by (rule emap_enum_ball [OF rules]) (rule parse_destination_rule_wf)
  ultimately show ?thesis
    using emap_networks [OF nets] parse_ports_Inr [OF ports] parse_global_limits_wf [OF limits]
    unfolding wf_policy_def by blast
qed

end
