(* ===== verification/Egress_Properties.thy ===== *)
theory Egress_Properties
  imports Egress_Policy
begin

text \<open>The properties of the egress policy and of the network modes.\<close>

section \<open>Requests\<close>

lemma default_networks:
  "map ip_network default_blocked_networks = map Some
     [Net4 0 8, Net4 167772160 8, Net4 1681915904 10, Net4 2130706432 8, Net4 2851995648 16,
      Net4 2886729728 12, Net4 3221225472 24, Net4 3221225984 24, Net4 3232235520 16, Net4 3323068416 15,
      Net4 3325256704 24, Net4 3405803776 24, Net4 3758096384 4, Net4 4026531840 4, Net6 0 128, Net6 1 128,
      Net6 334965454937798799971759379190646833152 7, Net6 338288524927261089654018896841347694592 10,
      Net6 338953138925153547590470800371487866880 8, Net6 42540766411282592856903984951653826560 32]"
  by (simp add: default_blocked_networks_def ip_eval)

definition example_egress :: "bool \<Rightarrow> egress_policy" where
  "example_egress non_global =
     \<lparr>ep_schema_version = 1, ep_mode = NetFetch, ep_default_action = ''deny'',
      ep_rules = [\<lparr>de_name = ''r'', de_hosts = [''example.com''], de_ips = [], de_schemes = [''http''],
                  de_ports = [80], de_methods = [''GET''], de_max_connections = 2, de_max_request_bytes = 1,
                  de_max_response_bytes = 1, de_timeout_seconds = 1, de_cache_response = True,
                  de_allow_redirects = False, de_max_redirects = 0, de_verify_tls = True\<rparr>],
      ep_blocked_networks = default_blocked_networks, ep_blocked_ports = default_blocked_ports,
      ep_block_non_global = non_global,
      ep_limits = \<lparr>gl_max_connections = 4, gl_max_uploaded_bytes = 131072, gl_max_downloaded_bytes = 16777216,
                   gl_max_duration_seconds = 30, gl_requests_per_second = NumFloat float_1\<rparr>,
      ep_networks = map the (map ip_network default_blocked_networks)\<rparr>"

definition rule_lists :: "destination_rule \<Rightarrow> string option \<Rightarrow> string option \<Rightarrow> string \<Rightarrow> int \<Rightarrow> string \<Rightarrow> bool" where
  "rule_lists r host ip scheme port meth \<longleftrightarrow> (host_listed r host \<or> ip_listed r ip) \<and>
     py_lower scheme \<in> set (de_schemes r) \<and> port \<in> set (de_ports r) \<and> py_upper meth \<in> set (de_methods r)"

definition address_permitted :: "egress_policy \<Rightarrow> string \<Rightarrow> bool" where
  "address_permitted p v \<longleftrightarrow>
     (\<exists>a. ip_address v = Some a \<and> (\<forall>n \<in> set (ep_networks p). \<not> in_net a n) \<and> (ep_block_non_global p \<longrightarrow> is_global a))"

lemma request_permitted_iff: "request_permitted p ip \<longleftrightarrow> (\<forall>v. ip = Some v \<longrightarrow> address_permitted p v)"
  by (cases ip) (auto simp: request_permitted_def address_permitted_def validate_external_ip_Inr)

lemma matches_request_lists:
  assumes "matches_request r host ip (py_lower scheme) port (py_upper meth) = Inr b"
  shows "b \<longleftrightarrow> rule_lists r host ip scheme port meth"
proof -
  obtain same where "matches_identity r host ip = Inr same"
      "b \<longleftrightarrow> same \<and> py_lower (py_lower scheme) \<in> set (de_schemes r) \<and> port \<in> set (de_ports r) \<and>
        py_upper (py_upper meth) \<in> set (de_methods r)"
    using assms unfolding matches_request_def ebind_Inr_iff sum.inject by metis
  with matches_identity_Inr show ?thesis unfolding rule_lists_def py_lower_idem py_upper_idem by blast
qed

lemma first_match_find:
  assumes "first_match rules host ip (py_lower scheme) port (py_upper meth) = Inr m"
  shows "m = find (\<lambda>r. rule_lists r host ip scheme port meth) rules"
  using assms
proof (induction rules)
  case (Cons r rules)
  then obtain b where b: "matches_request r host ip (py_lower scheme) port (py_upper meth) = Inr b"
    and m: "(if b then Inr (Some r) else first_match rules host ip (py_lower scheme) port (py_upper meth)) = Inr m"
    by (auto simp: ebind_Inr_iff)
  from matches_request_lists [OF b] m Cons.IH show ?case by (auto split: if_splits)
qed simp

text \<open>Addresses of IPv4 that are not global\<close>

lemma global_ipv4:
  assumes "is_global (V4 n)"
  shows "n div 2 ^ 24 \<notin> {0, 10, 127} \<and> n div 2 ^ 22 \<noteq> 100 * 4 + 1 \<and> n div 2 ^ 20 \<noteq> 172 * 16 + 1 \<and>
    n div 2 ^ 16 \<notin> {169 * 256 + 254, 192 * 256 + 168} \<and> n div 2 ^ 28 \<noteq> 15"
  using assms by (auto simp: is_private_plain_def private_nets_def private_exceptions_def v4_net_def v6_net_def mask_to_def)

text \<open>
  C39: Which requests a policy allows.  A request is allowed exactly when its port is not blocked, its
  address, when it has one, is an IP address that lies in no blocked network and, when the policy blocks
  non-global addresses, is global, and some rule lists its host or address, its scheme, its port and its
  method; the decision names the first such rule, and no rule when the request is denied.  So with
  non-global addresses blocked no request to a loopback, private, link-local, shared or reserved IPv4
  address is allowed.
\<close>

theorem allowed_requests_match_policy:
  assumes "evaluate_request p host ip scheme port meth = Inr d"
  shows "(ed_allowed d \<longleftrightarrow> port \<notin> set (ep_blocked_ports p) \<and>
       (\<forall>v. ip = Some v \<longrightarrow> (\<exists>a. ip_address v = Some a \<and> (\<forall>n \<in> set (ep_networks p). \<not> in_net a n) \<and>
         (ep_block_non_global p \<longrightarrow> is_global a))) \<and>
       (\<exists>r \<in> set (ep_rules p). rule_lists r host ip scheme port meth)) \<and>
    ed_rule d =
      (if ed_allowed d then map_option de_name (find (\<lambda>r. rule_lists r host ip scheme port meth) (ep_rules p)) else None) \<and>
    (ed_allowed d \<and> ep_block_non_global p \<longrightarrow> (\<forall>v n. ip = Some v \<and> ip_address v = Some (V4 n) \<longrightarrow>
       n div 2 ^ 24 \<notin> {0, 10, 127} \<and> n div 2 ^ 22 \<noteq> 100 * 4 + 1 \<and> n div 2 ^ 20 \<noteq> 172 * 16 + 1 \<and>
       n div 2 ^ 16 \<notin> {169 * 256 + 254, 192 * 256 + 168} \<and> n div 2 ^ 28 \<noteq> 15))"
proof -
  have allowed: "(ed_allowed d \<longleftrightarrow> port \<notin> set (ep_blocked_ports p) \<and> (\<forall>v. ip = Some v \<longrightarrow> address_permitted p v) \<and>
       (\<exists>r \<in> set (ep_rules p). rule_lists r host ip scheme port meth)) \<and>
    ed_rule d =
      (if ed_allowed d then map_option de_name (find (\<lambda>r. rule_lists r host ip scheme port meth) (ep_rules p)) else None)"
    using assms
  proof (cases rule: evaluate_request_cases)
    case denied
    have "ed_rule d = None"
      using assms denied(2)
      by (auto simp: evaluate_request_def request_permitted_def Let_def split: option.splits sum.splits if_splits)
    with denied show ?thesis unfolding request_permitted_iff by auto
  next
    case (matched r)
    have found: "find (\<lambda>r. rule_lists r host ip scheme port meth) (ep_rules p) = Some r"
      using first_match_find [OF matched(3)] by simp
    then have "r \<in> set (ep_rules p) \<and> rule_lists r host ip scheme port meth" by (auto simp: find_Some_iff)
    with matched found show ?thesis by (auto simp: request_permitted_iff)
  next
    case unmatched
    have "find (\<lambda>r. rule_lists r host ip scheme port meth) (ep_rules p) = None"
      using first_match_find [OF unmatched(3)] by simp
    then have "\<not> (\<exists>r \<in> set (ep_rules p). rule_lists r host ip scheme port meth)" by (auto simp: find_None_iff)
    moreover have "ed_rule d = None" using assms unmatched
      by (auto simp: evaluate_request_def Let_def split: option.splits sum.splits if_splits)
    ultimately show ?thesis using unmatched(4) by auto
  qed
  then have "is_global (V4 n)" if "ed_allowed d" "ep_block_non_global p" "ip = Some v" "ip_address v = Some (V4 n)" for v n
    using that by (simp add: address_permitted_def)
  with allowed global_ipv4 show ?thesis unfolding address_permitted_def by blast
qed

lemma example_networks:
  "ep_networks (example_egress b) =
     [Net4 0 8, Net4 167772160 8, Net4 1681915904 10, Net4 2130706432 8, Net4 2851995648 16,
      Net4 2886729728 12, Net4 3221225472 24, Net4 3221225984 24, Net4 3232235520 16, Net4 3323068416 15,
      Net4 3325256704 24, Net4 3405803776 24, Net4 3758096384 4, Net4 4026531840 4, Net6 0 128, Net6 1 128,
      Net6 334965454937798799971759379190646833152 7, Net6 338288524927261089654018896841347694592 10,
      Net6 338953138925153547590470800371487866880 8, Net6 42540766411282592856903984951653826560 32]"
  by (simp only: example_egress_def egress_policy.simps default_networks list.map option.sel)

lemma example_flags: "ep_block_non_global (example_egress b) = b"
  by (simp add: example_egress_def)

lemma example_texts:
  "normalize_host ''Example.com.'' = Inr ''example.com''" "py_lower ''HTTP'' = ''http''"
  "py_lower ''http'' = ''http''" "py_upper ''get'' = ''GET''" "py_upper ''GET'' = ''GET''"
  by code_simp+

lemmas global_eval = is_private_plain_def private_nets_def private_exceptions_def v4_net_def v6_net_def

lemma example_address: "validate_external_ip (example_egress True) ''93.184.216.34'' = Inr ()"
  by (simp add: validate_external_ip_def example_networks example_flags ip_eval global_eval)

theorem allowed_requests_match_policy_witness:
  "\<exists>d. evaluate_request (example_egress True) (Some ''Example.com.'') (Some ''93.184.216.34'') ''HTTP'' 80 ''get'' = Inr d \<and>
     ed_allowed d \<and> ed_rule d = Some ''r'' \<and> (\<exists>a. ip_address ''93.184.216.34'' = Some a \<and> is_global a)"
proof -
  have e: "evaluate_request (example_egress True) (Some ''Example.com.'') (Some ''93.184.216.34'') ''HTTP'' 80 ''get'' =
      Inr \<lparr>ed_allowed = True, ed_reason = MatchedAllowRule, ed_rule = Some ''r''\<rparr>"
    by (simp only: evaluate_request_def example_address example_texts Let_def option.case sum.case)
       (simp add: example_egress_def default_blocked_ports_def matches_request_def matches_identity_def
        example_texts letter_cases)
  have flag: "ep_block_non_global (example_egress True)" by (simp add: example_egress_def)
  from allowed_requests_match_policy [OF e] flag
  have "\<exists>a. ip_address ''93.184.216.34'' = Some a \<and> is_global a" by auto
  with e show ?thesis by auto
qed

section \<open>Addresses\<close>

lemma default_networks_of:
  assumes "wf_policy p" and "ep_blocked_networks p = default_blocked_networks"
  shows "{Net4 0 8, Net4 167772160 8, Net4 2130706432 8, Net4 2851995648 16, Net4 2886729728 12,
      Net4 3232235520 16, Net4 3758096384 4, Net4 4026531840 4} \<subseteq> set (ep_networks p)"
proof -
  have "map Some (ep_networks p) = map ip_network default_blocked_networks"
    using assms by (simp add: wf_policy_def)
  moreover have "map the (map Some (ep_networks p)) = ep_networks p"
    by (simp add: comp_def)
  ultimately have "ep_networks p = map the (map ip_network default_blocked_networks)"
    by simp
  then show ?thesis unfolding default_networks by simp
qed

text \<open>
  Under a policy with the default blocked networks an IPv4 destination is refused when it is
  loopback, RFC 1918, link local, multicast, reserved or in 0.0.0.0/8, whatever the other settings.
\<close>

theorem default_networks_block_internal_ipv4:
  assumes "wf_policy p" and "ep_blocked_networks p = default_blocked_networks"
    and "validate_external_ip p v = Inr ()" and "ip_address v = Some (V4 n)"
  shows "n div 2 ^ 24 \<notin> {0, 10, 127} \<and> n div 2 ^ 20 \<noteq> 172 * 16 + 1 \<and> n div 2 ^ 16 \<noteq> 192 * 256 + 168 \<and>
    n div 2 ^ 16 \<noteq> 169 * 256 + 254 \<and> n div 2 ^ 28 \<notin> {14, 15}"
proof -
  have out: "\<not> in_net (V4 n) net" if "net \<in> set (ep_networks p)" for net
    using assms(3,4) that by (auto simp: validate_external_ip_Inr)
  note nets = subsetD [OF default_networks_of [OF assms(1,2)]]
  have "\<not> in_net (V4 n) (Net4 0 8)" "\<not> in_net (V4 n) (Net4 167772160 8)" "\<not> in_net (V4 n) (Net4 2130706432 8)"
    "\<not> in_net (V4 n) (Net4 2851995648 16)" "\<not> in_net (V4 n) (Net4 2886729728 12)"
    "\<not> in_net (V4 n) (Net4 3232235520 16)" "\<not> in_net (V4 n) (Net4 3758096384 4)" "\<not> in_net (V4 n) (Net4 4026531840 4)"
    by (rule out [OF nets]; simp)+
  then show ?thesis by (auto simp: mask_to_def)
qed

lemma example_egress_wf: "wf_policy (example_egress b)"
proof -
  have "map Some (map the (map ip_network default_blocked_networks)) = map ip_network default_blocked_networks"
    unfolding default_networks by simp
  then show ?thesis
    by (auto simp: wf_policy_def example_egress_def wf_rule_def fetch_schemes_def fetch_methods_def
        requires_egress_policy_def default_blocked_ports_def float_1_def float_0_def)
qed

theorem default_networks_block_internal_ipv4_witness:
  "(1572395042 :: nat) div 2 ^ 24 \<notin> {0, 10, 127} \<and> ip_address ''93.184.216.34'' = Some (V4 1572395042)"
proof -
  have ip: "ip_address ''93.184.216.34'' = Some (V4 1572395042)" by (simp add: ip_eval)
  have nets: "ep_blocked_networks (example_egress True) = default_blocked_networks"
    by (simp add: example_egress_def)
  from default_networks_block_internal_ipv4 [OF example_egress_wf nets example_address ip] ip show ?thesis by blast
qed

text \<open>
  The default blocked networks do not cover IPv4-mapped IPv6 addresses: with
  \<open>block_non_global_ips\<close> off, ::ffff:127.0.0.1 passes although 127.0.0.1 is blocked.
\<close>

theorem mapped_loopback_passes_default_networks:
  "(\<exists>n. validate_external_ip (example_egress False) ''127.0.0.1'' = Inl (EgBlockedBy n ''127.0.0.1'')) \<and>
   validate_external_ip (example_egress False) ''::ffff:127.0.0.1'' = Inr () \<and>
   validate_external_ip (example_egress True) ''::ffff:127.0.0.1'' = Inl (EgNotGlobal ''::ffff:127.0.0.1'')"
proof (intro conjI)
  have "validate_external_ip (example_egress False) ''127.0.0.1'' = Inl (EgBlockedBy (Net4 2130706432 8) ''127.0.0.1'')"
    by (simp add: validate_external_ip_def example_networks example_flags ip_eval)
  then show "\<exists>n. validate_external_ip (example_egress False) ''127.0.0.1'' = Inl (EgBlockedBy n ''127.0.0.1'')" by blast
  show "validate_external_ip (example_egress False) ''::ffff:127.0.0.1'' = Inr ()"
    by (simp add: validate_external_ip_def example_networks example_flags ip_eval)
  show "validate_external_ip (example_egress True) ''::ffff:127.0.0.1'' = Inl (EgNotGlobal ''::ffff:127.0.0.1'')"
    by (simp add: validate_external_ip_def example_networks example_flags ip_eval global_eval)
qed

section \<open>Loading\<close>

text \<open>
  C40: A policy that loads is well-formed: schema 1, default deny, a brokered mode, every rule with a
  destination and with schemes, methods and ports in range, positive limits, parsed networks.
\<close>

theorem loaded_policy_wf:
  assumes "load_egress_policy loads f = Inr p"
  shows "wf_policy p"
  using assms policy_of_json_wf
  by (auto simp: load_egress_policy_def split: file_view.splits option.splits)

definition example_policy_json :: json where
  "example_policy_json = JObj
     [(''schema_version'', JInt 1), (''mode'', JStr ''brokered_fetch''), (''default_action'', JStr ''deny''),
      (''allowed_destinations'', JList
        [JObj [(''match'', JObj [(''hosts'', JList [JStr ''Example.com''])]), (''ports'', JList [JInt 80])]]),
      (''blocked_networks'', JList [JStr ''10.0.0.0/8''])]"

theorem loaded_policy_wf_witness:
  "\<exists>p. load_egress_policy (\<lambda>_. Some example_policy_json) (FileText ''{}'') = Inr p \<and> wf_policy p"
proof -
  have hosts: "normalize_host ''Example.com'' = Inr ''example.com''" by code_simp
  have strings: "parse_strings (json_strings fetch_schemes) c fetch_schemes False = Inr fetch_schemes"
    "parse_strings (json_strings fetch_methods) c fetch_methods True = Inr fetch_methods" for c
    by (simp_all add: parse_strings_def json_strings_def fetch_schemes_def fetch_methods_def emap_enum_def
        letter_cases sorted_set_def)
  have rate: "parse_global_limits (JObj []) = Inr \<lparr>gl_max_connections = 4, gl_max_uploaded_bytes = 131072,
      gl_max_downloaded_bytes = 16777216, gl_max_duration_seconds = 30,
      gl_requests_per_second = NumFloat float_1\<rparr>"
    by (simp add: parse_global_limits_def float_0_def float_1_def)
  have name: "py_strip ''rule-0'' = ''rule-0''" "char_of (48 :: nat) = CHR ''0''"
    by code_simp+
  have "\<exists>p. policy_of_json example_policy_json = Inr p"
    by (simp add: policy_of_json_def example_policy_json_def parse_destination_rule_def letter_cases
        enum_of_def all_network_modes_def emap_enum_def parse_hosts_def parse_ips_def hosts strings name
        rate parse_ports_def network_texts_def ip_eval make_egress_policy_def default_blocked_ports_def
        show_nat.simps sorted_set_def)
  then obtain p where "load_egress_policy (\<lambda>_. Some example_policy_json) (FileText ''{}'') = Inr p"
    by (auto simp: load_egress_policy_def)
  with loaded_policy_wf [OF this] show ?thesis by blast
qed

text \<open>
  A rate of NaN passes the check that the rate be positive, and becomes the limit.
\<close>

theorem nan_rate_accepted:
  "\<exists>l. parse_global_limits (JObj [(''requests_per_second'', JFloat FloatNaN)]) = Inr l \<and>
     gl_requests_per_second l = NumFloat FloatNaN"
  by (simp add: parse_global_limits_def float_0_def)

text \<open>A mode that leaves the sandbox is selected only by its own name, never by auto or an alias.\<close>

theorem live_modes_only_by_name:
  assumes "normalize_network_mode s dependencies = Inr m"
    and "is_live_egress_mode m \<or> requires_record_policy m"
  shows "py_lower (py_strip s) = network_mode_value m"
  using assms by (rule normalize_live)

theorem live_modes_only_by_name_witness:
  "py_lower (py_strip '' Brokered_Fetch '') = network_mode_value NetFetch"
  by (rule live_modes_only_by_name [of _ True]) code_simp+

end
