(* ===== verification/Python_Text.thy ===== *)
theory Python_Text
  imports Network_Modes Posix_Path
begin

text \<open>
  Text of Python values: \<open>repr\<close> and \<open>str\<close> of JSON values, line splitting, word runs and
  substring search, as the readers of logs and events use them.  Characters are bytes; the
  non-printable ones are escaped as \<open>repr\<close> does for ASCII.
\<close>

section \<open>repr and str\<close>

definition repr_char :: "char \<Rightarrow> char \<Rightarrow> string" where
  "repr_char quote c =
     (let n = (of_char c :: nat) in
      if c = quote \<or> n = 92 then [char_of (92 :: nat), c]
      else if n = 9 then [char_of (92 :: nat), CHR ''t'']
      else if n = 10 then [char_of (92 :: nat), CHR ''n'']
      else if n = 13 then [char_of (92 :: nat), CHR ''r'']
      else if n < 32 \<or> 127 \<le> n then [char_of (92 :: nat), CHR ''x'', nibble_char (n div 16), nibble_char (n mod 16)]
      else [c])"

definition repr_string :: "string \<Rightarrow> string" where
  "repr_string s =
     (let single = char_of (39 :: nat); double = char_of (34 :: nat);
          quote = (if single \<in> set s \<and> double \<notin> set s then double else single)
      in [quote] @ concat (map (repr_char quote) s) @ [quote])"

fun py_repr :: "json \<Rightarrow> string" where
  "py_repr JNull = ''None''"
| "py_repr (JBool b) = (if b then ''True'' else ''False'')"
| "py_repr (JInt i) = show_int i"
| "py_repr (JFloat f) = float_repr f"
| "py_repr (JStr s) = repr_string s"
| "py_repr (JList xs) = ''['' @ join_with '', '' (map py_repr xs) @ '']''"
| "py_repr (JObj d) = ''{'' @ join_with '', '' (map (\<lambda>(k, v). repr_string k @ '': '' @ py_repr v) d) @ ''}''"

definition py_text :: "json \<Rightarrow> string" where
  "py_text v = (case v of JStr s \<Rightarrow> s | _ \<Rightarrow> py_repr v)"

lemma py_text_JStr [simp]: "py_text (JStr s) = s"
  by (simp add: py_text_def)

text \<open>\<open>str(v or default)\<close>\<close>

definition text_or :: "json \<Rightarrow> string \<Rightarrow> string" where
  "text_or v dflt = (if jtruthy v then py_text v else dflt)"

lemma show_nat_nonempty: "show_nat n \<noteq> []"
  by (subst show_nat.simps) simp

lemma py_text_truthy: "jtruthy v \<Longrightarrow> (\<And>r s. v = JFloat (FloatFin r s) \<Longrightarrow> s \<noteq> []) \<Longrightarrow> py_text v \<noteq> []"
  by (cases v; cases "\<exists>f. v = JFloat f")
     (auto simp: py_text_def show_int_def show_nat_nonempty repr_string_def Let_def elim!: float_repr.elims
       split: if_splits)

text \<open>\<open>_optional_string\<close>\<close>

definition opt_text :: "json \<Rightarrow> string option" where
  "opt_text v = (if v = JNull \<or> py_text v = [] then None else Some (py_text v))"

lemma opt_text_nonempty: "opt_text v = Some s \<Longrightarrow> s \<noteq> []"
  by (auto simp: opt_text_def split: if_splits)

text \<open>
  \<open>_optional_int\<close> catches \<open>TypeError\<close> and \<open>ValueError\<close> only: the \<open>OverflowError\<close> of an
  infinite float escapes.
\<close>

definition opt_int :: "json \<Rightarrow> convert_error + int option" where
  "opt_int v =
     (case v of
        JNull \<Rightarrow> Inr None
      | JBool b \<Rightarrow> Inr None
      | _ \<Rightarrow> (case py_int v of
               Inr i \<Rightarrow> Inr (Some i)
             | Inl ConvertOverflow \<Rightarrow> Inl ConvertOverflow
             | Inl _ \<Rightarrow> Inr None))"

section \<open>Lines, words and searching\<close>

definition line_break :: "char \<Rightarrow> bool" where
  "line_break c = (let n = (of_char c :: nat) in n \<in> {10, 11, 12, 13, 28, 29, 30, 133})"

text \<open>\<open>str.splitlines()\<close>: a carriage return and newline is one break, a final break ends no line.\<close>

fun splitlines_from :: "string \<Rightarrow> string \<Rightarrow> string list" where
  "splitlines_from acc [] = (if acc = [] then [] else [acc])"
| "splitlines_from acc (c # cs) =
     (if line_break c
      then acc # splitlines_from [] (if c = char_of (13 :: nat) \<and> cs \<noteq> [] \<and> hd cs = char_of (10 :: nat) then tl cs else cs)
      else splitlines_from (acc @ [c]) cs)"

definition splitlines :: "string \<Rightarrow> string list" where
  "splitlines s = splitlines_from [] s"

definition word_char :: "char \<Rightarrow> bool" where
  "word_char c \<longleftrightarrow> ascii_upper c \<or> ascii_lower c \<or> ascii_digit c \<or> c = CHR ''_''"

text \<open>The maximal runs of word characters.\<close>

definition word_runs :: "string \<Rightarrow> string list" where
  "word_runs s = filter (\<lambda>w. w \<noteq> []) (split_on (CHR '' '') (map (\<lambda>c. if word_char c then c else CHR '' '') s))"

text \<open>The first suffix on which a matcher succeeds, as \<open>re.search\<close> tries them.\<close>

fun search_first :: "(string \<Rightarrow> 'a option) \<Rightarrow> string \<Rightarrow> 'a option" where
  "search_first m [] = m []"
| "search_first m (c # cs) = (case m (c # cs) of Some r \<Rightarrow> Some r | None \<Rightarrow> search_first m cs)"

text \<open>What follows a literal matched without regard to case.\<close>

definition after_literal :: "string \<Rightarrow> string \<Rightarrow> string option" where
  "after_literal lit s =
     (if py_lower (take (length lit) s) = py_lower lit \<and> length lit \<le> length s then Some (drop (length lit) s) else None)"

definition contains_text :: "string \<Rightarrow> string \<Rightarrow> bool" where
  "contains_text s sub = (search_first (\<lambda>t. if starts_with t sub then Some () else None) s \<noteq> None)"

section \<open>Equality of JSON values\<close>

text \<open>
  \<open>==\<close> of two values read from JSON: numbers and booleans compare by value, NaN differs from
  everything.  Containers are only ever compared with scalars here.
\<close>

fun number_of :: "json \<Rightarrow> pyfloat option" where
  "number_of (JBool b) = Some (FloatFin (if b then 1 else 0) [])"
| "number_of (JInt i) = Some (FloatFin (of_int i) [])"
| "number_of (JFloat f) = Some f"
| "number_of _ = None"

fun float_equal :: "pyfloat \<Rightarrow> pyfloat \<Rightarrow> bool" where
  "float_equal (FloatFin a _) (FloatFin b _) = (a = b)"
| "float_equal (FloatInf a) (FloatInf b) = (a = b)"
| "float_equal _ _ = False"

definition scalar_equal :: "json \<Rightarrow> json \<Rightarrow> bool" where
  "scalar_equal v w =
     (case (number_of v, number_of w) of
        (Some a, Some b) \<Rightarrow> float_equal a b
      | (None, None) \<Rightarrow> (case v of JList _ \<Rightarrow> False | JObj _ \<Rightarrow> False | _ \<Rightarrow> v = w)
      | _ \<Rightarrow> False)"

end
