(* ===== verification/Requirement_Extractor.thy ===== *)
theory Requirement_Extractor
  imports Requirements Python_Text "HOL-Library.Product_Lexorder"
begin

text \<open>
  The requirement extractor (\<open>taintforge_env/requirement_extractor.py\<close>).  Each \<open>_extract_*\<close>
  method is a function to the list of its \<open>_add\<close> calls, in the order it makes them; \<open>extract\<close>
  folds \<open>_add\<close> over them.  The methods read nothing of the table they fill, so this is the same.
\<close>

section \<open>Constants and configuration\<close>

type_synonym event = "(string \<times> json) list"

definition open_write_flags :: "string list" where
  "open_write_flags = [''O_WRONLY'', ''O_RDWR'', ''O_CREAT'', ''O_TRUNC'', ''O_APPEND'', ''O_TMPFILE'']"

definition path_exists_syscalls :: "string list" where
  "path_exists_syscalls =
    [''open'', ''openat'', ''creat'', ''stat'', ''lstat'', ''newfstatat'', ''access'', ''faccessat'',
     ''readlink'', ''readlinkat'', ''chdir'', ''unlink'', ''unlinkat'', ''rmdir'']"

definition directory_create_syscalls :: "string list" where
  "directory_create_syscalls = [''mkdir'', ''mkdirat'']"

definition exec_syscalls :: "string list" where "exec_syscalls = [''execve'', ''execveat'']"

definition open_syscalls :: "string list" where "open_syscalls = [''open'', ''openat'', ''creat'']"

definition network_failure_errnos :: "string list" where
  "network_failure_errnos = [''ECONNREFUSED'', ''ETIMEDOUT'', ''ENETUNREACH'', ''EHOSTUNREACH'', ''EADDRNOTAVAIL'']"

record extraction_config =
  xc_guest_only :: bool
  xc_window :: nat
  xc_max_evidence :: nat

definition default_extraction_config :: extraction_config where
  "default_extraction_config = \<lparr>xc_guest_only = True, xc_window = 6, xc_max_evidence = 8\<rparr>"

record observation_bundle =
  ob_syscall_events :: "event list"
  ob_network_events :: "event list"
  ob_stderr :: string
  ob_rootfs_diff :: "event option"
  ob_warnings :: "string list"

section \<open>Merging\<close>

record pending_requirement =
  pr_kind :: requirement_kind
  pr_resource :: string
  pr_operation :: string
  pr_status :: requirement_status
  pr_blocking :: blocking_assessment
  pr_confidence :: pyfloat
  pr_repairable :: bool
  pr_errno :: "string option"
  pr_evidence :: "req_evidence list"
  pr_details :: "(string \<times> string) list"

fun status_precedence :: "requirement_status \<Rightarrow> nat" where
  "status_precedence SUnknown = 0"
| "status_precedence SProvided = 1"
| "status_precedence SUnmet = 2"

definition merge_status :: "requirement_status \<Rightarrow> requirement_status \<Rightarrow> requirement_status" where
  "merge_status current incoming =
     (if status_precedence incoming \<le> status_precedence current then current else incoming)"

fun blocking_precedence :: "blocking_assessment \<Rightarrow> nat" where
  "blocking_precedence BUnlikely = 0"
| "blocking_precedence BUnknown = 1"
| "blocking_precedence BPossible = 2"
| "blocking_precedence BLikely = 3"

definition merge_blocking :: "blocking_assessment \<Rightarrow> blocking_assessment \<Rightarrow> blocking_assessment" where
  "merge_blocking current incoming =
     (if blocking_precedence incoming \<le> blocking_precedence current then current else incoming)"

definition float_lt :: "pyfloat \<Rightarrow> pyfloat \<Rightarrow> bool" where
  "float_lt a b \<longleftrightarrow> float_le a b \<and> \<not> float_le b a"

text \<open>\<open>max(a, b)\<close> and \<open>min(a, b)\<close> return the first argument unless the second is beyond it.\<close>

definition float_max :: "pyfloat \<Rightarrow> pyfloat \<Rightarrow> pyfloat" where
  "float_max a b = (if float_lt a b then b else a)"

definition float_min :: "pyfloat \<Rightarrow> pyfloat \<Rightarrow> pyfloat" where
  "float_min a b = (if float_lt b a then b else a)"

definition bounded_confidence :: "pyfloat \<Rightarrow> pyfloat" where
  "bounded_confidence v = float_max float_0 (float_min float_1 v)"

definition dict_set :: "('k \<times> 'v) list \<Rightarrow> 'k \<times> 'v \<Rightarrow> ('k \<times> 'v) list" where
  "dict_set d kv =
     (if fst kv \<in> fst ` set d then map (\<lambda>(k, v). if k = fst kv then (k, snd kv) else (k, v)) d else d @ [kv])"

definition dict_update :: "('k \<times> 'v) list \<Rightarrow> ('k \<times> 'v) list \<Rightarrow> ('k \<times> 'v) list" where
  "dict_update d e = foldl dict_set d e"

definition pending_key :: "pending_requirement \<Rightarrow> requirement_kind \<times> string \<times> string" where
  "pending_key r = (pr_kind r, pr_operation r, pr_resource r)"

text \<open>\<open>_add\<close>: the call's arguments are a pending requirement with one evidence.\<close>

definition merge_into :: "nat \<Rightarrow> pending_requirement \<Rightarrow> pending_requirement \<Rightarrow> pending_requirement" where
  "merge_into max_evidence existing new =
     existing\<lparr>pr_status := merge_status (pr_status existing) (pr_status new),
              pr_blocking := merge_blocking (pr_blocking existing) (pr_blocking new),
              pr_confidence := float_max (pr_confidence existing) (bounded_confidence (pr_confidence new)),
              pr_repairable := pr_repairable existing \<or> pr_repairable new,
              pr_errno := (if pr_errno existing = None then pr_errno new else pr_errno existing),
              pr_details := dict_update (pr_details existing) (pr_details new),
              pr_evidence := (if hd (pr_evidence new) \<notin> set (pr_evidence existing) \<and>
                                 length (pr_evidence existing) < max_evidence
                              then pr_evidence existing @ [hd (pr_evidence new)] else pr_evidence existing)\<rparr>"

fun add_requirement ::
    "nat \<Rightarrow> pending_requirement list \<Rightarrow> pending_requirement \<Rightarrow> pending_requirement list" where
  "add_requirement m [] new = [new\<lparr>pr_confidence := bounded_confidence (pr_confidence new)\<rparr>]"
| "add_requirement m (r # rs) new =
     (if pending_key r = pending_key new then merge_into m r new # rs else r # add_requirement m rs new)"

definition freeze :: "pending_requirement \<Rightarrow> runtime_requirement" where
  "freeze r =
     \<lparr>rq_id = make_requirement_id (pr_kind r) (pr_operation r) (pr_resource r), rq_kind = pr_kind r,
      rq_resource = pr_resource r, rq_operation = pr_operation r, rq_status = pr_status r,
      rq_blocking = pr_blocking r, rq_confidence = pr_confidence r, rq_repairable = pr_repairable r,
      rq_errno = pr_errno r, rq_evidence = pr_evidence r, rq_details = sort_key fst (pr_details r)\<rparr>"

text \<open>Every call of \<open>_add\<close> in the module passes confidence 1.0.\<close>

definition pending ::
    "requirement_kind \<Rightarrow> string \<Rightarrow> string \<Rightarrow> requirement_status \<Rightarrow> blocking_assessment \<Rightarrow> bool
     \<Rightarrow> string option \<Rightarrow> req_evidence \<Rightarrow> (string \<times> string) list \<Rightarrow> pending_requirement" where
  "pending k res op st bl rep err evd det =
     \<lparr>pr_kind = k, pr_resource = res, pr_operation = op, pr_status = st, pr_blocking = bl,
      pr_confidence = float_1, pr_repairable = rep, pr_errno = err, pr_evidence = [evd], pr_details = det\<rparr>"

section \<open>Syscall events\<close>

definition select_syscall_events :: "extraction_config \<Rightarrow> event list \<Rightarrow> event list" where
  "select_syscall_events cfg events =
     filter (\<lambda>e. \<not> (xc_guest_only cfg \<and> jget e ''execution_context'' \<noteq> JStr ''guest'')) events"

definition syscall_evidence :: "event \<Rightarrow> nat \<Rightarrow> req_evidence" where
  "syscall_evidence e index =
     (let syscall = text_or (jget e ''syscall'') ''unknown'' in
      \<lparr>ev_source = ''syscall'',
       ev_summary = (if jtruthy (jget e ''errno'') then syscall @ '' failed with '' @ py_text (jget e ''errno'') else syscall),
       ev_raw = opt_text (jget e ''raw''), ev_event_index = Some (int index)\<rparr>)"

text \<open>\<open>re.findall(r"\bO_[A-Z0-9_]+\b", args)\<close>: a match is a whole run of word characters.\<close>

definition extract_open_flags :: "string \<Rightarrow> string list" where
  "extract_open_flags args =
     filter (\<lambda>w. starts_with w ''O_'' \<and> 2 < length w \<and>
               list_all (\<lambda>c. ascii_upper c \<or> ascii_digit c \<or> c = CHR ''_'') (drop 2 w)) (word_runs args)"

definition parent_directory :: "string \<Rightarrow> string" where
  "parent_directory path =
     (let parent = pp_str (pp_parent (pp_parse path)) in
      if parent = [] \<or> parent = ''.'' then ''/'' else parent)"

fun blocking_scan :: "event list \<Rightarrow> convert_error + blocking_assessment" where
  "blocking_scan [] = Inr BUnknown"
| "blocking_scan (e # es) =
     (if jget e ''event'' = JStr ''signal'' then Inr BLikely
      else if jget e ''event'' = JStr ''process_exit''
      then ebind (opt_int (jget e ''return_value'')) (\<lambda>code.
           ebind (if code = None then opt_int (jget e ''result'') else Inr code) (\<lambda>code2.
           Inr (if code2 \<noteq> None \<and> code2 \<noteq> Some 0 then BLikely else BPossible)))
      else blocking_scan es)"

text \<open>\<open>_blocking_after\<close> scans the window that follows the event.\<close>

definition blocking_after :: "extraction_config \<Rightarrow> event list \<Rightarrow> nat \<Rightarrow> convert_error + blocking_assessment" where
  "blocking_after cfg events index = blocking_scan (take (xc_window cfg) (drop (index + 1) events))"

definition device_or_filesystem :: "string \<Rightarrow> requirement_kind" where
  "device_or_filesystem path =
     (if path = ''/dev'' \<or> starts_with path ''/dev/'' then KDevice else KFilesystem)"

definition flags_text :: "string list \<Rightarrow> string" where
  "flags_text flags = join_with ''|'' (sorted_set flags)"

definition extract_path_event ::
    "extraction_config \<Rightarrow> event list \<Rightarrow> nat \<Rightarrow> event \<Rightarrow> string \<Rightarrow> string \<Rightarrow> string option \<Rightarrow> int option
     \<Rightarrow> convert_error + pending_requirement list" where
  "extract_path_event cfg events index e syscall path errno return_value =
     (let flags = extract_open_flags (text_or (jget e ''args'') []);
          evd = syscall_evidence e index
      in ebind (blocking_after cfg events index) (\<lambda>bl.
         Inr (if errno = Some ''ENOENT'' \<and> (syscall \<in> set directory_create_syscalls \<or>
                  (syscall \<in> set open_syscalls \<and> ''O_CREAT'' \<in> set flags))
              then [pending KFilesystem (parent_directory path) ''directory_exists'' SUnmet bl True errno evd
                      [(''trigger_path'', path), (''syscall'', syscall)]]
              else if errno = Some ''ENOENT'' \<and> syscall \<in> set exec_syscalls
              then [pending KExecution path ''executable_available'' SUnmet BLikely True errno evd
                      [(''syscall'', syscall)]]
              else if errno = Some ''ENOENT'' \<and> syscall \<in> set path_exists_syscalls
              then [pending (device_or_filesystem path) path ''path_exists'' SUnmet bl True errno evd
                      [(''syscall'', syscall)]]
              else if errno = Some ''EACCES'' \<or> errno = Some ''EPERM''
              then [pending KFilesystem path ''path_access'' SUnmet bl True errno evd
                      [(''syscall'', syscall), (''requested_flags'', flags_text flags)]]
              else if errno = Some ''EROFS''
              then [pending KFilesystem path ''path_writable'' SUnmet bl True errno evd [(''syscall'', syscall)]]
              else if errno = Some ''ENOTDIR''
              then [pending KFilesystem path ''valid_path_layout'' SUnmet bl True errno evd [(''syscall'', syscall)]]
              else if errno = Some ''ENODEV'' \<or> errno = Some ''ENXIO''
              then [pending (device_or_filesystem path) path ''device_or_backend_available'' SUnmet bl
                      (device_or_filesystem path = KDevice) errno evd [(''syscall'', syscall)]]
              else if (\<exists>v \<in> set_option return_value. 0 \<le> v) \<and> syscall \<in> set open_syscalls \<and>
                      set flags \<inter> set open_write_flags \<noteq> {}
              then [pending KFilesystem path ''path_writable'' SProvided BUnknown True None evd
                      [(''syscall'', syscall), (''requested_flags'', flags_text flags)]]
              else [])))"

definition unsupported_calls ::
    "extraction_config \<Rightarrow> event list \<Rightarrow> nat \<Rightarrow> event \<Rightarrow> string \<Rightarrow> string option
     \<Rightarrow> convert_error + pending_requirement list" where
  "unsupported_calls cfg events index e syscall errno =
     (if errno = Some ''ENOSYS''
      then ebind (blocking_after cfg events index) (\<lambda>bl.
           Inr [pending KSyscall (if syscall = [] then ''unknown'' else syscall) ''kernel_or_qemu_support''
                  SUnmet bl False errno (syscall_evidence e index) []])
      else Inr [])"

definition connect_calls ::
    "extraction_config \<Rightarrow> event list \<Rightarrow> nat \<Rightarrow> event \<Rightarrow> string \<Rightarrow> string option
     \<Rightarrow> convert_error + pending_requirement list" where
  "connect_calls cfg events index e syscall errno =
     (if syscall = ''connect'' \<and> errno \<in> Some ` set network_failure_errnos
      then ebind (opt_int (jget e ''remote_port'')) (\<lambda>port.
           (case opt_text (jget e ''remote_ip'') of
              None \<Rightarrow> Inr []
            | Some ip \<Rightarrow> (case port of
                None \<Rightarrow> Inr []
              | Some p \<Rightarrow>
                  ebind (blocking_after cfg events index) (\<lambda>bl.
                  Inr [pending KNetwork (''tcp://'' @ ip @ '':'' @ show_int p) ''connect'' SUnmet bl True errno
                         (syscall_evidence e index) [(''transport'', ''tcp'')]]))))
      else Inr [])"

definition extract_syscall_event ::
    "extraction_config \<Rightarrow> event list \<Rightarrow> nat \<Rightarrow> event \<Rightarrow> convert_error + pending_requirement list" where
  "extract_syscall_event cfg events index e =
     (if jget e ''event'' = JStr ''signal''
      then Inr [pending KExecution (text_or (jget e ''result'') ''unknown'') ''avoid_fatal_signal'' SUnmet BLikely
                  False None (syscall_evidence e index) [(''diagnostic'', ''true'')]]
      else if jget e ''event'' \<noteq> JStr ''syscall'' then Inr []
      else (let syscall = text_or (jget e ''syscall'') [];
                errno = opt_text (jget e ''errno'')
            in ebind (opt_int (jget e ''return_value'')) (\<lambda>return_value.
               ebind (unsupported_calls cfg events index e syscall errno) (\<lambda>unsupported.
               ebind (case opt_text (jget e ''path'') of
                        None \<Rightarrow> Inr []
                      | Some p \<Rightarrow> extract_path_event cfg events index e syscall p errno return_value) (\<lambda>paths.
               ebind (connect_calls cfg events index e syscall errno) (\<lambda>connects.
               Inr (unsupported @ paths @ connects)))))))"

definition extract_syscalls ::
    "extraction_config \<Rightarrow> event list \<Rightarrow> convert_error + pending_requirement list" where
  "extract_syscalls cfg events =
     ebind (emap_enum (\<lambda>i e. extract_syscall_event cfg events i e) events) (\<lambda>xs. Inr (concat xs))"

section \<open>Network events\<close>

type_synonym connection_key = "string \<times> string \<times> string \<times> int"

definition network_connection_key :: "event \<Rightarrow> convert_error + connection_key option" where
  "network_connection_key e =
     ebind (opt_int (jget e ''original_remote_port'')) (\<lambda>port.
     Inr (case (opt_text (jget e ''listener_type''), opt_text (jget e ''original_remote_ip''), port) of
            (Some listener, Some ip, Some p) \<Rightarrow>
              if jget e ''connection_id'' = JNull then None
              else Some (listener, py_text (jget e ''connection_id''), ip, p)
          | _ \<Rightarrow> None))"

definition response_connections :: "event list \<Rightarrow> convert_error + connection_key list" where
  "response_connections events =
     ebind (emap network_connection_key (filter (\<lambda>e. jget e ''event'' = JStr ''tcp_response'') events)) (\<lambda>ks.
     Inr (concat (map (\<lambda>k. case k of None \<Rightarrow> [] | Some x \<Rightarrow> [x]) ks)))"

definition bool_text :: "bool \<Rightarrow> string" where
  "bool_text b = (if b then ''true'' else ''false'')"

definition network_evidence :: "string \<Rightarrow> nat \<Rightarrow> req_evidence" where
  "network_evidence summary index =
     \<lparr>ev_source = ''network'', ev_summary = summary, ev_raw = None, ev_event_index = Some (int index)\<rparr>"

definition text_default :: "string option \<Rightarrow> string \<Rightarrow> string" where
  "text_default v dflt = (case v of None \<Rightarrow> dflt | Some s \<Rightarrow> s)"

definition tcp_open_calls ::
    "connection_key list \<Rightarrow> nat \<Rightarrow> event \<Rightarrow> string \<Rightarrow> int \<Rightarrow> convert_error + pending_requirement list" where
  "tcp_open_calls responses index e ip port =
     ebind (network_connection_key e) (\<lambda>key.
     let has_response = (\<exists>k \<in> set_option key. k \<in> set responses);
         listener = text_default (opt_text (jget e ''listener_type'')) ''unknown'' in
     Inr [pending KNetwork (''tcp://'' @ ip @ '':'' @ show_int port) ''connect''
            (if has_response then SProvided else SUnknown) BUnknown True None
            (network_evidence (''TCP connection intercepted by '' @ listener) index)
            [(''transport'', ''tcp''), (''listener_type'', listener),
             (''response_observed'', bool_text has_response), (''semantic_satisfaction'', ''unknown'')]])"

definition udp_calls :: "nat \<Rightarrow> event \<Rightarrow> string \<Rightarrow> int \<Rightarrow> pending_requirement list" where
  "udp_calls index e ip port =
     (let role = text_default (opt_text (jget e ''udp_role'')) ''udp'';
          response_sent = jtruthy (jget_or e ''dns_response_sent'' (JBool False))
      in [pending KNetwork (''udp://'' @ ip @ '':'' @ show_int port) ''datagram_exchange''
            (if response_sent then SProvided else SUnknown) BUnknown True None
            (network_evidence (''UDP datagram intercepted as role='' @ role) index)
            [(''transport'', ''udp''), (''role'', role),
             (''response_observed'', bool_text response_sent), (''semantic_satisfaction'', ''unknown'')]])"

definition extract_network_event ::
    "connection_key list \<Rightarrow> nat \<Rightarrow> event \<Rightarrow> convert_error + pending_requirement list" where
  "extract_network_event responses index e =
     (let event_type = text_or (jget e ''event'') [] in
      ebind (opt_int (jget e ''original_remote_port'')) (\<lambda>port.
      (case opt_text (jget e ''original_remote_ip'') of
         None \<Rightarrow> Inr []
       | Some ip \<Rightarrow> (case port of
           None \<Rightarrow> Inr []
         | Some p \<Rightarrow>
             if event_type = ''tcp_connection_open'' then tcp_open_calls responses index e ip p
             else if event_type = ''udp_datagram'' then Inr (udp_calls index e ip p)
             else Inr []))))"

definition extract_network :: "event list \<Rightarrow> convert_error + pending_requirement list" where
  "extract_network events =
     ebind (response_connections events) (\<lambda>responses.
     ebind (emap_enum (extract_network_event responses) events) (\<lambda>xs. Inr (concat xs)))"

section \<open>Loader messages\<close>

text \<open>
  The two patterns. In the first every quantifier is deterministic: the name is the run up to a
  blank or a colon, and the colon must follow. In the second the name ends at the next quote and
  its last segment holds \<open>ld\<close> and later \<open>.so\<close>.
\<close>

definition match_shared_library :: "string \<Rightarrow> string option" where
  "match_shared_library s =
     (case after_literal ''error while loading shared libraries:'' s of
        None \<Rightarrow> None
      | Some t \<Rightarrow>
          (let u = dropWhile py_space t;
               stop = (\<lambda>c. c = CHR '':'' \<or> py_space c);
               name = takeWhile (\<lambda>c. \<not> stop c) u;
               rest = dropWhile (\<lambda>c. \<not> stop c) u
           in if name \<noteq> [] \<and> rest \<noteq> [] \<and> hd rest = CHR '':'' \<and>
                 after_literal ''cannot open shared object file'' (dropWhile py_space (tl rest)) \<noteq> None
              then Some name else None))"

definition is_quote :: "char \<Rightarrow> bool" where
  "is_quote c \<longleftrightarrow> (of_char c :: nat) = 39 \<or> (of_char c :: nat) = 34"

definition loader_object_name :: "string \<Rightarrow> bool" where
  "loader_object_name name =
     (name \<noteq> [] \<and> hd name = slash \<and>
      (case search_first (after_literal ''ld'') (last (split_on slash (tl name))) of
         None \<Rightarrow> False
       | Some t \<Rightarrow> search_first (after_literal ''.so'') t \<noteq> None))"

definition match_interpreter :: "string \<Rightarrow> string option" where
  "match_interpreter s =
     (case after_literal ''could not open '' s of
        None \<Rightarrow> None
      | Some t \<Rightarrow>
          if t = [] \<or> \<not> is_quote (hd t) then None
          else (let name = takeWhile (\<lambda>c. \<not> is_quote c) (tl t) in
                if length name < length (tl t) \<and> loader_object_name name then Some name else None))"

text \<open>The first pattern that occurs in the line decides.\<close>

definition match_loader_line :: "string \<Rightarrow> string option" where
  "match_loader_line line =
     (case search_first match_shared_library line of
        Some name \<Rightarrow> Some name
      | None \<Rightarrow> search_first match_interpreter line)"

definition extract_loader_line :: "nat \<Rightarrow> string \<Rightarrow> pending_requirement list" where
  "extract_loader_line index line =
     (case match_loader_line line of
        None \<Rightarrow> []
      | Some name \<Rightarrow>
          [pending KLibrary name
             (if starts_with name ''/'' \<and> contains_text (pp_name (pp_parse name)) ''ld''
              then ''interpreter_available'' else ''library_available'')
             SUnmet BLikely True (Some ''ENOENT'')
             \<lparr>ev_source = ''stderr'', ev_summary = ''dynamic loader reported a missing object'',
              ev_raw = Some line, ev_event_index = Some (int index)\<rparr> []])"

definition extract_loader :: "string \<Rightarrow> pending_requirement list" where
  "extract_loader stderr = concat (map (\<lambda>(i, l). extract_loader_line i l) (enumerate 0 (splitlines stderr)))"

section \<open>Rootfs changes\<close>

fun json_keys :: "json \<Rightarrow> string list option" where
  "json_keys (JObj d) = Some (map fst d)"
| "json_keys _ = None"

definition directory_mtime_only :: "event \<Rightarrow> bool" where
  "directory_mtime_only e =
     (jget e ''type_before'' = JStr ''dir'' \<and> jget e ''type_after'' = JStr ''dir'' \<and>
      (case json_keys (jget e ''changes'') of None \<Rightarrow> False | Some ks \<Rightarrow> set ks = {''mtime_ns''}))"

fun extract_rootfs_entry :: "string \<Rightarrow> nat \<Rightarrow> json \<Rightarrow> pending_requirement list" where
  "extract_rootfs_entry part index (JObj e) =
     (if part = ''modified'' \<and> directory_mtime_only e then []
      else (case opt_text (jget e ''path'') of
          None \<Rightarrow> []
        | Some path \<Rightarrow>
            [pending KFilesystem path ''path_writable'' SProvided BUnknown True None
               \<lparr>ev_source = ''rootfs_diff'',
                ev_summary = (if part = ''created'' then ''path was created during execution''
                              else ''path was modified during execution''),
                ev_raw = None, ev_event_index = Some (int index)\<rparr>
               [(''change_type'', if part = ''created'' then ''created'' else ''modified'')]]))"
| "extract_rootfs_entry part index _ = []"

definition extract_rootfs :: "event option \<Rightarrow> pending_requirement list" where
  "extract_rootfs diff =
     (case diff of
        None \<Rightarrow> []
      | Some d \<Rightarrow> concat (map (\<lambda>part.
          (case jget_or d part (JList []) of
             JList entries \<Rightarrow> concat (map (\<lambda>(i, e). extract_rootfs_entry part i e) (enumerate 0 entries))
           | _ \<Rightarrow> [])) [''created'', ''modified'']))"

section \<open>Extraction\<close>

definition all_calls :: "extraction_config \<Rightarrow> observation_bundle \<Rightarrow> convert_error + pending_requirement list" where
  "all_calls cfg b =
     ebind (extract_syscalls cfg (select_syscall_events cfg (ob_syscall_events b))) (\<lambda>syscalls.
     ebind (extract_network (ob_network_events b)) (\<lambda>network.
     Inr (syscalls @ network @ extract_loader (ob_stderr b) @ extract_rootfs (ob_rootfs_diff b))))"

definition requirement_order :: "pending_requirement \<Rightarrow> string \<times> string \<times> string" where
  "requirement_order r = (kind_value (pr_kind r), pr_resource r, pr_operation r)"

definition extract_requirements :: "extraction_config \<Rightarrow> string \<Rightarrow> observation_bundle \<Rightarrow> convert_error + requirement_report" where
  "extract_requirements cfg now b =
     ebind (all_calls cfg b) (\<lambda>calls.
     Inr \<lparr>rr_requirements = map freeze (sort_key requirement_order
            (foldl (add_requirement (xc_max_evidence cfg)) [] calls)),
          rr_warnings = ob_warnings b, rr_schema_version = 1, rr_generated_at = now\<rparr>)"

section \<open>The table\<close>

lemma merge_into_key [simp]: "pending_key (merge_into m r c) = pending_key r"
  by (simp add: merge_into_def pending_key_def)

lemma merge_all_key [simp]: "pending_key (foldl (merge_into m) r cs) = pending_key r"
  by (induction cs arbitrary: r) auto

text \<open>What the calls with one key amount to.\<close>

definition merged :: "nat \<Rightarrow> pending_requirement list \<Rightarrow> pending_requirement option" where
  "merged m calls =
     (case calls of
        [] \<Rightarrow> None
      | c # cs \<Rightarrow> Some (foldl (merge_into m) (c\<lparr>pr_confidence := bounded_confidence (pr_confidence c)\<rparr>) cs))"

lemma merged_snoc:
  "merged m (cs @ [c]) = Some (case merged m cs of
     None \<Rightarrow> c\<lparr>pr_confidence := bounded_confidence (pr_confidence c)\<rparr> | Some r \<Rightarrow> merge_into m r c)"
  by (cases cs) (auto simp: merged_def)

lemma add_requirement_find:
  "find (\<lambda>r. pending_key r = k) (add_requirement m rs c) =
     (if pending_key c = k
      then Some (case find (\<lambda>r. pending_key r = k) rs of
             None \<Rightarrow> c\<lparr>pr_confidence := bounded_confidence (pr_confidence c)\<rparr> | Some r \<Rightarrow> merge_into m r c)
      else find (\<lambda>r. pending_key r = k) rs)"
proof (induction rs)
  case Nil
  have "pending_key (c\<lparr>pr_confidence := bounded_confidence (pr_confidence c)\<rparr>) = pending_key c"
    by (simp add: pending_key_def)
  then show ?case by simp
next
  case (Cons r rs)
  then show ?case by auto
qed

lemma add_requirement_keys:
  "set (map pending_key (add_requirement m rs c)) = insert (pending_key c) (set (map pending_key rs))"
proof (induction rs)
  case Nil
  show ?case by (simp add: pending_key_def)
next
  case (Cons r rs)
  then show ?case by auto
qed

lemma add_requirement_distinct:
  "distinct (map pending_key rs) \<Longrightarrow> distinct (map pending_key (add_requirement m rs c))"
proof (induction rs)
  case Nil
  then show ?case by simp
next
  case (Cons r rs)
  then show ?case using add_requirement_keys [of m rs c] by auto
qed

definition table :: "nat \<Rightarrow> pending_requirement list \<Rightarrow> pending_requirement list" where
  "table m calls = foldl (add_requirement m) [] calls"

lemma table_find: "find (\<lambda>r. pending_key r = k) (table m calls) = merged m (filter (\<lambda>c. pending_key c = k) calls)"
  unfolding table_def
proof (induction calls rule: rev_induct)
  case Nil
  show ?case by (simp add: merged_def)
next
  case (snoc c calls)
  then show ?case by (simp add: add_requirement_find merged_snoc)
qed

lemma table_distinct: "distinct (map pending_key (table m calls))"
  unfolding table_def by (induction calls rule: rev_induct) (auto simp: add_requirement_distinct simp del: set_map)

lemma table_keys: "pending_key ` set (table m calls) = pending_key ` set calls"
  unfolding table_def
proof (induction calls rule: rev_induct)
  case Nil
  show ?case by simp
next
  case (snoc c calls)
  then show ?case using add_requirement_keys [of m "foldl (add_requirement m) [] calls" c] by simp
qed

lemma table_member:
  assumes "r \<in> set (table m calls)"
  shows "merged m (filter (\<lambda>c. pending_key c = pending_key r) calls) = Some r"
proof -
  have "find (\<lambda>x. pending_key x = pending_key r) rs = Some r"
    if "distinct (map pending_key rs)" "r \<in> set rs" for rs
    using that by (induction rs) (auto simp: image_iff)
  from this [OF table_distinct assms] show ?thesis by (simp add: table_find)
qed

text \<open>An invariant of the calls that merging keeps holds of the table.\<close>

lemma merged_induct:
  assumes "merged m cs = Some r" and "\<And>c. c \<in> set cs \<Longrightarrow> P (c\<lparr>pr_confidence := bounded_confidence (pr_confidence c)\<rparr>)"
    and "\<And>r c. P r \<Longrightarrow> c \<in> set cs \<Longrightarrow> P (merge_into m r c)"
  shows "P r"
  using assms
proof (induction cs arbitrary: r rule: rev_induct)
  case Nil
  then show ?case by (simp add: merged_def)
next
  case (snoc c cs)
  show ?case
  proof (cases "merged m cs")
    case None
    then show ?thesis using snoc.prems(1,2) by (auto simp: merged_snoc)
  next
    case (Some r')
    then have "P r'" using snoc by auto
    then show ?thesis using snoc.prems(1,3) Some by (auto simp: merged_snoc)
  qed
qed

section \<open>Statuses\<close>

lemma merge_status_unmet: "merge_status a b = SUnmet \<longleftrightarrow> a = SUnmet \<or> b = SUnmet"
  by (cases a; cases b) (auto simp: merge_status_def)

lemma merge_status_unknown: "merge_status a b = SUnknown \<longleftrightarrow> a = SUnknown \<and> b = SUnknown"
  by (cases a; cases b) (auto simp: merge_status_def)

lemma merged_status:
  "merged m cs = Some r \<Longrightarrow>
     (pr_status r = SUnmet \<longleftrightarrow> (\<exists>c \<in> set cs. pr_status c = SUnmet)) \<and>
     (pr_status r = SUnknown \<longleftrightarrow> (\<forall>c \<in> set cs. pr_status c = SUnknown)) \<and>
     (pr_repairable r \<longleftrightarrow> (\<exists>c \<in> set cs. pr_repairable c))"
proof (induction cs arbitrary: r rule: rev_induct)
  case Nil
  then show ?case by (simp add: merged_def)
next
  case (snoc c cs)
  show ?case
  proof (cases "merged m cs")
    case None
    then have "cs = []" by (cases cs) (auto simp: merged_def)
    then show ?thesis using snoc.prems by (auto simp: merged_def)
  next
    case (Some r')
    then have "r = merge_into m r' c" using snoc.prems by (simp add: merged_snoc)
    then show ?thesis
      using snoc.IH [OF Some]
      by (auto simp: merge_into_def merge_status_unmet merge_status_unknown)
  qed
qed

lemma merge_blocking_likely: "merge_blocking a b = BLikely \<longleftrightarrow> a = BLikely \<or> b = BLikely"
  by (cases a; cases b) (auto simp: merge_blocking_def)

lemma bounded_one: "bounded_confidence float_1 = float_1"
  by (simp add: bounded_confidence_def float_max_def float_min_def float_lt_def float_0_def float_1_def)

section \<open>The report is well-formed\<close>

definition wf_pending :: "pending_requirement \<Rightarrow> bool" where
  "wf_pending r \<longleftrightarrow>
     pr_resource r \<noteq> [] \<and> pr_operation r \<noteq> [] \<and> pr_confidence r = float_1 \<and>
     pr_evidence r \<noteq> [] \<and> list_all wf_evidence (pr_evidence r) \<and>
     distinct (map fst (pr_details r)) \<and> [] \<notin> fst ` set (pr_details r)"

lemma dict_set_keys: "fst ` set (dict_set d kv) = insert (fst kv) (fst ` set d)"
proof (cases "fst kv \<in> fst ` set d")
  case True
  have "fst ` (\<lambda>(k, v). if k = fst kv then (k, snd kv) else (k, v)) ` set d = fst ` set d"
    by (force simp: image_iff split: if_splits)
  then show ?thesis using True by (auto simp: dict_set_def)
qed (auto simp: dict_set_def)

lemma dict_set_distinct: "distinct (map fst d) \<Longrightarrow> distinct (map fst (dict_set d kv))"
proof -
  have "map fst (map (\<lambda>(k, v). if k = fst kv then (k, snd kv) else (k, v)) d) = map fst d"
    by (induction d) auto
  then show "distinct (map fst d) \<Longrightarrow> distinct (map fst (dict_set d kv))"
    by (auto simp: dict_set_def simp del: map_map)
qed

lemma dict_update_ok:
  "distinct (map fst d) \<Longrightarrow> distinct (map fst (dict_update d e)) \<and> fst ` set (dict_update d e) = fst ` set d \<union> fst ` set e"
  unfolding dict_update_def
  by (induction e arbitrary: d) (auto simp: dict_set_keys dict_set_distinct)

lemma wf_pending_first: "wf_pending c \<Longrightarrow> wf_pending (c\<lparr>pr_confidence := bounded_confidence (pr_confidence c)\<rparr>)"
  by (simp add: wf_pending_def bounded_one)

lemma wf_pending_merge: "wf_pending r \<Longrightarrow> wf_pending c \<Longrightarrow> wf_pending (merge_into m r c)"
  using dict_update_ok [of "pr_details r" "pr_details c"]
  by (cases "pr_evidence c")
     (auto simp: wf_pending_def merge_into_def bounded_one float_max_def float_lt_def)

lemma wf_pending_merged: "merged m cs = Some r \<Longrightarrow> list_all wf_pending cs \<Longrightarrow> wf_pending r"
  by (erule merged_induct) (auto simp: list_all_iff wf_pending_first wf_pending_merge)

lemma wf_pending_table: "list_all wf_pending calls \<Longrightarrow> r \<in> set (table m calls) \<Longrightarrow> wf_pending r"
  by (drule table_member) (auto elim!: wf_pending_merged simp: list_all_iff)

lemma freeze_wf: "wf_pending r \<Longrightarrow> wf_requirement (freeze r)"
  by (auto simp: wf_pending_def wf_requirement_def freeze_def float_0_def float_1_def distinct_map)

lemma freeze_key: "requirement_key (freeze r) = (kind_value (pr_kind r), pr_operation r, pr_resource r)"
  by (simp add: requirement_key_def freeze_def)

lemma frozen_keys_distinct:
  assumes "distinct (map pending_key rs)"
  shows "distinct (map requirement_key (map freeze rs))"
proof -
  have "requirement_key (freeze r) = requirement_key (freeze r') \<longleftrightarrow> pending_key r = pending_key r'" for r r'
    using kind_enum.val_eq by (auto simp: freeze_key pending_key_def)
  then show ?thesis using assms by (auto simp: distinct_map inj_on_def)
qed

text \<open>The calls are well-formed when no float of an event has an empty text.\<close>

definition printable :: "event \<Rightarrow> bool" where
  "printable e \<longleftrightarrow> (\<forall>k v. (k, v) \<in> set e \<longrightarrow> (\<forall>r. v \<noteq> JFloat (FloatFin r [])))"

lemma printable_get: "printable e \<Longrightarrow> jget e k \<noteq> JFloat (FloatFin r [])"
  by (auto simp: printable_def jget_or_def dest: map_of_SomeD split: option.splits)

lemma text_or_nonempty: "printable e \<Longrightarrow> d \<noteq> [] \<Longrightarrow> text_or (jget e k) d \<noteq> []"
  using py_text_truthy [of "jget e k"] printable_get [of e k] by (auto simp: text_or_def)

lemma wf_pending_call:
  "res \<noteq> [] \<Longrightarrow> op \<noteq> [] \<Longrightarrow> wf_evidence evd \<Longrightarrow> distinct (map fst det) \<Longrightarrow> [] \<notin> fst ` set det \<Longrightarrow>
     wf_pending (pending k res op st bl rep err evd det)"
  by (simp add: wf_pending_def pending_def)

lemma syscall_evidence_wf: "printable e \<Longrightarrow> wf_evidence (syscall_evidence e i)"
  using text_or_nonempty [of e "''unknown''" "''syscall''"]
  by (simp add: wf_evidence_def syscall_evidence_def Let_def)

lemma parent_directory_nonempty: "parent_directory p \<noteq> []"
  by (simp add: parent_directory_def Let_def)

lemma list_all_if: "list_all P x \<Longrightarrow> list_all P y \<Longrightarrow> list_all P (if b then x else y)"
  by simp

lemma extract_path_event_wf:
  assumes "extract_path_event cfg events i e syscall path errno rv = Inr cs" and "path \<noteq> []" and "printable e"
  shows "list_all wf_pending cs"
proof -
  note wf = wf_pending_call [OF _ _ syscall_evidence_wf [OF assms(3)]]
  obtain bl where "blocking_after cfg events i = Inr bl"
    using assms(1) by (auto simp: extract_path_event_def Let_def ebind_Inr_iff)
  note cs = assms(1) [unfolded extract_path_event_def Let_def this ebind.simps sum.inject, symmetric]
  show ?thesis
    unfolding cs by (intro list_all_if) (simp_all add: wf assms(2) parent_directory_nonempty)
qed

lemma unsupported_calls_wf:
  "unsupported_calls cfg events i e syscall errno = Inr cs \<Longrightarrow> printable e \<Longrightarrow> list_all wf_pending cs"
  by (auto simp: unsupported_calls_def ebind_Inr_iff wf_pending_call syscall_evidence_wf split: if_split_asm)

lemma connect_calls_wf:
  "connect_calls cfg events i e syscall errno = Inr cs \<Longrightarrow> printable e \<Longrightarrow> list_all wf_pending cs"
  by (cases "opt_text (jget e ''remote_ip'')")
     (auto simp: connect_calls_def ebind_Inr_iff wf_pending_call syscall_evidence_wf
       split: if_split_asm option.split_asm)

lemma extract_syscall_event_wf:
  assumes "extract_syscall_event cfg events i e = Inr cs" and p: "printable e"
  shows "list_all wf_pending cs"
proof -
  have signal: "wf_pending (pending KExecution (text_or (jget e ''result'') ''unknown'') ''avoid_fatal_signal'' SUnmet BLikely
                  False None (syscall_evidence e i) [(''diagnostic'', ''true'')])"
    by (rule wf_pending_call) (simp_all add: text_or_nonempty p syscall_evidence_wf)
  have paths: "list_all wf_pending ps"
    if "(case opt_text (jget e ''path'') of None \<Rightarrow> Inr []
         | Some q \<Rightarrow> extract_path_event cfg events i e syscall q errno rv) = Inr ps" for ps syscall errno rv
    using that extract_path_event_wf [OF _ opt_text_nonempty p] by (auto split: option.splits)
  show ?thesis
    using assms(1) signal paths unsupported_calls_wf [OF _ p] connect_calls_wf [OF _ p]
    unfolding extract_syscall_event_def Let_def
    by (auto simp: ebind_Inr_iff split: if_split_asm)
qed

lemma emap_enum_concat_wf:
  assumes "emap_enum f xs = Inr ys" and "\<And>i x y. x \<in> set xs \<Longrightarrow> f i x = Inr y \<Longrightarrow> list_all P y"
  shows "list_all P (concat ys)"
proof -
  have "list_all P y" if "y \<in> set ys" for y
    using emap_enum_set [OF assms(1) that] assms(2) nth_mem by blast
  then show ?thesis by (auto simp: list_all_iff)
qed

lemma extract_syscalls_wf:
  "extract_syscalls cfg events = Inr cs \<Longrightarrow> \<forall>e \<in> set events. printable e \<Longrightarrow> list_all wf_pending cs"
  by (auto simp: extract_syscalls_def ebind_Inr_iff
      elim!: emap_enum_concat_wf intro: extract_syscall_event_wf)

lemma network_evidence_wf: "s \<noteq> [] \<Longrightarrow> wf_evidence (network_evidence s i)"
  by (simp add: wf_evidence_def network_evidence_def)

lemma extract_network_event_wf: "extract_network_event rs i e = Inr cs \<Longrightarrow> list_all wf_pending cs"
  by (cases "opt_text (jget e ''original_remote_ip'')")
     (auto simp: extract_network_event_def tcp_open_calls_def udp_calls_def Let_def ebind_Inr_iff
       wf_pending_call network_evidence_wf split: if_split_asm option.split_asm)

lemma extract_network_wf: "extract_network events = Inr cs \<Longrightarrow> list_all wf_pending cs"
  by (auto simp: extract_network_def ebind_Inr_iff elim!: emap_enum_concat_wf intro: extract_network_event_wf)

lemma search_first_found: "search_first m s = Some r \<Longrightarrow> \<exists>t. m t = Some r"
  by (induction s) (auto split: option.splits)

lemma match_loader_line_nonempty: "match_loader_line l = Some name \<Longrightarrow> name \<noteq> []"
  by (auto simp: match_loader_line_def match_shared_library_def match_interpreter_def loader_object_name_def Let_def
      dest!: search_first_found split: option.split_asm if_split_asm)

lemma extract_loader_line_wf: "list_all wf_pending (extract_loader_line i l)"
proof (cases "match_loader_line l")
  case None
  then show ?thesis by (simp add: extract_loader_line_def)
next
  case (Some name)
  then show ?thesis
    using match_loader_line_nonempty [OF Some]
    by (auto simp: extract_loader_line_def wf_evidence_def intro!: wf_pending_call)
qed

lemma list_all_concat_map: "(\<And>x. list_all P (f x)) \<Longrightarrow> list_all P (concat (map f xs))"
  by (induction xs) auto

lemma extract_loader_wf: "list_all wf_pending (extract_loader stderr)"
  unfolding extract_loader_def by (rule list_all_concat_map) (auto simp: extract_loader_line_wf)

lemma extract_rootfs_entry_wf: "list_all wf_pending (extract_rootfs_entry part i j)"
  by (cases j) (auto simp: wf_evidence_def intro!: wf_pending_call dest: opt_text_nonempty split: option.splits)

lemma extract_rootfs_wf: "list_all wf_pending (extract_rootfs diff)"
proof (cases diff)
  case None
  then show ?thesis by (simp add: extract_rootfs_def)
next
  case (Some d)
  have "list_all wf_pending (case j of JList entries \<Rightarrow>
      concat (map (\<lambda>(i, e). extract_rootfs_entry part i e) (enumerate 0 entries)) | _ \<Rightarrow> [])" for j part
  proof (cases j)
    case (JList xs)
    have "list_all wf_pending (concat (map (\<lambda>(i, e). extract_rootfs_entry part i e) ys))" for ys
      by (rule list_all_concat_map) (auto simp: extract_rootfs_entry_wf)
    then show ?thesis by (simp add: JList)
  qed simp_all
  then show ?thesis unfolding Some extract_rootfs_def option.case by (rule list_all_concat_map)
qed

lemma all_calls_wf:
  assumes "all_calls cfg b = Inr calls" and "\<forall>e \<in> set (ob_syscall_events b). printable e"
  shows "list_all wf_pending calls"
  using assms extract_loader_wf extract_rootfs_wf
  by (auto simp: all_calls_def ebind_Inr_iff select_syscall_events_def
      dest!: extract_network_wf extract_syscalls_wf)

lemma extract_requirements_table:
  assumes "extract_requirements cfg now b = Inr rep" and "all_calls cfg b = Inr calls"
  shows "rr_requirements rep = map freeze (sort_key requirement_order (table (xc_max_evidence cfg) calls))"
    and "rr_warnings rep = ob_warnings b" and "rr_schema_version rep = 1" and "rr_generated_at rep = now"
  using assms by (auto simp: extract_requirements_def table_def)

lemma extract_wf:
  assumes "extract_requirements cfg now b = Inr rep" and "\<forall>e \<in> set (ob_syscall_events b). printable e"
    and "now \<noteq> []"
  shows "wf_report rep"
proof -
  from assms(1) obtain calls where calls: "all_calls cfg b = Inr calls"
    by (auto simp: extract_requirements_def ebind_Inr_iff)
  note rep = extract_requirements_table [OF assms(1) calls]
  let ?t = "sort_key requirement_order (table (xc_max_evidence cfg) calls)"
  have "distinct (map pending_key ?t)"
    using table_distinct [of "xc_max_evidence cfg" calls] by (simp add: distinct_map)
  then have "distinct (map requirement_key (rr_requirements rep))"
    unfolding rep(1) by (rule frozen_keys_distinct)
  moreover have "list_all wf_requirement (rr_requirements rep)"
    using wf_pending_table [OF all_calls_wf [OF calls assms(2)]] freeze_wf
    by (auto simp: rep(1) list_all_iff)
  ultimately show ?thesis using rep assms(3) by (simp add: wf_report_def)
qed

end
