(* ===== verification/Extraction_Properties.thy ===== *)
theory Extraction_Properties
  imports Requirement_Extractor Repair_Pipeline
begin

text \<open>The properties of requirement extraction, up to the plans made from its reports.\<close>

section \<open>Reports\<close>

text \<open>
  C36: What the extractor reports is a well-formed report, so it survives saving and loading, and
  no two of its requirements share kind, operation and resource.
\<close>

theorem extracted_report_wf:
  assumes "extract_requirements cfg now b = Inr rep"
    and "\<forall>e \<in> set (ob_syscall_events b). printable e" and "now \<noteq> []"
  shows "wf_report rep \<and> report_from_dict (report_to_dict rep) = Inr rep"
  using extract_wf [OF assms] report_roundtrip by blast

definition observations :: "pending_requirement list \<Rightarrow> runtime_requirement \<Rightarrow> pending_requirement list" where
  "observations calls r = filter (\<lambda>c. (kind_value (pr_kind c), pr_operation c, pr_resource c) = requirement_key r) calls"

text \<open>What the merge of the observations of one key has to be, field by field.\<close>

definition strongest :: "pending_requirement list \<Rightarrow> pending_requirement \<Rightarrow> bool" where
  "strongest cs r \<longleftrightarrow>
     (pr_blocking r = BLikely \<longleftrightarrow> (\<exists>c \<in> set cs. pr_blocking c = BLikely)) \<and>
     (pr_blocking r = BPossible \<longleftrightarrow>
        (\<exists>c \<in> set cs. pr_blocking c = BPossible) \<and> (\<forall>c \<in> set cs. pr_blocking c \<noteq> BLikely)) \<and>
     (pr_blocking r = BUnlikely \<longleftrightarrow> (\<forall>c \<in> set cs. pr_blocking c = BUnlikely)) \<and>
     pr_errno r = (case List.map_filter pr_errno cs of [] \<Rightarrow> None | x # _ \<Rightarrow> Some x)"

lemma merge_blocking_possible:
  "merge_blocking a b = BPossible \<longleftrightarrow> (a = BPossible \<or> b = BPossible) \<and> a \<noteq> BLikely \<and> b \<noteq> BLikely"
  by (cases a; cases b) (auto simp: merge_blocking_def)

lemma merge_blocking_unlikely: "merge_blocking a b = BUnlikely \<longleftrightarrow> a = BUnlikely \<and> b = BUnlikely"
  by (cases a; cases b) (auto simp: merge_blocking_def)

lemma strongest_merge:
  assumes "strongest cs r"
  shows "strongest (cs @ [c]) (merge_into m r c)"
proof -
  have "List.map_filter pr_errno (cs @ [c]) = List.map_filter pr_errno cs @ (case pr_errno c of None \<Rightarrow> [] | Some x \<Rightarrow> [x])"
    by (simp add: List.map_filter_def split: option.splits)
  moreover have "pr_errno (merge_into m r c) = (if pr_errno r = None then pr_errno c else pr_errno r)"
    and "pr_blocking (merge_into m r c) = merge_blocking (pr_blocking r) (pr_blocking c)"
    by (simp_all add: merge_into_def)
  ultimately have fields: "List.map_filter pr_errno (cs @ [c]) = List.map_filter pr_errno cs @ (case pr_errno c of None \<Rightarrow> [] | Some x \<Rightarrow> [x])"
      "pr_errno (merge_into m r c) = (if pr_errno r = None then pr_errno c else pr_errno r)"
      "pr_blocking (merge_into m r c) = merge_blocking (pr_blocking r) (pr_blocking c)" by blast+
  note cs = assms [unfolded strongest_def]
  show ?thesis
    unfolding strongest_def fields
  proof (intro conjI)
    show "merge_blocking (pr_blocking r) (pr_blocking c) = BLikely \<longleftrightarrow> (\<exists>c \<in> set (cs @ [c]). pr_blocking c = BLikely)"
      using cs by (simp add: merge_blocking_likely) blast
    show "merge_blocking (pr_blocking r) (pr_blocking c) = BPossible \<longleftrightarrow>
        (\<exists>c \<in> set (cs @ [c]). pr_blocking c = BPossible) \<and> (\<forall>c \<in> set (cs @ [c]). pr_blocking c \<noteq> BLikely)"
      using cs by (simp add: merge_blocking_possible) blast
    show "merge_blocking (pr_blocking r) (pr_blocking c) = BUnlikely \<longleftrightarrow> (\<forall>c \<in> set (cs @ [c]). pr_blocking c = BUnlikely)"
      using cs by (simp add: merge_blocking_unlikely) blast
    show "(if pr_errno r = None then pr_errno c else pr_errno r) =
        (case List.map_filter pr_errno cs @ (case pr_errno c of None \<Rightarrow> [] | Some x \<Rightarrow> [x]) of [] \<Rightarrow> None | x # _ \<Rightarrow> Some x)"
      using cs by (cases "List.map_filter pr_errno cs"; cases "pr_errno c") simp_all
  qed
qed

lemma merged_strongest: "merged m cs = Some r \<Longrightarrow> strongest cs r"
proof (induction cs arbitrary: r rule: rev_induct)
  case Nil
  then show ?case by (simp add: merged_def)
next
  case (snoc c cs)
  show ?case
  proof (cases "merged m cs")
    case None
    then have "cs = []" by (cases cs) (auto simp: merged_def)
    then show ?thesis using snoc.prems by (auto simp: merged_def strongest_def List.map_filter_simps split: option.splits)
  next
    case (Some r')
    then have "r = merge_into m r' c" using snoc.prems by (simp add: merged_snoc)
    with strongest_merge [OF snoc.IH [OF Some]] show ?thesis by simp
  qed
qed

lemma frozen_observations:
  "observations calls (freeze p) = filter (\<lambda>c. pending_key c = pending_key p) calls"
proof -
  have "(kind_value (pr_kind c), pr_operation c, pr_resource c) = requirement_key (freeze p) \<longleftrightarrow> pending_key c = pending_key p" for c
    using kind_enum.val_eq by (auto simp: pending_key_def freeze_key)
  then show ?thesis by (simp add: observations_def)
qed

text \<open>
  C37: The requirements reported are exactly the keys observed, and each one is the strongest of the
  observations of its key, whatever their order: it is unmet when any observation is and unknown only
  when all are; repairable exactly when any is; blocking is likely when any is, possible when any is and
  none is likely, and unlikely only when all are.  Its errno is the first one observed, if any.
\<close>

theorem extracted_status_is_strongest:
  assumes "extract_requirements cfg now b = Inr rep" and "all_calls cfg b = Inr calls"
  shows "requirement_key ` set (rr_requirements rep) =
      (\<lambda>c. (kind_value (pr_kind c), pr_operation c, pr_resource c)) ` set calls \<and>
    (\<forall>r \<in> set (rr_requirements rep). let cs = observations calls r in
      (rq_status r = SUnmet \<longleftrightarrow> (\<exists>c \<in> set cs. pr_status c = SUnmet)) \<and>
      (rq_status r = SUnknown \<longleftrightarrow> (\<forall>c \<in> set cs. pr_status c = SUnknown)) \<and>
      (rq_repairable r \<longleftrightarrow> (\<exists>c \<in> set cs. pr_repairable c)) \<and>
      (rq_blocking r = BLikely \<longleftrightarrow> (\<exists>c \<in> set cs. pr_blocking c = BLikely)) \<and>
      (rq_blocking r = BPossible \<longleftrightarrow>
         (\<exists>c \<in> set cs. pr_blocking c = BPossible) \<and> (\<forall>c \<in> set cs. pr_blocking c \<noteq> BLikely)) \<and>
      (rq_blocking r = BUnlikely \<longleftrightarrow> (\<forall>c \<in> set cs. pr_blocking c = BUnlikely)) \<and>
      rq_errno r = (case List.map_filter pr_errno cs of [] \<Rightarrow> None | x # _ \<Rightarrow> Some x))"
proof -
  let ?t = "table (xc_max_evidence cfg) calls"
  let ?key = "\<lambda>c. (kind_value (pr_kind c), pr_operation c, pr_resource c)"
  have rs: "set (rr_requirements rep) = freeze ` set ?t"
    using extract_requirements_table(1) [OF assms] by simp
  have "?key ` X = (\<lambda>(k, op, res). (kind_value k, op, res)) ` pending_key ` X" for X
    by (auto simp: pending_key_def image_iff)
  then have "?key ` set ?t = ?key ` set calls"
    by (simp only: table_keys)
  then have "requirement_key ` set (rr_requirements rep) = ?key ` set calls"
    unfolding rs by (simp add: image_image freeze_key)
  moreover have "strongest (observations calls (freeze p)) p \<and>
      (pr_status p = SUnmet \<longleftrightarrow> (\<exists>c \<in> set (observations calls (freeze p)). pr_status c = SUnmet)) \<and>
      (pr_status p = SUnknown \<longleftrightarrow> (\<forall>c \<in> set (observations calls (freeze p)). pr_status c = SUnknown)) \<and>
      (pr_repairable p \<longleftrightarrow> (\<exists>c \<in> set (observations calls (freeze p)). pr_repairable c))" if "p \<in> set ?t" for p
    unfolding frozen_observations
    using merged_status [OF table_member [OF that]] merged_strongest [OF table_member [OF that]] by blast
  moreover have "rq_status (freeze p) = pr_status p" "rq_repairable (freeze p) = pr_repairable p"
      "rq_blocking (freeze p) = pr_blocking p" "rq_errno (freeze p) = pr_errno p" for p
    by (simp_all add: freeze_def)
  ultimately show ?thesis unfolding rs Let_def strongest_def by simp
qed

lemma emap_enum_nth:
  assumes "emap_enum f xs = Inr ys" and "i < length xs"
  shows "\<exists>y \<in> set ys. f i (xs ! i) = Inr y"
proof -
  have "list_all2 (\<lambda>x y. (case x of (i, x) \<Rightarrow> f i x) = Inr y) (enumerate 0 xs) ys"
    using assms(1) unfolding emap_enum_def emap_Inr_iff .
  moreover from this have "length ys = length xs" by (auto dest: list_all2_lengthD)
  ultimately show ?thesis
    using assms(2) list_all2_nthD [of _ "enumerate 0 xs" ys i] by (force simp: nth_enumerate_eq)
qed

section \<open>From a failed mkdir to a planned directory\<close>

lemma parent_directory_normal:
  assumes "\<forall>c \<in> set cs. plain_component c" and "2 \<le> length cs"
  shows "parent_directory (slash # join_with [slash] cs) = slash # join_with [slash] (butlast cs)"
proof -
  have plain: "\<forall>c \<in> set cs. c \<noteq> [] \<and> c \<noteq> ''.'' \<and> slash \<notin> set c"
    using assms(1) by (auto simp: plain_component_def)
  have "pp_parse (''/'' @ join_with [slash] cs) = PPath ''/'' cs"
    by (rule pp_parse_join [OF plain]) simp
  moreover obtain c ds where "butlast cs = c # ds"
    using assms(2) by (cases cs; cases "tl cs") auto
  moreover from this have "c \<noteq> []"
    using plain by (metis in_set_butlastD list.set_intros(1))
  ultimately show ?thesis
    by (cases ds) (auto simp: parent_directory_def pp_parent_def pp_str_def Let_def)
qed

lemma not_pseudo_normal:
  assumes "\<forall>c \<in> set cs. plain_component c" and "cs \<noteq> []" and "hd cs \<notin> {''proc'', ''sys'', ''dev''}"
  shows "\<not> is_pseudo_filesystem_path (slash # join_with [slash] cs)"
proof
  assume "is_pseudo_filesystem_path (slash # join_with [slash] cs)"
  then obtain d where d: "d \<in> {''proc'', ''sys'', ''dev''}"
      and p: "slash # join_with [slash] cs = slash # d \<or> (\<exists>t. slash # join_with [slash] cs = (slash # d) @ slash # t)"
  proof -
    assume *: "\<And>d. d \<in> {''proc'', ''sys'', ''dev''} \<Longrightarrow>
        slash # join_with [slash] cs = slash # d \<or> (\<exists>t. slash # join_with [slash] cs = (slash # d) @ slash # t) \<Longrightarrow> thesis"
    from \<open>is_pseudo_filesystem_path (slash # join_with [slash] cs)\<close> show thesis
      using * [of "''proc''"] * [of "''sys''"] * [of "''dev''"]
      by (auto simp: is_pseudo_filesystem_path_def pseudo_prefixes_def starts_with_iff)
  qed
  have "split_on slash (join_with [slash] cs) = cs"
    using split_join [OF assms(2)] assms(1) by (auto simp: plain_component_def)
  moreover have "slash \<notin> set d" using d by auto
  ultimately have "hd cs = d"
    using p by (cases cs) (auto simp: split_on_append)
  then show False using assms(3) d by blast
qed

lemma directory_authorized:
  assumes "\<forall>c \<in> set cs. plain_component c \<and> CHR 0x00 \<notin> set c" and "cs \<noteq> []"
    and "hd cs \<notin> {''proc'', ''sys'', ''dev''}"
    and "rq_kind r = KFilesystem" "rq_operation r = ''directory_exists''" "rq_status r = SUnmet"
      "rq_repairable r" "rq_confidence r = float_1" "rq_resource r = slash # join_with [slash] cs"
  shows "authorized default_planner_config r"
proof -
  have plain: "\<forall>c \<in> set cs. plain_component c" using assms(1) by blast
  have "normal_absolute (slash # join_with [slash] cs)"
    unfolding normal_absolute_iff
    by (rule exI [of _ "''/''"], rule exI [of _ cs], rule exI [of _ 0]) (use plain assms(2) in simp)
  moreover have "set (join_with [slash] ws) \<subseteq> insert slash (\<Union>c \<in> set ws. set c)" for ws
    by (induction "[slash]" ws rule: join_with.induct) auto
  then have "CHR 0x00 \<notin> set (slash # join_with [slash] cs)"
    using assms(1) by fastforce
  moreover have "join_with [slash] cs \<noteq> []"
    using assms(2) plain join_with_head [of cs "[slash]"] by (auto simp: plain_component_def)
  ultimately show ?thesis
    using assms(3-) not_pseudo_normal [OF plain assms(2,3)]
    by (auto simp: authorized_def validate_guest_path_None default_planner_config_def float_1_def)
qed

lemma failed_mkdir_observed:
  assumes "all_calls default_extraction_config b = Inr calls" and "e \<in> set (ob_syscall_events b)"
    and "jget e ''execution_context'' = JStr ''guest''" and "jget e ''event'' = JStr ''syscall''"
    and "jget e ''syscall'' = JStr ''mkdir''" and "jget e ''errno'' = JStr ''ENOENT''"
    and "jget e ''path'' = JStr (slash # join_with [slash] cs)"
    and "\<forall>c \<in> set cs. plain_component c" and "2 \<le> length cs"
  shows "\<exists>c \<in> set calls. pr_kind c = KFilesystem \<and> pr_operation c = ''directory_exists'' \<and>
    pr_resource c = slash # join_with [slash] (butlast cs) \<and> pr_status c = SUnmet \<and> pr_repairable c"
proof -
  let ?cfg = default_extraction_config
  let ?parent = "slash # join_with [slash] (butlast cs)"
  let ?events = "select_syscall_events ?cfg (ob_syscall_events b)"
  from assms(1) obtain ys rest where ys: "emap_enum (\<lambda>i e. extract_syscall_event ?cfg ?events i e) ?events = Inr ys"
      and split: "calls = concat ys @ rest"
    by (auto simp: all_calls_def extract_syscalls_def ebind_Inr_iff)
  have "e \<in> set ?events"
    using assms(2,3) by (simp add: select_syscall_events_def default_extraction_config_def)
  then obtain i where i: "i < length ?events" "?events ! i = e" by (auto simp: in_set_conv_nth)
  obtain y where y: "y \<in> set ys" "extract_syscall_event ?cfg ?events i e = Inr y"
    using emap_enum_nth [OF ys i(1)] i(2) by auto
  have path: "opt_text (jget e ''path'') = Some (slash # join_with [slash] cs)"
    by (simp add: assms(7) opt_text_def)
  have errno: "opt_text (jget e ''errno'') = Some ''ENOENT''" and syscall: "text_or (jget e ''syscall'') [] = ''mkdir''"
    by (simp_all add: assms(5,6) opt_text_def text_or_def)
  have "\<exists>bl. pending KFilesystem ?parent ''directory_exists'' SUnmet bl True (Some ''ENOENT'') (syscall_evidence e i)
      [(''trigger_path'', slash # join_with [slash] cs), (''syscall'', ''mkdir'')] \<in> set y"
    using y(2) parent_directory_normal [OF assms(8,9)]
    by (auto simp: extract_syscall_event_def assms(4) path errno syscall ebind_Inr_iff
        extract_path_event_def directory_create_syscalls_def Let_def)
  then obtain bl where "pending KFilesystem ?parent ''directory_exists'' SUnmet bl True (Some ''ENOENT'') (syscall_evidence e i)
      [(''trigger_path'', slash # join_with [slash] cs), (''syscall'', ''mkdir'')] \<in> set calls" (is "?c \<in> _")
    using y(1) split by auto
  moreover have "pr_kind ?c = KFilesystem" "pr_operation ?c = ''directory_exists''" "pr_resource ?c = ?parent"
      "pr_status ?c = SUnmet" "pr_repairable ?c"
    by (simp_all add: pending_def)
  ultimately show ?thesis by blast
qed

lemma repairable_call_frozen:
  assumes "extract_requirements cfg now b = Inr rep" and "all_calls cfg b = Inr calls"
    and "\<forall>e \<in> set (ob_syscall_events b). printable e"
    and "c \<in> set calls" and "pr_status c = SUnmet" and "pr_repairable c"
  shows "\<exists>r \<in> set (rr_requirements rep). rq_kind r = pr_kind c \<and> rq_operation r = pr_operation c \<and>
    rq_resource r = pr_resource c \<and> rq_status r = SUnmet \<and> rq_repairable r \<and> rq_confidence r = float_1"
proof -
  let ?t = "table (xc_max_evidence cfg) calls"
  have "pending_key c \<in> pending_key ` set ?t" unfolding table_keys using assms(4) by (rule imageI)
  then obtain p where p: "p \<in> set ?t" "pending_key p = pending_key c" by auto
  have "pr_status p = SUnmet" "pr_repairable p"
    using merged_status [OF table_member [OF p(1)]] assms(4-6) p(2) by auto
  moreover have "pr_confidence p = float_1"
    using wf_pending_table [OF all_calls_wf [OF assms(2,3)] p(1)] by (simp add: wf_pending_def)
  moreover have "freeze p \<in> set (rr_requirements rep)"
    using extract_requirements_table(1) [OF assms(1,2)] p(1) by simp
  ultimately show ?thesis using p(2) by (intro bexI [of _ "freeze p"]) (simp_all add: freeze_def pending_key_def)
qed

text \<open>
  C7: A guest mkdir that fails with ENOENT on a nested path leads to a planned directory.  The extractor
  and the planner run with their default configurations; the event is a system call in the guest context
  whose path is absolute and written plainly (no empty, dot or dot-dot component and no NUL byte), has at
  least two components and does not start with proc, sys or dev.  Then every plan made of the report
  creates the parent directory of the path automatically, whatever else the run observed.
\<close>

theorem failed_mkdir_leads_to_planned_parent:
  assumes "extract_requirements default_extraction_config now b = Inr rep"
    and "plan_report default_planner_config now' rep source sha = Inr plan"
    and "\<forall>e \<in> set (ob_syscall_events b). printable e"
    and "e \<in> set (ob_syscall_events b)"
    and "jget e ''execution_context'' = JStr ''guest''" and "jget e ''event'' = JStr ''syscall''"
    and "jget e ''syscall'' = JStr ''mkdir''" and "jget e ''errno'' = JStr ''ENOENT''"
    and "jget e ''path'' = JStr (slash # join_with [slash] cs)"
    and "\<forall>c \<in> set cs. plain_component c \<and> CHR 0x00 \<notin> set c" and "2 \<le> length cs"
    and "hd cs \<notin> {''proc'', ''sys'', ''dev''}"
  shows "\<exists>d \<in> set (rp_decisions plan). rd_automatic d \<and> rd_action d = CreateDirectory \<and>
    rd_resource d = slash # join_with [slash] (butlast cs)"
proof -
  from assms(1) obtain calls where calls: "all_calls default_extraction_config b = Inr calls"
    by (auto simp: extract_requirements_def ebind_Inr_iff)
  have plain: "\<forall>c \<in> set cs. plain_component c" using assms(10) by blast
  obtain c where c: "c \<in> set calls" "pr_kind c = KFilesystem" "pr_operation c = ''directory_exists''"
      "pr_resource c = slash # join_with [slash] (butlast cs)" "pr_status c = SUnmet" "pr_repairable c"
    using failed_mkdir_observed [OF calls assms(4-9) plain assms(11)] by blast
  obtain r where r: "r \<in> set (rr_requirements rep)" "rq_kind r = KFilesystem" "rq_operation r = ''directory_exists''"
      "rq_resource r = slash # join_with [slash] (butlast cs)" "rq_status r = SUnmet" "rq_repairable r" "rq_confidence r = float_1"
    using repairable_call_frozen [OF assms(1) calls assms(3) c(1,5,6)] c(2-4) by auto
  have "\<forall>c \<in> set (butlast cs). plain_component c \<and> CHR 0x00 \<notin> set c"
    using assms(10) in_set_butlastD by metis
  moreover have "butlast cs \<noteq> []" "hd (butlast cs) = hd cs"
    using assms(11) by (cases cs; cases "tl cs"; simp)+
  ultimately have auth: "authorized default_planner_config r"
    using r assms(12) by (intro directory_authorized [of "butlast cs"]) simp_all
  have "rp_decisions plan = sort_key decision_key (map (the_decision default_planner_config) (rr_requirements rep))"
    using plan_report_total [of default_planner_config now' rep source sha] assms(2) by auto
  then have "the_decision default_planner_config r \<in> set (rp_decisions plan)" using r(1) by simp
  then show ?thesis
    using the_decision_planned [of default_planner_config r] auth r(4) by (auto simp: planned_def)
qed

section \<open>Example runs\<close>

definition example_bundle :: "event \<Rightarrow> observation_bundle" where
  "example_bundle e =
     \<lparr>ob_syscall_events = [e], ob_network_events = [], ob_stderr = [], ob_rootfs_diff = None, ob_warnings = []\<rparr>"

definition example_mkdir :: event where
  "example_mkdir = [(''execution_context'', JStr ''guest''), (''event'', JStr ''syscall''), (''syscall'', JStr ''mkdir''),
     (''errno'', JStr ''ENOENT''), (''path'', JStr ''/a/b'')]"

definition example_connect :: event where
  "example_connect = [(''execution_context'', JStr ''guest''), (''event'', JStr ''syscall''), (''syscall'', JStr ''connect''),
     (''errno'', JStr ''ECONNREFUSED''), (''remote_ip'', JStr ''2001:db8::1''), (''remote_port'', JInt 80)]"

lemmas example_extract_defs = all_calls_def extract_syscalls_def select_syscall_events_def
  default_extraction_config_def emap_enum_def extract_syscall_event_def text_or_def opt_text_def opt_int_def
  unsupported_calls_def connect_calls_def extract_path_event_def blocking_after_def Let_def
  extract_network_def response_connections_def extract_loader_def splitlines_def extract_rootfs_def

lemma example_mkdir_calls: "\<exists>calls. all_calls default_extraction_config (example_bundle example_mkdir) = Inr calls"
  by (simp add: example_extract_defs example_bundle_def example_mkdir_def network_failure_errnos_def)

lemma example_mkdir_printable: "\<forall>e \<in> set (ob_syscall_events (example_bundle example_mkdir)). printable e"
  by (auto simp: example_bundle_def example_mkdir_def printable_def)

lemma example_mkdir_report:
  "\<exists>rep. extract_requirements default_extraction_config ''now'' (example_bundle example_mkdir) = Inr rep"
  using example_mkdir_calls by (auto simp: extract_requirements_def)

theorem extracted_report_wf_witness:
  "\<exists>rep. extract_requirements default_extraction_config ''now'' (example_bundle example_mkdir) = Inr rep \<and> wf_report rep"
proof -
  obtain rep where rep: "extract_requirements default_extraction_config ''now'' (example_bundle example_mkdir) = Inr rep"
    using example_mkdir_report by blast
  from extracted_report_wf [OF rep example_mkdir_printable] rep show ?thesis by blast
qed

theorem extracted_status_is_strongest_witness:
  "\<exists>rep calls. extract_requirements default_extraction_config ''now'' (example_bundle example_mkdir) = Inr rep \<and>
     all_calls default_extraction_config (example_bundle example_mkdir) = Inr calls \<and>
     requirement_key ` set (rr_requirements rep) =
       (\<lambda>c. (kind_value (pr_kind c), pr_operation c, pr_resource c)) ` set calls"
proof -
  obtain rep calls where e: "extract_requirements default_extraction_config ''now'' (example_bundle example_mkdir) = Inr rep"
      "all_calls default_extraction_config (example_bundle example_mkdir) = Inr calls"
    using example_mkdir_report example_mkdir_calls by blast
  from extracted_status_is_strongest [OF e] e show ?thesis by blast
qed

theorem failed_mkdir_leads_to_planned_parent_witness:
  "\<exists>(plan :: repair_plan) (d :: repair_decision). d \<in> set (rp_decisions plan) \<and> rd_automatic d \<and> rd_action d = CreateDirectory \<and> rd_resource d = ''/a''"
proof -
  obtain rep where rep: "extract_requirements default_extraction_config ''now'' (example_bundle example_mkdir) = Inr rep"
    using example_mkdir_report by blast
  obtain plan where plan: "plan_report default_planner_config ''now'' rep ''s'' ''d'' = Inr plan"
    using plan_report_total by blast
  have "\<exists>d \<in> set (rp_decisions plan). rd_automatic d \<and> rd_action d = CreateDirectory \<and>
      rd_resource d = slash # join_with [slash] (butlast [''a'', ''b''])"
    by (rule failed_mkdir_leads_to_planned_parent [OF rep plan example_mkdir_printable, of example_mkdir])
       (simp_all add: example_bundle_def example_mkdir_def plain_component_def)
  then show ?thesis by (intro exI [of _ plan]) auto
qed

text \<open>
  A refused connection to an IPv6 address is reported as the resource tcp://ADDRESS:PORT
  without brackets, which the planner cannot read as an endpoint: the decision is manual analysis.
\<close>

theorem ipv6_connect_is_not_an_endpoint:
  "\<exists>rep plan d. extract_requirements default_extraction_config ''now'' (example_bundle example_connect) = Inr rep \<and>
     plan_report default_planner_config ''now'' rep ''s'' ''d'' = Inr plan \<and> rp_decisions plan = [d] \<and>
     rd_resource d = ''tcp://2001:db8::1:80'' \<and> rd_disposition d = ManualAnalysis \<and> rd_reason d = reason_bad_endpoint"
proof -
  have port: "show_int 80 = ''80''" by code_simp
  have none: "parse_endpoint ''tcp://2001:db8::1:80'' = None" by code_simp
  obtain r where rep: "extract_requirements default_extraction_config ''now'' (example_bundle example_connect) = Inr
       \<lparr>rr_requirements = [r], rr_warnings = [], rr_schema_version = 1, rr_generated_at = ''now''\<rparr>"
      and r: "rq_kind r = KNetwork" "rq_resource r = ''tcp://2001:db8::1:80''" "rq_status r = SUnmet" "rq_repairable r"
    by (simp add: extract_requirements_def example_extract_defs example_bundle_def example_connect_def
        network_failure_errnos_def port freeze_def pending_def)
  obtain plan where plan: "plan_report default_planner_config ''now'' \<lparr>rr_requirements = [r], rr_warnings = [],
       rr_schema_version = 1, rr_generated_at = ''now''\<rparr> ''s'' ''d'' = Inr plan"
      and ds: "rp_decisions plan = [the_decision default_planner_config r]"
    using plan_report_total [of default_planner_config "''now''" "\<lparr>rr_requirements = [r], rr_warnings = [],
       rr_schema_version = 1, rr_generated_at = ''now''\<rparr>" "''s''" "''d''"] by auto
  have d: "the_decision default_planner_config r = (case plan_requirement default_planner_config r of Inr d \<Rightarrow> d)"
    by (rule the_decision_def)
  have "rd_resource (the_decision default_planner_config r) = ''tcp://2001:db8::1:80''"
      "rd_disposition (the_decision default_planner_config r) = ManualAnalysis"
      "rd_reason (the_decision default_planner_config r) = reason_bad_endpoint"
    using r none
    by (simp_all add: d plan_requirement_def plan_network_def decide_def Let_def)
  then show ?thesis using rep plan ds by blast
qed

end
