(* ===== verification/Canonical_Json.thy ===== *)
theory Canonical_Json
  imports Field_Checks Sha256 Python_Text
begin

text \<open>
  \<open>json.dumps(payload, sort_keys=True, separators=(",", ":"), ensure_ascii=False)\<close>, whose SHA-256
  is the identity of the attempt artifacts.  The text of a payload without floats determines the
  payload up to the order of its keys, so two artifacts with the same digest either are the same
  artifact or are a collision of the hash.
\<close>

section \<open>Strings\<close>

definition escape_char :: "char \<Rightarrow> string" where
  "escape_char c =
     (let n = (of_char c :: nat) in
      if c = CHR 0x22 \<or> c = CHR 0x5C then [CHR 0x5C, c]
      else if n = 8 then [CHR 0x5C, CHR ''b'']
      else if n = 9 then [CHR 0x5C, CHR ''t'']
      else if n = 10 then [CHR 0x5C, CHR ''n'']
      else if n = 12 then [CHR 0x5C, CHR ''f'']
      else if n = 13 then [CHR 0x5C, CHR ''r'']
      else if n < 32 then [CHR 0x5C, CHR ''u'', CHR ''0'', CHR ''0'', hex_char (n div 16), hex_char (n mod 16)]
      else [c])"

definition quote_text :: "string \<Rightarrow> string" where
  "quote_text s = CHR 0x22 # concat (map escape_char s) @ [CHR 0x22]"

section \<open>Values\<close>

fun dump_float :: "pyfloat \<Rightarrow> string" where
  "dump_float FloatNaN = ''NaN''"
| "dump_float (FloatInf True) = ''Infinity''"
| "dump_float (FloatInf False) = ''-Infinity''"
| "dump_float (FloatFin _ s) = s"

text \<open>The writer for an escaping of the characters of a string; \<open>dump_json\<close> is the one that keeps them.\<close>

definition quote_with :: "(char \<Rightarrow> string) \<Rightarrow> string \<Rightarrow> string" where
  "quote_with esc s = CHR 0x22 # concat (map esc s) @ [CHR 0x22]"

fun dump_with :: "(char \<Rightarrow> string) \<Rightarrow> json \<Rightarrow> string" where
  "dump_with esc JNull = ''null''"
| "dump_with esc (JBool b) = (if b then ''true'' else ''false'')"
| "dump_with esc (JInt i) = show_int i"
| "dump_with esc (JFloat f) = dump_float f"
| "dump_with esc (JStr s) = quote_with esc s"
| "dump_with esc (JList xs) = ''['' @ join_with '','' (map (dump_with esc) xs) @ '']''"
| "dump_with esc (JObj d) = ''{'' @ join_with '','' (map (\<lambda>(k, v). quote_with esc k @ '':'' @ dump_with esc v) d) @ ''}''"

text \<open>The default \<open>ensure_ascii=True\<close> escapes every character that is not printable; of ASCII that is
  one character more.\<close>

definition escape_ascii :: "char \<Rightarrow> string" where
  "escape_ascii c = (if c = CHR 0x7F then [CHR 0x5C, CHR ''u'', CHR ''0'', CHR ''0'', CHR ''7'', CHR ''f''] else escape_char c)"

fun dump_json :: "json \<Rightarrow> string" where
  "dump_json JNull = ''null''"
| "dump_json (JBool b) = (if b then ''true'' else ''false'')"
| "dump_json (JInt i) = show_int i"
| "dump_json (JFloat f) = dump_float f"
| "dump_json (JStr s) = quote_text s"
| "dump_json (JList xs) = ''['' @ join_with '','' (map dump_json xs) @ '']''"
| "dump_json (JObj d) = ''{'' @ join_with '','' (map (\<lambda>(k, v). quote_text k @ '':'' @ dump_json v) d) @ ''}''"

text \<open>\<open>sort_keys=True\<close> sorts the items of every object.\<close>

fun sort_json :: "json \<Rightarrow> json" where
  "sort_json (JList xs) = JList (map sort_json xs)"
| "sort_json (JObj d) = JObj (sort_key fst (map (\<lambda>(k, v). (k, sort_json v)) d))"
| "sort_json v = v"

definition canonical_json :: "json \<Rightarrow> string" where
  "canonical_json v = dump_json (sort_json v)"

definition canonical_sha256 :: "json \<Rightarrow> string" where
  "canonical_sha256 v = sha256_hex (canonical_json v)"

section \<open>The text determines the payload\<close>

text \<open>\<open>stops s\<close>: no digit can continue a number before \<open>s\<close>.\<close>

definition stops :: "string \<Rightarrow> bool" where
  "stops s \<longleftrightarrow> s = [] \<or> \<not> ascii_digit (hd s)"

lemma stops_Cons [simp]: "stops (c # s) \<longleftrightarrow> \<not> ascii_digit c"
  by (simp add: stops_def)

lemma hex_char_inj: "hex_char n = hex_char m \<Longrightarrow> n < 16 \<Longrightarrow> m < 16 \<Longrightarrow> n = m"
  by (auto simp: hex_char_def take_bit_eq_mod split: if_splits dest!: arg_cong [where f = "of_char :: char \<Rightarrow> nat"])

lemma hex_pair_inj:
  assumes "hex_char (n div 16) = hex_char (m div 16)" "hex_char (n mod 16) = hex_char (m mod 16)" "n < 32" "m < 32"
  shows "n = m"
proof -
  have "n div 16 = m div 16" "n mod 16 = m mod 16"
    using assms by (auto intro: hex_char_inj)
  then show ?thesis by (metis div_mult_mod_eq)
qed

lemma of_char_inj: "(of_char c :: nat) = of_char d \<Longrightarrow> c = d"
  by simp

lemma escape_char_cancel:
  assumes "escape_char c @ s = escape_char d @ t"
  shows "c = d \<and> s = t"
  using assms hex_pair_inj [of "of_char c" "of_char d"]
  by (auto simp: escape_char_def Let_def split: if_splits intro: of_char_inj)

lemma escape_char_quote: "escape_char c @ s \<noteq> CHR 0x22 # t" "CHR 0x22 # t \<noteq> escape_char c @ s"
  by (auto simp: escape_char_def Let_def)

lemma show_nat_digits: "list_all ascii_digit (show_nat n)"
proof (induction n rule: show_nat.induct)
  case (1 n)
  have "ascii_digit (char_of (48 + n mod 10))"
    by (auto simp: ascii_digit_def take_bit_eq_mod)
  with 1 show ?case by (subst show_nat.simps) auto
qed

definition digits_value :: "string \<Rightarrow> nat" where
  "digits_value s = foldl (\<lambda>v c. 10 * v + (of_char c - 48)) 0 s"

lemma digits_value_show_nat: "digits_value (show_nat n) = n"
proof (induction n rule: show_nat.induct)
  case (1 n)
  then show ?case by (subst show_nat.simps) (auto simp: digits_value_def)
qed

lemma show_nat_inj: "show_nat n = show_nat m \<longleftrightarrow> n = m"
  by (metis digits_value_show_nat)

lemma digits_cancel:
  assumes "list_all ascii_digit a" "list_all ascii_digit b" "stops s" "stops t" "a @ s = b @ t"
  shows "a = b \<and> s = t"
proof -
  have "takeWhile ascii_digit (a @ s) = a" "takeWhile ascii_digit (b @ t) = b"
    using assms(1-4) by (auto simp: takeWhile_append list_all_iff stops_def takeWhile_eq_Nil_iff)
  with assms(5) show ?thesis by auto
qed

lemma show_nat_hd: "\<exists>c s. show_nat n = c # s \<and> ascii_digit c"
  using show_nat_digits [of n] show_nat_nonempty [of n] by (cases "show_nat n") auto

lemma show_int_hd: "\<exists>c s. show_int i = c # s \<and> (ascii_digit c \<or> c = CHR ''-'')"
  using show_nat_hd [of "nat i"] by (auto simp: show_int_def)

lemma minus_not_digit [simp]: "\<not> ascii_digit (CHR ''-'')"
  by (simp add: ascii_digit_def)

lemma show_int_cancel:
  assumes "show_int i @ s = show_int j @ t" "stops s" "stops t"
  shows "i = j \<and> s = t"
proof -
  have *: "show_nat n @ s = show_nat m @ t \<Longrightarrow> n = m \<and> s = t" for n m
    using digits_cancel [OF show_nat_digits show_nat_digits assms(2,3)] show_nat_inj by blast
  have minus: "show_nat n @ u \<noteq> CHR ''-'' # v" "CHR ''-'' # v \<noteq> show_nat n @ u" for n u v
    using show_nat_hd [of n] by auto
  show ?thesis
  proof (cases "i < 0"; cases "j < 0")
    assume "i < 0" "j < 0"
    then show ?thesis using assms(1) * [of "nat (- i)" "nat (- j)"] by (simp add: show_int_def eq_nat_nat_iff)
  next
    assume "\<not> i < 0" "\<not> j < 0"
    then show ?thesis using assms(1) * [of "nat i" "nat j"] by (simp add: show_int_def eq_nat_nat_iff)
  qed (use assms(1) minus in \<open>simp_all add: show_int_def\<close>)
qed

text \<open>Separated sequences.\<close>

lemma join_with_Cons: "join_with sep (w # ws) = w @ concat (map (\<lambda>v. sep @ v) ws)"
  by (induction ws arbitrary: w) auto

lemma tail_cancel:
  assumes "\<And>x y s t. x \<in> set xs \<Longrightarrow> y \<in> set ys \<Longrightarrow> f x @ s = f y @ t \<Longrightarrow> stops s \<Longrightarrow> stops t \<Longrightarrow> x = y \<and> s = t"
    and "concat (map (\<lambda>x. CHR '','' # f x) xs) @ c # u = concat (map (\<lambda>x. CHR '','' # f x) ys) @ c # v"
    and "\<not> ascii_digit c" and "c \<noteq> CHR '',''"
  shows "xs = ys \<and> u = v"
  using assms(1,2)
proof (induction xs arbitrary: ys)
  case Nil
  then show ?case using assms(4) by (cases ys) auto
next
  case (Cons x xs)
  show ?case
  proof (cases ys)
    case Nil
    with Cons.prems(2) assms(4) show ?thesis by simp
  next
    case (Cons y zs)
    let ?s = "concat (map (\<lambda>x. CHR '','' # f x) xs) @ c # u" and ?t = "concat (map (\<lambda>x. CHR '','' # f x) zs) @ c # v"
    have "stops ?s" "stops ?t"
      using assms(3) by (cases xs; cases zs; simp add: ascii_digit_def)+
    with Cons.prems [unfolded Cons] have "x = y" "?s = ?t" by auto
    with Cons.IH [of zs] Cons.prems(1) Cons show ?thesis by auto
  qed
qed

lemma join_cancel:
  assumes step: "\<And>x y s t. x \<in> set xs \<Longrightarrow> y \<in> set ys \<Longrightarrow> f x @ s = f y @ t \<Longrightarrow> stops s \<Longrightarrow> stops t \<Longrightarrow> x = y \<and> s = t"
    and hd: "\<And>x s w. x \<in> set xs \<union> set ys \<Longrightarrow> f x @ s \<noteq> c # w"
    and eq: "join_with '','' (map f xs) @ c # u = join_with '','' (map f ys) @ c # v"
    and c: "\<not> ascii_digit c" "c \<noteq> CHR '',''"
  shows "xs = ys \<and> u = v"
proof (cases xs)
  case Nil
  show ?thesis
  proof (cases ys)
    case Nil
    with \<open>xs = []\<close> eq show ?thesis by simp
  next
    case (Cons y zs)
    with \<open>xs = []\<close> eq hd [of y] show ?thesis by (auto simp: join_with_Cons dest: sym)
  qed
next
  case (Cons x xs')
  show ?thesis
  proof (cases ys)
    case Nil
    with Cons eq hd [of x] show ?thesis by (auto simp: join_with_Cons)
  next
    case ys: (Cons y ys')
    have cm: "concat (map (\<lambda>v. '','' @ v) (map f zs)) = concat (map (\<lambda>x. CHR '','' # f x) zs)" for zs
      by (induction zs) auto
    let ?s = "concat (map (\<lambda>x. CHR '','' # f x) xs') @ c # u" and ?t = "concat (map (\<lambda>x. CHR '','' # f x) ys') @ c # v"
    have "stops ?s" "stops ?t"
      using c by (cases xs'; cases ys'; simp add: ascii_digit_def)+
    moreover have "f x @ ?s = f y @ ?t"
      using eq by (simp only: Cons ys list.map join_with_Cons cm append_assoc)
    ultimately have "x = y" "?s = ?t" using step [of x y] by (auto simp: Cons ys)
    moreover from tail_cancel [OF _ \<open>?s = ?t\<close> c] step have "xs' = ys' \<and> u = v"
      by (auto simp: Cons ys)
    ultimately show ?thesis by (simp add: Cons ys)
  qed
qed

fun float_free :: "json \<Rightarrow> bool" where
  "float_free (JFloat f) = False"
| "float_free (JList xs) = list_all float_free xs"
| "float_free (JObj d) = list_all (\<lambda>(k, v). float_free v) d"
| "float_free v = True"

text \<open>The first character tells the kind of a value.\<close>

fun json_tag :: "json \<Rightarrow> nat" where
  "json_tag JNull = 0"
| "json_tag (JBool b) = 1"
| "json_tag (JInt i) = 2"
| "json_tag (JStr s) = 3"
| "json_tag (JList xs) = 4"
| "json_tag (JObj d) = 5"
| "json_tag (JFloat f) = 6"

definition char_tag :: "char \<Rightarrow> nat" where
  "char_tag c =
     (if c = CHR ''n'' then 0 else if c = CHR ''t'' \<or> c = CHR ''f'' then 1
      else if c = CHR 0x22 then 3 else if c = CHR ''['' then 4 else if c = CHR ''{'' then 5
      else if ascii_digit c \<or> c = CHR ''-'' then 2 else 7)"

lemma digit_tag: "ascii_digit c \<or> c = CHR ''-'' \<Longrightarrow> char_tag c = 2"
  by (auto simp: char_tag_def ascii_digit_def)

lemma show_int_tag: "\<exists>c. (\<exists>r. show_int i = c # r) \<and> char_tag c = 2"
  using show_int_hd [of i] digit_tag by metis

locale json_writer =
  fixes esc :: "char \<Rightarrow> string"
  assumes esc_cancel: "esc c @ s = esc d @ t \<Longrightarrow> c = d \<and> s = t"
    and esc_quote: "esc c @ s \<noteq> CHR 0x22 # t" "CHR 0x22 # t \<noteq> esc c @ s"
begin

lemma quote_with_cancel:
  assumes "quote_with esc a @ s = quote_with esc b @ t"
  shows "a = b \<and> s = t"
proof -
  have *: "concat (map esc a) @ CHR 0x22 # s = concat (map esc b) @ CHR 0x22 # t \<Longrightarrow> a = b \<and> s = t" for a b
  proof (induction a arbitrary: b)
    case Nil
    then show ?case by (cases b) (simp_all add: esc_quote)
  next
    case (Cons c a)
    show ?case
    proof (cases b)
      case Nil
      with Cons.prems show ?thesis by (simp add: esc_quote)
    next
      case (Cons d b')
      with Cons.prems have "esc c @ (concat (map esc a) @ CHR 0x22 # s) =
          esc d @ (concat (map esc b') @ CHR 0x22 # t)" by simp
      from esc_cancel [OF this] Cons.IH [of b'] Cons show ?thesis by simp
    qed
  qed
  show ?thesis by (rule *) (use assms in \<open>simp add: quote_with_def\<close>)
qed

lemma dump_with_hd: "float_free v \<Longrightarrow> \<exists>c r. dump_with esc v = c # r \<and> char_tag c = json_tag v"
  by (cases v) (auto dest: digit_tag intro: show_int_tag simp: char_tag_def [of "CHR ''n''"] char_tag_def [of "CHR ''t''"] char_tag_def [of "CHR ''f''"]
      char_tag_def [of "CHR 0x22"] char_tag_def [of "CHR ''[''"] char_tag_def [of "CHR ''{''"] quote_with_def)

lemma dump_with_tag:
  assumes "dump_with esc v @ s = dump_with esc w @ t" "float_free v" "float_free w"
  shows "json_tag v = json_tag w"
  using dump_with_hd [OF assms(2)] dump_with_hd [OF assms(3)] assms(1) by auto

lemma dump_with_hd_not: "float_free v \<Longrightarrow> dump_with esc v @ s \<noteq> CHR '']'' # w"
  using dump_with_hd [of v] by (cases v) (auto simp: char_tag_def ascii_digit_def)

lemma dump_with_cancel:
  "dump_with esc v @ s = dump_with esc w @ t \<Longrightarrow> float_free v \<Longrightarrow> float_free w \<Longrightarrow> stops s \<Longrightarrow> stops t \<Longrightarrow> v = w \<and> s = t"
proof (induction v arbitrary: w s t)
  case JNull
  with dump_with_tag [OF JNull.prems(1-3)] show ?case by (cases w) auto
next
  case (JBool b)
  with dump_with_tag [OF JBool.prems(1-3)] show ?case by (cases w) (auto split: if_splits)
next
  case (JInt i)
  then obtain j where w: "w = JInt j" using dump_with_tag [OF JInt.prems(1-3)] by (cases w) auto
  with JInt.prems show ?case using show_int_cancel [of i s j t] by simp
next
  case (JFloat f)
  then show ?case by simp
next
  case (JStr a)
  then obtain b where w: "w = JStr b" using dump_with_tag [OF JStr.prems(1-3)] by (cases w) auto
  with JStr.prems show ?case using quote_with_cancel [of a s b t] by simp
next
  case (JList xs)
  then obtain ys where w: "w = JList ys" using dump_with_tag [OF JList.prems(1-3)] by (cases w) auto
  have ff: "float_free x" if "x \<in> set xs \<union> set ys" for x
    using that JList.prems(2,3) by (auto simp: w list_all_iff)
  have eq: "join_with '','' (map (dump_with esc) xs) @ CHR '']'' # s = join_with '','' (map (dump_with esc) ys) @ CHR '']'' # t"
    using JList.prems(1) by (simp add: w)
  have "xs = ys \<and> s = t"
    by (rule join_cancel [OF _ _ eq]) (use JList.IH ff dump_with_hd_not in \<open>auto simp: ascii_digit_def\<close>)
  with w show ?case by simp
next
  case (JObj d)
  then obtain e where w: "w = JObj e" using dump_with_tag [OF JObj.prems(1-3)] by (cases w) auto
  let ?f = "\<lambda>(k, v). quote_with esc k @ '':'' @ dump_with esc v"
  have ff: "float_free v" if "(k, v) \<in> set d \<union> set e" for k v
    using that JObj.prems(2,3) by (auto simp: w list_all_iff)
  have eq: "join_with '','' (map ?f d) @ CHR ''}'' # s = join_with '','' (map ?f e) @ CHR ''}'' # t"
    using JObj.prems(1) by (simp add: w)
  have step: "x = y \<and> s = t"
    if x: "x \<in> set d" "y \<in> set e" "?f x @ s = ?f y @ t" "stops s" "stops t" for x y s t
  proof -
    obtain k v l u where xy: "x = (k, v)" "y = (l, u)" by (cases x; cases y)
    from x(3) have "quote_with esc k @ (CHR '':'' # dump_with esc v @ s) = quote_with esc l @ (CHR '':'' # dump_with esc u @ t)"
      by (simp add: xy)
    from quote_with_cancel [OF this] have "k = l" "dump_with esc v @ s = dump_with esc u @ t" by auto
    moreover have "v = u \<and> s = t"
      by (rule JObj.IH [of x v]) (use x xy ff calculation in auto)
    ultimately show ?thesis by (simp add: xy)
  qed
  have "d = e \<and> s = t"
    by (rule join_cancel [OF step _ eq]) (auto simp: ascii_digit_def quote_with_def)
  with w show ?case by simp
qed

lemma dump_with_inj: "dump_with esc v = dump_with esc w \<Longrightarrow> float_free v \<Longrightarrow> float_free w \<Longrightarrow> v = w"
  using dump_with_cancel [of v "[]" w "[]"] by (simp add: stops_def)

end

lemma escape_char_del: "escape_char c @ s \<noteq> CHR 0x5C # CHR ''u'' # CHR ''0'' # CHR ''0'' # CHR ''7'' # t"
proof -
  have "hex_char k \<noteq> CHR ''7''" if "k < 2" for k
    using that by (auto simp: hex_char_def less_2_cases_iff dest!: arg_cong [where f = "of_char :: char \<Rightarrow> nat"])
  then show ?thesis by (auto simp: escape_char_def Let_def)
qed

lemma escape_ascii_cancel:
  assumes "escape_ascii c @ s = escape_ascii d @ t"
  shows "c = d \<and> s = t"
  using assms escape_char_cancel [of c s d t] escape_char_del [of d t] escape_char_del [of c s]
  by (auto simp: escape_ascii_def dest: sym split: if_splits)

interpretation writer: json_writer escape_char
  by unfold_locales (auto simp: escape_char_quote dest: escape_char_cancel)

interpretation ascii_writer: json_writer escape_ascii
  proof unfold_locales
  show "escape_ascii c @ s = escape_ascii d @ t \<Longrightarrow> c = d \<and> s = t" for c s d t
    by (rule escape_ascii_cancel)
  show "escape_ascii c @ s \<noteq> CHR 0x22 # t" "CHR 0x22 # t \<noteq> escape_ascii c @ s" for c s t
    by (auto simp: escape_ascii_def escape_char_quote)
qed

lemma quote_text_with: "quote_text s = quote_with escape_char s"
  by (simp add: quote_text_def quote_with_def)

lemma dump_json_with: "dump_json v = dump_with escape_char v"
  by (induction v rule: dump_json.induct) (auto simp: quote_text_with intro!: arg_cong [where f = "join_with _"] map_cong)

lemma dump_json_cancel:
  "dump_json v @ s = dump_json w @ t \<Longrightarrow> float_free v \<Longrightarrow> float_free w \<Longrightarrow> stops s \<Longrightarrow> stops t \<Longrightarrow> v = w \<and> s = t"
  using writer.dump_with_cancel [of v s w t] by (simp add: dump_json_with)

lemma float_free_sort_json [simp]: "float_free (sort_json v) = float_free v"
  by (induction v rule: sort_json.induct) (auto simp: list_all_iff)

lemma canonical_json_inj:
  assumes "canonical_json v = canonical_json w" "float_free v" "float_free w"
  shows "sort_json v = sort_json w"
  using dump_json_cancel [of "sort_json v" "[]" "sort_json w" "[]"] assms by (simp add: canonical_json_def stops_def)

lemma canonical_sha256_hex [simp]: "is_sha256 (canonical_sha256 v)"
  by (simp add: canonical_sha256_def)

text \<open>Two payloads with one digest: equal up to the order of keys, or a collision.\<close>

definition sha256_collision :: "string \<Rightarrow> string \<Rightarrow> bool" where
  "sha256_collision a b \<longleftrightarrow> a \<noteq> b \<and> sha256_hex a = sha256_hex b"

lemma canonical_sha256_eq:
  assumes "canonical_sha256 v = canonical_sha256 w" "float_free v" "float_free w"
  shows "sort_json v = sort_json w \<or> sha256_collision (canonical_json v) (canonical_json w)"
proof (cases "canonical_json v = canonical_json w")
  case True
  with canonical_json_inj assms(2,3) show ?thesis by blast
next
  case False
  with assms(1) show ?thesis by (simp add: canonical_sha256_def sha256_collision_def)
qed

text \<open>Sorting the items of an object keeps what its keys name.\<close>

lemma sorted_items_lookup:
  assumes "sort_json (JObj d) = sort_json (JObj e)" "distinct (map fst d)" "distinct (map fst e)"
  shows "map_option sort_json (map_of d k) = map_option sort_json (map_of e k)"
proof -
  let ?f = "\<lambda>(k, v). (k, sort_json v)"
  have set: "set (map ?f d) = set (map ?f e)"
    using arg_cong [where f = "\<lambda>v. case v of JObj x \<Rightarrow> set x", OF assms(1)] by simp
  have fst: "map fst (map ?f x) = map fst x" for x by (induction x) auto
  have "map_of (map ?f d) = map_of (map ?f e)"
    using map_of_inject_set [of "map ?f d" "map ?f e"] assms(2,3) set unfolding fst by blast
  moreover have *: "map_of (map ?f x) k = map_option sort_json (map_of x k)" for x :: "(string \<times> json) list"
    by (induction x) auto
  ultimately show ?thesis using * [of d] * [of e] by simp
qed

lemma sorted_jget:
  assumes "sort_json (JObj d) = sort_json (JObj e)" "distinct (map fst d)" "distinct (map fst e)"
  shows "sort_json (jget d k) = sort_json (jget e k)"
  using sorted_items_lookup [OF assms, of k] by (auto simp: jget_or_def split: option.splits)

end
