(* ===== verification/Iso_Time.thy ===== *)
theory Iso_Time
  imports Ip_Address
begin

text \<open>
  \<open>datetime.fromisoformat\<close> of CPython 3.11, which the artifact codecs use to check timestamps: the
  result is the local time in microseconds since year 1 and, when a zone is given, its offset.
  The parser follows the C implementation, including what it tolerates after the seconds.
\<close>

section \<open>Dates\<close>

definition fixed_digits :: "nat \<Rightarrow> string \<Rightarrow> nat option" where
  "fixed_digits n s = (if length s = n \<and> list_all ascii_digit s then Some (base_value 10 s) else None)"

definition leap_year :: "int \<Rightarrow> bool" where
  "leap_year y \<longleftrightarrow> y mod 4 = 0 \<and> (y mod 100 \<noteq> 0 \<or> y mod 400 = 0)"

definition month_days :: "int \<Rightarrow> nat \<Rightarrow> int" where
  "month_days y m = (if m = 2 then (if leap_year y then 29 else 28) else if m \<in> {4, 6, 9, 11} then 30 else 31)"

definition days_before_year :: "int \<Rightarrow> int" where
  "days_before_year y = (y - 1) * 365 + (y - 1) div 4 - (y - 1) div 100 + (y - 1) div 400"

definition date_ordinal :: "nat \<Rightarrow> nat \<Rightarrow> nat \<Rightarrow> int option" where
  "date_ordinal y m d =
     (if 1 \<le> y \<and> y \<le> 9999 \<and> 1 \<le> m \<and> m \<le> 12 \<and> 1 \<le> d \<and> int d \<le> month_days (int y) m
      then Some (days_before_year (int y) + sum_list (map (month_days (int y)) [1..<m]) + int d)
      else None)"

definition iso_week_monday :: "int \<Rightarrow> int" where
  "iso_week_monday y =
     (let first_day = days_before_year y + 1;
          weekday = (first_day + 6) mod 7
      in first_day - weekday + (if weekday > 3 then 7 else 0))"

definition week_ordinal :: "nat \<Rightarrow> nat \<Rightarrow> nat \<Rightarrow> int option" where
  "week_ordinal y w d =
     (let first = (days_before_year (int y) + 1) mod 7;
          long_year = (first = 4 \<or> (first = 3 \<and> leap_year (int y)));
          ordinal = iso_week_monday (int y) + (int w - 1) * 7 + int d - 1
      in if 1 \<le> y \<and> y \<le> 9999 \<and> 1 \<le> w \<and> (w \<le> 52 \<or> (w = 53 \<and> long_year)) \<and> 1 \<le> d \<and> d \<le> 7
            \<and> ordinal \<le> 3652059
         then Some ordinal else None)"

fun date_separator :: "string \<Rightarrow> nat option" where
  "date_separator s =
     (let n = length s in
      if n = 7 then Some 7
      else if s ! 4 = CHR ''-'' then
        (if s ! 5 = CHR ''W'' then
           (if 8 < n \<and> s ! 8 = CHR ''-''
            then (if n = 9 then None else if 10 < n \<and> ascii_digit (s ! 10) then Some 8 else Some 10)
            else Some 8)
         else Some 10)
      else if s ! 4 = CHR ''W'' then
        (let idx = 7 + length (takeWhile ascii_digit (drop 7 s)) in
         if idx < 9 then Some idx else if even idx then Some 7 else Some 8)
      else Some 8)"

definition bind_option :: "'a option \<Rightarrow> ('a \<Rightarrow> 'b option) \<Rightarrow> 'b option" where
  "bind_option x f = (case x of None \<Rightarrow> None | Some a \<Rightarrow> f a)"

fun slice :: "nat \<Rightarrow> nat \<Rightarrow> string \<Rightarrow> string" where
  "slice a b s = take (b - a) (drop a s)"

definition parse_iso_date :: "string \<Rightarrow> int option" where
  "parse_iso_date d =
     bind_option (fixed_digits 4 (take 4 d)) (\<lambda>y.
     let has_sep = (slice 4 5 d = ''-''); pos = (if has_sep then 5 else 4) in
     if slice pos (pos + 1) d = ''W''
     then bind_option (fixed_digits 2 (slice (pos + 1) (pos + 3) d)) (\<lambda>w.
          if length d \<le> pos + 3 then week_ordinal y w 1
          else if (slice (pos + 3) (pos + 4) d = ''-'') \<noteq> has_sep then None
          else (let q = (if has_sep then pos + 4 else pos + 3) in
                bind_option (fixed_digits 1 (slice q (q + 1) d)) (week_ordinal y w)))
     else bind_option (fixed_digits 2 (slice pos (pos + 2) d)) (\<lambda>m.
          if (slice (pos + 2) (pos + 3) d = ''-'') \<noteq> has_sep then None
          else (let q = (if has_sep then pos + 3 else pos + 2) in
                bind_option (fixed_digits 2 (slice q (q + 2) d)) (date_ordinal y m))))"

section \<open>Times\<close>

text \<open>Hours, minutes and seconds read so far, the microseconds, and whether text is left over.\<close>

definition parse_fraction :: "nat list \<Rightarrow> string \<Rightarrow> (nat list \<times> nat \<times> bool) option" where
  "parse_fraction comps s =
     (let n = min 6 (length s); rest = dropWhile ascii_digit (drop n s) in
      bind_option (if n = 0 then Some 0 else map_option (\<lambda>v. v * 10 ^ (6 - n)) (fixed_digits n (take n s))) (\<lambda>us.
      Some (comps, us, rest \<noteq> [] \<and> hd rest \<noteq> CHR 0x00)))"

fun parse_clock :: "nat \<Rightarrow> bool \<Rightarrow> nat list \<Rightarrow> string \<Rightarrow> (nat list \<times> nat \<times> bool) option" where
  "parse_clock 0 colons comps s = parse_fraction comps s"
| "parse_clock (Suc k) colons comps s =
     bind_option (fixed_digits 2 (take 2 s)) (\<lambda>v.
     let comps2 = comps @ [v]; r = drop 2 s in
     (case r of
        [] \<Rightarrow> Some (comps2, 0, False)
      | [c] \<Rightarrow> Some (comps2, 0, c \<noteq> CHR 0x00)
      | c # r2 \<Rightarrow>
          (let colons2 = (if comps = [] then c = CHR '':'' else colons) in
           if colons2 \<and> c = CHR '':'' then parse_clock k colons2 comps2 r2
           else if c = CHR ''.'' \<or> c = CHR '','' then parse_fraction comps2 r2
           else if \<not> colons2 then parse_clock k colons2 comps2 r
           else None)))"

definition clock_seconds :: "nat list \<Rightarrow> nat" where
  "clock_seconds comps =
     (case comps @ [0, 0, 0] of h # m # s # _ \<Rightarrow> (h * 60 + m) * 60 + s | _ \<Rightarrow> 0)"

definition clock_valid :: "nat list \<Rightarrow> bool" where
  "clock_valid comps =
     (case comps @ [0, 0, 0] of h # m # s # _ \<Rightarrow> h < 24 \<and> m < 60 \<and> s < 60 | _ \<Rightarrow> False)"

definition zone_char :: "char \<Rightarrow> bool" where
  "zone_char c \<longleftrightarrow> c = CHR ''+'' \<or> c = CHR ''-'' \<or> c = CHR ''Z''"

definition parse_iso_zone :: "string \<Rightarrow> int option option" where
  "parse_iso_zone z =
     (case z of
        [] \<Rightarrow> Some None
      | c # s \<Rightarrow>
          if c = CHR ''Z'' then (if s = [] then Some (Some 0) else None)
          else (case parse_clock 3 True [] s of
              None \<Rightarrow> None
            | Some (comps, us, extra) \<Rightarrow>
                (let off = clock_seconds comps * 1000000 + us in
                 if extra \<or> 86400 * 1000000 \<le> off then None
                 else if clock_seconds comps = 0 then Some (Some 0)
                 else Some (Some (if c = CHR ''-'' then - int off else int off)))))"

definition parse_iso_time :: "string \<Rightarrow> (int \<times> int option) option" where
  "parse_iso_time t =
     (let clock = takeWhile (\<lambda>c. \<not> zone_char c) t; zone = dropWhile (\<lambda>c. \<not> zone_char c) t in
      case (parse_clock 3 True [] clock, parse_iso_zone zone) of
        (Some (comps, us, extra), Some off) \<Rightarrow>
          if \<not> clock_valid comps \<or> (zone = [] \<and> extra) then None
          else Some (int (clock_seconds comps * 1000000 + us), off)
      | _ \<Rightarrow> None)"

definition iso_datetime :: "string \<Rightarrow> (int \<times> int option) option" where
  "iso_datetime s =
     (if length s < 7 then None
      else bind_option (date_separator s) (\<lambda>k.
           bind_option (parse_iso_date (take k s)) (\<lambda>d.
           if length s \<le> k then Some (d * 86400000000, None)
           else bind_option (parse_iso_time (drop (k + 1) s)) (\<lambda>(us, off).
                Some (d * 86400000000 + us, off)))))"

text \<open>The instant of an aware timestamp.\<close>

definition iso_instant :: "string \<Rightarrow> int option" where
  "iso_instant s = (case iso_datetime s of Some (local, Some off) \<Rightarrow> Some (local - off) | _ \<Rightarrow> None)"

text \<open>Evaluates the parser on a concrete text.\<close>

lemma parse_clock_3: "parse_clock 3 = parse_clock (Suc (Suc (Suc 0)))"
  by (simp add: numeral_3_eq_3)

lemmas iso_eval = parse_clock_3 iso_instant_def iso_datetime_def parse_iso_date_def bind_option_def fixed_digits_def
  base_value_def digit_value_def date_ordinal_def leap_year_def month_days_def days_before_year_def
  parse_iso_time_def parse_iso_zone_def zone_char_def clock_seconds_def clock_valid_def Let_def
  ascii_digit_def upt_rec_numeral

end
