(* ===== verification/Attempt.thy ===== *)
theory Attempt
  imports Canonical_Json Iso_Time
begin

text \<open>
  Execution attempts (\<open>taintforge_env/attempt.py\<close>): the contract an attempt is started under, the
  stage transitions it reports, its progress and its result, with their validation and codec.  The
  dataclasses validate in \<open>__post_init__\<close>; here a \<open>check\<close> function per record performs the
  same tests in the same order.  The lemmas characterise the accepted values and show that the
  codec returns them unchanged.
\<close>

section \<open>Enumerations\<close>

datatype run_purpose = Discovery | FuzzingRun | ReconstructionRun

fun purpose_value :: "run_purpose \<Rightarrow> string" where
  "purpose_value Discovery = ''discovery''"
| "purpose_value FuzzingRun = ''fuzzing''"
| "purpose_value ReconstructionRun = ''reconstruction''"

definition all_purposes :: "run_purpose list" where
  "all_purposes = [Discovery, FuzzingRun, ReconstructionRun]"

datatype execution_stage =
    StaticPreflight | PreOepDiscovery | OepCandidate | OepValidation | PostOepStabilization
  | BoundaryDiscovery | BoundaryReady | Fuzzing | Reconstruction

fun stage_value :: "execution_stage \<Rightarrow> string" where
  "stage_value StaticPreflight = ''static_preflight''"
| "stage_value PreOepDiscovery = ''pre_oep_discovery''"
| "stage_value OepCandidate = ''oep_candidate''"
| "stage_value OepValidation = ''oep_validation''"
| "stage_value PostOepStabilization = ''post_oep_stabilization''"
| "stage_value BoundaryDiscovery = ''boundary_discovery''"
| "stage_value BoundaryReady = ''boundary_ready''"
| "stage_value Fuzzing = ''fuzzing''"
| "stage_value Reconstruction = ''reconstruction''"

definition all_stages :: "execution_stage list" where
  "all_stages =
    [StaticPreflight, PreOepDiscovery, OepCandidate, OepValidation, PostOepStabilization,
     BoundaryDiscovery, BoundaryReady, Fuzzing, Reconstruction]"

datatype attempt_outcome =
    GoalReached | RepairRequired | Exited | TimedOut | Crashed | UnsupportedDependency
  | IsolationViolation | BackendIncompatible | ExecutionError

fun outcome_value :: "attempt_outcome \<Rightarrow> string" where
  "outcome_value GoalReached = ''goal_reached''"
| "outcome_value RepairRequired = ''repair_required''"
| "outcome_value Exited = ''exited''"
| "outcome_value TimedOut = ''timed_out''"
| "outcome_value Crashed = ''crashed''"
| "outcome_value UnsupportedDependency = ''unsupported_dependency''"
| "outcome_value IsolationViolation = ''isolation_violation''"
| "outcome_value BackendIncompatible = ''backend_incompatible''"
| "outcome_value ExecutionError = ''execution_error''"

definition all_outcomes :: "attempt_outcome list" where
  "all_outcomes =
    [GoalReached, RepairRequired, Exited, TimedOut, Crashed, UnsupportedDependency,
     IsolationViolation, BackendIncompatible, ExecutionError]"

interpretation purpose_enum: str_enum all_purposes purpose_value
proof unfold_locales
  show "x \<in> set all_purposes" for x by (cases x) (auto simp: all_purposes_def)
  show "purpose_value x = purpose_value y \<Longrightarrow> x = y" for x y by (cases x; cases y) auto
  show "purpose_value x \<noteq> []" for x by (cases x) auto
qed

interpretation stage_enum: str_enum all_stages stage_value
proof unfold_locales
  show "x \<in> set all_stages" for x by (cases x) (auto simp: all_stages_def)
  show "stage_value x = stage_value y \<Longrightarrow> x = y" for x y by (cases x; cases y) auto
  show "stage_value x \<noteq> []" for x by (cases x) auto
qed

interpretation outcome_enum: str_enum all_outcomes outcome_value
proof unfold_locales
  show "x \<in> set all_outcomes" for x by (cases x) (auto simp: all_outcomes_def)
  show "outcome_value x = outcome_value y \<Longrightarrow> x = y" for x y by (cases x; cases y) auto
  show "outcome_value x \<noteq> []" for x by (cases x) auto
qed

text \<open>\<open>_ALLOWED_STAGE_TRANSITIONS\<close>\<close>

fun allowed_stages :: "execution_stage \<Rightarrow> execution_stage list" where
  "allowed_stages StaticPreflight = [PreOepDiscovery, Reconstruction]"
| "allowed_stages PreOepDiscovery = [OepCandidate]"
| "allowed_stages OepCandidate = [PreOepDiscovery, OepValidation]"
| "allowed_stages OepValidation = [PreOepDiscovery, OepCandidate, PostOepStabilization]"
| "allowed_stages PostOepStabilization = [OepCandidate, BoundaryDiscovery]"
| "allowed_stages BoundaryDiscovery = [PostOepStabilization, BoundaryReady]"
| "allowed_stages BoundaryReady = [Fuzzing, Reconstruction]"
| "allowed_stages Fuzzing = [BoundaryReady]"
| "allowed_stages Reconstruction = []"

section \<open>Errors and checks\<close>

datatype attempt_error =
    AttField field_error
  | AttEnum string
  | AttUnsupported string
  | AttIdentifier string
  | AttNegative string
  | AttSha256 string
  | AttTimestamp string
  | AttNoTimezone string
  | AttInitialStage run_purpose
  | AttDigestMismatch string
  | AttTransition execution_stage execution_stage
  | AttNoReason
  | AttNoOracleReason
  | AttFinishesEarly
  | AttNotContiguous
  | AttBrokenChain
  | AttFinalStage
  | AttNoFingerprint attempt_outcome
  | AttGoalWithoutProgress
  | AttProgressWithoutGoal
  | AttGoalFingerprint
  | AttMissing string
  | AttInvalidJson string
  | AttOsError
  | AttStoreId
  | AttStoreInvalid
  | AttStoreEntry string
  | AttDirectoryInvalid
  | AttArtifactInvalid string
  | AttArtifactSymlink string
  | AttImmutable string
  | AttOverwrite string
  | AttLacksResult
  | AttLinkId
  | AttLinkDigest
  | AttLinkStage

definition att_dict :: "json \<Rightarrow> string \<Rightarrow> attempt_error + (string \<times> json) list" where
  "att_dict v label = err_map AttField (require_dict v label)"

definition att_string :: "json \<Rightarrow> string \<Rightarrow> attempt_error + string" where
  "att_string v label = err_map AttField (require_nonempty_string v label)"

definition att_int :: "json \<Rightarrow> string \<Rightarrow> attempt_error + int" where
  "att_int v label = err_map AttField (require_int v label)"

definition att_optional :: "(json \<Rightarrow> string \<Rightarrow> attempt_error + 'a) \<Rightarrow> json \<Rightarrow> string \<Rightarrow> attempt_error + 'a option" where
  "att_optional f v label = (if v = JNull then Inr None else ebind (f v label) (\<lambda>x. Inr (Some x)))"

text \<open>\<open>Enum(value)\<close> raises \<open>ValueError\<close> for every value that is no member's.\<close>

definition att_enum :: "'a list \<Rightarrow> ('a \<Rightarrow> string) \<Rightarrow> json \<Rightarrow> string \<Rightarrow> attempt_error + 'a" where
  "att_enum members val v label =
     (case v of
        JStr s \<Rightarrow> (case enum_of members val s of Some x \<Rightarrow> Inr x | None \<Rightarrow> Inl (AttEnum label))
      | _ \<Rightarrow> Inl (AttEnum label))"

definition identifier_char :: "char \<Rightarrow> bool" where
  "identifier_char c \<longleftrightarrow> ascii_upper c \<or> ascii_lower c \<or> ascii_digit c \<or> c \<in> set ''_.:-''"

text \<open>\<open>_IDENTIFIER_RE.fullmatch\<close> and \<open>_ATTEMPT_ID_RE.fullmatch\<close>\<close>

definition is_identifier :: "string \<Rightarrow> bool" where
  "is_identifier s \<longleftrightarrow>
     (case s of
        [] \<Rightarrow> False
      | c # r \<Rightarrow> (ascii_upper c \<or> ascii_lower c \<or> ascii_digit c) \<and> length r \<le> 127 \<and> list_all identifier_char r)"

definition is_attempt_id :: "string \<Rightarrow> bool" where
  "is_attempt_id s \<longleftrightarrow>
     (let r = drop 8 s; ds = takeWhile ascii_digit r; h = dropWhile ascii_digit r in
      starts_with s ''attempt-'' \<and> 3 \<le> length ds \<and> starts_with h ''-'' \<and>
      length (drop 1 h) = 12 \<and> list_all lower_hex (drop 1 h))"

definition check_sha256 :: "string \<Rightarrow> string \<Rightarrow> attempt_error + unit" where
  "check_sha256 s label = guard (is_sha256 s) (AttSha256 label)"

definition parse_timestamp :: "string \<Rightarrow> string \<Rightarrow> attempt_error + int" where
  "parse_timestamp s label =
     (case iso_datetime s of
        None \<Rightarrow> Inl (AttTimestamp label)
      | Some (local, None) \<Rightarrow> Inl (AttNoTimezone label)
      | Some (local, Some off) \<Rightarrow> Inr (local - off))"

definition load_json :: "(string \<Rightarrow> json option) \<Rightarrow> file_view \<Rightarrow> string \<Rightarrow> attempt_error + (string \<times> json) list" where
  "load_json loads f label =
     (case f of
        FileMissing \<Rightarrow> Inl (AttMissing label)
      | FileOther \<Rightarrow> Inl AttOsError
      | FileText t \<Rightarrow> (case loads t of None \<Rightarrow> Inl (AttInvalidJson label) | Some v \<Rightarrow> att_dict v label))"

lemma att_enum_member [result_simps]:
  assumes "str_enum members val"
  shows "att_enum members val v label = Inr x \<longleftrightarrow> v = JStr (val x)"
proof
  assume "v = JStr (val x)"
  then show "att_enum members val v label = Inr x"
    by (simp add: att_enum_def str_enum.parse_val [OF assms])
next
  assume "att_enum members val v label = Inr x"
  then show "v = JStr (val x)"
    by (auto simp: att_enum_def str_enum.parse_iff [OF assms] split: json.splits option.splits)
qed

lemmas att_enum_Inr [result_simps] =
  att_enum_member [OF purpose_enum.str_enum_axioms] att_enum_member [OF stage_enum.str_enum_axioms]
  att_enum_member [OF outcome_enum.str_enum_axioms]

lemma att_field_Inr [result_simps]:
  "att_dict v label = Inr d \<longleftrightarrow> v = JObj d"
  "att_string v label = Inr s \<longleftrightarrow> v = JStr s \<and> s \<noteq> []"
  "att_int v label = Inr i \<longleftrightarrow> v = JInt i"
  by (simp_all add: att_dict_def att_string_def att_int_def result_simps)

lemma att_optional_Inr [result_simps]:
  "att_optional att_string v label = Inr s \<longleftrightarrow> v = opt_json JStr s \<and> s \<noteq> Some []"
  "att_optional att_int v label = Inr i \<longleftrightarrow> v = opt_json JInt i"
  by (cases s; auto simp: att_optional_def opt_json_def result_simps)
     (cases i; auto simp: att_optional_def opt_json_def result_simps)

lemma check_sha256_Inr [result_simps]: "check_sha256 s label = Inr u \<longleftrightarrow> is_sha256 s"
  by (simp add: check_sha256_def result_simps)

lemma parse_timestamp_Inr [result_simps]: "parse_timestamp s label = Inr t \<longleftrightarrow> iso_instant s = Some t"
  by (auto simp: parse_timestamp_def iso_instant_def split: option.splits)

section \<open>The contract\<close>

record attempt_contract =
  ac_id :: string
  ac_index :: int
  ac_purpose :: run_purpose
  ac_sample :: string
  ac_packed :: string
  ac_manifest_id :: string
  ac_manifest_version :: int
  ac_goal :: string
  ac_stage :: execution_stage
  ac_schema :: int
  ac_version :: int
  ac_created :: string

definition check_contract :: "attempt_contract \<Rightarrow> attempt_error + attempt_contract" where
  "check_contract c =
     ebind (guard (ac_schema c = 1) (AttUnsupported ''schema_version'')) (\<lambda>_.
     ebind (guard (ac_version c = 1) (AttUnsupported ''contract_version'')) (\<lambda>_.
     ebind (guard (is_identifier (ac_id c)) (AttIdentifier ''attempt_id'')) (\<lambda>_.
     ebind (guard (0 \<le> ac_index c) (AttNegative ''attempt_index'')) (\<lambda>_.
     ebind (check_sha256 (ac_sample c) ''sample_sha256'') (\<lambda>_.
     ebind (check_sha256 (ac_packed c) ''packed_binary_sha256'') (\<lambda>_.
     ebind (guard (is_identifier (ac_manifest_id c)) (AttIdentifier ''environment_manifest_id'')) (\<lambda>_.
     ebind (guard (0 \<le> ac_manifest_version c) (AttNegative ''environment_manifest_version'')) (\<lambda>_.
     ebind (guard (is_identifier (ac_goal c)) (AttIdentifier ''goal_id'')) (\<lambda>_.
     ebind (parse_timestamp (ac_created c) ''created_at_utc'') (\<lambda>_.
     ebind (guard (ac_purpose c = Discovery \<longrightarrow> ac_stage c \<in> {StaticPreflight, PreOepDiscovery})
              (AttInitialStage Discovery)) (\<lambda>_.
     ebind (guard (ac_purpose c = FuzzingRun \<longrightarrow> ac_stage c = BoundaryReady)
              (AttInitialStage FuzzingRun)) (\<lambda>_.
     ebind (guard (ac_purpose c = ReconstructionRun \<longrightarrow> ac_stage c = Reconstruction)
              (AttInitialStage ReconstructionRun)) (\<lambda>_.
     Inr c)))))))))))))"

definition contract_identity :: "attempt_contract \<Rightarrow> (string \<times> json) list" where
  "contract_identity c =
     [(''schema_version'', JInt (ac_schema c)),
      (''contract_version'', JInt (ac_version c)),
      (''attempt_id'', JStr (ac_id c)),
      (''attempt_index'', JInt (ac_index c)),
      (''purpose'', JStr (purpose_value (ac_purpose c))),
      (''sample_sha256'', JStr (ac_sample c)),
      (''packed_binary_sha256'', JStr (ac_packed c)),
      (''environment_manifest_id'', JStr (ac_manifest_id c)),
      (''environment_manifest_version'', JInt (ac_manifest_version c)),
      (''goal_id'', JStr (ac_goal c)),
      (''initial_stage'', JStr (stage_value (ac_stage c)))]"

definition contract_sha256 :: "attempt_contract \<Rightarrow> string" where
  "contract_sha256 c = canonical_sha256 (JObj (contract_identity c))"

definition contract_to_dict :: "attempt_contract \<Rightarrow> json" where
  "contract_to_dict c = JObj (contract_identity c @
     [(''created_at_utc'', JStr (ac_created c)), (''contract_sha256'', JStr (contract_sha256 c))])"

definition contract_from_dict :: "json \<Rightarrow> attempt_error + attempt_contract" where
  "contract_from_dict raw =
     ebind (att_dict raw ''attempt contract'') (\<lambda>v.
     ebind (att_int (jget v ''schema_version'') ''schema_version'') (\<lambda>schema.
     ebind (att_int (jget v ''contract_version'') ''contract_version'') (\<lambda>version.
     ebind (att_string (jget v ''attempt_id'') ''attempt_id'') (\<lambda>aid.
     ebind (att_int (jget v ''attempt_index'') ''attempt_index'') (\<lambda>index.
     ebind (att_enum all_purposes purpose_value (jget v ''purpose'') ''attempt contract'') (\<lambda>purpose.
     ebind (att_string (jget v ''sample_sha256'') ''sample_sha256'') (\<lambda>sample.
     ebind (att_string (jget v ''packed_binary_sha256'') ''packed_binary_sha256'') (\<lambda>packed.
     ebind (att_string (jget v ''environment_manifest_id'') ''environment_manifest_id'') (\<lambda>mid.
     ebind (att_int (jget v ''environment_manifest_version'') ''environment_manifest_version'') (\<lambda>mversion.
     ebind (att_string (jget v ''goal_id'') ''goal_id'') (\<lambda>goal.
     ebind (att_enum all_stages stage_value (jget v ''initial_stage'') ''attempt contract'') (\<lambda>stage.
     ebind (att_string (jget v ''created_at_utc'') ''created_at_utc'') (\<lambda>created.
     ebind (check_contract
       \<lparr>ac_id = aid, ac_index = index, ac_purpose = purpose, ac_sample = sample, ac_packed = packed,
        ac_manifest_id = mid, ac_manifest_version = mversion, ac_goal = goal, ac_stage = stage,
        ac_schema = schema, ac_version = version, ac_created = created\<rparr>) (\<lambda>c.
     ebind (att_string (jget v ''contract_sha256'') ''contract_sha256'') (\<lambda>expected.
     ebind (check_sha256 expected ''contract_sha256'') (\<lambda>_.
     ebind (guard (expected = contract_sha256 c) (AttDigestMismatch ''attempt contract'')) (\<lambda>_.
     Inr c)))))))))))))))))"

text \<open>\<open>f"{index:03d}"\<close>; the caller has checked that the index is not negative.\<close>

definition pad3 :: "nat \<Rightarrow> string" where
  "pad3 n = (let s = show_nat n in replicate (3 - length s) (CHR ''0'') @ s)"

definition make_attempt_id :: "int \<Rightarrow> run_purpose \<Rightarrow> string \<Rightarrow> string \<Rightarrow> attempt_error + string" where
  "make_attempt_id index purpose sample mid =
     ebind (guard (0 \<le> index) (AttNegative ''attempt_index'')) (\<lambda>_.
     ebind (check_sha256 sample ''sample_sha256'') (\<lambda>_.
     ebind (guard (is_identifier mid) (AttIdentifier ''environment_manifest_id'')) (\<lambda>_.
     Inr (''attempt-'' @ pad3 (nat index) @ ''-'' @ take 12 (canonical_sha256 (JObj
       [(''attempt_index'', JInt index), (''purpose'', JStr (purpose_value purpose)),
        (''sample_sha256'', JStr sample), (''environment_manifest_id'', JStr mid)]))))))"

definition create_contract ::
    "string \<Rightarrow> int \<Rightarrow> run_purpose \<Rightarrow> string \<Rightarrow> string \<Rightarrow> string \<Rightarrow> int \<Rightarrow> string \<Rightarrow> execution_stage
     \<Rightarrow> attempt_error + attempt_contract" where
  "create_contract now index purpose sample packed mid mversion goal stage =
     ebind (make_attempt_id index purpose sample mid) (\<lambda>aid.
     check_contract
       \<lparr>ac_id = aid, ac_index = index, ac_purpose = purpose, ac_sample = sample, ac_packed = packed,
        ac_manifest_id = mid, ac_manifest_version = mversion, ac_goal = goal, ac_stage = stage,
        ac_schema = 1, ac_version = 1, ac_created = now\<rparr>)"

section \<open>Stage transitions\<close>

record stage_transition =
  st_sequence :: int
  st_from :: execution_stage
  st_to :: execution_stage
  st_reason :: string
  st_event :: string
  st_time :: string

definition check_transition :: "stage_transition \<Rightarrow> attempt_error + stage_transition" where
  "check_transition t =
     ebind (guard (0 \<le> st_sequence t) (AttNegative ''sequence'')) (\<lambda>_.
     ebind (guard (st_to t \<in> set (allowed_stages (st_from t))) (AttTransition (st_from t) (st_to t))) (\<lambda>_.
     ebind (guard (py_strip (st_reason t) \<noteq> []) AttNoReason) (\<lambda>_.
     ebind (guard (is_identifier (st_event t)) (AttIdentifier ''evidence_event_id'')) (\<lambda>_.
     ebind (parse_timestamp (st_time t) ''stage transition timestamp'') (\<lambda>_.
     Inr t)))))"

definition transition_to_dict :: "stage_transition \<Rightarrow> json" where
  "transition_to_dict t = JObj
     [(''sequence'', JInt (st_sequence t)),
      (''from_stage'', JStr (stage_value (st_from t))),
      (''to_stage'', JStr (stage_value (st_to t))),
      (''reason'', JStr (st_reason t)),
      (''evidence_event_id'', JStr (st_event t)),
      (''timestamp_utc'', JStr (st_time t))]"

definition transition_from_dict :: "json \<Rightarrow> attempt_error + stage_transition" where
  "transition_from_dict raw =
     ebind (att_dict raw ''stage transition'') (\<lambda>v.
     ebind (att_int (jget v ''sequence'') ''sequence'') (\<lambda>sequence.
     ebind (att_enum all_stages stage_value (jget v ''from_stage'') ''stage transition'') (\<lambda>from.
     ebind (att_enum all_stages stage_value (jget v ''to_stage'') ''stage transition'') (\<lambda>to.
     ebind (att_string (jget v ''reason'') ''reason'') (\<lambda>reason.
     ebind (att_string (jget v ''evidence_event_id'') ''evidence_event_id'') (\<lambda>event.
     ebind (att_string (jget v ''timestamp_utc'') ''timestamp_utc'') (\<lambda>time.
     check_transition \<lparr>st_sequence = sequence, st_from = from, st_to = to, st_reason = reason,
       st_event = event, st_time = time\<rparr>)))))))"

section \<open>Progress\<close>

record attempt_progress =
  ap_goal :: bool
  ap_reason :: "string option"
  ap_events :: int
  ap_coverage :: "int option"
  ap_observation :: "string option"

definition check_progress :: "attempt_progress \<Rightarrow> attempt_error + attempt_progress" where
  "check_progress p =
     ebind (guard (0 \<le> ap_events p) (AttNegative ''guest_events_total'')) (\<lambda>_.
     ebind (guard (pred_option (\<lambda>n. 0 \<le> n) (ap_coverage p)) (AttNegative ''coverage_edges'')) (\<lambda>_.
     ebind (guard (ap_goal p \<longrightarrow> ap_reason p \<notin> {None, Some []}) AttNoOracleReason) (\<lambda>_.
     ebind (case ap_observation p of None \<Rightarrow> Inr () | Some h \<Rightarrow> check_sha256 h ''observation_sha256'') (\<lambda>_.
     Inr p))))"

definition progress_to_dict :: "attempt_progress \<Rightarrow> json" where
  "progress_to_dict p = JObj
     [(''goal_reached'', JBool (ap_goal p)),
      (''oracle_reason'', opt_json JStr (ap_reason p)),
      (''guest_events_total'', JInt (ap_events p)),
      (''coverage_edges'', opt_json JInt (ap_coverage p)),
      (''observation_sha256'', opt_json JStr (ap_observation p))]"

definition progress_from_dict :: "json \<Rightarrow> attempt_error + attempt_progress" where
  "progress_from_dict raw =
     ebind (att_dict raw ''attempt progress'') (\<lambda>v.
     ebind (err_map AttField (require_bool (jget v ''goal_reached'') ''goal_reached'')) (\<lambda>goal.
     ebind (att_optional att_int (jget v ''coverage_edges'') ''coverage_edges'') (\<lambda>coverage.
     ebind (att_optional att_string (jget v ''observation_sha256'') ''observation_sha256'') (\<lambda>observation.
     ebind (att_optional att_string (jget v ''oracle_reason'') ''oracle_reason'') (\<lambda>reason.
     ebind (att_int (jget v ''guest_events_total'') ''guest_events_total'') (\<lambda>events.
     check_progress \<lparr>ap_goal = goal, ap_reason = reason, ap_events = events, ap_coverage = coverage,
       ap_observation = observation\<rparr>))))))"

section \<open>The result\<close>

record attempt_result =
  as_id :: string
  as_contract :: string
  as_outcome :: attempt_outcome
  as_initial :: execution_stage
  as_final :: execution_stage
  as_progress :: attempt_progress
  as_transitions :: "stage_transition list"
  as_fingerprint :: "string option"
  as_started :: string
  as_finished :: string
  as_schema :: int
  as_version :: int

text \<open>\<open>_validate_transition_chain\<close>: the loop over \<open>enumerate(self.transitions)\<close>, from a stage and a position.\<close>

fun check_chain :: "nat \<Rightarrow> execution_stage \<Rightarrow> stage_transition list \<Rightarrow> attempt_error + execution_stage" where
  "check_chain k expected [] = Inr expected"
| "check_chain k expected (t # ts) =
     ebind (guard (st_sequence t = int k) AttNotContiguous) (\<lambda>_.
     ebind (guard (st_from t = expected) AttBrokenChain) (\<lambda>_.
     check_chain (Suc k) (st_to t) ts))"

definition failure_outcomes :: "attempt_outcome list" where
  "failure_outcomes =
    [RepairRequired, TimedOut, Crashed, UnsupportedDependency, IsolationViolation, BackendIncompatible,
     ExecutionError]"

definition check_result :: "attempt_result \<Rightarrow> attempt_error + attempt_result" where
  "check_result r =
     ebind (guard (as_schema r = 1) (AttUnsupported ''schema_version'')) (\<lambda>_.
     ebind (guard (as_version r = 1) (AttUnsupported ''result_version'')) (\<lambda>_.
     ebind (guard (is_identifier (as_id r)) (AttIdentifier ''attempt_id'')) (\<lambda>_.
     ebind (check_sha256 (as_contract r) ''contract_sha256'') (\<lambda>_.
     ebind (parse_timestamp (as_started r) ''started_at_utc'') (\<lambda>started.
     ebind (parse_timestamp (as_finished r) ''finished_at_utc'') (\<lambda>finished.
     ebind (guard (started \<le> finished) AttFinishesEarly) (\<lambda>_.
     ebind (check_chain 0 (as_initial r) (as_transitions r)) (\<lambda>expected.
     ebind (guard (expected = as_final r) AttFinalStage) (\<lambda>_.
     ebind (guard (as_outcome r \<in> set failure_outcomes \<longrightarrow> as_fingerprint r \<noteq> None)
              (AttNoFingerprint (as_outcome r))) (\<lambda>_.
     ebind (case as_fingerprint r of None \<Rightarrow> Inr () | Some h \<Rightarrow> check_sha256 h ''failure_fingerprint'') (\<lambda>_.
     ebind (guard (as_outcome r = GoalReached \<longrightarrow> ap_goal (as_progress r)) AttGoalWithoutProgress) (\<lambda>_.
     ebind (guard (as_outcome r \<noteq> GoalReached \<longrightarrow> \<not> ap_goal (as_progress r)) AttProgressWithoutGoal) (\<lambda>_.
     Inr r)))))))))))))"

definition result_identity :: "attempt_result \<Rightarrow> (string \<times> json) list" where
  "result_identity r =
     [(''schema_version'', JInt (as_schema r)),
      (''result_version'', JInt (as_version r)),
      (''attempt_id'', JStr (as_id r)),
      (''contract_sha256'', JStr (as_contract r)),
      (''started_at_utc'', JStr (as_started r)),
      (''finished_at_utc'', JStr (as_finished r)),
      (''outcome'', JStr (outcome_value (as_outcome r))),
      (''initial_stage'', JStr (stage_value (as_initial r))),
      (''final_stage'', JStr (stage_value (as_final r))),
      (''failure_fingerprint'', opt_json JStr (as_fingerprint r)),
      (''progress'', progress_to_dict (as_progress r)),
      (''stage_transitions'', JList (map transition_to_dict (as_transitions r)))]"

definition result_sha256 :: "attempt_result \<Rightarrow> string" where
  "result_sha256 r = canonical_sha256 (JObj (result_identity r))"

definition attempt_result_to_dict :: "attempt_result \<Rightarrow> json" where
  "attempt_result_to_dict r = JObj (result_identity r @ [(''result_sha256'', JStr (result_sha256 r))])"

definition result_from_dict :: "json \<Rightarrow> attempt_error + attempt_result" where
  "result_from_dict raw =
     ebind (att_dict raw ''attempt result'') (\<lambda>v.
     ebind (err_map AttField (require_list (jget v ''stage_transitions'') ''stage_transitions'')) (\<lambda>transitions_raw.
     ebind (att_optional att_string (jget v ''failure_fingerprint'') ''failure_fingerprint'') (\<lambda>fingerprint.
     ebind (att_int (jget v ''schema_version'') ''schema_version'') (\<lambda>schema.
     ebind (att_int (jget v ''result_version'') ''result_version'') (\<lambda>version.
     ebind (att_string (jget v ''attempt_id'') ''attempt_id'') (\<lambda>aid.
     ebind (att_string (jget v ''contract_sha256'') ''contract_sha256'') (\<lambda>contract.
     ebind (att_string (jget v ''started_at_utc'') ''started_at_utc'') (\<lambda>started.
     ebind (att_string (jget v ''finished_at_utc'') ''finished_at_utc'') (\<lambda>finished.
     ebind (att_enum all_outcomes outcome_value (jget v ''outcome'') ''attempt result'') (\<lambda>outcome.
     ebind (att_enum all_stages stage_value (jget v ''initial_stage'') ''attempt result'') (\<lambda>initial.
     ebind (att_enum all_stages stage_value (jget v ''final_stage'') ''attempt result'') (\<lambda>final.
     ebind (progress_from_dict (jget v ''progress'')) (\<lambda>progress.
     ebind (emap transition_from_dict transitions_raw) (\<lambda>transitions.
     ebind (check_result
       \<lparr>as_id = aid, as_contract = contract, as_outcome = outcome, as_initial = initial, as_final = final,
        as_progress = progress, as_transitions = transitions, as_fingerprint = fingerprint,
        as_started = started, as_finished = finished, as_schema = schema, as_version = version\<rparr>) (\<lambda>r.
     ebind (att_string (jget v ''result_sha256'') ''result_sha256'') (\<lambda>expected.
     ebind (check_sha256 expected ''result_sha256'') (\<lambda>_.
     ebind (guard (expected = result_sha256 r) (AttDigestMismatch ''attempt result'')) (\<lambda>_.
     Inr r))))))))))))))))))"

definition make_failure_fingerprint ::
    "attempt_outcome \<Rightarrow> execution_stage \<Rightarrow> int option \<Rightarrow> string option \<Rightarrow> string option \<Rightarrow> string option
     \<Rightarrow> attempt_error + string" where
  "make_failure_fingerprint outcome stage exit_code signal error_code blocking_resource =
     (if outcome = GoalReached then Inl AttGoalFingerprint
      else Inr (canonical_sha256 (JObj
        [(''outcome'', JStr (outcome_value outcome)), (''stage'', JStr (stage_value stage)),
         (''exit_code'', opt_json JInt exit_code), (''signal'', opt_json JStr signal),
         (''error_code'', opt_json JStr error_code), (''blocking_resource'', opt_json JStr blocking_resource)])))"

section \<open>Accepted values and round trips\<close>

lemma is_sha256_not_Nil [simp]: "\<not> is_sha256 []"
  by (simp add: is_sha256_def)

lemma is_sha256_nonempty: "is_sha256 s \<Longrightarrow> s \<noteq> []"
  by auto

lemma identifier_not_Nil [simp]: "\<not> is_identifier []"
  by (simp add: is_identifier_def)

lemma iso_not_Nil [simp]: "iso_instant [] = None"
  by (simp add: iso_instant_def iso_datetime_def)

lemma check_contract_Inr:
  "check_contract c = Inr d \<longleftrightarrow> d = c \<and> ac_schema c = 1 \<and> ac_version c = 1 \<and> is_identifier (ac_id c) \<and>
     0 \<le> ac_index c \<and> is_sha256 (ac_sample c) \<and> is_sha256 (ac_packed c) \<and> is_identifier (ac_manifest_id c) \<and>
     0 \<le> ac_manifest_version c \<and> is_identifier (ac_goal c) \<and> iso_instant (ac_created c) \<noteq> None \<and>
     (ac_purpose c = Discovery \<longrightarrow> ac_stage c \<in> {StaticPreflight, PreOepDiscovery}) \<and>
     (ac_purpose c = FuzzingRun \<longrightarrow> ac_stage c = BoundaryReady) \<and>
     (ac_purpose c = ReconstructionRun \<longrightarrow> ac_stage c = Reconstruction)"
  by (auto simp: check_contract_def result_simps)

lemma check_contract_id: "check_contract c = Inr d \<Longrightarrow> d = c"
  by (simp add: check_contract_Inr)

lemma contract_fold [simp]:
  "\<lparr>ac_id = ac_id c, ac_index = ac_index c, ac_purpose = ac_purpose c, ac_sample = ac_sample c,
    ac_packed = ac_packed c, ac_manifest_id = ac_manifest_id c, ac_manifest_version = ac_manifest_version c,
    ac_goal = ac_goal c, ac_stage = ac_stage c, ac_schema = ac_schema c, ac_version = ac_version c,
    ac_created = ac_created c\<rparr> = (c :: attempt_contract)"
  by simp

lemma contract_roundtrip:
  assumes "check_contract c = Inr c"
  shows "contract_from_dict (contract_to_dict c) = Inr c"
proof -
  have ne: "ac_id c \<noteq> []" "ac_sample c \<noteq> []" "ac_packed c \<noteq> []" "ac_manifest_id c \<noteq> []" "ac_goal c \<noteq> []"
      "ac_created c \<noteq> []" "contract_sha256 c \<noteq> []"
    using assms is_sha256_nonempty [of "contract_sha256 c"] by (auto simp: check_contract_Inr contract_sha256_def)
  have "is_sha256 (contract_sha256 c)" by (simp add: contract_sha256_def)
  with assms ne show ?thesis
    by (simp add: contract_from_dict_def contract_to_dict_def contract_identity_def result_simps
        att_string_def att_int_def att_dict_def att_enum_def check_sha256_def guard_def)
qed

lemma contract_accepts:
  assumes "contract_from_dict v = Inr c"
  shows "check_contract c = Inr c"
  using assms by (clarsimp simp: contract_from_dict_def result_simps) (frule check_contract_id, simp)

lemma check_transition_Inr:
  "check_transition t = Inr u \<longleftrightarrow> u = t \<and> 0 \<le> st_sequence t \<and> st_to t \<in> set (allowed_stages (st_from t)) \<and>
     py_strip (st_reason t) \<noteq> [] \<and> is_identifier (st_event t) \<and> iso_instant (st_time t) \<noteq> None"
  by (auto simp: check_transition_def result_simps)

lemma transition_roundtrip:
  assumes "check_transition t = Inr t"
  shows "transition_from_dict (transition_to_dict t) = Inr t"
proof -
  have "st_reason t \<noteq> []" "st_event t \<noteq> []" "st_time t \<noteq> []"
    using assms by (auto simp: check_transition_Inr py_strip_def rstrip_while_def)
  with assms show ?thesis
    by (cases t) (simp add: transition_from_dict_def transition_to_dict_def att_string_def att_int_def att_dict_def att_enum_def)
qed

lemma check_progress_Inr:
  "check_progress p = Inr q \<longleftrightarrow> q = p \<and> 0 \<le> ap_events p \<and> pred_option (\<lambda>n. 0 \<le> n) (ap_coverage p) \<and>
     (ap_goal p \<longrightarrow> ap_reason p \<notin> {None, Some []}) \<and> pred_option is_sha256 (ap_observation p)"
  by (auto simp: check_progress_def result_simps split: option.splits)

lemma progress_roundtrip:
  assumes "check_progress p = Inr p" "ap_reason p \<noteq> Some []"
  shows "progress_from_dict (progress_to_dict p) = Inr p"
proof -
  have "ap_observation p \<noteq> Some []" using assms(1) by (auto simp: check_progress_Inr)
  then have "att_optional att_string (opt_json JStr (ap_observation p)) l = Inr (ap_observation p)"
      "att_optional att_string (opt_json JStr (ap_reason p)) l = Inr (ap_reason p)"
      "att_optional att_int (opt_json JInt (ap_coverage p)) l = Inr (ap_coverage p)" for l
    using assms(2) by (simp_all add: result_simps)
  with assms(1) show ?thesis
    by (cases p) (simp add: progress_from_dict_def progress_to_dict_def att_int_def att_dict_def)
qed

lemma progress_accepts:
  "progress_from_dict v = Inr p \<Longrightarrow> check_progress p = Inr p \<and> ap_reason p \<noteq> Some []"
  by (auto simp: progress_from_dict_def result_simps check_progress_Inr)

lemma transition_accepts: "transition_from_dict v = Inr t \<Longrightarrow> check_transition t = Inr t"
  by (auto simp: transition_from_dict_def result_simps check_transition_Inr)

text \<open>A result whose parts have passed their own checks, as every Python object has.\<close>

definition wf_result :: "attempt_result \<Rightarrow> bool" where
  "wf_result r \<longleftrightarrow> check_result r = Inr r \<and> check_progress (as_progress r) = Inr (as_progress r) \<and>
     (\<forall>t \<in> set (as_transitions r). check_transition t = Inr t)"

lemma check_result_Inr:
  "check_result r = Inr s \<longleftrightarrow> s = r \<and> as_schema r = 1 \<and> as_version r = 1 \<and> is_identifier (as_id r) \<and>
     is_sha256 (as_contract r) \<and>
     (\<exists>a b. iso_instant (as_started r) = Some a \<and> iso_instant (as_finished r) = Some b \<and> a \<le> b) \<and>
     check_chain 0 (as_initial r) (as_transitions r) = Inr (as_final r) \<and>
     (as_outcome r \<in> set failure_outcomes \<longrightarrow> as_fingerprint r \<noteq> None) \<and>
     pred_option is_sha256 (as_fingerprint r) \<and>
     (as_outcome r = GoalReached \<longleftrightarrow> ap_goal (as_progress r))"
  by (auto simp: check_result_def result_simps split: option.splits)

lemma result_fold [simp]:
  "\<lparr>as_id = as_id r, as_contract = as_contract r, as_outcome = as_outcome r, as_initial = as_initial r,
    as_final = as_final r, as_progress = as_progress r, as_transitions = as_transitions r,
    as_fingerprint = as_fingerprint r, as_started = as_started r, as_finished = as_finished r,
    as_schema = as_schema r, as_version = as_version r\<rparr> = (r :: attempt_result)"
  by simp

lemma check_result_id: "check_result r = Inr s \<Longrightarrow> s = r"
  by (simp add: check_result_Inr)

lemma result_roundtrip:
  assumes "wf_result r" "ap_reason (as_progress r) \<noteq> Some []"
  shows "result_from_dict (attempt_result_to_dict r) = Inr r"
proof -
  have ok: "check_result r = Inr r" using assms(1) by (simp add: wf_result_def)
  have ts: "emap transition_from_dict (map transition_to_dict (as_transitions r)) = Inr (as_transitions r)"
    using emap_all [of "as_transitions r" "\<lambda>t. transition_from_dict (transition_to_dict t)" id] transition_roundtrip assms(1)
    by (simp add: emap_map wf_result_def)
  have pr: "progress_from_dict (progress_to_dict (as_progress r)) = Inr (as_progress r)"
    using assms by (intro progress_roundtrip) (simp_all add: wf_result_def)
  have ne: "as_id r \<noteq> []" "as_contract r \<noteq> []" "as_started r \<noteq> []" "as_finished r \<noteq> []" "result_sha256 r \<noteq> []"
      "as_fingerprint r \<noteq> Some []"
    using ok is_sha256_nonempty [of "result_sha256 r"] by (auto simp: check_result_Inr result_sha256_def)
  then have fp: "att_optional att_string (opt_json JStr (as_fingerprint r)) l = Inr (as_fingerprint r)" for l
    by (simp add: result_simps)
  have "is_sha256 (result_sha256 r)" by (simp add: result_sha256_def)
  with ok ne ts pr fp show ?thesis
    by (simp add: result_from_dict_def attempt_result_to_dict_def result_identity_def att_string_def att_int_def att_dict_def
        att_enum_def check_sha256_def guard_def)
qed

lemma result_accepts:
  assumes "result_from_dict v = Inr r"
  shows "wf_result r" "ap_reason (as_progress r) \<noteq> Some []"
proof -
  from assms obtain p ts xs where p: "progress_from_dict p = Inr (as_progress r)"
      and ts: "emap transition_from_dict xs = Inr (as_transitions r)" and ok: "check_result r = Inr r"
    by (clarsimp simp: result_from_dict_def result_simps) (frule check_result_id, force)
  show "wf_result r" "ap_reason (as_progress r) \<noteq> Some []"
    using ok progress_accepts [OF p] emap_set [OF ts] transition_accepts by (auto simp: wf_result_def)
qed

end
