(* ===== verification/Attempt_Store.thy ===== *)
theory Attempt_Store
  imports Attempt "HOL-Library.List_Lexorder"
begin

text \<open>
  The append-only attempt store (\<open>AttemptStore\<close> of \<open>taintforge_env/attempt.py\<close>): one directory
  per attempt with a contract and at most one result.  The state is what the store's directory
  holds; \<open>between\<close> is what other processes do between the existence test and the hard link that
  publishes a file.  Files hold JSON values: \<open>json.loads\<close> reads back what \<open>json.dumps\<close> wrote.
\<close>

section \<open>The directory\<close>

text \<open>
  A file's value is \<open>None\<close> when its text is no JSON.  A symbolic link leads to a directory, to
  something else, or nowhere.
\<close>

datatype link_target = ToDirectory | ToOther | Dangling

datatype artifact = ArtMissing | ArtSymlink | ArtOther | ArtFile "json option"

record attempt_directory =
  ad_contract :: artifact
  ad_result :: artifact

datatype store_entry = EntrySymlink link_target | EntryOther | EntryDir attempt_directory

datatype attempt_store = StoreMissing | StoreSymlink link_target | StoreOther | StoreDir "(string \<times> store_entry) list"

type_synonym 'a outcome = "(attempt_error + 'a) \<times> attempt_store"

definition empty_directory :: attempt_directory where
  "empty_directory = \<lparr>ad_contract = ArtMissing, ad_result = ArtMissing\<rparr>"

fun put_entry :: "string \<Rightarrow> store_entry \<Rightarrow> (string \<times> store_entry) list \<Rightarrow> (string \<times> store_entry) list" where
  "put_entry k e [] = [(k, e)]"
| "put_entry k e ((l, f) # es) = (if k = l then (k, e) # es else (l, f) # put_entry k e es)"

datatype slot = ContractSlot | ResultSlot

fun slot_name :: "slot \<Rightarrow> string" where
  "slot_name ContractSlot = ''attempt contract''"
| "slot_name ResultSlot = ''attempt result''"

fun get_slot :: "slot \<Rightarrow> attempt_directory \<Rightarrow> artifact" where
  "get_slot ContractSlot d = ad_contract d"
| "get_slot ResultSlot d = ad_result d"

fun set_slot :: "slot \<Rightarrow> artifact \<Rightarrow> attempt_directory \<Rightarrow> attempt_directory" where
  "set_slot ContractSlot a d = d\<lparr>ad_contract := a\<rparr>"
| "set_slot ResultSlot a d = d\<lparr>ad_result := a\<rparr>"

text \<open>What a path of the store shows: the artifact of an attempt, when its directories are directories.\<close>

definition store_directory :: "attempt_store \<Rightarrow> string \<Rightarrow> attempt_directory option" where
  "store_directory s aid =
     (case s of StoreDir es \<Rightarrow> (case map_of es aid of Some (EntryDir d) \<Rightarrow> Some d | _ \<Rightarrow> None) | _ \<Rightarrow> None)"

definition store_artifact :: "attempt_store \<Rightarrow> string \<Rightarrow> slot \<Rightarrow> artifact" where
  "store_artifact s aid sl = (case store_directory s aid of Some d \<Rightarrow> get_slot sl d | None \<Rightarrow> ArtMissing)"

section \<open>Paths\<close>

definition validate_attempt_id :: "string \<Rightarrow> attempt_error + unit" where
  "validate_attempt_id aid = guard (is_attempt_id aid) AttStoreId"

text \<open>\<open>mkdir(exist_ok=True)\<close> tolerates what leads to a directory and raises \<open>FileExistsError\<close> otherwise.\<close>

definition prepare_attempt_directory :: "attempt_store \<Rightarrow> string \<Rightarrow> attempt_directory outcome" where
  "prepare_attempt_directory s aid =
     (if \<not> is_attempt_id aid then (Inl AttStoreId, s)
      else case s of
        StoreMissing \<Rightarrow> (Inr empty_directory, StoreDir [(aid, EntryDir empty_directory)])
      | StoreSymlink ToDirectory \<Rightarrow> (Inl AttStoreInvalid, s)
      | StoreSymlink _ \<Rightarrow> (Inl AttOsError, s)
      | StoreOther \<Rightarrow> (Inl AttOsError, s)
      | StoreDir es \<Rightarrow>
          (case map_of es aid of
             None \<Rightarrow> (Inr empty_directory, StoreDir (put_entry aid (EntryDir empty_directory) es))
           | Some (EntrySymlink ToDirectory) \<Rightarrow> (Inl AttDirectoryInvalid, s)
           | Some (EntrySymlink _) \<Rightarrow> (Inl AttOsError, s)
           | Some EntryOther \<Rightarrow> (Inl AttOsError, s)
           | Some (EntryDir d) \<Rightarrow> (Inr d, s)))"

definition validated_artifact :: "attempt_store \<Rightarrow> string \<Rightarrow> slot \<Rightarrow> attempt_error + json option" where
  "validated_artifact s aid sl =
     ebind (validate_attempt_id aid) (\<lambda>_.
     case s of
       StoreDir es \<Rightarrow>
         (case map_of es aid of
            Some (EntryDir d) \<Rightarrow>
              (case get_slot sl d of ArtFile v \<Rightarrow> Inr v | _ \<Rightarrow> Inl (AttArtifactInvalid (slot_name sl)))
          | _ \<Rightarrow> Inl AttDirectoryInvalid)
     | _ \<Rightarrow> Inl AttStoreInvalid)"

section \<open>Loading\<close>

definition load_value :: "json option \<Rightarrow> slot \<Rightarrow> attempt_error + json" where
  "load_value v sl =
     (case v of
        None \<Rightarrow> Inl (AttInvalidJson (slot_name sl))
      | Some x \<Rightarrow> ebind (att_dict x (slot_name sl)) (\<lambda>d. Inr (JObj d)))"

text \<open>\<open>AttemptContract.load\<close> and \<open>AttemptResult.load\<close> on a path that is no symbolic link\<close>

definition load_artifact :: "(json \<Rightarrow> attempt_error + 'a) \<Rightarrow> slot \<Rightarrow> artifact \<Rightarrow> attempt_error + 'a" where
  "load_artifact decode sl a =
     (case a of
        ArtMissing \<Rightarrow> Inl (AttMissing (slot_name sl))
      | ArtFile v \<Rightarrow> ebind (load_value v sl) decode
      | _ \<Rightarrow> Inl AttOsError)"

definition validate_result_link :: "attempt_contract \<Rightarrow> attempt_result \<Rightarrow> attempt_error + unit" where
  "validate_result_link c r =
     ebind (guard (as_id r = ac_id c) AttLinkId) (\<lambda>_.
     ebind (guard (as_contract r = contract_sha256 c) AttLinkDigest) (\<lambda>_.
     guard (as_initial r = ac_stage c) AttLinkStage))"

definition load_contract :: "attempt_store \<Rightarrow> string \<Rightarrow> attempt_error + attempt_contract" where
  "load_contract s aid =
     ebind (validated_artifact s aid ContractSlot) (\<lambda>v.
     ebind (load_value v ContractSlot) contract_from_dict)"

definition load_result :: "attempt_store \<Rightarrow> string \<Rightarrow> attempt_error + attempt_result" where
  "load_result s aid =
     ebind (validated_artifact s aid ResultSlot) (\<lambda>v.
     ebind (ebind (load_value v ResultSlot) result_from_dict) (\<lambda>r.
     ebind (load_contract s aid) (\<lambda>c.
     ebind (validate_result_link c r) (\<lambda>_. Inr r))))"

section \<open>Saving\<close>

text \<open>\<open>_append_only_write_json\<close>: the hard link refuses an existing path.\<close>

definition publish :: "attempt_store \<Rightarrow> string \<Rightarrow> slot \<Rightarrow> json \<Rightarrow> unit outcome" where
  "publish s aid sl v =
     (case s of
        StoreDir es \<Rightarrow>
          (case map_of es aid of
             Some (EntryDir d) \<Rightarrow>
               (if get_slot sl d = ArtMissing
                then (Inr (), StoreDir (put_entry aid (EntryDir (set_slot sl (ArtFile (Some v)) d)) es))
                else (Inl (AttOverwrite (slot_name sl)), s))
           | _ \<Rightarrow> (Inl AttOsError, s))
      | _ \<Rightarrow> (Inl AttOsError, s))"

text \<open>The common end of \<open>save_contract\<close> and \<open>save_result\<close>.\<close>

definition save_artifact ::
    "(attempt_store \<Rightarrow> attempt_store) \<Rightarrow> attempt_store \<Rightarrow> string \<Rightarrow> slot
     \<Rightarrow> (json \<Rightarrow> attempt_error + 'a) \<Rightarrow> ('a \<Rightarrow> string) \<Rightarrow> string \<Rightarrow> json \<Rightarrow> unit outcome" where
  "save_artifact between s aid sl decode digest new_digest payload =
     (case prepare_attempt_directory s aid of
        (Inl e, s1) \<Rightarrow> (Inl e, s1)
      | (Inr d, s1) \<Rightarrow>
          (case get_slot sl d of
             ArtSymlink \<Rightarrow> (Inl (AttArtifactSymlink (slot_name sl)), s1)
           | ArtMissing \<Rightarrow> publish (between s1) aid sl payload
           | a \<Rightarrow>
               (case load_artifact decode sl a of
                  Inl e \<Rightarrow> (Inl e, s1)
                | Inr x \<Rightarrow>
                    (if digest x \<noteq> new_digest then (Inl (AttImmutable aid), s1) else (Inr (), s1)))))"

definition save_contract ::
    "(attempt_store \<Rightarrow> attempt_store) \<Rightarrow> attempt_store \<Rightarrow> attempt_contract \<Rightarrow> unit outcome" where
  "save_contract between s c =
     save_artifact between s (ac_id c) ContractSlot contract_from_dict contract_sha256
       (contract_sha256 c) (contract_to_dict c)"

definition save_result ::
    "(attempt_store \<Rightarrow> attempt_store) \<Rightarrow> attempt_store \<Rightarrow> attempt_result \<Rightarrow> unit outcome" where
  "save_result between s r =
     (case ebind (load_contract s (as_id r)) (\<lambda>c. validate_result_link c r) of
        Inl e \<Rightarrow> (Inl e, s)
      | Inr _ \<Rightarrow>
          save_artifact between s (as_id r) ResultSlot result_from_dict result_sha256
            (result_sha256 r) (attempt_result_to_dict r))"

section \<open>Verification and listing\<close>

definition verify_attempt ::
    "attempt_store \<Rightarrow> string \<Rightarrow> bool \<Rightarrow> attempt_error + (attempt_contract \<times> attempt_result option)" where
  "verify_attempt s aid require_result =
     ebind (load_contract s aid) (\<lambda>c.
     case store_artifact s aid ResultSlot of
       ArtSymlink \<Rightarrow> Inl (AttArtifactSymlink (slot_name ResultSlot))
     | ArtMissing \<Rightarrow> (if require_result then Inl AttLacksResult else Inr (c, None))
     | _ \<Rightarrow> ebind (load_result s aid) (\<lambda>r. Inr (c, Some r)))"

text \<open>\<open>int(name.split("-", 2)[1])\<close> of a validated name\<close>

definition attempt_number :: "string \<Rightarrow> nat" where
  "attempt_number aid = digits_value (takeWhile ascii_digit (drop 8 aid))"

definition check_store_entry :: "string \<times> store_entry \<Rightarrow> attempt_error + string" where
  "check_store_entry x =
     (case x of
        (aid, EntryDir d) \<Rightarrow> ebind (validate_attempt_id aid) (\<lambda>_. Inr aid)
      | (aid, _) \<Rightarrow> Inl (AttStoreEntry aid))"

definition list_attempt_ids :: "attempt_store \<Rightarrow> attempt_error + string list" where
  "list_attempt_ids s =
     (case s of
        StoreMissing \<Rightarrow> Inr []
      | StoreDir es \<Rightarrow> ebind (emap check_store_entry es) (\<lambda>ids. Inr (sort_key attempt_number ids))
      | StoreSymlink Dangling \<Rightarrow> Inr []
      | _ \<Rightarrow> Inl AttStoreInvalid)"

section \<open>What saving keeps\<close>

lemma map_of_put_entry [simp]: "map_of (put_entry k e es) = (map_of es)(k \<mapsto> e)"
  by (induction k e es rule: put_entry.induct) (auto simp: fun_eq_iff)

lemma get_set_slot [simp]: "get_slot sl (set_slot sm a d) = (if sl = sm then a else get_slot sl d)"
  by (cases sl; cases sm) auto

lemma get_slot_empty [simp]: "get_slot sl empty_directory = ArtMissing"
  by (cases sl) (auto simp: empty_directory_def)

text \<open>\<open>keeps f\<close>: what was published stays as it is.\<close>

definition keeps :: "attempt_store \<Rightarrow> attempt_store \<Rightarrow> bool" where
  "keeps s t \<longleftrightarrow> (\<forall>aid sl. store_artifact s aid sl \<noteq> ArtMissing \<longrightarrow> store_artifact t aid sl = store_artifact s aid sl)"

lemma keeps_refl [simp]: "keeps s s"
  by (simp add: keeps_def)

lemma keeps_trans: "keeps s t \<Longrightarrow> keeps t u \<Longrightarrow> keeps s u"
  by (auto simp: keeps_def)

lemma prepare_result:
  assumes "prepare_attempt_directory s aid = (Inr d, t)"
  shows "is_attempt_id aid" "\<exists>es. t = StoreDir es \<and> map_of es aid = Some (EntryDir d)"
    "get_slot sl d = store_artifact s aid sl" "keeps s t"
  using assms
  by (auto simp: prepare_attempt_directory_def store_artifact_def store_directory_def keeps_def
      split: if_splits attempt_store.splits option.splits store_entry.splits link_target.splits)

lemma prepare_error:
  assumes "prepare_attempt_directory s aid = (Inl e, t)"
  shows "t = s"
  using assms
  by (auto simp: prepare_attempt_directory_def
      split: if_splits attempt_store.splits option.splits store_entry.splits link_target.splits)

lemma publish_keeps: "keeps s (snd (publish s aid sl v))"
  by (auto simp: publish_def keeps_def store_artifact_def store_directory_def
      split: attempt_store.splits option.splits store_entry.splits if_splits)

lemma publish_done:
  assumes "publish s aid sl v = (Inr u, t)"
  shows "store_artifact t aid sl = ArtFile (Some v)" "store_artifact s aid sl = ArtMissing"
  using assms
  by (auto simp: publish_def store_artifact_def store_directory_def
      split: attempt_store.splits option.splits store_entry.splits if_splits)

lemma save_artifact_keeps:
  assumes "\<And>u. keeps u (between u)"
  shows "keeps s (snd (save_artifact between s aid sl decode digest new payload))"
proof (cases "prepare_attempt_directory s aid")
  case (Pair r s1)
  show ?thesis
  proof (cases r)
    case (Inl e)
    then show ?thesis using prepare_error [of s aid e s1] Pair by (simp add: save_artifact_def)
  next
    case (Inr d)
    have k: "keeps s s1" using prepare_result(4) Pair Inr by blast
    have "keeps s (snd (publish (between s1) aid sl payload))"
      by (rule keeps_trans [OF keeps_trans [OF k assms] publish_keeps])
    with k show ?thesis
      using Pair Inr by (auto simp: save_artifact_def split: artifact.splits sum.splits)
  qed
qed

text \<open>What a successful save leaves behind: the new payload, or what was there, with the same digest.\<close>

lemma save_artifact_done:
  assumes "save_artifact between s aid sl decode digest new payload = (Inr u, t)"
  shows "is_attempt_id aid \<and>
    (store_artifact t aid sl = ArtFile (Some payload) \<or>
     (\<exists>x. load_artifact decode sl (store_artifact s aid sl) = Inr x \<and> digest x = new \<and>
        store_artifact t aid sl = store_artifact s aid sl))"
proof -
  obtain d s1 where prep: "prepare_attempt_directory s aid = (Inr d, s1)"
    using assms by (auto simp: save_artifact_def split: prod.splits sum.splits)
  note p = prepare_result [OF prep]
  have st: "store_artifact s1 aid sl = get_slot sl d"
    using p(2) by (auto simp: store_artifact_def store_directory_def)
  show ?thesis
    using assms p(1) st p(3) [of sl] publish_done(1) [of "between s1" aid sl payload u t]
    by (auto simp: save_artifact_def prep split: artifact.splits sum.splits if_splits)
qed

section \<open>Loading what is stored\<close>

lemma validated_artifact_Inr:
  "validated_artifact s aid sl = Inr v \<longleftrightarrow> is_attempt_id aid \<and> store_artifact s aid sl = ArtFile v"
  by (auto simp: validated_artifact_def validate_attempt_id_def store_artifact_def store_directory_def
      split: attempt_store.splits option.splits store_entry.splits artifact.splits)

lemma decoded_objects:
  "contract_from_dict x = Inr c \<Longrightarrow> \<exists>d. x = JObj d" "result_from_dict x = Inr r \<Longrightarrow> \<exists>d. x = JObj d"
  by (cases x; simp add: contract_from_dict_def att_dict_def) (cases x; simp add: result_from_dict_def att_dict_def)

lemma load_value_Inr: "load_value v sl = Inr x \<longleftrightarrow> v = Some x \<and> (\<exists>d. x = JObj d)"
  by (auto simp: load_value_def result_simps split: option.splits)

lemma load_value_contract: "ebind (load_value v ContractSlot) contract_from_dict = Inr c \<longleftrightarrow>
    (\<exists>x. v = Some x \<and> contract_from_dict x = Inr c)"
  using decoded_objects(1) by (auto simp: ebind_Inr_iff load_value_Inr)

lemma load_value_result: "ebind (load_value v ResultSlot) result_from_dict = Inr r \<longleftrightarrow>
    (\<exists>x. v = Some x \<and> result_from_dict x = Inr r)"
  using decoded_objects(2) by (auto simp: ebind_Inr_iff load_value_Inr)

lemma load_contract_Inr:
  "load_contract s aid = Inr c \<longleftrightarrow>
     is_attempt_id aid \<and> (\<exists>x. store_artifact s aid ContractSlot = ArtFile (Some x) \<and> contract_from_dict x = Inr c)"
  by (auto simp: load_contract_def ebind_Inr_iff [of "validated_artifact s aid sl" for sl]
      validated_artifact_Inr load_value_contract)

lemma validate_result_link_Inr:
  "validate_result_link c r = Inr u \<longleftrightarrow>
     as_id r = ac_id c \<and> as_contract r = contract_sha256 c \<and> as_initial r = ac_stage c"
  by (simp add: validate_result_link_def result_simps)

lemma load_result_Inr:
  "load_result s aid = Inr r \<longleftrightarrow> is_attempt_id aid \<and>
     (\<exists>x. store_artifact s aid ResultSlot = ArtFile (Some x) \<and> result_from_dict x = Inr r) \<and>
     (\<exists>c. load_contract s aid = Inr c \<and> validate_result_link c r = Inr ())"
  unfolding load_result_def ebind_Inr_iff [of "validated_artifact s aid ResultSlot"]
    ebind_Inr_iff [of "ebind (load_value v ResultSlot) result_from_dict" for v] load_value_result
  by (auto simp: validated_artifact_Inr ebind_Inr_iff)

lemma contract_identity_determined:
  assumes "contract_sha256 c = contract_sha256 d"
  shows "contract_identity c = contract_identity d \<or>
    sha256_collision (canonical_json (JObj (contract_identity c))) (canonical_json (JObj (contract_identity d)))"
proof -
  have ff: "float_free (JObj (contract_identity x))" for x
    by (simp add: contract_identity_def)
  have dist: "distinct (map fst (contract_identity x))" for x
    by (simp add: contract_identity_def)
  consider "sort_json (JObj (contract_identity c)) = sort_json (JObj (contract_identity d))"
    | "sha256_collision (canonical_json (JObj (contract_identity c))) (canonical_json (JObj (contract_identity d)))"
    using canonical_sha256_eq [OF _ ff ff] assms unfolding contract_sha256_def by blast
  then show ?thesis
  proof cases
    case 1
    note get = sorted_jget [OF 1 dist dist]
    show ?thesis
      using get [of "''schema_version''"] get [of "''contract_version''"] get [of "''attempt_id''"]
        get [of "''attempt_index''"] get [of "''purpose''"] get [of "''sample_sha256''"]
        get [of "''packed_binary_sha256''"] get [of "''environment_manifest_id''"]
        get [of "''environment_manifest_version''"] get [of "''goal_id''"] get [of "''initial_stage''"]
      by (simp add: contract_identity_def)
  qed simp
qed

end
