(* ===== verification/Attempt_Properties.thy ===== *)
theory Attempt_Properties
  imports Attempt_Store
begin

text \<open>
  Properties of execution attempts: the order of the stages a result can report, the codecs of
  contracts and results, and what the append-only store keeps.
\<close>

section \<open>The stage machine\<close>

definition stage_pipeline :: "execution_stage list" where
  "stage_pipeline = [OepCandidate, OepValidation, PostOepStabilization, BoundaryDiscovery, BoundaryReady, Fuzzing]"

fun stage_rank :: "execution_stage \<Rightarrow> nat" where
  "stage_rank OepCandidate = 1"
| "stage_rank OepValidation = 2"
| "stage_rank PostOepStabilization = 3"
| "stage_rank BoundaryDiscovery = 4"
| "stage_rank BoundaryReady = 5"
| "stage_rank Fuzzing = 6"
| "stage_rank _ = 0"

inductive stage_step :: "execution_stage \<Rightarrow> execution_stage \<Rightarrow> bool" where
  move: "to \<in> set (allowed_stages from) \<Longrightarrow> stage_step from to"

inductive_simps stage_step_iff: "stage_step from to"

text \<open>A step climbs the pipeline by at most one stage.\<close>

lemma step_rank:
  assumes "stage_step a b"
  shows "stage_rank b \<le> stage_rank a \<or> take (stage_rank b) stage_pipeline = take (stage_rank a) stage_pipeline @ [b]"
  using assms unfolding stage_step_iff by (cases a) (auto simp: stage_pipeline_def)

lemma subseq_take_le: "n \<le> m \<Longrightarrow> subseq (take n xs) (take m xs)"
  using prefix_imp_subseq [OF take_is_prefix [of n "take m xs"]] by (simp add: min_absorb1)

lemma chain_visits:
  assumes "check_chain k a ts = Inr b" "\<forall>t \<in> set ts. stage_step (st_from t) (st_to t)"
    and "subseq (take (stage_rank a) stage_pipeline) seen"
  shows "subseq (take (stage_rank b) stage_pipeline) (seen @ map st_to ts)"
  using assms
proof (induction k a ts arbitrary: seen rule: check_chain.induct)
  case (1 k a)
  then show ?case by simp
next
  case (2 k a t ts)
  from 2(2) have f: "st_sequence t = int k" "st_from t = a" and rest: "check_chain (Suc k) (st_to t) ts = Inr b"
    by (auto simp: result_simps)
  have step: "stage_step a (st_to t)" using 2(3) f by auto
  have "subseq (take (stage_rank (st_to t)) stage_pipeline) (seen @ [st_to t])"
  proof (cases "stage_rank (st_to t) \<le> stage_rank a")
    case True
    with 2(4) subseq_take_le show ?thesis
      by (meson subseq_order.trans list_emb_append2 subseq_rev_drop_many)
  next
    case False
    with step_rank [OF step] 2(4) show ?thesis by (simp add: subseq_append')
  qed
  from 2(1) [OF _ _ rest _ this] f 2(3) show ?case by (simp add: result_simps)
qed

lemma wf_result_steps:
  assumes "wf_result r"
  shows "\<forall>t \<in> set (as_transitions r). stage_step (st_from t) (st_to t)"
    and "check_chain 0 (as_initial r) (as_transitions r) = Inr (as_final r)"
  using assms by (auto simp: wf_result_def check_transition_Inr check_result_Inr stage_step_iff)

text \<open>
  C8: A result of a run that starts before the entry point and ends fuzzing reports, in this order, an
  entry point candidate, its validation, the stabilization, the boundary discovery and a ready boundary.
\<close>

theorem fuzzing_follows_validation:
  assumes "wf_result r" and "as_initial r \<in> {StaticPreflight, PreOepDiscovery}" and "as_final r = Fuzzing"
  shows "subseq [OepCandidate, OepValidation, PostOepStabilization, BoundaryDiscovery, BoundaryReady, Fuzzing]
    (map st_to (as_transitions r))"
proof -
  have "subseq (take (stage_rank (as_initial r)) stage_pipeline) []"
    using assms(2) by auto
  from chain_visits [OF wf_result_steps(2) [OF assms(1)] wf_result_steps(1) [OF assms(1)] this] assms(3)
  show ?thesis by (simp add: stage_pipeline_def)
qed

section \<open>An example attempt\<close>

definition example_time :: string where "example_time = ''2024-01-01T00:00:00+00:00''"

lemma example_time_instant: "\<exists>t. iso_instant example_time = Some t"
  by (simp add: example_time_def iso_eval)

definition example_sha :: string where "example_sha = replicate 64 (CHR ''a'')"

lemma example_sha_valid [simp]: "is_sha256 example_sha"
  by (simp add: example_sha_def is_sha256_def lower_hex_def list_all_iff)

lemma example_identifier [simp]: "is_identifier ''e1''"
  by (simp add: is_identifier_def identifier_char_def ascii_upper_def ascii_lower_def ascii_digit_def)

definition example_contract :: "string \<Rightarrow> attempt_contract" where
  "example_contract aid =
     \<lparr>ac_id = aid, ac_index = 0, ac_purpose = Discovery, ac_sample = example_sha, ac_packed = example_sha,
      ac_manifest_id = ''e1'', ac_manifest_version = 1, ac_goal = ''e1'', ac_stage = StaticPreflight,
      ac_schema = 1, ac_version = 1, ac_created = example_time\<rparr>"

definition example_step :: "nat \<Rightarrow> execution_stage \<Rightarrow> execution_stage \<Rightarrow> stage_transition" where
  "example_step k a b =
     \<lparr>st_sequence = int k, st_from = a, st_to = b, st_reason = ''r'', st_event = ''e1'', st_time = example_time\<rparr>"

fun example_steps :: "nat \<Rightarrow> execution_stage \<Rightarrow> execution_stage list \<Rightarrow> stage_transition list" where
  "example_steps k a [] = []"
| "example_steps k a (b # bs) = example_step k a b # example_steps (Suc k) b bs"

fun stage_path :: "execution_stage \<Rightarrow> execution_stage list \<Rightarrow> bool" where
  "stage_path a [] = True"
| "stage_path a (b # bs) = (b \<in> set (allowed_stages a) \<and> stage_path b bs)"

lemma example_steps_valid:
  "stage_path a bs \<Longrightarrow> \<forall>t \<in> set (example_steps k a bs). check_transition t = Inr t"
  using example_time_instant
  by (induction k a bs rule: example_steps.induct)
    (auto simp: example_step_def check_transition_Inr py_strip_def rstrip_while_def py_space_def)

lemma example_steps_chain: "check_chain k a (example_steps k a bs) = Inr (last (a # bs))"
  by (induction k a bs rule: example_steps.induct) (auto simp: example_step_def)

definition example_result :: "string \<Rightarrow> attempt_contract \<Rightarrow> execution_stage list \<Rightarrow> string option \<Rightarrow> attempt_result" where
  "example_result aid c bs reason =
     \<lparr>as_id = aid, as_contract = contract_sha256 c, as_outcome = Exited, as_initial = StaticPreflight,
      as_final = last (StaticPreflight # bs),
      as_progress = \<lparr>ap_goal = False, ap_reason = reason, ap_events = 0, ap_coverage = None, ap_observation = None\<rparr>,
      as_transitions = example_steps 0 StaticPreflight bs, as_fingerprint = None,
      as_started = example_time, as_finished = example_time, as_schema = 1, as_version = 1\<rparr>"

lemma example_contract_valid: "is_identifier aid \<Longrightarrow> check_contract (example_contract aid) = Inr (example_contract aid)"
  using example_time_instant by (auto simp: check_contract_Inr example_contract_def)

lemma example_result_wf:
  assumes "is_identifier aid" "stage_path StaticPreflight bs"
  shows "wf_result (example_result aid c bs reason)"
  using example_time_instant example_steps_valid [OF assms(2)] example_steps_chain [of 0 StaticPreflight bs] assms(1)
  by (auto simp: wf_result_def check_result_Inr check_progress_Inr example_result_def contract_sha256_def
      failure_outcomes_def simp del: last.simps)

theorem fuzzing_follows_validation_witness:
  "subseq [OepCandidate, OepValidation, PostOepStabilization, BoundaryDiscovery, BoundaryReady, Fuzzing]
    (map st_to (as_transitions (example_result ''e1'' (example_contract ''e1'')
       [PreOepDiscovery, OepCandidate, OepValidation, OepCandidate, OepValidation, PostOepStabilization,
        BoundaryDiscovery, BoundaryReady, Fuzzing] None)))"
  by (rule fuzzing_follows_validation [OF example_result_wf]) (simp_all add: example_result_def)

section \<open>No stage is a dead end\<close>

fun way_out :: "execution_stage \<Rightarrow> execution_stage list" where
  "way_out StaticPreflight = [Reconstruction]"
| "way_out PreOepDiscovery =
     [OepCandidate, OepValidation, PostOepStabilization, BoundaryDiscovery, BoundaryReady, Reconstruction]"
| "way_out OepCandidate = [OepValidation, PostOepStabilization, BoundaryDiscovery, BoundaryReady, Reconstruction]"
| "way_out OepValidation = [PostOepStabilization, BoundaryDiscovery, BoundaryReady, Reconstruction]"
| "way_out PostOepStabilization = [BoundaryDiscovery, BoundaryReady, Reconstruction]"
| "way_out BoundaryDiscovery = [BoundaryReady, Reconstruction]"
| "way_out BoundaryReady = [Reconstruction]"
| "way_out Fuzzing = [BoundaryReady, Reconstruction]"
| "way_out Reconstruction = []"

lemma way_out_path: "stage_path s (way_out s) \<and> last (s # way_out s) = Reconstruction"
  by (cases s) auto

text \<open>
  C11: From every stage some chain of valid transitions reaches the reconstruction, and a chain that
  starts in the reconstruction is empty.
\<close>

theorem reconstruction_always_reachable:
  "(\<exists>ts. list_all (\<lambda>t. check_transition t = Inr t) ts \<and> check_chain 0 s ts = Inr Reconstruction) \<and>
   (list_all (\<lambda>t. check_transition t = Inr t) us \<and> check_chain 0 Reconstruction us = Inr b) =
   (us = [] \<and> b = Reconstruction)"
proof -
  have "list_all (\<lambda>t. check_transition t = Inr t) (example_steps 0 s (way_out s))"
    using example_steps_valid [of s "way_out s" 0] way_out_path [of s] by (simp add: list_all_iff del: last.simps)
  moreover have "check_chain 0 s (example_steps 0 s (way_out s)) = Inr Reconstruction"
    using example_steps_chain [of 0 s] way_out_path by simp
  moreover have "list_all (\<lambda>t. check_transition t = Inr t) us \<and> check_chain 0 Reconstruction us = Inr b \<longleftrightarrow>
      us = [] \<and> b = Reconstruction"
    by (cases us) (auto simp: check_transition_Inr result_simps)
  ultimately show ?thesis by blast
qed

section \<open>Codecs\<close>

lemma empty_reason_error:
  assumes "wf_result r" "ap_reason (as_progress r) = Some []"
  shows "result_from_dict (attempt_result_to_dict r) = Inl (AttField (NotNonEmptyString ''oracle_reason''))"
proof -
  have ok: "check_result r = Inr r" and p: "check_progress (as_progress r) = Inr (as_progress r)"
    using assms(1) by (simp_all add: wf_result_def)
  have ne: "as_id r \<noteq> []" "as_contract r \<noteq> []" "as_started r \<noteq> []" "as_finished r \<noteq> []" "as_fingerprint r \<noteq> Some []"
      "ap_observation (as_progress r) \<noteq> Some []"
    using ok p by (auto simp: check_result_Inr check_progress_Inr)
  then have fp: "att_optional att_string (opt_json JStr (as_fingerprint r)) l = Inr (as_fingerprint r)"
      "att_optional att_string (opt_json JStr (ap_observation (as_progress r))) l = Inr (ap_observation (as_progress r))"
      "att_optional att_int (opt_json JInt (ap_coverage (as_progress r))) l = Inr (ap_coverage (as_progress r))" for l
    by (simp_all add: result_simps)
  have "progress_from_dict (progress_to_dict (as_progress r)) = Inl (AttField (NotNonEmptyString ''oracle_reason''))"
    using fp assms(2)
    by (simp add: progress_from_dict_def progress_to_dict_def att_dict_def att_optional_def [of _ "JStr []"]
        att_string_def opt_json_def [of _ "Some []"])
  with ok ne fp show ?thesis
    by (simp add: result_from_dict_def attempt_result_to_dict_def result_identity_def att_string_def att_int_def att_dict_def att_enum_def)
qed

text \<open>
  C12: A valid contract loads back as it was saved.  A valid result loads back as it was saved unless its
  oracle reason is the empty string, which is valid and which the codec writes and then refuses to read.
  What loads is valid.
\<close>

theorem attempt_artifacts_round_trip:
  assumes "check_contract c = Inr c" and "wf_result r"
  shows "contract_from_dict (contract_to_dict c) = Inr c \<and>
    result_from_dict (attempt_result_to_dict r) =
      (if ap_reason (as_progress r) = Some [] then Inl (AttField (NotNonEmptyString ''oracle_reason'')) else Inr r) \<and>
    (contract_from_dict v = Inr c' \<longrightarrow> check_contract c' = Inr c') \<and> (result_from_dict v = Inr r' \<longrightarrow> wf_result r')"
  using contract_roundtrip [OF assms(1)] result_roundtrip [OF assms(2)] empty_reason_error [OF assms(2)]
    contract_accepts result_accepts by simp

theorem attempt_artifacts_round_trip_witness:
  "result_from_dict (attempt_result_to_dict (example_result ''e1'' (example_contract ''e1'') [Reconstruction] None)) =
     Inr (example_result ''e1'' (example_contract ''e1'') [Reconstruction] None)"
  using attempt_artifacts_round_trip [OF example_contract_valid example_result_wf, of "''e1''" "''e1''" "[Reconstruction]"]
  by (simp add: example_result_def)

section \<open>The store is append-only\<close>

text \<open>A store whose steps keep what is published, whatever its steps are.\<close>

locale append_only =
  fixes look :: "'s \<Rightarrow> 'k \<Rightarrow> 'v option"
    and moves :: "'s \<Rightarrow> 's \<Rightarrow> bool"
  assumes move_keeps: "moves s t \<Longrightarrow> look s k = Some v \<Longrightarrow> look t k = Some v"
begin

lemma run_keeps: "moves\<^sup>*\<^sup>* s t \<Longrightarrow> look s k = Some v \<Longrightarrow> look t k = Some v"
  by (induction rule: rtranclp_induct) (auto dest: move_keeps)

end

inductive store_move :: "attempt_store \<Rightarrow> attempt_store \<Rightarrow> bool" where
  contract: "(\<And>u. keeps u (between u)) \<Longrightarrow> save_contract between s c = (out, t) \<Longrightarrow> store_move s t"
| outcome: "(\<And>u. keeps u (between u)) \<Longrightarrow> save_result between s r = (out, t) \<Longrightarrow> store_move s t"

definition published :: "attempt_store \<Rightarrow> string \<times> slot \<Rightarrow> artifact option" where
  "published s k = (case store_artifact s (fst k) (snd k) of ArtMissing \<Rightarrow> None | a \<Rightarrow> Some a)"

lemma published_Some: "published s (aid, sl) = Some a \<longleftrightarrow> store_artifact s aid sl = a \<and> a \<noteq> ArtMissing"
  by (auto simp: published_def split: artifact.splits)

lemma store_move_keeps: "store_move s t \<Longrightarrow> keeps s t"
proof (induction rule: store_move.induct)
  case (contract between s c out t)
  then show ?case
    using save_artifact_keeps [of between s] unfolding save_contract_def by (metis snd_conv)
next
  case (outcome between s r out t)
  then show ?case
    using save_artifact_keeps [of between s "as_id r" ResultSlot result_from_dict result_sha256 "result_sha256 r"
        "attempt_result_to_dict r"] by (auto simp: save_result_def split: sum.splits)
qed

interpretation attempts: append_only published store_move
proof
  fix s t k v
  assume m: "store_move s t" and p: "published s k = Some v"
  obtain aid sl where k: "k = (aid, sl)" by (cases k)
  from p store_move_keeps [OF m] show "published t k = Some v"
    by (simp add: k published_Some keeps_def)
qed

text \<open>
  C9: No sequence of saves, interleaved with others like them, ever changes a published contract or
  result.
\<close>

theorem published_artifacts_never_change:
  assumes "store_move\<^sup>*\<^sup>* s t" and "store_artifact s aid sl \<noteq> ArtMissing"
  shows "store_artifact t aid sl = store_artifact s aid sl"
  using attempts.run_keeps [OF assms(1), of "(aid, sl)" "store_artifact s aid sl"] assms(2)
  by (simp add: published_Some)

text \<open>
  A contract saved under its attempt identifier loads back: the loaded contract has the identity of
  the saved one, unless the two are a collision of SHA-256.
\<close>

theorem saved_contract_loads:
  assumes "check_contract c = Inr c" and "save_contract between s c = (Inr u, t)"
  shows "\<exists>d. load_contract t (ac_id c) = Inr d \<and>
    (contract_identity d = contract_identity c \<or>
     sha256_collision (canonical_json (JObj (contract_identity d))) (canonical_json (JObj (contract_identity c))))"
proof -
  note saved = save_artifact_done [OF assms(2) [unfolded save_contract_def]]
  then have aid: "is_attempt_id (ac_id c)" by blast
  from saved consider (new) "store_artifact t (ac_id c) ContractSlot = ArtFile (Some (contract_to_dict c))"
    | (old) d where "load_artifact contract_from_dict ContractSlot (store_artifact s (ac_id c) ContractSlot) = Inr d"
        "contract_sha256 d = contract_sha256 c"
        "store_artifact t (ac_id c) ContractSlot = store_artifact s (ac_id c) ContractSlot"
    by blast
  then show ?thesis
  proof cases
    case new
    with aid contract_roundtrip [OF assms(1)] have "load_contract t (ac_id c) = Inr c"
      by (auto simp: load_contract_Inr)
    then show ?thesis by blast
  next
    case old
    then have "load_contract t (ac_id c) = Inr d"
      using aid by (auto simp: load_contract_Inr load_artifact_def load_value_contract split: artifact.splits)
    with contract_identity_determined [OF old(2)] show ?thesis by blast
  qed
qed

text \<open>
  C10: A result that loads is valid and belongs to the stored contract of its attempt: it starts in the
  contract's stage, and any contract with the recorded digest has the stored contract's identity or is
  a collision of SHA-256.
\<close>

theorem loaded_result_bound_to_contract:
  assumes "load_result s aid = Inr r" and "contract_sha256 d = as_contract r"
  shows "\<exists>c. load_contract s aid = Inr c \<and> check_contract c = Inr c \<and> wf_result r \<and> as_id r = ac_id c \<and>
    check_chain 0 (ac_stage c) (as_transitions r) = Inr (as_final r) \<and>
    (contract_identity d = contract_identity c \<or>
     sha256_collision (canonical_json (JObj (contract_identity d))) (canonical_json (JObj (contract_identity c))))"
proof -
  from assms(1) obtain c x y where c: "load_contract s aid = Inr c" and link: "validate_result_link c r = Inr ()"
      and r: "result_from_dict x = Inr r" and d: "contract_from_dict y = Inr c"
    unfolding load_result_Inr by (metis load_contract_Inr)
  from link assms(2) have "contract_sha256 d = contract_sha256 c" by (simp add: validate_result_link_Inr)
  from contract_identity_determined [OF this] c link contract_accepts [OF d] result_accepts(1) [OF r]
    wf_result_steps(2) [OF result_accepts(1) [OF r]]
  show ?thesis by (auto simp: validate_result_link_Inr)
qed

section \<open>A result that is saved and cannot be loaded\<close>

lemma save_missing_result:
  assumes "load_contract s (as_id r) = Inr c" "validate_result_link c r = Inr ()"
    and "store_artifact s (as_id r) ResultSlot = ArtMissing"
  obtains t where "save_result id s r = (Inr (), t)"
    and "store_artifact t (as_id r) ResultSlot = ArtFile (Some (attempt_result_to_dict r))"
    and "store_artifact t (as_id r) ContractSlot = store_artifact s (as_id r) ContractSlot"
proof -
  from assms(1) obtain x where aid: "is_attempt_id (as_id r)"
      and x: "store_artifact s (as_id r) ContractSlot = ArtFile (Some x)"
    by (auto simp: load_contract_Inr)
  obtain es d where s: "s = StoreDir es" "map_of es (as_id r) = Some (EntryDir d)"
    using x by (auto simp: store_artifact_def store_directory_def
        split: attempt_store.splits option.splits store_entry.splits)
  have "get_slot ResultSlot d = ArtMissing"
    using assms(3) s by (simp add: store_artifact_def store_directory_def)
  then have "save_result id s r = (Inr (), StoreDir (put_entry (as_id r)
      (EntryDir (set_slot ResultSlot (ArtFile (Some (attempt_result_to_dict r))) d)) es))"
    using assms(1,2) aid s by (simp add: save_result_def save_artifact_def prepare_attempt_directory_def publish_def)
  from that [OF this] show thesis using s
    by (simp add: store_artifact_def store_directory_def)
qed

text \<open>
  C38: A valid result with an empty oracle reason is saved like any other and can never be loaded again:
  the codec that wrote it refuses it.
\<close>

theorem empty_reason_result_never_loads:
  assumes "wf_result r" and "ap_reason (as_progress r) = Some []"
    and "load_contract s (as_id r) = Inr c" and "validate_result_link c r = Inr ()"
    and "store_artifact s (as_id r) ResultSlot = ArtMissing"
  shows "\<exists>t. save_result id s r = (Inr (), t) \<and>
    verify_attempt t (as_id r) True = Inl (AttField (NotNonEmptyString ''oracle_reason''))"
proof -
  obtain t where t: "save_result id s r = (Inr (), t)"
      "store_artifact t (as_id r) ResultSlot = ArtFile (Some (attempt_result_to_dict r))"
      "store_artifact t (as_id r) ContractSlot = store_artifact s (as_id r) ContractSlot"
    using save_missing_result [OF assms(3-5)] .
  have c: "load_contract t (as_id r) = Inr c" using assms(3) t(3) by (simp add: load_contract_Inr)
  then have aid: "is_attempt_id (as_id r)" by (simp add: load_contract_Inr)
  then have "load_result t (as_id r) = Inl (AttField (NotNonEmptyString ''oracle_reason''))"
    using t(2) empty_reason_error [OF assms(1,2)] validated_artifact_Inr [of t "as_id r" ResultSlot "Some (attempt_result_to_dict r)"]
    by (simp add: load_result_def load_value_def attempt_result_to_dict_def att_dict_def)
  with c t show ?thesis by (simp add: verify_attempt_def)
qed

section \<open>Example stores\<close>

definition example_id :: string where "example_id = ''attempt-000-aaaaaaaaaaaa''"

lemma example_id_valid [simp]: "is_attempt_id example_id" "is_identifier example_id"
  by (simp_all add: example_id_def is_attempt_id_def is_identifier_def identifier_char_def ascii_upper_def
      ascii_lower_def ascii_digit_def lower_hex_def starts_with_def Let_def)

definition example_store :: "artifact \<Rightarrow> attempt_store" where
  "example_store a = StoreDir [(example_id, EntryDir
     \<lparr>ad_contract = ArtFile (Some (contract_to_dict (example_contract example_id))), ad_result = a\<rparr>)]"

lemma example_store_contract: "load_contract (example_store a) example_id = Inr (example_contract example_id)"
  using contract_roundtrip [OF example_contract_valid [of example_id]]
  by (simp add: load_contract_Inr example_store_def store_artifact_def store_directory_def)

lemma example_store_result: "store_artifact (example_store a) example_id ResultSlot = a"
  by (simp add: example_store_def store_artifact_def store_directory_def)

lemma example_link: "validate_result_link (example_contract aid) (example_result aid (example_contract aid) bs reason) = Inr ()"
  by (simp add: validate_result_link_Inr example_result_def example_contract_def)

theorem saved_contract_loads_witness:
  "\<exists>d t. save_contract id StoreMissing (example_contract example_id) = (Inr (), t) \<and> load_contract t example_id = Inr d"
proof -
  have id: "ac_id (example_contract example_id) = example_id" by (simp add: example_contract_def)
  obtain t where t: "save_contract id StoreMissing (example_contract example_id) = (Inr (), t)"
    by (simp add: save_contract_def save_artifact_def prepare_attempt_directory_def publish_def id)
  from saved_contract_loads [OF example_contract_valid t] show ?thesis using t by (auto simp: id)
qed

theorem loaded_result_bound_to_contract_witness:
  "\<exists>c. load_contract (example_store (ArtFile (Some (attempt_result_to_dict
       (example_result example_id (example_contract example_id) [Reconstruction] None))))) example_id = Inr c \<and>
     ac_stage c = StaticPreflight"
proof -
  let ?r = "example_result example_id (example_contract example_id) [Reconstruction] None"
  let ?s = "example_store (ArtFile (Some (attempt_result_to_dict ?r)))"
  have "result_from_dict (attempt_result_to_dict ?r) = Inr ?r"
    by (intro result_roundtrip example_result_wf) (simp_all add: example_result_def)
  then have load: "load_result ?s example_id = Inr ?r"
    using example_store_contract example_link [of example_id "[Reconstruction]" None]
    by (auto simp: load_result_Inr example_store_result)
  have "contract_sha256 (example_contract example_id) = as_contract ?r" by (simp add: example_result_def)
  from loaded_result_bound_to_contract [OF load this] example_store_contract
  show ?thesis by (auto simp: example_contract_def)
qed

theorem published_artifacts_never_change_witness:
  "\<exists>t. store_move (example_store ArtMissing) t \<and> store_artifact t example_id ResultSlot \<noteq> ArtMissing \<and>
     store_artifact t example_id ContractSlot = store_artifact (example_store ArtMissing) example_id ContractSlot"
proof -
  let ?r = "example_result example_id (example_contract example_id) [] None"
  have id: "as_id ?r = example_id" by (simp add: example_result_def)
  obtain t where t: "save_result id (example_store ArtMissing) ?r = (Inr (), t)"
      "store_artifact t example_id ResultSlot = ArtFile (Some (attempt_result_to_dict ?r))"
    using save_missing_result [of "example_store ArtMissing" ?r, unfolded id, OF example_store_contract example_link example_store_result]
    by metis
  have move: "store_move (example_store ArtMissing) t"
    by (rule store_move.outcome [OF _ t(1)]) simp
  have "store_artifact (example_store ArtMissing) example_id ContractSlot \<noteq> ArtMissing"
    by (simp add: example_store_def store_artifact_def store_directory_def)
  from published_artifacts_never_change [OF r_into_rtranclp [where r = store_move, OF move] this] move t(2) show ?thesis by auto
qed

theorem empty_reason_result_never_loads_witness:
  "\<exists>r t. save_result id (example_store ArtMissing) r = (Inr (), t) \<and> as_id r = example_id \<and>
     verify_attempt t example_id True = Inl (AttField (NotNonEmptyString ''oracle_reason''))"
proof -
  let ?r = "example_result example_id (example_contract example_id) [] (Some [])"
  have id: "as_id ?r = example_id" by (simp add: example_result_def)
  have "wf_result ?r" by (intro example_result_wf) simp_all
  moreover have "ap_reason (as_progress ?r) = Some []" by (simp add: example_result_def)
  ultimately obtain t where "save_result id (example_store ArtMissing) ?r = (Inr (), t)"
      "verify_attempt t example_id True = Inl (AttField (NotNonEmptyString ''oracle_reason''))"
    using empty_reason_result_never_loads [of ?r "example_store ArtMissing", unfolded id, OF _ _ example_store_contract
        example_link example_store_result] by blast
  with id show ?thesis by blast
qed

end
