(* ===== verification/Target_Spec.thy ===== *)
theory Target_Spec
  imports Canonical_Json Python_Text
begin

text \<open>
  The target-state oracle (\<open>taintforge_env/target_state_oracle.py\<close>): an analyst's specification is
  parsed into rules, each rule is evaluated on the artifacts of a run, and the target is reached when
  enough rules match.  \<open>json.loads\<close> and the files of the run directory are arguments.
\<close>

section \<open>Enumerations and limits\<close>

datatype aggregation_mode = AggregateAll | AggregateAny | AggregateAtLeast

fun mode_value :: "aggregation_mode \<Rightarrow> string" where
  "mode_value AggregateAll = ''all''"
| "mode_value AggregateAny = ''any''"
| "mode_value AggregateAtLeast = ''at_least''"

definition all_modes :: "aggregation_mode list" where
  "all_modes = [AggregateAll, AggregateAny, AggregateAtLeast]"

datatype rule_type = EventCount | RepeatedSequence | TextContains | JsonFieldEquals

fun rule_type_value :: "rule_type \<Rightarrow> string" where
  "rule_type_value EventCount = ''event_count''"
| "rule_type_value RepeatedSequence = ''repeated_sequence''"
| "rule_type_value TextContains = ''text_contains''"
| "rule_type_value JsonFieldEquals = ''json_field_equals''"

definition all_rule_types :: "rule_type list" where
  "all_rule_types = [EventCount, RepeatedSequence, TextContains, JsonFieldEquals]"

interpretation mode_enum: str_enum all_modes mode_value
proof unfold_locales
  show "x \<in> set all_modes" for x by (cases x) (auto simp: all_modes_def)
  show "mode_value x = mode_value y \<Longrightarrow> x = y" for x y by (cases x; cases y) auto
  show "mode_value x \<noteq> []" for x by (cases x) auto
qed

interpretation rule_type_enum: str_enum all_rule_types rule_type_value
proof unfold_locales
  show "x \<in> set all_rule_types" for x by (cases x) (auto simp: all_rule_types_def)
  show "rule_type_value x = rule_type_value y \<Longrightarrow> x = y" for x y by (cases x; cases y) auto
  show "rule_type_value x \<noteq> []" for x by (cases x) auto
qed

definition event_sources :: "(string \<times> string) list" where
  "event_sources =
    [(''syscall'', ''logs/syscall_events.jsonl''), (''network'', ''logs/network_events.jsonl''),
     (''trace'', ''logs/trace_events.jsonl'')]"

definition text_sources :: "(string \<times> string) list" where
  "text_sources = [(''stdout'', ''logs/runtime_stdout.log''), (''stderr'', ''logs/runtime_stderr.log'')]"

definition json_artifacts :: "(string \<times> string) list" where
  "json_artifacts =
    [(''execution'', ''config/prebuilt_execution.json''), (''report'', ''report.json''),
     (''requirements'', ''config/runtime_requirements.json''), (''repair_plan'', ''config/repair_plan.json''),
     (''runtime'', ''config/runtime.json''), (''rootfs_diff'', ''config/rootfs_diff.json'')]"

definition max_spec_bytes :: nat where "max_spec_bytes = 1048576"
definition max_evidence_file_bytes :: nat where "max_evidence_file_bytes = 67108864"
definition max_text_bytes :: nat where "max_text_bytes = 8388608"
definition max_rules :: nat where "max_rules = 64"
definition max_evidence_items :: nat where "max_evidence_items = 12"
definition max_string :: nat where "max_string = 4096"

section \<open>Rules and specifications\<close>

text \<open>
  The parameters of a rule, one constructor per \<open>RuleType\<close> with the keys \<open>_parse_rule\<close> puts
  into the dictionary.
\<close>

datatype rule_parameters =
    EventParameters "(string \<times> json) list" int
  | SequenceParameters "(string \<times> json) list list" int int
  | TextParameters string int
  | FieldParameters string json

record target_rule =
  tr_id :: string
  tr_source :: string
  tr_parameters :: rule_parameters
  tr_description :: "string option"

fun parameters_type :: "rule_parameters \<Rightarrow> rule_type" where
  "parameters_type (EventParameters w n) = EventCount"
| "parameters_type (SequenceParameters s n g) = RepeatedSequence"
| "parameters_type (TextParameters t n) = TextContains"
| "parameters_type (FieldParameters f v) = JsonFieldEquals"

fun parameters_items :: "rule_parameters \<Rightarrow> (string \<times> json) list" where
  "parameters_items (EventParameters w n) = [(''where'', JObj w), (''min_count'', JInt n)]"
| "parameters_items (SequenceParameters s n g) =
     [(''sequence'', JList (map JObj s)), (''min_repeats'', JInt n), (''max_gap'', JInt g)]"
| "parameters_items (TextParameters t n) = [(''needle'', JStr t), (''min_count'', JInt n)]"
| "parameters_items (FieldParameters f v) = [(''field'', JStr f), (''equals'', v)]"

definition rule_to_dict :: "target_rule \<Rightarrow> json" where
  "rule_to_dict r = JObj
     ([(''id'', JStr (tr_id r)), (''type'', JStr (rule_type_value (parameters_type (tr_parameters r)))),
       (''source'', JStr (tr_source r))] @ parameters_items (tr_parameters r) @
      (case tr_description r of Some (c # s) \<Rightarrow> [(''description'', JStr (c # s))] | _ \<Rightarrow> []))"

record target_spec =
  ts_goal :: string
  ts_description :: string
  ts_mode :: aggregation_mode
  ts_min :: int
  ts_rules :: "target_rule list"
  ts_sha256 :: string
  ts_path :: "string option"

definition spec_to_dict :: "target_spec \<Rightarrow> json" where
  "spec_to_dict s = JObj
     [(''schema_version'', JInt 1), (''goal_id'', JStr (ts_goal s)), (''description'', JStr (ts_description s)),
      (''mode'', JStr (mode_value (ts_mode s))), (''min_satisfied'', JInt (ts_min s)),
      (''rules'', JList (map rule_to_dict (ts_rules s)))]"

section \<open>Parsing\<close>

datatype target_error =
    TargetNotObject string
  | TargetSchema
  | TargetMode
  | TargetNoRules
  | TargetTooManyRules
  | TargetDuplicateRule string
  | TargetMinExceeds
  | TargetRuleType string
  | TargetSource string
  | TargetSequence string
  | TargetSequenceLong string
  | TargetGap string
  | TargetNeedle string
  | TargetFieldPath string
  | TargetNoEquals string
  | TargetNotScalar string
  | TargetWhere string
  | TargetWhereLong string
  | TargetFieldName string
  | TargetIdentifier string
  | TargetCharacters string
  | TargetString string
  | TargetPositive string
  | TargetNonNegative string
  | TargetEscapes
  | TargetNotRegular string
  | TargetTooLarge string
  | TargetInvalidJson string
  | TargetLineNotObject
  | TargetRunDirectory

definition bounded_string :: "json \<Rightarrow> string \<Rightarrow> target_error + string" where
  "bounded_string v label =
     (case v of
        JStr s \<Rightarrow> (if CHR 0x00 \<in> set s \<or> max_string < length s then Inl (TargetString label) else Inr s)
      | _ \<Rightarrow> Inl (TargetString label))"

definition ascii_alnum :: "char \<Rightarrow> bool" where
  "ascii_alnum c \<longleftrightarrow> ascii_upper c \<or> ascii_lower c \<or> ascii_digit c"

definition target_identifier :: "json \<Rightarrow> string \<Rightarrow> target_error + string" where
  "target_identifier v label =
     ebind (bounded_string v label) (\<lambda>t.
     ebind (guard (t \<noteq> [] \<and> length t \<le> 128) (TargetIdentifier label)) (\<lambda>_.
     ebind (guard (list_all (\<lambda>c. ascii_alnum c \<or> c \<in> set ''_-.:'') t) (TargetCharacters label)) (\<lambda>_.
     Inr t)))"

definition positive_int :: "json \<Rightarrow> string \<Rightarrow> target_error + int" where
  "positive_int v label = (case v of JInt i \<Rightarrow> (if i < 1 then Inl (TargetPositive label) else Inr i) | _ \<Rightarrow> Inl (TargetPositive label))"

definition nonnegative_int :: "json \<Rightarrow> string \<Rightarrow> target_error + int" where
  "nonnegative_int v label =
     (case v of JInt i \<Rightarrow> (if i < 0 then Inl (TargetNonNegative label) else Inr i) | _ \<Rightarrow> Inl (TargetNonNegative label))"

fun json_scalar :: "json \<Rightarrow> bool" where
  "json_scalar (JList xs) = False"
| "json_scalar (JObj d) = False"
| "json_scalar v = True"

fun check_where_item :: "string \<Rightarrow> string \<times> json \<Rightarrow> target_error + (string \<times> json)" where
  "check_where_item label (k, v) =
     (if k = [] \<or> 128 < length k then Inl (TargetFieldName label)
      else if \<not> json_scalar v then Inl (TargetNotScalar (label @ ''.'' @ k))
      else Inr (k, v))"

definition parse_where :: "json \<Rightarrow> string \<Rightarrow> target_error + (string \<times> json) list" where
  "parse_where v label =
     (case v of
        JObj (x # xs) \<Rightarrow>
          (if 32 < length (x # xs) then Inl (TargetWhereLong label)
           else emap (check_where_item label) (x # xs))
      | _ \<Rightarrow> Inl (TargetWhere label))"

text \<open>\<open>_validate_field_path\<close>: every part is letters, digits and underscores.\<close>

definition valid_field_path :: "string \<Rightarrow> bool" where
  "valid_field_path s =
     list_all (\<lambda>p. p \<noteq> [] \<and> list_all ascii_alnum (map (\<lambda>c. if c = CHR ''_'' then CHR ''a'' else c) p))
       (split_on (CHR ''.'') s)"

definition known_source :: "(string \<times> string) list \<Rightarrow> string \<Rightarrow> bool" where
  "known_source sources source \<longleftrightarrow> source \<in> fst ` set sources"

definition rule_label :: "nat \<Rightarrow> string \<Rightarrow> string" where
  "rule_label index field_name = at_index ''rules'' index @ ''.'' @ field_name"

definition parse_parameters ::
    "rule_type \<Rightarrow> string \<Rightarrow> (string \<times> json) list \<Rightarrow> nat \<Rightarrow> target_error + rule_parameters" where
  "parse_parameters ty source raw index =
     (case ty of
        EventCount \<Rightarrow>
          ebind (guard (known_source event_sources source) (TargetSource (at_index ''rules'' index))) (\<lambda>_.
          ebind (parse_where (jget_or raw ''where'' (JObj [])) (rule_label index ''where'')) (\<lambda>w.
          ebind (positive_int (jget_or raw ''min_count'' (JInt 1)) (rule_label index ''min_count'')) (\<lambda>n.
          Inr (EventParameters w n))))
      | RepeatedSequence \<Rightarrow>
          ebind (guard (known_source event_sources source) (TargetSource (at_index ''rules'' index))) (\<lambda>_.
          (case jget raw ''sequence'' of
             JList (x # xs) \<Rightarrow>
               ebind (guard (length (x # xs) \<le> 32) (TargetSequenceLong (at_index ''rules'' index))) (\<lambda>_.
               ebind (emap_enum (\<lambda>i v. parse_where v (at_index (rule_label index ''sequence'') i)) (x # xs)) (\<lambda>s.
               ebind (positive_int (jget_or raw ''min_repeats'' (JInt 2)) (rule_label index ''min_repeats'')) (\<lambda>n.
               ebind (nonnegative_int (jget_or raw ''max_gap'' (JInt 0)) (rule_label index ''max_gap'')) (\<lambda>g.
               ebind (guard (g \<le> 1024) (TargetGap (at_index ''rules'' index))) (\<lambda>_.
               Inr (SequenceParameters s n g))))))
           | _ \<Rightarrow> Inl (TargetSequence (at_index ''rules'' index))))
      | TextContains \<Rightarrow>
          ebind (guard (known_source text_sources source) (TargetSource (at_index ''rules'' index))) (\<lambda>_.
          ebind (bounded_string (jget raw ''needle'') (rule_label index ''needle'')) (\<lambda>t.
          ebind (guard (t \<noteq> []) (TargetNeedle (at_index ''rules'' index))) (\<lambda>_.
          ebind (positive_int (jget_or raw ''min_count'' (JInt 1)) (rule_label index ''min_count'')) (\<lambda>n.
          Inr (TextParameters t n)))))
      | JsonFieldEquals \<Rightarrow>
          ebind (guard (known_source json_artifacts source) (TargetSource (at_index ''rules'' index))) (\<lambda>_.
          ebind (bounded_string (jget raw ''field'') (rule_label index ''field'')) (\<lambda>f.
          ebind (guard (valid_field_path f) (TargetFieldPath (rule_label index ''field''))) (\<lambda>_.
          (case map_of raw ''equals'' of
             None \<Rightarrow> Inl (TargetNoEquals (at_index ''rules'' index))
           | Some v \<Rightarrow>
               ebind (guard (json_scalar v) (TargetNotScalar (rule_label index ''equals''))) (\<lambda>_.
               Inr (FieldParameters f v)))))))"

definition parse_rule :: "nat \<Rightarrow> json \<Rightarrow> target_error + target_rule" where
  "parse_rule index v =
     (case v of
        JObj raw \<Rightarrow>
          ebind (target_identifier (jget raw ''id'') (rule_label index ''id'')) (\<lambda>rid.
          ebind (if jget raw ''description'' = JNull then Inr None
                 else ebind (bounded_string (jget raw ''description'') (rule_label index ''description'')) (\<lambda>s. Inr (Some s))) (\<lambda>desc.
          ebind (case jget raw ''type'' of
                   JStr t \<Rightarrow> (case enum_of all_rule_types rule_type_value t of
                       Some ty \<Rightarrow> Inr ty | None \<Rightarrow> Inl (TargetRuleType (at_index ''rules'' index)))
                 | _ \<Rightarrow> Inl (TargetRuleType (at_index ''rules'' index))) (\<lambda>ty.
          ebind (target_identifier (jget raw ''source'') (rule_label index ''source'')) (\<lambda>source.
          ebind (parse_parameters ty source raw index) (\<lambda>ps.
          Inr \<lparr>tr_id = rid, tr_source = source, tr_parameters = ps, tr_description = desc\<rparr>)))))
      | _ \<Rightarrow> Inl (TargetNotObject (at_index ''rules'' index)))"

text \<open>The loop over the rules: identifiers seen so far, one error at a time.\<close>

fun parse_rules :: "nat \<Rightarrow> string list \<Rightarrow> json list \<Rightarrow> target_error + target_rule list" where
  "parse_rules k seen [] = Inr []"
| "parse_rules k seen (v # vs) =
     ebind (parse_rule k v) (\<lambda>r.
     ebind (guard (tr_id r \<notin> set seen) (TargetDuplicateRule (tr_id r))) (\<lambda>_.
     ebind (parse_rules (Suc k) (tr_id r # seen) vs) (\<lambda>rs. Inr (r # rs))))"

definition parse_aggregation :: "json \<Rightarrow> target_error + aggregation_mode" where
  "parse_aggregation v =
     (case v of
        JStr t \<Rightarrow> (case enum_of all_modes mode_value t of Some m \<Rightarrow> Inr m | None \<Rightarrow> Inl TargetMode)
      | _ \<Rightarrow> Inl TargetMode)"

definition nonempty_rules :: "json \<Rightarrow> target_error + json list" where
  "nonempty_rules v = (case v of JList (x # xs) \<Rightarrow> Inr (x # xs) | _ \<Rightarrow> Inl TargetNoRules)"

definition required_rules :: "aggregation_mode \<Rightarrow> json \<Rightarrow> nat \<Rightarrow> target_error + int" where
  "required_rules mode v n =
     (case mode of
        AggregateAll \<Rightarrow> Inr (int n)
      | AggregateAny \<Rightarrow> Inr 1
      | AggregateAtLeast \<Rightarrow>
          ebind (positive_int v ''min_satisfied'') (\<lambda>m. ebind (guard (m \<le> int n) TargetMinExceeds) (\<lambda>_. Inr m)))"

definition spec_digest :: "string option \<Rightarrow> target_spec \<Rightarrow> string" where
  "spec_digest sha s = (case sha of Some (c # h) \<Rightarrow> c # h | _ \<Rightarrow> canonical_sha256 (spec_to_dict s))"

definition spec_from_dict :: "json \<Rightarrow> string option \<Rightarrow> string option \<Rightarrow> target_error + target_spec" where
  "spec_from_dict v sha path =
     (case v of
        JObj raw \<Rightarrow>
          ebind (guard (scalar_equal (jget raw ''schema_version'') (JInt 1)) TargetSchema) (\<lambda>_.
          ebind (target_identifier (jget raw ''goal_id'') ''goal_id'') (\<lambda>goal.
          ebind (bounded_string (jget raw ''description'') ''description'') (\<lambda>desc.
          ebind (parse_aggregation (jget_or raw ''mode'' (JStr ''all''))) (\<lambda>mode.
          ebind (nonempty_rules (jget raw ''rules'')) (\<lambda>rules_raw.
          ebind (guard (length rules_raw \<le> max_rules) TargetTooManyRules) (\<lambda>_.
          ebind (parse_rules 0 [] rules_raw) (\<lambda>rules.
          ebind (required_rules mode (jget raw ''min_satisfied'') (length rules)) (\<lambda>n.
          let unsigned = \<lparr>ts_goal = goal, ts_description = desc, ts_mode = mode, ts_min = n, ts_rules = rules,
                ts_sha256 = [], ts_path = path\<rparr>
          in Inr (unsigned\<lparr>ts_sha256 := spec_digest sha unsigned\<rparr>)))))))))
      | _ \<Rightarrow> Inl (TargetNotObject ''target-state specification''))"

section \<open>Accepted specifications\<close>

text \<open>What a rule satisfies once it is accepted, and the parser accepts again.\<close>

definition bounded_text :: "string \<Rightarrow> bool" where
  "bounded_text s \<longleftrightarrow> CHR 0x00 \<notin> set s \<and> length s \<le> max_string"

definition identifier_text :: "string \<Rightarrow> bool" where
  "identifier_text s \<longleftrightarrow> bounded_text s \<and> s \<noteq> [] \<and> length s \<le> 128 \<and>
     list_all (\<lambda>c. ascii_alnum c \<or> c \<in> set ''_-.:'') s"

definition wf_where :: "(string \<times> json) list \<Rightarrow> bool" where
  "wf_where w \<longleftrightarrow> w \<noteq> [] \<and> length w \<le> 32 \<and> (\<forall>(k, v) \<in> set w. k \<noteq> [] \<and> length k \<le> 128 \<and> json_scalar v)"

fun wf_parameters :: "string \<Rightarrow> rule_parameters \<Rightarrow> bool" where
  "wf_parameters source (EventParameters w n) \<longleftrightarrow> known_source event_sources source \<and> wf_where w \<and> 1 \<le> n"
| "wf_parameters source (SequenceParameters s n g) \<longleftrightarrow>
     known_source event_sources source \<and> s \<noteq> [] \<and> length s \<le> 32 \<and> list_all wf_where s \<and> 1 \<le> n \<and> 0 \<le> g \<and> g \<le> 1024"
| "wf_parameters source (TextParameters t n) \<longleftrightarrow> known_source text_sources source \<and> bounded_text t \<and> t \<noteq> [] \<and> 1 \<le> n"
| "wf_parameters source (FieldParameters f v) \<longleftrightarrow>
     known_source json_artifacts source \<and> bounded_text f \<and> valid_field_path f \<and> json_scalar v"

definition wf_rule :: "target_rule \<Rightarrow> bool" where
  "wf_rule r \<longleftrightarrow> identifier_text (tr_id r) \<and> identifier_text (tr_source r) \<and>
     pred_option bounded_text (tr_description r) \<and> wf_parameters (tr_source r) (tr_parameters r)"

lemma bounded_string_Inr: "bounded_string v l = Inr s \<longleftrightarrow> v = JStr s \<and> bounded_text s"
  by (auto simp: bounded_string_def bounded_text_def not_less split: json.splits)

lemma target_identifier_Inr: "target_identifier v l = Inr s \<longleftrightarrow> v = JStr s \<and> identifier_text s"
  by (auto simp: target_identifier_def result_simps bounded_string_Inr identifier_text_def)

lemma positive_int_Inr: "positive_int v l = Inr n \<longleftrightarrow> v = JInt n \<and> 1 \<le> n"
  by (auto simp: positive_int_def split: json.splits)

lemma nonnegative_int_Inr: "nonnegative_int v l = Inr n \<longleftrightarrow> v = JInt n \<and> 0 \<le> n"
  by (auto simp: nonnegative_int_def split: json.splits)

lemma check_where_items: "emap (check_where_item l) w = Inr w' \<longleftrightarrow>
    w' = w \<and> (\<forall>(k, v) \<in> set w. k \<noteq> [] \<and> length k \<le> 128 \<and> json_scalar v)"
  by (induction w arbitrary: w') (auto simp: result_simps not_less split: if_splits)

lemma parse_where_Inr: "parse_where v l = Inr w \<longleftrightarrow> v = JObj w \<and> wf_where w"
  by (auto simp: parse_where_def check_where_items wf_where_def not_less simp del: emap.simps
      split: json.splits list.splits)

lemma emap_enum_where:
  "emap_enum (\<lambda>i v. parse_where v (f i)) xs = Inr ws \<longleftrightarrow> xs = map JObj ws \<and> list_all wf_where ws"
proof -
  have "emap (\<lambda>(i, v). parse_where v (f i)) (enumerate k xs) = Inr ws \<longleftrightarrow> xs = map JObj ws \<and> list_all wf_where ws" for k
    by (induction xs arbitrary: ws k) (auto simp: result_simps parse_where_Inr)
  then show ?thesis by (simp add: emap_enum_def)
qed

lemma parse_parameters_wf:
  assumes "parse_parameters ty source raw index = Inr ps"
  shows "wf_parameters source ps \<and> parameters_type ps = ty"
  using assms
  by (cases ty) (auto simp: parse_parameters_def result_simps parse_where_Inr positive_int_Inr nonnegative_int_Inr
      bounded_string_Inr emap_enum_where split: json.splits list.splits option.splits)

lemma parse_rule_wf: "parse_rule index v = Inr r \<Longrightarrow> wf_rule r"
  by (auto simp: parse_rule_def result_simps target_identifier_Inr bounded_string_Inr wf_rule_def
      dest!: parse_parameters_wf split: json.splits if_splits option.splits)

lemma rule_roundtrip:
  assumes "wf_rule r" "tr_description r \<noteq> Some []"
  shows "parse_rule index (rule_to_dict r) = Inr r"
proof -
  have id: "target_identifier (JStr (tr_id r)) l = Inr (tr_id r)" "target_identifier (JStr (tr_source r)) l = Inr (tr_source r)" for l
    using assms(1) by (simp_all add: target_identifier_Inr wf_rule_def)
  have ty: "enum_of all_rule_types rule_type_value (rule_type_value t) = Some t" for t
    by (rule rule_type_enum.parse_val)
  have ps: "wf_parameters (tr_source r) (tr_parameters r)" using assms(1) by (simp add: wf_rule_def)
  have desc: "tr_description r = None \<or> (\<exists>c s. tr_description r = Some (c # s) \<and> bounded_text (c # s))"
    using assms by (cases "tr_description r"; auto simp: wf_rule_def neq_Nil_conv)
  have seq: "emap_enum (\<lambda>i v. parse_where v (f i)) (JObj w # map JObj ws) = Inr (w # ws)"
    if "wf_where w" "list_all wf_where ws" for f w ws
    using that by (simp add: emap_enum_where)
  have wheres: "parse_where (JObj w) l = Inr w" if "wf_where w" for w l
    using that by (simp add: parse_where_Inr)
  have texts: "bounded_string (JStr t) l = Inr t" if "bounded_text t" for t l
    using that by (simp add: bounded_string_Inr)
  obtain rid source ps desc where r: "r = \<lparr>tr_id = rid, tr_source = source, tr_parameters = ps, tr_description = desc\<rparr>"
    by (cases r)
  have params: "parse_parameters (parameters_type ps) source
      ((''id'', JStr rid) # (''type'', JStr (rule_type_value (parameters_type ps))) # (''source'', JStr source) #
       parameters_items ps @ d) index = Inr ps" for d
    using ps seq wheres texts
    by (cases ps) (auto simp: r parse_parameters_def positive_int_def nonnegative_int_def neq_Nil_conv)
  have items: "jget (parameters_items ps @ d) ''description'' = jget d ''description''" for d
    by (cases ps) auto
  from desc show ?thesis
  proof
    assume "tr_description r = None"
    then show ?thesis
      using id ty params [of "[]"] items [of "[]"] by (simp add: r parse_rule_def rule_to_dict_def)
  next
    assume "\<exists>c s. tr_description r = Some (c # s) \<and> bounded_text (c # s)"
    then obtain c s where "desc = Some (c # s)" "bounded_text (c # s)" by (auto simp: r)
    then show ?thesis
      using id ty params [of "[(''description'', JStr (c # s))]"] items [of "[(''description'', JStr (c # s))]"] texts
      by (simp add: r parse_rule_def rule_to_dict_def)
  qed
qed

lemma parse_rules_wf:
  "parse_rules k seen vs = Inr rs \<Longrightarrow>
     list_all wf_rule rs \<and> distinct (map tr_id rs) \<and> set (map tr_id rs) \<inter> set seen = {} \<and> length rs = length vs"
proof (induction k seen vs arbitrary: rs rule: parse_rules.induct)
  case (1 k seen)
  then show ?case by simp
next
  case (2 k seen v vs)
  from 2(2) obtain r rs' where r: "parse_rule k v = Inr r" "tr_id r \<notin> set seen"
      "parse_rules (Suc k) (tr_id r # seen) vs = Inr rs'" "rs = r # rs'"
    by (auto simp: result_simps)
  from 2(1) [OF r(1) _ r(3)] r show ?case
    by (auto simp: parse_rule_wf result_simps)
qed

lemma parse_rules_roundtrip:
  "list_all wf_rule rs \<Longrightarrow> \<forall>r \<in> set rs. tr_description r \<noteq> Some [] \<Longrightarrow> distinct (map tr_id rs) \<Longrightarrow>
     set (map tr_id rs) \<inter> set seen = {} \<Longrightarrow> parse_rules k seen (map rule_to_dict rs) = Inr rs"
  by (induction rs arbitrary: k seen) (auto simp: rule_roundtrip)

lemma nonempty_rules_Inr: "nonempty_rules v = Inr xs \<longleftrightarrow> v = JList xs \<and> xs \<noteq> []"
  by (auto simp: nonempty_rules_def split: json.splits list.splits)

lemma parse_aggregation_Inr: "parse_aggregation v = Inr m \<longleftrightarrow> v = JStr (mode_value m)"
  by (auto simp: parse_aggregation_def mode_enum.parse_iff dest: mode_enum.val_eq split: json.splits option.splits)

definition required_count_ok :: "aggregation_mode \<Rightarrow> nat \<Rightarrow> int \<Rightarrow> bool" where
  "required_count_ok mode n m \<longleftrightarrow>
     (case mode of AggregateAll \<Rightarrow> m = int n | AggregateAny \<Rightarrow> m = 1 | AggregateAtLeast \<Rightarrow> 1 \<le> m \<and> m \<le> int n)"

lemma required_rules_Inr:
  "required_rules mode v n = Inr m \<longleftrightarrow> required_count_ok mode n m \<and> (mode = AggregateAtLeast \<longrightarrow> v = JInt m)"
  by (cases mode) (auto simp: required_rules_def required_count_ok_def result_simps positive_int_Inr)

definition wf_spec :: "target_spec \<Rightarrow> bool" where
  "wf_spec s \<longleftrightarrow> identifier_text (ts_goal s) \<and> bounded_text (ts_description s) \<and> ts_rules s \<noteq> [] \<and>
     length (ts_rules s) \<le> max_rules \<and> list_all wf_rule (ts_rules s) \<and> distinct (map tr_id (ts_rules s)) \<and>
     required_count_ok (ts_mode s) (length (ts_rules s)) (ts_min s) \<and> ts_sha256 s \<noteq> []"

lemma spec_digest_nonempty: "spec_digest sha s \<noteq> []"
  by (auto simp: spec_digest_def canonical_sha256_def is_sha256_def
      dest: arg_cong [where f = length] split: option.splits list.splits)

lemma spec_accepts:
  assumes "spec_from_dict v sha path = Inr s"
  shows "wf_spec s"
  using assms spec_digest_nonempty
  by (cases v) (auto simp: spec_from_dict_def result_simps Let_def target_identifier_Inr bounded_string_Inr
      nonempty_rules_Inr required_rules_Inr wf_spec_def simp del: parse_rules.simps dest!: parse_rules_wf)

lemma spec_roundtrip:
  assumes "wf_spec s" "\<forall>r \<in> set (ts_rules s). tr_description r \<noteq> Some []"
  shows "spec_from_dict (spec_to_dict s) (Some (ts_sha256 s)) (ts_path s) = Inr s"
proof -
  have "parse_rules 0 [] (map rule_to_dict (ts_rules s)) = Inr (ts_rules s)"
    using assms by (intro parse_rules_roundtrip) (simp_all add: wf_spec_def)
  moreover have "target_identifier (JStr (ts_goal s)) l = Inr (ts_goal s)" "bounded_string (JStr (ts_description s)) l = Inr (ts_description s)" for l
    using assms(1) by (simp_all add: target_identifier_Inr bounded_string_Inr wf_spec_def)
  moreover have "nonempty_rules (JList (map rule_to_dict (ts_rules s))) = Inr (map rule_to_dict (ts_rules s))"
    using assms(1) by (simp add: nonempty_rules_Inr wf_spec_def)
  moreover have "parse_aggregation (JStr (mode_value (ts_mode s))) = Inr (ts_mode s)"
    by (simp add: parse_aggregation_Inr)
  moreover have "required_rules (ts_mode s) (JInt (ts_min s)) (length (ts_rules s)) = Inr (ts_min s)"
    using assms(1) by (simp add: required_rules_Inr wf_spec_def)
  moreover have "spec_digest (Some (ts_sha256 s)) u = ts_sha256 s" for u
    using assms(1) by (auto simp: spec_digest_def wf_spec_def split: list.splits)
  ultimately show ?thesis
    using assms(1) by (cases s) (simp add: spec_from_dict_def spec_to_dict_def scalar_equal_def wf_spec_def)
qed

end
