(* ===== verification/Target_Oracle.thy ===== *)
theory Target_Oracle
  imports Target_Spec
begin

text \<open>
  Evaluation of a target specification (\<open>TargetStateOracle\<close> of
  \<open>taintforge_env/target_state_oracle.py\<close>) on the files of a run directory: event counts, repeated
  event sequences, text markers and JSON fields.
\<close>

section \<open>The run directory\<close>

text \<open>
  What a relative path of the run directory shows: \<open>EvAbsent\<close> when \<open>exists()\<close> is false,
  \<open>EvIrregular\<close> for a symbolic link or no regular file, or the text of a file, whose size is its
  length.  \<open>rv_escapes\<close>: the parent of the path resolves outside of the directory.
\<close>

datatype evidence_file = EvAbsent | EvIrregular | EvFile string

record run_view =
  rv_is_directory :: bool
  rv_escapes :: "string \<Rightarrow> bool"
  rv_file :: "string \<Rightarrow> evidence_file"

type_synonym loader = "string \<Rightarrow> json option"

definition source_path :: "run_view \<Rightarrow> (string \<times> string) list \<Rightarrow> string \<Rightarrow> target_error + string" where
  "source_path view sources source =
     (let path = (case map_of sources source of Some p \<Rightarrow> p | None \<Rightarrow> []) in
      if rv_escapes view path then Inl TargetEscapes else Inr path)"

text \<open>Text mode reads carriage returns as newlines.\<close>

fun universal_newlines :: "string \<Rightarrow> string" where
  "universal_newlines [] = []"
| "universal_newlines (c # cs) =
     (if c = CHR 0x0D
      then CHR 0x0A # (case cs of d # ds \<Rightarrow> if d = CHR 0x0A then universal_newlines ds else universal_newlines cs | [] \<Rightarrow> [])
      else c # universal_newlines cs)"

definition read_event_line :: "loader \<Rightarrow> string \<Rightarrow> target_error + (string \<times> json) list" where
  "read_event_line loads line =
     (case loads line of
        None \<Rightarrow> Inl (TargetInvalidJson ''JSONL'')
      | Some (JObj d) \<Rightarrow> Inr d
      | Some _ \<Rightarrow> Inl TargetLineNotObject)"

definition read_jsonl_optional :: "loader \<Rightarrow> evidence_file \<Rightarrow> target_error + (string \<times> json) list list" where
  "read_jsonl_optional loads f =
     (case f of
        EvAbsent \<Rightarrow> Inr []
      | EvIrregular \<Rightarrow> Inl (TargetNotRegular ''target JSONL evidence'')
      | EvFile t \<Rightarrow>
          (if max_evidence_file_bytes < length t then Inl (TargetTooLarge ''target JSONL evidence'')
           else emap (read_event_line loads)
             (filter (\<lambda>l. py_strip l \<noteq> []) (split_on (CHR 0x0A) (universal_newlines t)))))"

definition load_json_object :: "loader \<Rightarrow> evidence_file \<Rightarrow> target_error + (string \<times> json) list" where
  "load_json_object loads f =
     (case f of
        EvFile t \<Rightarrow>
          (if max_evidence_file_bytes < length t then Inl (TargetTooLarge ''target JSON source'')
           else (case loads t of
               None \<Rightarrow> Inl (TargetInvalidJson ''target JSON source'')
             | Some (JObj d) \<Rightarrow> Inr d
             | Some _ \<Rightarrow> Inl (TargetNotObject ''target JSON source'')))
      | _ \<Rightarrow> Inl (TargetNotRegular ''target JSON source''))"

definition load_target_spec :: "loader \<Rightarrow> string \<Rightarrow> evidence_file \<Rightarrow> target_error + target_spec" where
  "load_target_spec loads path f =
     (case f of
        EvFile t \<Rightarrow>
          (if max_spec_bytes < length t then Inl (TargetTooLarge ''target-state specification'')
           else (case loads t of
               None \<Rightarrow> Inl (TargetInvalidJson ''target-state'')
             | Some v \<Rightarrow> spec_from_dict v (Some (sha256_hex t)) (Some path)))
      | _ \<Rightarrow> Inl (TargetNotRegular ''target-state specification''))"

section \<open>Matching\<close>

type_synonym fields = "(string \<times> json) list"

definition event_matches :: "fields \<Rightarrow> fields \<Rightarrow> bool" where
  "event_matches event where_fields = list_all (\<lambda>(k, v). scalar_equal (jget event k) v) where_fields"

definition find_event :: "fields list \<Rightarrow> fields \<Rightarrow> nat \<Rightarrow> nat \<Rightarrow> nat option" where
  "find_event events expected start stop = find (\<lambda>i. event_matches (events ! i) expected) [start..<stop]"

fun match_rest :: "fields list \<Rightarrow> nat \<Rightarrow> nat \<Rightarrow> fields list \<Rightarrow> nat option" where
  "match_rest events gap previous [] = Some previous"
| "match_rest events gap previous (expected # rest) =
     (case find_event events expected (previous + 1) (min (length events) (previous + gap + 2)) of
        None \<Rightarrow> None
      | Some found \<Rightarrow> match_rest events gap found rest)"

lemma find_event_Some:
  assumes "find_event events expected a b = Some i"
  shows "a \<le> i \<and> i < b \<and> event_matches (events ! i) expected"
  using assms by (auto simp: find_event_def find_Some_iff)

lemma find_event_None:
  "find_event events expected a b = None \<longleftrightarrow> (\<forall>i. a \<le> i \<longrightarrow> i < b \<longrightarrow> \<not> event_matches (events ! i) expected)"
  by (auto simp: find_event_def find_None_iff)

lemma match_rest_le: "match_rest events gap p rest = Some q \<Longrightarrow> p \<le> q"
  by (induction events gap p rest rule: match_rest.induct) (fastforce split: option.splits dest: find_event_Some)+

text \<open>The \<open>while\<close> loop of \<open>_count_sequence_repeats\<close> from a cursor: the spans it collects.\<close>

function sequence_spans :: "fields list \<Rightarrow> fields list \<Rightarrow> nat \<Rightarrow> nat \<Rightarrow> (nat \<times> nat) list" where
  "sequence_spans events pattern gap cursor =
     (if length events \<le> cursor then []
      else (case find_event events (hd pattern) cursor (length events) of
          None \<Rightarrow> []
        | Some start \<Rightarrow>
            (case match_rest events gap start (tl pattern) of
               Some last_index \<Rightarrow> (start, last_index) # sequence_spans events pattern gap (last_index + 1)
             | None \<Rightarrow> sequence_spans events pattern gap (start + 1))))"
  by pat_completeness auto
termination
  by (relation "measure (\<lambda>(events, pattern, gap, cursor). length events - cursor)")
    (auto dest!: find_event_Some match_rest_le)

declare sequence_spans.simps [simp del]

text \<open>\<open>text.count(needle)\<close> of a non-empty needle: after a hit the scan skips the rest of the needle.\<close>

fun count_from :: "nat \<Rightarrow> string \<Rightarrow> string \<Rightarrow> nat" where
  "count_from skip needle [] = 0"
| "count_from (Suc k) needle (c # cs) = count_from k needle cs"
| "count_from 0 needle (c # cs) =
     (if starts_with (c # cs) needle then Suc (count_from (length needle - 1) needle cs)
      else count_from 0 needle cs)"

fun lookup_parts :: "json \<Rightarrow> string list \<Rightarrow> json option" where
  "lookup_parts v [] = Some v"
| "lookup_parts (JObj d) (p # ps) = (case map_of d p of None \<Rightarrow> None | Some v \<Rightarrow> lookup_parts v ps)"
| "lookup_parts _ (p # ps) = None"

definition lookup_field :: "fields \<Rightarrow> string \<Rightarrow> json option" where
  "lookup_field raw path = lookup_parts (JObj raw) (split_on (CHR ''.'') path)"

section \<open>Rule evaluation\<close>

record rule_evaluation =
  re_id :: string
  re_type :: string
  re_matched :: bool
  re_observed :: nat
  re_required :: int
  re_summary :: string
  re_evidence :: "json list"

definition evidence_keys :: "string list" where
  "evidence_keys =
    [''event'', ''execution_context'', ''syscall'', ''success'', ''errno'', ''path'', ''remote_ip'', ''remote_port'',
     ''original_remote_ip'', ''original_remote_port'', ''address'', ''pc'', ''signal'']"

definition evidence_event :: "nat \<Rightarrow> fields \<Rightarrow> json" where
  "evidence_event index event = JObj ((''index'', JInt (int index)) #
     map (\<lambda>k. (k, jget event k)) (filter (\<lambda>k. k \<in> fst ` set event) evidence_keys))"

definition is_guest :: "fields \<Rightarrow> bool" where
  "is_guest event \<longleftrightarrow> jget event ''execution_context'' = JStr ''guest''"

definition evaluate_event_count ::
    "loader \<Rightarrow> run_view \<Rightarrow> target_rule \<Rightarrow> fields \<Rightarrow> int \<Rightarrow> target_error + rule_evaluation" where
  "evaluate_event_count loads view rule wh minimum =
     ebind (source_path view event_sources (tr_source rule)) (\<lambda>path.
     ebind (read_jsonl_optional loads (rv_file view path)) (\<lambda>events.
     let wh2 = (if tr_source rule = ''syscall'' \<and> ''execution_context'' \<notin> fst ` set wh
                then wh @ [(''execution_context'', JStr ''guest'')] else wh);
         found = filter (\<lambda>e. event_matches e wh2) events; n = length found
     in Inr \<lparr>re_id = tr_id rule, re_type = rule_type_value EventCount, re_matched = (minimum \<le> int n),
          re_observed = n, re_required = minimum,
          re_summary = ''observed '' @ show_nat n @ '' matching '' @ tr_source rule @ '' events; requires '' @ show_int minimum,
          re_evidence = map (\<lambda>(i, e). evidence_event i e) (enumerate 0 (take max_evidence_items found))\<rparr>))"

definition span_evidence :: "nat \<times> nat \<Rightarrow> json" where
  "span_evidence x = (case x of (a, b) \<Rightarrow> JObj
     [(''start_index'', JInt (int a)), (''end_index'', JInt (int b)), (''length'', JInt (int b - int a + 1))])"

definition evaluate_repeated_sequence ::
    "loader \<Rightarrow> run_view \<Rightarrow> target_rule \<Rightarrow> fields list \<Rightarrow> int \<Rightarrow> int \<Rightarrow> target_error + rule_evaluation" where
  "evaluate_repeated_sequence loads view rule pattern minimum gap =
     ebind (source_path view event_sources (tr_source rule)) (\<lambda>path.
     ebind (read_jsonl_optional loads (rv_file view path)) (\<lambda>all_events.
     let events = (if tr_source rule = ''syscall'' then filter is_guest all_events else all_events);
         spans = sequence_spans events pattern (nat gap) 0; n = length spans
     in Inr \<lparr>re_id = tr_id rule, re_type = rule_type_value RepeatedSequence, re_matched = (minimum \<le> int n),
          re_observed = n, re_required = minimum,
          re_summary = ''observed sequence '' @ show_nat n @ '' times in '' @ tr_source rule @ '' events; requires '' @
            show_int minimum @ '', max_gap='' @ show_int gap,
          re_evidence = map span_evidence (take max_evidence_items spans)\<rparr>))"

definition text_snippets :: "string \<Rightarrow> string \<Rightarrow> json list" where
  "text_snippets needle text = take max_evidence_items
     (map (\<lambda>(i, l). JObj [(''line'', JInt (int i)), (''text'', JStr (take 512 l))])
       (filter (\<lambda>(i, l). contains_text l needle) (enumerate 1 (splitlines text))))"

definition evaluate_text_contains ::
    "run_view \<Rightarrow> target_rule \<Rightarrow> string \<Rightarrow> int \<Rightarrow> target_error + rule_evaluation" where
  "evaluate_text_contains view rule needle minimum =
     ebind (source_path view text_sources (tr_source rule)) (\<lambda>path.
     ebind (case rv_file view path of
              EvAbsent \<Rightarrow> Inr (0, [])
            | EvIrregular \<Rightarrow> Inl (TargetNotRegular ''target text source'')
            | EvFile t \<Rightarrow>
                (if max_text_bytes < length t then Inl (TargetTooLarge ''target text source'')
                 else Inr (count_from 0 needle t, text_snippets needle t))) (\<lambda>(n, snippets).
     Inr \<lparr>re_id = tr_id rule, re_type = rule_type_value TextContains, re_matched = (minimum \<le> int n),
          re_observed = n, re_required = minimum,
          re_summary = ''found text marker '' @ show_nat n @ '' times; requires '' @ show_int minimum,
          re_evidence = snippets\<rparr>))"

definition evaluate_json_field ::
    "loader \<Rightarrow> run_view \<Rightarrow> target_rule \<Rightarrow> string \<Rightarrow> json \<Rightarrow> target_error + rule_evaluation" where
  "evaluate_json_field loads view rule field_path expected =
     ebind (source_path view json_artifacts (tr_source rule)) (\<lambda>path.
     ebind (case rv_file view path of
              EvAbsent \<Rightarrow> Inr None
            | f \<Rightarrow> ebind (load_json_object loads f) (\<lambda>d. Inr (lookup_field d field_path))) (\<lambda>found.
     let actual = (case found of Some v \<Rightarrow> v | None \<Rightarrow> JNull);
         hit = (found \<noteq> None \<and> scalar_equal actual expected)
     in Inr \<lparr>re_id = tr_id rule, re_type = rule_type_value JsonFieldEquals, re_matched = hit,
          re_observed = (if hit then 1 else 0), re_required = 1,
          re_summary = ''JSON field '' @ repr_string field_path @
            (if hit then '' matched expected value'' else '' did not match expected value''),
          re_evidence = [JObj [(''artifact'', JStr path), (''field'', JStr field_path), (''actual'', actual),
             (''expected'', expected), (''field_present'', JBool (found \<noteq> None))]]\<rparr>))"

definition evaluate_rule :: "loader \<Rightarrow> run_view \<Rightarrow> target_rule \<Rightarrow> target_error + rule_evaluation" where
  "evaluate_rule loads view rule =
     (case tr_parameters rule of
        EventParameters wh n \<Rightarrow> evaluate_event_count loads view rule wh n
      | SequenceParameters s n g \<Rightarrow> evaluate_repeated_sequence loads view rule s n g
      | TextParameters t n \<Rightarrow> evaluate_text_contains view rule t n
      | FieldParameters f v \<Rightarrow> evaluate_json_field loads view rule f v)"

section \<open>The verdict\<close>

record target_evaluation =
  te_goal :: string
  te_description :: string
  te_reached :: bool
  te_reason :: string
  te_mode :: string
  te_min :: int
  te_matched :: nat
  te_total :: nat
  te_spec_sha256 :: string
  te_rules :: "rule_evaluation list"
  te_generated_at :: string

definition verdict_reason :: "target_spec \<Rightarrow> rule_evaluation list \<Rightarrow> string" where
  "verdict_reason s es =
     (let ok = filter re_matched es; missing = filter (\<lambda>e. \<not> re_matched e) es;
          ratio = show_nat (length ok) @ ''/'' @ show_nat (length es) @ '' rules matched''
      in if ts_min s \<le> int (length ok)
         then ''target '' @ repr_string (ts_goal s) @ '' satisfied: '' @ ratio @
              (if ok = [] then [] else '' ('' @ join_with '', '' (map re_id ok) @ '')'')
         else ''target '' @ repr_string (ts_goal s) @ '' not satisfied: '' @ ratio @ ''; requires '' @ show_int (ts_min s) @
              (if missing = [] then [] else ''; unmatched: '' @ join_with '', '' (map re_id missing)))"

definition evaluate_target :: "loader \<Rightarrow> string \<Rightarrow> run_view \<Rightarrow> target_spec \<Rightarrow> target_error + target_evaluation" where
  "evaluate_target loads now view s =
     ebind (guard (rv_is_directory view) TargetRunDirectory) (\<lambda>_.
     ebind (emap (evaluate_rule loads view) (ts_rules s)) (\<lambda>es.
     let n = length (filter re_matched es)
     in Inr \<lparr>te_goal = ts_goal s, te_description = ts_description s, te_reached = (ts_min s \<le> int n),
          te_reason = verdict_reason s es, te_mode = mode_value (ts_mode s), te_min = ts_min s, te_matched = n,
          te_total = length es, te_spec_sha256 = ts_sha256 s, te_rules = es, te_generated_at = now\<rparr>))"

definition rule_evaluation_to_dict :: "rule_evaluation \<Rightarrow> json" where
  "rule_evaluation_to_dict e = JObj
     [(''rule_id'', JStr (re_id e)), (''type'', JStr (re_type e)), (''matched'', JBool (re_matched e)),
      (''observed_count'', JInt (int (re_observed e))), (''required_count'', JInt (re_required e)),
      (''summary'', JStr (re_summary e)), (''evidence'', JList (re_evidence e))]"

definition target_evaluation_to_dict :: "target_evaluation \<Rightarrow> json" where
  "target_evaluation_to_dict e =
     (let payload =
        [(''schema_version'', JInt 1), (''oracle_version'', JInt 1), (''generated_at_utc'', JStr (te_generated_at e)),
         (''goal_id'', JStr (te_goal e)), (''description'', JStr (te_description e)), (''reached'', JBool (te_reached e)),
         (''reason'', JStr (te_reason e)), (''mode'', JStr (te_mode e)), (''min_satisfied'', JInt (te_min e)),
         (''matched_rules'', JInt (int (te_matched e))), (''total_rules'', JInt (int (te_total e))),
         (''spec_sha256'', JStr (te_spec_sha256 e)), (''rules'', JList (map rule_evaluation_to_dict (te_rules e)))]
      in JObj (payload @ [(''evaluation_sha256'', JStr (canonical_sha256 (JObj payload)))]))"

end
