(* ===== verification/Target_Properties.thy ===== *)
theory Target_Properties
  imports Target_Oracle
begin

text \<open>
  Properties of the target-state oracle: what a repeated sequence is and what the search finds of it,
  when a target counts as reached, and the round trip of a specification.
\<close>

section \<open>Occurrences of a sequence\<close>

text \<open>The positions of an occurrence increase, with at most \<open>gap\<close> other events between two of them.\<close>

fun gaps_ok :: "nat \<Rightarrow> nat \<Rightarrow> nat list \<Rightarrow> bool" where
  "gaps_ok gap p [] = True"
| "gaps_ok gap p (q # qs) = (p < q \<and> q \<le> p + gap + 1 \<and> gaps_ok gap q qs)"

definition event_at :: "fields list \<Rightarrow> nat \<Rightarrow> fields \<Rightarrow> bool" where
  "event_at events i expected \<longleftrightarrow> i < length events \<and> event_matches (events ! i) expected"

definition sequence_at :: "fields list \<Rightarrow> nat \<Rightarrow> fields list \<Rightarrow> nat list \<Rightarrow> bool" where
  "sequence_at events gap pattern ps \<longleftrightarrow>
     list_all2 (event_at events) ps pattern \<and> (case ps of [] \<Rightarrow> False | p # qs \<Rightarrow> gaps_ok gap p qs)"

lemma gaps_ok_last: "gaps_ok gap p qs \<Longrightarrow> p + length qs \<le> last (p # qs)"
  by (induction qs arbitrary: p) fastforce+

lemma match_rest_sound:
  "match_rest events gap p rest = Some q \<Longrightarrow>
     \<exists>qs. list_all2 (event_at events) qs rest \<and> gaps_ok gap p qs \<and> last (p # qs) = q"
proof (induction events gap p rest rule: match_rest.induct)
  case (1 events gap p)
  then show ?case by (intro exI [of _ "[]"]) simp
next
  case (2 events gap p w rest)
  from 2(2) obtain f where f: "find_event events w (p + 1) (min (length events) (p + gap + 2)) = Some f"
      "match_rest events gap f rest = Some q"
    by (auto split: option.splits)
  from 2(1) [OF f] obtain qs where "list_all2 (event_at events) qs rest" "gaps_ok gap f qs" "last (f # qs) = q"
    by blast
  moreover have "event_at events f w" "p < f" "f \<le> p + gap + 1"
    using find_event_Some [OF f(1)] by (auto simp: event_at_def)
  ultimately show ?case by (intro exI [of _ "f # qs"]) auto
qed

lemma find_event_at: "find_event events w a (length events) = Some i \<Longrightarrow> event_at events i w \<and> a \<le> i"
  using find_event_Some [of events w a "length events" i] by (simp add: event_at_def)

lemma find_event_first:
  assumes "find_event events w a b = Some i" "a \<le> j" "j < b" "event_matches (events ! j) w"
  shows "i \<le> j"
proof (rule ccontr)
  assume "\<not> i \<le> j"
  obtain k where k: "k < b - a" "i = a + k" "\<forall>l < k. \<not> event_matches (events ! (a + l)) w"
    using assms(1) by (auto simp: find_event_def find_Some_iff)
  with \<open>\<not> i \<le> j\<close> assms(2) have "j - a < k" by simp
  with k(3) assms(2,4) show False by auto
qed

definition span_of :: "fields list \<Rightarrow> nat \<Rightarrow> fields list \<Rightarrow> nat \<times> nat \<Rightarrow> bool" where
  "span_of events gap pattern x \<longleftrightarrow> (\<exists>ps. sequence_at events gap pattern ps \<and> hd ps = fst x \<and> last ps = snd x)"

lemma sequence_spans_sound:
  assumes "pattern \<noteq> []"
  shows "(\<forall>x \<in> set (sequence_spans events pattern gap c). c \<le> fst x \<and> snd x < length events \<and> span_of events gap pattern x) \<and>
    sorted_wrt (\<lambda>x y. snd x < fst y) (sequence_spans events pattern gap c) \<and>
    length (sequence_spans events pattern gap c) * length pattern \<le> length events - c"
  using assms
proof (induction events pattern gap c rule: sequence_spans.induct)
  case (1 events pattern gap c)
  show ?case
  proof (cases "length events \<le> c")
    case True
    then show ?thesis by (simp add: sequence_spans.simps)
  next
    case inside: False
    show ?thesis
    proof (cases "find_event events (hd pattern) c (length events)")
      case None
      then show ?thesis by (simp add: sequence_spans.simps)
    next
      case (Some s)
      note s = find_event_at [OF Some]
      show ?thesis
      proof (cases "match_rest events gap s (tl pattern)")
        case None
        have "sequence_spans events pattern gap c = sequence_spans events pattern gap (s + 1)"
          using inside Some None by (subst sequence_spans.simps) simp
        with 1(1) [OF inside Some None 1(3)] s show ?thesis by fastforce
      next
        case rest: (Some e)
        obtain qs where qs: "list_all2 (event_at events) qs (tl pattern)" "gaps_ok gap s qs" "last (s # qs) = e"
          using match_rest_sound [OF rest] by blast
        have eq: "sequence_spans events pattern gap c = (s, e) # sequence_spans events pattern gap (e + 1)"
          using inside Some rest by (subst sequence_spans.simps) simp
        have "list_all2 (event_at events) (s # qs) pattern"
          using qs(1) s 1(3) by (cases pattern) auto
        then have span: "span_of events gap pattern (s, e)" and len: "length pattern = Suc (length qs)"
            and e: "e < length events"
          using qs(2,3) by (auto simp: span_of_def sequence_at_def list_all2_lengthD intro!: exI [of _ "s # qs"])
            (auto simp: list_all2_conv_all_nth event_at_def last_conv_nth split: if_splits)
        have "s + length qs \<le> e" using gaps_ok_last [OF qs(2)] qs(3) by simp
        then have "length pattern + (length events - (e + 1)) \<le> length events - c"
          using len e s by linarith
        moreover have "c \<le> e + 1" using s \<open>s + length qs \<le> e\<close> by simp
        moreover note IH = 1(2) [OF inside Some rest 1(3)]
        ultimately show ?thesis
          unfolding eq using span e s by (auto simp: le_less_trans)
      qed
    qed
  qed
qed

text \<open>
  C27: The spans a repeated-sequence rule counts are disjoint and ordered, each is an occurrence of the
  sequence that respects the gap, and their number is bounded by the events divided by the sequence.
\<close>

theorem repeated_sequence_spans:
  assumes "pattern \<noteq> []"
  shows "sorted_wrt (\<lambda>x y. snd x < fst y) (sequence_spans events pattern gap 0) \<and>
    (\<forall>x \<in> set (sequence_spans events pattern gap 0). snd x < length events \<and> span_of events gap pattern x) \<and>
    length (sequence_spans events pattern gap 0) * length pattern \<le> length events"
  using sequence_spans_sound [OF assms, of events gap 0] by auto

section \<open>Completeness without gaps\<close>

lemma match_rest_contiguous:
  "list_all2 (event_at events) qs rest \<Longrightarrow> gaps_ok 0 p qs \<Longrightarrow> match_rest events 0 p rest \<noteq> None"
proof (induction rest arbitrary: p qs)
  case Nil
  then show ?case by simp
next
  case (Cons w rest)
  then obtain q qs' where qs: "qs = q # qs'" "event_at events q w" "list_all2 (event_at events) qs' rest"
    by (auto simp: list_all2_Cons2)
  with Cons.prems have q: "q = p + 1" "gaps_ok 0 q qs'" by auto
  have "find_event events w (p + 1) (min (length events) (p + 0 + 2)) = Some q"
    using qs(2) q by (auto simp: find_event_def event_at_def find_Some_iff upt_rec)
  with Cons.IH [OF qs(3) q(2)] show ?case by simp
qed

lemma sequence_spans_contiguous:
  "sequence_at events 0 pattern ps \<Longrightarrow> c \<le> hd ps \<Longrightarrow> sequence_spans events pattern 0 c \<noteq> []"
proof (induction events pattern "0 :: nat" c rule: sequence_spans.induct)
  case (1 events pattern c)
  obtain p qs w rest where ps: "ps = p # qs" "pattern = w # rest" "event_at events p w"
      "list_all2 (event_at events) qs rest" "gaps_ok 0 p qs"
    using 1(3) by (cases ps; cases pattern) (auto simp: sequence_at_def)
  have p: "c \<le> p" "p < length events" "event_matches (events ! p) w"
    using ps 1(4) by (auto simp: event_at_def)
  then obtain s where s: "find_event events w c (length events) = Some s"
    using find_event_None by blast
  show ?case
  proof (cases "match_rest events 0 s rest")
    case (Some e)
    with s p ps(2) show ?thesis by (subst sequence_spans.simps) simp
  next
    case None
    with match_rest_contiguous [OF ps(4,5)] have "s \<noteq> p" by auto
    moreover have "s \<le> p"
      using find_event_first [OF s] p by blast
    ultimately have "s + 1 \<le> hd ps" using ps(1) by simp
    with 1(1) [of s] 1(3) s None p ps(2) show ?thesis by (subst sequence_spans.simps) simp
  qed
qed

text \<open>
  C28: Without gaps the search is exact: it finds a span if and only if the sequence occurs as
  consecutive events.
\<close>

theorem contiguous_sequences_found:
  "(pattern \<noteq> [] \<and> sequence_spans events pattern 0 0 \<noteq> []) = (\<exists>ps. sequence_at events 0 pattern ps)"
proof
  assume "pattern \<noteq> [] \<and> sequence_spans events pattern 0 0 \<noteq> []"
  with sequence_spans_sound [of pattern events 0 0] show "\<exists>ps. sequence_at events 0 pattern ps"
    by (auto simp: span_of_def neq_Nil_conv)
next
  assume "\<exists>ps. sequence_at events 0 pattern ps"
  then obtain ps where ps: "sequence_at events 0 pattern ps" by blast
  then have "pattern \<noteq> []" by (cases pattern; cases ps) (auto simp: sequence_at_def)
  with sequence_spans_contiguous [OF ps, of 0] show "pattern \<noteq> [] \<and> sequence_spans events pattern 0 0 \<noteq> []" by simp
qed

text \<open>
  With gaps the search is greedy and incomplete: it commits to the first event that matches each
  element, so it counts no span in a run that contains the sequence within the allowed gaps.
\<close>

definition named :: "string \<Rightarrow> fields" where "named s = [(''event'', JStr s)]"

theorem greedy_search_misses_sequence:
  "\<exists>events pattern ps. sequence_at events 1 pattern ps \<and> sequence_spans events pattern 1 0 = []"
proof -
  let ?es = "[named ''a'', named ''b'', named ''b'', named ''x'', named ''c'']"
    and ?p = "[named ''a'', named ''b'', named ''c'']"
  have m: "event_matches (named s) (named t) \<longleftrightarrow> s = t" for s t
    by (auto simp: event_matches_def named_def scalar_equal_def)
  have "sequence_at ?es 1 ?p [0, 2, 4]"
    by (simp add: sequence_at_def event_at_def m)
  moreover have "sequence_spans ?es ?p 1 0 = []"
    by (simp add: sequence_spans.simps find_event_def m upt_rec_numeral)
  ultimately show ?thesis by blast
qed

section \<open>When a target is reached\<close>

lemma evaluate_rule_id: "evaluate_rule loads view r = Inr e \<Longrightarrow> re_id e = tr_id r"
  by (cases "tr_parameters r")
    (auto simp: evaluate_rule_def evaluate_event_count_def evaluate_repeated_sequence_def evaluate_text_contains_def
      evaluate_json_field_def result_simps Let_def split: prod.splits)

lemma filter_all_length: "int (length xs) \<le> int (length (filter P xs)) \<longleftrightarrow> (\<forall>x \<in> set xs. P x)"
  by (induction xs) (auto simp: le_Suc_eq dest: le_trans [OF _ length_filter_le])

text \<open>
  C26: The target of an accepted specification is reached exactly when all, any or the stated number of
  its rules match, each rule being evaluated once under its own identifier.
\<close>

theorem target_reached_iff:
  assumes "spec_from_dict v sha path = Inr s" and "evaluate_target loads now view s = Inr e"
  shows "map re_id (te_rules e) = map tr_id (ts_rules s) \<and> distinct (map re_id (te_rules e)) \<and>
    te_reached e = (case ts_mode s of
        AggregateAll \<Rightarrow> (\<forall>x \<in> set (te_rules e). re_matched x)
      | AggregateAny \<Rightarrow> (\<exists>x \<in> set (te_rules e). re_matched x)
      | AggregateAtLeast \<Rightarrow> ts_min s \<le> int (card {x \<in> set (te_rules e). re_matched x}))"
proof -
  note wf = spec_accepts [OF assms(1)]
  from assms(2) have em: "emap (evaluate_rule loads view) (ts_rules s) = Inr (te_rules e)"
      and reached: "te_reached e = (ts_min s \<le> int (length (filter re_matched (te_rules e))))"
    by (auto simp: evaluate_target_def result_simps Let_def)
  have ids: "map re_id (te_rules e) = map tr_id (ts_rules s)"
    using em [unfolded emap_Inr_iff]
    by (rule list_all2_induct) (auto dest: evaluate_rule_id)
  have dist: "distinct (map re_id (te_rules e))" using wf unfolding ids by (simp add: wf_spec_def)
  have count: "required_count_ok (ts_mode s) (length (te_rules e)) (ts_min s)"
    using wf ids by (metis length_map wf_spec_def)
  have card: "length (filter re_matched (te_rules e)) = card {x \<in> set (te_rules e). re_matched x}"
    using dist by (metis distinct_card distinct_filter distinct_map set_filter)
  show ?thesis
  proof (cases "ts_mode s")
    case AggregateAll
    with count reached filter_all_length [of "te_rules e" re_matched] ids dist
    show ?thesis by (simp add: required_count_ok_def)
  next
    case AggregateAny
    with count reached ids dist show ?thesis
      by (auto simp: required_count_ok_def Suc_le_eq filter_empty_conv)
  next
    case AggregateAtLeast
    with reached card ids dist show ?thesis by simp
  qed
qed

definition example_spec_json :: json where
  "example_spec_json = JObj
     [(''schema_version'', JInt 1), (''goal_id'', JStr ''g''), (''description'', JStr ''d''), (''mode'', JStr ''any''),
      (''rules'', JList
        [JObj [(''id'', JStr ''r1''), (''type'', JStr ''text_contains''), (''source'', JStr ''stdout''),
               (''needle'', JStr ''ready'')]])]"

definition example_rule :: target_rule where
  "example_rule = \<lparr>tr_id = ''r1'', tr_source = ''stdout'', tr_parameters = TextParameters ''ready'' 1, tr_description = None\<rparr>"

lemma example_spec: "spec_from_dict example_spec_json (Some ''d1'') None = Inr
    \<lparr>ts_goal = ''g'', ts_description = ''d'', ts_mode = AggregateAny, ts_min = 1, ts_rules = [example_rule],
     ts_sha256 = ''d1'', ts_path = None\<rparr>"
  by (simp add: spec_from_dict_def example_spec_json_def scalar_equal_def target_identifier_def bounded_string_def
      max_string_def max_rules_def ascii_alnum_def ascii_upper_def ascii_lower_def ascii_digit_def enum_of_def
      parse_aggregation_def nonempty_rules_def required_rules_def spec_digest_def known_source_def
      all_modes_def all_rule_types_def parse_rule_def parse_parameters_def text_sources_def positive_int_def
      example_rule_def)

definition example_view :: run_view where
  "example_view = \<lparr>rv_is_directory = True, rv_escapes = (\<lambda>_. False), rv_file = (\<lambda>_. EvFile ''not ready'')\<rparr>"

theorem target_reached_iff_witness:
  "\<exists>s e. spec_from_dict example_spec_json (Some ''d1'') None = Inr s \<and>
     evaluate_target (\<lambda>_. None) ''now'' example_view s = Inr e \<and> te_reached e \<and> map re_id (te_rules e) = [''r1'']"
proof -
  obtain s where s: "spec_from_dict example_spec_json (Some ''d1'') None = Inr s" "ts_rules s = [example_rule]"
      "ts_mode s = AggregateAny"
    using example_spec by simp
  have "count_from 0 ''ready'' ''not ready'' = 1" by (simp add: starts_with_def)
  then obtain x where "evaluate_rule (\<lambda>_. None) example_view example_rule = Inr x" "re_matched x"
    by (simp add: evaluate_rule_def example_rule_def evaluate_text_contains_def source_path_def example_view_def
        max_text_bytes_def)
  then obtain e where e: "evaluate_target (\<lambda>_. None) ''now'' example_view s = Inr e" "te_rules e = [x]" "re_matched x"
    using s(2) by (simp add: evaluate_target_def example_view_def Let_def)
  from target_reached_iff [OF s(1) e(1)] s e show ?thesis by (auto simp: example_rule_def)
qed

theorem repeated_sequence_spans_witness:
  "length (sequence_spans [named ''a'', named ''b'', named ''a''] [named ''a''] 0 0) * 1 \<le> 3"
  using repeated_sequence_spans [of "[named ''a'']" "[named ''a'', named ''b'', named ''a'']" 0] by simp

section \<open>Saving a specification\<close>

text \<open>What a saved specification keeps: \<open>to_dict\<close> leaves an empty description out.\<close>

definition saved_rule :: "target_rule \<Rightarrow> target_rule" where
  "saved_rule r = r\<lparr>tr_description := (if tr_description r = Some [] then None else tr_description r)\<rparr>"

definition saved_spec :: "target_spec \<Rightarrow> target_spec" where
  "saved_spec s = s\<lparr>ts_rules := map saved_rule (ts_rules s)\<rparr>"

lemma saved_rule_fields [simp]:
  "tr_id (saved_rule r) = tr_id r" "tr_description (saved_rule r) \<noteq> Some []" "wf_rule r \<Longrightarrow> wf_rule (saved_rule r)"
  "rule_to_dict (saved_rule r) = rule_to_dict r" "saved_rule r = r \<longleftrightarrow> tr_description r \<noteq> Some []"
  by (cases r; auto simp: saved_rule_def wf_rule_def rule_to_dict_def)+

lemma saved_spec_eq: "saved_spec s = s \<longleftrightarrow> (\<forall>r \<in> set (ts_rules s). tr_description r \<noteq> Some [])"
proof -
  have "saved_spec s = s \<longleftrightarrow> map saved_rule (ts_rules s) = ts_rules s" by (cases s) (simp add: saved_spec_def)
  also have "\<dots> \<longleftrightarrow> (\<forall>r \<in> set (ts_rules s). saved_rule r = r)"
    using map_eq_conv [of saved_rule "ts_rules s" "\<lambda>r. r"] by simp
  finally show ?thesis by simp
qed

lemma saved_spec_wf:
  assumes "wf_spec s"
  shows "wf_spec (saved_spec s)" "spec_to_dict (saved_spec s) = spec_to_dict s"
  using assms by (auto simp: wf_spec_def saved_spec_def spec_to_dict_def list_all_iff comp_def)

text \<open>
  C29: What the parser accepts is well-formed.  Saving and loading an accepted specification keeps it
  unchanged but for the empty descriptions of its rules, which the parser accepts and the writer leaves
  out; so it is the same specification exactly when no rule has an empty description.
\<close>

theorem accepted_spec_round_trip:
  assumes "spec_from_dict v sha path = Inr s"
  shows "wf_spec s \<and> spec_from_dict (spec_to_dict s) (Some (ts_sha256 s)) (ts_path s) = Inr (saved_spec s) \<and>
    (saved_spec s = s \<longleftrightarrow> (\<forall>r \<in> set (ts_rules s). tr_description r \<noteq> Some []))"
proof (intro conjI saved_spec_eq)
  show wf: "wf_spec s" by (rule spec_accepts [OF assms])
  have "spec_from_dict (spec_to_dict (saved_spec s)) (Some (ts_sha256 (saved_spec s))) (ts_path (saved_spec s)) = Inr (saved_spec s)"
    by (rule spec_roundtrip [OF saved_spec_wf(1) [OF wf]]) (auto simp: saved_spec_def)
  then show "spec_from_dict (spec_to_dict s) (Some (ts_sha256 s)) (ts_path s) = Inr (saved_spec s)"
    unfolding saved_spec_wf(2) [OF wf] by (simp add: saved_spec_def)
qed

theorem accepted_spec_round_trip_witness:
  "\<exists>s. spec_from_dict example_spec_json (Some ''d1'') None = Inr s \<and>
     spec_from_dict (spec_to_dict s) (Some ''d1'') None = Inr s"
  using accepted_spec_round_trip [OF example_spec] example_spec by (auto simp: example_rule_def)

end
