(* ===== verification/Progress_Oracle.thy ===== *)
theory Progress_Oracle
  imports Canonical_Json Python_Text "HOL-Library.Product_Lexorder"
begin

text \<open>
  The progress oracle (\<open>taintforge_env/progress_oracle.py\<close>): it normalizes the artifacts of an
  iteration, fingerprints them, and classifies an iteration against the previous one.
  \<open>pv_file\<close> gives the text of a path of the artifacts directory that is a regular file and no
  symbolic link; \<open>json.loads\<close> is an argument.
\<close>

section \<open>Observations\<close>

datatype progress_class = Baseline | Progress | NoProgress | Regression | GoalProgress

fun progress_class_value :: "progress_class \<Rightarrow> string" where
  "progress_class_value Baseline = ''baseline''"
| "progress_class_value Progress = ''progress''"
| "progress_class_value NoProgress = ''no_progress''"
| "progress_class_value Regression = ''regression''"
| "progress_class_value GoalProgress = ''goal_reached''"

record progress_metrics =
  pm_guest_total :: int
  pm_guest_unique :: int
  pm_network_total :: int
  pm_targets_unique :: int
  pm_requirements :: int
  pm_unmet :: int
  pm_likely_unmet :: int
  pm_automatic :: int
  pm_review :: int
  pm_manual :: int
  pm_fatal :: int

definition metrics_items :: "progress_metrics \<Rightarrow> (string \<times> int) list" where
  "metrics_items m =
     [(''guest_events_total'', pm_guest_total m), (''unique_guest_events'', pm_guest_unique m),
      (''network_events_total'', pm_network_total m), (''unique_network_targets'', pm_targets_unique m),
      (''requirements_total'', pm_requirements m), (''unmet_total'', pm_unmet m),
      (''likely_unmet_total'', pm_likely_unmet m), (''automatic_candidates'', pm_automatic m),
      (''review_required'', pm_review m), (''manual_analysis'', pm_manual m), (''fatal_signals'', pm_fatal m)]"

definition metrics_to_dict :: "progress_metrics \<Rightarrow> json" where
  "metrics_to_dict m = JObj (map (\<lambda>(k, v). (k, JInt v)) (metrics_items m))"

type_synonym event_fields = "(string \<times> json) list"

record iteration_observation =
  io_requirements_sha :: string
  io_requirements_fp :: string
  io_plan_sha :: string
  io_repair_fp :: string
  io_behavior_fp :: string
  io_state_fp :: string
  io_metrics :: progress_metrics
  io_guest :: "event_fields list"
  io_network :: "event_fields list"
  io_goal :: bool
  io_reason :: "string option"
  io_generated_at :: string

definition observation_to_dict :: "iteration_observation \<Rightarrow> json" where
  "observation_to_dict ob = JObj
     [(''schema_version'', JInt 1), (''generated_at_utc'', JStr (io_generated_at ob)),
      (''requirements_sha256'', JStr (io_requirements_sha ob)),
      (''requirements_fingerprint'', JStr (io_requirements_fp ob)),
      (''repair_plan_sha256'', JStr (io_plan_sha ob)), (''repair_fingerprint'', JStr (io_repair_fp ob)),
      (''behavior_fingerprint'', JStr (io_behavior_fp ob)), (''state_fingerprint'', JStr (io_state_fp ob)),
      (''goal_reached'', JBool (io_goal ob)), (''goal_reason'', opt_json JStr (io_reason ob)),
      (''metrics'', metrics_to_dict (io_metrics ob)),
      (''normalized_guest_events'', JList (map JObj (io_guest ob))),
      (''normalized_network_events'', JList (map JObj (io_network ob)))]"

datatype progress_error =
    ObNotObject
  | ObSchema
  | ObMetrics
  | ObMissingMetric string
  | ObMetricValue string
  | ObEvents string
  | ObField string
  | ObGoal
  | ObReason
  | ObMissing
  | ObInvalidJson string
  | ObDirectory
  | ObArtifactMissing string
  | ObSourceDigest
  | ObNoList string
  | ObItem string nat
  | ObItemField string nat

definition metric_value :: "event_fields \<Rightarrow> string \<Rightarrow> progress_error + int" where
  "metric_value raw name =
     (case map_of raw name of
        None \<Rightarrow> Inl (ObMissingMetric name)
      | Some (JInt i) \<Rightarrow> (if i < 0 then Inl (ObMetricValue name) else Inr i)
      | Some _ \<Rightarrow> Inl (ObMetricValue name))"

definition metrics_from_dict :: "event_fields \<Rightarrow> progress_error + progress_metrics" where
  "metrics_from_dict raw =
     ebind (metric_value raw ''guest_events_total'') (\<lambda>a.
     ebind (metric_value raw ''unique_guest_events'') (\<lambda>b.
     ebind (metric_value raw ''network_events_total'') (\<lambda>c.
     ebind (metric_value raw ''unique_network_targets'') (\<lambda>d.
     ebind (metric_value raw ''requirements_total'') (\<lambda>e.
     ebind (metric_value raw ''unmet_total'') (\<lambda>f.
     ebind (metric_value raw ''likely_unmet_total'') (\<lambda>g.
     ebind (metric_value raw ''automatic_candidates'') (\<lambda>h.
     ebind (metric_value raw ''review_required'') (\<lambda>i.
     ebind (metric_value raw ''manual_analysis'') (\<lambda>j.
     ebind (metric_value raw ''fatal_signals'') (\<lambda>k.
     Inr \<lparr>pm_guest_total = a, pm_guest_unique = b, pm_network_total = c, pm_targets_unique = d,
          pm_requirements = e, pm_unmet = f, pm_likely_unmet = g, pm_automatic = h, pm_review = i,
          pm_manual = j, pm_fatal = k\<rparr>)))))))))))"

fun all_objects :: "json list \<Rightarrow> event_fields list option" where
  "all_objects [] = Some []"
| "all_objects (JObj d # xs) = map_option ((#) d) (all_objects xs)"
| "all_objects (_ # xs) = None"

definition event_objects :: "json \<Rightarrow> string \<Rightarrow> progress_error + event_fields list" where
  "event_objects v name =
     (case v of
        JList xs \<Rightarrow> (case all_objects xs of Some ds \<Rightarrow> Inr ds | None \<Rightarrow> Inl (ObEvents name))
      | _ \<Rightarrow> Inl (ObEvents name))"

definition sha_field :: "event_fields \<Rightarrow> string \<Rightarrow> progress_error + string" where
  "sha_field raw name =
     (case jget raw name of
        JStr s \<Rightarrow> (if is_sha256 s then Inr s else Inl (ObField name))
      | _ \<Rightarrow> Inl (ObField name))"

definition observation_from_dict :: "json \<Rightarrow> progress_error + iteration_observation" where
  "observation_from_dict v =
     (case v of
        JObj raw \<Rightarrow>
          ebind (guard (scalar_equal (jget raw ''schema_version'') (JInt 1)) ObSchema) (\<lambda>_.
          ebind (case jget raw ''metrics'' of JObj m \<Rightarrow> Inr m | _ \<Rightarrow> Inl ObMetrics) (\<lambda>metrics_raw.
          ebind (metrics_from_dict metrics_raw) (\<lambda>metrics.
          ebind (event_objects (jget_or raw ''normalized_guest_events'' (JList [])) ''normalized_guest_events'') (\<lambda>guest.
          ebind (event_objects (jget_or raw ''normalized_network_events'' (JList [])) ''normalized_network_events'') (\<lambda>network.
          ebind (sha_field raw ''requirements_sha256'') (\<lambda>rs.
          ebind (sha_field raw ''requirements_fingerprint'') (\<lambda>rf.
          ebind (sha_field raw ''repair_plan_sha256'') (\<lambda>ps.
          ebind (sha_field raw ''repair_fingerprint'') (\<lambda>pf.
          ebind (sha_field raw ''behavior_fingerprint'') (\<lambda>bf.
          ebind (sha_field raw ''state_fingerprint'') (\<lambda>sf.
          ebind (case jget_or raw ''goal_reached'' (JBool False) of JBool b \<Rightarrow> Inr b | _ \<Rightarrow> Inl ObGoal) (\<lambda>goal.
          ebind (case jget raw ''goal_reason'' of JNull \<Rightarrow> Inr None | JStr s \<Rightarrow> Inr (Some s) | _ \<Rightarrow> Inl ObReason) (\<lambda>reason.
          Inr \<lparr>io_requirements_sha = rs, io_requirements_fp = rf, io_plan_sha = ps, io_repair_fp = pf,
               io_behavior_fp = bf, io_state_fp = sf, io_metrics = metrics, io_guest = guest, io_network = network,
               io_goal = goal, io_reason = reason,
               io_generated_at = text_or (jget raw ''generated_at_utc'') ''unknown''\<rparr>)))))))))))))
      | _ \<Rightarrow> Inl ObNotObject)"

definition load_observation :: "(string \<Rightarrow> json option) \<Rightarrow> string option \<Rightarrow> progress_error + iteration_observation" where
  "load_observation loads text =
     (case text of
        None \<Rightarrow> Inl ObMissing
      | Some t \<Rightarrow> (case loads t of None \<Rightarrow> Inl (ObInvalidJson ''observation'') | Some v \<Rightarrow> observation_from_dict v))"

section \<open>Normalization\<close>

definition item_text :: "event_fields \<Rightarrow> string \<Rightarrow> nat \<Rightarrow> progress_error + string" where
  "item_text item name index =
     (case jget item name of
        JStr s \<Rightarrow> (if s = [] then Inl (ObItemField name index) else Inr s)
      | _ \<Rightarrow> Inl (ObItemField name index))"

definition only_text :: "json \<Rightarrow> json" where
  "only_text v = (case v of JStr s \<Rightarrow> v | _ \<Rightarrow> JNull)"

text \<open>\<open>isinstance(value, int)\<close> holds of booleans too.\<close>

definition only_int :: "json \<Rightarrow> json" where
  "only_int v = (case v of JInt i \<Rightarrow> v | JBool b \<Rightarrow> v | _ \<Rightarrow> JNull)"

record norm_requirement =
  nr_id :: string
  nr_kind :: string
  nr_resource :: string
  nr_operation :: string
  nr_status :: string
  nr_blocking :: string
  nr_repairable :: bool
  nr_errno :: json

definition norm_requirement_json :: "norm_requirement \<Rightarrow> json" where
  "norm_requirement_json r = JObj
     [(''requirement_id'', JStr (nr_id r)), (''kind'', JStr (nr_kind r)), (''resource'', JStr (nr_resource r)),
      (''operation'', JStr (nr_operation r)), (''status'', JStr (nr_status r)),
      (''blocking'', JStr (nr_blocking r)), (''repairable'', JBool (nr_repairable r)), (''errno'', nr_errno r)]"

definition normalize_requirement :: "nat \<Rightarrow> json \<Rightarrow> progress_error + norm_requirement" where
  "normalize_requirement index v =
     (case v of
        JObj item \<Rightarrow>
          ebind (item_text item ''requirement_id'' index) (\<lambda>rid.
          ebind (item_text item ''kind'' index) (\<lambda>kind.
          ebind (item_text item ''resource'' index) (\<lambda>res.
          ebind (item_text item ''operation'' index) (\<lambda>op.
          ebind (item_text item ''status'' index) (\<lambda>status.
          ebind (item_text item ''blocking'' index) (\<lambda>blocking.
          Inr \<lparr>nr_id = rid, nr_kind = kind, nr_resource = res, nr_operation = op, nr_status = status,
               nr_blocking = blocking, nr_repairable = jtruthy (jget_or item ''repairable'' (JBool False)),
               nr_errno = only_text (jget item ''errno'')\<rparr>))))))
      | _ \<Rightarrow> Inl (ObItem ''requirements'' index))"

definition requirement_sort_key :: "norm_requirement \<Rightarrow> string \<times> string \<times> string \<times> string" where
  "requirement_sort_key r = (nr_kind r, nr_resource r, nr_operation r, nr_id r)"

definition normalize_requirements :: "event_fields \<Rightarrow> progress_error + norm_requirement list" where
  "normalize_requirements raw =
     (case jget raw ''requirements'' of
        JList xs \<Rightarrow> ebind (emap_enum normalize_requirement xs) (\<lambda>rs. Inr (sort_key requirement_sort_key rs))
      | _ \<Rightarrow> Inl (ObNoList ''requirements''))"

record norm_repair =
  np_id :: string
  np_requirement :: string
  np_resource :: string
  np_action :: string
  np_disposition :: string
  np_automatic :: bool

definition norm_repair_json :: "norm_repair \<Rightarrow> json" where
  "norm_repair_json r = JObj
     [(''decision_id'', JStr (np_id r)), (''requirement_id'', JStr (np_requirement r)),
      (''resource'', JStr (np_resource r)), (''action'', JStr (np_action r)),
      (''disposition'', JStr (np_disposition r)), (''automatic_allowed'', JBool (np_automatic r))]"

definition normalize_repair :: "nat \<Rightarrow> json \<Rightarrow> progress_error + norm_repair" where
  "normalize_repair index v =
     (case v of
        JObj item \<Rightarrow>
          ebind (item_text item ''decision_id'' index) (\<lambda>did.
          ebind (item_text item ''requirement_id'' index) (\<lambda>rid.
          ebind (item_text item ''resource'' index) (\<lambda>res.
          ebind (item_text item ''action'' index) (\<lambda>act.
          ebind (item_text item ''disposition'' index) (\<lambda>disp.
          Inr \<lparr>np_id = did, np_requirement = rid, np_resource = res, np_action = act, np_disposition = disp,
               np_automatic = jtruthy (jget_or item ''automatic_allowed'' (JBool False))\<rparr>)))))
      | _ \<Rightarrow> Inl (ObItem ''decisions'' index))"

definition normalize_repairs :: "event_fields \<Rightarrow> progress_error + norm_repair list" where
  "normalize_repairs raw =
     (case jget raw ''decisions'' of
        JList xs \<Rightarrow> ebind (emap_enum normalize_repair xs) (\<lambda>rs. Inr (sort_key np_id rs))
      | _ \<Rightarrow> Inl (ObNoList ''decisions''))"

text \<open>A guest event, or nothing for an event of another execution context.\<close>

definition normalize_guest_event :: "event_fields \<Rightarrow> event_fields option" where
  "normalize_guest_event e =
     (let ty = text_or (jget e ''event'') ''unknown'' in
      if jget e ''execution_context'' \<noteq> JStr ''guest'' then None
      else if ty = ''syscall'' then Some
        [(''event'', JStr ''syscall''), (''syscall'', JStr (text_or (jget e ''syscall'') ''unknown'')),
         (''errno'', only_text (jget e ''errno'')),
         (''success'', case jget e ''return_value'' of JInt i \<Rightarrow> JBool (0 \<le> i) | _ \<Rightarrow> JNull),
         (''path'', only_text (jget e ''path'')), (''remote_ip'', only_text (jget e ''remote_ip'')),
         (''remote_port'', only_int (jget e ''remote_port''))]
      else if ty = ''signal'' \<or> ty = ''process_exit'' then Some
        [(''event'', JStr ty), (''result'', JStr (text_or (jget e ''result'') ''unknown''))]
      else Some [(''event'', JStr ty)])"

definition normalize_network_event :: "event_fields \<Rightarrow> event_fields" where
  "normalize_network_event e =
     [(''event'', JStr (text_or (jget e ''event'') ''unknown'')),
      (''listener_type'', only_text (jget e ''listener_type'')),
      (''original_remote_ip'', only_text (jget e ''original_remote_ip'')),
      (''original_remote_port'', only_int (jget e ''original_remote_port'')),
      (''udp_role'', only_text (jget e ''udp_role'')),
      (''response_observed'', JBool (jget e ''event'' = JStr ''tcp_response''))]"

definition read_jsonl_line :: "(string \<Rightarrow> json option) \<Rightarrow> string \<Rightarrow> progress_error + event_fields" where
  "read_jsonl_line loads line =
     (case loads line of Some (JObj d) \<Rightarrow> Inr d | _ \<Rightarrow> Inl (ObInvalidJson ''JSONL''))"

definition read_jsonl :: "(string \<Rightarrow> json option) \<Rightarrow> string option \<Rightarrow> progress_error + event_fields list" where
  "read_jsonl loads f =
     (case f of
        None \<Rightarrow> Inr []
      | Some t \<Rightarrow> emap (read_jsonl_line loads) (filter (\<lambda>l. py_strip l \<noteq> []) (splitlines t)))"

definition normalize_guest_events :: "(string \<Rightarrow> json option) \<Rightarrow> string option \<Rightarrow> progress_error + event_fields list" where
  "normalize_guest_events loads f =
     ebind (read_jsonl loads f) (\<lambda>es. Inr (map the (filter (\<lambda>x. x \<noteq> None) (map normalize_guest_event es))))"

definition normalize_network_events :: "(string \<Rightarrow> json option) \<Rightarrow> string option \<Rightarrow> progress_error + event_fields list" where
  "normalize_network_events loads f = ebind (read_jsonl loads f) (\<lambda>es. Inr (map normalize_network_event es))"

section \<open>Metrics\<close>

text \<open>Members of a Python set of scalars: numbers and booleans are one member when they are equal.\<close>

fun set_member :: "json \<Rightarrow> json" where
  "set_member (JBool b) = JInt (if b then 1 else 0)"
| "set_member (JFloat (FloatFin r s)) =
     (if r = of_int (floor r) then JInt (floor r) else JFloat (FloatFin r []))"
| "set_member v = v"

text \<open>The pairs of \<open>_network_targets\<close>; the fields of normalized events are text, integers or null.\<close>

definition network_target :: "event_fields \<Rightarrow> (json \<times> json) option" where
  "network_target e =
     (let ip = jget e ''original_remote_ip''; port = jget e ''original_remote_port'' in
      if ip = JNull \<or> port = JNull then None else Some (set_member ip, set_member port))"

definition network_targets :: "event_fields list \<Rightarrow> (json \<times> json) list" where
  "network_targets es = remdups (map the (filter (\<lambda>x. x \<noteq> None) (map network_target es)))"

definition event_texts :: "event_fields list \<Rightarrow> string list" where
  "event_texts es = remdups (map (\<lambda>e. canonical_json (JObj e)) es)"

definition count_where :: "('a \<Rightarrow> bool) \<Rightarrow> 'a list \<Rightarrow> int" where
  "count_where p xs = int (length (filter p xs))"

definition build_metrics ::
    "norm_requirement list \<Rightarrow> norm_repair list \<Rightarrow> event_fields list \<Rightarrow> event_fields list \<Rightarrow> progress_metrics" where
  "build_metrics reqs reps guest network =
     \<lparr>pm_guest_total = int (length guest), pm_guest_unique = int (length (event_texts guest)),
      pm_network_total = int (length network), pm_targets_unique = int (length (network_targets network)),
      pm_requirements = int (length reqs), pm_unmet = count_where (\<lambda>r. nr_status r = ''unmet'') reqs,
      pm_likely_unmet = count_where (\<lambda>r. nr_status r = ''unmet'' \<and> nr_blocking r = ''likely'') reqs,
      pm_automatic = count_where np_automatic reps,
      pm_review = count_where (\<lambda>r. np_disposition r = ''review_required'') reps,
      pm_manual = count_where (\<lambda>r. np_disposition r = ''manual_analysis'') reps,
      pm_fatal = count_where (\<lambda>e. jget e ''event'' = JStr ''signal'') guest\<rparr>"

section \<open>Observing an iteration\<close>

record artifacts_view =
  pv_directory :: bool
  pv_file :: "string \<Rightarrow> string option"

fun first_file :: "artifacts_view \<Rightarrow> string list \<Rightarrow> string option" where
  "first_file view [] = None"
| "first_file view (p # ps) = (case pv_file view p of Some t \<Rightarrow> Some t | None \<Rightarrow> first_file view ps)"

definition locate_optional_file :: "artifacts_view \<Rightarrow> string \<Rightarrow> string option" where
  "locate_optional_file view name = first_file view [name, ''config/'' @ name, ''logs/'' @ name]"

definition locate_file :: "artifacts_view \<Rightarrow> string \<Rightarrow> progress_error + string" where
  "locate_file view name =
     (case locate_optional_file view name of None \<Rightarrow> Inl (ObArtifactMissing name) | Some t \<Rightarrow> Inr t)"

definition load_object :: "(string \<Rightarrow> json option) \<Rightarrow> string \<Rightarrow> progress_error + event_fields" where
  "load_object loads t =
     (case loads t of None \<Rightarrow> Inl (ObInvalidJson ''artifact'') | Some (JObj d) \<Rightarrow> Inr d | Some _ \<Rightarrow> Inl ObNotObject)"

definition state_payload :: "string \<Rightarrow> string \<Rightarrow> string \<Rightarrow> string \<Rightarrow> json" where
  "state_payload snapshot rf pf bf = JObj
     [(''environment_snapshot_id'', JStr snapshot), (''requirements_fingerprint'', JStr rf),
      (''repair_fingerprint'', JStr pf), (''behavior_fingerprint'', JStr bf)]"

definition behavior_payload :: "event_fields list \<Rightarrow> event_fields list \<Rightarrow> json" where
  "behavior_payload guest network =
     JObj [(''guest_events'', JList (map JObj guest)), (''network_events'', JList (map JObj network))]"

text \<open>What an observation is made of: the two texts, the normalized requirements and repairs, and the events.\<close>

type_synonym evidence =
  "string \<times> string \<times> norm_requirement list \<times> norm_repair list \<times> event_fields list \<times> event_fields list"

definition collect_evidence :: "(string \<Rightarrow> json option) \<Rightarrow> artifacts_view \<Rightarrow> progress_error + evidence" where
  "collect_evidence loads view =
     ebind (guard (pv_directory view) ObDirectory) (\<lambda>_.
     ebind (locate_file view ''runtime_requirements.json'') (\<lambda>req_text.
     ebind (locate_file view ''repair_plan.json'') (\<lambda>plan_text.
     ebind (load_object loads req_text) (\<lambda>requirements.
     ebind (load_object loads plan_text) (\<lambda>plan.
     ebind (guard (jget plan ''source_sha256'' = JStr (sha256_hex req_text)) ObSourceDigest) (\<lambda>_.
     ebind (normalize_requirements requirements) (\<lambda>reqs.
     ebind (normalize_repairs plan) (\<lambda>reps.
     ebind (normalize_guest_events loads (locate_optional_file view ''syscall_events.jsonl'')) (\<lambda>guest.
     ebind (normalize_network_events loads (locate_optional_file view ''network_events.jsonl'')) (\<lambda>network.
     Inr (req_text, plan_text, reqs, reps, guest, network)))))))))))"

definition make_observation :: "string \<Rightarrow> string \<Rightarrow> bool \<Rightarrow> string option \<Rightarrow> evidence \<Rightarrow> iteration_observation" where
  "make_observation now snapshot goal reason e =
     (case e of (req_text, plan_text, reqs, reps, guest, network) \<Rightarrow>
      let rf = canonical_sha256 (JList (map norm_requirement_json reqs));
          pf = canonical_sha256 (JList (map norm_repair_json reps));
          bf = canonical_sha256 (behavior_payload guest network)
      in \<lparr>io_requirements_sha = sha256_hex req_text, io_requirements_fp = rf,
          io_plan_sha = sha256_hex plan_text, io_repair_fp = pf, io_behavior_fp = bf,
          io_state_fp = canonical_sha256 (state_payload snapshot rf pf bf),
          io_metrics = build_metrics reqs reps guest network, io_guest = guest, io_network = network,
          io_goal = goal,
          io_reason = (if goal \<and> reason \<in> {None, Some []} then Some ''explicit goal marker supplied'' else reason),
          io_generated_at = now\<rparr>)"

definition observe_artifacts ::
    "(string \<Rightarrow> json option) \<Rightarrow> string \<Rightarrow> artifacts_view \<Rightarrow> string \<Rightarrow> bool \<Rightarrow> string option
     \<Rightarrow> progress_error + iteration_observation" where
  "observe_artifacts loads now view snapshot goal reason =
     ebind (collect_evidence loads view) (\<lambda>e. Inr (make_observation now snapshot goal reason e))"

section \<open>Comparing two iterations\<close>

record progress_decision =
  pd_class :: progress_class
  pd_reasons :: "string list"
  pd_new_guest :: int
  pd_removed_guest :: int
  pd_new_targets :: int
  pd_likely_delta :: int
  pd_unmet_delta :: int

definition only_in :: "'a list \<Rightarrow> 'a list \<Rightarrow> nat" where
  "only_in xs ys = length (filter (\<lambda>x. x \<notin> set ys) xs)"

definition compare_observations ::
    "iteration_observation option \<Rightarrow> iteration_observation \<Rightarrow> progress_decision" where
  "compare_observations previous cur =
     (if io_goal cur then
        \<lparr>pd_class = GoalProgress,
         pd_reasons = [case io_reason cur of Some (c # s) \<Rightarrow> c # s | _ \<Rightarrow> ''explicit goal reached''],
         pd_new_guest = 0, pd_removed_guest = 0, pd_new_targets = 0, pd_likely_delta = 0, pd_unmet_delta = 0\<rparr>
      else case previous of
        None \<Rightarrow>
          \<lparr>pd_class = Baseline, pd_reasons = [''first completed iteration establishes the baseline''],
           pd_new_guest = pm_guest_unique (io_metrics cur), pd_removed_guest = 0,
           pd_new_targets = pm_targets_unique (io_metrics cur), pd_likely_delta = 0, pd_unmet_delta = 0\<rparr>
      | Some old \<Rightarrow>
          (let old_guest = event_texts (io_guest old); cur_guest = event_texts (io_guest cur);
               fresh = only_in cur_guest old_guest; gone = only_in old_guest cur_guest;
               targets = only_in (network_targets (io_network cur)) (network_targets (io_network old));
               likely = pm_likely_unmet (io_metrics cur) - pm_likely_unmet (io_metrics old);
               unmet = pm_unmet (io_metrics cur) - pm_unmet (io_metrics old);
               pos = (if 0 < fresh then [''observed '' @ show_nat fresh @ '' new normalized guest events''] else []) @
                     (if 0 < targets then [''observed '' @ show_nat targets @ '' new network targets''] else []) @
                     (if likely < 0 then [''likely unmet requirements decreased by '' @ show_int (- likely)] else []) @
                     (if unmet < 0 then [''unmet requirements decreased by '' @ show_int (- unmet)] else []);
               neg = (if pm_fatal (io_metrics old) < pm_fatal (io_metrics cur) then [''fatal signal count increased''] else []) @
                     (if 0 < likely then [''likely unmet requirements increased by '' @ show_int likely] else []) @
                     (if 0 < gone \<and> fresh = 0 then [show_nat gone @ '' previously observed guest events disappeared''] else [])
           in \<lparr>pd_class = (if pos \<noteq> [] \<and> neg = [] then Progress else if neg \<noteq> [] \<and> pos = [] then Regression else NoProgress),
               pd_reasons = (if pos \<noteq> [] \<and> neg = [] then pos else if neg \<noteq> [] \<and> pos = [] then neg
                 else if pos @ neg = [] then [''no conservative progress signal changed''] else pos @ neg),
               pd_new_guest = int fresh, pd_removed_guest = int gone, pd_new_targets = int targets,
               pd_likely_delta = likely, pd_unmet_delta = unmet\<rparr>))"

definition progress_to_dict_items :: "progress_decision \<Rightarrow> event_fields" where
  "progress_to_dict_items d =
     [(''classification'', JStr (progress_class_value (pd_class d))), (''reasons'', JList (map JStr (pd_reasons d))),
      (''new_guest_events'', JInt (pd_new_guest d)), (''removed_guest_events'', JInt (pd_removed_guest d)),
      (''new_network_targets'', JInt (pd_new_targets d)), (''likely_unmet_delta'', JInt (pd_likely_delta d)),
      (''unmet_delta'', JInt (pd_unmet_delta d))]"

section \<open>Observations load back\<close>

definition wf_observation :: "iteration_observation \<Rightarrow> bool" where
  "wf_observation ob \<longleftrightarrow>
     list_all is_sha256 [io_requirements_sha ob, io_requirements_fp ob, io_plan_sha ob, io_repair_fp ob,
       io_behavior_fp ob, io_state_fp ob] \<and>
     list_all (\<lambda>(k, v). 0 \<le> v) (metrics_items (io_metrics ob)) \<and> io_generated_at ob \<noteq> []"

lemma all_objects_map [simp]: "all_objects (map JObj ds) = Some ds"
  by (induction ds) auto

lemma metrics_roundtrip:
  assumes "list_all (\<lambda>(k, v). 0 \<le> v) (metrics_items m)"
  shows "metrics_from_dict (map (\<lambda>(k, v). (k, JInt v)) (metrics_items m)) = Inr m"
  using assms by (cases m) (simp add: metrics_from_dict_def metrics_items_def metric_value_def)

lemma observation_roundtrip:
  assumes "wf_observation ob"
  shows "observation_from_dict (observation_to_dict ob) = Inr ob"
  using assms metrics_roundtrip [of "io_metrics ob"]
  by (cases "io_reason ob"; cases ob)
    (auto simp: observation_from_dict_def observation_to_dict_def wf_observation_def scalar_equal_def sha_field_def
      event_objects_def metrics_to_dict_def opt_json_def text_or_def)

lemma observe_wf:
  assumes "observe_artifacts loads now view snapshot goal reason = Inr ob" "now \<noteq> []"
  shows "wf_observation ob"
  using assms
  by (auto simp: observe_artifacts_def make_observation_def ebind_Inr_iff wf_observation_def metrics_items_def build_metrics_def
      count_where_def Let_def)

lemma observe_fields:
  assumes "observe_artifacts loads now view snapshot goal reason = Inr ob"
  shows "io_goal ob = goal"
    "io_reason ob = (if goal \<and> reason \<in> {None, Some []} then Some ''explicit goal marker supplied'' else reason)"
proof -
  obtain e where "ob = make_observation now snapshot goal reason e"
    using assms by (auto simp: observe_artifacts_def ebind_Inr_iff)
  then show "io_goal ob = goal"
    "io_reason ob = (if goal \<and> reason \<in> {None, Some []} then Some ''explicit goal marker supplied'' else reason)"
    by (simp_all add: make_observation_def Let_def split: prod.split)
qed

section \<open>What a fingerprint determines\<close>

lemma list_fingerprint_eq:
  assumes "canonical_sha256 (JList (map f xs)) = canonical_sha256 (JList (map f ys))"
    and "\<And>x. x \<in> set xs \<union> set ys \<Longrightarrow> float_free (f x)"
    and "\<And>x y. x \<in> set xs \<Longrightarrow> y \<in> set ys \<Longrightarrow> sort_json (f x) = sort_json (f y) \<Longrightarrow> x = y"
  shows "xs = ys \<or> sha256_collision (canonical_json (JList (map f xs))) (canonical_json (JList (map f ys)))"
proof -
  have "sort_json (JList (map f xs)) = sort_json (JList (map f ys)) \<or>
      sha256_collision (canonical_json (JList (map f xs))) (canonical_json (JList (map f ys)))"
    using assms(1,2) by (intro canonical_sha256_eq) (auto simp: list_all_iff)
  then show ?thesis
  proof
    assume "sort_json (JList (map f xs)) = sort_json (JList (map f ys))"
    then have "list_all2 (\<lambda>x y. sort_json (f x) = sort_json (f y)) xs ys"
      by (simp add: list_all2_conv_all_nth list_eq_iff_nth_eq)
    with assms(3) have "list_all2 (=) xs ys"
      by (auto simp: list_all2_conv_all_nth)
    then show ?thesis by (simp add: list.rel_eq)
  qed simp
qed

lemma only_text_simps [simp]:
  "float_free (only_text v)" "sort_json (only_text v) = only_text v"
  "float_free (only_int v)" "sort_json (only_int v) = only_int v"
  by (cases v; simp add: only_text_def only_int_def)+

lemma norm_requirement_eq:
  assumes "sort_json (norm_requirement_json r) = sort_json (norm_requirement_json q)"
    and "nr_errno r = only_text v" "nr_errno q = only_text w"
  shows "r = q"
proof -
  note get = sorted_jget [OF assms(1) [unfolded norm_requirement_json_def]]
  show ?thesis
    using get [of "''requirement_id''"] get [of "''kind''"] get [of "''resource''"] get [of "''operation''"]
      get [of "''status''"] get [of "''blocking''"] get [of "''repairable''"] get [of "''errno''"] assms(2,3)
    by (cases r; cases q) simp
qed

lemma norm_repair_eq:
  assumes "sort_json (norm_repair_json r) = sort_json (norm_repair_json q)"
  shows "r = q"
proof -
  note get = sorted_jget [OF assms [unfolded norm_repair_json_def]]
  show ?thesis
    using get [of "''decision_id''"] get [of "''requirement_id''"] get [of "''resource''"] get [of "''action''"]
      get [of "''disposition''"] get [of "''automatic_allowed''"]
    by (cases r; cases q) simp
qed

lemma normalized_requirement_errno:
  assumes "normalize_requirements raw = Inr rs" "r \<in> set rs"
  shows "\<exists>v. nr_errno r = only_text v"
proof -
  obtain xs ys where ys: "emap_enum normalize_requirement xs = Inr ys" "set rs = set ys"
    using assms(1) by (auto simp: normalize_requirements_def result_simps split: json.splits)
  then obtain i where "i < length xs" "normalize_requirement i (xs ! i) = Inr r"
    using emap_enum_set [OF ys(1)] assms(2) by blast
  then show ?thesis by (auto simp: normalize_requirement_def result_simps split: json.splits)
qed

lemma only_fields_not_JObj [simp]: "only_text v \<noteq> JObj d" "only_int v \<noteq> JObj d"
  by (cases v; simp add: only_text_def only_int_def)+

text \<open>The three shapes of a normalized guest event.\<close>

lemma guest_event_shapes:
  assumes "normalize_guest_event e = Some n"
  obtains (syscall) name errno ok path ip port where
    "n = [(''event'', JStr ''syscall''), (''syscall'', JStr name), (''errno'', only_text errno), (''success'', ok),
       (''path'', only_text path), (''remote_ip'', only_text ip), (''remote_port'', only_int port)]"
    "float_free ok" "sort_json ok = ok"
  | (signal) ty res where "n = [(''event'', JStr ty), (''result'', JStr res)]"
  | (other) ty where "n = [(''event'', JStr ty)]"
proof -
  have ok: "float_free (case v of JInt i \<Rightarrow> JBool (0 \<le> i) | _ \<Rightarrow> JNull)"
      "sort_json (case v of JInt i \<Rightarrow> JBool (0 \<le> i) | _ \<Rightarrow> JNull) = (case v of JInt i \<Rightarrow> JBool (0 \<le> i) | _ \<Rightarrow> JNull)" for v
    by (cases v; simp)+
  from assms show thesis
    unfolding normalize_guest_event_def Let_def
    by (auto split: if_splits intro: syscall [OF _ ok] signal other)
qed

lemma guest_event_eq:
  assumes "normalize_guest_event e = Some n" "normalize_guest_event f = Some m"
    and "sort_json (JObj n) = sort_json (JObj m)"
  shows "n = m"
proof -
  have dist: "distinct (map fst n)" "distinct (map fst m)"
    using assms(1,2) by (auto elim!: guest_event_shapes)
  note look = sorted_items_lookup [OF assms(3) dist] and get = sorted_jget [OF assms(3) dist]
  note probes = look [of "''syscall''"] look [of "''result''"] get [of "''event''"] get [of "''syscall''"]
    get [of "''errno''"] get [of "''success''"] get [of "''path''"] get [of "''remote_ip''"] get [of "''remote_port''"]
    get [of "''result''"]
  show ?thesis
    by (rule guest_event_shapes [OF assms(1)]; rule guest_event_shapes [OF assms(2)]; use probes in simp)
qed

lemma network_event_eq:
  assumes "sort_json (JObj (normalize_network_event e)) = sort_json (JObj (normalize_network_event f))"
  shows "normalize_network_event e = normalize_network_event f"
proof -
  have dist: "distinct (map fst (normalize_network_event e))" for e by (simp add: normalize_network_event_def)
  note get = sorted_jget [OF assms dist dist]
  show ?thesis
    using get [of "''event''"] get [of "''listener_type''"] get [of "''original_remote_ip''"]
      get [of "''original_remote_port''"] get [of "''udp_role''"] get [of "''response_observed''"]
    by (simp add: normalize_network_event_def)
qed

lemma guest_events_normal:
  "normalize_guest_events loads f = Inr gs \<Longrightarrow> g \<in> set gs \<Longrightarrow> \<exists>e. normalize_guest_event e = Some g"
  unfolding normalize_guest_events_def result_simps by fastforce

lemma network_events_normal:
  "normalize_network_events loads f = Inr gs \<Longrightarrow> g \<in> set gs \<Longrightarrow> \<exists>e. g = normalize_network_event e"
  by (auto simp: normalize_network_events_def result_simps)

lemma guest_event_float_free: "normalize_guest_event e = Some n \<Longrightarrow> float_free (JObj n)"
  by (erule guest_event_shapes) auto

lemma network_event_float_free: "float_free (JObj (normalize_network_event e))"
  by (simp add: normalize_network_event_def)

lemma event_lists_eq:
  assumes "map (\<lambda>d. sort_json (JObj d)) xs = map (\<lambda>d. sort_json (JObj d)) ys"
    and "\<And>x y. x \<in> set xs \<Longrightarrow> y \<in> set ys \<Longrightarrow> sort_json (JObj x) = sort_json (JObj y) \<Longrightarrow> x = y"
  shows "xs = ys"
proof -
  have "list_all2 (=) xs ys"
    using assms by (auto simp: list_all2_conv_all_nth list_eq_iff_nth_eq simp del: sort_json.simps)
  then show ?thesis by (simp add: list.rel_eq)
qed

lemma behavior_fingerprint_eq:
  assumes "normalize_guest_events l1 f1 = Inr g1" "normalize_network_events l1' n1' = Inr n1"
    and "normalize_guest_events l2 f2 = Inr g2" "normalize_network_events l2' n2' = Inr n2"
    and "canonical_sha256 (behavior_payload g1 n1) = canonical_sha256 (behavior_payload g2 n2)"
  shows "(g1 = g2 \<and> n1 = n2) \<or>
    sha256_collision (canonical_json (behavior_payload g1 n1)) (canonical_json (behavior_payload g2 n2))"
proof -
  have free: "float_free (behavior_payload g n)"
    if "normalize_guest_events l f = Inr g" "normalize_network_events k h = Inr n" for l f g k h n
  proof -
    have "\<forall>x \<in> set g. float_free (JObj x)" "\<forall>x \<in> set n. float_free (JObj x)"
      using guest_events_normal [OF that(1)] guest_event_float_free
        network_events_normal [OF that(2)] network_event_float_free by blast+
    then show ?thesis by (simp add: behavior_payload_def list_all_iff)
  qed
  note ff = free [OF assms(1,2)] free [OF assms(3,4)]
  from canonical_sha256_eq [OF assms(5) ff] show ?thesis
  proof
    assume *: "sort_json (behavior_payload g1 n1) = sort_json (behavior_payload g2 n2)"
    note get = sorted_jget [OF * [unfolded behavior_payload_def]]
    have "map (\<lambda>d. sort_json (JObj d)) g1 = map (\<lambda>d. sort_json (JObj d)) g2"
        "map (\<lambda>d. sort_json (JObj d)) n1 = map (\<lambda>d. sort_json (JObj d)) n2"
      using get [of "''guest_events''"] get [of "''network_events''"] by (simp_all add: comp_def)
    then have "g1 = g2" "n1 = n2"
      using guest_events_normal [OF assms(1)] guest_events_normal [OF assms(3)] guest_event_eq
        network_events_normal [OF assms(2)] network_events_normal [OF assms(4)] network_event_eq
      by (blast intro: event_lists_eq)+
    then show ?thesis by simp
  qed simp
qed

lemma state_fingerprint_eq:
  assumes "canonical_sha256 (state_payload s1 r1 p1 b1) = canonical_sha256 (state_payload s2 r2 p2 b2)"
  shows "(s1 = s2 \<and> r1 = r2 \<and> p1 = p2 \<and> b1 = b2) \<or>
    sha256_collision (canonical_json (state_payload s1 r1 p1 b1)) (canonical_json (state_payload s2 r2 p2 b2))"
proof -
  have ff: "float_free (state_payload s r p b)" for s r p b by (simp add: state_payload_def)
  from canonical_sha256_eq [OF assms ff ff] show ?thesis
  proof
    assume *: "sort_json (state_payload s1 r1 p1 b1) = sort_json (state_payload s2 r2 p2 b2)"
    note get = sorted_jget [OF * [unfolded state_payload_def]]
    show ?thesis
      using get [of "''environment_snapshot_id''"] get [of "''requirements_fingerprint''"]
        get [of "''repair_fingerprint''"] get [of "''behavior_fingerprint''"] by simp
  qed simp
qed

lemma requirements_fingerprint_eq:
  assumes "normalize_requirements raw1 = Inr rs" "normalize_requirements raw2 = Inr qs"
    and "canonical_sha256 (JList (map norm_requirement_json rs)) = canonical_sha256 (JList (map norm_requirement_json qs))"
  shows "rs = qs \<or> sha256_collision (canonical_json (JList (map norm_requirement_json rs)))
    (canonical_json (JList (map norm_requirement_json qs)))"
proof (rule list_fingerprint_eq [OF assms(3)])
  note errno = normalized_requirement_errno [OF assms(1)] normalized_requirement_errno [OF assms(2)]
  show "float_free (norm_requirement_json r)" if r: "r \<in> set rs \<union> set qs" for r
  proof -
    obtain v where "nr_errno r = only_text v" using r errno(1) [of r] errno(2) [of r] by auto
    then show ?thesis by (simp add: norm_requirement_json_def)
  qed
  show "r = q" if "r \<in> set rs" "q \<in> set qs" "sort_json (norm_requirement_json r) = sort_json (norm_requirement_json q)" for r q
    using errno that by (metis norm_requirement_eq)
qed

lemma repairs_fingerprint_eq:
  assumes "canonical_sha256 (JList (map norm_repair_json rs)) = canonical_sha256 (JList (map norm_repair_json qs))"
  shows "rs = qs \<or> sha256_collision (canonical_json (JList (map norm_repair_json rs)))
    (canonical_json (JList (map norm_repair_json qs)))"
  by (rule list_fingerprint_eq [OF assms]) (auto simp: norm_repair_json_def intro: norm_repair_eq)

lemma collect_evidence_normal:
  assumes "collect_evidence loads view = Inr (rt, pt, reqs, reps, guest, network)"
  obtains raw fg fn where "normalize_requirements raw = Inr reqs" "normalize_guest_events loads fg = Inr guest"
    "normalize_network_events loads fn = Inr network"
  using assms by (auto simp: collect_evidence_def result_simps)

end
