(* ===== verification/Environment_Manifest.thy ===== *)
theory Environment_Manifest
  imports Attempt Requirements
begin

text \<open>
  Environment manifests (\<open>taintforge_env/environment_manifest.py\<close>): versioned descriptions of the
  environment, each with the digest of its parent.  The dataclasses validate in
  \<open>__post_init__\<close>; a \<open>check\<close> function per record performs the same tests in the same
  order.  The lemmas characterise accepted values and show that the codec returns them unchanged.
\<close>

section \<open>Enumerations\<close>

datatype resource_kind =
    ResDirectory | ResFile | ResDevice | ResEndpoint | ResService | ResLibrary | ResLoader | ResSyscall | ResPersona

fun resource_kind_value :: "resource_kind \<Rightarrow> string" where
  "resource_kind_value ResDirectory = ''directory''"
| "resource_kind_value ResFile = ''file''"
| "resource_kind_value ResDevice = ''device''"
| "resource_kind_value ResEndpoint = ''network_endpoint''"
| "resource_kind_value ResService = ''network_service''"
| "resource_kind_value ResLibrary = ''library''"
| "resource_kind_value ResLoader = ''loader''"
| "resource_kind_value ResSyscall = ''syscall_model''"
| "resource_kind_value ResPersona = ''persona''"

definition all_resource_kinds :: "resource_kind list" where
  "all_resource_kinds =
     [ResDirectory, ResFile, ResDevice, ResEndpoint, ResService, ResLibrary, ResLoader, ResSyscall, ResPersona]"

datatype lifecycle_scope = ScopeRebuild | ScopeIteration | ScopeShared | ScopeUnknown

fun scope_value :: "lifecycle_scope \<Rightarrow> string" where
  "scope_value ScopeRebuild = ''REBUILD_ONLY''"
| "scope_value ScopeIteration = ''ITERATION_RUNTIME''"
| "scope_value ScopeShared = ''SHARED''"
| "scope_value ScopeUnknown = ''UNKNOWN''"

definition all_scopes :: "lifecycle_scope list" where
  "all_scopes = [ScopeRebuild, ScopeIteration, ScopeShared, ScopeUnknown]"

datatype manifest_confidence = ConfHypothesis | ConfObserved | ConfValidated | ConfRejected

fun confidence_value :: "manifest_confidence \<Rightarrow> string" where
  "confidence_value ConfHypothesis = ''hypothesis''"
| "confidence_value ConfObserved = ''observed''"
| "confidence_value ConfValidated = ''validated''"
| "confidence_value ConfRejected = ''rejected''"

definition all_confidences :: "manifest_confidence list" where
  "all_confidences = [ConfHypothesis, ConfObserved, ConfValidated, ConfRejected]"

datatype entry_status = EntryActive | EntryUnresolved | EntryRemovable | EntryRejected

fun entry_status_value :: "entry_status \<Rightarrow> string" where
  "entry_status_value EntryActive = ''active''"
| "entry_status_value EntryUnresolved = ''unresolved''"
| "entry_status_value EntryRemovable = ''removable''"
| "entry_status_value EntryRejected = ''rejected''"

definition all_entry_statuses :: "entry_status list" where
  "all_entry_statuses = [EntryActive, EntryUnresolved, EntryRemovable, EntryRejected]"

datatype evidence_kind = EvPreflight | EvRuntime | EvPhase1 | EvRepair | EvValidation | EvOperator

fun evidence_kind_value :: "evidence_kind \<Rightarrow> string" where
  "evidence_kind_value EvPreflight = ''static_preflight''"
| "evidence_kind_value EvRuntime = ''runtime_event''"
| "evidence_kind_value EvPhase1 = ''phase1_event''"
| "evidence_kind_value EvRepair = ''repair_application''"
| "evidence_kind_value EvValidation = ''validation_run''"
| "evidence_kind_value EvOperator = ''operator_decision''"

definition all_evidence_kinds :: "evidence_kind list" where
  "all_evidence_kinds = [EvPreflight, EvRuntime, EvPhase1, EvRepair, EvValidation, EvOperator]"

interpretation resource_kind_enum: str_enum all_resource_kinds resource_kind_value
proof unfold_locales
  show "x \<in> set all_resource_kinds" for x by (cases x) (auto simp: all_resource_kinds_def)
  show "resource_kind_value x = resource_kind_value y \<Longrightarrow> x = y" for x y by (cases x; cases y) auto
  show "resource_kind_value x \<noteq> []" for x by (cases x) auto
qed

interpretation scope_enum: str_enum all_scopes scope_value
proof unfold_locales
  show "x \<in> set all_scopes" for x by (cases x) (auto simp: all_scopes_def)
  show "scope_value x = scope_value y \<Longrightarrow> x = y" for x y by (cases x; cases y) auto
  show "scope_value x \<noteq> []" for x by (cases x) auto
qed

interpretation confidence_enum: str_enum all_confidences confidence_value
proof unfold_locales
  show "x \<in> set all_confidences" for x by (cases x) (auto simp: all_confidences_def)
  show "confidence_value x = confidence_value y \<Longrightarrow> x = y" for x y by (cases x; cases y) auto
  show "confidence_value x \<noteq> []" for x by (cases x) auto
qed

interpretation entry_status_enum: str_enum all_entry_statuses entry_status_value
proof unfold_locales
  show "x \<in> set all_entry_statuses" for x by (cases x) (auto simp: all_entry_statuses_def)
  show "entry_status_value x = entry_status_value y \<Longrightarrow> x = y" for x y by (cases x; cases y) auto
  show "entry_status_value x \<noteq> []" for x by (cases x) auto
qed

interpretation evidence_kind_enum: str_enum all_evidence_kinds evidence_kind_value
proof unfold_locales
  show "x \<in> set all_evidence_kinds" for x by (cases x) (auto simp: all_evidence_kinds_def)
  show "evidence_kind_value x = evidence_kind_value y \<Longrightarrow> x = y" for x y by (cases x; cases y) auto
  show "evidence_kind_value x \<noteq> []" for x by (cases x) auto
qed

section \<open>Errors and checks\<close>

datatype env_error =
    EnvField field_error
  | EnvEnum string
  | EnvIdentifier string
  | EnvSha256 string
  | EnvTimestamp string
  | EnvNoTimezone string
  | EnvProvider
  | EnvNoEvidence string
  | EnvEvidenceOrder string
  | EnvEvidenceRepeated string
  | EnvConsumerPc
  | EnvActiveRejected
  | EnvRejectedConfidence
  | EnvDigest string
  | EnvSchema
  | EnvModel
  | EnvNegative
  | EnvNoReason
  | EnvSeedParent
  | EnvParentVersion
  | EnvNoParentId
  | EnvEntryOrder
  | EnvEntryRepeated
  | EnvMismatch string
  | EnvNotParent string
  | EnvBound string
  | EnvStoreInvalid
  | EnvFileInvalid
  | EnvMissing
  | EnvJson
  | EnvImmutable int
  | EnvOverwrite
  | EnvEmptyStore
  | EnvNotContiguous
  | EnvOsError

definition env_string :: "json \<Rightarrow> string \<Rightarrow> env_error + string" where
  "env_string v label = err_map EnvField (require_nonempty_string v label)"

definition env_int :: "json \<Rightarrow> string \<Rightarrow> env_error + int" where
  "env_int v label = err_map EnvField (require_int v label)"

definition env_optional :: "(json \<Rightarrow> string \<Rightarrow> env_error + 'a) \<Rightarrow> json \<Rightarrow> string \<Rightarrow> env_error + 'a option" where
  "env_optional f v label = (if v = JNull then Inr None else ebind (f v label) (\<lambda>x. Inr (Some x)))"

definition env_enum :: "'a list \<Rightarrow> ('a \<Rightarrow> string) \<Rightarrow> json \<Rightarrow> string \<Rightarrow> env_error + 'a" where
  "env_enum members val v label = err_map (\<lambda>_. EnvEnum label) (parse_enum members val v label)"

text \<open>\<open>_IDENTIFIER_RE\<close>, \<open>_PROVIDER_RE\<close> and \<open>_CONSUMER_PC_RE\<close>\<close>

definition env_identifier_char :: "char \<Rightarrow> bool" where
  "env_identifier_char c \<longleftrightarrow> ascii_upper c \<or> ascii_lower c \<or> ascii_digit c \<or> c \<in> set ''_.:/-''"

definition is_env_identifier :: "string \<Rightarrow> bool" where
  "is_env_identifier s \<longleftrightarrow>
     (case s of
        [] \<Rightarrow> False
      | c # r \<Rightarrow> (ascii_upper c \<or> ascii_lower c \<or> ascii_digit c) \<and> length r \<le> 255 \<and> list_all env_identifier_char r)"

definition is_provider :: "string \<Rightarrow> bool" where
  "is_provider s \<longleftrightarrow>
     (case s of
        [] \<Rightarrow> False
      | c # r \<Rightarrow> ascii_lower c \<and> length r \<le> 63 \<and> list_all (\<lambda>d. ascii_lower d \<or> ascii_digit d \<or> d = CHR ''_'') r)"

definition is_consumer_pc :: "string \<Rightarrow> bool" where
  "is_consumer_pc s \<longleftrightarrow>
     starts_with s ''0x'' \<and> drop 2 s \<noteq> [] \<and> list_all (\<lambda>c. ascii_digit c \<or> c \<in> set ''abcdefABCDEF'') (drop 2 s)"

definition check_env_identifier :: "string \<Rightarrow> string \<Rightarrow> env_error + unit" where
  "check_env_identifier s label = guard (is_env_identifier s) (EnvIdentifier label)"

definition check_env_sha256 :: "string \<Rightarrow> string \<Rightarrow> env_error + unit" where
  "check_env_sha256 s label = guard (is_sha256 s) (EnvSha256 label)"

definition check_env_timestamp :: "string \<Rightarrow> string \<Rightarrow> env_error + unit" where
  "check_env_timestamp s label =
     (case iso_datetime s of
        None \<Rightarrow> Inl (EnvTimestamp label)
      | Some (_, None) \<Rightarrow> Inl (EnvNoTimezone label)
      | Some (_, Some _) \<Rightarrow> Inr ())"

section \<open>Evidence\<close>

record manifest_evidence =
  me_id :: string
  me_kind :: evidence_kind
  me_attempt :: string
  me_sha :: string

definition check_evidence :: "manifest_evidence \<Rightarrow> env_error + manifest_evidence" where
  "check_evidence e =
     ebind (check_env_identifier (me_id e) ''evidence_id'') (\<lambda>_.
     ebind (check_env_identifier (me_attempt e) ''evidence attempt_id'') (\<lambda>_.
     ebind (check_env_sha256 (me_sha e) ''evidence artifact_sha256'') (\<lambda>_. Inr e)))"

definition manifest_evidence_json :: "manifest_evidence \<Rightarrow> json" where
  "manifest_evidence_json e = JObj
     [(''evidence_id'', JStr (me_id e)), (''kind'', JStr (evidence_kind_value (me_kind e))),
      (''attempt_id'', JStr (me_attempt e)), (''artifact_sha256'', JStr (me_sha e))]"

definition manifest_evidence_from :: "json \<Rightarrow> env_error + manifest_evidence" where
  "manifest_evidence_from raw =
     ebind (err_map EnvField (require_dict raw ''manifest evidence'')) (\<lambda>v.
     ebind (env_string (jget v ''evidence_id'') ''evidence_id'') (\<lambda>eid.
     ebind (env_enum all_evidence_kinds evidence_kind_value (jget v ''kind'') ''manifest evidence'') (\<lambda>kind.
     ebind (env_string (jget v ''attempt_id'') ''attempt_id'') (\<lambda>aid.
     ebind (env_string (jget v ''artifact_sha256'') ''artifact_sha256'') (\<lambda>sha.
     check_evidence \<lparr>me_id = eid, me_kind = kind, me_attempt = aid, me_sha = sha\<rparr>)))))"

section \<open>Entries\<close>

record manifest_entry =
  en_resource :: string
  en_kind :: resource_kind
  en_scope :: lifecycle_scope
  en_stage :: execution_stage
  en_attempt :: string
  en_provider :: string
  en_value :: string
  en_value_sha :: string
  en_evidence :: "manifest_evidence list"
  en_confidence :: manifest_confidence
  en_status :: entry_status
  en_pc :: "string option"

definition check_entry :: "manifest_entry \<Rightarrow> env_error + manifest_entry" where
  "check_entry e =
     ebind (check_env_identifier (en_resource e) ''resource_id'') (\<lambda>_.
     ebind (check_env_identifier (en_attempt e) ''first_seen_attempt_id'') (\<lambda>_.
     ebind (guard (is_provider (en_provider e)) EnvProvider) (\<lambda>_.
     ebind (check_env_identifier (en_value e) ''value_id'') (\<lambda>_.
     ebind (check_env_sha256 (en_value_sha e) ''value_sha256'') (\<lambda>_.
     ebind (guard (en_evidence e \<noteq> []) (EnvNoEvidence (en_resource e))) (\<lambda>_.
     ebind (guard (sorted (map me_id (en_evidence e))) (EnvEvidenceOrder (en_resource e))) (\<lambda>_.
     ebind (guard (distinct (map me_id (en_evidence e))) (EnvEvidenceRepeated (en_resource e))) (\<lambda>_.
     ebind (guard (pred_option is_consumer_pc (en_pc e)) EnvConsumerPc) (\<lambda>_.
     ebind (guard (\<not> (en_status e = EntryActive \<and> en_confidence e = ConfRejected)) EnvActiveRejected) (\<lambda>_.
     ebind (guard (en_status e = EntryRejected \<longrightarrow> en_confidence e = ConfRejected) EnvRejectedConfidence) (\<lambda>_.
     Inr e)))))))))))"

definition entry_identity :: "manifest_entry \<Rightarrow> (string \<times> json) list" where
  "entry_identity e =
     [(''resource_id'', JStr (en_resource e)), (''kind'', JStr (resource_kind_value (en_kind e))),
      (''lifecycle_scope'', JStr (scope_value (en_scope e))), (''first_seen_stage'', JStr (stage_value (en_stage e))),
      (''first_seen_attempt_id'', JStr (en_attempt e)), (''consumer_pc'', opt_json JStr (en_pc e)),
      (''provider'', JStr (en_provider e)), (''value_id'', JStr (en_value e)), (''value_sha256'', JStr (en_value_sha e)),
      (''evidence'', JList (map manifest_evidence_json (en_evidence e))),
      (''confidence'', JStr (confidence_value (en_confidence e))), (''status'', JStr (entry_status_value (en_status e)))]"

definition entry_sha256 :: "manifest_entry \<Rightarrow> string" where
  "entry_sha256 e = canonical_sha256 (JObj (entry_identity e))"

definition entry_to_dict :: "manifest_entry \<Rightarrow> json" where
  "entry_to_dict e = JObj (entry_identity e @ [(''entry_sha256'', JStr (entry_sha256 e))])"

definition entry_from_dict :: "json \<Rightarrow> env_error + manifest_entry" where
  "entry_from_dict raw =
     ebind (err_map EnvField (require_dict raw ''manifest entry'')) (\<lambda>v.
     ebind (err_map EnvField (require_list (jget v ''evidence'') ''manifest entry evidence'')) (\<lambda>evidence_raw.
     ebind (env_optional env_string (jget v ''consumer_pc'') ''consumer_pc'') (\<lambda>pc.
     ebind (env_string (jget v ''resource_id'') ''resource_id'') (\<lambda>resource.
     ebind (env_enum all_resource_kinds resource_kind_value (jget v ''kind'') ''manifest entry'') (\<lambda>kind.
     ebind (env_enum all_scopes scope_value (jget v ''lifecycle_scope'') ''manifest entry'') (\<lambda>scope.
     ebind (env_enum all_stages stage_value (jget v ''first_seen_stage'') ''manifest entry'') (\<lambda>stage.
     ebind (env_string (jget v ''first_seen_attempt_id'') ''first_seen_attempt_id'') (\<lambda>aid.
     ebind (env_string (jget v ''provider'') ''provider'') (\<lambda>provider.
     ebind (env_string (jget v ''value_id'') ''value_id'') (\<lambda>value.
     ebind (env_string (jget v ''value_sha256'') ''value_sha256'') (\<lambda>value_sha.
     ebind (emap manifest_evidence_from evidence_raw) (\<lambda>evidence.
     ebind (env_enum all_confidences confidence_value (jget v ''confidence'') ''manifest entry'') (\<lambda>confidence.
     ebind (env_enum all_entry_statuses entry_status_value (jget v ''status'') ''manifest entry'') (\<lambda>status.
     ebind (check_entry
       \<lparr>en_resource = resource, en_kind = kind, en_scope = scope, en_stage = stage, en_attempt = aid,
        en_provider = provider, en_value = value, en_value_sha = value_sha, en_evidence = evidence,
        en_confidence = confidence, en_status = status, en_pc = pc\<rparr>) (\<lambda>e.
     ebind (env_string (jget v ''entry_sha256'') ''entry_sha256'') (\<lambda>expected.
     ebind (check_env_sha256 expected ''entry_sha256'') (\<lambda>_.
     ebind (guard (entry_sha256 e = expected) (EnvDigest (en_resource e))) (\<lambda>_. Inr e))))))))))))))))))"

section \<open>Manifests\<close>

record env_manifest =
  em_sample :: string
  em_version :: int
  em_rootfs :: string
  em_entries :: "manifest_entry list"
  em_attempt :: string
  em_reason :: string
  em_parent_version :: "int option"
  em_parent_id :: "string option"
  em_schema :: int
  em_model :: int
  em_generated :: string

definition check_lineage :: "env_manifest \<Rightarrow> env_error + unit" where
  "check_lineage m =
     (if em_version m = 0
      then guard (em_parent_version m = None \<and> em_parent_id m = None) EnvSeedParent
      else
        ebind (guard (em_parent_version m = Some (em_version m - 1)) EnvParentVersion) (\<lambda>_.
        case em_parent_id m of
          None \<Rightarrow> Inl EnvNoParentId
        | Some pid \<Rightarrow> check_env_identifier pid ''parent_manifest_id''))"

definition check_manifest :: "env_manifest \<Rightarrow> env_error + env_manifest" where
  "check_manifest m =
     ebind (guard (em_schema m = 2) EnvSchema) (\<lambda>_.
     ebind (guard (em_model m = 1) EnvModel) (\<lambda>_.
     ebind (check_env_sha256 (em_sample m) ''sample_sha256'') (\<lambda>_.
     ebind (guard (0 \<le> em_version m) EnvNegative) (\<lambda>_.
     ebind (check_env_identifier (em_rootfs m) ''rootfs_snapshot_id'') (\<lambda>_.
     ebind (check_env_identifier (em_attempt m) ''created_by_attempt_id'') (\<lambda>_.
     ebind (guard (py_strip (em_reason m) \<noteq> []) EnvNoReason) (\<lambda>_.
     ebind (check_env_timestamp (em_generated m) ''generated_at_utc'') (\<lambda>_.
     ebind (check_lineage m) (\<lambda>_.
     ebind (guard (sorted (map en_resource (em_entries m))) EnvEntryOrder) (\<lambda>_.
     ebind (guard (distinct (map en_resource (em_entries m))) EnvEntryRepeated) (\<lambda>_. Inr m)))))))))))"

definition sample_id :: "env_manifest \<Rightarrow> string" where
  "sample_id m = ''packed-sample-'' @ take 16 (em_sample m)"

definition manifest_identity :: "env_manifest \<Rightarrow> (string \<times> json) list" where
  "manifest_identity m =
     [(''schema_version'', JInt (em_schema m)), (''model_version'', JInt (em_model m)), (''sample_id'', JStr (sample_id m)),
      (''sample_sha256'', JStr (em_sample m)), (''manifest_version'', JInt (em_version m)),
      (''parent_version'', opt_json JInt (em_parent_version m)), (''parent_manifest_id'', opt_json JStr (em_parent_id m)),
      (''rootfs_snapshot_id'', JStr (em_rootfs m)), (''created_by_attempt_id'', JStr (em_attempt m)),
      (''change_reason'', JStr (em_reason m)), (''entries'', JList (map entry_to_dict (em_entries m)))]"

definition manifest_sha256 :: "env_manifest \<Rightarrow> string" where
  "manifest_sha256 m = canonical_sha256 (JObj (manifest_identity m))"

text \<open>\<open>f"{version:04d}"\<close> of a version that is not negative\<close>

definition pad4 :: "nat \<Rightarrow> string" where
  "pad4 n = (let s = show_nat n in replicate (4 - length s) (CHR ''0'') @ s)"

definition manifest_id :: "env_manifest \<Rightarrow> string" where
  "manifest_id m = ''manifest-v'' @ pad4 (nat (em_version m)) @ ''-'' @ take 16 (manifest_sha256 m)"

definition manifest_summary :: "env_manifest \<Rightarrow> json" where
  "manifest_summary m = JObj
     [(''entries_total'', JInt (int (length (em_entries m)))),
      (''by_lifecycle_scope'', counts_json (count_by (\<lambda>e. scope_value (en_scope e)) (em_entries m))),
      (''by_status'', counts_json (count_by (\<lambda>e. entry_status_value (en_status e)) (em_entries m)))]"

definition manifest_to_dict :: "env_manifest \<Rightarrow> json" where
  "manifest_to_dict m = JObj (manifest_identity m @
     [(''manifest_id'', JStr (manifest_id m)), (''manifest_sha256'', JStr (manifest_sha256 m)),
      (''generated_at_utc'', JStr (em_generated m)), (''summary'', manifest_summary m)])"

definition manifest_from_dict :: "json \<Rightarrow> env_error + env_manifest" where
  "manifest_from_dict raw =
     ebind (err_map EnvField (require_dict raw ''environment manifest'')) (\<lambda>v.
     ebind (err_map EnvField (require_list (jget v ''entries'') ''manifest entries'')) (\<lambda>entries_raw.
     ebind (env_optional env_int (jget v ''parent_version'') ''parent_version'') (\<lambda>parent_version.
     ebind (env_optional env_string (jget v ''parent_manifest_id'') ''parent_manifest_id'') (\<lambda>parent_id.
     ebind (env_int (jget v ''schema_version'') ''schema_version'') (\<lambda>schema.
     ebind (env_int (jget v ''model_version'') ''model_version'') (\<lambda>model.
     ebind (env_string (jget v ''sample_sha256'') ''sample_sha256'') (\<lambda>sample.
     ebind (env_int (jget v ''manifest_version'') ''manifest_version'') (\<lambda>version.
     ebind (env_string (jget v ''rootfs_snapshot_id'') ''rootfs_snapshot_id'') (\<lambda>rootfs.
     ebind (emap entry_from_dict entries_raw) (\<lambda>entries.
     ebind (env_string (jget v ''created_by_attempt_id'') ''created_by_attempt_id'') (\<lambda>aid.
     ebind (env_string (jget v ''change_reason'') ''change_reason'') (\<lambda>reason.
     ebind (env_string (jget v ''generated_at_utc'') ''generated_at_utc'') (\<lambda>generated.
     ebind (check_manifest
       \<lparr>em_sample = sample, em_version = version, em_rootfs = rootfs, em_entries = entries, em_attempt = aid,
        em_reason = reason, em_parent_version = parent_version, em_parent_id = parent_id, em_schema = schema,
        em_model = model, em_generated = generated\<rparr>) (\<lambda>m.
     ebind (env_string (jget v ''sample_id'') ''sample_id'') (\<lambda>sid.
     ebind (guard (sid = sample_id m) (EnvMismatch ''sample_id'')) (\<lambda>_.
     ebind (env_string (jget v ''manifest_id'') ''manifest_id'') (\<lambda>mid.
     ebind (env_string (jget v ''manifest_sha256'') ''manifest_sha256'') (\<lambda>sha.
     ebind (check_env_sha256 sha ''manifest_sha256'') (\<lambda>_.
     ebind (guard (sha = manifest_sha256 m) (EnvMismatch ''digest'')) (\<lambda>_.
     ebind (guard (mid = manifest_id m) (EnvMismatch ''id'')) (\<lambda>_. Inr m)))))))))))))))))))))"

section \<open>Deriving and comparing manifests\<close>

definition derive_manifest ::
    "string \<Rightarrow> env_manifest \<Rightarrow> string \<Rightarrow> manifest_entry list \<Rightarrow> string \<Rightarrow> string \<Rightarrow> env_error + env_manifest" where
  "derive_manifest now m rootfs entries aid reason =
     check_manifest
       \<lparr>em_sample = em_sample m, em_version = em_version m + 1, em_rootfs = rootfs,
        em_entries = sort_key en_resource entries, em_attempt = aid, em_reason = reason,
        em_parent_version = Some (em_version m), em_parent_id = Some (manifest_id m), em_schema = 2, em_model = 1,
        em_generated = now\<rparr>"

record manifest_diff =
  md_from :: string
  md_to :: string
  md_added :: "string list"
  md_removed :: "string list"
  md_changed :: "string list"
  md_rootfs :: bool

text \<open>\<open>{entry.resource_id: entry for entry in entries}\<close>: the last entry of a resource wins.\<close>

definition by_resource :: "manifest_entry list \<Rightarrow> string \<Rightarrow> manifest_entry option" where
  "by_resource es = map_of (rev (map (\<lambda>e. (en_resource e, e)) es))"

definition diff_manifest :: "env_manifest \<Rightarrow> env_manifest \<Rightarrow> env_error + manifest_diff" where
  "diff_manifest m parent =
     ebind (guard (em_parent_version m = Some (em_version parent)) (EnvNotParent ''version'')) (\<lambda>_.
     ebind (guard (em_parent_id m = Some (manifest_id parent)) (EnvNotParent ''id'')) (\<lambda>_.
     ebind (guard (em_sample m = em_sample parent) (EnvNotParent ''sample'')) (\<lambda>_.
     let previous = map en_resource (em_entries parent); current = map en_resource (em_entries m) in
     Inr \<lparr>md_from = manifest_id parent, md_to = manifest_id m,
          md_added = sorted_set (filter (\<lambda>r. r \<notin> set previous) current),
          md_removed = sorted_set (filter (\<lambda>r. r \<notin> set current) previous),
          md_changed = sorted_set (filter (\<lambda>r. r \<in> set current \<and>
            map_option entry_sha256 (by_resource (em_entries parent) r) \<noteq>
            map_option entry_sha256 (by_resource (em_entries m) r)) previous),
          md_rootfs = (em_rootfs m \<noteq> em_rootfs parent)\<rparr>)))"

definition diff_empty :: "manifest_diff \<Rightarrow> bool" where
  "diff_empty d \<longleftrightarrow> md_added d = [] \<and> md_removed d = [] \<and> md_changed d = [] \<and> \<not> md_rootfs d"

definition diff_to_dict :: "manifest_diff \<Rightarrow> json" where
  "diff_to_dict d = JObj
     [(''from_manifest_id'', JStr (md_from d)), (''to_manifest_id'', JStr (md_to d)),
      (''added'', JList (map JStr (md_added d))), (''removed'', JList (map JStr (md_removed d))),
      (''changed'', JList (map JStr (md_changed d))), (''rootfs_changed'', JBool (md_rootfs d)),
      (''is_empty'', JBool (diff_empty d))]"

text \<open>A dictionary in insertion order, updated at a key; its values sorted by the key.\<close>

fun upsert :: "('a \<Rightarrow> string) \<Rightarrow> 'a \<Rightarrow> 'a list \<Rightarrow> 'a list" where
  "upsert f x [] = [x]"
| "upsert f x (y # ys) = (if f x = f y then x # ys else y # upsert f x ys)"

definition dict_values :: "('a \<Rightarrow> string) \<Rightarrow> 'a list \<Rightarrow> 'a list" where
  "dict_values f xs = foldl (\<lambda>d x. upsert f x d) [] xs"

definition replace_manifest_entry :: "manifest_entry list \<Rightarrow> manifest_entry \<Rightarrow> manifest_entry list" where
  "replace_manifest_entry es e = sort_key en_resource (upsert en_resource e (dict_values en_resource es))"

definition add_manifest_evidence :: "manifest_entry \<Rightarrow> manifest_evidence \<Rightarrow> env_error + manifest_entry" where
  "add_manifest_evidence e ev =
     (let by_id = dict_values me_id (en_evidence e) in
      ebind (guard (\<forall>x \<in> set by_id. me_id x = me_id ev \<longrightarrow> x = ev) (EnvBound (me_id ev))) (\<lambda>_.
      check_entry (e\<lparr>en_evidence := sort_key me_id (upsert me_id ev by_id)\<rparr>)))"

section \<open>The store\<close>

text \<open>
  The directory with its files, by version; a file's value is \<open>None\<close> when its text is no JSON, and
  \<open>EnvOther\<close> is a directory at a version's path.
  \<open>_atomic_write_json(overwrite=False)\<close> tests twice that the path does not exist and then
  renames over it: \<open>between\<close> is what other processes do after the second test.
\<close>

datatype manifest_file = EnvLink | EnvOther | EnvFile "json option"

datatype env_store = EnvNoStore | EnvLinkStore | EnvNotDir | EnvDir "(int \<times> manifest_file) list"

type_synonym 'a env_outcome = "(env_error + 'a) \<times> env_store"

definition decode_manifest :: "json option \<Rightarrow> env_error + env_manifest" where
  "decode_manifest v = (case v of None \<Rightarrow> Inl EnvJson | Some x \<Rightarrow> manifest_from_dict x)"

definition env_load :: "env_store \<Rightarrow> int \<Rightarrow> env_error + env_manifest" where
  "env_load s version =
     (case s of
        EnvDir fs \<Rightarrow>
          ebind (guard (0 \<le> version) EnvNegative) (\<lambda>_.
          case map_of fs version of
            Some (EnvFile v) \<Rightarrow> decode_manifest v
          | _ \<Rightarrow> Inl EnvFileInvalid)
      | _ \<Rightarrow> Inl EnvStoreInvalid)"

definition validate_parent :: "env_manifest \<Rightarrow> env_manifest \<Rightarrow> env_error + unit" where
  "validate_parent child parent =
     ebind (guard (em_sample child = em_sample parent) (EnvNotParent ''sample'')) (\<lambda>_.
     ebind (guard (em_parent_version child = Some (em_version parent)) (EnvNotParent ''version'')) (\<lambda>_.
     guard (em_parent_id child = Some (manifest_id parent)) (EnvNotParent ''id'')))"

fun put_version :: "int \<Rightarrow> manifest_file \<Rightarrow> (int \<times> manifest_file) list \<Rightarrow> (int \<times> manifest_file) list" where
  "put_version k f [] = [(k, f)]"
| "put_version k f ((l, g) # fs) = (if k = l then (k, f) # fs else (l, g) # put_version k f fs)"

text \<open>
  The rename replaces the file or link that is at the path by then; it fails on a directory at the path
  and without a directory of manifests.
\<close>

definition rename_over :: "env_store \<Rightarrow> int \<Rightarrow> json \<Rightarrow> unit env_outcome" where
  "rename_over s version v =
     (case s of
        EnvDir fs \<Rightarrow>
          (if map_of fs version = Some EnvOther then (Inl EnvOsError, s)
           else (Inr (), EnvDir (put_version version (EnvFile (Some v)) fs)))
      | _ \<Rightarrow> (Inl EnvOsError, s))"

definition env_save :: "(env_store \<Rightarrow> env_store) \<Rightarrow> env_store \<Rightarrow> env_manifest \<Rightarrow> unit env_outcome" where
  "env_save between s m =
     (let s1 = (case s of EnvNoStore \<Rightarrow> EnvDir [] | _ \<Rightarrow> s) in
      case s1 of
        EnvDir fs \<Rightarrow>
          (if em_version m < 0 then (Inl EnvNegative, s1)
           else case map_of fs (em_version m) of
             Some EnvLink \<Rightarrow> (Inl EnvFileInvalid, s1)
           | Some EnvOther \<Rightarrow> (Inl EnvOsError, s1)
           | Some (EnvFile v) \<Rightarrow>
               (case decode_manifest v of
                  Inl e \<Rightarrow> (Inl e, s1)
                | Inr old \<Rightarrow>
                    (if manifest_id old \<noteq> manifest_id m then (Inl (EnvImmutable (em_version m)), s1) else (Inr (), s1)))
           | None \<Rightarrow>
               (case (if 0 < em_version m
                      then ebind (env_load s1 (em_version m - 1)) (validate_parent m) else Inr ()) of
                  Inl e \<Rightarrow> (Inl e, s1)
                | Inr _ \<Rightarrow> rename_over (between s1) (em_version m) (manifest_to_dict m)))
      | EnvNotDir \<Rightarrow> (Inl EnvOsError, s1)
      | _ \<Rightarrow> (Inl EnvStoreInvalid, s1))"

fun check_chain_links :: "env_manifest list \<Rightarrow> env_error + unit" where
  "check_chain_links (p # c # ms) = ebind (validate_parent c p) (\<lambda>_. check_chain_links (c # ms))"
| "check_chain_links _ = Inr ()"

definition plain_file :: "manifest_file \<Rightarrow> env_error + json option" where
  "plain_file f = (case f of EnvFile v \<Rightarrow> Inr v | _ \<Rightarrow> Inl EnvFileInvalid)"

text \<open>
  The names with four digits, in order; versions of more digits do not match the pattern.  Every file
  is tested before the first is read.
\<close>

definition chain_files :: "(int \<times> manifest_file) list \<Rightarrow> int option \<Rightarrow> manifest_file list" where
  "chain_files fs through =
     map snd (sort_key fst (filter (\<lambda>(k, f). 0 \<le> k \<and> k \<le> 9999 \<and> (case through of None \<Rightarrow> True | Some n \<Rightarrow> k \<le> n)) fs))"

definition verify_env_chain :: "env_store \<Rightarrow> int option \<Rightarrow> env_error + env_manifest list" where
  "verify_env_chain s through =
     (case s of
        EnvDir fs \<Rightarrow>
          ebind (guard (chain_files fs through \<noteq> []) EnvEmptyStore) (\<lambda>_.
          ebind (emap plain_file (chain_files fs through)) (\<lambda>vs.
          ebind (emap decode_manifest vs) (\<lambda>ms.
          ebind (guard (map em_version ms = map int [0..<length ms]) EnvNotContiguous) (\<lambda>_.
          ebind (check_chain_links ms) (\<lambda>_. Inr ms)))))
      | _ \<Rightarrow> Inl EnvStoreInvalid)"

section \<open>Accepted values and round trips\<close>

lemma env_field_Inr [result_simps]:
  "env_string v l = Inr s \<longleftrightarrow> v = JStr s \<and> s \<noteq> []" "env_int v l = Inr i \<longleftrightarrow> v = JInt i"
  "env_optional env_string v l = Inr os \<longleftrightarrow> v = opt_json JStr os \<and> os \<noteq> Some []"
  "env_optional env_int v l = Inr oi \<longleftrightarrow> v = opt_json JInt oi"
  by (cases os; cases oi; auto simp: env_string_def env_int_def env_optional_def opt_json_def result_simps)+

lemma env_enum_Inr [result_simps]:
  "env_enum all_resource_kinds resource_kind_value v l = Inr a \<longleftrightarrow> v = JStr (resource_kind_value a)"
  "env_enum all_scopes scope_value v l = Inr b \<longleftrightarrow> v = JStr (scope_value b)"
  "env_enum all_stages stage_value v l = Inr c \<longleftrightarrow> v = JStr (stage_value c)"
  "env_enum all_confidences confidence_value v l = Inr d \<longleftrightarrow> v = JStr (confidence_value d)"
  "env_enum all_entry_statuses entry_status_value v l = Inr e \<longleftrightarrow> v = JStr (entry_status_value e)"
  "env_enum all_evidence_kinds evidence_kind_value v l = Inr f \<longleftrightarrow> v = JStr (evidence_kind_value f)"
  by (simp_all add: env_enum_def result_simps resource_kind_enum.parse_enum_Inr scope_enum.parse_enum_Inr
      stage_enum.parse_enum_Inr confidence_enum.parse_enum_Inr entry_status_enum.parse_enum_Inr evidence_kind_enum.parse_enum_Inr)

lemma env_read_back [simp]:
  "env_enum all_resource_kinds resource_kind_value (JStr (resource_kind_value a)) l = Inr a"
  "env_enum all_scopes scope_value (JStr (scope_value b)) l = Inr b"
  "env_enum all_stages stage_value (JStr (stage_value c)) l = Inr c"
  "env_enum all_confidences confidence_value (JStr (confidence_value d)) l = Inr d"
  "env_enum all_entry_statuses entry_status_value (JStr (entry_status_value e)) l = Inr e"
  "s \<noteq> [] \<Longrightarrow> env_string (JStr s) l = Inr s" "env_int (JInt i) l = Inr i"
  "os \<noteq> Some [] \<Longrightarrow> env_optional env_string (opt_json JStr os) l = Inr os"
  "env_optional env_int (opt_json JInt oi) l = Inr oi"
  by (simp_all add: env_field_Inr env_enum_Inr)

lemma env_check_Inr [result_simps]:
  "check_env_identifier s l = Inr u \<longleftrightarrow> is_env_identifier s" "check_env_sha256 s l = Inr u \<longleftrightarrow> is_sha256 s"
  "check_env_timestamp s l = Inr u \<longleftrightarrow> iso_instant s \<noteq> None"
  by (auto simp: check_env_identifier_def check_env_sha256_def check_env_timestamp_def iso_instant_def result_simps split: option.splits)

lemma env_sha256_ok [simp]: "is_sha256 s \<Longrightarrow> check_env_sha256 s l = Inr ()"
  by (simp add: env_check_Inr)

lemma env_identifier_not_Nil [simp]: "\<not> is_env_identifier []" "\<not> is_provider []" "\<not> is_consumer_pc []"
  by (simp_all add: is_env_identifier_def is_provider_def is_consumer_pc_def)

lemma check_evidence_Inr:
  "check_evidence e = Inr f \<longleftrightarrow> f = e \<and> is_env_identifier (me_id e) \<and> is_env_identifier (me_attempt e) \<and> is_sha256 (me_sha e)"
  by (auto simp: check_evidence_def result_simps)

lemma check_entry_Inr:
  "check_entry e = Inr f \<longleftrightarrow> f = e \<and> is_env_identifier (en_resource e) \<and> is_env_identifier (en_attempt e) \<and>
     is_provider (en_provider e) \<and> is_env_identifier (en_value e) \<and> is_sha256 (en_value_sha e) \<and> en_evidence e \<noteq> [] \<and>
     sorted (map me_id (en_evidence e)) \<and> distinct (map me_id (en_evidence e)) \<and> pred_option is_consumer_pc (en_pc e) \<and>
     \<not> (en_status e = EntryActive \<and> en_confidence e = ConfRejected) \<and>
     (en_status e = EntryRejected \<longrightarrow> en_confidence e = ConfRejected)"
  by (auto simp: check_entry_def result_simps)

lemma check_lineage_Inr:
  "check_lineage m = Inr u \<longleftrightarrow>
     (if em_version m = 0 then em_parent_version m = None \<and> em_parent_id m = None
      else em_parent_version m = Some (em_version m - 1) \<and> (\<exists>pid. em_parent_id m = Some pid \<and> is_env_identifier pid))"
  by (auto simp: check_lineage_def result_simps split: option.splits)

lemma check_manifest_Inr:
  "check_manifest m = Inr n \<longleftrightarrow> n = m \<and> em_schema m = 2 \<and> em_model m = 1 \<and> is_sha256 (em_sample m) \<and> 0 \<le> em_version m \<and>
     is_env_identifier (em_rootfs m) \<and> is_env_identifier (em_attempt m) \<and> py_strip (em_reason m) \<noteq> [] \<and>
     iso_instant (em_generated m) \<noteq> None \<and> check_lineage m = Inr () \<and>
     sorted (map en_resource (em_entries m)) \<and> distinct (map en_resource (em_entries m))"
  by (auto simp: check_manifest_def result_simps)

definition wf_entry :: "manifest_entry \<Rightarrow> bool" where
  "wf_entry e \<longleftrightarrow> check_entry e = Inr e \<and> (\<forall>ev \<in> set (en_evidence e). check_evidence ev = Inr ev)"

definition wf_manifest :: "env_manifest \<Rightarrow> bool" where
  "wf_manifest m \<longleftrightarrow> check_manifest m = Inr m \<and> (\<forall>e \<in> set (em_entries m). wf_entry e)"

lemma evidence_roundtrip_env: "check_evidence e = Inr e \<Longrightarrow> manifest_evidence_from (manifest_evidence_json e) = Inr e"
  using is_sha256_nonempty [of "me_sha e"]
  by (cases e) (auto simp: check_evidence_Inr manifest_evidence_from_def manifest_evidence_json_def ebind_Inr_iff result_simps)

lemma evidence_accepts_env: "manifest_evidence_from v = Inr e \<Longrightarrow> check_evidence e = Inr e"
  by (auto simp: manifest_evidence_from_def result_simps check_evidence_Inr)

lemma entry_fold:
  "\<lparr>en_resource = en_resource e, en_kind = en_kind e, en_scope = en_scope e, en_stage = en_stage e, en_attempt = en_attempt e,
    en_provider = en_provider e, en_value = en_value e, en_value_sha = en_value_sha e, en_evidence = en_evidence e,
    en_confidence = en_confidence e, en_status = en_status e, en_pc = en_pc e\<rparr> = (e :: manifest_entry)"
  by simp

lemma entry_roundtrip:
  assumes "wf_entry e"
  shows "entry_from_dict (entry_to_dict e) = Inr e"
proof -
  have ok: "check_entry e = Inr e" using assms by (simp add: wf_entry_def)
  have evs: "emap manifest_evidence_from (map manifest_evidence_json (en_evidence e)) = Inr (en_evidence e)"
    using emap_all [of "en_evidence e" "\<lambda>x. manifest_evidence_from (manifest_evidence_json x)" id] evidence_roundtrip_env assms
    by (simp add: emap_map wf_entry_def)
  have ne: "en_resource e \<noteq> []" "en_attempt e \<noteq> []" "en_provider e \<noteq> []" "en_value e \<noteq> []" "en_value_sha e \<noteq> []"
      "entry_sha256 e \<noteq> []" "en_pc e \<noteq> Some []"
    using ok is_sha256_nonempty [of "entry_sha256 e"] by (auto simp: check_entry_Inr entry_sha256_def)
  have "is_sha256 (entry_sha256 e)" by (simp add: entry_sha256_def)
  with ok evs ne show ?thesis
    by (simp add: entry_from_dict_def entry_to_dict_def entry_identity_def guard_def entry_fold)
qed

lemma entry_accepts:
  assumes "entry_from_dict v = Inr e"
  shows "wf_entry e"
proof -
  from assms obtain xs where evs: "emap manifest_evidence_from xs = Inr (en_evidence e)" and ok: "check_entry e = Inr e"
    by (auto simp: entry_from_dict_def result_simps check_entry_Inr)
  show ?thesis
    using ok emap_set [OF evs] evidence_accepts_env by (auto simp: wf_entry_def)
qed

lemma manifest_fold:
  "\<lparr>em_sample = em_sample m, em_version = em_version m, em_rootfs = em_rootfs m, em_entries = em_entries m,
    em_attempt = em_attempt m, em_reason = em_reason m, em_parent_version = em_parent_version m,
    em_parent_id = em_parent_id m, em_schema = em_schema m, em_model = em_model m, em_generated = em_generated m\<rparr>
   = (m :: env_manifest)"
  by simp

lemma manifest_id_not_Nil [simp]: "manifest_id m \<noteq> []"
  by (simp add: manifest_id_def)

lemma manifest_roundtrip:
  assumes "wf_manifest m"
  shows "manifest_from_dict (manifest_to_dict m) = Inr m"
proof -
  have ok: "check_manifest m = Inr m" using assms by (simp add: wf_manifest_def)
  have es: "emap entry_from_dict (map entry_to_dict (em_entries m)) = Inr (em_entries m)"
    using emap_all [of "em_entries m" "\<lambda>x. entry_from_dict (entry_to_dict x)" id] entry_roundtrip assms
    by (simp add: emap_map wf_manifest_def)
  have ne: "em_sample m \<noteq> []" "em_rootfs m \<noteq> []" "em_attempt m \<noteq> []" "em_reason m \<noteq> []" "em_generated m \<noteq> []"
      "manifest_sha256 m \<noteq> []" "em_parent_id m \<noteq> Some []" "sample_id m \<noteq> []"
    using ok is_sha256_nonempty [of "manifest_sha256 m"]
    by (auto simp: check_manifest_Inr manifest_sha256_def check_lineage_Inr sample_id_def py_strip_def rstrip_while_def split: if_splits)
  have "is_sha256 (manifest_sha256 m)" by (simp add: manifest_sha256_def)
  with ok es ne show ?thesis
    by (simp add: manifest_from_dict_def manifest_to_dict_def manifest_identity_def guard_def manifest_fold)
qed

lemma manifest_accepts:
  assumes "manifest_from_dict v = Inr m"
  shows "wf_manifest m"
proof -
  from assms obtain xs where es: "emap entry_from_dict xs = Inr (em_entries m)" and ok: "check_manifest m = Inr m"
    by (auto simp: manifest_from_dict_def result_simps check_manifest_Inr)
  show ?thesis
    using ok emap_set [OF es] entry_accepts by (auto simp: wf_manifest_def)
qed

end
