(* ===== verification/Environment_Snapshot.thy ===== *)
theory Environment_Snapshot
  imports Environment_Manifest Repair_Applier "HOL-Library.AList"
begin

text \<open>
  Environment snapshots (\<open>taintforge_env/environment_snapshot.py\<close>): the scan of a root filesystem into
  a sorted list of entries, its digest, the copy of a tree from the scan, and the content-addressed store.

  A tree is an association list from paths to nodes; regular files name an inode, so that hard links
  share mode and content.  Device nodes, sockets, mount points and whatever cannot be read are
  \<open>SnapOther\<close>.  A symbolic link has mode 0777, as Linux reports it.
\<close>

section \<open>Trees\<close>

datatype snap_node = SnapDir nat | SnapFile nat | SnapLink string | SnapOther

record snap_fs =
  sn_nodes :: "(fpath \<times> snap_node) list"
  sn_inodes :: "(nat \<times> nat \<times> string) list"

datatype snap_error =
    SnapEntry nat string | SnapUnhashable nat | SnapField string | SnapOrder | SnapRepeated | SnapNoRoot
  | SnapDigest | SnapJson | SnapNoManifest | SnapUnsupported | SnapRoot string | SnapExists | SnapOs
  | SnapStoreLink | SnapStoreMissing | SnapMismatch string

definition node_at :: "snap_fs \<Rightarrow> fpath \<Rightarrow> snap_node option" where
  "node_at fs p = map_of (sn_nodes fs) p"

definition inode_of :: "snap_fs \<Rightarrow> nat \<Rightarrow> nat \<times> string" where
  "inode_of fs i = (case map_of (sn_inodes fs) i of None \<Rightarrow> (0, []) | Some x \<Rightarrow> x)"

definition fresh_inode :: "snap_fs \<Rightarrow> nat" where
  "fresh_inode fs = foldr (\<lambda>(i, _) n. max (Suc i) n) (sn_inodes fs) 0"

definition put_snap :: "fpath \<Rightarrow> snap_node \<Rightarrow> snap_fs \<Rightarrow> snap_fs" where
  "put_snap p n fs = fs\<lparr>sn_nodes := AList.update p n (sn_nodes fs)\<rparr>"

definition dir_node :: "snap_fs \<Rightarrow> fpath \<Rightarrow> bool" where
  "dir_node fs p \<longleftrightarrow> (case node_at fs p of Some (SnapDir _) \<Rightarrow> True | _ \<Rightarrow> False)"

text \<open>\<open>_guest_path\<close>\<close>

definition guest_path :: "fpath \<Rightarrow> string" where
  "guest_path p = ''/'' @ join_with [slash] p"

section \<open>Entries\<close>

datatype snap_type = TyDir | TyFile | TyLink

fun snap_type_value :: "snap_type \<Rightarrow> string" where
  "snap_type_value TyDir = ''dir''"
| "snap_type_value TyFile = ''file''"
| "snap_type_value TyLink = ''symlink''"

definition all_snap_types :: "snap_type list" where
  "all_snap_types = [TyDir, TyFile, TyLink]"

interpretation snap_type_enum: str_enum all_snap_types snap_type_value
proof unfold_locales
  show "x \<in> set all_snap_types" for x by (cases x) (auto simp: all_snap_types_def)
  show "snap_type_value x = snap_type_value y \<Longrightarrow> x = y" for x y by (cases x; cases y) auto
  show "snap_type_value x \<noteq> []" for x by (cases x) auto
qed

record snap_entry =
  se_path :: string
  se_type :: snap_type
  se_mode :: int
  se_size :: "int option"
  se_sha :: "string option"
  se_target :: "string option"
  se_group :: "string option"

definition snap_entry_json :: "snap_entry \<Rightarrow> json" where
  "snap_entry_json e = JObj
     [(''path'', JStr (se_path e)), (''type'', JStr (snap_type_value (se_type e))), (''mode'', JInt (se_mode e)),
      (''size'', opt_json JInt (se_size e)), (''sha256'', opt_json JStr (se_sha e)),
      (''symlink_target'', opt_json JStr (se_target e)), (''hardlink_group'', opt_json JStr (se_group e))]"

text \<open>\<open>entry_type not in {...}\<close> raises a \<open>TypeError\<close> for a list or an object.\<close>

definition snap_type_from :: "nat \<Rightarrow> json \<Rightarrow> snap_error + snap_type" where
  "snap_type_from i v =
     (case v of
        JStr s \<Rightarrow> (case enum_of all_snap_types snap_type_value s of
            None \<Rightarrow> Inl (SnapEntry i ''type'') | Some t \<Rightarrow> Inr t)
      | JList _ \<Rightarrow> Inl (SnapUnhashable i)
      | JObj _ \<Rightarrow> Inl (SnapUnhashable i)
      | _ \<Rightarrow> Inl (SnapEntry i ''type''))"

definition snap_int :: "nat \<Rightarrow> string \<Rightarrow> (int \<Rightarrow> bool) \<Rightarrow> json \<Rightarrow> snap_error + int" where
  "snap_int i field good v =
     (case v of JInt n \<Rightarrow> if good n then Inr n else Inl (SnapEntry i field) | _ \<Rightarrow> Inl (SnapEntry i field))"

definition snap_string :: "nat \<Rightarrow> string \<Rightarrow> (string \<Rightarrow> bool) \<Rightarrow> json \<Rightarrow> snap_error + string" where
  "snap_string i field good v =
     (case v of JStr s \<Rightarrow> if good s then Inr s else Inl (SnapEntry i field) | _ \<Rightarrow> Inl (SnapEntry i field))"

text \<open>The fields that each type of entry has: size, digest and target.\<close>

definition snap_payload ::
    "nat \<Rightarrow> snap_type \<Rightarrow> (string \<times> json) list \<Rightarrow> snap_error + (int option \<times> string option \<times> string option)" where
  "snap_payload i ty d =
     (case ty of
        TyFile \<Rightarrow>
          ebind (snap_int i ''size'' (\<lambda>n. 0 \<le> n) (jget d ''size'')) (\<lambda>size.
          ebind (snap_string i ''sha256'' is_sha256 (jget d ''sha256'')) (\<lambda>sha.
          ebind (guard (jget d ''symlink_target'' = JNull) (SnapEntry i ''symlink_target'')) (\<lambda>_.
          Inr (Some size, Some sha, None))))
      | TyLink \<Rightarrow>
          ebind (snap_string i ''symlink_target'' (\<lambda>_. True) (jget d ''symlink_target'')) (\<lambda>target.
          ebind (guard (jget d ''size'' = JNull \<and> jget d ''sha256'' = JNull) (SnapEntry i ''file fields'')) (\<lambda>_.
          Inr (None, None, Some target)))
      | TyDir \<Rightarrow>
          ebind (guard (jget d ''size'' = JNull \<and> jget d ''sha256'' = JNull \<and> jget d ''symlink_target'' = JNull)
            (SnapEntry i ''non-directory fields'')) (\<lambda>_. Inr (None, None, None)))"

definition snap_group :: "nat \<Rightarrow> snap_type \<Rightarrow> json \<Rightarrow> snap_error + string option" where
  "snap_group i ty v =
     (if v = JNull then Inr None
      else ebind (guard (ty = TyFile) (SnapEntry i ''hardlink_group'')) (\<lambda>_.
        ebind (snap_string i ''hardlink_group'' (\<lambda>s. starts_with s ''hl_'') v) (\<lambda>g. Inr (Some g))))"

text \<open>The tests that a file or a link is not the root are subsumed by the first one.\<close>

definition snap_entry_from :: "nat \<Rightarrow> json \<Rightarrow> snap_error + snap_entry" where
  "snap_entry_from i raw =
     (case raw of
        JObj d \<Rightarrow>
          ebind (snap_string i ''path'' (\<lambda>s. starts_with s ''/'') (jget d ''path'')) (\<lambda>path.
          ebind (snap_type_from i (jget d ''type'')) (\<lambda>ty.
          ebind (guard (\<not> (path = ''/'' \<and> ty \<noteq> TyDir)) (SnapEntry i ''root'')) (\<lambda>_.
          ebind (snap_int i ''mode'' (\<lambda>n. 0 \<le> n \<and> n \<le> 4095) (jget d ''mode'')) (\<lambda>mode.
          ebind (snap_payload i ty d) (\<lambda>(size, sha, target).
          ebind (snap_group i ty (jget d ''hardlink_group'')) (\<lambda>group.
          Inr \<lparr>se_path = path, se_type = ty, se_mode = mode, se_size = size, se_sha = sha, se_target = target,
               se_group = group\<rparr>))))))
      | _ \<Rightarrow> Inl (SnapEntry i ''object''))"

section \<open>Scanning\<close>

definition paths_of_inode :: "snap_fs \<Rightarrow> nat \<Rightarrow> fpath list" where
  "paths_of_inode fs i = map fst (filter (\<lambda>(p, n). n = SnapFile i) (sn_nodes fs))"

text \<open>
  Two paths with one inode make its link count more than one, so that \<open>st_nlink > 1\<close> says nothing more
  about an inode with two paths in the tree.
\<close>

definition link_group :: "snap_fs \<Rightarrow> nat \<Rightarrow> string option" where
  "link_group fs i =
     (let ps = map guest_path (paths_of_inode fs i) in
      if length ps < 2 then None
      else Some (''hl_'' @ take 16 (sha256_hex (join_with [CHR 0x00] (sort ps)))))"

definition scan_node :: "snap_fs \<Rightarrow> fpath \<times> snap_node \<Rightarrow> snap_entry" where
  "scan_node fs x =
     (case x of (p, n) \<Rightarrow>
       (case n of
          SnapDir m \<Rightarrow> \<lparr>se_path = guest_path p, se_type = TyDir, se_mode = int m, se_size = None, se_sha = None,
             se_target = None, se_group = None\<rparr>
        | SnapFile i \<Rightarrow> \<lparr>se_path = guest_path p, se_type = TyFile, se_mode = int (fst (inode_of fs i)),
             se_size = Some (int (length (snd (inode_of fs i)))), se_sha = Some (sha256_hex (snd (inode_of fs i))),
             se_target = None, se_group = link_group fs i\<rparr>
        | SnapLink t \<Rightarrow> \<lparr>se_path = guest_path p, se_type = TyLink, se_mode = 511, se_size = None, se_sha = None,
             se_target = Some t, se_group = None\<rparr>
        | SnapOther \<Rightarrow> \<lparr>se_path = guest_path p, se_type = TyDir, se_mode = 0, se_size = None, se_sha = None,
             se_target = None, se_group = None\<rparr>))"

text \<open>The walk stops at the first entry it does not support; which one that is is not modelled.\<close>

definition scan_environment :: "snap_fs \<Rightarrow> snap_error + snap_entry list" where
  "scan_environment fs =
     (if list_ex (\<lambda>(p, n). n = SnapOther) (sn_nodes fs) then Inl SnapUnsupported
      else Inr (sort_key se_path (map (scan_node fs) (sn_nodes fs))))"

definition tree_digest :: "snap_entry list \<Rightarrow> string" where
  "tree_digest es = canonical_sha256 (JList (map snap_entry_json es))"

definition make_snapshot_id :: "string \<Rightarrow> snap_error + string" where
  "make_snapshot_id sha = ebind (guard (is_sha256 sha) (SnapField ''tree_sha256'')) (\<lambda>_. Inr (''env_'' @ take 16 sha))"

section \<open>Snapshot manifests\<close>

record snap_manifest =
  sp_id :: string
  sp_sha :: string
  sp_source :: string
  sp_rootfs :: string
  sp_entries :: "snap_entry list"
  sp_generated :: "string option"

definition snap_summary :: "snap_entry list \<Rightarrow> json" where
  "snap_summary es = JObj
     [(''entries_total'', JInt (int (length es))),
      (''total_file_bytes'', JInt (sum_list (map (\<lambda>e. case se_size e of None \<Rightarrow> 0 | Some n \<Rightarrow> n) es))),
      (''hardlink_groups'', JInt (int (length (remdups (List.map_filter se_group es))))),
      (''by_type'', counts_json (count_by (\<lambda>e. snap_type_value (se_type e)) es))]"

definition snap_manifest_json :: "snap_manifest \<Rightarrow> json" where
  "snap_manifest_json m = JObj
     [(''schema_version'', JInt 1), (''snapshot_version'', JInt 1), (''snapshot_id'', JStr (sp_id m)),
      (''generated_at_utc'', opt_json JStr (sp_generated m)), (''tree_sha256'', JStr (sp_sha m)),
      (''source_rootfs'', JStr (sp_source m)), (''snapshot_rootfs'', JStr (sp_rootfs m)),
      (''summary'', snap_summary (sp_entries m)), (''entries'', JList (map snap_entry_json (sp_entries m)))]"

text \<open>\<open>raw.get(k) != 1\<close>: \<open>True\<close> and \<open>1.0\<close> equal 1.\<close>

definition equals_one :: "json \<Rightarrow> bool" where
  "equals_one v = (case v of JInt n \<Rightarrow> n = 1 | JBool b \<Rightarrow> b | JFloat (FloatFin r s) \<Rightarrow> r = 1 | _ \<Rightarrow> False)"

definition snap_text :: "string \<Rightarrow> (string \<Rightarrow> bool) \<Rightarrow> json \<Rightarrow> snap_error + string" where
  "snap_text field good v =
     (case v of JStr s \<Rightarrow> if good s then Inr s else Inl (SnapField field) | _ \<Rightarrow> Inl (SnapField field))"

text \<open>The text of a list or an object as the time of generation is not modelled (\<open>None\<close>).\<close>

definition snap_manifest_from :: "json \<Rightarrow> snap_error + snap_manifest" where
  "snap_manifest_from raw =
     (case raw of
        JObj d \<Rightarrow>
          ebind (guard (equals_one (jget d ''schema_version'')) (SnapField ''schema_version'')) (\<lambda>_.
          ebind (guard (equals_one (jget d ''snapshot_version'')) (SnapField ''snapshot_version'')) (\<lambda>_.
          ebind (snap_text ''snapshot_id'' (\<lambda>s. starts_with s ''env_'') (jget d ''snapshot_id'')) (\<lambda>sid.
          ebind (snap_text ''tree_sha256'' is_sha256 (jget d ''tree_sha256'')) (\<lambda>sha.
          ebind (make_snapshot_id sha) (\<lambda>expected.
          ebind (guard (sid = expected) (SnapMismatch ''snapshot_id'')) (\<lambda>_.
          ebind (snap_text ''source_rootfs'' (\<lambda>s. s \<noteq> []) (jget d ''source_rootfs'')) (\<lambda>source.
          ebind (snap_text ''snapshot_rootfs'' (\<lambda>s. s \<noteq> []) (jget d ''snapshot_rootfs'')) (\<lambda>rootfs.
          ebind (case jget d ''entries'' of JList xs \<Rightarrow> Inr xs | _ \<Rightarrow> Inl (SnapField ''entries'')) (\<lambda>xs.
          ebind (emap_enum snap_entry_from xs) (\<lambda>es.
          ebind (guard (sorted (map se_path es)) SnapOrder) (\<lambda>_.
          ebind (guard (distinct (map se_path es)) SnapRepeated) (\<lambda>_.
          ebind (guard (es \<noteq> [] \<and> se_path (hd es) = ''/'') SnapNoRoot) (\<lambda>_.
          ebind (guard (tree_digest es = sha) SnapDigest) (\<lambda>_.
          Inr \<lparr>sp_id = sid, sp_sha = sha, sp_source = source, sp_rootfs = rootfs, sp_entries = es,
               sp_generated = (let v = jget d ''generated_at_utc'' in if jtruthy v then py_str v else Some ''unknown'')\<rparr>))))))))))))))
      | _ \<Rightarrow> Inl (SnapField ''object''))"

section \<open>Copying a tree\<close>

text \<open>The calls fail when the path exists or its parent is no directory.\<close>

definition snap_create :: "fpath \<Rightarrow> snap_node \<Rightarrow> snap_fs \<Rightarrow> snap_error + snap_fs" where
  "snap_create p n fs =
     (if p = [] \<or> node_at fs p \<noteq> None \<or> \<not> dir_node fs (butlast p) then Inl SnapOs else Inr (put_snap p n fs))"

definition copy_file :: "snap_fs \<Rightarrow> fpath \<Rightarrow> snap_fs \<Rightarrow> snap_error + snap_fs" where
  "copy_file src p fs =
     (case node_at src p of
        Some (SnapFile i) \<Rightarrow>
          (let j = fresh_inode fs in
           snap_create p (SnapFile j) (fs\<lparr>sn_inodes := (j, 420, snd (inode_of src i)) # sn_inodes fs\<rparr>))
      | _ \<Rightarrow> Inl SnapOs)"

definition link_file :: "fpath \<Rightarrow> fpath \<Rightarrow> snap_fs \<Rightarrow> snap_error + snap_fs" where
  "link_file target p fs =
     (case node_at fs target of Some (SnapFile j) \<Rightarrow> snap_create p (SnapFile j) fs | _ \<Rightarrow> Inl SnapOs)"

definition snap_chmod :: "fpath \<Rightarrow> nat \<Rightarrow> snap_fs \<Rightarrow> snap_error + snap_fs" where
  "snap_chmod p m fs =
     (case node_at fs p of
        Some (SnapDir _) \<Rightarrow> Inr (put_snap p (SnapDir m) fs)
      | Some (SnapFile i) \<Rightarrow> Inr (fs\<lparr>sn_inodes := AList.update i (m, snd (inode_of fs i)) (sn_inodes fs)\<rparr>)
      | _ \<Rightarrow> Inl SnapOs)"

text \<open>The copy, the modes the directories get at the end, and the first path of each group of links\<close>

type_synonym clone_state = "snap_fs \<times> (fpath \<times> nat) list \<times> (string \<times> fpath) list"

definition clone_file :: "snap_fs \<Rightarrow> snap_entry \<Rightarrow> fpath \<Rightarrow> clone_state \<Rightarrow> snap_error + clone_state" where
  "clone_file src e p st =
     (case st of (dst, dirs, links) \<Rightarrow>
       (case Option.bind (se_group e) (map_of links) of
          Some t \<Rightarrow>
            ebind (link_file t p dst) (\<lambda>dst1.
            ebind (snap_chmod p (nat (se_mode e)) dst1) (\<lambda>dst2. Inr (dst2, dirs, links)))
        | None \<Rightarrow>
            ebind (copy_file src p dst) (\<lambda>dst1.
            ebind (snap_chmod p (nat (se_mode e)) dst1) (\<lambda>dst2.
            Inr (dst2, dirs, case se_group e of None \<Rightarrow> links | Some g \<Rightarrow> (g, p) # links)))))"

definition clone_entry :: "snap_fs \<Rightarrow> snap_entry \<Rightarrow> clone_state \<Rightarrow> snap_error + clone_state" where
  "clone_entry src e st =
     (let p = pp_comps (pp_parse (se_path e)) in
      case st of (dst, dirs, links) \<Rightarrow>
        (case se_type e of
           TyDir \<Rightarrow> ebind (snap_create p (SnapDir 448) dst) (\<lambda>dst1. Inr (dst1, dirs @ [(p, nat (se_mode e))], links))
         | TyLink \<Rightarrow>
             ebind (snap_create p (SnapLink (case se_target e of None \<Rightarrow> [] | Some t \<Rightarrow> t)) dst) (\<lambda>dst1.
             Inr (dst1, dirs, links))
         | TyFile \<Rightarrow> clone_file src e p st))"

fun clone_entries :: "snap_fs \<Rightarrow> snap_entry list \<Rightarrow> clone_state \<Rightarrow> snap_error + clone_state" where
  "clone_entries src [] st = Inr st"
| "clone_entries src (e # es) st = ebind (clone_entry src e st) (clone_entries src es)"

fun chmod_dirs :: "(fpath \<times> nat) list \<Rightarrow> snap_fs \<Rightarrow> snap_error + snap_fs" where
  "chmod_dirs [] fs = Inr fs"
| "chmod_dirs ((p, m) # xs) fs = ebind (snap_chmod p m fs) (chmod_dirs xs)"

definition empty_rootfs :: snap_fs where
  "empty_rootfs = \<lparr>sn_nodes = [([], SnapDir 448)], sn_inodes = []\<rparr>"

text \<open>\<open>clone_environment\<close> to a path that does not exist; a failed copy is removed.\<close>

definition clone_environment :: "snap_fs \<Rightarrow> snap_error + snap_fs" where
  "clone_environment src =
     ebind (scan_environment src) (\<lambda>es.
     ebind (clone_entries src (drop 1 es) (empty_rootfs, [], [])) (\<lambda>(dst, dirs, _).
     ebind (chmod_dirs (sort_key (\<lambda>(p, _). - int (length p)) dirs) dst) (\<lambda>dst1.
     snap_chmod [] (nat (se_mode (hd es))) dst1)))"

section \<open>The store\<close>

datatype rootfs_slot = RootMissing | RootLink | RootNotDir | RootHost | RootTree snap_fs

datatype manifest_doc = DocMissing | DocOther | DocJson "json option"

datatype snap_slot = SlotLink | SlotNotDir | SlotDir manifest_doc rootfs_slot

type_synonym snap_store = "(string \<times> snap_slot) list"

type_synonym 'a snap_outcome = "(snap_error + 'a) \<times> snap_store"

definition validate_snap_rootfs :: "rootfs_slot \<Rightarrow> snap_error + snap_fs" where
  "validate_snap_rootfs r =
     (case r of
        RootLink \<Rightarrow> Inl (SnapRoot ''symlink'')
      | RootMissing \<Rightarrow> Inl (SnapRoot ''missing'')
      | RootHost \<Rightarrow> Inl (SnapRoot ''host root'')
      | RootNotDir \<Rightarrow> Inl (SnapRoot ''not a directory'')
      | RootTree fs \<Rightarrow> Inr fs)"

definition load_snap_manifest :: "manifest_doc \<Rightarrow> snap_error + snap_manifest" where
  "load_snap_manifest d =
     (case d of
        DocMissing \<Rightarrow> Inl SnapNoManifest
      | DocOther \<Rightarrow> Inl SnapOs
      | DocJson None \<Rightarrow> Inl SnapJson
      | DocJson (Some v) \<Rightarrow> snap_manifest_from v)"

text \<open>
  A snapshot that the store does not have is looked up relative to the working directory (\<open>cwd\<close>).
\<close>

definition resolve_snapshot :: "snap_store \<Rightarrow> snap_store \<Rightarrow> string \<Rightarrow> snap_slot option" where
  "resolve_snapshot cwd s sid = (case map_of s sid of Some x \<Rightarrow> Some x | None \<Rightarrow> map_of cwd sid)"

definition verify_slot :: "snap_slot option \<Rightarrow> snap_error + (snap_manifest \<times> snap_fs)" where
  "verify_slot x =
     (case x of
        Some SlotLink \<Rightarrow> Inl SnapStoreLink
      | Some (SlotDir doc tree) \<Rightarrow>
          ebind (load_snap_manifest doc) (\<lambda>m.
          ebind (validate_snap_rootfs tree) (\<lambda>fs.
          ebind (scan_environment fs) (\<lambda>es.
          ebind (guard (tree_digest es = sp_sha m) (SnapMismatch ''rootfs digest'')) (\<lambda>_.
          ebind (guard (es = sp_entries m) (SnapMismatch ''rootfs entries'')) (\<lambda>_. Inr (m, fs))))))
      | _ \<Rightarrow> Inl SnapStoreMissing)"

definition snapshot_verify :: "snap_store \<Rightarrow> snap_store \<Rightarrow> string \<Rightarrow> snap_error + snap_manifest" where
  "snapshot_verify cwd s sid = ebind (verify_slot (resolve_snapshot cwd s sid)) (\<lambda>(m, fs). Inr m)"

text \<open>
  \<open>EnvironmentSnapshotStore.capture\<close>: the manifest and whether an existing snapshot was used.  \<open>now\<close> is
  the time, \<open>source\<close> and \<open>dir\<close> are the paths of the source and of the store.
\<close>

definition snapshot_capture ::
    "string \<Rightarrow> string \<Rightarrow> string \<Rightarrow> snap_store \<Rightarrow> rootfs_slot \<Rightarrow> (snap_manifest \<times> bool) snap_outcome" where
  "snapshot_capture now source dir s tree =
     (case ebind (validate_snap_rootfs tree) (\<lambda>fs.
           ebind (scan_environment fs) (\<lambda>es.
           ebind (make_snapshot_id (tree_digest es)) (\<lambda>sid. Inr (fs, tree_digest es, sid)))) of
        Inl e \<Rightarrow> (Inl e, s)
      | Inr (fs, digest, sid) \<Rightarrow>
          (case map_of s sid of
             Some slot \<Rightarrow>
               (ebind (verify_slot (Some slot)) (\<lambda>(m, _).
                ebind (guard (sp_sha m = digest) (SnapMismatch ''collision'')) (\<lambda>_. Inr (m, True))), s)
           | None \<Rightarrow>
               (case ebind (clone_environment fs) (\<lambda>copy.
                     ebind (scan_environment copy) (\<lambda>es.
                     ebind (guard (tree_digest es = digest) (SnapMismatch ''captured'')) (\<lambda>_. Inr (copy, es)))) of
                  Inl e \<Rightarrow> (Inl e, s)
                | Inr (copy, es) \<Rightarrow>
                    (let m = \<lparr>sp_id = sid, sp_sha = digest, sp_source = source, sp_rootfs = dir @ ''/'' @ sid @ ''/rootfs'',
                              sp_entries = es, sp_generated = Some now\<rparr>
                     in (Inr (m, False), (sid, SlotDir (DocJson (Some (snap_manifest_json m))) (RootTree copy)) # s)))))"

text \<open>
  \<open>EnvironmentSnapshotStore.clone\<close> to a path that is free or not: the manifest and the new tree.
\<close>

definition snapshot_clone :: "snap_store \<Rightarrow> snap_store \<Rightarrow> string \<Rightarrow> bool \<Rightarrow> snap_error + (snap_manifest \<times> snap_fs)" where
  "snapshot_clone cwd s sid free =
     ebind (verify_slot (resolve_snapshot cwd s sid)) (\<lambda>(m, fs).
     ebind (guard free SnapExists) (\<lambda>_.
     ebind (clone_environment fs) (\<lambda>copy.
     ebind (scan_environment copy) (\<lambda>es.
     ebind (guard (tree_digest es = sp_sha m) (SnapMismatch ''cloned'')) (\<lambda>_. Inr (m, copy))))))"

end
