(* ===== verification/Manifest_Builder.thy ===== *)
theory Manifest_Builder
  imports Environment_Snapshot Progress_Oracle
begin

text \<open>
  The manifest builder (\<open>taintforge_env/environment_manifest_builder.py\<close>): the seed manifest of a session,
  and the next manifest from a completed repair, whose plan, application report and observation are
  bound to the attempt by their digests.
\<close>

datatype builder_error =
    BuildAttempt string | BuildInvalid string | BuildPlan plan_error | BuildObservation progress_error
  | BuildMismatch string | BuildField string | BuildRepeated string | BuildUnknown string | BuildNotCandidate string
  | BuildStatus string | BuildNoMapping repair_action | BuildSemantics string | BuildPath string
  | BuildUnobserved string | BuildNotDirectory string | BuildEvidence string | BuildMissing "string list" | BuildNothing
  | BuildManifest env_error

definition create_seed_manifest :: "string \<Rightarrow> string \<Rightarrow> string \<Rightarrow> env_error + env_manifest" where
  "create_seed_manifest now sample rootfs =
     check_manifest
       \<lparr>em_sample = sample, em_version = 0, em_rootfs = rootfs, em_entries = [], em_attempt = ''preflight'',
        em_reason = ''Captured the immutable sparse seed environment before the first packed execution attempt.'',
        em_parent_version = None, em_parent_id = None, em_schema = 2, em_model = 1, em_generated = now\<rparr>"

section \<open>The entry of a repaired directory\<close>

text \<open>\<open>f"{mode:04o}"\<close>\<close>

fun show_octal :: "nat \<Rightarrow> string" where
  "show_octal n = (if n < 8 then [char_of (48 + n)] else show_octal (n div 8) @ [char_of (48 + n mod 8)])"

declare show_octal.simps [simp del]

definition mode_text :: "nat \<Rightarrow> string" where
  "mode_text m = (let s = show_octal m in replicate (4 - length s) (CHR ''0'') @ s)"

text \<open>The loop over the components: every one is a real directory; the mode of the last one\<close>

fun observe_components :: "snap_fs \<Rightarrow> string \<Rightarrow> fpath \<Rightarrow> nat option \<Rightarrow> string list \<Rightarrow> builder_error + nat option" where
  "observe_components fs res cur seen [] = Inr seen"
| "observe_components fs res cur seen (c # cs) =
     (case node_at fs (cur @ [c]) of
        None \<Rightarrow> Inl (BuildUnobserved res)
      | Some (SnapDir m) \<Rightarrow> observe_components fs res (cur @ [c]) (Some m) cs
      | Some _ \<Rightarrow> Inl (BuildNotDirectory res))"

definition observed_directory_mode :: "snap_fs \<Rightarrow> string \<Rightarrow> string \<Rightarrow> builder_error + string" where
  "observed_directory_mode fs res did =
     (let pure = pp_parse res in
      ebind (guard (starts_with res ''/'' \<and> res \<noteq> ''/'' \<and> ''..'' \<notin> set (pp_parts pure) \<and> pp_str pure = strip_slashes res)
        (BuildPath did)) (\<lambda>_.
      ebind (observe_components fs res [] None (drop 1 (pp_parts pure))) (\<lambda>mode.
      case mode of None \<Rightarrow> Inl (BuildPath did) | Some m \<Rightarrow> Inr (mode_text m))))"

definition directory_value :: "string \<Rightarrow> string \<Rightarrow> json" where
  "directory_value mode res = JObj
     [(''action'', JStr (action_value CreateDirectory)), (''mode'', JStr mode), (''parents'', JBool True), (''resource'', JStr res)]"

definition observation_evidence :: "attempt_contract \<Rightarrow> string \<Rightarrow> manifest_evidence" where
  "observation_evidence c sha = \<lparr>me_id = ac_id c @ '':observation'', me_kind = EvRuntime, me_attempt = ac_id c, me_sha = sha\<rparr>"

definition repair_evidence :: "attempt_contract \<Rightarrow> string \<Rightarrow> string \<Rightarrow> manifest_evidence" where
  "repair_evidence c did sha = \<lparr>me_id = ac_id c @ '':repair:'' @ did, me_kind = EvRepair, me_attempt = ac_id c, me_sha = sha\<rparr>"

definition new_directory_entry :: "attempt_contract \<Rightarrow> string \<Rightarrow> string \<Rightarrow> manifest_evidence list \<Rightarrow> manifest_entry" where
  "new_directory_entry c res mode evidence =
     (let value_sha = canonical_sha256 (directory_value mode res) in
      \<lparr>en_resource = ''fs:'' @ res, en_kind = ResDirectory, en_scope = ScopeUnknown, en_stage = ac_stage c, en_attempt = ac_id c,
       en_provider = ''static_directory'', en_value = ''directory-'' @ mode @ ''-'' @ take 12 value_sha, en_value_sha = value_sha,
       en_evidence = evidence, en_confidence = ConfObserved, en_status = EntryActive, en_pc = None\<rparr>)"

definition directory_entry ::
    "snap_fs \<Rightarrow> attempt_contract \<Rightarrow> string \<Rightarrow> string \<Rightarrow> (string \<times> json) list \<Rightarrow> string \<Rightarrow> string \<Rightarrow> builder_error + manifest_entry" where
  "directory_entry fs c did res params obs_sha app_sha =
     ebind (case jget params ''mode'' of
              JStr s \<Rightarrow> guard (list_all octal_digit s \<and> (length s = 3 \<or> (length s = 4 \<and> hd s = CHR ''0''))) (BuildSemantics did)
            | _ \<Rightarrow> Inl (BuildSemantics did)) (\<lambda>_.
     ebind (guard (jget params ''parents'' = JBool True) (BuildSemantics did)) (\<lambda>_.
     ebind (observed_directory_mode fs res did) (\<lambda>mode.
     ebind (err_map BuildManifest (check_evidence (observation_evidence c obs_sha))) (\<lambda>ob.
     ebind (err_map BuildManifest (check_evidence (repair_evidence c did app_sha))) (\<lambda>rep.
     err_map BuildManifest (check_entry (new_directory_entry c res mode (sort_key me_id [ob, rep]))))))))"

section \<open>Merging an entry\<close>

fun merge_evidence :: "manifest_evidence list \<Rightarrow> manifest_evidence list \<Rightarrow> builder_error + manifest_evidence list" where
  "merge_evidence d [] = Inr d"
| "merge_evidence d (x # xs) =
     (if \<exists>y \<in> set d. me_id y = me_id x \<and> y \<noteq> x then Inl (BuildEvidence (me_id x))
      else merge_evidence (upsert me_id x d) xs)"

definition merged_entry :: "manifest_entry \<Rightarrow> manifest_entry \<Rightarrow> manifest_evidence list \<Rightarrow> manifest_entry" where
  "merged_entry old new evidence =
     (let same = (en_kind old = en_kind new \<and> en_provider old = en_provider new \<and> en_value_sha old = en_value_sha new) in
      new\<lparr>en_stage := en_stage old, en_attempt := en_attempt old, en_pc := en_pc old, en_scope := en_scope old,
          en_confidence := (if same then en_confidence old else en_confidence new),
          en_status := (if same then en_status old else en_status new),
          en_evidence := sort_key me_id evidence\<rparr>)"

definition merge_entry :: "manifest_entry list \<Rightarrow> manifest_entry \<Rightarrow> builder_error + manifest_entry list" where
  "merge_entry es new =
     (let by = dict_values en_resource es in
      ebind (case find (\<lambda>e. en_resource e = en_resource new) by of
               None \<Rightarrow> Inr new
             | Some old \<Rightarrow>
                 ebind (merge_evidence (dict_values me_id (en_evidence old)) (en_evidence new)) (\<lambda>evidence.
                 err_map BuildManifest (check_entry (merged_entry old new evidence)))) (\<lambda>x.
      Inr (sort_key en_resource (upsert en_resource x by))))"

section \<open>Deriving the next manifest\<close>

definition required_string :: "json \<Rightarrow> string \<Rightarrow> builder_error + string" where
  "required_string v label = (case v of JStr s \<Rightarrow> if s = [] then Inl (BuildField label) else Inr s | _ \<Rightarrow> Inl (BuildField label))"

definition required_one :: "json \<Rightarrow> string \<Rightarrow> builder_error + unit" where
  "required_one v label = (case v of JInt n \<Rightarrow> guard (n = 1) (BuildField label) | _ \<Rightarrow> Inl (BuildField label))"

text \<open>\<open>str(item.get("decision_id") or "")\<close>; the text of a list or an object is not modelled.\<close>

definition result_key :: "(string \<times> json) list \<Rightarrow> string" where
  "result_key item =
     (let v = jget item ''decision_id'' in if jtruthy v then (case py_str v of None \<Rightarrow> [] | Some s \<Rightarrow> s) else [])"

text \<open>The decision that a result is about, and whether it was selected\<close>

definition check_result_item :: "repair_decision list \<Rightarrow> string list \<Rightarrow> (string \<times> json) list \<Rightarrow> builder_error + (repair_decision \<times> bool)" where
  "check_result_item ds seen item =
     ebind (required_string (jget item ''decision_id'') ''decision_id'') (\<lambda>did.
     ebind (guard (did \<notin> set seen) (BuildRepeated did)) (\<lambda>_.
     case map_of (rev (map (\<lambda>d. (rd_id d, d)) ds)) did of
       None \<Rightarrow> Inl (BuildUnknown did)
     | Some d \<Rightarrow>
         ebind (guard (jget item ''resource'' = JStr (rd_resource d)) (BuildMismatch ''resource'')) (\<lambda>_.
         ebind (guard (jget item ''action'' = JStr (action_value (rd_action d))) (BuildMismatch ''action'')) (\<lambda>_.
         ebind (guard (jget item ''requirement_id'' = JStr (rd_requirement_id d)) (BuildMismatch ''requirement'')) (\<lambda>_.
         ebind (required_string (jget item ''status'') ''status'') (\<lambda>status.
         ebind (if rd_automatic d
                then ebind (guard (rd_disposition d = AutoCandidate) (BuildNotCandidate did)) (\<lambda>_.
                  guard (status \<in> set [''applied'', ''already_satisfied'']) (BuildStatus did))
                else guard (status = ''not_selected'') (BuildStatus did)) (\<lambda>_.
         Inr (d, status \<noteq> ''not_selected''))))))))"

text \<open>The loop: the entries so far, how many results were selected, and the decisions seen\<close>

fun derive_results ::
    "snap_fs \<Rightarrow> attempt_contract \<Rightarrow> repair_decision list \<Rightarrow> string \<Rightarrow> string \<Rightarrow> manifest_entry list \<Rightarrow> nat \<Rightarrow> string list
     \<Rightarrow> (string \<times> json) list list \<Rightarrow> builder_error + (manifest_entry list \<times> nat \<times> string list)" where
  "derive_results fs c ds obs app es n seen [] = Inr (es, n, seen)"
| "derive_results fs c ds obs app es n seen (item # items) =
     ebind (check_result_item ds seen item) (\<lambda>(d, selected).
     if \<not> selected then derive_results fs c ds obs app es n (rd_id d # seen) items
     else
       ebind (guard (rd_action d = CreateDirectory) (BuildNoMapping (rd_action d))) (\<lambda>_.
       ebind (directory_entry fs c (rd_id d) (rd_resource d) (rd_parameters d) obs app) (\<lambda>x.
       ebind (merge_entry es x) (\<lambda>es1.
       derive_results fs c ds obs app es1 (n + 1) (rd_id d # seen) items))))"

definition regular_text :: "file_view \<Rightarrow> string \<Rightarrow> builder_error + string" where
  "regular_text f label = (case f of FileText s \<Rightarrow> Inr s | _ \<Rightarrow> Inl (BuildInvalid label))"

definition regular_directory :: "rootfs_slot \<Rightarrow> builder_error + snap_fs" where
  "regular_directory r = (case r of RootTree fs \<Rightarrow> Inr fs | _ \<Rightarrow> Inl (BuildInvalid ''rootfs''))"

definition json_objects :: "json \<Rightarrow> (string \<times> json) list list option" where
  "json_objects v =
     (case v of
        JList xs \<Rightarrow> those (map (\<lambda>x. case x of JObj d \<Rightarrow> Some d | _ \<Rightarrow> None) xs)
      | _ \<Rightarrow> None)"

definition check_source :: "env_manifest \<Rightarrow> attempt_contract \<Rightarrow> attempt_result \<Rightarrow> builder_error + unit" where
  "check_source parent c r =
     ebind (guard (ac_sample c = em_sample parent) (BuildAttempt ''sample'')) (\<lambda>_.
     ebind (guard (ac_manifest_id c = manifest_id parent) (BuildAttempt ''manifest id'')) (\<lambda>_.
     ebind (guard (ac_manifest_version c = em_version parent) (BuildAttempt ''manifest version'')) (\<lambda>_.
     ebind (guard (as_id r = ac_id c) (BuildAttempt ''result id'')) (\<lambda>_.
     ebind (guard (as_contract r = contract_sha256 c) (BuildAttempt ''contract'')) (\<lambda>_.
     guard (as_outcome r = RepairRequired) (BuildAttempt ''outcome''))))))"

definition check_application :: "string \<Rightarrow> string \<Rightarrow> (string \<times> json) list \<Rightarrow> builder_error + (string \<times> json) list list" where
  "check_application plan_sha req_sha app =
     ebind (required_one (jget app ''schema_version'') ''schema_version'') (\<lambda>_.
     ebind (required_one (jget app ''applier_version'') ''applier_version'') (\<lambda>_.
     ebind (guard (jget app ''state'' = JStr ''completed'' \<and> jget app ''dry_run'' = JBool False) (BuildField ''state'')) (\<lambda>_.
     ebind (guard (jget app ''plan_sha256'' = JStr plan_sha) (BuildMismatch ''plan'')) (\<lambda>_.
     ebind (guard (jget app ''requirements_sha256'' = JStr req_sha) (BuildMismatch ''requirements'')) (\<lambda>_.
     case json_objects (jget app ''results'') of None \<Rightarrow> Inl (BuildField ''results'') | Some items \<Rightarrow> Inr items)))))"

definition change_reason :: "nat \<Rightarrow> string \<Rightarrow> string" where
  "change_reason n aid = ''Recorded '' @ show_nat n @ '' deterministic repair result(s) from '' @ aid @ ''.''"

definition derive_from_repair ::
    "(string \<Rightarrow> json option) \<Rightarrow> string \<Rightarrow> env_manifest \<Rightarrow> string \<Rightarrow> rootfs_slot \<Rightarrow> attempt_contract \<Rightarrow> attempt_result
     \<Rightarrow> file_view \<Rightarrow> file_view \<Rightarrow> file_view \<Rightarrow> builder_error + env_manifest" where
  "derive_from_repair loads now parent snapshot rootfs c r plan_file app_file obs_file =
     ebind (check_source parent c r) (\<lambda>_.
     ebind (regular_directory rootfs) (\<lambda>fs.
     ebind (regular_text plan_file ''plan'') (\<lambda>plan_text.
     ebind (regular_text app_file ''application'') (\<lambda>app_text.
     ebind (regular_text obs_file ''observation'') (\<lambda>obs_text.
     ebind (err_map BuildPlan (plan_load loads plan_file)) (\<lambda>plan.
     ebind (guard (ap_observation (as_progress r) = Some (sha256_hex obs_text)) (BuildMismatch ''observation'')) (\<lambda>_.
     ebind (err_map BuildObservation (load_observation loads (Some obs_text))) (\<lambda>ob.
     ebind (guard (io_plan_sha ob = sha256_hex plan_text) (BuildMismatch ''observation plan'')) (\<lambda>_.
     ebind (guard (io_requirements_sha ob = rp_source_sha256 plan) (BuildMismatch ''observation requirements'')) (\<lambda>_.
     ebind (case loads app_text of Some (JObj d) \<Rightarrow> Inr d | _ \<Rightarrow> Inl (BuildInvalid ''application'')) (\<lambda>app.
     ebind (check_application (sha256_hex plan_text) (rp_source_sha256 plan) app) (\<lambda>items.
     ebind (derive_results fs c (rp_decisions plan) (sha256_hex obs_text) (sha256_hex app_text) (em_entries parent) 0 []
       (sort_key result_key items)) (\<lambda>(es, n, seen).
     let missing = sorted_set (filter (\<lambda>did. did \<notin> set seen) (map rd_id (rp_decisions plan))) in
     ebind (guard (missing = []) (BuildMissing missing)) (\<lambda>_.
     ebind (guard (0 < n) BuildNothing) (\<lambda>_.
     err_map BuildManifest (derive_manifest now parent snapshot es (ac_id c) (change_reason n (ac_id c))))))))))))))))))"

end
