(* ===== verification/Snapshot_Clone.thy ===== *)
theory Snapshot_Clone
  imports Environment_Snapshot
begin

text \<open>
  Copying a root filesystem: the loop of \<open>clone_environment\<close> copies every tree that can be scanned, and
  the scan of the copy is the scan of the source.
\<close>

section \<open>Well-formed trees\<close>

definition wf_snap :: "snap_fs \<Rightarrow> bool" where
  "wf_snap fs \<longleftrightarrow> distinct (map fst (sn_nodes fs)) \<and> dir_node fs [] \<and>
     list_all (\<lambda>(p, n). list_all plain_component p \<and> (p \<noteq> [] \<longrightarrow> dir_node fs (butlast p)) \<and>
       (case n of SnapDir m \<Rightarrow> m \<le> 4095
        | SnapFile i \<Rightarrow> map_of (sn_inodes fs) i \<noteq> None \<and> fst (inode_of fs i) \<le> 4095
        | _ \<Rightarrow> True)) (sn_nodes fs)"

lemma node_at_in: "wf_snap fs \<Longrightarrow> node_at fs p = Some n \<longleftrightarrow> (p, n) \<in> set (sn_nodes fs)"
  by (simp add: wf_snap_def node_at_def)

lemma wf_snap_node:
  assumes "wf_snap fs" "node_at fs p = Some n"
  shows "list_all plain_component p" "p \<noteq> [] \<Longrightarrow> dir_node fs (butlast p)"
  using assms node_at_in [OF assms(1)] by (auto simp: wf_snap_def list_all_iff)

lemma guest_path_parse: "list_all plain_component p \<Longrightarrow> pp_comps (pp_parse (guest_path p)) = p"
  using pp_parse_join [of p "''/''"] by (simp add: guest_path_def list_all_iff plain_component_def)

lemma join_with_snoc: "p \<noteq> [] \<Longrightarrow> join_with sep (p @ [c]) = join_with sep p @ sep @ c"
  by (induction sep p rule: join_with.induct) auto

lemma less_append: "ys \<noteq> [] \<Longrightarrow> xs < xs @ (ys :: string)"
  by (induction xs) (auto simp: neq_Nil_conv)

lemma guest_path_butlast:
  assumes "list_all plain_component p" "p \<noteq> []"
  shows "guest_path (butlast p) < guest_path p"
proof (cases p rule: rev_cases)
  case (snoc q c)
  have c: "c \<noteq> []" using assms(1) by (simp add: snoc plain_component_def)
  show ?thesis
  proof (cases "q = []")
    case True
    then show ?thesis using less_append [OF c, of "''/''"] by (simp add: snoc guest_path_def)
  next
    case False
    then show ?thesis using less_append [of "slash # c" "guest_path q"] by (simp add: snoc guest_path_def join_with_snoc)
  qed
qed (use assms in simp)

section \<open>Relabelled trees\<close>

text \<open>\<open>copy_of J src dst\<close>: \<open>dst\<close> is \<open>src\<close> with the inodes renamed by \<open>J\<close>.\<close>

fun rename_node :: "(nat \<Rightarrow> nat) \<Rightarrow> snap_node \<Rightarrow> snap_node" where
  "rename_node J (SnapFile i) = SnapFile (J i)"
| "rename_node J n = n"

definition used_inodes :: "(fpath \<times> snap_node) list \<Rightarrow> nat set" where
  "used_inodes ns = {i. \<exists>p. (p, SnapFile i) \<in> set ns}"

definition copy_of :: "(nat \<Rightarrow> nat) \<Rightarrow> snap_fs \<Rightarrow> snap_fs \<Rightarrow> bool" where
  "copy_of J src dst \<longleftrightarrow> distinct (map fst (sn_nodes dst)) \<and> inj_on J (used_inodes (sn_nodes src)) \<and>
     (\<forall>p. node_at dst p = map_option (rename_node J) (node_at src p)) \<and>
     (\<forall>i \<in> used_inodes (sn_nodes src). map_of (sn_inodes dst) (J i) = Some (inode_of src i))"

lemma copy_of_in:
  assumes "wf_snap src" "copy_of J src dst"
  shows "(p, n) \<in> set (sn_nodes dst) \<longleftrightarrow> (\<exists>k. (p, k) \<in> set (sn_nodes src) \<and> n = rename_node J k)"
proof -
  have in_dst: "(p, n) \<in> set (sn_nodes dst) \<longleftrightarrow> node_at dst p = Some n"
    using assms(2) [unfolded copy_of_def, THEN conjunct1] by (simp add: node_at_def)
  show ?thesis
    using assms(2) unfolding in_dst node_at_in [OF assms(1), symmetric] by (auto simp: copy_of_def)
qed

lemma copy_of_nodes:
  assumes "wf_snap src" "copy_of J src dst"
  shows "set (sn_nodes dst) = (\<lambda>(p, n). (p, rename_node J n)) ` set (sn_nodes src)"
proof (intro set_eqI)
  fix x :: "fpath \<times> snap_node"
  obtain p n where x: "x = (p, n)" by (cases x)
  show "x \<in> set (sn_nodes dst) \<longleftrightarrow> x \<in> (\<lambda>(p, n). (p, rename_node J n)) ` set (sn_nodes src)"
    unfolding x copy_of_in [OF assms] by (force simp: image_iff)
qed

lemma rename_node_file:
  "rename_node J n = SnapFile j \<longleftrightarrow> (\<exists>i. n = SnapFile i \<and> j = J i)"
  "SnapFile j = rename_node J n \<longleftrightarrow> (\<exists>i. n = SnapFile i \<and> j = J i)"
  by (cases n; auto)+

lemma in_paths_of_inode: "p \<in> set (paths_of_inode fs i) \<longleftrightarrow> (p, SnapFile i) \<in> set (sn_nodes fs)"
  by (force simp: paths_of_inode_def)

lemma copy_of_paths:
  assumes "wf_snap src" "copy_of J src dst" "i \<in> used_inodes (sn_nodes src)"
  shows "set (paths_of_inode dst (J i)) = set (paths_of_inode src i)"
proof (intro set_eqI)
  fix p
  have J: "J i = J k \<longleftrightarrow> i = k" if "(p, SnapFile k) \<in> set (sn_nodes src)" for k
    using assms(2,3) that by (auto simp: copy_of_def used_inodes_def inj_on_def)
  have "(p, SnapFile (J i)) \<in> set (sn_nodes dst) \<longleftrightarrow> (\<exists>k. (p, SnapFile k) \<in> set (sn_nodes src) \<and> J i = J k)"
    unfolding copy_of_in [OF assms(1,2)] rename_node_file by auto
  then show "p \<in> set (paths_of_inode dst (J i)) \<longleftrightarrow> p \<in> set (paths_of_inode src i)"
    unfolding in_paths_of_inode using J by auto
qed

lemma guest_path_inj: "inj_on guest_path {p. list_all plain_component p}"
  by (metis (mono_tags, lifting) guest_path_parse inj_onI mem_Collect_eq)

lemma distinct_paths: "distinct (map fst (sn_nodes fs)) \<Longrightarrow> distinct (paths_of_inode fs i)"
  by (simp add: paths_of_inode_def distinct_map_filter)

lemma copy_of_group:
  assumes "wf_snap src" "copy_of J src dst" "i \<in> used_inodes (sn_nodes src)"
  shows "link_group dst (J i) = link_group src i"
proof -
  have d: "distinct (paths_of_inode dst (J i))" "distinct (paths_of_inode src i)"
    using assms(1,2) by (auto simp: copy_of_def wf_snap_def intro: distinct_paths)
  have plain: "set (paths_of_inode src i) \<subseteq> {p. list_all plain_component p}"
    using assms(1) by (auto simp: paths_of_inode_def wf_snap_def list_all_iff)
  note eq = copy_of_paths [OF assms]
  from d eq have "length (paths_of_inode dst (J i)) = length (paths_of_inode src i)" by (metis distinct_card)
  moreover have "sort (map guest_path (paths_of_inode dst (J i))) = sort (map guest_path (paths_of_inode src i))"
    using d plain eq guest_path_inj
    by (intro sorted_distinct_set_unique) (auto simp: distinct_map intro: inj_on_subset)
  ultimately show ?thesis by (simp add: link_group_def Let_def)
qed

lemma copy_of_scan_node:
  assumes "wf_snap src" "copy_of J src dst" "(p, n) \<in> set (sn_nodes src)"
  shows "scan_node dst (p, rename_node J n) = scan_node src (p, n)"
proof (cases n)
  case (SnapFile i)
  with assms(3) have "i \<in> used_inodes (sn_nodes src)" by (auto simp: used_inodes_def)
  moreover from this have "inode_of dst (J i) = inode_of src i" using assms(2) by (simp add: copy_of_def inode_of_def)
  ultimately show ?thesis using copy_of_group [OF assms(1,2)] by (simp add: SnapFile scan_node_def)
qed (simp_all add: scan_node_def)

lemma scan_path [simp]: "se_path (scan_node fs (p, n)) = guest_path p"
  by (cases n) (simp_all add: scan_node_def)

lemma scan_paths: "map se_path (map (scan_node fs) xs) = map (\<lambda>(p, n). guest_path p) xs"
  by (simp add: comp_def case_prod_beta) (metis scan_path prod.collapse)

lemma distinct_guest_paths:
  assumes "distinct (map fst xs)" "\<forall>(p, n) \<in> set xs. list_all plain_component p"
  shows "distinct (map (\<lambda>(p, n). guest_path p) xs)"
proof -
  have "inj_on guest_path (fst ` set xs)"
    using assms(2) by (intro inj_on_subset [OF guest_path_inj]) auto
  then have "distinct (map guest_path (map fst xs))" using assms(1) unfolding distinct_map [of guest_path] by simp
  then show ?thesis by (simp add: case_prod_unfold comp_def)
qed

lemma wf_snap_plain: "wf_snap fs \<Longrightarrow> \<forall>(p, n) \<in> set (sn_nodes fs). list_all plain_component p"
  by (auto simp: wf_snap_def list_all_iff)

lemma copy_of_scan:
  assumes "wf_snap src" "copy_of J src dst"
  shows "scan_environment dst = scan_environment src"
proof -
  note nodes = copy_of_nodes [OF assms]
  have other: "list_ex (\<lambda>(p, n). n = SnapOther) (sn_nodes dst) = list_ex (\<lambda>(p, n). n = SnapOther) (sn_nodes src)"
  proof -
    have "rename_node J n = SnapOther \<longleftrightarrow> n = SnapOther" for n by (cases n) auto
    then show ?thesis by (force simp: list_ex_iff nodes)
  qed
  have set: "scan_node dst ` set (sn_nodes dst) = scan_node src ` set (sn_nodes src)"
    unfolding nodes image_image using copy_of_scan_node [OF assms] by (intro image_cong) auto
  have plain: "\<forall>(p, n) \<in> set (sn_nodes dst). list_all plain_component p"
    using wf_snap_plain [OF assms(1)] by (auto simp: nodes)
  have "sort_key se_path (map (scan_node dst) (sn_nodes dst)) = sort_key se_path (map (scan_node src) (sn_nodes src))"
  proof (rule map_sorted_distinct_set_unique [where f = se_path])
    have d: "distinct (map se_path (map (scan_node dst) (sn_nodes dst)))" "distinct (map se_path (map (scan_node src) (sn_nodes src)))"
      unfolding scan_paths using assms distinct_guest_paths plain wf_snap_plain [OF assms(1)]
      by (auto simp: copy_of_def wf_snap_def)
    show "distinct (map se_path (sort_key se_path (map (scan_node dst) (sn_nodes dst))))"
      using d(1) unfolding distinct_map [of se_path] by simp
    show "distinct (map se_path (sort_key se_path (map (scan_node src) (sn_nodes src))))"
      using d(2) unfolding distinct_map [of se_path] by simp
    have "inj_on se_path (set (map (scan_node src) (sn_nodes src)))" using d(2) unfolding distinct_map [of se_path] by blast
    then show "inj_on se_path (set (sort_key se_path (map (scan_node dst) (sn_nodes dst))) \<union>
           set (sort_key se_path (map (scan_node src) (sn_nodes src))))"
      using set by simp
  qed (use set in simp_all)
  with other show ?thesis by (simp add: scan_environment_def)
qed

section \<open>The loop\<close>

text \<open>Names of link groups that tell the groups apart: two equal ones are a collision of 64 bits.\<close>

definition groups_distinct :: "snap_fs \<Rightarrow> bool" where
  "groups_distinct fs \<longleftrightarrow>
     (\<forall>i i' g. link_group fs i = Some g \<longrightarrow> link_group fs i' = Some g \<longrightarrow> i = i')"

fun fresh_node :: "(nat \<Rightarrow> nat) \<Rightarrow> snap_node \<Rightarrow> snap_node" where
  "fresh_node J (SnapDir m) = SnapDir 448"
| "fresh_node J n = rename_node J n"

text \<open>The first path of each group that has been copied\<close>

definition links_ok :: "snap_fs \<Rightarrow> (fpath \<times> snap_node) list \<Rightarrow> (string \<times> fpath) list \<Rightarrow> bool" where
  "links_ok src ns links \<longleftrightarrow>
     (\<forall>i g. link_group src i = Some g \<longrightarrow> i \<in> used_inodes ns \<longrightarrow> map_of links g \<noteq> None) \<and>
     (\<forall>i g t. link_group src i = Some g \<longrightarrow> map_of links g = Some t \<longrightarrow> (t, SnapFile i) \<in> set ns)"

definition later_modes :: "(fpath \<times> snap_node) list \<Rightarrow> (fpath \<times> nat) list" where
  "later_modes ns = List.map_filter (\<lambda>(p, n). case n of SnapDir m \<Rightarrow> if p = [] then None else Some (p, m) | _ \<Rightarrow> None) ns"

text \<open>The state of the loop after the nodes \<open>ns\<close>, the root among them\<close>

definition loop_tree :: "(nat \<Rightarrow> nat) \<Rightarrow> snap_fs \<Rightarrow> (fpath \<times> snap_node) list \<Rightarrow> snap_fs \<Rightarrow> bool" where
  "loop_tree J src ns dst \<longleftrightarrow>
     distinct (map fst ns) \<and> distinct (map fst (sn_nodes dst)) \<and> inj_on J (used_inodes ns) \<and>
     (\<forall>p. node_at dst p = map_option (fresh_node J) (map_of ns p)) \<and>
     (\<forall>i \<in> used_inodes ns. map_of (sn_inodes dst) (J i) = Some (inode_of src i))"

definition loop_state :: "(nat \<Rightarrow> nat) \<Rightarrow> snap_fs \<Rightarrow> (fpath \<times> snap_node) list \<Rightarrow> clone_state \<Rightarrow> bool" where
  "loop_state J src ns st \<longleftrightarrow>
     (case st of (dst, dirs, links) \<Rightarrow> loop_tree J src ns dst \<and> links_ok src ns links \<and> dirs = later_modes ns)"

lemma fresh_inode_greater: "map_of (sn_inodes fs) i \<noteq> None \<Longrightarrow> i < fresh_inode fs"
proof -
  have "map_of xs i \<noteq> None \<Longrightarrow> i < foldr (\<lambda>(i, _) n. max (Suc i) n) xs 0" for xs :: "(nat \<times> nat \<times> string) list"
    by (induction xs) (auto split: if_splits)
  then show "map_of (sn_inodes fs) i \<noteq> None \<Longrightarrow> i < fresh_inode fs" by (simp add: fresh_inode_def)
qed

lemma node_at_put [simp]: "node_at (put_snap p n fs) q = (if q = p then Some n else node_at fs q)"
  by (simp add: node_at_def put_snap_def update_conv')

lemma put_snap_inodes [simp]: "sn_inodes (put_snap p n fs) = sn_inodes fs"
  by (simp add: put_snap_def)

lemma distinct_put [simp]: "distinct (map fst (sn_nodes fs)) \<Longrightarrow> distinct (map fst (sn_nodes (put_snap p n fs)))"
  by (simp add: put_snap_def distinct_update)

lemma snap_create_ok:
  assumes "p \<noteq> []" "node_at fs p = None" "dir_node fs (butlast p)"
  shows "snap_create p n fs = Inr (put_snap p n fs)"
  using assms by (simp add: snap_create_def)

lemma used_inodes_snoc:
  "used_inodes (ns @ [(p, n)]) = used_inodes ns \<union> (case n of SnapFile i \<Rightarrow> {i} | _ \<Rightarrow> {})"
  by (cases n) (auto simp: used_inodes_def)

lemma map_filter_snoc: "List.map_filter f (xs @ [x]) = List.map_filter f xs @ (case f x of None \<Rightarrow> [] | Some y \<Rightarrow> [y])"
  by (induction xs) (auto simp: List.map_filter_simps split: option.splits)

lemma map_of_snoc: "p \<notin> fst ` set ns \<Longrightarrow> map_of (ns @ [(p, n)]) q = (if q = p then Some n else map_of ns q)"
  by (induction ns) auto

text \<open>What the next node of a scan needs: a new path below a directory that is done\<close>

definition next_node :: "snap_fs \<Rightarrow> (fpath \<times> snap_node) list \<Rightarrow> fpath \<Rightarrow> snap_node \<Rightarrow> bool" where
  "next_node src ns p n \<longleftrightarrow> p \<noteq> [] \<and> list_all plain_component p \<and> p \<notin> fst ` set ns \<and> n \<noteq> SnapOther \<and>
     (\<exists>m. map_of ns (butlast p) = Some (SnapDir m)) \<and> set ns \<union> {(p, n)} \<subseteq> set (sn_nodes src)"

lemma later_modes_snoc:
  "later_modes (ns @ [(p, n)]) = later_modes ns @ (case n of SnapDir m \<Rightarrow> if p = [] then [] else [(p, m)] | _ \<Rightarrow> [])"
  by (cases n) (simp_all add: later_modes_def map_filter_snoc)

lemma links_ok_plain:
  "links_ok src ns links \<Longrightarrow> (\<And>i. n \<noteq> SnapFile i) \<Longrightarrow> links_ok src (ns @ [(p, n)]) links"
  by (cases n) (auto simp: links_ok_def used_inodes_snoc)

lemma loop_tree_snoc:
  assumes "loop_tree J src ns dst" "next_node src ns p n" "\<And>i. n = SnapFile i \<Longrightarrow> i \<in> used_inodes ns"
  shows "loop_tree J src (ns @ [(p, n)]) (put_snap p (fresh_node J n) dst)"
proof -
  have p: "p \<notin> fst ` set ns" using assms(2) by (simp add: next_node_def)
  have used: "used_inodes (ns @ [(p, n)]) = used_inodes ns"
    using assms(3) by (cases n) (auto simp: used_inodes_snoc)
  show ?thesis
    using assms(1) p by (simp add: loop_tree_def used map_of_snoc del: map_of_append)
qed

lemma loop_new:
  assumes "loop_tree J src ns dst" "next_node src ns p n"
  shows "snap_create p k dst = Inr (put_snap p k dst)"
proof (rule snap_create_ok)
  show "p \<noteq> []" using assms(2) by (simp add: next_node_def)
  show "dir_node dst (butlast p)" using assms by (auto simp: loop_tree_def next_node_def dir_node_def)
  have "map_of ns p = None" using assms(2) by (simp add: next_node_def map_of_eq_None_iff)
  then show "node_at dst p = None" using assms(1) by (simp add: loop_tree_def)
qed

lemma step_path:
  assumes "next_node src ns p n"
  shows "pp_comps (pp_parse (se_path (scan_node src (p, n)))) = p"
  using assms by (simp add: guest_path_parse next_node_def)

lemmas step_simps = clone_entry_def Let_def scan_node_def

lemma loop_step_plain:
  assumes state: "loop_state J src ns (dst, dirs, links)" and step: "next_node src ns p n" and plain: "\<And>i. n \<noteq> SnapFile i"
  shows "\<exists>st. clone_entry src (scan_node src (p, n)) (dst, dirs, links) = Inr st \<and> loop_state J src (ns @ [(p, n)]) st"
proof -
  have tree: "loop_tree J src ns dst" "links_ok src ns links" "dirs = later_modes ns"
    using state by (simp_all add: loop_state_def)
  have "loop_state J src (ns @ [(p, n)]) (put_snap p (fresh_node J n) dst, later_modes (ns @ [(p, n)]), links)"
    using loop_tree_snoc [OF tree(1) step] links_ok_plain [OF tree(2)] plain by (simp add: loop_state_def)
  moreover have "clone_entry src (scan_node src (p, n)) (dst, dirs, links) =
      Inr (put_snap p (fresh_node J n) dst, later_modes (ns @ [(p, n)]), links)"
  proof (cases n)
    case (SnapFile i)
    with plain show ?thesis by blast
  qed (use step_path [OF step] loop_new [OF tree(1) step] step in
      \<open>simp_all add: step_simps tree(3) later_modes_snoc next_node_def\<close>)
  ultimately show ?thesis by blast
qed

text \<open>A further name of an inode that is copied already\<close>

lemma loop_tree_inode:
  assumes "loop_tree J src ns dst" "i \<in> used_inodes ns"
  shows "loop_tree J src ns (dst\<lparr>sn_inodes := AList.update (J i) (inode_of src i) (sn_inodes dst)\<rparr>)"
  using assms by (auto simp: loop_tree_def node_at_def update_conv' inj_on_def)

lemma links_ok_known:
  "links_ok src ns links \<Longrightarrow> i \<in> used_inodes ns \<Longrightarrow> links_ok src (ns @ [(p, SnapFile i)]) links"
  by (auto simp: links_ok_def used_inodes_snoc)

lemma loop_step_hardlink:
  assumes state: "loop_state J src ns (dst, dirs, links)" and step: "next_node src ns p (SnapFile i)"
    and group: "link_group src i = Some g" "map_of links g = Some t"
  shows "\<exists>st. clone_entry src (scan_node src (p, SnapFile i)) (dst, dirs, links) = Inr st \<and> loop_state J src (ns @ [(p, SnapFile i)]) st"
proof -
  have tree: "loop_tree J src ns dst" "links_ok src ns links" "dirs = later_modes ns"
    using state by (simp_all add: loop_state_def)
  have t: "(t, SnapFile i) \<in> set ns" using tree(2) group by (auto simp: links_ok_def)
  then have used: "i \<in> used_inodes ns" by (auto simp: used_inodes_def)
  have node: "node_at dst t = Some (SnapFile (J i))" using tree(1) t by (simp add: loop_tree_def)
  let ?dst = "put_snap p (SnapFile (J i)) dst"
  let ?final = "?dst\<lparr>sn_inodes := AList.update (J i) (inode_of src i) (sn_inodes ?dst)\<rparr>"
  have next_tree: "loop_tree J src (ns @ [(p, SnapFile i)]) ?dst"
    using loop_tree_snoc [OF tree(1) step] used by simp
  have "inode_of ?dst (J i) = inode_of src i" using tree(1) used by (simp add: inode_of_def loop_tree_def)
  then have "snap_chmod p (fst (inode_of src i)) ?dst = Inr ?final" by (simp add: snap_chmod_def)
  then have "clone_entry src (scan_node src (p, SnapFile i)) (dst, dirs, links) = Inr (?final, dirs, links)"
    using step_path [OF step] loop_new [OF tree(1) step] node group
    by (simp add: step_simps clone_file_def link_file_def)
  moreover have "loop_tree J src (ns @ [(p, SnapFile i)]) ?final"
    by (rule loop_tree_inode [OF next_tree]) (simp add: used_inodes_snoc)
  ultimately show ?thesis
    using links_ok_known [OF tree(2) used] tree(3) by (auto simp: loop_state_def later_modes_snoc)
qed

text \<open>The first name of an inode\<close>

lemma node_at_inodes [simp]: "node_at (fs\<lparr>sn_inodes := xs\<rparr>) p = node_at fs p" "dir_node (fs\<lparr>sn_inodes := xs\<rparr>) p = dir_node fs p"
  by (simp_all add: node_at_def dir_node_def)

lemma fresh_inode_unused: "loop_tree J src ns dst \<Longrightarrow> k \<in> used_inodes ns \<Longrightarrow> J k \<noteq> fresh_inode dst"
  using fresh_inode_greater [of dst "J k"] by (auto simp: loop_tree_def)

lemma loop_tree_copy:
  assumes tree: "loop_tree J src ns dst" and new: "i \<notin> used_inodes ns" and p: "p \<notin> fst ` set ns"
  shows "loop_tree (J(i := fresh_inode dst)) src (ns @ [(p, SnapFile i)])
    (put_snap p (SnapFile (fresh_inode dst)) (dst\<lparr>sn_inodes := (fresh_inode dst, inode_of src i) # sn_inodes dst\<rparr>))"
proof -
  let ?J = "J(i := fresh_inode dst)"
  have keep: "map_option (fresh_node ?J) (map_of ns q) = map_option (fresh_node J) (map_of ns q)" for q
  proof (cases "map_of ns q")
    case (Some n)
    then have "fresh_node ?J n = fresh_node J n"
      using new by (cases n) (auto simp: used_inodes_def dest: map_of_SomeD)
    with Some show ?thesis by simp
  qed simp
  have "inj_on ?J (insert i (used_inodes ns))"
  proof -
    have "fresh_inode dst \<notin> J ` used_inodes ns" by (metis fresh_inode_unused [OF tree] imageE)
    moreover have "?J ` used_inodes ns = J ` used_inodes ns" using new by (intro image_cong) auto
    moreover have "inj_on J (used_inodes ns)" using tree by (simp add: loop_tree_def)
    ultimately show ?thesis using new by (simp add: inj_on_fun_updI)
  qed
  moreover have "node_at (put_snap p (SnapFile (fresh_inode dst)) (dst\<lparr>sn_inodes := (fresh_inode dst, inode_of src i) # sn_inodes dst\<rparr>)) q =
      map_option (fresh_node ?J) (map_of (ns @ [(p, SnapFile i)]) q)" for q
    using tree p keep by (simp add: map_of_snoc loop_tree_def del: map_of_append)
  moreover have "map_of ((fresh_inode dst, inode_of src i) # sn_inodes dst) (?J k) = Some (inode_of src k)"
    if "k \<in> insert i (used_inodes ns)" for k
    using tree that fresh_inode_unused [OF tree] new by (auto simp: loop_tree_def)
  ultimately show ?thesis
    using tree p by (simp add: loop_tree_def used_inodes_snoc)
qed

lemma links_ok_first:
  assumes "links_ok src ns links" "groups_distinct src" "Option.bind (link_group src i) (map_of links) = None"
  shows "links_ok src (ns @ [(p, SnapFile i)]) (case link_group src i of None \<Rightarrow> links | Some g \<Rightarrow> (g, p) # links)"
proof (cases "link_group src i")
  case None
  with assms(1) show ?thesis by (auto simp: links_ok_def used_inodes_snoc)
next
  case (Some g)
  have same: "k = i" if "link_group src k = Some g" for k using that Some assms(2) by (auto simp: groups_distinct_def)
  show ?thesis
    using assms(1) same by (auto simp: links_ok_def used_inodes_snoc Some)
qed

lemma chmod_first:
  "snap_chmod p m (put_snap p (SnapFile j) (fs\<lparr>sn_inodes := (j, k, c) # xs\<rparr>)) =
     Inr (put_snap p (SnapFile j) (fs\<lparr>sn_inodes := (j, m, c) # xs\<rparr>))"
proof -
  have "inode_of (put_snap p (SnapFile j) (fs\<lparr>sn_inodes := (j, k, c) # xs\<rparr>)) j = (k, c)" by (simp add: inode_of_def)
  then show ?thesis by (simp add: snap_chmod_def) (simp add: put_snap_def)
qed

lemma loop_step_copy:
  assumes state: "loop_state J src ns (dst, dirs, links)" and step: "next_node src ns p (SnapFile i)"
    and new: "i \<notin> used_inodes ns" and first: "Option.bind (link_group src i) (map_of links) = None"
    and groups: "groups_distinct src" and wf: "wf_snap src"
  shows "\<exists>st. clone_entry src (scan_node src (p, SnapFile i)) (dst, dirs, links) = Inr st \<and>
    loop_state (J(i := fresh_inode dst)) src (ns @ [(p, SnapFile i)]) st"
proof -
  have tree: "loop_tree J src ns dst" "links_ok src ns links" "dirs = later_modes ns"
    using state by (simp_all add: loop_state_def)
  let ?links = "case link_group src i of None \<Rightarrow> links | Some g \<Rightarrow> (g, p) # links"
  let ?final = "put_snap p (SnapFile (fresh_inode dst)) (dst\<lparr>sn_inodes := (fresh_inode dst, inode_of src i) # sn_inodes dst\<rparr>)"
  have p: "p \<notin> fst ` set ns" "node_at src p = Some (SnapFile i)"
    using step node_at_in [OF wf] by (simp_all add: next_node_def)
  have create: "snap_create p k (dst\<lparr>sn_inodes := xs\<rparr>) = Inr (put_snap p k (dst\<lparr>sn_inodes := xs\<rparr>))" for k xs
    using loop_new [OF tree(1) step, of k] by (simp add: snap_create_def split: if_splits)
  have copied: "copy_file src p dst = Inr (put_snap p (SnapFile (fresh_inode dst))
      (dst\<lparr>sn_inodes := (fresh_inode dst, 420, snd (inode_of src i)) # sn_inodes dst\<rparr>))"
    using p(2) create by (simp add: copy_file_def Let_def)
  have "snap_chmod p (fst (inode_of src i)) (put_snap p (SnapFile (fresh_inode dst))
      (dst\<lparr>sn_inodes := (fresh_inode dst, 420, snd (inode_of src i)) # sn_inodes dst\<rparr>)) = Inr ?final"
    by (simp add: chmod_first)
  with copied have "clone_entry src (scan_node src (p, SnapFile i)) (dst, dirs, links) = Inr (?final, dirs, ?links)"
    using step_path [OF step] first by (simp add: step_simps clone_file_def)
  moreover have "loop_state (J(i := fresh_inode dst)) src (ns @ [(p, SnapFile i)]) (?final, dirs, ?links)"
    using loop_tree_copy [OF tree(1) new p(1)] links_ok_first [OF tree(2) groups first] tree(3)
    by (simp add: loop_state_def later_modes_snoc)
  ultimately show ?thesis by blast
qed

text \<open>Two names of one inode make a group, so the first name of an inode is recognised as such.\<close>

lemma group_of_two:
  assumes wf: "wf_snap src" and "(p, SnapFile i) \<in> set (sn_nodes src)" "(q, SnapFile i) \<in> set (sn_nodes src)" "p \<noteq> q"
  shows "link_group src i \<noteq> None"
proof -
  have d: "distinct (paths_of_inode src i)" using wf by (auto simp: wf_snap_def intro: distinct_paths)
  have "{p, q} \<subseteq> set (paths_of_inode src i)" using assms(2,3) by (simp add: in_paths_of_inode)
  then have "card {p, q} \<le> length (paths_of_inode src i)"
    using distinct_card [OF d] by (metis List.finite_set card_mono)
  with assms(4) show ?thesis by (simp add: link_group_def Let_def)
qed

lemma loop_step:
  assumes state: "loop_state J src ns st" and step: "next_node src ns p n" and groups: "groups_distinct src" and wf: "wf_snap src"
  shows "\<exists>J' st'. clone_entry src (scan_node src (p, n)) st = Inr st' \<and> loop_state J' src (ns @ [(p, n)]) st'"
proof -
  obtain dst dirs links where st: "st = (dst, dirs, links)" by (metis prod_cases3)
  show ?thesis
  proof (cases "\<exists>i. n = SnapFile i")
    case False
    with loop_step_plain [OF state [unfolded st] step] show ?thesis by (auto simp: st)
  next
    case True
    then obtain i where n: "n = SnapFile i" by blast
    have links: "links_ok src ns links" using state by (simp add: loop_state_def st)
    show ?thesis
    proof (cases "Option.bind (link_group src i) (map_of links)")
      case (Some t)
      then obtain g where "link_group src i = Some g" "map_of links g = Some t" by (cases "link_group src i") auto
      from loop_step_hardlink [OF state [unfolded st] step [unfolded n] this] show ?thesis by (auto simp: st n)
    next
      case None
      have "i \<notin> used_inodes ns"
      proof
        assume used: "i \<in> used_inodes ns"
        then obtain q where q: "(q, SnapFile i) \<in> set ns" by (auto simp: used_inodes_def)
        with step have "(q, SnapFile i) \<in> set (sn_nodes src)" "(p, SnapFile i) \<in> set (sn_nodes src)" "p \<noteq> q"
          by (force simp: next_node_def n)+
        then obtain g where "link_group src i = Some g" using group_of_two [OF wf] by fastforce
        with used links have "map_of links g \<noteq> None" unfolding links_ok_def by blast
        with None show False by (simp add: \<open>link_group src i = Some g\<close>)
      qed
      from loop_step_copy [OF state [unfolded st] step [unfolded n] this None groups wf] show ?thesis by (auto simp: st n)
    qed
  qed
qed

lemma clone_entries_loop:
  assumes "loop_state J src ns st" "\<forall>k < length ms. next_node src (ns @ take k ms) (fst (ms ! k)) (snd (ms ! k))"
    and "groups_distinct src" "wf_snap src"
  shows "\<exists>J' st'. clone_entries src (map (scan_node src) ms) st = Inr st' \<and> loop_state J' src (ns @ ms) st'"
  using assms(1,2)
proof (induction ms arbitrary: J ns st)
  case (Cons x ms)
  have "next_node src ns (fst x) (snd x)" using Cons.prems(2) by force
  from loop_step [OF Cons.prems(1) this assms(3,4)] obtain J' st'
    where 1: "clone_entry src (scan_node src x) st = Inr st'" "loop_state J' src (ns @ [x]) st'" by auto
  have "next_node src ((ns @ [x]) @ take k ms) (fst (ms ! k)) (snd (ms ! k))" if "k < length ms" for k
    using Cons.prems(2) [rule_format, of "Suc k"] that by simp
  with Cons.IH [OF 1(2)] 1(1) show ?case by simp
qed auto

lemma chmod_dirs_ok:
  assumes "distinct (map fst xs)" "\<forall>(p, m) \<in> set xs. dir_node fs p" "distinct (map fst (sn_nodes fs))"
  shows "\<exists>fs'. chmod_dirs xs fs = Inr fs' \<and> sn_inodes fs' = sn_inodes fs \<and> distinct (map fst (sn_nodes fs')) \<and>
    (\<forall>q. node_at fs' q = (case map_of xs q of None \<Rightarrow> node_at fs q | Some m \<Rightarrow> Some (SnapDir m)))"
  using assms
proof (induction xs arbitrary: fs)
  case (Cons x xs)
  obtain p m where x: "x = (p, m)" by (cases x)
  let ?fs = "put_snap p (SnapDir m) fs"
  have "dir_node fs p" using Cons.prems(2) by (simp add: x)
  then have "snap_chmod p m fs = Inr ?fs" by (auto simp: snap_chmod_def dir_node_def split: option.splits snap_node.splits)
  moreover have "\<forall>(q, m) \<in> set xs. dir_node ?fs q" using Cons.prems(2) by (auto simp: dir_node_def x)
  from Cons.IH [OF _ this] Cons.prems(1,3) obtain fs' where "chmod_dirs xs ?fs = Inr fs'" "sn_inodes fs' = sn_inodes fs"
      "distinct (map fst (sn_nodes fs'))"
      "\<forall>q. node_at fs' q = (case map_of xs q of None \<Rightarrow> node_at ?fs q | Some m \<Rightarrow> Some (SnapDir m))"
    by (auto simp: x)
  moreover have "map_of xs p = None" using Cons.prems(1) by (simp add: x map_of_eq_None_iff)
  ultimately show ?case by (auto simp: x split: option.splits)
qed auto

section \<open>The order of the scan\<close>

definition scan_order :: "snap_fs \<Rightarrow> (fpath \<times> snap_node) list" where
  "scan_order fs = sort_key (\<lambda>x. guest_path (fst x)) (sn_nodes fs)"

lemma insort_key_map: "insort_key f (g x) (map g ys) = map g (insort_key (\<lambda>x. f (g x)) x ys)"
  by (induction ys) auto

lemma sort_key_map: "sort_key f (map g xs) = map g (sort_key (\<lambda>x. f (g x)) xs)"
  by (induction xs) (simp_all add: insort_key_map)

lemma scan_in_order: "scan_environment fs = Inr es \<Longrightarrow> es = map (scan_node fs) (scan_order fs)"
proof -
  have "se_path (scan_node fs x) = guest_path (fst x)" for x by (cases x) simp
  then show "scan_environment fs = Inr es \<Longrightarrow> ?thesis"
    by (auto simp: scan_environment_def scan_order_def sort_key_map split: if_splits)
qed

lemma scan_order_set [simp]: "set (scan_order fs) = set (sn_nodes fs)"
  by (simp add: scan_order_def)

lemma scan_order_distinct: "wf_snap fs \<Longrightarrow> distinct (map fst (scan_order fs))"
  by (simp add: scan_order_def wf_snap_def distinct_map)

lemma scan_order_less:
  assumes "wf_snap fs" "j < length (scan_order fs)" "k < length (scan_order fs)"
    and "guest_path (fst (scan_order fs ! j)) < guest_path (fst (scan_order fs ! k))"
  shows "j < k"
proof (rule ccontr)
  assume "\<not> j < k"
  moreover have "sorted (map (\<lambda>x. guest_path (fst x)) (scan_order fs))" by (simp add: scan_order_def)
  ultimately have "map (\<lambda>x. guest_path (fst x)) (scan_order fs) ! k \<le> map (\<lambda>x. guest_path (fst x)) (scan_order fs) ! j"
    using assms(2) by (intro sorted_nth_mono) simp_all
  with assms show False by simp
qed

lemma guest_path_root: "list_all plain_component p \<Longrightarrow> p \<noteq> [] \<Longrightarrow> guest_path [] < guest_path p"
proof -
  assume "list_all plain_component p" "p \<noteq> []"
  then have "join_with [slash] p \<noteq> []"
    using join_with_head [of p "[slash]"] by (cases p) (auto simp: plain_component_def)
  from less_append [OF this, of "''/''"] show ?thesis by (simp add: guest_path_def)
qed

lemma parent_before:
  assumes "wf_snap fs" "k < length (scan_order fs)" "fst (scan_order fs ! k) \<noteq> []"
  shows "\<exists>m. map_of (take k (scan_order fs)) (butlast (fst (scan_order fs ! k))) = Some (SnapDir m)"
proof -
  let ?L = "scan_order fs" and ?p = "fst (scan_order fs ! k)"
  obtain n where pn: "?L ! k = (?p, n)" by (metis prod.collapse)
  then have "(?p, n) \<in> set (sn_nodes fs)" using assms(2) by (metis nth_mem scan_order_set)
  then have node: "node_at fs ?p = Some n" using node_at_in [OF assms(1)] by simp
  note parent = wf_snap_node [OF assms(1) node]
  then obtain m where "node_at fs (butlast ?p) = Some (SnapDir m)"
    using assms(3) by (auto simp: dir_node_def split: option.splits snap_node.splits)
  then have "(butlast ?p, SnapDir m) \<in> set ?L" using node_at_in [OF assms(1)] by simp
  then obtain j where j: "j < length ?L" "?L ! j = (butlast ?p, SnapDir m)" by (metis in_set_conv_nth)
  have "j < k"
    using scan_order_less [OF assms(1) j(1) assms(2)] guest_path_butlast [OF parent(1) assms(3)] j(2) by simp
  then have "(butlast ?p, SnapDir m) \<in> set (take k ?L)" using j assms(2) by (auto simp: in_set_conv_nth intro!: exI [of _ j])
  moreover have "distinct (map fst (take k ?L))" using scan_order_distinct [OF assms(1)] by (simp add: take_map [symmetric])
  ultimately show ?thesis by auto
qed

lemma scan_order_root:
  assumes "wf_snap fs"
  shows "\<exists>m ns. scan_order fs = ([], SnapDir m) # ns"
proof -
  let ?L = "scan_order fs"
  obtain m where root: "([], SnapDir m) \<in> set ?L"
    using assms node_at_in [OF assms] by (auto simp: wf_snap_def dir_node_def split: option.splits snap_node.splits)
  then obtain j where j: "j < length ?L" "?L ! j = ([], SnapDir m)" by (metis in_set_conv_nth)
  have "fst (?L ! 0) = []"
  proof (rule ccontr)
    assume ne: "fst (?L ! 0) \<noteq> []"
    obtain n where "(fst (?L ! 0), n) \<in> set (sn_nodes fs)"
      using j(1) by (metis gr_implies_not0 nth_mem not_gr_zero prod.collapse scan_order_set)
    then have plain: "list_all plain_component (fst (?L ! 0))" using wf_snap_plain [OF assms] by auto
    have "0 < length ?L" using j(1) by linarith
    from scan_order_less [OF assms j(1) this] guest_path_root [OF plain ne] j(2) show False by simp
  qed
  moreover have "?L ! 0 \<in> set ?L" by (rule nth_mem) (use j(1) in linarith)
  ultimately have "?L ! 0 = ([], SnapDir m)"
    using root scan_order_distinct [OF assms] by (metis eq_key_imp_eq_value prod.collapse)
  then show ?thesis using j(1) by (cases ?L) auto
qed

lemma scan_order_next:
  assumes wf: "wf_snap fs" and scan: "scan_environment fs = Inr es" and L: "scan_order fs = ([], SnapDir m) # ns" and k: "k < length ns"
  shows "next_node fs (([], SnapDir m) # take k ns) (fst (ns ! k)) (snd (ns ! k))"
proof -
  have at: "scan_order fs ! Suc k = ns ! k" "take (Suc k) (scan_order fs) = ([], SnapDir m) # take k ns" by (simp_all add: L)
  have mem: "(fst (ns ! k), snd (ns ! k)) \<in> set (sn_nodes fs)"
  proof -
    have "ns ! k \<in> set (scan_order fs)" using nth_mem [OF k] unfolding L by simp
    then show ?thesis by simp
  qed
  have d: "distinct (map fst (scan_order fs))" using scan_order_distinct [OF wf] .
  have ne: "fst (ns ! k) \<noteq> []" 
  proof -
    have "fst (ns ! k) \<in> set (map fst ns)" using k by (metis length_map nth_map nth_mem)
    moreover have "[] \<notin> set (map fst ns)" using d by (simp add: L)
    ultimately show ?thesis by metis
  qed
  have "fst (ns ! k) \<notin> set (map fst (take k ns))"
  proof -
    have "distinct (map fst ns)" using d by (simp add: L)
    moreover have "map fst ns = map fst (take k ns) @ fst (ns ! k) # map fst (drop (Suc k) ns)"
      using id_take_nth_drop [OF k] by (metis list.simps(9) map_append)
    ultimately show ?thesis by (metis distinct_append disjoint_iff list.set_intros(1))
  qed
  moreover have "snd (ns ! k) \<noteq> SnapOther"
    using scan mem by (auto simp: scan_environment_def list_ex_iff split: if_splits)
  moreover have "\<exists>m'. map_of (take (Suc k) (scan_order fs)) (butlast (fst (ns ! k))) = Some (SnapDir m')"
    using parent_before [OF wf, of "Suc k"] k ne by (simp add: L)
  moreover have "set (([], SnapDir m) # take k ns) \<subseteq> set (sn_nodes fs)"
    using scan_order_set [of fs] by (auto simp: L dest: in_set_takeD)
  moreover have "list_all plain_component (fst (ns ! k))" using wf_snap_plain [OF wf] mem by auto
  ultimately show ?thesis
    using ne mem unfolding next_node_def at(2) by simp
qed

section \<open>Every scanned tree is copied\<close>

lemma loop_start: "loop_state J src [([], SnapDir m)] (empty_rootfs, [], [])"
  by (auto simp: loop_state_def loop_tree_def links_ok_def later_modes_def empty_rootfs_def node_at_def used_inodes_def
      List.map_filter_simps)

lemma later_modes_simps [simp]:
  "later_modes [] = []"
  "later_modes ((p, SnapDir m) # ns) = (if p = [] then later_modes ns else (p, m) # later_modes ns)"
  "later_modes ((p, SnapFile i) # ns) = later_modes ns" "later_modes ((p, SnapLink t) # ns) = later_modes ns"
  "later_modes ((p, SnapOther) # ns) = later_modes ns"
  by (simp_all add: later_modes_def List.map_filter_simps)

lemma later_modes_set: "(p, m) \<in> set (later_modes ns) \<longleftrightarrow> p \<noteq> [] \<and> (p, SnapDir m) \<in> set ns"
proof (induction ns)
  case (Cons x ns)
  then show ?case by (cases x; cases "snd x") auto
qed simp

lemma later_modes_distinct: "distinct (map fst ns) \<Longrightarrow> distinct (map fst (later_modes ns))"
proof (induction ns)
  case (Cons x ns)
  have "fst ` set (later_modes ns) \<subseteq> fst ` set ns" using later_modes_set by (fastforce simp: image_iff)
  with Cons show ?case by (cases x; cases "snd x") auto
qed simp

lemma clone_environment_copies:
  assumes wf: "wf_snap src" and groups: "groups_distinct src" and scan: "scan_environment src = Inr es"
  shows "\<exists>J dst. clone_environment src = Inr dst \<and> copy_of J src dst"
proof -
  obtain m0 ns where L: "scan_order src = ([], SnapDir m0) # ns" using scan_order_root [OF wf] by blast
  have es: "es = scan_node src ([], SnapDir m0) # map (scan_node src) ns" using scan_in_order [OF scan] by (simp add: L)
  have "\<forall>k < length ns. next_node src ([([], SnapDir m0)] @ take k ns) (fst (ns ! k)) (snd (ns ! k))"
    using scan_order_next [OF wf scan L] by simp
  from clone_entries_loop [OF loop_start this groups wf]
  obtain J dst dirs links where loop: "clone_entries src (map (scan_node src) ns) (empty_rootfs, [], []) = Inr (dst, dirs, links)"
      and state: "loop_state J src (scan_order src) (dst, dirs, links)"
    by (auto simp: L)
  have tree: "loop_tree J src (scan_order src) dst" and dirs: "dirs = later_modes (scan_order src)"
    using state by (simp_all add: loop_state_def)
  let ?xs = "sort_key (\<lambda>(p, _). - int (length p)) dirs"
  have dL: "distinct (map fst (scan_order src))" using scan_order_distinct [OF wf] .
  have node: "node_at dst p = map_option (fresh_node J) (node_at src p)" for p
  proof -
    have "map_of (scan_order src) p = node_at src p"
      using dL node_at_in [OF wf] by (metis map_of_eq_Some_iff not_None_eq scan_order_set)
    then show ?thesis using tree by (simp add: loop_tree_def)
  qed
  have dxs: "distinct (map fst ?xs)"
    using later_modes_distinct [OF dL] by (simp add: distinct_map dirs)
  moreover have "\<forall>(p, m) \<in> set ?xs. dir_node dst p"
    by (auto simp: dirs later_modes_set dir_node_def node node_at_in [OF wf, symmetric])
  moreover have "distinct (map fst (sn_nodes dst))" using tree by (simp add: loop_tree_def)
  ultimately obtain fs where fs: "chmod_dirs ?xs dst = Inr fs" "sn_inodes fs = sn_inodes dst" "distinct (map fst (sn_nodes fs))"
      and at: "\<And>q. node_at fs q = (case map_of ?xs q of None \<Rightarrow> node_at dst q | Some m \<Rightarrow> Some (SnapDir m))"
    using chmod_dirs_ok [of ?xs dst] by blast
  have xs: "map_of ?xs q = (if q = [] then None else case node_at src q of Some (SnapDir m) \<Rightarrow> Some m | _ \<Rightarrow> None)" for q
  proof -
    have mem: "map_of ?xs q = Some m \<longleftrightarrow> q \<noteq> [] \<and> node_at src q = Some (SnapDir m)" for m
      using dxs node_at_in [OF wf] by (simp add: dirs later_modes_set)
    show ?thesis
    proof (cases "\<exists>m. q \<noteq> [] \<and> node_at src q = Some (SnapDir m)")
      case True
      then show ?thesis using mem by auto
    next
      case False
      then have "map_of ?xs q = None" using mem by (cases "map_of ?xs q") blast+
      with False show ?thesis by (auto split: option.splits snap_node.splits)
    qed
  qed
  have root: "node_at src [] = Some (SnapDir m0)" using node_at_in [OF wf, of "[]"] scan_order_set [of src] unfolding L by auto
  let ?final = "put_snap [] (SnapDir m0) fs"
  have "node_at fs [] = Some (SnapDir 448)" by (simp add: at xs node root)
  then have "snap_chmod [] m0 fs = Inr ?final" by (simp add: snap_chmod_def)
  then have "clone_environment src = Inr ?final"
    using scan loop fs(1) by (simp add: clone_environment_def es scan_node_def)
  moreover have "copy_of J src ?final"
  proof -
    have "node_at ?final q = map_option (rename_node J) (node_at src q)" for q
      using root by (auto simp: at xs node split: option.splits snap_node.splits)
    moreover have "used_inodes (scan_order src) = used_inodes (sn_nodes src)" by (simp add: used_inodes_def)
    ultimately show ?thesis using tree fs(2,3) by (simp add: copy_of_def loop_tree_def)
  qed
  ultimately show ?thesis by blast
qed

lemma clone_environment_scan:
  assumes "wf_snap src" "groups_distinct src" "scan_environment src = Inr es"
  shows "\<exists>dst. clone_environment src = Inr dst \<and> scan_environment dst = Inr es"
  using clone_environment_copies [OF assms] copy_of_scan [OF assms(1)] assms(3) by metis

end
