(* ===== verification/Snapshot_Tree.thy ===== *)
theory Snapshot_Tree
  imports Snapshot_Clone Applier_Results Guest_Paths
begin

text \<open>
  The repair applier on a root filesystem with files: the calls it makes, as operations on the trees of
  the snapshot store, and the proof that it never touches a file.
\<close>

unbundle bit_operations_syntax

section \<open>Invariants of a run\<close>

text \<open>The paths and modes that a run asks for\<close>

definition repair_path :: "fpath \<Rightarrow> nat \<Rightarrow> bool" where
  "repair_path p mode \<longleftrightarrow> list_all plain_component p \<and> mode \<le> 511"

lemma parse_mode_bound: "parse_mode did v = Inr mode \<Longrightarrow> mode \<le> 511"
  by (cases v) (auto split: if_splits)

lemma preflight_paths:
  assumes "preflight cfg ops fs hroot dry virt ds = Inr (items, results)" "item \<in> set items" "p \<in> set (pd_create item)"
  shows "repair_path p (pd_mode item)"
proof -
  note item = preflight_items [OF assms(1,2)]
  then have "set p \<subseteq> set (pp_comps (pp_parse (pd_guest_path item)))"
    using assms(3) by (auto simp: set_prefixes_of dest!: subsetD [of "set (pd_create item)"] in_set_takeD)
  then have "list_all plain_component p"
    using applier_guest_path_confined(2) item by (fastforce simp: list_all_iff)
  moreover have "pd_mode item \<le> 511"
    using assms(1,2)
  proof (induction ds arbitrary: virt items results)
    case (Cons d ds)
    then show ?case
      by (cases "rd_automatic d") (auto simp: ebind_Inr_iff if_Inl_iff dest!: prepare_directory_Inr parse_mode_bound split: if_splits)
  qed simp
  ultimately show ?thesis by (simp add: repair_path_def)
qed

text \<open>A predicate on the tree that every call of a run keeps\<close>

locale kept_tree =
  fixes ops :: "'fs fs_ops"
    and keep :: "'fs \<Rightarrow> bool"
  assumes mkdir_keep: "keep fs \<Longrightarrow> repair_path p mode \<Longrightarrow> fs_mkdir ops fs p mode = (res, fs') \<Longrightarrow> keep fs'"
    and chmod_keep: "keep fs \<Longrightarrow> repair_path p mode \<Longrightarrow> fs_mkdir ops fs p mode = (MkOk, fs1) \<Longrightarrow>
      fs_chmod ops fs1 p mode = (err, fs') \<Longrightarrow> keep fs'"
    and rmdir_keep: "keep fs \<Longrightarrow> fs_rmdir ops fs p = (rm, fs') \<Longrightarrow> keep fs'"
begin

lemma create_paths_keep:
  "create_paths ops mode ps fs created actual = (res, fs', created') \<Longrightarrow> \<forall>p \<in> set ps. repair_path p mode \<Longrightarrow> keep fs \<Longrightarrow> keep fs'"
proof (induction ps arbitrary: fs created actual)
  case (Cons p ps)
  obtain mk fs1 where mk: "fs_mkdir ops fs p mode = (mk, fs1)" by fastforce
  with Cons.prems have 1: "keep fs1" by (auto intro: mkdir_keep)
  show ?case
  proof (cases "mk = MkOk")
    case True
    obtain ch fs2 where ch: "fs_chmod ops fs1 p mode = (ch, fs2)" by fastforce
    then have "keep fs2" using Cons.prems mk True by (auto intro: chmod_keep)
    then show ?thesis using Cons.prems Cons.IH by (cases ch) (auto simp: mk ch True)
  next
    case False
    then show ?thesis
      using Cons.prems Cons.IH 1
      by (auto simp: mk split: mkdir_result.splits lstat_result.splits entry_kind.splits)
  qed
qed simp

lemma apply_items_keep:
  "apply_items ops hroot items fs created bd = (res, fs', created') \<Longrightarrow>
     \<forall>item \<in> set items. \<forall>p \<in> set (pd_create item). repair_path p (pd_mode item) \<Longrightarrow> keep fs \<Longrightarrow> keep fs'"
proof (induction items arbitrary: fs created bd)
  case (Cons item items)
  show ?case
  proof (cases "pd_satisfied item")
    case True
    with Cons show ?thesis by simp
  next
    case False
    obtain r1 fs1 created1 where c: "create_paths ops (pd_mode item) (pd_create item) fs created [] = (r1, fs1, created1)"
      by (metis prod_cases3)
    from create_paths_keep [OF c] Cons.prems have "keep fs1" by simp
    with Cons False c show ?thesis by (cases r1) auto
  qed
qed simp

lemma remove_dirs_keep: "remove_dirs ops ps fs = (errs, fs') \<Longrightarrow> keep fs \<Longrightarrow> keep fs'"
proof (induction ps arbitrary: fs errs)
  case (Cons p ps)
  obtain rm fs1 where rm: "fs_rmdir ops fs p = (rm, fs1)" by fastforce
  then have "keep fs1" using rmdir_keep Cons.prems(2) by blast
  with Cons show ?case by (cases rm) (auto simp: rm Let_def split: prod.splits)
qed simp

lemma fail_transaction_keep: "keep fs \<Longrightarrow> keep (ao_fs (fail_transaction ops sv mk hroot e results fs created))"
  by (auto simp: fail_transaction_def rollback_def Let_def dest: remove_dirs_keep split: prod.splits option.splits)

lemma apply_prepared_keep:
  assumes "preflight cfg ops fs0 hroot dry virt ds = Inr (items, initial)"
    and "apply_prepared ops hroot items initial fs = (res, fs', created)" "keep fs"
  shows "keep fs'"
proof -
  from assms(2) obtain res' where "apply_items ops hroot items fs [] (rev (map (\<lambda>r. (dr_id r, r)) initial)) = (res', fs', created)"
    by (auto simp: apply_prepared_def split: prod.splits sum.splits)
  from apply_items_keep [OF this] preflight_paths [OF assms(1)] assms(3) show ?thesis by blast
qed

lemma run_transaction_keep:
  assumes "\<And>fs. keep fs \<Longrightarrow> keep (between fs)" "keep fs"
  shows "keep (ao_fs (run_transaction cfg ops between sv mk hroot dry ds fs))"
  using assms
  by (auto simp: run_transaction_def fail_transaction_keep Let_def dest!: apply_prepared_keep
      split: sum.splits prod.splits option.splits)

lemma apply_file_keep:
  assumes "\<And>fs. keep fs \<Longrightarrow> keep (between fs)" "keep fs"
  shows "keep (ao_fs (apply_file cfg ops between sv loads now pp pf rp rf hroot dry fs))"
  using run_transaction_keep [OF assms] assms(2) by (auto simp: apply_file_def split: sum.splits prod.splits)

end

section \<open>The calls on a snapshot tree\<close>

definition node_entry :: "snap_fs \<Rightarrow> snap_node \<Rightarrow> entry_kind \<times> nat" where
  "node_entry fs n =
     (case n of
        SnapDir m \<Rightarrow> (EDir, m) | SnapFile i \<Rightarrow> (EOther, fst (inode_of fs i)) | SnapLink t \<Rightarrow> (ESymlink, 511) | SnapOther \<Rightarrow> (EOther, 0))"

definition snap_ent :: "snap_fs \<Rightarrow> entries" where
  "snap_ent fs p = map_option (node_entry fs) (node_at fs p)"

definition snap_lstat :: "snap_fs \<Rightarrow> fpath \<Rightarrow> lstat_result" where
  "snap_lstat fs p = (case snap_ent fs p of None \<Rightarrow> StatMissing | Some (k, _) \<Rightarrow> StatEntry k)"

definition snap_mkdir :: "nat \<Rightarrow> snap_fs \<Rightarrow> fpath \<Rightarrow> nat \<Rightarrow> mkdir_result \<times> snap_fs" where
  "snap_mkdir umask fs p mode =
     (if node_at fs p \<noteq> None then (MkExists, fs)
      else if p = [] \<or> node_at fs (butlast p) = None then (MkError ''No such file or directory'', fs)
      else if \<not> dir_node fs (butlast p) then (MkError ''Not a directory'', fs)
      else (MkOk, put_snap p (SnapDir (mode - (mode AND umask))) fs))"

definition snap_chmod_call :: "snap_fs \<Rightarrow> fpath \<Rightarrow> nat \<Rightarrow> string option \<times> snap_fs" where
  "snap_chmod_call fs p mode =
     (case snap_chmod p mode fs of Inl _ \<Rightarrow> (Some ''No such file or directory'', fs) | Inr fs' \<Rightarrow> (None, fs'))"

definition snap_rmdir :: "snap_fs \<Rightarrow> fpath \<Rightarrow> rmdir_result \<times> snap_fs" where
  "snap_rmdir fs p =
     (if node_at fs p = None then (RmMissing, fs)
      else if \<not> dir_node fs p then (RmError ''Not a directory'', fs)
      else if p = [] then (RmError ''Device or resource busy'', fs)
      else if list_ex (\<lambda>(q, _). q \<noteq> [] \<and> butlast q = p) (sn_nodes fs) then (RmError ''Directory not empty'', fs)
      else (RmOk, fs\<lparr>sn_nodes := filter (\<lambda>(q, _). q \<noteq> p) (sn_nodes fs)\<rparr>))"

definition snap_ops :: "nat \<Rightarrow> snap_fs fs_ops" where
  "snap_ops umask =
     \<lparr>fs_lstat = snap_lstat, fs_mkdir = snap_mkdir umask, fs_chmod = snap_chmod_call, fs_rmdir = snap_rmdir\<rparr>"

text \<open>The files and links of a tree and its inodes: everything but its directories\<close>

fun dir_kind :: "snap_node \<Rightarrow> bool" where
  "dir_kind (SnapDir m) = True"
| "dir_kind k = False"

definition snap_files :: "snap_fs \<Rightarrow> (fpath \<times> snap_node) list \<times> (nat \<times> nat \<times> string) list" where
  "snap_files fs = (filter (\<lambda>(p, n). \<not> dir_kind n) (sn_nodes fs), sn_inodes fs)"

section \<open>The laws hold\<close>

lemma is_dir_snap: "is_dir (snap_ent fs) p \<longleftrightarrow> dir_node fs p"
  by (auto simp: is_dir_def snap_ent_def dir_node_def node_entry_def split: option.splits snap_node.splits)

lemma inode_of_put [simp]: "inode_of (put_snap p n fs) i = inode_of fs i"
  by (simp add: inode_of_def)

lemma node_entry_inodes: "sn_inodes fs = sn_inodes gs \<Longrightarrow> node_entry fs = node_entry gs"
  by (simp add: fun_eq_iff node_entry_def inode_of_def split: snap_node.split)

lemma node_entry_same [simp]:
  "node_entry (put_snap p n fs) = node_entry fs" "node_entry (fs\<lparr>sn_nodes := xs\<rparr>) = node_entry fs"
  by (rule node_entry_inodes, simp)+

lemma snap_ent_put: "snap_ent (put_snap p n fs) = (snap_ent fs)(p \<mapsto> node_entry fs n)"
  by (auto simp: snap_ent_def fun_eq_iff)

lemma snap_ent_None: "snap_ent fs p = None \<longleftrightarrow> node_at fs p = None"
  by (simp add: snap_ent_def)

lemma snap_chmod_dir: "dir_node fs p \<Longrightarrow> snap_chmod p m fs = Inr (put_snap p (SnapDir m) fs)"
  by (auto simp: dir_node_def snap_chmod_def split: option.splits snap_node.splits)

lemma node_at_remove: "node_at (fs\<lparr>sn_nodes := filter (\<lambda>(q, _). q \<noteq> p) (sn_nodes fs)\<rparr>) q = (if q = p then None else node_at fs q)"
proof -
  have "map_of (filter (\<lambda>(q, _). q \<noteq> p) xs) q = (if q = p then None else map_of xs q)" for xs :: "(fpath \<times> snap_node) list"
    by (induction xs) auto
  then show ?thesis by (simp add: node_at_def)
qed

lemma snap_rmdir_empty:
  assumes "closed_tree (snap_ent fs)" "p \<noteq> []" "is_dir (snap_ent fs) p"
    and children: "\<And>q. q \<noteq> [] \<Longrightarrow> butlast q = p \<Longrightarrow> snap_ent fs q = None"
  shows "\<exists>fs'. snap_rmdir fs p = (RmOk, fs') \<and> closed_tree (snap_ent fs') \<and> snap_ent fs' = (snap_ent fs)(p := None)"
proof -
  let ?fs = "fs\<lparr>sn_nodes := filter (\<lambda>(q, _). q \<noteq> p) (sn_nodes fs)\<rparr>"
  have none: "\<not> list_ex (\<lambda>(q, _). q \<noteq> [] \<and> butlast q = p) (sn_nodes fs)"
    using children by (force simp: list_ex_iff snap_ent_None node_at_def map_of_eq_None_iff)
  have ent: "snap_ent ?fs = (snap_ent fs)(p := None)"
    by (rule ext) (simp add: snap_ent_def node_at_remove)
  have "dir_node fs p" using assms(3) by (simp add: is_dir_snap)
  moreover from this have "node_at fs p \<noteq> None" by (cases "node_at fs p") (simp_all add: dir_node_def)
  ultimately have "snap_rmdir fs p = (RmOk, ?fs)" using assms(2) none by (simp add: snap_rmdir_def)
  moreover have "closed_tree (snap_ent ?fs)"
    unfolding ent using assms(1,2) children by (auto simp: closed_tree_def is_dir_def)
  ultimately show ?thesis using ent by blast
qed

lemmas snap_call_defs = snap_ops_def snap_lstat_def snap_mkdir_def snap_chmod_call_def

lemma closed_put_dir: "closed_tree m \<Longrightarrow> is_dir m (butlast p) \<Longrightarrow> closed_tree (m(p \<mapsto> (EDir, mode)))"
  by (auto simp: closed_tree_def is_dir_def)

lemma closed_chmod_dir: "closed_tree m \<Longrightarrow> is_dir m p \<Longrightarrow> closed_tree (m(p \<mapsto> (EDir, mode)))"
  by (auto simp: closed_tree_def is_dir_def)

interpretation snap: reliable_dir_tree "snap_ops umask" snap_ent "\<lambda>fs. closed_tree (snap_ent fs)" for umask
proof unfold_locales
  fix fs :: snap_fs and p :: fpath and mode :: nat and fs' :: snap_fs
  show "closed_tree (snap_ent fs) \<Longrightarrow> fs_mkdir (snap_ops umask) fs p mode = (MkOk, fs') \<Longrightarrow>
      closed_tree (snap_ent fs') \<and> p \<noteq> [] \<and> snap_ent fs p = None \<and> is_dir (snap_ent fs) (butlast p) \<and>
      (\<exists>mode'. snap_ent fs' = (snap_ent fs)(p \<mapsto> (EDir, mode')))"
    by (auto simp: snap_call_defs snap_ent_put snap_ent_None is_dir_snap node_entry_def closed_put_dir split: if_splits)
  show "closed_tree (snap_ent fs) \<Longrightarrow> fs_chmod (snap_ops umask) fs p mode = (None, fs') \<Longrightarrow> snap_ent fs p = Some (EDir, mode') \<Longrightarrow>
      closed_tree (snap_ent fs') \<and> snap_ent fs' = (snap_ent fs)(p \<mapsto> (EDir, mode))" for mode'
  proof -
    assume a: "closed_tree (snap_ent fs)" "fs_chmod (snap_ops umask) fs p mode = (None, fs')" "snap_ent fs p = Some (EDir, mode')"
    from a(3) have "is_dir (snap_ent fs) p" by (simp add: is_dir_def)
    moreover from this have "dir_node fs p" by (simp add: is_dir_snap)
    then have "fs' = put_snap p (SnapDir mode) fs" using a(2) by (simp add: snap_call_defs snap_chmod_dir)
    ultimately show ?thesis using a(1) by (simp add: snap_ent_put node_entry_def closed_chmod_dir)
  qed
  show "closed_tree (snap_ent fs) \<Longrightarrow> is_dir (snap_ent fs) p \<Longrightarrow> fst (fs_chmod (snap_ops umask) fs p mode) = None"
    by (simp add: is_dir_snap snap_call_defs snap_chmod_dir)
  show "closed_tree (snap_ent fs) \<Longrightarrow> p \<noteq> [] \<Longrightarrow> is_dir (snap_ent fs) p \<Longrightarrow>
      (\<And>q. q \<noteq> [] \<Longrightarrow> butlast q = p \<Longrightarrow> snap_ent fs q = None) \<Longrightarrow>
      \<exists>fs'. fs_rmdir (snap_ops umask) fs p = (RmOk, fs') \<and> closed_tree (snap_ent fs') \<and> snap_ent fs' = (snap_ent fs)(p := None)"
    using snap_rmdir_empty [of fs p] by (simp add: snap_ops_def)
qed (auto simp: snap_call_defs snap_ent_None split: if_splits option.splits prod.splits sum.splits)

section \<open>Files are kept\<close>

lemma dir_node_kind: "dir_node fs p \<longleftrightarrow> (\<exists>n. node_at fs p = Some n \<and> dir_kind n)"
  by (auto simp: dir_node_def split: option.splits snap_node.splits)

lemma update_dirs:
  "map_of ns p = None \<or> (\<exists>n. map_of ns p = Some n \<and> dir_kind n) \<Longrightarrow> dir_kind k \<Longrightarrow>
     filter (\<lambda>(p, n). \<not> dir_kind n) (AList.update p k ns) = filter (\<lambda>(p, n). \<not> dir_kind n) ns"
  by (induction ns) (auto split: if_splits)

lemma snap_files_put: "node_at fs p = None \<or> dir_node fs p \<Longrightarrow> snap_files (put_snap p (SnapDir m) fs) = snap_files fs"
  unfolding dir_node_kind using update_dirs [of "sn_nodes fs" p "SnapDir m"] by (simp add: snap_files_def put_snap_def node_at_def)

lemma snap_files_remove: "wf_snap fs \<Longrightarrow> dir_node fs p \<Longrightarrow>
    snap_files (fs\<lparr>sn_nodes := filter (\<lambda>(q, _). q \<noteq> p) (sn_nodes fs)\<rparr>) = snap_files fs"
  unfolding dir_node_kind using node_at_in [of fs p]
  by (auto simp: snap_files_def intro!: filter_cong)  (metis node_at_in option.inject)

definition wf_node :: "snap_fs \<Rightarrow> fpath \<Rightarrow> snap_node \<Rightarrow> bool" where
  "wf_node fs p n \<longleftrightarrow> list_all plain_component p \<and> (p \<noteq> [] \<longrightarrow> dir_node fs (butlast p)) \<and>
       (case n of SnapDir m \<Rightarrow> m \<le> 4095
        | SnapFile i \<Rightarrow> map_of (sn_inodes fs) i \<noteq> None \<and> fst (inode_of fs i) \<le> 4095
        | _ \<Rightarrow> True)"

lemma wf_snap_iff:
  "wf_snap fs \<longleftrightarrow> distinct (map fst (sn_nodes fs)) \<and> dir_node fs [] \<and> (\<forall>p n. node_at fs p = Some n \<longrightarrow> wf_node fs p n)"
proof (cases "distinct (map fst (sn_nodes fs))")
  case True
  then show ?thesis unfolding wf_snap_def wf_node_def [symmetric] node_at_def by (auto simp: list_all_iff)
qed (simp add: wf_snap_def)

lemma wf_node_dirs:
  "wf_node fs p n \<Longrightarrow> (p \<noteq> [] \<Longrightarrow> dir_node gs (butlast p)) \<Longrightarrow> sn_inodes gs = sn_inodes fs \<Longrightarrow> wf_node gs p n"
  by (cases n) (simp_all add: wf_node_def inode_of_def)

lemma wf_put_dir:
  assumes "wf_snap fs" "list_all plain_component p" "m \<le> 4095" "dir_node fs p \<or> node_at fs p = None \<and> p \<noteq> [] \<and> dir_node fs (butlast p)"
  shows "wf_snap (put_snap p (SnapDir m) fs)"
proof -
  let ?fs = "put_snap p (SnapDir m) fs"
  have dirs: "dir_node ?fs q \<longleftrightarrow> q = p \<or> dir_node fs q" for q by (simp add: dir_node_def)
  have wf: "distinct (map fst (sn_nodes fs))" "dir_node fs []" "node_at fs q = Some n \<Longrightarrow> wf_node fs q n" for q n
    using assms(1) by (simp_all add: wf_snap_iff)
  have parent: "dir_node fs (butlast p)" if "p \<noteq> []"
    using assms(4) wf(3) that by (auto simp: dir_node_kind wf_node_def)
  have "wf_node ?fs q n" if "node_at ?fs q = Some n" for q n
  proof (cases "q = p")
    case True
    then show ?thesis using that assms(2,3) parent by (auto simp: wf_node_def dirs)
  next
    case False
    then have q: "wf_node fs q n" using that wf(3) by simp
    show ?thesis by (rule wf_node_dirs [OF q]) (use q in \<open>simp_all add: dirs wf_node_def\<close>)
  qed
  then show ?thesis using wf(1,2) by (simp add: wf_snap_iff dirs)
qed

lemma wf_remove_dir:
  assumes "wf_snap fs" "p \<noteq> []" "\<not> list_ex (\<lambda>(q, _). q \<noteq> [] \<and> butlast q = p) (sn_nodes fs)"
  shows "wf_snap (fs\<lparr>sn_nodes := filter (\<lambda>(q, _). q \<noteq> p) (sn_nodes fs)\<rparr>)"
proof -
  let ?fs = "fs\<lparr>sn_nodes := filter (\<lambda>(q, _). q \<noteq> p) (sn_nodes fs)\<rparr>"
  have dirs: "dir_node ?fs q \<longleftrightarrow> q \<noteq> p \<and> dir_node fs q" for q by (simp add: dir_node_def node_at_remove)
  have wf: "distinct (map fst (sn_nodes fs))" "dir_node fs []" "node_at fs q = Some n \<Longrightarrow> wf_node fs q n" for q n
    using assms(1) by (simp_all add: wf_snap_iff)
  have "wf_node ?fs q n" if "node_at ?fs q = Some n" for q n
  proof -
    have q: "node_at fs q = Some n" using that by (simp add: node_at_remove split: if_splits)
    then have "q = [] \<or> butlast q \<noteq> p" using assms(3) by (auto simp: node_at_def list_ex_iff dest: map_of_SomeD)
    then show ?thesis by (intro wf_node_dirs [OF wf(3) [OF q]]) (use wf(3) [OF q] in \<open>auto simp: dirs wf_node_def\<close>)
  qed
  then show ?thesis using wf(1,2) assms(2) by (simp add: wf_snap_iff dirs distinct_map_filter)
qed

lemma snap_mkdir_ok:
  "fs_mkdir (snap_ops umask) fs p mode = (MkOk, fs1) \<Longrightarrow>
     fs1 = put_snap p (SnapDir (mode - (mode AND umask))) fs \<and> node_at fs p = None \<and> p \<noteq> [] \<and> dir_node fs (butlast p)"
  by (auto simp: snap_call_defs split: if_splits)

lemma snap_rmdir_keep:
  assumes "wf_snap fs" "snap_rmdir fs p = (rm, fs')"
  shows "wf_snap fs' \<and> snap_files fs' = snap_files fs"
proof (cases "rm = RmOk")
  case True
  let ?fs = "fs\<lparr>sn_nodes := filter (\<lambda>(q, _). q \<noteq> p) (sn_nodes fs)\<rparr>"
  have "fs' = ?fs" "dir_node fs p" "p \<noteq> []" "\<not> list_ex (\<lambda>(q, _). q \<noteq> [] \<and> butlast q = p) (sn_nodes fs)"
    using assms(2) True unfolding snap_rmdir_def by (simp_all split: if_splits)
  then show ?thesis using wf_remove_dir [OF assms(1)] snap_files_remove [OF assms(1)] by blast
next
  case False
  then have "fs' = fs" using assms(2) unfolding snap_rmdir_def by (simp split: if_splits)
  with assms(1) show ?thesis by simp
qed

interpretation snap_kept: kept_tree "snap_ops umask" "\<lambda>fs. wf_snap fs \<and> snap_files fs = files" for umask files
proof unfold_locales
  fix fs :: snap_fs and p :: fpath and mode :: nat and res and fs' fs1 :: snap_fs and err rm
  assume keep: "wf_snap fs \<and> snap_files fs = files"
  have made: "wf_snap fs1 \<and> snap_files fs1 = files \<and> dir_node fs1 p"
    if ok: "repair_path p mode" "fs_mkdir (snap_ops umask) fs p mode = (MkOk, fs1)" for fs1
  proof -
    let ?m = "mode - (mode AND umask)"
    have m: "?m \<le> 4095" using ok(1) by (auto simp: repair_path_def intro: le_trans [OF diff_le_self])
    from snap_mkdir_ok [OF ok(2)] have fs1: "fs1 = put_snap p (SnapDir ?m) fs" "node_at fs p = None" "p \<noteq> []" "dir_node fs (butlast p)"
      by simp_all
    have "wf_snap fs1" unfolding fs1(1) using keep ok(1) m fs1(2-4) by (intro wf_put_dir) (simp_all add: repair_path_def)
    moreover have "dir_node fs1 p" unfolding fs1(1) dir_node_def by simp
    ultimately show ?thesis using keep fs1(1,2) by (simp add: snap_files_put)
  qed
  show "wf_snap fs' \<and> snap_files fs' = files" if "repair_path p mode" "fs_mkdir (snap_ops umask) fs p mode = (res, fs')"
  proof (cases "res = MkOk")
    case False
    then have "fs' = fs" using that(2) by (auto simp: snap_call_defs split: if_splits)
    with keep show ?thesis by simp
  next
    case True
    with that(2) have "fs_mkdir (snap_ops umask) fs p mode = (MkOk, fs')" by blast
    from made [OF that(1) this] show ?thesis by blast
  qed
  show "wf_snap fs' \<and> snap_files fs' = files"
    if "repair_path p mode" "fs_mkdir (snap_ops umask) fs p mode = (MkOk, fs1)" "fs_chmod (snap_ops umask) fs1 p mode = (err, fs')"
  proof -
    from made [OF that(1,2)] have fs1: "wf_snap fs1" "snap_files fs1 = files" "dir_node fs1 p" by auto
    then have fs': "fs' = put_snap p (SnapDir mode) fs1" using that(3) by (simp add: snap_call_defs snap_chmod_dir)
    have "wf_snap fs'" unfolding fs' using fs1 that(1) by (intro wf_put_dir) (simp_all add: repair_path_def)
    moreover have "snap_files fs' = files" unfolding fs' using fs1 by (simp add: snap_files_put)
    ultimately show ?thesis by simp
  qed
  show "wf_snap fs' \<and> snap_files fs' = files" if "fs_rmdir (snap_ops umask) fs p = (rm, fs')"
    using snap_rmdir_keep [of fs p] keep that by (simp add: snap_ops_def)
qed

end
