(* ===== verification/Json_Text.thy ===== *)
theory Json_Text
  imports Canonical_Json
begin

text \<open>The text of the JSON files that the package writes with an indentation of two.\<close>

text \<open>\<open>json.dump(payload, stream, indent=2, ensure_ascii=False)\<close> and the final newline\<close>

definition line_start :: "nat \<Rightarrow> string" where
  "line_start n = CHR 0x0A # replicate (2 * n) CHR '' ''"

fun dump_indent :: "nat \<Rightarrow> json \<Rightarrow> string" where
  "dump_indent n (JList xs) =
     (if xs = [] then ''[]''
      else ''['' @ line_start (Suc n) @ join_with ('','' @ line_start (Suc n)) (map (dump_indent (Suc n)) xs) @
        line_start n @ '']'')"
| "dump_indent n (JObj d) =
     (if d = [] then ''{}''
      else ''{'' @ line_start (Suc n) @
        join_with ('','' @ line_start (Suc n)) (map (\<lambda>(k, v). quote_text k @ '': '' @ dump_indent (Suc n) v) d) @
        line_start n @ ''}'')"
| "dump_indent n v = dump_json v"

definition file_text :: "json \<Rightarrow> string" where
  "file_text v = dump_indent 0 v @ [CHR 0x0A]"

end
