(* ===== verification/Repair_Step.thy ===== *)
theory Repair_Step
  imports Manifest_Builder Snapshot_Tree Json_Text
begin

text \<open>
  The step from one iteration to the next (\<open>_build_repaired_snapshot\<close> of
  \<open>taintforge_env/iteration_controller.py\<close>): the parent snapshot is cloned, the plan is applied to the
  clone, the clone is captured, and the next manifest is derived from the report of the application.
\<close>

section \<open>The report that the applier saves\<close>

text \<open>\<open>texts\<close> is the text of an exception.\<close>

definition rollback_error_text :: "string \<Rightarrow> fpath \<times> string \<Rightarrow> string" where
  "rollback_error_text rootfs x = ''cannot roll back '' @ host_str rootfs (fst x) @ '': '' @ snd x"

definition application_fields :: "(apply_error \<Rightarrow> string) \<Rightarrow> application_report \<Rightarrow> (string \<times> json) list" where
  "application_fields texts rep =
     [(''schema_version'', JInt 1), (''applier_version'', JInt 1), (''application_id'', JStr (ar_id rep)),
      (''generated_at_utc'', JStr (ar_generated_at rep)), (''state'', JStr (application_state_value (ar_state rep))),
      (''plan_path'', JStr (ar_plan_path rep)), (''plan_sha256'', JStr (ar_plan_sha256 rep)),
      (''requirements_path'', JStr (ar_requirements_path rep)), (''requirements_sha256'', JStr (ar_requirements_sha256 rep)),
      (''rootfs'', JStr (ar_rootfs rep)), (''dry_run'', JBool (ar_dry_run rep)), (''summary'', application_summary rep),
      (''rollback_errors'', JList (map (\<lambda>x. JStr (rollback_error_text (ar_rootfs rep) x)) (ar_rollback_errors rep))),
      (''error'', opt_json JStr (map_option texts (ar_error rep))), (''results'', JList (map result_to_dict (ar_results rep)))]"

definition application_to_dict :: "(apply_error \<Rightarrow> string) \<Rightarrow> application_report \<Rightarrow> json" where
  "application_to_dict texts rep = JObj (application_fields texts rep)"

section \<open>The step\<close>

datatype repair_error = RepairSnapshot snap_error | RepairApply apply_error | RepairBuild builder_error

text \<open>
  The process around the step: \<open>json.loads\<close>, the texts of exceptions, failures to save the report, the
  umask, the time, the paths, and the snapshots in the working directory.
\<close>

record repair_env =
  re_loads :: "string \<Rightarrow> json option"
  re_texts :: "apply_error \<Rightarrow> string"
  re_save_error :: "application_report \<Rightarrow> string option"
  re_umask :: nat
  re_now :: string
  re_plan_path :: string
  re_requirements_path :: string
  re_rootfs :: string
  re_store :: string
  re_cwd :: snap_store

text \<open>The staging directory is a new one, that only this process uses.\<close>

definition candidate_view :: "repair_env \<Rightarrow> rootfs_view" where
  "candidate_view env = \<lparr>rv_exists = True, rv_symlink = False, rv_directory = True, rv_resolved = re_rootfs env\<rparr>"

definition apply_to_candidate :: "repair_env \<Rightarrow> file_view \<Rightarrow> file_view \<Rightarrow> snap_fs \<Rightarrow> snap_fs apply_outcome" where
  "apply_to_candidate env pf rf candidate =
     apply_file default_applier_config (snap_ops (re_umask env)) id (re_save_error env) (re_loads env) (re_now env)
       (re_plan_path env) pf (re_requirements_path env) rf (candidate_view env) False candidate"

definition application_text :: "repair_env \<Rightarrow> application_report \<Rightarrow> string" where
  "application_text env rep = file_text (application_to_dict (re_texts env) rep)"

definition build_repaired_snapshot ::
    "repair_env \<Rightarrow> snap_store \<Rightarrow> string \<Rightarrow> file_view \<Rightarrow> file_view \<Rightarrow> file_view \<Rightarrow> env_manifest \<Rightarrow> attempt_contract \<Rightarrow> attempt_result
     \<Rightarrow> (repair_error + (string \<times> string \<times> env_manifest)) \<times> snap_store" where
  "build_repaired_snapshot env s parent_snapshot pf rf obf parent c r =
     (case snapshot_clone (re_cwd env) s parent_snapshot True of
        Inl e \<Rightarrow> (Inl (RepairSnapshot e), s)
      | Inr (_, candidate) \<Rightarrow>
          (let out = apply_to_candidate env pf rf candidate in
           case ao_result out of
             Inl e \<Rightarrow> (Inl (RepairApply e), s)
           | Inr rep \<Rightarrow>
               (case snapshot_capture (re_now env) (re_rootfs env) (re_store env) s (RootTree (ao_fs out)) of
                  (Inl e, t) \<Rightarrow> (Inl (RepairSnapshot e), t)
                | (Inr (m, _), t) \<Rightarrow>
                    (case derive_from_repair (re_loads env) (re_now env) parent (sp_id m) (RootTree (ao_fs out)) c r pf
                            (FileText (application_text env rep)) obf of
                       Inl e \<Rightarrow> (Inl (RepairBuild e), t)
                     | Inr next \<Rightarrow> (Inr (sp_id m, application_text env rep, next), t)))))"

lemma build_repaired_Inr:
  assumes "build_repaired_snapshot env s sid pf rf obs parent c r = (Inr (new, app, m), t)"
  obtains pm candidate rep sm reused where "snapshot_clone (re_cwd env) s sid True = Inr (pm, candidate)"
    "ao_result (apply_to_candidate env pf rf candidate) = Inr rep"
    "snapshot_capture (re_now env) (re_rootfs env) (re_store env) s (RootTree (ao_fs (apply_to_candidate env pf rf candidate))) =
       (Inr (sm, reused), t)" "new = sp_id sm" "app = application_text env rep"
    "derive_from_repair (re_loads env) (re_now env) parent new (RootTree (ao_fs (apply_to_candidate env pf rf candidate))) c r pf
       (FileText app) obs = Inr m"
  using assms by (auto simp: build_repaired_snapshot_def Let_def split: sum.splits prod.splits)

end
