(* ===== verification/Session_Manifest.thy ===== *)
theory Session_Manifest
  imports Progress_Oracle Attempt_Store Posix_Path Repair_Step
begin

text \<open>
  The persisted session of the iteration controller (\<open>taintforge_env/iteration_controller.py\<close>):
  iteration records, the session manifest, and their validation and codec.
\<close>

section \<open>States and stop reasons\<close>

datatype session_state = SessionActive | SessionCompleted | SessionFailed

fun session_state_value :: "session_state \<Rightarrow> string" where
  "session_state_value SessionActive = ''active''"
| "session_state_value SessionCompleted = ''completed''"
| "session_state_value SessionFailed = ''failed''"

definition all_session_states :: "session_state list" where
  "all_session_states = [SessionActive, SessionCompleted, SessionFailed]"

datatype iteration_state = IterationPrepared | IterationCompleted

fun iteration_state_value :: "iteration_state \<Rightarrow> string" where
  "iteration_state_value IterationPrepared = ''prepared''"
| "iteration_state_value IterationCompleted = ''completed''"

definition all_iteration_states :: "iteration_state list" where
  "all_iteration_states = [IterationPrepared, IterationCompleted]"

datatype stop_reason =
    StopGoal | StopFixedPoint | StopCycle | StopNoRepairs | StopBudget | StopTimedOut | StopCrashed | StopExited

fun stop_reason_value :: "stop_reason \<Rightarrow> string" where
  "stop_reason_value StopGoal = ''goal_reached''"
| "stop_reason_value StopFixedPoint = ''fixed_point''"
| "stop_reason_value StopCycle = ''cycle_detected''"
| "stop_reason_value StopNoRepairs = ''no_automatic_repairs''"
| "stop_reason_value StopBudget = ''budget_exhausted''"
| "stop_reason_value StopTimedOut = ''execution_timed_out''"
| "stop_reason_value StopCrashed = ''execution_crashed''"
| "stop_reason_value StopExited = ''execution_exited_without_goal''"

interpretation session_state_enum: str_enum all_session_states session_state_value
proof unfold_locales
  show "x \<in> set all_session_states" for x by (cases x) (auto simp: all_session_states_def)
  show "session_state_value x = session_state_value y \<Longrightarrow> x = y" for x y by (cases x; cases y) auto
  show "session_state_value x \<noteq> []" for x by (cases x) auto
qed

interpretation iteration_state_enum: str_enum all_iteration_states iteration_state_value
proof unfold_locales
  show "x \<in> set all_iteration_states" for x by (cases x) (auto simp: all_iteration_states_def)
  show "iteration_state_value x = iteration_state_value y \<Longrightarrow> x = y" for x y by (cases x; cases y) auto
  show "iteration_state_value x \<noteq> []" for x by (cases x) auto
qed

section \<open>Records\<close>

record iteration_record =
  ir_index :: int
  ir_state :: iteration_state
  ir_directory :: string
  ir_snapshot :: string
  ir_parent :: "string option"
  ir_manifest_id :: string
  ir_manifest_version :: int
  ir_attempt :: string
  ir_contract :: string
  ir_application :: "string option"
  ir_observation :: "string option"
  ir_artifacts :: "string option"
  ir_result :: "string option"
  ir_progress :: "event_fields option"
  ir_stop :: "string option"

record session_manifest =
  sm_id :: string
  sm_dir :: string
  sm_snapshots :: string
  sm_seed :: string
  sm_manifests :: string
  sm_seed_manifest :: string
  sm_sample :: string
  sm_packed :: string
  sm_goal :: string
  sm_max :: int
  sm_state :: session_state
  sm_stop :: "string option"
  sm_iterations :: "iteration_record list"
  sm_created :: string
  sm_updated :: string

definition record_to_dict :: "iteration_record \<Rightarrow> json" where
  "record_to_dict r = JObj
     [(''index'', JInt (ir_index r)), (''state'', JStr (iteration_state_value (ir_state r))),
      (''directory'', JStr (ir_directory r)), (''environment_snapshot_id'', JStr (ir_snapshot r)),
      (''parent_snapshot_id'', opt_json JStr (ir_parent r)),
      (''environment_manifest_id'', JStr (ir_manifest_id r)),
      (''environment_manifest_version'', JInt (ir_manifest_version r)),
      (''attempt_id'', JStr (ir_attempt r)), (''attempt_contract'', JStr (ir_contract r)),
      (''repair_application'', opt_json JStr (ir_application r)),
      (''observation'', opt_json JStr (ir_observation r)),
      (''artifact_manifest'', opt_json JStr (ir_artifacts r)),
      (''attempt_result'', opt_json JStr (ir_result r)),
      (''progress'', opt_json JObj (ir_progress r)), (''stop_reason'', opt_json JStr (ir_stop r))]"

definition session_to_dict :: "session_manifest \<Rightarrow> json" where
  "session_to_dict m = JObj
     [(''schema_version'', JInt 2), (''controller_version'', JInt 2), (''session_id'', JStr (sm_id m)),
      (''created_at_utc'', JStr (sm_created m)), (''updated_at_utc'', JStr (sm_updated m)),
      (''session_dir'', JStr (sm_dir m)), (''snapshot_store'', JStr (sm_snapshots m)),
      (''seed_snapshot_id'', JStr (sm_seed m)), (''environment_manifest_store'', JStr (sm_manifests m)),
      (''seed_environment_manifest_id'', JStr (sm_seed_manifest m)), (''sample_sha256'', JStr (sm_sample m)),
      (''packed_binary_sha256'', JStr (sm_packed m)), (''goal_id'', JStr (sm_goal m)),
      (''max_iterations'', JInt (sm_max m)), (''state'', JStr (session_state_value (sm_state m))),
      (''stop_reason'', opt_json JStr (sm_stop m)), (''iterations'', JList (map record_to_dict (sm_iterations m)))]"

section \<open>Validation\<close>

datatype session_error =
    SessObject string
  | SessInvalid string
  | SessPath string
  | SessVersion
  | SessIndexes
  | SessNotFile
  | SessJson string
  | SessNotActive session_state
  | SessStillPrepared
  | SessBudget
  | SessBinding string
  | SessNoIteration
  | SessNotPrepared
  | SessNotLatest
  | SessNoObservation
  | SessClaim string
  | SessArtifactsSource
  | SessArtifactsExist
  | SessArtifactKind
  | SessArtifactCount string nat
  | SessArtifactManifest
  | SessArtifactDigest
  | SessExitCode
  | SessTail string
  | SessOs
  | SessNoDirectory
  | SessLocked
  | SessMismatch string
  | SessPreviousIncomplete
  | SessRepairInputs
  | SessRepairRequired
  | SessEnvironment string
  | SessPlan plan_error
  | SessObservation progress_error
  | SessAttempt attempt_error
  | SessEscapedAttempt attempt_error
  | SessEscapedObservation progress_error
  | SessRepair repair_error
  | SessSnapshot snap_error
  | SessManifest env_error
  | SessExists
  | SessEscapedJson

definition relative_path :: "string \<Rightarrow> bool" where
  "relative_path s \<longleftrightarrow> (let p = pp_parse s in pp_root p = [] \<and> pp_comps p \<noteq> [] \<and> ''..'' \<notin> set (pp_comps p))"

text \<open>The controller's \<open>_optional_string\<close> drops whatever is no non-empty text.\<close>

definition session_text :: "json \<Rightarrow> string option" where
  "session_text v = (case v of JStr s \<Rightarrow> (if s = [] then None else Some s) | _ \<Rightarrow> None)"

definition prefixed_text :: "json \<Rightarrow> string \<Rightarrow> string \<Rightarrow> session_error + string" where
  "prefixed_text v start label =
     (case v of JStr s \<Rightarrow> (if starts_with s start then Inr s else Inl (SessInvalid label)) | _ \<Rightarrow> Inl (SessInvalid label))"

definition nonempty_text :: "json \<Rightarrow> string \<Rightarrow> session_error + string" where
  "nonempty_text v label =
     (case v of JStr s \<Rightarrow> (if s = [] then Inl (SessInvalid label) else Inr s) | _ \<Rightarrow> Inl (SessInvalid label))"

definition int_from :: "int \<Rightarrow> json \<Rightarrow> string \<Rightarrow> session_error + int" where
  "int_from low v label =
     (case v of JInt i \<Rightarrow> (if i < low then Inl (SessInvalid label) else Inr i) | _ \<Rightarrow> Inl (SessInvalid label))"

definition session_enum :: "'a list \<Rightarrow> ('a \<Rightarrow> string) \<Rightarrow> json \<Rightarrow> string \<Rightarrow> session_error + 'a" where
  "session_enum members val v label =
     (case v of
        JStr s \<Rightarrow> (case enum_of members val s of Some x \<Rightarrow> Inr x | None \<Rightarrow> Inl (SessInvalid label))
      | _ \<Rightarrow> Inl (SessInvalid label))"

definition check_relative :: "string \<Rightarrow> string \<Rightarrow> session_error + unit" where
  "check_relative s label = guard (relative_path s) (SessPath label)"

definition check_optional_relative :: "string option \<Rightarrow> string \<Rightarrow> session_error + unit" where
  "check_optional_relative v label = (case v of None \<Rightarrow> Inr () | Some s \<Rightarrow> check_relative s label)"

definition session_sha256 :: "json \<Rightarrow> string \<Rightarrow> session_error + string" where
  "session_sha256 v label =
     (case v of JStr s \<Rightarrow> (if is_sha256 s then Inr s else Inl (SessInvalid label)) | _ \<Rightarrow> Inl (SessInvalid label))"

definition is_goal_id :: "string \<Rightarrow> bool" where
  "is_goal_id s \<longleftrightarrow> 1 \<le> length s \<and> length s \<le> 128 \<and>
     (ascii_upper (hd s) \<or> ascii_lower (hd s) \<or> ascii_digit (hd s)) \<and> list_all identifier_char s"

definition session_goal :: "json \<Rightarrow> session_error + string" where
  "session_goal v =
     (case v of JStr s \<Rightarrow> (if is_goal_id s then Inr s else Inl (SessInvalid ''goal_id'')) | _ \<Rightarrow> Inl (SessInvalid ''goal_id''))"

definition record_from_dict :: "json \<Rightarrow> session_error + iteration_record" where
  "record_from_dict v =
     (case v of
        JObj raw \<Rightarrow>
          ebind (int_from 0 (jget raw ''index'') ''index'') (\<lambda>index.
          ebind (session_enum all_iteration_states iteration_state_value (jget raw ''state'') ''state'') (\<lambda>state.
          ebind (nonempty_text (jget raw ''directory'') ''directory'') (\<lambda>dir.
          ebind (prefixed_text (jget raw ''environment_snapshot_id'') ''env_'' ''environment snapshot id'') (\<lambda>snapshot.
          ebind (case jget raw ''parent_snapshot_id'' of
                   JNull \<Rightarrow> Inr None
                 | w \<Rightarrow> ebind (prefixed_text w ''env_'' ''parent snapshot id'') (\<lambda>s. Inr (Some s))) (\<lambda>parent.
          ebind (prefixed_text (jget raw ''environment_manifest_id'') ''manifest-v'' ''environment manifest id'') (\<lambda>mid.
          ebind (int_from 0 (jget raw ''environment_manifest_version'') ''environment manifest version'') (\<lambda>mversion.
          ebind (prefixed_text (jget raw ''attempt_id'') ''attempt-'' ''attempt id'') (\<lambda>aid.
          ebind (nonempty_text (jget raw ''attempt_contract'') ''attempt contract path'') (\<lambda>contract.
          ebind (check_relative dir ''iteration directory'') (\<lambda>_.
          ebind (check_relative contract ''attempt_contract'') (\<lambda>_.
          let app = session_text (jget raw ''repair_application''); obs = session_text (jget raw ''observation'');
              art = session_text (jget raw ''artifact_manifest''); res = session_text (jget raw ''attempt_result'') in
          ebind (check_optional_relative app ''repair_application'') (\<lambda>_.
          ebind (check_optional_relative obs ''observation'') (\<lambda>_.
          ebind (check_optional_relative art ''artifact_manifest'') (\<lambda>_.
          ebind (check_optional_relative res ''attempt_result'') (\<lambda>_.
          ebind (case jget raw ''progress'' of
                   JNull \<Rightarrow> Inr None | JObj d \<Rightarrow> Inr (Some d) | _ \<Rightarrow> Inl (SessInvalid ''progress'')) (\<lambda>progress.
          Inr \<lparr>ir_index = index, ir_state = state, ir_directory = dir, ir_snapshot = snapshot, ir_parent = parent,
               ir_manifest_id = mid, ir_manifest_version = mversion, ir_attempt = aid, ir_contract = contract,
               ir_application = app, ir_observation = obs, ir_artifacts = art, ir_result = res,
               ir_progress = progress, ir_stop = session_text (jget raw ''stop_reason'')\<rparr>))))))))))))))))
      | _ \<Rightarrow> Inl (SessObject ''iteration record''))"

definition session_from_dict :: "json \<Rightarrow> session_error + session_manifest" where
  "session_from_dict v =
     (case v of
        JObj raw \<Rightarrow>
          ebind (guard (scalar_equal (jget raw ''schema_version'') (JInt 2) \<and>
                        scalar_equal (jget raw ''controller_version'') (JInt 2)) SessVersion) (\<lambda>_.
          ebind (prefixed_text (jget raw ''session_id'') ''session_'' ''session_id'') (\<lambda>sid.
          ebind (nonempty_text (jget raw ''session_dir'') ''session_dir'') (\<lambda>dir.
          ebind (nonempty_text (jget raw ''snapshot_store'') ''snapshot_store'') (\<lambda>snapshots.
          ebind (nonempty_text (jget raw ''environment_manifest_store'') ''environment_manifest_store'') (\<lambda>manifests.
          ebind (prefixed_text (jget raw ''seed_snapshot_id'') ''env_'' ''seed_snapshot_id'') (\<lambda>seed.
          ebind (prefixed_text (jget raw ''seed_environment_manifest_id'') ''manifest-v0000-''
                   ''seed environment manifest id'') (\<lambda>seed_manifest.
          ebind (session_sha256 (jget raw ''sample_sha256'') ''sample_sha256'') (\<lambda>sample.
          ebind (session_sha256 (jget raw ''packed_binary_sha256'') ''packed_binary_sha256'') (\<lambda>packed.
          ebind (session_goal (jget raw ''goal_id'')) (\<lambda>goal.
          ebind (int_from 1 (jget raw ''max_iterations'') ''max_iterations'') (\<lambda>budget.
          ebind (session_enum all_session_states session_state_value (jget raw ''state'') ''session state'') (\<lambda>state.
          ebind (case jget_or raw ''iterations'' (JList []) of JList xs \<Rightarrow> Inr xs | _ \<Rightarrow> Inl (SessInvalid ''iterations'')) (\<lambda>xs.
          ebind (emap record_from_dict xs) (\<lambda>iterations.
          ebind (guard (map ir_index iterations = map int [0..<length iterations]) SessIndexes) (\<lambda>_.
          Inr \<lparr>sm_id = sid, sm_dir = dir, sm_snapshots = snapshots, sm_seed = seed, sm_manifests = manifests,
               sm_seed_manifest = seed_manifest, sm_sample = sample, sm_packed = packed, sm_goal = goal,
               sm_max = budget, sm_state = state, sm_stop = session_text (jget raw ''stop_reason''),
               sm_iterations = iterations, sm_created = text_or (jget raw ''created_at_utc'') ''unknown'',
               sm_updated = text_or (jget raw ''updated_at_utc'') ''unknown''\<rparr>)))))))))))))))
      | _ \<Rightarrow> Inl (SessObject ''session manifest''))"

definition load_session :: "artifact \<Rightarrow> session_error + session_manifest" where
  "load_session f =
     (case f of
        ArtFile None \<Rightarrow> Inl (SessJson ''session manifest'')
      | ArtFile (Some v) \<Rightarrow> session_from_dict v
      | _ \<Rightarrow> Inl SessNotFile)"

section \<open>Accepted manifests\<close>

definition optional_path :: "string option \<Rightarrow> bool" where
  "optional_path v \<longleftrightarrow> (case v of None \<Rightarrow> True | Some s \<Rightarrow> s \<noteq> [] \<and> relative_path s)"

definition wf_record :: "iteration_record \<Rightarrow> bool" where
  "wf_record r \<longleftrightarrow> 0 \<le> ir_index r \<and> ir_directory r \<noteq> [] \<and> relative_path (ir_directory r) \<and>
     starts_with (ir_snapshot r) ''env_'' \<and> pred_option (\<lambda>s. starts_with s ''env_'') (ir_parent r) \<and>
     starts_with (ir_manifest_id r) ''manifest-v'' \<and> 0 \<le> ir_manifest_version r \<and>
     starts_with (ir_attempt r) ''attempt-'' \<and> ir_contract r \<noteq> [] \<and> relative_path (ir_contract r) \<and>
     optional_path (ir_application r) \<and> optional_path (ir_observation r) \<and> optional_path (ir_artifacts r) \<and>
     optional_path (ir_result r) \<and> ir_stop r \<noteq> Some []"

definition wf_session :: "session_manifest \<Rightarrow> bool" where
  "wf_session m \<longleftrightarrow> starts_with (sm_id m) ''session_'' \<and> sm_dir m \<noteq> [] \<and> sm_snapshots m \<noteq> [] \<and> sm_manifests m \<noteq> [] \<and>
     starts_with (sm_seed m) ''env_'' \<and> starts_with (sm_seed_manifest m) ''manifest-v0000-'' \<and>
     is_sha256 (sm_sample m) \<and> is_sha256 (sm_packed m) \<and> is_goal_id (sm_goal m) \<and> 1 \<le> sm_max m \<and>
     sm_stop m \<noteq> Some [] \<and> list_all wf_record (sm_iterations m) \<and>
     map ir_index (sm_iterations m) = map int [0..<length (sm_iterations m)] \<and>
     sm_created m \<noteq> [] \<and> sm_updated m \<noteq> []"

lemma session_field_Inr:
  "prefixed_text v p l = Inr s \<longleftrightarrow> v = JStr s \<and> starts_with s p"
  "nonempty_text v l = Inr s \<longleftrightarrow> v = JStr s \<and> s \<noteq> []"
  "int_from low v l = Inr i \<longleftrightarrow> v = JInt i \<and> low \<le> i"
  "session_sha256 v l = Inr s \<longleftrightarrow> v = JStr s \<and> is_sha256 s"
  "session_goal v = Inr s \<longleftrightarrow> v = JStr s \<and> is_goal_id s"
  "check_relative s l = Inr u \<longleftrightarrow> relative_path s"
  by (auto simp: prefixed_text_def nonempty_text_def int_from_def session_sha256_def session_goal_def
      check_relative_def result_simps split: json.splits if_splits)

lemma session_enum_Inr:
  "session_enum all_iteration_states iteration_state_value v l = Inr x \<longleftrightarrow> v = JStr (iteration_state_value x)"
  "session_enum all_session_states session_state_value v l = Inr y \<longleftrightarrow> v = JStr (session_state_value y)"
  by (auto simp: session_enum_def iteration_state_enum.parse_iff session_state_enum.parse_iff
      dest: iteration_state_enum.val_eq session_state_enum.val_eq split: json.splits option.splits)

lemma check_optional_relative_Inr:
  "check_optional_relative (session_text v) l = Inr u \<longleftrightarrow> optional_path (session_text v)"
  by (auto simp: check_optional_relative_def session_field_Inr optional_path_def session_text_def split: option.splits json.splits if_splits)

lemma session_text_opt [simp]: "s \<noteq> Some [] \<Longrightarrow> session_text (opt_json JStr s) = s"
  by (cases s) (auto simp: session_text_def opt_json_def)

lemma session_text_nonempty [simp]: "session_text v \<noteq> Some []"
  by (auto simp: session_text_def split: json.splits)

lemma record_roundtrip:
  assumes "wf_record r"
  shows "record_from_dict (record_to_dict r) = Inr r"
proof -
  have path: "x \<noteq> Some []" "check_optional_relative x l = Inr ()" if "optional_path x" for x l
    using that by (auto simp: optional_path_def check_optional_relative_def check_relative_def guard_def split: option.splits)
  have ok: "optional_path (ir_application r)" "optional_path (ir_observation r)" "optional_path (ir_artifacts r)"
      "optional_path (ir_result r)" "ir_stop r \<noteq> Some []"
    using assms by (simp_all add: wf_record_def)
  have parent: "(case opt_json JStr (ir_parent r) of JNull \<Rightarrow> Inr None
      | w \<Rightarrow> ebind (prefixed_text w ''env_'' ''parent snapshot id'') (\<lambda>s. Inr (Some s))) = Inr (ir_parent r)"
    using assms by (cases "ir_parent r") (auto simp: opt_json_def prefixed_text_def wf_record_def)
  have progress: "(case opt_json JObj (ir_progress r) of JNull \<Rightarrow> Inr None | JObj d \<Rightarrow> Inr (Some d)
      | _ \<Rightarrow> Inl (SessInvalid ''progress'')) = Inr (ir_progress r)"
    by (cases "ir_progress r") (auto simp: opt_json_def)
  have state: "session_enum all_iteration_states iteration_state_value (JStr (iteration_state_value s)) l = Inr s" for s l
    by (simp add: session_enum_Inr)
  show ?thesis
    using assms path [OF ok(1)] path [OF ok(2)] path [OF ok(3)] path [OF ok(4)] ok(5) parent progress state
    by (simp add: record_from_dict_def record_to_dict_def wf_record_def int_from_def nonempty_text_def prefixed_text_def
        check_relative_def Let_def)
qed

lemma record_accepts:
  assumes "record_from_dict v = Inr r"
  shows "wf_record r"
  using assms
  by (auto simp: record_from_dict_def wf_record_def result_simps session_field_Inr session_enum_Inr Let_def
      check_optional_relative_Inr split: json.splits)

lemma session_roundtrip:
  assumes "wf_session m"
  shows "session_from_dict (session_to_dict m) = Inr m"
proof -
  have its: "emap record_from_dict (map record_to_dict (sm_iterations m)) = Inr (sm_iterations m)"
    using emap_all [of "sm_iterations m" "\<lambda>r. record_from_dict (record_to_dict r)" id] record_roundtrip assms
    by (simp add: emap_map wf_session_def list_all_iff)
  have state: "session_enum all_session_states session_state_value (JStr (session_state_value s)) l = Inr s" for s l
    by (simp add: session_enum_Inr)
  show ?thesis
    using assms its state
    by (simp add: session_from_dict_def session_to_dict_def wf_session_def int_from_def nonempty_text_def prefixed_text_def
        session_sha256_def session_goal_def scalar_equal_def text_or_def)
qed

lemma session_accepts:
  assumes "session_from_dict v = Inr m"
    and "\<And>k r s. jget (case v of JObj d \<Rightarrow> d) k = JFloat (FloatFin r s) \<Longrightarrow> s \<noteq> []"
  shows "wf_session m"
proof -
  obtain raw where v: "v = JObj raw" using assms(1) by (cases v) (auto simp: session_from_dict_def)
  have stamp: "text_or (jget raw k) ''unknown'' \<noteq> []" for k
    using py_text_truthy [of "jget raw k"] assms(2) [of k] by (auto simp: v text_or_def)
  have recs: "emap record_from_dict xs = Inr its \<Longrightarrow> list_all wf_record its" for xs its
    using emap_set record_accepts by (fastforce simp: list_all_iff)
  show ?thesis
    using assms(1) stamp
    by (auto simp: v session_from_dict_def wf_session_def result_simps session_field_Inr session_enum_Inr
        dest: recs split: json.splits)
qed

end
