(* ===== verification/Artifact_Bundle.thy ===== *)
theory Artifact_Bundle
  imports Session_Manifest
begin

text \<open>
  The artifacts of an iteration (\<open>_copy_artifacts\<close>, \<open>_build_artifact_manifest\<close> and
  \<open>_verify_artifact_manifest\<close> of \<open>taintforge_env/iteration_controller.py\<close>).  A directory is the
  list of what is below it, by its path components; a symbolic link is kept with the text of the
  regular file it leads to, if it leads to one.  The copy keeps no metadata.  The lemmas show that
  the digest of the bundle determines the protected files up to a collision of the hash.
\<close>

section \<open>Directories\<close>

datatype tree_node = NodeFile string | NodeDir | NodeLink "string option" | NodeOther

type_synonym file_tree = "(string list \<times> tree_node) list"

definition put_node :: "string list \<Rightarrow> tree_node \<Rightarrow> file_tree \<Rightarrow> file_tree" where
  "put_node p n t = (if p \<in> fst ` set t then map (\<lambda>(q, m). (q, if q = p then n else m)) t else t @ [(p, n)])"

text \<open>\<open>path.is_file()\<close> follows links; the second test of \<open>_copy_artifacts\<close> excludes them.\<close>

fun node_text :: "tree_node \<Rightarrow> string option" where
  "node_text (NodeFile s) = Some s"
| "node_text (NodeLink t) = t"
| "node_text _ = None"

fun plain_node :: "tree_node \<Rightarrow> bool" where
  "plain_node (NodeFile s) = True"
| "plain_node NodeDir = True"
| "plain_node _ = False"

section \<open>Copying\<close>

definition files_named :: "string \<Rightarrow> file_tree \<Rightarrow> (string list \<times> string) list" where
  "files_named name t =
     List.map_filter (\<lambda>(p, n). case n of NodeFile s \<Rightarrow> (if last p = name then Some (p, s) else None) | _ \<Rightarrow> None) t"

text \<open>
  \<open>shutil.copy2\<close> onto a directory copies into it; it raises when that is the file itself or again
  a directory.
\<close>

definition copy_to_top :: "string list \<Rightarrow> string \<Rightarrow> string \<Rightarrow> file_tree \<Rightarrow> session_error + file_tree" where
  "copy_to_top source text name t =
     (if map_of t [name] = Some NodeDir
      then (if source = [name, name] \<or> map_of t [name, name] = Some NodeDir then Inl SessOs
            else Inr (put_node [name, name] (NodeFile text) t))
      else Inr (put_node [name] (NodeFile text) t))"

definition promote_artifact :: "string \<Rightarrow> file_tree \<Rightarrow> session_error + file_tree" where
  "promote_artifact name t =
     (case files_named name t of
        [(p, s)] \<Rightarrow> (if p = [name] then Inr t else copy_to_top p s name t)
      | ms \<Rightarrow> Inl (SessArtifactCount name (length ms)))"

definition copy_artifacts :: "file_tree \<Rightarrow> session_error + file_tree" where
  "copy_artifacts source =
     ebind (guard (list_all (\<lambda>(p, n). plain_node n) source) SessArtifactKind) (\<lambda>_.
     ebind (promote_artifact ''runtime_requirements.json'' source) (promote_artifact ''repair_plan.json''))"

text \<open>What the progress oracle sees of a directory.\<close>

definition tree_view :: "file_tree \<Rightarrow> artifacts_view" where
  "tree_view t =
     \<lparr>pv_directory = True,
      pv_file = (\<lambda>p. case map_of t (split_on slash p) of Some (NodeFile s) \<Rightarrow> Some s | _ \<Rightarrow> None)\<rparr>"

section \<open>The manifest of the bundle\<close>

definition bundle_files :: "file_tree \<Rightarrow> (string list \<times> string) list" where
  "bundle_files t = sort_key fst (List.map_filter
     (\<lambda>(p, n). if last p = ''artifact_manifest.json'' then None else map_option (Pair p) (node_text n)) t)"

definition file_entry :: "string list \<times> string \<Rightarrow> json" where
  "file_entry f = JObj
     [(''path'', JStr (join_with [slash] (fst f))), (''size'', JInt (int (length (snd f)))),
      (''sha256'', JStr (sha256_hex (snd f)))]"

definition bundle_text :: "file_tree \<Rightarrow> string" where
  "bundle_text t = dump_with escape_ascii (sort_json (JList (map file_entry (bundle_files t))))"

definition build_artifact_manifest :: "string \<Rightarrow> file_tree \<Rightarrow> (string \<times> json) list" where
  "build_artifact_manifest now t =
     [(''schema_version'', JInt 1), (''generated_at_utc'', JStr now),
      (''bundle_sha256'', JStr (sha256_hex (bundle_text t))),
      (''files'', JList (map file_entry (bundle_files t)))]"

text \<open>The argument is the value of the manifest file, \<open>None\<close> when it cannot be read or is no JSON.\<close>

definition verify_artifact_manifest :: "json option \<Rightarrow> string \<Rightarrow> file_tree \<Rightarrow> session_error + unit" where
  "verify_artifact_manifest stored now t =
     (case stored of
        None \<Rightarrow> Inl SessArtifactManifest
      | Some raw \<Rightarrow>
          guard ((case raw of JObj d \<Rightarrow> jget d ''bundle_sha256'' | _ \<Rightarrow> JNull) =
                 jget (build_artifact_manifest now t) ''bundle_sha256'') SessArtifactDigest)"

section \<open>The digest determines the bundle\<close>

definition wf_tree :: "file_tree \<Rightarrow> bool" where
  "wf_tree t \<longleftrightarrow> distinct (map fst t) \<and> (\<forall>p \<in> fst ` set t. p \<noteq> [] \<and> (\<forall>c \<in> set p. plain_component c))"

lemma join_path_inj:
  assumes "join_with [slash] p = join_with [slash] q" "p \<noteq> []" "q \<noteq> []"
    and "\<forall>c \<in> set p. slash \<notin> set c" "\<forall>c \<in> set q. slash \<notin> set c"
  shows "p = q"
proof -
  have "split_on slash (join_with [slash] p) = p" "split_on slash (join_with [slash] q) = q"
    using assms(2-5) by (auto intro!: split_join)
  then show ?thesis using assms(1) by metis
qed

definition protected_text :: "string list \<times> tree_node \<Rightarrow> (string list \<times> string) option" where
  "protected_text x = (if last (fst x) = ''artifact_manifest.json'' then None else map_option (Pair (fst x)) (node_text (snd x)))"

lemma bundle_files_protected: "bundle_files t = sort_key fst (List.map_filter protected_text t)"
proof -
  have "(\<lambda>(p, n). if last p = ''artifact_manifest.json'' then None else map_option (Pair p) (node_text n)) = protected_text"
    by (auto simp: fun_eq_iff protected_text_def)
  then show ?thesis by (simp add: bundle_files_def)
qed

lemma map_filter_set: "y \<in> set (List.map_filter f xs) \<longleftrightarrow> (\<exists>x \<in> set xs. f x = Some y)"
  by (induction xs) (auto simp: List.map_filter_simps split: option.splits)

lemma map_filter_map: "(\<And>x. x \<in> set xs \<Longrightarrow> f (g x) = f x) \<Longrightarrow> List.map_filter f (map g xs) = List.map_filter f xs"
  by (induction xs) (auto simp: List.map_filter_simps split: option.splits)

lemma map_filter_append: "List.map_filter f (xs @ ys) = List.map_filter f xs @ List.map_filter f ys"
  by (induction xs) (auto simp: List.map_filter_simps split: option.splits)

lemma map_filter_protected:
  "distinct (map fst t) \<Longrightarrow> distinct (map fst (List.map_filter protected_text t))"
  "fst ` set (List.map_filter protected_text t) \<subseteq> fst ` set t"
proof -
  show sub: "fst ` set (List.map_filter protected_text t) \<subseteq> fst ` set t" for t
    by (force simp: map_filter_set protected_text_def split: if_splits)
  show "distinct (map fst t) \<Longrightarrow> distinct (map fst (List.map_filter protected_text t))"
  proof (induction t)
    case (Cons x t)
    have "fst y = fst x" if "protected_text x = Some y" for y
      using that by (auto simp: protected_text_def split: if_splits)
    with Cons sub [of t] show ?case by (auto simp: List.map_filter_simps split: option.splits)
  qed (simp add: List.map_filter_simps)
qed

lemma bundle_files_set:
  "(p, s) \<in> set (bundle_files t) \<longleftrightarrow>
     (\<exists>n. (p, n) \<in> set t \<and> last p \<noteq> ''artifact_manifest.json'' \<and> node_text n = Some s)"
  by (auto simp: bundle_files_protected map_filter_set protected_text_def Bex_def split: if_splits)

lemma bundle_files_lookup:
  assumes "distinct (map fst t)"
  shows "(p, s) \<in> set (bundle_files t) \<longleftrightarrow>
    last p \<noteq> ''artifact_manifest.json'' \<and> Option.bind (map_of t p) node_text = Some s"
  using assms by (auto simp: bundle_files_set bind_eq_Some_conv)

lemma sort_file_entry: "sort_json (file_entry f) = sort_json (file_entry g) \<longleftrightarrow>
    join_with [slash] (fst f) = join_with [slash] (fst g) \<and> length (snd f) = length (snd g) \<and>
    sha256_hex (snd f) = sha256_hex (snd g)"
  using sorted_jget [of "[(''path'', JStr (join_with [slash] (fst f))), (''size'', JInt (int (length (snd f)))),
      (''sha256'', JStr (sha256_hex (snd f)))]" "[(''path'', JStr (join_with [slash] (fst g))),
      (''size'', JInt (int (length (snd g)))), (''sha256'', JStr (sha256_hex (snd g)))]"]
  by (auto simp: file_entry_def dest: spec [of _ "''path''"] spec [of _ "''size''"])

lemma bundle_text_eq:
  assumes "bundle_text t = bundle_text u" "wf_tree t" "wf_tree u"
  shows "list_all2 (\<lambda>f g. fst f = fst g \<and> sha256_hex (snd f) = sha256_hex (snd g)) (bundle_files t) (bundle_files u)"
proof -
  let ?v = "\<lambda>t. JList (map file_entry (bundle_files t))"
  have ff: "float_free (sort_json (?v x))" for x
    unfolding float_free_sort_json by (simp add: list_all_iff file_entry_def)
  have "sort_json (?v t) = sort_json (?v u)"
    by (rule ascii_writer.dump_with_inj [OF _ ff ff]) (use assms(1) in \<open>simp only: bundle_text_def\<close>)
  then have "list_all2 (\<lambda>f g. sort_json (file_entry f) = sort_json (file_entry g)) (bundle_files t) (bundle_files u)"
    by (simp add: list_all2_conv_all_nth list_eq_iff_nth_eq)
  moreover have ok: "p \<noteq> [] \<and> (\<forall>c \<in> set p. slash \<notin> set c)"
    if "(p, s) \<in> set (bundle_files x)" "x \<in> {t, u}" for p s x
    using that assms(2,3) by (force simp: bundle_files_set wf_tree_def plain_component_def image_iff)
  have "fst f = fst g" if "f \<in> set (bundle_files t)" "g \<in> set (bundle_files u)"
      "join_with [slash] (fst f) = join_with [slash] (fst g)" for f g
    using join_path_inj [OF that(3)] ok [of "fst f" "snd f" t] ok [of "fst g" "snd g" u] that(1,2) by auto
  with calculation show ?thesis
    by (auto simp: list_all2_conv_all_nth sort_file_entry)
qed

lemma bundle_files_distinct: "distinct (map fst t) \<Longrightarrow> distinct (map fst (bundle_files t))"
  using map_filter_protected(1) [of t] by (simp add: bundle_files_protected distinct_map)

text \<open>The manifest is stored beside what it protects: writing it changes no protected file.\<close>

lemma put_manifest_files:
  "last p = ''artifact_manifest.json'' \<Longrightarrow> bundle_files (put_node p n t) = bundle_files t"
proof -
  assume p: "last p = ''artifact_manifest.json''"
  then have "List.map_filter protected_text (put_node p n t) = List.map_filter protected_text t"
    using map_filter_map [of t protected_text "\<lambda>(q, m). (q, if q = p then n else m)"]
    by (auto simp: put_node_def map_filter_append List.map_filter_simps protected_text_def)
  then show ?thesis by (simp add: bundle_files_protected)
qed

end
