(* ===== verification/Session_Controller.thy ===== *)
theory Session_Controller
  imports Artifact_Bundle
begin

text \<open>
  The iteration controller (\<open>IterationController\<close> of \<open>taintforge_env/iteration_controller.py\<close>):
  preparing an iteration, completing it, and verifying a session.  The state is what the session
  directory holds.  Files the controller writes are kept as JSON values, by their path below the
  session directory; a link in the place of an observation is not followed.  The stores of
  environment snapshots and environment manifests are part of the state; \<open>repair_env\<close> is the process
  that builds the next snapshot.
\<close>

section \<open>Files\<close>

record session_world =
  sw_directory :: bool
  sw_locked :: bool
  sw_session :: artifact
  sw_attempts :: attempt_store
  sw_files :: "string \<Rightarrow> artifact"
  sw_bundles :: "string \<Rightarrow> file_tree option"
  sw_snapshots :: snap_store
  sw_manifests :: env_store

type_synonym 'a session_outcome = "(session_error + 'a) \<times> session_world"

text \<open>
  What a call reads of its process: the resolved session directory, \<open>Path.resolve\<close>,
  \<open>json.loads\<close>, the successive readings of the clock, and what other processes do to the attempt
  store while a file is published.
\<close>

record session_host =
  sh_path :: string
  sh_resolve :: "string \<Rightarrow> string"
  sh_loads :: "string \<Rightarrow> json option"
  sh_clock :: "nat \<Rightarrow> string"
  sh_between :: "attempt_store \<Rightarrow> attempt_store"

definition below :: "string \<Rightarrow> string list \<Rightarrow> string" where
  "below dir names = pp_str (PPath [] (pp_comps (pp_parse dir) @ names))"

definition put_file :: "string \<Rightarrow> json \<Rightarrow> session_world \<Rightarrow> session_world" where
  "put_file p v w = w\<lparr>sw_files := (sw_files w)(p := ArtFile (Some v))\<rparr>"

text \<open>An \<open>OSError\<close> of the attempt store is no \<open>AttemptValidationError\<close>.\<close>

definition attempt_failure :: "attempt_error \<Rightarrow> session_error" where
  "attempt_failure e = (if e = AttOsError then SessOs else SessAttempt e)"

definition with_lock :: "session_world \<Rightarrow> 'a session_outcome \<Rightarrow> 'a session_outcome" where
  "with_lock w body =
     (if \<not> sw_directory w then (Inl SessNoDirectory, w) else if sw_locked w then (Inl SessLocked, w) else body)"

definition controller_load :: "session_host \<Rightarrow> session_world \<Rightarrow> session_error + session_manifest" where
  "controller_load h w =
     ebind (load_session (sw_session w)) (\<lambda>m.
     ebind (guard (sh_resolve h (sm_dir m) = sh_path h) (SessMismatch ''session manifest path'')) (\<lambda>_.
     ebind (guard (sh_resolve h (sm_manifests m) = sh_path h @ ''/manifests'')
              (SessMismatch ''environment manifest store path'')) (\<lambda>_.
     Inr m)))"

definition replace_session ::
    "string \<Rightarrow> session_manifest \<Rightarrow> iteration_record list \<Rightarrow> session_state option \<Rightarrow> string option \<Rightarrow> session_manifest" where
  "replace_session now m iterations state stop =
     m\<lparr>sm_iterations := iterations, sm_state := (case state of Some s \<Rightarrow> s | None \<Rightarrow> sm_state m),
       sm_stop := stop, sm_updated := now\<rparr>"

definition save_session :: "session_manifest \<Rightarrow> session_world \<Rightarrow> session_world" where
  "save_session m w = w\<lparr>sw_session := ArtFile (Some (session_to_dict m))\<rparr>"

section \<open>Starting a session\<close>

text \<open>
  \<open>initialize\<close>: \<open>sid\<close> is the identifier made of the time and a random number, \<open>store\<close> the path of the
  snapshot store, and \<open>seed\<close> the root filesystem.  What is at the path of the session is a directory or
  nothing.  The files appear in one rename; the snapshot stays when a later step raises.
\<close>

record session_request =
  sq_id :: string
  sq_store :: string
  sq_source :: string
  sq_seed :: rootfs_slot
  sq_sample :: string
  sq_packed :: string
  sq_goal :: string
  sq_max :: int

definition check_request :: "session_request \<Rightarrow> session_error + unit" where
  "check_request q =
     ebind (guard (1 \<le> sq_max q) (SessInvalid ''max_iterations'')) (\<lambda>_.
     ebind (guard (is_sha256 (sq_sample q)) (SessInvalid ''sample_sha256'')) (\<lambda>_.
     ebind (guard (is_sha256 (sq_packed q)) (SessInvalid ''packed_binary_sha256'')) (\<lambda>_.
     guard (is_goal_id (sq_goal q)) (SessInvalid ''goal_id''))))"

definition new_session :: "session_host \<Rightarrow> session_request \<Rightarrow> snap_manifest \<Rightarrow> env_manifest \<Rightarrow> session_manifest" where
  "new_session h q snapshot seed =
     \<lparr>sm_id = sq_id q, sm_dir = sh_path h, sm_snapshots = sq_store q, sm_seed = sp_id snapshot,
      sm_manifests = sh_path h @ ''/manifests'', sm_seed_manifest = manifest_id seed, sm_sample = sq_sample q,
      sm_packed = sq_packed q, sm_goal = sq_goal q, sm_max = sq_max q, sm_state = SessionActive, sm_stop = None,
      sm_iterations = [], sm_created = sh_clock h 1, sm_updated = sh_clock h 2\<rparr>"

definition initialize_session :: "session_host \<Rightarrow> session_request \<Rightarrow> session_world \<Rightarrow> session_manifest session_outcome" where
  "initialize_session h q w =
     (case ebind (check_request q) (\<lambda>_. guard (\<not> sw_directory w) SessExists) of
        Inl e \<Rightarrow> (Inl e, w)
      | Inr _ \<Rightarrow>
          (case snapshot_capture (sh_clock h 0) (sq_source q) (sq_store q) (sw_snapshots w) (sq_seed q) of
             (Inl e, s) \<Rightarrow> (Inl (SessSnapshot e), w\<lparr>sw_snapshots := s\<rparr>)
           | (Inr (snapshot, _), s) \<Rightarrow>
               (case ebind (create_seed_manifest (sh_clock h 0) (sq_sample q) (sp_id snapshot)) (\<lambda>seed.
                     case env_save id EnvNoStore seed of (Inl e, _) \<Rightarrow> Inl e | (Inr _, ms) \<Rightarrow> Inr (seed, ms)) of
                  Inl e \<Rightarrow> (Inl (SessManifest e), w\<lparr>sw_snapshots := s\<rparr>)
                | Inr (seed, ms) \<Rightarrow>
                    (let m = new_session h q snapshot seed in
                     (Inr m, \<lparr>sw_directory = True, sw_locked = False, sw_session = ArtFile (Some (session_to_dict m)),
                        sw_attempts = StoreDir [], sw_files = (\<lambda>_. ArtMissing), sw_bundles = (\<lambda>_. None),
                        sw_snapshots = s, sw_manifests = ms\<rparr>)))))"

section \<open>Bindings and claims\<close>

definition validate_contract_binding ::
    "session_manifest \<Rightarrow> iteration_record \<Rightarrow> attempt_contract \<Rightarrow> session_error + unit" where
  "validate_contract_binding m r c =
     ebind (guard (ac_id c = ir_attempt r) (SessBinding ''id'')) (\<lambda>_.
     ebind (guard (ac_index c = ir_index r) (SessBinding ''index'')) (\<lambda>_.
     ebind (guard (ac_sample c = sm_sample m) (SessBinding ''sample'')) (\<lambda>_.
     ebind (guard (ac_packed c = sm_packed m) (SessBinding ''binary'')) (\<lambda>_.
     ebind (guard (ac_goal c = sm_goal m) (SessBinding ''goal'')) (\<lambda>_.
     ebind (guard (ac_manifest_id c = ir_manifest_id r) (SessBinding ''environment manifest id'')) (\<lambda>_.
     guard (ac_manifest_version c = ir_manifest_version r) (SessBinding ''environment manifest version'')))))))"

definition claim_equals :: "event_fields \<Rightarrow> string \<Rightarrow> json \<Rightarrow> session_error + unit" where
  "claim_equals raw field v = guard (scalar_equal (jget raw field) v) (SessClaim field)"

definition validate_claim_fields ::
    "string \<Rightarrow> iteration_record \<Rightarrow> attempt_contract \<Rightarrow> event_fields \<Rightarrow> session_error + unit" where
  "validate_claim_fields sid r c raw =
     ebind (claim_equals raw ''session_id'' (JStr sid)) (\<lambda>_.
     ebind (claim_equals raw ''iteration_index'' (JInt (ir_index r))) (\<lambda>_.
     ebind (claim_equals raw ''attempt_id'' (JStr (ir_attempt r))) (\<lambda>_.
     ebind (claim_equals raw ''stage'' (JStr ''completing'')) (\<lambda>_.
     ebind (claim_equals raw ''attempt_contract_sha256'' (JStr (contract_sha256 c))) (\<lambda>_.
     ebind (claim_equals raw ''environment_manifest_id'' (JStr (ir_manifest_id r))) (\<lambda>_.
     ebind (claim_equals raw ''environment_manifest_version'' (JInt (ir_manifest_version r))) (\<lambda>_.
     claim_equals raw ''environment_snapshot_id'' (JStr (ir_snapshot r)))))))))"

definition validate_execution_claim ::
    "artifact \<Rightarrow> string \<Rightarrow> iteration_record \<Rightarrow> attempt_contract \<Rightarrow> session_error + unit" where
  "validate_execution_claim f sid r c =
     (case f of
        ArtMissing \<Rightarrow> Inr ()
      | ArtFile None \<Rightarrow> Inl (SessClaim ''json'')
      | ArtFile (Some (JObj raw)) \<Rightarrow> validate_claim_fields sid r c raw
      | ArtFile (Some _) \<Rightarrow> Inl (SessClaim ''object'')
      | _ \<Rightarrow> Inl (SessClaim ''file''))"

section \<open>Deciding when to stop\<close>

definition read_observation :: "session_world \<Rightarrow> string \<Rightarrow> progress_error + iteration_observation" where
  "read_observation w p =
     (case sw_files w (below p []) of
        ArtFile (Some v) \<Rightarrow> observation_from_dict v
      | ArtFile None \<Rightarrow> Inl (ObInvalidJson ''observation'')
      | _ \<Rightarrow> Inl ObMissing)"

definition prior_observations ::
    "session_world \<Rightarrow> iteration_record list \<Rightarrow> progress_error + iteration_observation list" where
  "prior_observations w rs = emap (read_observation w) (List.map_filter ir_observation rs)"

definition stop_for :: "int \<Rightarrow> int \<Rightarrow> iteration_observation list \<Rightarrow> iteration_observation \<Rightarrow> stop_reason option" where
  "stop_for index budget prior ob =
     (if prior \<noteq> [] \<and> io_state_fp ob = io_state_fp (last prior) then Some StopFixedPoint
      else if list_ex (\<lambda>x. io_state_fp ob = io_state_fp x) (butlast prior) then Some StopCycle
      else if pm_automatic (io_metrics ob) = 0 then Some StopNoRepairs
      else if budget \<le> index + 1 then Some StopBudget
      else None)"

definition decide_stop_reason ::
    "session_world \<Rightarrow> session_manifest \<Rightarrow> nat \<Rightarrow> iteration_observation \<Rightarrow> progress_error + stop_reason option" where
  "decide_stop_reason w m index ob =
     (if io_goal ob then Inr (Some StopGoal)
      else ebind (prior_observations w (take index (sm_iterations m))) (\<lambda>prior.
        Inr (stop_for (int index) (sm_max m) prior ob)))"

section \<open>The attempt's result\<close>

definition classify_outcome :: "iteration_observation \<Rightarrow> int option \<Rightarrow> bool \<Rightarrow> attempt_outcome \<times> string option" where
  "classify_outcome ob exit_code timed_out =
     (if io_goal ob then (GoalReached, None)
      else if timed_out \<or> exit_code = Some 124 then (TimedOut, Some ''execution_timeout'')
      else if 0 < pm_fatal (io_metrics ob) then (Crashed, Some ''fatal_guest_signal'')
      else if 0 < pm_automatic (io_metrics ob) then (RepairRequired, Some ''automatic_repair_candidate'')
      else (Exited, None))"

definition first_automatic_resource :: "repair_plan \<Rightarrow> string option" where
  "first_automatic_resource p =
     (case sort (map rd_resource (filter rd_automatic (rp_decisions p))) of [] \<Rightarrow> None | r # _ \<Rightarrow> Some r)"

definition check_exit_code :: "json \<Rightarrow> session_error + int option" where
  "check_exit_code v = (case v of JNull \<Rightarrow> Inr None | JInt i \<Rightarrow> Inr (Some i) | _ \<Rightarrow> Inl SessExitCode)"

definition build_attempt_result ::
    "session_host \<Rightarrow> attempt_contract \<Rightarrow> iteration_observation \<Rightarrow> file_view \<Rightarrow> json \<Rightarrow> bool
     \<Rightarrow> session_error + attempt_result" where
  "build_attempt_result h c ob plan_text guest_exit timed_out =
     ebind (check_exit_code guest_exit) (\<lambda>exit_code.
     let (outcome, error_code) = classify_outcome ob exit_code timed_out in
     ebind (if outcome \<in> {RepairRequired, TimedOut, Crashed}
            then ebind (err_map SessPlan (plan_load (sh_loads h) plan_text)) (\<lambda>p.
              ebind (err_map SessEscapedAttempt
                (make_failure_fingerprint outcome (ac_stage c) exit_code None error_code (first_automatic_resource p)))
              (\<lambda>f. Inr (Some f)))
            else Inr None) (\<lambda>fingerprint.
     ebind (err_map SessEscapedAttempt (check_progress
       \<lparr>ap_goal = io_goal ob, ap_reason = io_reason ob, ap_events = pm_guest_total (io_metrics ob), ap_coverage = None,
        ap_observation = Some (sha256_hex (file_text (observation_to_dict ob)))\<rparr>)) (\<lambda>progress.
     err_map SessEscapedAttempt (check_result
       \<lparr>as_id = ac_id c, as_contract = contract_sha256 c, as_outcome = outcome, as_initial = ac_stage c,
        as_final = ac_stage c, as_progress = progress, as_transitions = [], as_fingerprint = fingerprint,
        as_started = ac_created c, as_finished = sh_clock h 2, as_schema = 1, as_version = 1\<rparr>))))"

definition resolve_transition :: "attempt_outcome \<Rightarrow> stop_reason option \<Rightarrow> session_state \<times> stop_reason option" where
  "resolve_transition outcome stop =
     (if outcome = GoalReached then (SessionCompleted, Some StopGoal)
      else if outcome = TimedOut then (SessionFailed, Some StopTimedOut)
      else if outcome = Crashed then (SessionFailed, Some StopCrashed)
      else if stop \<noteq> None then (SessionCompleted, stop)
      else if outcome = RepairRequired then (SessionActive, None)
      else (SessionFailed, Some StopExited))"

section \<open>Completing an iteration\<close>

definition tree_file :: "file_tree \<Rightarrow> string \<Rightarrow> file_view" where
  "tree_file t name =
     (case map_of t [name] of Some (NodeFile s) \<Rightarrow> FileText s | None \<Rightarrow> FileMissing | _ \<Rightarrow> FileOther)"

text \<open>The arguments of \<open>complete_iteration\<close>; the source is \<open>None\<close> when it is a link or no directory.\<close>

record completion =
  cp_index :: int
  cp_source :: "file_tree option"
  cp_contains_target :: bool
  cp_goal :: bool
  cp_reason :: "string option"
  cp_exit :: json
  cp_timed_out :: bool

definition latest_prepared :: "session_manifest \<Rightarrow> int \<Rightarrow> session_error + iteration_record" where
  "latest_prepared m index =
     ebind (guard (sm_state m = SessionActive) (SessNotActive (sm_state m))) (\<lambda>_.
     ebind (guard (0 \<le> index \<and> index < int (length (sm_iterations m))) SessNoIteration) (\<lambda>_.
     let r = sm_iterations m ! nat index in
     ebind (guard (ir_state r = IterationPrepared) SessNotPrepared) (\<lambda>_.
     ebind (guard (index = int (length (sm_iterations m)) - 1) SessNotLatest) (\<lambda>_. Inr r))))"

definition previous_observation ::
    "session_world \<Rightarrow> session_manifest \<Rightarrow> nat \<Rightarrow> session_error + iteration_observation option" where
  "previous_observation w m index =
     (if index = 0 then Inr None
      else case ir_observation (sm_iterations m ! (index - 1)) of
        None \<Rightarrow> Inl SessNoObservation
      | Some p \<Rightarrow> ebind (err_map SessObservation (read_observation w p)) (\<lambda>ob. Inr (Some ob)))"

text \<open>The artifacts, copied, examined and with their manifest.\<close>

definition gather_artifacts ::
    "session_host \<Rightarrow> session_world \<Rightarrow> session_manifest \<Rightarrow> iteration_record \<Rightarrow> completion
     \<Rightarrow> session_error + (file_tree \<times> iteration_observation \<times> progress_decision)" where
  "gather_artifacts h w m r cp =
     (case cp_source cp of
        None \<Rightarrow> Inl SessArtifactsSource
      | Some source \<Rightarrow>
          ebind (guard (sw_bundles w (below (ir_directory r) [''artifacts'']) = None) SessArtifactsExist) (\<lambda>_.
          ebind (guard (\<not> cp_contains_target cp) SessArtifactsSource) (\<lambda>_.
          ebind (copy_artifacts source) (\<lambda>t.
          ebind (err_map SessPlan (plan_load (sh_loads h) (tree_file t ''repair_plan.json''))) (\<lambda>_.
          ebind (err_map SessObservation (observe_artifacts (sh_loads h) (sh_clock h 0) (tree_view t) (ir_snapshot r)
                   (cp_goal cp) (cp_reason cp))) (\<lambda>ob.
          ebind (previous_observation w m (nat (cp_index cp))) (\<lambda>prev.
          ebind (guard (map_of t [''artifact_manifest.json''] \<noteq> Some NodeDir) SessOs) (\<lambda>_.
          Inr (put_node [''artifact_manifest.json''] (NodeFile (file_text (JObj (build_artifact_manifest (sh_clock h 1) t)))) t,
               ob, compare_observations prev ob)))))))))"

definition examine_completion ::
    "session_host \<Rightarrow> session_world \<Rightarrow> completion
     \<Rightarrow> session_error + (session_manifest \<times> iteration_record \<times> attempt_contract \<times> file_tree \<times> iteration_observation \<times> progress_decision)"
  where
  "examine_completion h w cp =
     ebind (controller_load h w) (\<lambda>m.
     ebind (latest_prepared m (cp_index cp)) (\<lambda>r.
     ebind (err_map attempt_failure (load_contract (sw_attempts w) (ir_attempt r))) (\<lambda>c.
     ebind (validate_contract_binding m r c) (\<lambda>_.
     ebind (validate_execution_claim (sw_files w (below (ir_directory r) [''execution_attempt.json''])) (sm_id m) r c) (\<lambda>_.
     ebind (gather_artifacts h w m r cp) (\<lambda>(t, ob, pd). Inr (m, r, c, t, ob, pd)))))))"

definition completed_record ::
    "iteration_record \<Rightarrow> progress_decision \<Rightarrow> stop_reason option \<Rightarrow> iteration_record" where
  "completed_record r pd stop =
     r\<lparr>ir_state := IterationCompleted, ir_observation := Some (below (ir_directory r) [''observation.json'']),
       ir_artifacts := Some (below (ir_directory r) [''artifacts'', ''artifact_manifest.json'']),
       ir_result := Some (''attempts/'' @ ir_attempt r @ ''/result.json''),
       ir_progress := Some (progress_to_dict_items pd), ir_stop := map_option stop_reason_value stop\<rparr>"

text \<open>The last part, once the result is published.\<close>

definition finish_iteration ::
    "session_host \<Rightarrow> session_manifest \<Rightarrow> nat \<Rightarrow> iteration_record \<Rightarrow> progress_decision
     \<Rightarrow> session_state \<times> stop_reason option \<Rightarrow> session_world \<Rightarrow> iteration_record session_outcome" where
  "finish_iteration h m index r pd verdict w =
     (let completed = completed_record r pd (snd verdict);
          updated = replace_session (sh_clock h 3) m ((sm_iterations m)[index := completed]) (Some (fst verdict))
            (map_option stop_reason_value (snd verdict))
      in (Inr completed, save_session updated (put_file (below (ir_directory r) [''iteration.json'']) (record_to_dict completed) w)))"

definition store_evidence ::
    "iteration_record \<Rightarrow> file_tree \<Rightarrow> iteration_observation \<Rightarrow> session_world \<Rightarrow> session_world" where
  "store_evidence r t ob w =
     put_file (below (ir_directory r) [''observation.json'']) (observation_to_dict ob)
       (w\<lparr>sw_bundles := (sw_bundles w)(below (ir_directory r) [''artifacts''] \<mapsto> t)\<rparr>)"

definition complete_iteration ::
    "session_host \<Rightarrow> session_world \<Rightarrow> completion \<Rightarrow> iteration_record session_outcome" where
  "complete_iteration h w cp = with_lock w
     (case examine_completion h w cp of
        Inl e \<Rightarrow> (Inl e, w)
      | Inr (m, r, c, t, ob, pd) \<Rightarrow>
          (let w1 = store_evidence r t ob w
           in case ebind (err_map SessEscapedObservation (decide_stop_reason w1 m (nat (cp_index cp)) ob)) (\<lambda>stop.
                ebind (build_attempt_result h c ob (tree_file t ''repair_plan.json'') (cp_exit cp) (cp_timed_out cp)) (\<lambda>result.
                Inr (stop, result))) of
                Inl e \<Rightarrow> (Inl e, w1)
              | Inr (stop, result) \<Rightarrow>
                  (case save_result (sh_between h) (sw_attempts w1) result of
                     (Inl e, st) \<Rightarrow> (Inl (attempt_failure e), w1\<lparr>sw_attempts := st\<rparr>)
                   | (Inr _, st) \<Rightarrow>
                       finish_iteration h m (nat (cp_index cp)) r pd (resolve_transition (as_outcome result) stop) (w1\<lparr>sw_attempts := st\<rparr>))))"

section \<open>Preparing an iteration\<close>

definition next_index :: "session_manifest \<Rightarrow> session_error + nat" where
  "next_index m =
     ebind (guard (sm_state m = SessionActive) (SessNotActive (sm_state m))) (\<lambda>_.
     ebind (guard (\<not> (sm_iterations m \<noteq> [] \<and> ir_state (last (sm_iterations m)) = IterationPrepared)) SessStillPrepared) (\<lambda>_.
     ebind (guard (int (length (sm_iterations m)) < sm_max m) SessBudget) (\<lambda>_.
     Inr (length (sm_iterations m)))))"

definition has_repair_inputs :: "session_world \<Rightarrow> iteration_record \<Rightarrow> bool" where
  "has_repair_inputs w r =
     (case sw_bundles w (below (ir_directory r) [''artifacts'']) of
        None \<Rightarrow> False
      | Some t \<Rightarrow> (case (map_of t [''runtime_requirements.json''], map_of t [''repair_plan.json'']) of
          (Some (NodeFile _), Some (NodeFile _)) \<Rightarrow> True | _ \<Rightarrow> False))"

text \<open>
  The parent snapshot, the snapshot to run, the text of the report of the applied repair, and the manifest.
\<close>

type_synonym environment_step = "string option \<times> string \<times> string option \<times> env_manifest"

text \<open>
  What the previous iteration has to be: completed with repair inputs and an observation, run with the
  manifest and the snapshot it names, and stopped by a repair.
\<close>

definition previous_attempt ::
    "session_world \<Rightarrow> session_manifest \<Rightarrow> iteration_record \<Rightarrow> session_error + (env_manifest \<times> attempt_contract \<times> attempt_result)" where
  "previous_attempt w m prev =
     ebind (guard (ir_state prev = IterationCompleted) SessPreviousIncomplete) (\<lambda>_.
     ebind (guard (has_repair_inputs w prev) SessRepairInputs) (\<lambda>_.
     ebind (guard (ir_observation prev \<noteq> None) SessNoObservation) (\<lambda>_.
     ebind (err_map SessManifest (env_load (sw_manifests w) (ir_manifest_version prev))) (\<lambda>old.
     ebind (err_map attempt_failure (verify_attempt (sw_attempts w) (ir_attempt prev) True)) (\<lambda>(c, result).
     case result of
       None \<Rightarrow> Inl SessRepairRequired
     | Some res \<Rightarrow>
         ebind (guard (as_outcome res = RepairRequired) SessRepairRequired) (\<lambda>_.
         ebind (validate_contract_binding m prev c) (\<lambda>_.
         ebind (guard (manifest_id old = ir_manifest_id prev) (SessEnvironment ''previous id'')) (\<lambda>_.
         ebind (guard (em_rootfs old = ir_snapshot prev) (SessEnvironment ''previous snapshot'')) (\<lambda>_.
         Inr (old, c, res))))))))))"

text \<open>
  The files of the previous iteration.  An observation that is no JSON is refused by the builder for its
  digest or for its text; both are errors.
\<close>

definition repair_input :: "session_world \<Rightarrow> iteration_record \<Rightarrow> string \<Rightarrow> file_view" where
  "repair_input w prev name =
     (case sw_bundles w (below (ir_directory prev) [''artifacts'']) of None \<Rightarrow> FileMissing | Some t \<Rightarrow> tree_file t name)"

definition observation_input :: "session_world \<Rightarrow> iteration_record \<Rightarrow> file_view" where
  "observation_input w prev =
     (case ir_observation prev of
        None \<Rightarrow> FileMissing
      | Some p \<Rightarrow> (case sw_files w (below p []) of ArtFile (Some v) \<Rightarrow> FileText (file_text v) | ArtMissing \<Rightarrow> FileMissing | _ \<Rightarrow> FileOther))"

text \<open>The next snapshot is built, and then the next manifest is saved: both stay when a later step raises.\<close>

definition repaired_environment ::
    "session_host \<Rightarrow> repair_env \<Rightarrow> session_world \<Rightarrow> session_manifest \<Rightarrow> iteration_record \<Rightarrow> environment_step session_outcome" where
  "repaired_environment h env w m prev =
     (case previous_attempt w m prev of
        Inl e \<Rightarrow> (Inl e, w)
      | Inr (old, c, res) \<Rightarrow>
          (case build_repaired_snapshot (env\<lparr>re_loads := sh_loads h\<rparr>) (sw_snapshots w) (ir_snapshot prev)
                  (repair_input w prev ''repair_plan.json'') (repair_input w prev ''runtime_requirements.json'')
                  (observation_input w prev) old c res of
             (Inl e, s) \<Rightarrow> (Inl (SessRepair e), w\<lparr>sw_snapshots := s\<rparr>)
           | (Inr (snapshot, report, next), s) \<Rightarrow>
               (case env_save id (sw_manifests w) next of
                  (Inl e, ms) \<Rightarrow> (Inl (SessManifest e), w\<lparr>sw_snapshots := s, sw_manifests := ms\<rparr>)
                | (Inr _, ms) \<Rightarrow>
                    (Inr (Some (ir_snapshot prev), snapshot, Some report, next), w\<lparr>sw_snapshots := s, sw_manifests := ms\<rparr>))))"

definition seed_environment :: "session_world \<Rightarrow> session_manifest \<Rightarrow> session_error + environment_step" where
  "seed_environment w m =
     ebind (err_map SessManifest (env_load (sw_manifests w) 0)) (\<lambda>em.
     ebind (guard (manifest_id em = sm_seed_manifest m) (SessEnvironment ''seed id'')) (\<lambda>_.
     Inr (None, sm_seed m, None, em)))"

definition next_environment ::
    "session_host \<Rightarrow> repair_env \<Rightarrow> session_world \<Rightarrow> session_manifest \<Rightarrow> nat \<Rightarrow> environment_step session_outcome" where
  "next_environment h env w m index =
     (case if index = 0 then (seed_environment w m, w) else repaired_environment h env w m (last (sm_iterations m)) of
        (Inl e, w1) \<Rightarrow> (Inl e, w1)
      | (Inr (parent, snapshot, report, em), w1) \<Rightarrow>
          (ebind (guard (em_rootfs em = snapshot) (SessEnvironment ''execution snapshot'')) (\<lambda>_. Inr (parent, snapshot, report, em)), w1))"

definition iteration_directory :: "nat \<Rightarrow> string" where
  "iteration_directory index =
     ''iterations/'' @ (let s = show_nat index in replicate (4 - length s) (CHR ''0'') @ s)"

definition prepared_record :: "nat \<Rightarrow> environment_step \<Rightarrow> attempt_contract \<Rightarrow> iteration_record" where
  "prepared_record index step c =
     (case step of (parent, snapshot, application, em) \<Rightarrow>
       \<lparr>ir_index = int index, ir_state = IterationPrepared, ir_directory = iteration_directory index,
        ir_snapshot = snapshot, ir_parent = parent, ir_manifest_id = manifest_id em, ir_manifest_version = em_version em,
        ir_attempt = ac_id c, ir_contract = ''attempts/'' @ ac_id c @ ''/contract.json'',
        ir_application =
          (case application of None \<Rightarrow> None | Some _ \<Rightarrow> Some (iteration_directory index @ ''/repair_application.json'')),
        ir_observation = None, ir_artifacts = None, ir_result = None, ir_progress = None, ir_stop = None\<rparr>)"

text \<open>
  The iteration's directory appears with its files in one rename, which fails when it exists
  already; the cloned root filesystem inside it is not modelled.
\<close>

definition start_iteration ::
    "session_host \<Rightarrow> session_manifest \<Rightarrow> nat \<Rightarrow> environment_step \<Rightarrow> attempt_contract \<Rightarrow> session_world
     \<Rightarrow> iteration_record session_outcome" where
  "start_iteration h m index step c w =
     (let r = prepared_record index step c; dir = iteration_directory index in
      if sw_files w (dir @ ''/iteration.json'') \<noteq> ArtMissing then (Inl SessOs, w)
      else
        (let w1 = put_file (dir @ ''/iteration.json'') (record_to_dict r)
               (case step of
                  (_, _, Some report, _) \<Rightarrow>
                    w\<lparr>sw_files := (sw_files w)(dir @ ''/repair_application.json'' := ArtFile (sh_loads h report))\<rparr>
                | _ \<Rightarrow> w)
         in (Inr r, save_session (replace_session (sh_clock h 1) m (sm_iterations m @ [r]) None None) w1)))"

definition prepare_next ::
    "session_host \<Rightarrow> repair_env \<Rightarrow> session_world \<Rightarrow> iteration_record session_outcome" where
  "prepare_next h env w = with_lock w
     (case ebind (controller_load h w) (\<lambda>m. ebind (next_index m) (\<lambda>index. Inr (m, index))) of
        Inl e \<Rightarrow> (Inl e, w)
      | Inr (m, index) \<Rightarrow>
          (case next_environment h env w m index of
             (Inl e, w1) \<Rightarrow> (Inl e, w1)
           | (Inr step, w1) \<Rightarrow>
               (case create_contract (sh_clock h 0) (int index) Discovery (sm_sample m) (sm_packed m)
                       (manifest_id (snd (snd (snd step)))) (em_version (snd (snd (snd step)))) (sm_goal m) PreOepDiscovery of
                  Inl e \<Rightarrow> (Inl (SessAttempt e), w1)
                | Inr c \<Rightarrow>
                    (case save_contract (sh_between h) (sw_attempts w1) c of
                       (Inl e, st) \<Rightarrow> (Inl (attempt_failure e), w1\<lparr>sw_attempts := st\<rparr>)
                     | (Inr _, st) \<Rightarrow>
                         (case snapshot_clone (re_cwd env) (sw_snapshots w1) (fst (snd step)) True of
                            Inl e \<Rightarrow> (Inl (SessSnapshot e), w1\<lparr>sw_attempts := st\<rparr>)
                          | Inr _ \<Rightarrow> start_iteration h m index step c (w1\<lparr>sw_attempts := st\<rparr>))))))"

section \<open>Verifying a session\<close>

definition verify_terminal_state ::
    "session_manifest \<Rightarrow> attempt_result option list \<Rightarrow> stop_reason option \<Rightarrow> session_error + unit" where
  "verify_terminal_state m results stop =
     (if sm_iterations m = []
      then guard (sm_state m = SessionActive \<and> sm_stop m = None) (SessTail ''empty'')
      else
        (let latest = last (sm_iterations m) in
         if ir_state latest = IterationPrepared
         then guard (sm_state m = SessionActive \<and> sm_stop m = None \<and> ir_stop latest = None \<and> last results = None)
                (SessTail ''prepared'')
         else case last results of
           None \<Rightarrow> Inl (SessTail ''result'')
         | Some res \<Rightarrow>
             (let (state, reason) = resolve_transition (as_outcome res) stop; value = map_option stop_reason_value reason in
              guard (sm_state m = state \<and> sm_stop m = value \<and> ir_stop latest = value) (SessTail ''final''))))"

text \<open>The evidence of a completed iteration, against the result that is stored for it.\<close>

definition verify_completed ::
    "session_host \<Rightarrow> session_world \<Rightarrow> iteration_record \<Rightarrow> attempt_result option \<Rightarrow> session_error + iteration_observation" where
  "verify_completed h w r result =
     (case (ir_observation r, ir_artifacts r, ir_result r, result) of
        (Some op, Some ap, Some rp, Some res) \<Rightarrow>
          ebind (err_map SessEscapedObservation (read_observation w op)) (\<lambda>ob.
          case sw_bundles w (below (ir_directory r) [''artifacts'']) of
            None \<Rightarrow> Inl SessArtifactManifest
          | Some t \<Rightarrow>
          ebind (verify_artifact_manifest
                   (case map_of t [''artifact_manifest.json''] of
                      Some (NodeFile s) \<Rightarrow> (if below ap [] = below (ir_directory r) [''artifacts'', ''artifact_manifest.json'']
                        then sh_loads h s else None)
                    | _ \<Rightarrow> None) (sh_clock h 0) t) (\<lambda>_.
          ebind (guard (case sw_files w (below op []) of
                          ArtFile (Some v) \<Rightarrow> ap_observation (as_progress res) = Some (sha256_hex (file_text v))
                        | _ \<Rightarrow> False) (SessMismatch ''observation digest'')) (\<lambda>_.
          ebind (guard (ap_goal (as_progress res) = io_goal ob \<and> ap_reason (as_progress res) = io_reason ob \<and>
                        ap_events (as_progress res) = pm_guest_total (io_metrics ob)) (SessMismatch ''progress'')) (\<lambda>_.
          ebind (guard (rp = ''attempts/'' @ ir_attempt r @ ''/result.json'') (SessMismatch ''result path'')) (\<lambda>_.
          Inr ob)))))
      | _ \<Rightarrow> Inl (SessMismatch ''evidence''))"

definition verify_record ::
    "session_host \<Rightarrow> repair_env \<Rightarrow> session_world \<Rightarrow> session_manifest \<Rightarrow> env_manifest list \<Rightarrow> iteration_record
     \<Rightarrow> session_error + (attempt_result option \<times> iteration_observation option)" where
  "verify_record h env w m chain r =
     ebind (err_map SessSnapshot (snapshot_verify (re_cwd env) (sw_snapshots w) (ir_snapshot r))) (\<lambda>_.
     ebind (guard (ir_manifest_version r = ir_index r) (SessEnvironment ''version'')) (\<lambda>_.
     ebind (guard (ir_manifest_version r < int (length chain)) (SessEnvironment ''missing'')) (\<lambda>_.
     let em = chain ! nat (ir_manifest_version r) in
     ebind (guard (manifest_id em = ir_manifest_id r) (SessEnvironment ''id'')) (\<lambda>_.
     ebind (guard (em_rootfs em = ir_snapshot r) (SessEnvironment ''snapshot'')) (\<lambda>_.
     ebind (guard (em_sample em = sm_sample m) (SessEnvironment ''sample'')) (\<lambda>_.
     ebind (case sw_files w (below (ir_directory r) [''iteration.json'']) of
              ArtFile (Some v) \<Rightarrow> record_from_dict v
            | ArtFile None \<Rightarrow> Inl SessEscapedJson
            | _ \<Rightarrow> Inl SessOs) (\<lambda>raw.
     ebind (guard (raw = r) (SessMismatch ''iteration manifest'')) (\<lambda>_.
     ebind (err_map attempt_failure (verify_attempt (sw_attempts w) (ir_attempt r) (ir_state r = IterationCompleted)))
       (\<lambda>(c, result).
     ebind (validate_contract_binding m r c) (\<lambda>_.
     ebind (guard (ir_contract r = ''attempts/'' @ ir_attempt r @ ''/contract.json'') (SessMismatch ''contract path'')) (\<lambda>_.
     ebind (guard (\<not> (ir_state r = IterationPrepared \<and> result \<noteq> None)) (SessMismatch ''prepared result'')) (\<lambda>_.
     if ir_state r = IterationCompleted
     then ebind (verify_completed h w r result) (\<lambda>ob. Inr (result, Some ob))
     else Inr (result, None)))))))))))))"

definition tail_stop_reason ::
    "session_world \<Rightarrow> session_manifest \<Rightarrow> iteration_observation option list \<Rightarrow> session_error + stop_reason option" where
  "tail_stop_reason w m obs =
     (if sm_iterations m \<noteq> [] \<and> ir_state (last (sm_iterations m)) = IterationCompleted
      then case last obs of
          None \<Rightarrow> Inl (SessTail ''observation'')
        | Some ob \<Rightarrow> err_map SessEscapedObservation (decide_stop_reason w m (nat (ir_index (last (sm_iterations m)))) ob)
      else Inr None)"

definition verify_session ::
    "session_host \<Rightarrow> repair_env \<Rightarrow> session_world \<Rightarrow> session_error + session_manifest" where
  "verify_session h env w = fst (with_lock w (
     ebind (controller_load h w) (\<lambda>m.
     ebind (err_map SessSnapshot (snapshot_verify (re_cwd env) (sw_snapshots w) (sm_seed m))) (\<lambda>_.
     ebind (err_map SessManifest (verify_env_chain (sw_manifests w) None)) (\<lambda>chain.
     ebind (guard (manifest_id (hd chain) = sm_seed_manifest m) (SessEnvironment ''seed id'')) (\<lambda>_.
     ebind (guard (em_rootfs (hd chain) = sm_seed m) (SessEnvironment ''seed snapshot'')) (\<lambda>_.
     ebind (guard (em_sample (hd chain) = sm_sample m) (SessEnvironment ''seed sample'')) (\<lambda>_.
     ebind (err_map attempt_failure (list_attempt_ids (sw_attempts w))) (\<lambda>ids.
     ebind (guard (ids = map ir_attempt (sm_iterations m)) (SessMismatch ''attempt order'')) (\<lambda>_.
     ebind (emap (verify_record h env w m chain) (sm_iterations m)) (\<lambda>evidence.
     ebind (guard (length chain = max 1 (length (sm_iterations m))) (SessEnvironment ''orphaned'')) (\<lambda>_.
     ebind (tail_stop_reason w m (map snd evidence)) (\<lambda>stop.
     ebind (verify_terminal_state m (map fst evidence) stop) (\<lambda>_.
     Inr m)))))))))))), w))"

end
