(* ===== verification/Session_Runs.thy ===== *)
theory Session_Runs
  imports Session_Controller
begin

text \<open>
  Runs of the iteration controller: what each call leaves in the session manifest.
\<close>

section \<open>Reading a written manifest\<close>

lemma record_reload:
  "record_from_dict (record_to_dict r) = Inr r' \<Longrightarrow> ir_index r' = ir_index r \<and> ir_state r' = ir_state r"
  by (auto simp: record_from_dict_def record_to_dict_def result_simps session_field_Inr session_enum_Inr Let_def
      dest: iteration_state_enum.val_eq)

lemma records_reload:
  "emap record_from_dict (map record_to_dict rs) = Inr rs' \<Longrightarrow> map ir_state rs' = map ir_state rs"
proof (induction rs arbitrary: rs')
  case (Cons r rs)
  then show ?case by (auto simp: ebind_Inr_iff dest: record_reload)
qed simp

lemma session_reload:
  assumes "session_from_dict (session_to_dict m) = Inr m'"
  shows "sm_max m' = sm_max m" "map ir_state (sm_iterations m') = map ir_state (sm_iterations m)" "sm_state m' = sm_state m"
  using assms
  by (auto simp: session_from_dict_def session_to_dict_def result_simps session_field_Inr session_enum_Inr
      dest: records_reload session_state_enum.val_eq)

section \<open>What a call changes\<close>

lemma controller_load_Inr: "controller_load h w = Inr m \<Longrightarrow> load_session (sw_session w) = Inr m"
  by (auto simp: controller_load_def result_simps)

lemma put_file_session [simp]: "sw_session (put_file p v w) = sw_session w" "sw_attempts (put_file p v w) = sw_attempts w"
  by (simp_all add: put_file_def)

lemma store_evidence_fields [simp]:
  "sw_session (store_evidence r t ob w) = sw_session w" "sw_attempts (store_evidence r t ob w) = sw_attempts w"
  by (simp_all add: store_evidence_def)

lemma save_session_session [simp]: "sw_session (save_session m w) = ArtFile (Some (session_to_dict m))"
  by (simp add: save_session_def)

lemma latest_prepared_Inr:
  "latest_prepared m i = Inr r \<longleftrightarrow>
     sm_state m = SessionActive \<and> sm_iterations m \<noteq> [] \<and> i = int (length (sm_iterations m)) - 1 \<and>
     r = last (sm_iterations m) \<and> ir_state r = IterationPrepared"
proof -
  have "sm_iterations m ! nat (int (length (sm_iterations m)) - 1) = last (sm_iterations m)" if "sm_iterations m \<noteq> []"
    using that by (simp add: last_conv_nth nat_diff_distrib')
  moreover have "0 \<le> int (length xs) - 1 \<longleftrightarrow> xs \<noteq> []" for xs :: "iteration_record list"
    by (cases xs) auto
  ultimately show ?thesis by (auto simp: latest_prepared_def result_simps Let_def)
qed

lemma next_index_Inr:
  "next_index m = Inr i \<longleftrightarrow>
     sm_state m = SessionActive \<and> (sm_iterations m = [] \<or> ir_state (last (sm_iterations m)) \<noteq> IterationPrepared) \<and>
     int (length (sm_iterations m)) < sm_max m \<and> i = length (sm_iterations m)"
  by (auto simp: next_index_def result_simps)

lemma start_iteration_done:
  assumes "start_iteration h m i step c w = (Inr r, w')"
  shows "r = prepared_record i step c \<and>
    sw_session w' = ArtFile (Some (session_to_dict (replace_session (sh_clock h 1) m (sm_iterations m @ [r]) None None)))"
  using assms by (auto simp: start_iteration_def Let_def split: if_splits)

lemma prepared_record_fields [simp]:
  "ir_state (prepared_record i step c) = IterationPrepared" "ir_index (prepared_record i step c) = int i"
  "ir_directory (prepared_record i step c) = iteration_directory i"
  by (simp_all add: prepared_record_def split: prod.splits)

lemma next_environment_keeps:
  "next_environment h env w m i = (res, w') \<Longrightarrow>
     w' = w\<lparr>sw_snapshots := sw_snapshots w', sw_manifests := sw_manifests w'\<rparr>"
  by (auto simp: next_environment_def repaired_environment_def split: if_splits sum.splits prod.splits)

lemma next_environment_session:
  assumes "next_environment h env w m i = (res, w')"
  shows "sw_session w' = sw_session w" "sw_files w' = sw_files w" "sw_bundles w' = sw_bundles w" "sw_attempts w' = sw_attempts w"
  using arg_cong [OF next_environment_keeps [OF assms], of sw_session] arg_cong [OF next_environment_keeps [OF assms], of sw_files]
    arg_cong [OF next_environment_keeps [OF assms], of sw_bundles] arg_cong [OF next_environment_keeps [OF assms], of sw_attempts]
  by simp_all

lemma prepare_next_done:
  assumes "prepare_next h env w = (Inr r, w')"
  shows "\<exists>m. load_session (sw_session w) = Inr m \<and> next_index m = Inr (length (sm_iterations m)) \<and> ir_state r = IterationPrepared \<and>
    sw_session w' = ArtFile (Some (session_to_dict (replace_session (sh_clock h 1) m (sm_iterations m @ [r]) None None)))"
  using assms
  by (auto simp: prepare_next_def with_lock_def ebind_Inr_iff next_index_Inr
      dest!: controller_load_Inr start_iteration_done next_environment_session(1) split: if_splits sum.splits prod.splits)

lemma prepare_next_failed:
  assumes "prepare_next h env w = (Inl e, w')"
  shows "sw_session w' = sw_session w"
  using assms
  by (auto simp: prepare_next_def with_lock_def start_iteration_def Let_def dest: next_environment_session(1)
      split: if_splits sum.splits prod.splits)

lemma examine_completion_Inr:
  assumes "examine_completion h w cp = Inr (m, r, c, t, ob, pd)"
  shows "load_session (sw_session w) = Inr m \<and> latest_prepared m (cp_index cp) = Inr r"
  using assms by (auto simp: examine_completion_def ebind_Inr_iff dest: controller_load_Inr)

lemma complete_iteration_parts:
  assumes "complete_iteration h w cp = (Inr r', w')"
  obtains m r c t ob pd stop res st where
    "examine_completion h w cp = Inr (m, r, c, t, ob, pd)"
    "decide_stop_reason (store_evidence r t ob w) m (nat (cp_index cp)) ob = Inr stop"
    "build_attempt_result h c ob (tree_file t ''repair_plan.json'') (cp_exit cp) (cp_timed_out cp) = Inr res"
    "save_result (sh_between h) (sw_attempts w) res = (Inr (), st)"
    "(Inr r', w') = finish_iteration h m (nat (cp_index cp)) r pd (resolve_transition (as_outcome res) stop)
       ((store_evidence r t ob w)\<lparr>sw_attempts := st\<rparr>)"
  using assms
  by (auto simp: complete_iteration_def with_lock_def Let_def ebind_Inr_iff err_map_Inr_iff
      split: if_splits sum.splits prod.splits)

lemma complete_iteration_done:
  assumes "complete_iteration h w cp = (Inr r', w')"
  shows "\<exists>m r state stop. load_session (sw_session w) = Inr m \<and> latest_prepared m (cp_index cp) = Inr r \<and>
    ir_state r' = IterationCompleted \<and>
    sw_session w' = ArtFile (Some (session_to_dict (replace_session (sh_clock h 3) m
      ((sm_iterations m)[nat (cp_index cp) := r']) (Some state) stop)))"
  by (rule complete_iteration_parts [OF assms])
    (auto simp: finish_iteration_def completed_record_def Let_def dest!: examine_completion_Inr)

lemma complete_iteration_failed:
  assumes "complete_iteration h w cp = (Inl e, w')"
  shows "sw_session w' = sw_session w"
  using assms
  by (auto simp: complete_iteration_def with_lock_def finish_iteration_def Let_def split: if_splits sum.splits prod.splits)

section \<open>Runs\<close>

text \<open>Any sequence of calls, by any processes; the number counts the calls that returned.\<close>

inductive session_run :: "session_world \<Rightarrow> nat \<Rightarrow> session_world \<Rightarrow> bool" where
  start: "session_run w 0 w"
| prepared: "session_run w n v \<Longrightarrow> prepare_next h env v = (Inr r, v') \<Longrightarrow> session_run w (Suc n) v'"
| not_prepared: "session_run w n v \<Longrightarrow> prepare_next h env v = (Inl e, v') \<Longrightarrow> session_run w n v'"
| completed: "session_run w n v \<Longrightarrow> complete_iteration h v cp = (Inr r, v') \<Longrightarrow> session_run w (Suc n) v'"
| not_completed: "session_run w n v \<Longrightarrow> complete_iteration h v cp = (Inl e, v') \<Longrightarrow> session_run w n v'"

text \<open>The calls a manifest leaves: one to prepare and one to complete each iteration of the budget.\<close>

definition calls_left :: "session_manifest \<Rightarrow> nat" where
  "calls_left m =
     2 * nat (sm_max m - int (length (sm_iterations m))) +
     (if sm_iterations m \<noteq> [] \<and> ir_state (last (sm_iterations m)) = IterationPrepared then 1 else 0)"

lemma calls_left_states:
  assumes "sm_max m = sm_max m'" "map ir_state (sm_iterations m) = map ir_state (sm_iterations m')"
  shows "calls_left m = calls_left m'"
proof -
  have "length (sm_iterations m) = length (sm_iterations m')"
    using arg_cong [where f = length, OF assms(2)] by simp
  moreover have "ir_state (last (sm_iterations m)) = ir_state (last (sm_iterations m'))" if "sm_iterations m \<noteq> []"
    using arg_cong [where f = last, OF assms(2)] that calculation by (cases "sm_iterations m'") (auto simp: last_map)
  moreover have "sm_iterations m = [] \<longleftrightarrow> sm_iterations m' = []"
    using calculation(1) by (metis length_0_conv)
  ultimately show ?thesis using assms(1) by (auto simp: calls_left_def)
qed

lemma calls_left_reload:
  assumes "load_session (ArtFile (Some (session_to_dict m))) = Inr m'"
  shows "calls_left m' = calls_left m"
  using session_reload [of m m'] assms by (intro calls_left_states) (auto simp: load_session_def)

lemma prepare_next_decreases:
  assumes "prepare_next h env w = (Inr r, w')" "load_session (sw_session w') = Inr m'"
  shows "\<exists>m. load_session (sw_session w) = Inr m \<and> calls_left m = Suc (calls_left m')"
proof -
  obtain m n where m: "load_session (sw_session w) = Inr m" "next_index m = Inr (length (sm_iterations m))"
      "sw_session w' = ArtFile (Some (session_to_dict n))" "ir_state r = IterationPrepared"
      and n: "n = replace_session (sh_clock h 1) m (sm_iterations m @ [r]) None None"
    using prepare_next_done [OF assms(1)] by blast
  have "calls_left m = Suc (calls_left n)"
    using m by (auto simp: n replace_session_def calls_left_def next_index_Inr nat_diff_distrib')
  with m assms(2) show ?thesis by (auto simp: calls_left_reload)
qed

lemma complete_iteration_decreases:
  assumes "complete_iteration h w cp = (Inr r, w')" "load_session (sw_session w') = Inr m'"
  shows "\<exists>m. load_session (sw_session w) = Inr m \<and> calls_left m = Suc (calls_left m')"
proof -
  obtain m q n where m: "load_session (sw_session w) = Inr m" "latest_prepared m (cp_index cp) = Inr q"
      "sw_session w' = ArtFile (Some (session_to_dict n))" "ir_state r = IterationCompleted"
      and n: "\<exists>s t. n = replace_session (sh_clock h 3) m ((sm_iterations m)[nat (cp_index cp) := r]) (Some s) t"
    using complete_iteration_done [OF assms(1)] by blast
  have "last (sm_iterations n) = r"
    using m(2) n by (auto simp: replace_session_def latest_prepared_Inr last_list_update nat_diff_distrib')
  moreover have "sm_max n = sm_max m" "length (sm_iterations n) = length (sm_iterations m)"
    using n by (auto simp: replace_session_def)
  ultimately have "calls_left m = Suc (calls_left n)"
    using m(2,4) by (auto simp: calls_left_def latest_prepared_Inr)
  with m assms(2) show ?thesis by (auto simp: calls_left_reload)
qed

lemma session_run_left:
  assumes "session_run w n v" "load_session (sw_session v) = Inr m'"
  shows "\<exists>m. load_session (sw_session w) = Inr m \<and> calls_left m = n + calls_left m'"
  using assms
proof (induction arbitrary: m')
  case (prepared w n v h env r v')
  then show ?case using prepare_next_decreases [of h env v r v' m'] by fastforce
next
  case (completed w n v h cp r v')
  then show ?case using complete_iteration_decreases [of h v cp r v' m'] by fastforce
next
  case (not_prepared w n v h env e v')
  then show ?case using prepare_next_failed [of h env v e v'] by simp
next
  case (not_completed w n v h cp e v')
  then show ?case using complete_iteration_failed [of h v cp e v'] by simp
qed simp

text \<open>A run that made one call more starts from a manifest that loads.\<close>

lemma session_run_bound:
  assumes "session_run w n v" "load_session (sw_session w) = Inr m"
  shows "n \<le> calls_left m"
  using assms
proof (induction)
  case (prepared w n v h env r v')
  then show ?case
    using prepare_next_done [of h env v r v'] session_run_left [OF prepared.hyps(1)] by (fastforce simp: calls_left_def next_index_Inr)
next
  case (completed w n v h cp r v')
  then show ?case
    using complete_iteration_done [of h v cp r v'] session_run_left [OF completed.hyps(1)]
    by (fastforce simp: calls_left_def latest_prepared_Inr)
qed simp_all

lemma load_session_positive: "load_session f = Inr m \<Longrightarrow> 1 \<le> sm_max m"
  by (auto simp: load_session_def session_from_dict_def result_simps session_field_Inr split: artifact.splits option.splits json.splits)

lemma calls_left_bound: "load_session f = Inr m \<Longrightarrow> int (calls_left m) \<le> 2 * sm_max m"
  using load_session_positive [of f m] by (cases "sm_iterations m") (auto simp: calls_left_def)

end
