(* ===== verification/Session_Example.thy ===== *)
theory Session_Example
  imports Session_Runs Attempt_Properties
begin

text \<open>An example session with one prepared iteration, completed without an automatic repair.\<close>

definition ex_contract :: attempt_contract where
  "ex_contract =
     \<lparr>ac_id = example_id, ac_index = 0, ac_purpose = Discovery, ac_sample = example_sha, ac_packed = example_sha,
      ac_manifest_id = ''manifest-v0000-a'', ac_manifest_version = 0, ac_goal = ''e1'', ac_stage = PreOepDiscovery,
      ac_schema = 1, ac_version = 1, ac_created = example_time\<rparr>"

definition ex_store :: attempt_store where
  "ex_store = StoreDir [(example_id, EntryDir
     \<lparr>ad_contract = ArtFile (Some (contract_to_dict ex_contract)), ad_result = ArtMissing\<rparr>)]"

definition ex_record :: iteration_record where
  "ex_record =
     \<lparr>ir_index = 0, ir_state = IterationPrepared, ir_directory = ''iterations/0000'', ir_snapshot = ''env_0'',
      ir_parent = None, ir_manifest_id = ''manifest-v0000-a'', ir_manifest_version = 0, ir_attempt = example_id,
      ir_contract = ''attempts/'' @ example_id @ ''/contract.json'', ir_application = None, ir_observation = None,
      ir_artifacts = None, ir_result = None, ir_progress = None, ir_stop = None\<rparr>"

definition ex_session :: session_manifest where
  "ex_session =
     \<lparr>sm_id = ''session_0'', sm_dir = ''/s'', sm_snapshots = ''/p'', sm_seed = ''env_0'', sm_manifests = ''/s/manifests'',
      sm_seed_manifest = ''manifest-v0000-a'', sm_sample = example_sha, sm_packed = example_sha, sm_goal = ''e1'',
      sm_max = 3, sm_state = SessionActive, sm_stop = None, sm_iterations = [ex_record],
      sm_created = example_time, sm_updated = example_time\<rparr>"

definition ex_plan :: repair_plan where
  "ex_plan =
     \<lparr>rp_source_requirements = ''r'', rp_source_sha256 = sha256_hex ''R'', rp_decisions = [], rp_warnings = [],
      rp_schema_version = 1, rp_planner_version = 1, rp_generated_at = ''t''\<rparr>"

definition ex_tree :: file_tree where
  "ex_tree = [([''runtime_requirements.json''], NodeFile ''R''), ([''repair_plan.json''], NodeFile ''P'')]"

definition ex_manifest :: "(string \<times> json) list" where
  "ex_manifest = build_artifact_manifest example_time ex_tree"

definition ex_stored :: file_tree where
  "ex_stored = put_node [''artifact_manifest.json''] (NodeFile (file_text (JObj ex_manifest))) ex_tree"

definition ex_host :: session_host where
  "ex_host =
     \<lparr>sh_path = ''/s'', sh_resolve = id,
      sh_loads = (\<lambda>t. if t = ''R'' then Some (JObj [(''requirements'', JList [])])
        else if t = ''P'' then Some (plan_to_dict ex_plan)
        else if t = file_text (JObj ex_manifest) then Some (JObj ex_manifest) else None),
      sh_clock = (\<lambda>_. example_time), sh_between = id\<rparr>"

definition ex_world :: session_world where
  "ex_world =
     \<lparr>sw_directory = True, sw_locked = False, sw_session = ArtFile (Some (session_to_dict ex_session)),
      sw_attempts = ex_store,
      sw_files = (\<lambda>p. if p = ''iterations/0000/iteration.json'' then ArtFile (Some (record_to_dict ex_record)) else ArtMissing),
      sw_bundles = (\<lambda>_. None), sw_snapshots = [], sw_manifests = EnvDir []\<rparr>"

definition ex_completion :: "json \<Rightarrow> completion" where
  "ex_completion exit_code =
     \<lparr>cp_index = 0, cp_source = Some ex_tree, cp_contains_target = False, cp_goal = False, cp_reason = None,
      cp_exit = exit_code, cp_timed_out = False\<rparr>"

definition ex_observation :: iteration_observation where
  "ex_observation =
     (let rf = canonical_sha256 (JList []); bf = canonical_sha256 (behavior_payload [] []) in
      \<lparr>io_requirements_sha = sha256_hex ''R'', io_requirements_fp = rf, io_plan_sha = sha256_hex ''P'', io_repair_fp = rf,
       io_behavior_fp = bf, io_state_fp = canonical_sha256 (state_payload ''env_0'' rf rf bf),
       io_metrics = build_metrics [] [] [] [], io_guest = [], io_network = [], io_goal = False, io_reason = None,
       io_generated_at = example_time\<rparr>)"

lemma ex_plan_loads: "plan_load (sh_loads ex_host) (FileText ''P'') = Inr ex_plan"
proof -
  have "wf_plan ex_plan" by (simp add: wf_plan_def ex_plan_def)
  then show ?thesis by (simp add: plan_load_def ex_host_def plan_roundtrip)
qed

lemma ex_paths:
  "below ''iterations/0000'' [''iteration.json''] = ''iterations/0000/iteration.json''"
  "below ''iterations/0000'' [''observation.json''] = ''iterations/0000/observation.json''"
  "below ''iterations/0000/observation.json'' [] = ''iterations/0000/observation.json''"
  "below ''iterations/0000'' [''artifacts''] = ''iterations/0000/artifacts''"
  "below ''iterations/0000'' [''execution_attempt.json''] = ''iterations/0000/execution_attempt.json''"
  "below ''iterations/0000'' [''artifacts'', ''artifact_manifest.json''] = ''iterations/0000/artifacts/artifact_manifest.json''"
  "below ''iterations/0000/artifacts/artifact_manifest.json'' [] = ''iterations/0000/artifacts/artifact_manifest.json''"
  by code_simp+

lemma ex_record_wf: "wf_record ex_record"
proof -
  have "relative_path ''iterations/0000''" "relative_path (''attempts/'' @ example_id @ ''/contract.json'')"
    by code_simp+
  moreover have "starts_with example_id ''attempt-''" "starts_with ''env_0'' ''env_''" "starts_with ''manifest-v0000-a'' ''manifest-v''"
    by code_simp+
  ultimately show ?thesis by (simp add: wf_record_def ex_record_def optional_path_def)
qed

lemma ex_session_wf: "wf_session ex_session"
proof -
  have "starts_with ''session_0'' ''session_''" "starts_with ''env_0'' ''env_''" "starts_with ''manifest-v0000-a'' ''manifest-v0000-''" "is_goal_id ''e1''"
    by code_simp+
  moreover have "example_time \<noteq> []" by code_simp
  ultimately show ?thesis using ex_record_wf by (simp add: wf_session_def ex_session_def) (simp add: ex_record_def)
qed

lemma ex_load: "controller_load ex_host ex_world = Inr ex_session"
  using session_roundtrip [OF ex_session_wf]
  by (simp add: controller_load_def load_session_def ex_world_def ex_host_def) (simp add: ex_session_def)

lemma ex_contract_valid: "check_contract ex_contract = Inr ex_contract"
proof -
  have "is_identifier ''manifest-v0000-a''" by code_simp
  then show ?thesis using example_time_instant by (simp add: check_contract_Inr ex_contract_def)
qed

lemma ex_contract_loads: "load_contract ex_store example_id = Inr ex_contract"
  using contract_roundtrip [OF ex_contract_valid]
  by (simp add: load_contract_Inr ex_store_def store_artifact_def store_directory_def)

lemma ex_observes:
  "observe_artifacts (sh_loads ex_host) example_time (tree_view ex_tree) ''env_0'' False None = Inr ex_observation"
proof -
  have files: "locate_file (tree_view ex_tree) ''runtime_requirements.json'' = Inr ''R''"
      "locate_file (tree_view ex_tree) ''repair_plan.json'' = Inr ''P''"
      "locate_optional_file (tree_view ex_tree) ''syscall_events.jsonl'' = None"
      "locate_optional_file (tree_view ex_tree) ''network_events.jsonl'' = None"
    by code_simp+
  have plan: "load_object (sh_loads ex_host) ''R'' = Inr [(''requirements'', JList [])]"
      "\<exists>d. load_object (sh_loads ex_host) ''P'' = Inr d \<and> jget d ''source_sha256'' = JStr (sha256_hex ''R'') \<and> jget d ''decisions'' = JList []"
    by (simp_all add: load_object_def ex_host_def plan_to_dict_def ex_plan_def)
  show ?thesis
    using plan
    by (auto simp: observe_artifacts_def collect_evidence_def make_observation_def files normalize_requirements_def normalize_repairs_def
        normalize_guest_events_def normalize_network_events_def read_jsonl_def emap_enum_def ex_observation_def Let_def)
      (simp add: tree_view_def)
qed

lemma ex_gather:
  "gather_artifacts ex_host ex_world ex_session ex_record (ex_completion ex) =
     Inr (ex_stored, ex_observation, compare_observations None ex_observation)"
proof -
  have copy: "copy_artifacts ex_tree = Inr ex_tree" by code_simp
  have top: "tree_file ex_tree ''repair_plan.json'' = FileText ''P''" "map_of ex_tree [''artifact_manifest.json''] = None"
    by code_simp+
  have fields: "ir_snapshot ex_record = ''env_0''" "sw_bundles ex_world p = None" "sh_clock ex_host k = example_time" for p k
    by (simp_all add: ex_record_def ex_world_def ex_host_def)
  show ?thesis
    by (simp add: gather_artifacts_def ex_completion_def fields copy top ex_plan_loads ex_observes previous_observation_def
        ex_stored_def ex_manifest_def)
qed

lemma ex_examine:
  "examine_completion ex_host ex_world (ex_completion ex) =
     Inr (ex_session, ex_record, ex_contract, ex_stored, ex_observation, compare_observations None ex_observation)"
proof -
  have "latest_prepared ex_session (cp_index (ex_completion ex)) = Inr ex_record"
    by (simp add: latest_prepared_Inr ex_completion_def) (simp add: ex_session_def ex_record_def)
  moreover have "validate_contract_binding ex_session ex_record ex_contract = Inr ()"
    by (simp add: validate_contract_binding_def ex_session_def ex_record_def ex_contract_def guard_def)
  moreover have "sw_attempts ex_world = ex_store" "ir_attempt ex_record = example_id" "ir_directory ex_record = ''iterations/0000''"
      "sw_files ex_world ''iterations/0000/execution_attempt.json'' = ArtMissing"
    by (simp_all add: ex_world_def ex_record_def)
  ultimately show ?thesis
    by (simp add: examine_completion_def ex_load ex_contract_loads ex_paths validate_execution_claim_def ex_gather)
qed

text \<open>The call returns, and what it publishes is the result of a run that exited.\<close>

definition ex_result :: attempt_result where
  "ex_result =
     \<lparr>as_id = example_id, as_contract = contract_sha256 ex_contract, as_outcome = Exited, as_initial = PreOepDiscovery,
      as_final = PreOepDiscovery,
      as_progress = \<lparr>ap_goal = False, ap_reason = None, ap_events = 0, ap_coverage = None,
        ap_observation = Some (sha256_hex (file_text (observation_to_dict ex_observation)))\<rparr>,
      as_transitions = [], as_fingerprint = None, as_started = example_time, as_finished = example_time,
      as_schema = 1, as_version = 1\<rparr>"

lemma ex_observation_fields:
  "io_goal ex_observation = False" "io_reason ex_observation = None" "io_metrics ex_observation = build_metrics [] [] [] []"
  by (simp_all add: ex_observation_def Let_def)

lemma ex_metrics:
  "pm_fatal (build_metrics [] [] [] []) = 0" "pm_automatic (build_metrics [] [] [] []) = 0" "pm_guest_total (build_metrics [] [] [] []) = 0"
  by (simp_all add: build_metrics_def count_where_def)

lemma ex_builds: "build_attempt_result ex_host ex_contract ex_observation pf (JInt 0) False = Inr ex_result"
proof -
  have "check_result ex_result = Inr ex_result"
    using example_time_instant by (auto simp: check_result_Inr ex_result_def contract_sha256_def failure_outcomes_def)
  moreover have "classify_outcome ex_observation (Some 0) False = (Exited, None)"
    by (simp add: classify_outcome_def ex_observation_fields ex_metrics)
  moreover have "check_progress (as_progress ex_result) = Inr (as_progress ex_result)"
    by (simp add: check_progress_Inr ex_result_def)
  moreover have "sh_clock ex_host k = example_time" for k by (simp add: ex_host_def)
  ultimately show ?thesis
    by (simp add: build_attempt_result_def check_exit_code_def ex_observation_fields ex_metrics)
      (simp add: ex_result_def ex_contract_def)
qed

lemma ex_saves: "\<exists>st. save_result id ex_store ex_result = (Inr (), st)"
proof -
  have "validate_result_link ex_contract ex_result = Inr ()"
    by (simp add: validate_result_link_Inr ex_result_def ex_contract_def)
  moreover have "store_artifact ex_store example_id ResultSlot = ArtMissing"
    by (simp add: ex_store_def store_artifact_def store_directory_def)
  moreover have "as_id ex_result = example_id" by (simp add: ex_result_def)
  ultimately show ?thesis using save_missing_result [of ex_store ex_result] ex_contract_loads by metis
qed

lemma ex_decides: "decide_stop_reason w ex_session 0 ex_observation = Inr (Some StopNoRepairs)"
  by (simp add: decide_stop_reason_def ex_observation_fields prior_observations_def List.map_filter_simps stop_for_def ex_metrics)

lemma ex_completes: "\<exists>r w. complete_iteration ex_host ex_world (ex_completion (JInt 0)) = (Inr r, w)"
proof -
  obtain st where st: "save_result id ex_store ex_result = (Inr (), st)" using ex_saves by blast
  have "sw_directory ex_world" "\<not> sw_locked ex_world" "sw_attempts ex_world = ex_store" "sh_between ex_host = id"
      "cp_index (ex_completion ex) = 0" "cp_exit (ex_completion ex) = ex" "\<not> cp_timed_out (ex_completion ex)" for ex
    by (simp_all add: ex_world_def ex_host_def ex_completion_def)
  then show ?thesis
    by (simp add: complete_iteration_def with_lock_def ex_examine ex_decides ex_builds Let_def st finish_iteration_def)
qed

lemma ex_refused:
  "complete_iteration ex_host ex_world (ex_completion (JBool True)) = (Inl SessExitCode, store_evidence ex_record ex_stored ex_observation ex_world)"
proof -
  have "sw_directory ex_world" "\<not> sw_locked ex_world" "cp_index (ex_completion ex) = 0" "cp_exit (ex_completion ex) = ex" for ex
    by (simp_all add: ex_world_def ex_completion_def)
  then show ?thesis
    by (simp add: complete_iteration_def with_lock_def ex_examine ex_decides Let_def build_attempt_result_def check_exit_code_def)
qed

end
