(* ===== verification/Session_Properties.thy ===== *)
theory Session_Properties
  imports Session_Example
begin

text \<open>The properties of a session of iterations, up to its verification.\<close>

section \<open>The verdict of a completed iteration\<close>

lemma read_store_evidence:
  "below p [] \<noteq> below (ir_directory r) [''observation.json''] \<Longrightarrow>
    read_observation (store_evidence r t ob w) p = read_observation w p"
  by (simp add: read_observation_def store_evidence_def put_file_def)

definition apart :: "iteration_record list \<Rightarrow> iteration_record \<Rightarrow> bool" where
  "apart qs r \<longleftrightarrow> (\<forall>q \<in> set qs. \<forall>p. ir_observation q = Some p \<longrightarrow> below p [] \<noteq> below (ir_directory r) [''observation.json''])"

lemma prior_store_evidence:
  "apart qs r \<Longrightarrow> prior_observations (store_evidence r t ob w) qs = prior_observations w qs"
  unfolding prior_observations_def
  by (rule emap_cong) (auto simp: apart_def map_filter_set intro!: read_store_evidence)

lemma examine_observation:
  assumes "examine_completion h w cp = Inr (m, r, c, t, ob, pd)"
  shows "0 \<le> pm_automatic (io_metrics ob)" "0 \<le> pm_fatal (io_metrics ob)" "io_goal ob = cp_goal cp"
proof -
  obtain t0 where ob: "observe_artifacts (sh_loads h) (sh_clock h 0) (tree_view t0) (ir_snapshot r) (cp_goal cp) (cp_reason cp) = Inr ob"
    using assms by (auto simp: examine_completion_def gather_artifacts_def result_simps split: option.splits)
  show "0 \<le> pm_automatic (io_metrics ob)" "0 \<le> pm_fatal (io_metrics ob)" "io_goal ob = cp_goal cp"
    using ob by (auto simp: observe_artifacts_def make_observation_def ebind_Inr_iff build_metrics_def count_where_def Let_def)
qed

lemma build_attempt_result_Inr:
  assumes "build_attempt_result h c ob pf ex timed = Inr res"
  obtains code fp progress where "check_exit_code ex = Inr code" "check_result res = Inr res"
    "progress = \<lparr>ap_goal = io_goal ob, ap_reason = io_reason ob, ap_events = pm_guest_total (io_metrics ob), ap_coverage = None,
        ap_observation = Some (sha256_hex (file_text (observation_to_dict ob)))\<rparr>"
    "check_progress progress = Inr progress"
    "res = \<lparr>as_id = ac_id c, as_contract = contract_sha256 c, as_outcome = fst (classify_outcome ob code timed),
        as_initial = ac_stage c, as_final = ac_stage c, as_progress = progress, as_transitions = [], as_fingerprint = fp,
        as_started = ac_created c, as_finished = sh_clock h 2, as_schema = 1, as_version = 1\<rparr>"
proof -
  obtain code where code: "check_exit_code ex = Inr code"
    using assms by (auto simp: build_attempt_result_def ebind_Inr_iff)
  obtain outcome err where cl: "classify_outcome ob code timed = (outcome, err)" by fastforce
  from assms obtain fp p where "check_progress \<lparr>ap_goal = io_goal ob, ap_reason = io_reason ob,
        ap_events = pm_guest_total (io_metrics ob), ap_coverage = None,
        ap_observation = Some (sha256_hex (file_text (observation_to_dict ob)))\<rparr> = Inr p"
      "check_result \<lparr>as_id = ac_id c, as_contract = contract_sha256 c, as_outcome = outcome, as_initial = ac_stage c,
        as_final = ac_stage c, as_progress = p, as_transitions = [], as_fingerprint = fp,
        as_started = ac_created c, as_finished = sh_clock h 2, as_schema = 1, as_version = 1\<rparr> = Inr res"
    unfolding build_attempt_result_def code ebind.simps cl Let_def prod.case by (simp only: ebind_Inr_iff err_map_Inr_iff) blast
  then show ?thesis
    using that [of code p fp] code cl check_result_id check_progress_Inr by (metis fst_conv)
qed

text \<open>
  C19: How a session goes on after a completed iteration, with which stop reason, when no earlier record
  names this iteration's observation file (\<open>apart\<close>).  It stays active exactly
  when the goal was not reached, the run neither timed out (nor exited with 124) nor received a fatal
  signal, the repair plan has an automatic candidate, the budget allows another iteration, and the state
  was not seen before.  It ends as completed exactly when the goal was reached or, with no timeout and no
  fatal signal, one of the other conditions fails; otherwise it has failed.  The stop reason is the first
  that applies of: goal reached, timed out, crashed, fixed point (the state of the iteration before),
  cycle (the state of an earlier one), no automatic repairs, budget exhausted; and there is none while
  the session is active.  So the reason \<open>execution_exited_without_goal\<close> is never given.
\<close>

theorem completion_verdict:
  assumes "complete_iteration h w cp = (Inr r', w')"
    and "examine_completion h w cp = Inr (m, r, c, t, ob, pd)"
    and "apart (take (nat (cp_index cp)) (sm_iterations m)) r"
    and "prior_observations w (take (nat (cp_index cp)) (sm_iterations m)) = Inr prior"
  shows "\<exists>m'. sw_session w' = ArtFile (Some (session_to_dict m')) \<and> sm_stop m' = ir_stop r' \<and>
    (sm_state m' = SessionActive \<longleftrightarrow>
       \<not> cp_goal cp \<and> \<not> cp_timed_out cp \<and> cp_exit cp \<noteq> JInt 124 \<and> pm_fatal (io_metrics ob) = 0 \<and>
       0 < pm_automatic (io_metrics ob) \<and> cp_index cp + 1 < sm_max m \<and> io_state_fp ob \<notin> io_state_fp ` set prior) \<and>
    (sm_state m' = SessionCompleted \<longleftrightarrow>
       cp_goal cp \<or> (\<not> cp_timed_out cp \<and> cp_exit cp \<noteq> JInt 124 \<and> pm_fatal (io_metrics ob) = 0 \<and>
         (pm_automatic (io_metrics ob) = 0 \<or> sm_max m \<le> cp_index cp + 1 \<or> io_state_fp ob \<in> io_state_fp ` set prior))) \<and>
    (sm_state m' = SessionFailed \<longleftrightarrow>
       \<not> cp_goal cp \<and> (cp_timed_out cp \<or> cp_exit cp = JInt 124 \<or> 0 < pm_fatal (io_metrics ob))) \<and>
    sm_stop m' =
      (if cp_goal cp then Some ''goal_reached''
       else if cp_timed_out cp \<or> cp_exit cp = JInt 124 then Some ''execution_timed_out''
       else if 0 < pm_fatal (io_metrics ob) then Some ''execution_crashed''
       else if prior \<noteq> [] \<and> io_state_fp ob = io_state_fp (last prior) then Some ''fixed_point''
       else if io_state_fp ob \<in> io_state_fp ` set prior then Some ''cycle_detected''
       else if pm_automatic (io_metrics ob) = 0 then Some ''no_automatic_repairs''
       else if sm_max m \<le> cp_index cp + 1 then Some ''budget_exhausted''
       else None) \<and>
    (sm_stop m' = None \<longleftrightarrow> sm_state m' = SessionActive) \<and> sm_stop m' \<noteq> Some (stop_reason_value StopExited)"
proof (rule complete_iteration_parts [OF assms(1)])
  fix m1 r1 c1 t1 ob1 pd1 stop res st
  assume ex: "examine_completion h w cp = Inr (m1, r1, c1, t1, ob1, pd1)"
    and stop: "decide_stop_reason (store_evidence r1 t1 ob1 w) m1 (nat (cp_index cp)) ob1 = Inr stop"
    and res: "build_attempt_result h c1 ob1 (tree_file t1 ''repair_plan.json'') (cp_exit cp) (cp_timed_out cp) = Inr res"
    and fin: "(Inr r', w') = finish_iteration h m1 (nat (cp_index cp)) r1 pd1 (resolve_transition (as_outcome res) stop)
       ((store_evidence r1 t1 ob1 w)\<lparr>sw_attempts := st\<rparr>)"
  have eq: "m1 = m" "r1 = r" "c1 = c" "t1 = t" "ob1 = ob" "pd1 = pd" using ex assms(2) by auto
  note obs = examine_observation [OF assms(2)]
  have index: "0 \<le> cp_index cp"
    using examine_completion_Inr [OF assms(2)] by (auto simp: latest_prepared_Inr)
  have stop': "stop = (if cp_goal cp then Some StopGoal else stop_for (cp_index cp) (sm_max m) prior ob)"
    using stop assms(3,4) obs(3) index by (auto simp: eq decide_stop_reason_def prior_store_evidence)
  obtain code where code: "check_exit_code (cp_exit cp) = Inr code" "as_outcome res = fst (classify_outcome ob code (cp_timed_out cp))"
    by (rule build_attempt_result_Inr [OF res]) (simp add: eq)
  have exit124: "code = Some 124 \<longleftrightarrow> cp_exit cp = JInt 124"
    using code(1) by (auto simp: check_exit_code_def split: json.splits)
  let ?v = "resolve_transition (as_outcome res) stop"
  have session: "sw_session w' = ArtFile (Some (session_to_dict (replace_session (sh_clock h 3) m
      ((sm_iterations m)[nat (cp_index cp) := completed_record r pd (snd ?v)]) (Some (fst ?v)) (map_option stop_reason_value (snd ?v)))))"
    and r': "ir_stop r' = map_option stop_reason_value (snd ?v)"
    using fin by (simp_all add: eq finish_iteration_def Let_def completed_record_def)
  let ?fp = "io_state_fp ob" and ?auto = "pm_automatic (io_metrics ob)" and ?budget = "sm_max m \<le> cp_index cp + 1"
  have verdict: "?v = (if cp_goal cp then (SessionCompleted, Some StopGoal)
      else if cp_timed_out cp \<or> cp_exit cp = JInt 124 then (SessionFailed, Some StopTimedOut)
      else if 0 < pm_fatal (io_metrics ob) then (SessionFailed, Some StopCrashed)
      else if prior \<noteq> [] \<and> ?fp = io_state_fp (last prior) then (SessionCompleted, Some StopFixedPoint)
      else if ?fp \<in> io_state_fp ` set prior then (SessionCompleted, Some StopCycle)
      else if ?auto = 0 then (SessionCompleted, Some StopNoRepairs)
      else if ?budget then (SessionCompleted, Some StopBudget) else (SessionActive, None))"
  proof -
    have "?fp \<in> io_state_fp ` set prior \<longleftrightarrow>
        prior \<noteq> [] \<and> ?fp = io_state_fp (last prior) \<or> list_ex (\<lambda>x. ?fp = io_state_fp x) (butlast prior)"
      by (cases prior rule: rev_cases) (auto simp: list_ex_iff)
    then show ?thesis
      using obs(1,2) by (simp add: code(2) classify_outcome_def obs(3) exit124 stop' resolve_transition_def stop_for_def)
  qed
  show ?thesis
    by (rule exI, rule conjI, rule session)
      (use obs(1,2) last_in_set [of prior] in \<open>auto simp: r' replace_session_def verdict image_iff\<close>)
qed

theorem completion_verdict_witness:
  "\<exists>r w m. complete_iteration ex_host ex_world (ex_completion (JInt 0)) = (Inr r, w) \<and>
    sw_session w = ArtFile (Some (session_to_dict m)) \<and> sm_state m = SessionCompleted"
proof -
  obtain r w where run: "complete_iteration ex_host ex_world (ex_completion (JInt 0)) = (Inr r, w)" using ex_completes by blast
  have index: "cp_index (ex_completion ex) = 0" "cp_exit (ex_completion ex) = ex" "\<not> cp_timed_out (ex_completion ex)" for ex
    by (simp_all add: ex_completion_def)
  have "apart (take (nat (cp_index (ex_completion (JInt 0)))) (sm_iterations ex_session)) ex_record"
      "prior_observations ex_world (take (nat (cp_index (ex_completion (JInt 0)))) (sm_iterations ex_session)) = Inr []"
    by (simp_all add: index apart_def prior_observations_def List.map_filter_simps)
  from completion_verdict [OF run ex_examine this] show ?thesis
    using run by (auto simp: index ex_observation_fields ex_metrics)
qed

section \<open>Sessions end\<close>

text \<open>
  C20: In any sequence of calls on a session, by whatever processes, at most \<open>2 * max_iterations\<close> calls
  of \<open>prepare_next\<close> and \<open>complete_iteration\<close> return; after that every call raises.
\<close>

theorem session_calls_bounded:
  assumes "session_run w n v" and "load_session (sw_session w) = Inr m"
  shows "int n \<le> 2 * sm_max m"
  using session_run_bound [OF assms] calls_left_bound [OF assms(2)] by linarith

theorem session_calls_bounded_witness:
  "\<exists>v. session_run ex_world 1 v \<and> int 1 \<le> 2 * sm_max ex_session"
proof -
  obtain r w where run: "complete_iteration ex_host ex_world (ex_completion (JInt 0)) = (Inr r, w)" using ex_completes by blast
  have step: "session_run ex_world 1 w"
    using session_run.completed [OF session_run.start run] by simp
  from session_calls_bounded [OF step controller_load_Inr [OF ex_load]] step show ?thesis by blast
qed

section \<open>A completion that fails late\<close>

lemma complete_iteration_late:
  assumes "examine_completion h w cp = Inr (m, r, c, t, ob, pd)" "complete_iteration h w cp = (Inl e, w')"
    and "sw_directory w" "\<not> sw_locked w"
  shows "sw_session w' = sw_session w" "sw_bundles w' (below (ir_directory r) [''artifacts'']) = Some t"
  using assms
  by (auto simp: complete_iteration_def with_lock_def finish_iteration_def store_evidence_def put_file_def Let_def
      split: sum.splits prod.splits)

lemma stored_artifacts_block:
  assumes "load_session (sw_session w) = Inr m" "sm_iterations m \<noteq> []"
    and "sw_bundles w (below (ir_directory (last (sm_iterations m))) [''artifacts'']) \<noteq> None"
  shows "\<exists>e. examine_completion h w cp = Inl e"
proof (cases "examine_completion h w cp")
  case (Inr x)
  then obtain m' r c t ob pd where x: "examine_completion h w cp = Inr (m', r, c, t, ob, pd)" by (cases x) auto
  from examine_completion_Inr [OF x] assms(1) have "m' = m" "r = last (sm_iterations m)"
    by (auto simp: latest_prepared_Inr)
  with x assms(3) show ?thesis
    by (auto simp: examine_completion_def gather_artifacts_def result_simps split: option.splits)
qed simp

text \<open>
  C25: A completion that raises after its artifacts were moved into place can never be repeated: the
  session stays active with the same prepared iteration, and from then on every completion and every
  preparation raises.
\<close>

theorem late_failure_blocks_session:
  assumes "examine_completion h w cp = Inr (m, r, c, t, ob, pd)" and "complete_iteration h w cp = (Inl e, w')"
    and "sw_directory w" and "\<not> sw_locked w"
  shows "load_session (sw_session w') = Inr m \<and> sm_state m = SessionActive \<and>
    (\<exists>d. complete_iteration h2 w' cp2 = (Inl d, w')) \<and> (\<exists>d. prepare_next h2 env w' = (Inl d, w'))"
proof (intro conjI)
  note late = complete_iteration_late [OF assms]
  from examine_completion_Inr [OF assms(1)] have load: "load_session (sw_session w) = Inr m"
    and r: "sm_state m = SessionActive" "sm_iterations m \<noteq> []" "r = last (sm_iterations m)" "ir_state r = IterationPrepared"
    by (auto simp: latest_prepared_Inr)
  show "load_session (sw_session w') = Inr m" "sm_state m = SessionActive" using load late(1) r(1) by auto
  have "\<exists>d. examine_completion h2 w' cp2 = Inl d"
    using stored_artifacts_block [of w' m] load late r by auto
  then show "\<exists>d. complete_iteration h2 w' cp2 = (Inl d, w')"
    by (auto simp: complete_iteration_def with_lock_def)
  have "controller_load h2 w' = Inr m \<or> (\<exists>d. controller_load h2 w' = Inl d)"
    using controller_load_Inr [of h2 w'] load late(1) by (cases "controller_load h2 w'") auto
  moreover have "next_index m = Inl SessStillPrepared" using r by (auto simp: next_index_def)
  ultimately show "\<exists>d. prepare_next h2 env w' = (Inl d, w')"
    by (auto simp: prepare_next_def with_lock_def)
qed

theorem late_failure_blocks_session_witness:
  "\<exists>w. complete_iteration ex_host ex_world (ex_completion (JBool True)) = (Inl SessExitCode, w) \<and>
     (\<exists>d. complete_iteration ex_host w (ex_completion (JInt 0)) = (Inl d, w))"
proof -
  have "sw_directory ex_world" "\<not> sw_locked ex_world" by (simp_all add: ex_world_def)
  from late_failure_blocks_session [OF ex_examine ex_refused this] ex_refused show ?thesis by blast
qed

section \<open>Stored artifacts\<close>

lemma option_eqI: "(\<And>s. x = Some s \<longleftrightarrow> y = Some s) \<Longrightarrow> x = y"
  by (cases x; cases y) auto

text \<open>
  C22: When the artifact manifest written for a directory verifies against a later content of it, every
  file except those named \<open>artifact_manifest.json\<close> has kept its text, no such file was added or
  removed, or SHA-256 collides on the two manifests or on the texts of one file.
\<close>

theorem verified_bundle_unchanged:
  assumes "wf_tree t" and "wf_tree u"
    and "verify_artifact_manifest (Some (JObj (build_artifact_manifest now t))) later u = Inr ()"
  shows "(\<forall>p. last p \<noteq> ''artifact_manifest.json'' \<longrightarrow> Option.bind (map_of t p) node_text = Option.bind (map_of u p) node_text) \<or>
    sha256_collision (bundle_text t) (bundle_text u) \<or>
    (\<exists>p a b. (p, a) \<in> set (bundle_files t) \<and> (p, b) \<in> set (bundle_files u) \<and> sha256_collision a b)"
proof (cases "bundle_text t = bundle_text u")
  case False
  then show ?thesis using assms(3) by (simp add: verify_artifact_manifest_def build_artifact_manifest_def guard_def sha256_collision_def split: if_splits)
next
  case True
  let ?c = "\<exists>p a b. (p, a) \<in> set (bundle_files t) \<and> (p, b) \<in> set (bundle_files u) \<and> sha256_collision a b"
  note dist = assms(1,2) [unfolded wf_tree_def]
  have same: "list_all2 (\<lambda>f g. fst f = fst g \<and> sha256_hex (snd f) = sha256_hex (snd g)) (bundle_files t) (bundle_files u)"
    by (rule bundle_text_eq [OF True assms(1,2)])
  have "bundle_files t = bundle_files u" if "\<not> ?c"
  proof (rule nth_equalityI)
    show "length (bundle_files t) = length (bundle_files u)" using same by (rule list_all2_lengthD)
    show "bundle_files t ! i = bundle_files u ! i" if i: "i < length (bundle_files t)" for i
    proof (rule prod_eqI)
      have eq: "fst (bundle_files t ! i) = fst (bundle_files u ! i)"
          "sha256_hex (snd (bundle_files t ! i)) = sha256_hex (snd (bundle_files u ! i))"
        using list_all2_nthD [OF same i] by auto
      have mem: "bundle_files t ! i \<in> set (bundle_files t)" "bundle_files u ! i \<in> set (bundle_files u)"
        using i list_all2_lengthD [OF same] by auto
      show "fst (bundle_files t ! i) = fst (bundle_files u ! i)" by (rule eq(1))
      show "snd (bundle_files t ! i) = snd (bundle_files u ! i)"
      proof (rule ccontr)
        assume "snd (bundle_files t ! i) \<noteq> snd (bundle_files u ! i)"
        then have "sha256_collision (snd (bundle_files t ! i)) (snd (bundle_files u ! i))"
          using eq(2) by (simp add: sha256_collision_def)
        moreover have "(fst (bundle_files t ! i), snd (bundle_files t ! i)) \<in> set (bundle_files t)"
          using mem(1) by simp
        moreover have "(fst (bundle_files t ! i), snd (bundle_files u ! i)) \<in> set (bundle_files u)"
          using mem(2) by (simp add: eq(1))
        ultimately show False using \<open>\<not> ?c\<close> by blast
      qed
    qed
  qed
  moreover have "Option.bind (map_of t p) node_text = Option.bind (map_of u p) node_text"
    if eq: "bundle_files t = bundle_files u" and p: "last p \<noteq> ''artifact_manifest.json''" for p
  proof (rule option_eqI)
    have look: "(p, s) \<in> set (bundle_files x) \<longleftrightarrow> Option.bind (map_of x p) node_text = Some s" if "distinct (map fst x)" for x s
      by (simp only: bundle_files_lookup [OF that] p simp_thms)
    show "Option.bind (map_of t p) node_text = Some s \<longleftrightarrow> Option.bind (map_of u p) node_text = Some s" for s
      unfolding look [OF dist(1) [THEN conjunct1], symmetric] look [OF dist(2) [THEN conjunct1], symmetric] eq ..
  qed
  ultimately show ?thesis by blast
qed

theorem verified_bundle_unchanged_witness:
  "verify_artifact_manifest (Some (JObj (build_artifact_manifest ''t'' ex_tree))) ''u'' ex_stored = Inr () \<and>
    (sha256_collision (bundle_text ex_tree) (bundle_text ex_stored) \<or>
     (\<exists>p a b. (p, a) \<in> set (bundle_files ex_tree) \<and> (p, b) \<in> set (bundle_files ex_stored) \<and> sha256_collision a b) \<or>
     Option.bind (map_of ex_stored [''repair_plan.json'']) node_text = Some ''P'')"
proof -
  have wf: "wf_tree ex_tree" "wf_tree ex_stored"
    by (auto simp: wf_tree_def ex_tree_def ex_stored_def put_node_def plain_component_def)
  have verified: "verify_artifact_manifest (Some (JObj (build_artifact_manifest ''t'' ex_tree))) ''u'' ex_stored = Inr ()"
    by (simp add: verify_artifact_manifest_def build_artifact_manifest_def guard_def bundle_text_def ex_stored_def put_manifest_files)
  have "Option.bind (map_of ex_tree [''repair_plan.json'']) node_text = Some ''P''" by (simp add: ex_tree_def)
  with verified_bundle_unchanged [OF wf verified] verified show ?thesis by fastforce
qed

section \<open>What a repeated state means\<close>

text \<open>
  C21: Two iterations with the same state fingerprint, which the controller takes for a fixed point or a
  cycle, ran on the same snapshot with the same normalized requirements, repairs, guest events and
  network events, and have the same metrics; or SHA-256 collides on one of the four pairs of texts.
\<close>

theorem repeated_state_is_same_state:
  assumes e1: "collect_evidence l1 v1 = Inr (t1, p1, reqs1, reps1, g1, n1)"
    and e2: "collect_evidence l2 v2 = Inr (t2, p2, reqs2, reps2, g2, n2)"
    and ob1: "observe_artifacts l1 now1 v1 s1 goal1 why1 = Inr ob1"
    and ob2: "observe_artifacts l2 now2 v2 s2 goal2 why2 = Inr ob2"
    and same: "io_state_fp ob1 = io_state_fp ob2"
  shows "(s1 = s2 \<and> reqs1 = reqs2 \<and> reps1 = reps2 \<and> g1 = g2 \<and> n1 = n2 \<and> io_metrics ob1 = io_metrics ob2) \<or>
    sha256_collision
      (canonical_json (state_payload s1 (io_requirements_fp ob1) (io_repair_fp ob1) (io_behavior_fp ob1)))
      (canonical_json (state_payload s2 (io_requirements_fp ob2) (io_repair_fp ob2) (io_behavior_fp ob2))) \<or>
    sha256_collision (canonical_json (JList (map norm_requirement_json reqs1))) (canonical_json (JList (map norm_requirement_json reqs2))) \<or>
    sha256_collision (canonical_json (JList (map norm_repair_json reps1))) (canonical_json (JList (map norm_repair_json reps2))) \<or>
    sha256_collision (canonical_json (behavior_payload g1 n1)) (canonical_json (behavior_payload g2 n2))"
proof -
  have o1: "ob1 = make_observation now1 s1 goal1 why1 (t1, p1, reqs1, reps1, g1, n1)"
    and o2: "ob2 = make_observation now2 s2 goal2 why2 (t2, p2, reqs2, reps2, g2, n2)"
    using ob1 ob2 by (auto simp: observe_artifacts_def e1 e2)
  obtain raw1 fg1 fn1 where n1: "normalize_requirements raw1 = Inr reqs1" "normalize_guest_events l1 fg1 = Inr g1"
      "normalize_network_events l1 fn1 = Inr n1" by (rule collect_evidence_normal [OF e1])
  obtain raw2 fg2 fn2 where n2: "normalize_requirements raw2 = Inr reqs2" "normalize_guest_events l2 fg2 = Inr g2"
      "normalize_network_events l2 fn2 = Inr n2" by (rule collect_evidence_normal [OF e2])
  have "canonical_sha256 (state_payload s1 (io_requirements_fp ob1) (io_repair_fp ob1) (io_behavior_fp ob1)) =
      canonical_sha256 (state_payload s2 (io_requirements_fp ob2) (io_repair_fp ob2) (io_behavior_fp ob2))"
    using same by (simp add: o1 o2 make_observation_def Let_def)
  from state_fingerprint_eq [OF this] show ?thesis
  proof (elim disjE)
    assume *: "s1 = s2 \<and> io_requirements_fp ob1 = io_requirements_fp ob2 \<and> io_repair_fp ob1 = io_repair_fp ob2 \<and>
      io_behavior_fp ob1 = io_behavior_fp ob2"
    then have fps: "canonical_sha256 (JList (map norm_requirement_json reqs1)) = canonical_sha256 (JList (map norm_requirement_json reqs2))"
        "canonical_sha256 (JList (map norm_repair_json reps1)) = canonical_sha256 (JList (map norm_repair_json reps2))"
        "canonical_sha256 (behavior_payload g1 n1) = canonical_sha256 (behavior_payload g2 n2)"
      by (simp_all add: o1 o2 make_observation_def Let_def)
    have "io_metrics ob1 = build_metrics reqs1 reps1 g1 n1" "io_metrics ob2 = build_metrics reqs2 reps2 g2 n2"
      by (simp_all add: o1 o2 make_observation_def Let_def)
    with requirements_fingerprint_eq [OF n1(1) n2(1) fps(1)] repairs_fingerprint_eq [OF fps(2)]
      behavior_fingerprint_eq [OF n1(2,3) n2(2,3) fps(3)] * show ?thesis by metis
  qed simp
qed

theorem repeated_state_is_same_state_witness:
  "\<exists>e. collect_evidence (sh_loads ex_host) (tree_view ex_tree) = Inr e \<and>
    (snd (snd e) = snd (snd e) \<or> sha256_collision (fst e) (fst (snd e)))"
proof -
  obtain t p reqs reps g n where e: "collect_evidence (sh_loads ex_host) (tree_view ex_tree) = Inr (t, p, reqs, reps, g, n)"
    using ex_observes by (auto simp: observe_artifacts_def ebind_Inr_iff)
  from repeated_state_is_same_state [OF e e ex_observes ex_observes refl] e show ?thesis by auto
qed

section \<open>Persisted state\<close>

text \<open>
  C30: A well-formed session manifest and a well-formed observation load back exactly as they were
  written, and what loads as an iteration record is well-formed.
\<close>

theorem session_files_round_trip:
  assumes "wf_session m" and "wf_observation ob"
  shows "load_session (ArtFile (Some (session_to_dict m))) = Inr m \<and>
    observation_from_dict (observation_to_dict ob) = Inr ob \<and> (record_from_dict v = Inr r \<longrightarrow> wf_record r)"
  using session_roundtrip [OF assms(1)] observation_roundtrip [OF assms(2)] record_accepts by (simp add: load_session_def)

theorem session_files_round_trip_witness:
  "load_session (ArtFile (Some (session_to_dict ex_session))) = Inr ex_session \<and>
    observation_from_dict (observation_to_dict ex_observation) = Inr ex_observation"
proof -
  have "example_time \<noteq> []" by code_simp
  from session_files_round_trip [OF ex_session_wf observe_wf [OF ex_observes this]] show ?thesis by simp
qed

end
