(* ===== verification/Environment_Properties.thy ===== *)
theory Environment_Properties
  imports Environment_Manifest Attempt_Properties
begin

text \<open>
  Properties of the environment manifests: what the identifier of the last manifest of a chain fixes,
  what saving does to a store, and what a comparison reports.
\<close>

section \<open>What a digest fixes\<close>

lemma float_free_opt_json [simp]: "float_free (opt_json JStr os)" "float_free (opt_json JInt oi)"
  by (cases os; cases oi; simp add: opt_json_def)+

lemma sort_opt_json [simp]: "sort_json (opt_json JStr os) = opt_json JStr os" "sort_json (opt_json JInt oi) = opt_json JInt oi"
  by (cases os; cases oi; simp add: opt_json_def)+

lemma opt_json_inj [simp]:
  "opt_json JStr os = opt_json JStr os' \<longleftrightarrow> os = os'" "opt_json JInt oi = opt_json JInt oi' \<longleftrightarrow> oi = oi'"
  by (cases os; cases os'; cases oi; cases oi'; simp add: opt_json_def)+

lemma evidence_json_inj:
  assumes "sort_json (manifest_evidence_json e) = sort_json (manifest_evidence_json f)"
  shows "e = f"
proof -
  let ?d = "\<lambda>e. [(''evidence_id'', JStr (me_id e)), (''kind'', JStr (evidence_kind_value (me_kind e))),
      (''attempt_id'', JStr (me_attempt e)), (''artifact_sha256'', JStr (me_sha e))]"
  have "sort_json (JObj (?d e)) = sort_json (JObj (?d f))" using assms by (simp only: manifest_evidence_json_def)
  note get = sorted_jget [OF this]
  show ?thesis
    using get [of "''evidence_id''"] get [of "''kind''"] get [of "''attempt_id''"] get [of "''artifact_sha256''"]
    by (cases e; cases f) (auto dest: evidence_kind_enum.val_eq)
qed

lemma map_inj_eq: "map g xs = map g ys \<Longrightarrow> (\<And>x y. g x = g y \<Longrightarrow> x = y) \<Longrightarrow> xs = ys"
  by (metis injI inj_map_eq_map)

lemma entry_float_free [simp]: "float_free (entry_to_dict e)" "float_free (JObj (entry_identity e))"
  by (simp_all add: entry_to_dict_def entry_identity_def list_all_iff manifest_evidence_json_def)

lemma entry_keys: "distinct (map fst (entry_identity e))" "distinct (map fst (entry_identity e @ [(''entry_sha256'', JStr s)]))"
  by (simp_all add: entry_identity_def)

lemma entry_get_inj:
  assumes get: "\<And>k. k \<noteq> ''entry_sha256'' \<Longrightarrow> sort_json (jget (entry_identity e) k) = sort_json (jget (entry_identity f) k)"
  shows "e = f"
proof -
  have "map sort_json (map manifest_evidence_json (en_evidence e)) = map sort_json (map manifest_evidence_json (en_evidence f))"
    using get [of "''evidence''"] by (simp add: entry_identity_def)
  then have "en_evidence e = en_evidence f"
    unfolding map_map by (rule map_inj_eq) (simp add: evidence_json_inj)
  moreover have "en_resource e = en_resource f" "en_kind e = en_kind f" "en_scope e = en_scope f" "en_stage e = en_stage f"
    using get [of "''resource_id''"] get [of "''kind''"] get [of "''lifecycle_scope''"] get [of "''first_seen_stage''"]
    by (simp_all add: entry_identity_def resource_kind_enum.val_eq scope_enum.val_eq stage_enum.val_eq)
  moreover have "en_attempt e = en_attempt f" "en_provider e = en_provider f" "en_value e = en_value f"
      "en_value_sha e = en_value_sha f" "en_pc e = en_pc f"
    using get [of "''first_seen_attempt_id''"] get [of "''provider''"] get [of "''value_id''"] get [of "''value_sha256''"]
      get [of "''consumer_pc''"]
    by (simp_all add: entry_identity_def)
  moreover have "en_confidence e = en_confidence f" "en_status e = en_status f"
    using get [of "''confidence''"] get [of "''status''"]
    by (simp_all add: entry_identity_def confidence_enum.val_eq entry_status_enum.val_eq)
  ultimately show ?thesis by simp
qed

lemma jget_snoc: "k \<noteq> l \<Longrightarrow> jget (d @ [(l, v)]) k = jget d k"
  by (induction d) (auto simp: jget_or_def split: option.splits)

lemma entry_json_inj:
  assumes "sort_json (entry_to_dict e) = sort_json (entry_to_dict f)"
  shows "e = f"
proof (rule entry_get_inj)
  fix k :: string
  assume "k \<noteq> ''entry_sha256''"
  then show "sort_json (jget (entry_identity e) k) = sort_json (jget (entry_identity f) k)"
    using sorted_jget [OF assms [unfolded entry_to_dict_def] entry_keys(2) entry_keys(2), of k] by (simp only: jget_snoc not_False_eq_True)
qed

lemma entry_sha256_eq:
  assumes "entry_sha256 e = entry_sha256 f"
  shows "e = f \<or> sha256_collision (canonical_json (JObj (entry_identity e))) (canonical_json (JObj (entry_identity f)))"
  using canonical_sha256_eq [OF assms [unfolded entry_sha256_def] entry_float_free(2) entry_float_free(2)]
    entry_get_inj [OF sorted_jget [OF _ entry_keys(1) entry_keys(1)]] by blast

text \<open>The content of a manifest: everything but the time it was generated at, which no digest covers.\<close>

definition undated :: "env_manifest \<Rightarrow> env_manifest" where
  "undated m = m\<lparr>em_generated := []\<rparr>"

lemma manifest_float_free [simp]: "float_free (JObj (manifest_identity m))"
  by (simp add: manifest_identity_def list_all_iff)

lemma manifest_keys: "distinct (map fst (manifest_identity m))"
  by (simp add: manifest_identity_def)

lemma manifest_json_inj:
  assumes "sort_json (JObj (manifest_identity m)) = sort_json (JObj (manifest_identity n))"
  shows "undated m = undated n"
proof -
  note get = sorted_jget [OF assms manifest_keys manifest_keys]
  have "map sort_json (map entry_to_dict (em_entries m)) = map sort_json (map entry_to_dict (em_entries n))"
    using get [of "''entries''"] by (simp add: manifest_identity_def)
  then have "em_entries m = em_entries n"
    unfolding map_map by (rule map_inj_eq) (simp add: entry_json_inj)
  moreover have "em_sample m = em_sample n" "em_version m = em_version n" "em_rootfs m = em_rootfs n"
      "em_attempt m = em_attempt n" "em_reason m = em_reason n" "em_parent_version m = em_parent_version n"
      "em_parent_id m = em_parent_id n" "em_schema m = em_schema n" "em_model m = em_model n"
    using get [of "''sample_sha256''"] get [of "''manifest_version''"] get [of "''rootfs_snapshot_id''"]
      get [of "''created_by_attempt_id''"] get [of "''change_reason''"] get [of "''parent_version''"]
      get [of "''parent_manifest_id''"] get [of "''schema_version''"] get [of "''model_version''"]
    by (simp_all add: manifest_identity_def)
  ultimately show ?thesis by (simp add: undated_def)
qed

text \<open>An identifier names the version and sixteen hexadecimal digits of the digest.\<close>

definition short_collision :: "string \<Rightarrow> string \<Rightarrow> bool" where
  "short_collision a b \<longleftrightarrow> a \<noteq> b \<and> take 16 (sha256_hex a) = take 16 (sha256_hex b)"

lemma pad4_digits: "list_all ascii_digit (pad4 n)"
  using show_nat_digits [of n] by (auto simp: pad4_def Let_def list_all_iff ascii_digit_def)

lemma digits_value_zeros: "digits_value (replicate k (CHR ''0'') @ s) = digits_value s"
  by (induction k) (simp_all add: digits_value_def digit_value_def)

lemma pad4_value: "digits_value (pad4 n) = n"
  by (simp add: pad4_def Let_def digits_value_zeros digits_value_show_nat)

lemma split_at_minus:
  assumes "xs @ CHR ''-'' # us = ys @ CHR ''-'' # vs" "list_all ascii_digit xs" "list_all ascii_digit ys"
  shows "xs = ys \<and> us = vs"
  using assms by (induction xs arbitrary: ys) (case_tac ys; auto)+

lemma manifest_id_eq:
  assumes "manifest_id m = manifest_id n"
  shows "nat (em_version m) = nat (em_version n)"
    and "undated m = undated n \<or>
      short_collision (canonical_json (JObj (manifest_identity m))) (canonical_json (JObj (manifest_identity n)))"
proof -
  from assms have "pad4 (nat (em_version m)) @ CHR ''-'' # take 16 (manifest_sha256 m) =
      pad4 (nat (em_version n)) @ CHR ''-'' # take 16 (manifest_sha256 n)"
    by (simp add: manifest_id_def)
  from split_at_minus [OF this pad4_digits pad4_digits]
  have pad: "pad4 (nat (em_version m)) = pad4 (nat (em_version n))"
    and short: "take 16 (manifest_sha256 m) = take 16 (manifest_sha256 n)" by blast+
  show "nat (em_version m) = nat (em_version n)"
    using arg_cong [where f = digits_value, OF pad] by (simp add: pad4_value)
  show "undated m = undated n \<or>
      short_collision (canonical_json (JObj (manifest_identity m))) (canonical_json (JObj (manifest_identity n)))"
  proof (cases "canonical_json (JObj (manifest_identity m)) = canonical_json (JObj (manifest_identity n))")
    case True
    then have "undated m = undated n" by (rule manifest_json_inj [OF canonical_json_inj [OF _ manifest_float_free manifest_float_free]])
    then show ?thesis ..
  next
    case False
    with short show ?thesis by (simp add: short_collision_def manifest_sha256_def canonical_sha256_def)
  qed
qed

section \<open>Chains of digests\<close>

text \<open>Elements that name their predecessor by a tag: the tag is part of the content.\<close>

locale tag_chain =
  fixes content :: "'a \<Rightarrow> 'b"
    and tag :: "'a \<Rightarrow> 't"
    and follows :: "'a \<Rightarrow> 'a \<Rightarrow> bool"
  assumes tag_of_parent: "follows p c \<Longrightarrow> follows q d \<Longrightarrow> content c = content d \<Longrightarrow> tag p = tag q"
begin

lemma last_tag_fixes_chain:
  assumes "successively follows xs" "successively follows ys" "length xs = length ys" "xs \<noteq> []"
    and "tag (last xs) = tag (last ys)"
  shows "map content xs = map content ys \<or> (\<exists>k < length xs. content (xs ! k) \<noteq> content (ys ! k) \<and> tag (xs ! k) = tag (ys ! k))"
  using assms
proof (induction xs arbitrary: ys rule: rev_induct)
  case (snoc x xs)
  from snoc.prems(3) obtain zs z where ys: "ys = zs @ [z]" and len: "length xs = length zs"
    by (cases ys rule: rev_cases) auto
  show ?case
  proof (cases "content x = content z \<and> xs \<noteq> []")
    case True
    with len have ne: "zs \<noteq> []" by auto
    with True snoc.prems(1,2) have "follows (last xs) x" "follows (last zs) z"
        "successively follows xs" "successively follows zs"
      by (simp_all add: ys successively_append_iff)
    then have "tag (last xs) = tag (last zs)" using True tag_of_parent by blast
    with snoc.IH [of zs] len True \<open>successively follows xs\<close> \<open>successively follows zs\<close>
    consider "map content xs = map content zs"
      | k where "k < length xs" "content (xs ! k) \<noteq> content (zs ! k)" "tag (xs ! k) = tag (zs ! k)"
      by blast
    then show ?thesis
    proof cases
      case 1
      with True show ?thesis by (simp add: ys)
    next
      case (2 k)
      with len have "content ((xs @ [x]) ! k) \<noteq> content (ys ! k) \<and> tag ((xs @ [x]) ! k) = tag (ys ! k)"
        by (simp add: ys nth_append)
      with 2(1) show ?thesis by (intro disjI2 exI [of _ k]) simp
    qed
  next
    case False
    show ?thesis
    proof (cases "content x = content z")
      case True
      with False len show ?thesis by (simp add: ys)
    next
      case diff: False
      have "tag x = tag z" using snoc.prems(5) by (simp add: ys)
      with diff len have "content ((xs @ [x]) ! length xs) \<noteq> content (ys ! length xs) \<and>
          tag ((xs @ [x]) ! length xs) = tag (ys ! length xs)"
        by (simp add: ys nth_append)
      then show ?thesis by auto
    qed
  qed
qed simp

end

lemma validate_parent_Inr:
  "validate_parent c p = Inr u \<longleftrightarrow> em_sample c = em_sample p \<and> em_parent_version c = Some (em_version p) \<and>
     em_parent_id c = Some (manifest_id p)"
  by (auto simp: validate_parent_def result_simps)

interpretation manifests: tag_chain undated manifest_id "\<lambda>p c. validate_parent c p = Inr ()"
proof
  fix p c q d :: env_manifest
  assume links: "validate_parent c p = Inr ()" "validate_parent d q = Inr ()" and "undated c = undated d"
  from this(3) have "em_parent_id (undated c) = em_parent_id (undated d)" by simp
  with links show "manifest_id p = manifest_id q" by (simp add: validate_parent_Inr undated_def)
qed

lemma check_chain_links_Inr: "check_chain_links ms = Inr u \<longleftrightarrow> successively (\<lambda>p c. validate_parent c p = Inr ()) ms"
  by (induction ms rule: check_chain_links.induct) (auto simp: result_simps)

lemma check_manifest_id: "check_manifest m = Inr n \<Longrightarrow> n = m"
  by (simp add: check_manifest_Inr)

lemma decode_manifest_wf: "decode_manifest v = Inr m \<Longrightarrow> wf_manifest m"
  by (cases v) (simp_all add: decode_manifest_def manifest_accepts)

lemma verify_env_chain_Inr:
  assumes "verify_env_chain s through = Inr ms"
  shows "ms \<noteq> []" "map em_version ms = map int [0..<length ms]" "successively (\<lambda>p c. validate_parent c p = Inr ()) ms"
    "\<forall>m \<in> set ms. wf_manifest m"
proof -
  from assms obtain fs vs where fs: "chain_files fs through \<noteq> []" and vs: "emap plain_file (chain_files fs through) = Inr vs"
      and ms: "emap decode_manifest vs = Inr ms" and versions: "map em_version ms = map int [0..<length ms]"
      and links: "check_chain_links ms = Inr ()"
    by (auto simp: verify_env_chain_def result_simps split: env_store.splits)
  show "ms \<noteq> []" using fs emap_length [OF vs] emap_length [OF ms] by auto
  show "map em_version ms = map int [0..<length ms]" by fact
  show "successively (\<lambda>p c. validate_parent c p = Inr ()) ms" using links by (simp add: check_chain_links_Inr)
  show "\<forall>m \<in> set ms. wf_manifest m"
    using emap_set [OF ms] decode_manifest_wf by blast
qed

lemma version_nth:
  assumes "map em_version ms = map int [0..<length ms]" "k < length ms"
  shows "em_version (ms ! k) = int k"
  using arg_cong [where f = "\<lambda>xs. xs ! k", OF assms(1)] assms(2) by simp

text \<open>Example manifests, on which the properties are applied\<close>

definition example_entry :: manifest_entry where
  "example_entry =
     \<lparr>en_resource = ''e1'', en_kind = ResDirectory, en_scope = ScopeUnknown, en_stage = PreOepDiscovery, en_attempt = ''e1'',
      en_provider = ''e'', en_value = ''e1'', en_value_sha = example_sha,
      en_evidence = [\<lparr>me_id = ''e1'', me_kind = EvRuntime, me_attempt = ''e1'', me_sha = example_sha\<rparr>],
      en_confidence = ConfObserved, en_status = EntryActive, en_pc = None\<rparr>"

definition example_seed :: "string \<Rightarrow> manifest_entry list \<Rightarrow> env_manifest" where
  "example_seed rootfs es =
     \<lparr>em_sample = example_sha, em_version = 0, em_rootfs = rootfs, em_entries = es, em_attempt = ''e1'', em_reason = ''r'',
      em_parent_version = None, em_parent_id = None, em_schema = 2, em_model = 1, em_generated = example_time\<rparr>"

definition example_next :: "env_manifest \<Rightarrow> env_manifest" where
  "example_next m =
     \<lparr>em_sample = example_sha, em_version = 1, em_rootfs = ''e2'', em_entries = [], em_attempt = ''e1'', em_reason = ''r'',
      em_parent_version = Some 0, em_parent_id = Some (manifest_id m), em_schema = 2, em_model = 1,
      em_generated = example_time\<rparr>"

lemma lower_hex_identifier: "lower_hex c \<Longrightarrow> env_identifier_char c"
  by (auto simp: lower_hex_def env_identifier_char_def ascii_lower_def)

lemma pad4_zero: "pad4 0 = ''0000''"
  by code_simp

lemma example_identifiers [simp]: "is_env_identifier ''e1''" "is_env_identifier ''e2''" "is_provider ''e''"
  by (simp_all add: is_env_identifier_def is_provider_def env_identifier_char_def ascii_upper_def ascii_lower_def ascii_digit_def)

lemma seed_id_identifier:
  assumes "em_version m = 0"
  shows "is_env_identifier (manifest_id m)"
proof -
  have "is_sha256 (manifest_sha256 m)" by (simp add: manifest_sha256_def)
  then have "list_all env_identifier_char (take 16 (manifest_sha256 m))"
    using lower_hex_identifier by (auto simp: is_sha256_def list_all_iff dest: in_set_takeD)
  then show ?thesis
    using assms by (simp add: manifest_id_def pad4_zero is_env_identifier_def env_identifier_char_def
        ascii_upper_def ascii_lower_def ascii_digit_def)
qed

lemma example_reason: "py_strip ''r'' \<noteq> []"
  by (simp add: py_strip_def rstrip_while_def py_space_def)

lemma example_entry_wf: "wf_entry example_entry"
  by (simp add: wf_entry_def example_entry_def check_entry_Inr check_evidence_Inr)

lemma example_seed_wf:
  assumes "is_env_identifier rootfs" "es \<in> {[], [example_entry]}"
  shows "wf_manifest (example_seed rootfs es)"
  using assms example_time_instant example_reason example_entry_wf
  by (auto simp: wf_manifest_def check_manifest_Inr check_lineage_Inr example_seed_def)

lemma example_seed_fields [simp]: "em_version (example_seed rootfs es) = 0" "em_entries (example_seed rootfs es) = es"
    "em_rootfs (example_seed rootfs es) = rootfs" "em_sample (example_seed rootfs es) = example_sha"
  by (simp_all add: example_seed_def)

lemma example_derived:
  "derive_manifest example_time (example_seed rootfs es) ''e2'' [] ''e1'' ''r'' = Inr (example_next (example_seed rootfs es))"
proof -
  have "check_manifest (example_next (example_seed rootfs es)) = Inr (example_next (example_seed rootfs es))"
    using example_time_instant example_reason seed_id_identifier [of "example_seed rootfs es"]
    by (auto simp: check_manifest_Inr check_lineage_Inr example_next_def)
  then show ?thesis by (simp add: derive_manifest_def example_next_def)
qed

lemma example_next_wf: "wf_manifest (example_next (example_seed rootfs es))"
  using example_derived [of rootfs es] check_manifest_id
  by (simp add: wf_manifest_def derive_manifest_def) (simp add: example_next_def)

section \<open>Saving extends the chain\<close>

text \<open>What a store holds after serial saves: the manifests of a history, each under its version.\<close>

definition env_history :: "env_manifest list \<Rightarrow> bool" where
  "env_history ms \<longleftrightarrow> map em_version ms = map int [0..<length ms] \<and>
     successively (\<lambda>p c. validate_parent c p = Inr ()) ms \<and> (\<forall>m \<in> set ms. wf_manifest m)"

definition version_file :: "env_manifest \<Rightarrow> int \<times> manifest_file" where
  "version_file m = (em_version m, EnvFile (Some (manifest_to_dict m)))"

definition store_of :: "env_manifest list \<Rightarrow> env_store" where
  "store_of ms = EnvDir (map version_file ms)"

lemma history_version: "env_history ms \<Longrightarrow> k < length ms \<Longrightarrow> em_version (ms ! k) = int k"
  by (simp add: env_history_def version_nth)

lemma map_of_nth_key:
  assumes "map fst xs = map int [0..<length xs]"
  shows "map_of xs i = (if 0 \<le> i \<and> i < int (length xs) then Some (snd (xs ! nat i)) else None)"
proof (cases "0 \<le> i \<and> i < int (length xs)")
  case True
  then have "xs ! nat i \<in> set xs" "fst (xs ! nat i) = i"
    using arg_cong [where f = "\<lambda>ys. ys ! nat i", OF assms] by (auto simp: nat_less_iff)
  moreover have "distinct (map fst xs)" by (simp add: assms distinct_map)
  ultimately show ?thesis using True by (metis map_of_is_SomeI prod.collapse)
next
  case False
  then have "i \<notin> set (map fst xs)" by (auto simp: assms)
  then have "map_of xs i = None" by (simp add: map_of_eq_None_iff)
  with False show ?thesis by auto
qed

lemma history_file:
  assumes "env_history ms"
  shows "map_of (map version_file ms) i =
    (if 0 \<le> i \<and> i < int (length ms) then Some (EnvFile (Some (manifest_to_dict (ms ! nat i)))) else None)"
  using map_of_nth_key [of "map version_file ms" i] assms
  by (simp add: env_history_def version_file_def comp_def nat_less_iff)

lemma history_wf: "env_history ms \<Longrightarrow> k < length ms \<Longrightarrow> manifest_from_dict (manifest_to_dict (ms ! k)) = Inr (ms ! k)"
  by (simp add: env_history_def manifest_roundtrip)

lemma history_load:
  assumes "env_history ms"
  shows "env_load (store_of ms) i =
    (if i < 0 then Inl EnvNegative else if i < int (length ms) then Inr (ms ! nat i) else Inl EnvFileInvalid)"
  using history_wf [OF assms, of "nat i"] history_file [OF assms, of i]
  by (simp add: env_load_def store_of_def guard_def decode_manifest_def nat_less_iff)

lemma history_load_last:
  assumes "env_history ms" "ms \<noteq> []"
  shows "env_load (store_of ms) (int (length ms) - 1) = Inr (last ms)"
proof -
  have "nat (int (length ms) - 1) = length ms - 1" by linarith
  with assms history_load [OF assms(1), of "int (length ms) - 1"] show ?thesis by (cases ms) (auto simp: last_conv_nth)
qed

lemma put_version_new: "map_of fs k = None \<Longrightarrow> put_version k f fs = fs @ [(k, f)]"
  by (induction k f fs rule: put_version.induct) (auto split: if_splits)

lemma map_of_put_version: "map_of (put_version k f fs) l = (if l = k then Some f else map_of fs l)"
  by (induction k f fs rule: put_version.induct) auto

lemma history_snoc:
  "env_history (ms @ [m]) \<longleftrightarrow> env_history ms \<and> wf_manifest m \<and> em_version m = int (length ms) \<and>
     (ms = [] \<or> validate_parent m (last ms) = Inr ())"
  by (auto simp: env_history_def successively_append_iff)

lemma wf_manifest_version: "wf_manifest m \<Longrightarrow> 0 \<le> em_version m"
  by (auto simp: wf_manifest_def check_manifest_Inr)

lemma save_history:
  assumes hist: "env_history ms" and wf: "wf_manifest m" and save: "env_save (\<lambda>s. s) (store_of ms) m = (out, t)"
  shows "(out = Inr () \<and> t = store_of ms \<and> (\<exists>k < length ms. em_version m = int k \<and> manifest_id (ms ! k) = manifest_id m)) \<or>
    (out = Inr () \<and> t = store_of (ms @ [m]) \<and> env_history (ms @ [m])) \<or> ((\<exists>e. out = Inl e) \<and> t = store_of ms)"
proof -
  let ?v = "em_version m"
  have v: "0 \<le> ?v" using wf by (rule wf_manifest_version)
  consider (old) "?v < int (length ms)" | (fresh) "?v = int (length ms)" | (gap) "int (length ms) < ?v" by linarith
  then show ?thesis
  proof cases
    case old
    with v have k: "nat ?v < length ms" by linarith
    have "out = (if manifest_id (ms ! nat ?v) = manifest_id m then Inr () else Inl (EnvImmutable ?v)) \<and> t = store_of ms"
      using save old v history_file [OF hist, of ?v] history_wf [OF hist k]
      by (auto simp: env_save_def store_of_def decode_manifest_def split: if_splits)
    with k v show ?thesis by (auto split: if_splits)
  next
    case fresh
    have none: "map_of (map version_file ms) ?v = None" using history_file [OF hist, of ?v] fresh by simp
    show ?thesis
    proof (cases "ms = []")
      case True
      with save v none fresh hist wf history_snoc [of "[]" m] show ?thesis
        by (simp add: env_save_def store_of_def rename_over_def version_file_def)
    next
      case False
      then have load: "env_load (store_of ms) (?v - 1) = Inr (last ms)" using history_load_last [OF hist] fresh by simp
      show ?thesis
      proof (cases "validate_parent m (last ms)")
        case (Inl e)
        with save v none fresh False load have "out = Inl e" "t = store_of ms" by (simp_all add: env_save_def store_of_def)
        then show ?thesis by blast
      next
        case (Inr u)
        with save v none fresh False load have "out = Inr ()" "t = store_of (ms @ [m])"
          by (simp_all add: env_save_def store_of_def rename_over_def put_version_new version_file_def)
        moreover from Inr hist wf fresh have "env_history (ms @ [m])" by (simp add: history_snoc)
        ultimately show ?thesis by blast
      qed
    qed
  next
    case gap
    have "map_of (map version_file ms) ?v = None" using history_file [OF hist, of ?v] gap by simp
    moreover have "env_load (store_of ms) (?v - 1) = Inl EnvFileInvalid" using history_load [OF hist, of "?v - 1"] gap by simp
    ultimately show ?thesis using save v gap by (auto simp: env_save_def store_of_def)
  qed
qed

text \<open>
  A store that only serial saves of valid manifests have written.
\<close>

inductive env_saved :: "env_store \<Rightarrow> bool" where
  start: "env_saved EnvNoStore"
| saved: "env_saved s \<Longrightarrow> wf_manifest m \<Longrightarrow> env_save (\<lambda>s. s) s m = (out, t) \<Longrightarrow> env_saved t"

lemma env_save_created: "env_save between EnvNoStore m = env_save between (store_of []) m"
  by (simp add: env_save_def store_of_def)

lemma history_Nil [simp]: "env_history []"
  by (simp add: env_history_def)

lemma env_saved_history:
  assumes "env_saved s"
  shows "\<exists>ms. env_history ms \<and> (s = store_of ms \<or> s = EnvNoStore \<and> ms = [])"
  using assms
proof induction
  case start
  then show ?case by (auto intro: exI [of _ "[]"])
next
  case (saved s m out t)
  then obtain ms where hist: "env_history ms" and s: "s = store_of ms \<or> s = EnvNoStore \<and> ms = []" by blast
  with saved.hyps(3) have "env_save (\<lambda>s. s) (store_of ms) m = (out, t)" by (auto simp: env_save_created)
  from save_history [OF hist saved.hyps(2) this] hist show ?case by blast
qed

lemma history_take:
  assumes "env_history ms"
  shows "env_history (take n ms)"
proof -
  have "map em_version (take n ms) = map int (take n [0..<length ms])"
    using assms by (simp add: env_history_def flip: take_map)
  also have "take n [0..<length ms] = [0..<length (take n ms)]"
    by (cases "n \<le> length ms") (simp_all add: take_upt min_def)
  finally show ?thesis
    using assms successively_append_iff [of "\<lambda>p c. validate_parent c p = Inr ()" "take n ms" "drop n ms"]
    by (auto simp: env_history_def dest: in_set_takeD)
qed

lemma chain_files_history:
  assumes "env_history ms"
  shows "chain_files (map version_file ms) None = map (\<lambda>m. EnvFile (Some (manifest_to_dict m))) (take 10000 ms)"
proof -
  let ?p = "\<lambda>(k :: int, f :: manifest_file). 0 \<le> k \<and> k \<le> 9999"
  have versions: "map em_version ms = map int [0..<length ms]" using assms by (simp add: env_history_def)
  have v: "0 \<le> em_version m \<and> em_version m \<le> 9999" if "m \<in> set (take 10000 ms)" for m
    using that versions by (auto simp: in_set_conv_nth version_nth)
  have w: "9999 < em_version m" if "m \<in> set (drop 10000 ms)" for m
    using that versions by (auto simp: in_set_conv_nth version_nth)
  have "filter ?p (map version_file ms) = filter ?p (map version_file (take 10000 ms) @ map version_file (drop 10000 ms))"
    by (simp flip: map_append)
  also have "\<dots> = map version_file (take 10000 ms)"
  proof -
    have "filter ?p (map version_file (take 10000 ms)) = map version_file (take 10000 ms)"
      by (rule filter_True) (use v in \<open>auto simp: version_file_def\<close>)
    moreover have "filter ?p (map version_file (drop 10000 ms)) = []"
      by (rule filter_False) (use w in \<open>fastforce simp: version_file_def\<close>)
    ultimately show ?thesis by simp
  qed
  finally have flt: "filter ?p (map version_file ms) = map version_file (take 10000 ms)" .
  have "map fst (map version_file (take 10000 ms)) = map int [0..<length (take 10000 ms)]"
    using history_take [OF assms, of 10000] by (simp add: env_history_def version_file_def comp_def)
  then have "sorted (map fst (map version_file (take 10000 ms)))"
    by (simp only: sorted_map) (simp add: sorted_wrt_map mono_def)
  with flt show ?thesis
    by (simp add: chain_files_def sort_key_id_if_sorted version_file_def comp_def)
qed

lemma verify_history:
  assumes "env_history ms" "ms \<noteq> []"
  shows "verify_env_chain (store_of ms) None = Inr (take 10000 ms)"
proof -
  let ?ns = "take 10000 ms"
  have hist: "env_history ?ns" using history_take [OF assms(1)] .
  have "emap plain_file (map (\<lambda>m. EnvFile (Some (manifest_to_dict m))) ?ns) = Inr (map (\<lambda>m. Some (manifest_to_dict m)) ?ns)"
    unfolding emap_map by (rule emap_all) (simp add: plain_file_def)
  moreover have "emap decode_manifest (map (\<lambda>m. Some (manifest_to_dict m)) ?ns) = Inr (map (\<lambda>m. m) ?ns)"
    unfolding emap_map by (rule emap_all) (use hist in \<open>simp add: decode_manifest_def manifest_roundtrip env_history_def\<close>)
  moreover have "check_chain_links ?ns = Inr ()" using hist by (simp add: check_chain_links_Inr env_history_def)
  ultimately show ?thesis
    using hist assms(2)
    by (simp add: verify_env_chain_def store_of_def chain_files_history [OF assms(1)]
        env_history_def guard_def)
qed

text \<open>
  C14: The identifier of the last manifest of a verified chain fixes the content of the whole chain: two
  verified chains that end in the same identifier have the same manifests up to their dates, or two
  of their manifests are a collision of the first 64 bits of SHA-256.
\<close>

theorem last_id_fixes_environment_history:
  assumes "verify_env_chain s b = Inr ms" and "verify_env_chain t c = Inr ns"
    and "manifest_id (last ms) = manifest_id (last ns)"
  shows "map undated ms = map undated ns \<or>
    (\<exists>k < length ms. short_collision (canonical_json (JObj (manifest_identity (ms ! k)))) (canonical_json (JObj (manifest_identity (ns ! k)))))"
proof -
  note ms = verify_env_chain_Inr [OF assms(1)] and ns = verify_env_chain_Inr [OF assms(2)]
  have version: "em_version (last xs) = int (length xs - 1)" if "xs \<noteq> []" "map em_version xs = map int [0..<length xs]" for xs
    using version_nth [OF that(2)] that(1) by (simp add: last_conv_nth)
  have "length ms = length ns"
    using manifest_id_eq(1) [OF assms(3)] version ms(1,2) ns(1,2)
    by (metis Suc_diff_1 length_greater_0_conv nat_int)
  from manifests.last_tag_fixes_chain [OF ms(3) ns(3) this ms(1) assms(3)]
  show ?thesis using manifest_id_eq(2) by blast
qed

theorem last_id_fixes_environment_history_witness:
  "\<exists>ms ns. verify_env_chain (store_of [example_seed ''e1'' [], example_next (example_seed ''e1'' [])]) None = Inr ms \<and>
    verify_env_chain (store_of [example_seed ''e1'' [], example_next (example_seed ''e1'' [])]) (Some 1) = Inr ns \<and>
    (map undated ms = map undated ns \<or> (\<exists>k < length ms.
      short_collision (canonical_json (JObj (manifest_identity (ms ! k)))) (canonical_json (JObj (manifest_identity (ns ! k))))))"
proof -
  let ?ms = "[example_seed ''e1'' [], example_next (example_seed ''e1'' [])]"
  have wf: "wf_manifest (example_seed ''e1'' [])" "wf_manifest (example_next (example_seed ''e1'' []))"
    by (rule example_seed_wf, simp_all) (rule example_next_wf)
  have "chain_files (map version_file ?ms) None = chain_files (map version_file ?ms) (Some 1)"
    by (simp add: chain_files_def version_file_def example_next_def)
  then have same: "verify_env_chain (store_of ?ms) (Some 1) = verify_env_chain (store_of ?ms) None"
    by (simp add: verify_env_chain_def store_of_def)
  have "env_history ?ms"
    using wf by (simp add: env_history_def example_next_def validate_parent_Inr)
  then have "verify_env_chain (store_of ?ms) None = Inr ?ms" using verify_history [of ?ms] by simp
  with same last_id_fixes_environment_history [of "store_of ?ms" None ?ms "store_of ?ms" "Some 1" ?ms] show ?thesis by auto
qed

definition stored_versions :: "env_store \<Rightarrow> env_manifest list \<Rightarrow> bool" where
  "stored_versions s ms \<longleftrightarrow> (\<forall>v x. env_load s v = Inr x \<longleftrightarrow> 0 \<le> v \<and> v < int (length ms) \<and> x = ms ! nat v)"

lemma stored_history: "env_history ms \<Longrightarrow> stored_versions (store_of ms) ms"
  unfolding stored_versions_def by (intro allI) (auto simp: history_load)

lemma stored_nothing: "stored_versions EnvNoStore []"
  by (simp add: stored_versions_def env_load_def)

text \<open>
  C15: A store that serial saves have written holds one chain of manifests: each loads back under its
  version and \<open>verify_chain\<close> returns them, the first ten thousand at least.  A further save of a valid
  manifest keeps them or adds the manifest as the last, and it succeeds only if the store then holds a
  manifest of that version and identifier.
\<close>

theorem serial_saves_build_one_chain:
  assumes "env_saved s" and "wf_manifest m" and "env_save (\<lambda>s. s) s m = (out, t)"
  shows "\<exists>ms ns. stored_versions s ms \<and> (ms \<noteq> [] \<longrightarrow> verify_env_chain s None = Inr (take 10000 ms)) \<and>
    stored_versions t ns \<and> (ns = ms \<or> ns = ms @ [m]) \<and>
    (out = Inr () \<longrightarrow> (\<exists>n \<in> set ns. em_version n = em_version m \<and> manifest_id n = manifest_id m))"
proof -
  from env_saved_history [OF assms(1)] obtain ms where hist: "env_history ms"
    and s: "s = store_of ms \<or> s = EnvNoStore \<and> ms = []" by blast
  have before: "stored_versions s ms" using s stored_history [OF hist] stored_nothing by blast
  have chain: "ms \<noteq> [] \<longrightarrow> verify_env_chain s None = Inr (take 10000 ms)" using s verify_history [OF hist] by blast
  have "env_save (\<lambda>s. s) (store_of ms) m = (out, t)" using assms(3) s by (auto simp: env_save_created)
  from save_history [OF hist assms(2) this] obtain ns where "stored_versions t ns" "ns = ms \<or> ns = ms @ [m]"
      "out = Inr () \<longrightarrow> (\<exists>n \<in> set ns. em_version n = em_version m \<and> manifest_id n = manifest_id m)"
  proof (elim disjE conjE exE)
    fix k assume "t = store_of ms" "k < length ms" "em_version m = int k" "manifest_id (ms ! k) = manifest_id m"
    then show ?thesis using that stored_history [OF hist] history_version [OF hist, of k] nth_mem [of k ms] by metis
  next
    assume "t = store_of (ms @ [m])" "env_history (ms @ [m])"
    then show ?thesis using that [of "ms @ [m]"] stored_history by simp
  next
    fix e assume "t = store_of ms" "out = Inl e"
    then show ?thesis using that stored_history [OF hist] by blast
  qed
  with before chain show ?thesis by blast
qed

theorem serial_saves_build_one_chain_witness:
  "\<exists>out t ms ns. env_save (\<lambda>s. s) EnvNoStore (example_seed ''e1'' []) = (out, t) \<and> stored_versions EnvNoStore ms \<and>
    stored_versions t ns \<and> (ns = ms \<or> ns = ms @ [example_seed ''e1'' []])"
proof -
  have wf: "wf_manifest (example_seed ''e1'' [])" by (rule example_seed_wf) simp_all
  obtain out t where save: "env_save (\<lambda>s. s) EnvNoStore (example_seed ''e1'' []) = (out, t)" by (rule prod.exhaust)
  from serial_saves_build_one_chain [OF env_saved.start wf save] save show ?thesis by blast
qed

text \<open>
  C16: A manifest derived from the last one of a verified chain is saved as the next version, and the
  chain then ends in it.
\<close>

theorem derived_manifest_extends_chain:
  assumes "env_saved s" and "verify_env_chain s None = Inr ms" and "length ms < 10000"
    and "\<forall>e \<in> set es. wf_entry e" and "derive_manifest now (last ms) rootfs es aid reason = Inr m"
  shows "\<exists>t. env_save (\<lambda>s. s) s m = (Inr (), t) \<and> verify_env_chain t None = Inr (ms @ [m])"
proof -
  from env_saved_history [OF assms(1)] obtain ns where hist: "env_history ns"
    and s: "s = store_of ns \<or> s = EnvNoStore \<and> ns = []" by blast
  have "ns \<noteq> []" using s assms(2) by (auto simp: verify_env_chain_def store_of_def chain_files_def result_simps)
  then have ms: "ms = take 10000 ns" and st: "s = store_of ns" using s assms(2) verify_history [OF hist] by auto
  with assms(3) have eq: "ms = ns" by simp
  have ne: "ms \<noteq> []" and hist: "env_history ms" using \<open>ns \<noteq> []\<close> hist eq by simp_all
  have last: "em_version (last ms) = int (length ms - 1)" using ne history_version [OF hist, of "length ms - 1"] by (simp add: last_conv_nth)
  have m: "m = \<lparr>em_sample = em_sample (last ms), em_version = em_version (last ms) + 1, em_rootfs = rootfs,
        em_entries = sort_key en_resource es, em_attempt = aid, em_reason = reason,
        em_parent_version = Some (em_version (last ms)), em_parent_id = Some (manifest_id (last ms)), em_schema = 2, em_model = 1,
        em_generated = now\<rparr>"
    by (rule check_manifest_id [OF assms(5) [unfolded derive_manifest_def]])
  have ok: "check_manifest m = Inr m"
    using assms(5) unfolding derive_manifest_def m [symmetric] .
  have fields: "em_entries m = sort_key en_resource es" "em_version m = em_version (last ms) + 1" "em_sample m = em_sample (last ms)"
      "em_parent_version m = Some (em_version (last ms))" "em_parent_id m = Some (manifest_id (last ms))"
    by (simp_all only: m env_manifest.simps)
  then have wf: "wf_manifest m" using ok assms(4) by (simp add: wf_manifest_def)
  have version: "em_version m = int (length ms)" using last ne fields(2) by (cases ms) auto
  have valid: "validate_parent m (last ms) = Inr ()" using fields by (simp add: validate_parent_Inr)
  have hist': "env_history (ms @ [m])" using hist wf version valid by (simp add: history_snoc)
  have "map_of (map version_file ms) (int (length ms)) = None" using history_file [OF hist] by simp
  then have "env_save (\<lambda>s. s) (store_of ms) m = (Inr (), store_of (ms @ [m]))"
    using version ne valid history_load_last [OF hist ne] by (simp add: env_save_def store_of_def rename_over_def put_version_new version_file_def)
  with verify_history [OF hist'] assms(3) show ?thesis using eq st by simp
qed

theorem derived_manifest_extends_chain_witness:
  "\<exists>s t. env_saved s \<and> env_save (\<lambda>s. s) s (example_next (example_seed ''e1'' [])) = (Inr (), t) \<and>
    verify_env_chain t None = Inr [example_seed ''e1'' [], example_next (example_seed ''e1'' [])]"
proof -
  let ?a = "example_seed ''e1'' []"
  have wf: "wf_manifest ?a" by (rule example_seed_wf) simp_all
  have save: "env_save (\<lambda>s. s) EnvNoStore ?a = (Inr (), store_of [?a])"
    by (simp add: env_save_def rename_over_def store_of_def version_file_def)
  have hist: "env_history [?a]" using wf by (simp add: env_history_def)
  have saved: "env_saved (store_of [?a])" by (rule env_saved.saved [OF env_saved.start wf save])
  have "verify_env_chain (store_of [?a]) None = Inr [?a]" using verify_history [OF hist] by simp
  from derived_manifest_extends_chain [OF saved this, of "[]" example_time "''e2''" "''e1''" "''r''"] saved
  show ?thesis by (auto simp: example_derived)
qed

section \<open>Concurrent saves\<close>

text \<open>
  C17: Two processes that save different seed manifests: when the first one renames its file between the
  second one's test and its rename, both saves succeed, and the first manifest, which loads after the
  first save, is gone.
\<close>

theorem concurrent_seed_save_overwrites:
  assumes "wf_manifest a" and "wf_manifest b" and "em_version a = 0" and "em_version b = 0"
  shows "(case env_save (\<lambda>s. s) EnvNoStore a of (out, t) \<Rightarrow> out = Inr () \<and> env_load t 0 = Inr a) \<and>
    (case env_save (\<lambda>s. snd (env_save (\<lambda>s. s) s a)) EnvNoStore b of (out, t) \<Rightarrow> out = Inr () \<and> env_load t 0 = Inr b)"
  using manifest_roundtrip [OF assms(1)] manifest_roundtrip [OF assms(2)] assms(3,4)
  by (simp add: env_save_def rename_over_def env_load_def guard_def decode_manifest_def)

theorem concurrent_seed_save_overwrites_witness:
  "env_load (snd (env_save (\<lambda>s. snd (env_save (\<lambda>s. s) s (example_seed ''e1'' []))) EnvNoStore (example_seed ''e2'' []))) 0
    = Inr (example_seed ''e2'' []) \<and> example_seed ''e2'' [] \<noteq> example_seed ''e1'' []"
proof -
  have wf: "wf_manifest (example_seed ''e1'' [])" "wf_manifest (example_seed ''e2'' [])"
    by (rule example_seed_wf; simp)+
  from concurrent_seed_save_overwrites [OF wf] show ?thesis by (auto simp: example_seed_def split: prod.splits)
qed

section \<open>Comparing a manifest with its parent\<close>

lemma by_resource_in:
  assumes "distinct (map en_resource es)"
  shows "by_resource es r = Some e \<longleftrightarrow> e \<in> set es \<and> en_resource e = r"
proof -
  have "distinct (map fst (rev (map (\<lambda>e. (en_resource e, e)) es)))"
    using assms by (simp add: rev_map [symmetric] distinct_map inj_on_def)
  then show ?thesis unfolding by_resource_def map_of_eq_Some_iff by auto
qed

lemma by_resource_None: "by_resource es r = None \<longleftrightarrow> r \<notin> en_resource ` set es"
  by (auto simp: by_resource_def map_of_eq_None_iff image_iff)

lemma wf_manifest_entries: "wf_manifest m \<Longrightarrow> sorted (map en_resource (em_entries m)) \<and> distinct (map en_resource (em_entries m))"
  by (auto simp: wf_manifest_def check_manifest_Inr)

lemma same_keys_same_entries:
  assumes "sorted (map f xs)" "distinct (map f xs)" "sorted (map f ys)" "distinct (map f ys)" "set xs = set ys"
  shows "xs = ys"
  using assms by (intro map_sorted_distinct_set_unique [of f]) (simp_all add: distinct_map)

text \<open>
  The comparison of a manifest with its parent lists the resources that were added, removed and
  changed, each once and in order.  It is empty exactly when the root filesystem and all entries are the
  same, up to a collision of SHA-256 on two entries.
\<close>

theorem manifest_diff_exact:
  assumes "wf_manifest m" and "wf_manifest p" and "diff_manifest m p = Inr d"
  shows "set (md_added d) = en_resource ` set (em_entries m) - en_resource ` set (em_entries p) \<and>
    set (md_removed d) = en_resource ` set (em_entries p) - en_resource ` set (em_entries m) \<and>
    set (md_changed d) = {r. \<exists>e \<in> set (em_entries p). \<exists>f \<in> set (em_entries m).
      en_resource e = r \<and> en_resource f = r \<and> entry_sha256 e \<noteq> entry_sha256 f} \<and>
    list_all (\<lambda>rs. sorted rs \<and> distinct rs) [md_added d, md_removed d, md_changed d] \<and>
    (em_rootfs m = em_rootfs p \<and> em_entries m = em_entries p \<longrightarrow> diff_empty d) \<and>
    (diff_empty d \<longrightarrow> em_rootfs m = em_rootfs p \<and> (em_entries m = em_entries p \<or>
      (\<exists>e \<in> set (em_entries m). \<exists>f \<in> set (em_entries p).
        sha256_collision (canonical_json (JObj (entry_identity e))) (canonical_json (JObj (entry_identity f))))))"
proof -
  let ?es = "em_entries m" and ?fs = "em_entries p"
  note es = wf_manifest_entries [OF assms(1)] and fs = wf_manifest_entries [OF assms(2)]
  note in_es = by_resource_in [OF es [THEN conjunct2]] and in_fs = by_resource_in [OF fs [THEN conjunct2]]
  have d: "md_added d = sorted_set (filter (\<lambda>r. r \<notin> set (map en_resource ?fs)) (map en_resource ?es))"
      "md_removed d = sorted_set (filter (\<lambda>r. r \<notin> set (map en_resource ?es)) (map en_resource ?fs))"
      "md_changed d = sorted_set (filter (\<lambda>r. r \<in> set (map en_resource ?es) \<and>
         map_option entry_sha256 (by_resource ?fs r) \<noteq> map_option entry_sha256 (by_resource ?es r)) (map en_resource ?fs))"
      "md_rootfs d = (em_rootfs m \<noteq> em_rootfs p)"
    using assms(3) by (auto simp: diff_manifest_def result_simps Let_def)
  have added: "set (md_added d) = en_resource ` set ?es - en_resource ` set ?fs"
    and removed: "set (md_removed d) = en_resource ` set ?fs - en_resource ` set ?es"
    by (auto simp: d)
  have changed: "set (md_changed d) = {r. \<exists>e \<in> set ?fs. \<exists>f \<in> set ?es. en_resource e = r \<and> en_resource f = r \<and> entry_sha256 e \<noteq> entry_sha256 f}"
  proof -
    have differ: "map_option entry_sha256 (by_resource ?fs r) \<noteq> map_option entry_sha256 (by_resource ?es r) \<longleftrightarrow>
        (\<exists>e \<in> set ?fs. \<exists>f \<in> set ?es. en_resource e = r \<and> en_resource f = r \<and> entry_sha256 e \<noteq> entry_sha256 f)"
      if "r \<in> en_resource ` set ?es" "r \<in> en_resource ` set ?fs" for r
    proof -
      from that obtain e f where e: "by_resource ?fs r = Some e" and f: "by_resource ?es r = Some f"
        using by_resource_None [of ?es r] by_resource_None [of ?fs r] by blast
      have "e' = e" if "e' \<in> set ?fs" "en_resource e' = r" for e' using in_fs that e by (metis option.inject)
      moreover have "f' = f" if "f' \<in> set ?es" "en_resource f' = r" for f' using in_es that f by (metis option.inject)
      moreover have "e \<in> set ?fs" "en_resource e = r" "f \<in> set ?es" "en_resource f = r"
        using in_fs e in_es f by simp_all
      ultimately have "(\<exists>e \<in> set ?fs. \<exists>f \<in> set ?es. en_resource e = r \<and> en_resource f = r \<and> entry_sha256 e \<noteq> entry_sha256 f)
          \<longleftrightarrow> entry_sha256 e \<noteq> entry_sha256 f"
        by blast
      then show ?thesis by (simp only: e f option.map option.inject)
    qed
    have mem: "r \<in> set (md_changed d) \<longleftrightarrow> r \<in> en_resource ` set ?es \<and> r \<in> en_resource ` set ?fs \<and>
        map_option entry_sha256 (by_resource ?fs r) \<noteq> map_option entry_sha256 (by_resource ?es r)" for r
      unfolding d by auto
    show ?thesis
    proof (rule set_eqI)
      fix r
      show "r \<in> set (md_changed d) \<longleftrightarrow> r \<in> {r. \<exists>e \<in> set ?fs. \<exists>f \<in> set ?es. en_resource e = r \<and> en_resource f = r \<and> entry_sha256 e \<noteq> entry_sha256 f}"
      proof (cases "r \<in> en_resource ` set ?es \<and> r \<in> en_resource ` set ?fs")
        case True
        then show ?thesis using mem [of r] differ [of r] by simp
      next
        case False
        then show ?thesis unfolding mem by (auto simp: image_iff)
      qed
    qed
  qed
  have ordered: "list_all (\<lambda>rs. sorted rs \<and> distinct rs) [md_added d, md_removed d, md_changed d]" by (simp add: d)
  have same: "diff_empty d" if "em_rootfs m = em_rootfs p" "?es = ?fs"
    using that by (simp add: diff_empty_def d)
  have unchanged: "?es = ?fs \<or> (\<exists>e \<in> set ?es. \<exists>f \<in> set ?fs.
      sha256_collision (canonical_json (JObj (entry_identity e))) (canonical_json (JObj (entry_identity f))))" if "diff_empty d"
  proof (rule disjCI)
    assume none: "\<not> (\<exists>e \<in> set ?es. \<exists>f \<in> set ?fs.
      sha256_collision (canonical_json (JObj (entry_identity e))) (canonical_json (JObj (entry_identity f))))"
    have keys: "en_resource ` set ?es = en_resource ` set ?fs"
      using that added removed by (auto simp: diff_empty_def)
    have eq: "e = f" if "e \<in> set ?es" "f \<in> set ?fs" "en_resource e = en_resource f" for e f
    proof -
      have "en_resource e \<notin> set (md_changed d)" using \<open>diff_empty d\<close> by (simp add: diff_empty_def)
      then have "entry_sha256 e = entry_sha256 f" unfolding changed using that by auto
      from entry_sha256_eq [OF this] none that(1,2) show ?thesis by blast
    qed
    have "set ?es = set ?fs"
    proof (intro subset_antisym subsetI)
      fix e assume e: "e \<in> set ?es"
      then obtain f where f: "f \<in> set ?fs" "en_resource e = en_resource f" using keys by (metis image_iff)
      from eq [OF e f] f(1) show "e \<in> set ?fs" by simp
    next
      fix f assume f: "f \<in> set ?fs"
      then obtain e where e: "e \<in> set ?es" "en_resource e = en_resource f" using keys by (metis image_iff)
      from eq [OF e(1) f e(2)] e(1) show "f \<in> set ?es" by simp
    qed
    then show "?es = ?fs" using es fs by (intro same_keys_same_entries [of en_resource]) simp_all
  qed
  have "em_rootfs m = em_rootfs p" if "diff_empty d" using that by (simp add: diff_empty_def d)
  with added removed changed ordered same unchanged show ?thesis by blast
qed

theorem manifest_diff_exact_witness:
  "\<exists>d. diff_manifest (example_next (example_seed ''e1'' [example_entry])) (example_seed ''e1'' [example_entry]) = Inr d \<and>
    set (md_removed d) = {''e1''}"
proof -
  let ?p = "example_seed ''e1'' [example_entry]"
  have wf: "wf_manifest (example_next ?p)" "wf_manifest ?p" by (rule example_next_wf) (rule example_seed_wf, simp_all)
  obtain d where d: "diff_manifest (example_next ?p) ?p = Inr d"
    by (simp add: diff_manifest_def guard_def example_next_def Let_def)
  from manifest_diff_exact [OF wf d] have "set (md_removed d) = {''e1''}"
    by (simp add: example_next_def) (simp add: example_entry_def)
  with d show ?thesis by blast
qed

end
