(* ===== verification/Builder_Properties.thy ===== *)
theory Builder_Properties
  imports Manifest_Builder Environment_Properties Repair_Pipeline
begin

text \<open>
  The entries of a derived manifest: what merging keeps, and what the loop over the results records.
\<close>

section \<open>Dictionaries\<close>

lemma upsert_set:
  "distinct (map f xs) \<Longrightarrow> set (upsert f x xs) = insert x {y \<in> set xs. f y \<noteq> f x}"
  by (induction f x xs rule: upsert.induct) (auto simp: image_iff)

lemma upsert_keys: "f ` set (upsert f x xs) = insert (f x) (f ` set xs)"
  by (induction f x xs rule: upsert.induct) auto

lemma upsert_distinct: "distinct (map f xs) \<Longrightarrow> distinct (map f (upsert f x xs))"
  by (induction f x xs rule: upsert.induct) (auto simp: upsert_keys)

lemma upsert_new: "f x \<notin> f ` set xs \<Longrightarrow> upsert f x xs = xs @ [x]"
  by (induction f x xs rule: upsert.induct) auto

lemma dict_values_distinct: "distinct (map f xs) \<Longrightarrow> dict_values f xs = xs"
  by (induction xs rule: rev_induct) (auto simp: dict_values_def upsert_new)

section \<open>Merging\<close>

definition entries_ok :: "manifest_entry list \<Rightarrow> bool" where
  "entries_ok es \<longleftrightarrow> distinct (map en_resource es) \<and> (\<forall>e \<in> set es. wf_entry e)"

lemma wf_entry_ids: "wf_entry e \<Longrightarrow> distinct (map me_id (en_evidence e))"
  by (auto simp: wf_entry_def check_entry_Inr)

lemma merge_evidence_set:
  assumes "merge_evidence d xs = Inr d'" "distinct (map me_id d)"
  shows "set d' = set d \<union> set xs"
  using assms
proof (induction d xs rule: merge_evidence.induct)
  case (2 d x xs)
  from 2(2) have same: "\<forall>y \<in> set d. me_id y = me_id x \<longrightarrow> y = x" and rest: "merge_evidence (upsert me_id x d) xs = Inr d'"
    by (auto split: if_splits)
  have "\<not> (\<exists>y \<in> set d. me_id y = me_id x \<and> y \<noteq> x)" using same by blast
  from 2(1) [OF this rest upsert_distinct [OF 2(3)]] same show ?case by (auto simp: upsert_set [OF 2(3)])
qed simp

text \<open>An entry kept: the same resource, and no evidence lost\<close>

definition kept :: "manifest_entry \<Rightarrow> manifest_entry \<Rightarrow> bool" where
  "kept e f \<longleftrightarrow> en_resource f = en_resource e \<and> set (en_evidence e) \<subseteq> set (en_evidence f)"

lemma kept_refl [simp]: "kept e e" by (simp add: kept_def)

lemma kept_trans: "kept e f \<Longrightarrow> kept f g \<Longrightarrow> kept e g" by (auto simp: kept_def)

definition same_value :: "manifest_entry \<Rightarrow> manifest_entry \<Rightarrow> bool" where
  "same_value e f \<longleftrightarrow> en_resource f = en_resource e \<and> en_value_sha f = en_value_sha e \<and> en_kind f = en_kind e"

lemma check_entry_same: "check_entry e = Inr f \<Longrightarrow> f = e"
  by (simp add: check_entry_Inr)

lemma merge_entry_step:
  assumes "merge_entry es new = Inr es'" "entries_ok es" "wf_entry new"
  shows "entries_ok es' \<and> (\<exists>x. set es' = insert x {e \<in> set es. en_resource e \<noteq> en_resource new} \<and> kept new x \<and> same_value new x \<and>
    (\<forall>e \<in> set es. en_resource e = en_resource new \<longrightarrow> kept e x))"
proof -
  have d: "distinct (map en_resource es)" and wf: "\<forall>e \<in> set es. wf_entry e" using assms(2) by (simp_all add: entries_ok_def)
  have dict: "dict_values en_resource es = es" using d by (rule dict_values_distinct)
  obtain x where x: "es' = sort_key en_resource (upsert en_resource x es)" and res: "en_resource x = en_resource new"
    and good: "wf_entry x" "kept new x" "same_value new x" "\<forall>e \<in> set es. en_resource e = en_resource new \<longrightarrow> kept e x"
  proof (cases "find (\<lambda>e. en_resource e = en_resource new) es")
    case None
    then have "\<forall>e \<in> set es. en_resource e \<noteq> en_resource new" by (simp add: find_None_iff)
    with None assms(1,3) show ?thesis using that [of new] by (simp add: merge_entry_def dict same_value_def)
  next
    case (Some old)
    then have old: "old \<in> set es" "en_resource old = en_resource new" by (auto simp: find_Some_iff)
    from assms(1) obtain ev x where ev: "merge_evidence (dict_values me_id (en_evidence old)) (en_evidence new) = Inr ev"
        and x: "check_entry (merged_entry old new ev) = Inr x" "es' = sort_key en_resource (upsert en_resource x es)"
      by (auto simp: merge_entry_def dict Some result_simps)
    have ids: "distinct (map me_id (en_evidence old))" using wf old(1) wf_entry_ids by blast
    with ev have set: "set ev = set (en_evidence old) \<union> set (en_evidence new)"
      by (intro merge_evidence_set) (simp_all add: dict_values_distinct)
    have xm: "x = merged_entry old new ev" using x(1) by (rule check_entry_same)
    have fields: "en_resource x = en_resource new" "en_kind x = en_kind new" "en_value_sha x = en_value_sha new"
        "set (en_evidence x) = set (en_evidence old) \<union> set (en_evidence new)"
      by (simp_all add: xm merged_entry_def Let_def set)
    have "wf_entry x" using x(1) xm fields(4) wf old(1) assms(3) by (auto simp: wf_entry_def)
    moreover have "e = old" if "e \<in> set es" "en_resource e = en_resource new" for e
      using d old that by (metis distinct_map inj_onD)
    ultimately show ?thesis using that [of x] x(2) fields by (auto simp: kept_def same_value_def old(2))
  qed
  have "set es' = insert x {e \<in> set es. en_resource e \<noteq> en_resource new}"
    by (simp add: x upsert_set [OF d] res)
  moreover have "entries_ok es'"
  proof -
    have "distinct (map en_resource es')" using upsert_distinct [OF d, of x] by (simp add: x distinct_map)
    then show ?thesis using calculation good(1) wf by (auto simp: entries_ok_def)
  qed
  ultimately show ?thesis using good by blast
qed

section \<open>The entry of a directory\<close>

lemma observe_components_Inr:
  "observe_components fs res cur seen cs = Inr r \<Longrightarrow>
     (if cs = [] then r = seen else \<exists>m. r = Some m \<and> node_at fs (cur @ cs) = Some (SnapDir m))"
proof (induction fs res cur seen cs rule: observe_components.induct)
  case (2 fs res cur seen c cs)
  from 2(2) obtain m where m: "node_at fs (cur @ [c]) = Some (SnapDir m)"
      "observe_components fs res (cur @ [c]) (Some m) cs = Inr r"
    by (auto split: option.splits snap_node.splits)
  from 2(1) [OF m(1) refl m(2)] m(1) show ?case by (auto split: if_splits)
qed simp

text \<open>What an entry says about the root filesystem: the mode of a directory that exists\<close>

definition directory_recorded :: "snap_fs \<Rightarrow> string \<Rightarrow> manifest_entry \<Rightarrow> bool" where
  "directory_recorded fs res e \<longleftrightarrow> en_resource e = ''fs:'' @ res \<and> en_kind e = ResDirectory \<and>
     (\<exists>m. node_at fs (pp_comps (pp_parse res)) = Some (SnapDir m) \<and>
        en_value_sha e = canonical_sha256 (directory_value (mode_text m) res))"

lemma observed_directory_mode_Inr:
  assumes "observed_directory_mode fs res did = Inr mode"
  shows "\<exists>m. node_at fs (pp_comps (pp_parse res)) = Some (SnapDir m) \<and> mode = mode_text m"
proof -
  from assms obtain m where m: "observe_components fs res [] None (drop 1 (pp_parts (pp_parse res))) = Inr (Some m)"
      "mode = mode_text m" "starts_with res ''/''"
    by (auto simp: observed_directory_mode_def Let_def result_simps split: option.splits)
  from m(3) have "drop 1 (pp_parts (pp_parse res)) = pp_comps (pp_parse res)" by (simp add: pp_parts_def pp_root_absolute)
  with observe_components_Inr [OF m(1)] m(2) show ?thesis by (auto split: if_splits)
qed

lemma check_evidence_same: "check_evidence e = Inr f \<Longrightarrow> f = e"
  by (simp add: check_evidence_Inr)

lemma directory_entry_Inr:
  assumes "directory_entry fs c did res params obs app = Inr e"
  shows "wf_entry e \<and> directory_recorded fs res e \<and> repair_evidence c did app \<in> set (en_evidence e)"
proof -
  from assms obtain mode ob rep where mode: "observed_directory_mode fs res did = Inr mode"
      and ob: "check_evidence (observation_evidence c obs) = Inr ob" and rep: "check_evidence (repair_evidence c did app) = Inr rep"
      and e: "check_entry (new_directory_entry c res mode (sort_key me_id [ob, rep])) = Inr e"
    unfolding directory_entry_def ebind_Inr_iff err_map_Inr_iff by blast
  note same = check_entry_same [OF e] check_evidence_same [OF ob] check_evidence_same [OF rep]
  have fields: "en_resource e = ''fs:'' @ res" "en_kind e = ResDirectory" "en_evidence e = sort_key me_id [ob, rep]"
      "en_value_sha e = canonical_sha256 (directory_value mode res)"
    by (simp_all only: same(1) new_directory_entry_def Let_def manifest_entry.simps)
  have "set (en_evidence e) = {ob, rep}" by (simp only: fields(3) set_sort list.set insert_commute)
  moreover have "wf_entry e"
    using e ob rep calculation unfolding wf_entry_def same by auto
  ultimately show ?thesis
    using fields(1,2,4) observed_directory_mode_Inr [OF mode] by (auto simp: directory_recorded_def same(3))
qed

section \<open>The loop over the results\<close>

text \<open>Nothing that the first entries record is lost in the second ones.\<close>

definition carried :: "snap_fs \<Rightarrow> manifest_entry list \<Rightarrow> manifest_entry list \<Rightarrow> bool" where
  "carried fs es es' \<longleftrightarrow>
     (\<forall>e \<in> set es. \<exists>f \<in> set es'. kept e f \<and> (\<forall>res. directory_recorded fs res e \<longrightarrow> directory_recorded fs res f))"

lemma carried_refl [simp]: "carried fs es es"
  by (auto simp: carried_def intro: kept_refl)

lemma carried_trans: "carried fs es es1 \<Longrightarrow> carried fs es1 es' \<Longrightarrow> carried fs es es'"
  unfolding carried_def by (meson kept_trans)

lemma recorded_same: "directory_recorded fs res e \<Longrightarrow> same_value e f \<Longrightarrow> directory_recorded fs res f"
  by (auto simp: directory_recorded_def same_value_def)

lemma merge_carried:
  assumes "merge_entry es new = Inr es'" "entries_ok es" "wf_entry new" "directory_recorded fs res new"
  shows "entries_ok es' \<and> carried fs es es' \<and> (\<exists>x \<in> set es'. directory_recorded fs res x \<and> kept new x) \<and>
    (\<forall>f \<in> set es'. f \<in> set es \<or> directory_recorded fs res f)"
proof -
  from merge_entry_step [OF assms(1-3)] obtain x where ok: "entries_ok es'"
    and set: "set es' = insert x {e \<in> set es. en_resource e \<noteq> en_resource new}"
    and x: "kept new x" "same_value new x" "\<forall>e \<in> set es. en_resource e = en_resource new \<longrightarrow> kept e x" by blast
  have rec: "directory_recorded fs res x" using recorded_same [OF assms(4) x(2)] .
  have "carried fs es es'"
    unfolding carried_def
  proof
    fix e
    assume e: "e \<in> set es"
    show "\<exists>f \<in> set es'. kept e f \<and> (\<forall>res. directory_recorded fs res e \<longrightarrow> directory_recorded fs res f)"
    proof (cases "en_resource e = en_resource new")
      case True
      then have "res' = res" if "directory_recorded fs res' e" for res'
        using that assms(4) by (simp add: directory_recorded_def)
      with x(3) e True rec set show ?thesis by blast
    next
      case False
      with e set show ?thesis by (auto intro!: bexI [of _ e])
    qed
  qed
  with ok rec x(1) set show ?thesis by auto
qed

definition repair_recorded :: "snap_fs \<Rightarrow> attempt_contract \<Rightarrow> string \<Rightarrow> repair_decision \<Rightarrow> manifest_entry \<Rightarrow> bool" where
  "repair_recorded fs c app d e \<longleftrightarrow>
     directory_recorded fs (rd_resource d) e \<and> repair_evidence c (rd_id d) app \<in> set (en_evidence e)"

lemma repair_carried: "carried fs es es' \<Longrightarrow> e \<in> set es \<Longrightarrow> repair_recorded fs c app d e \<Longrightarrow> \<exists>f \<in> set es'. repair_recorded fs c app d f"
  unfolding carried_def repair_recorded_def kept_def by blast

definition decision_named :: "repair_decision list \<Rightarrow> string \<Rightarrow> repair_decision option" where
  "decision_named ds did = map_of (rev (map (\<lambda>d. (rd_id d, d)) ds)) did"

lemma check_result_item_Inr:
  assumes "check_result_item ds seen item = Inr (d, selected)"
  shows "decision_named ds (rd_id d) = Some d \<and> d \<in> set ds \<and> selected = rd_automatic d \<and> rd_id d \<notin> set seen"
proof -
  from assms obtain did where did: "map_of (rev (map (\<lambda>d. (rd_id d, d)) ds)) did = Some d" "did \<notin> set seen"
    and sel: "selected = rd_automatic d"
    by (auto simp: check_result_item_def result_simps split: option.splits if_splits)
  then have "rd_id d = did" "d \<in> set ds" by (auto dest!: map_of_SomeD)
  with did sel show ?thesis by (simp add: decision_named_def)
qed

lemma derive_results_Inr:
  assumes "derive_results fs c ds obs app es n seen items = Inr (es', n', seen')" "entries_ok es"
  shows "entries_ok es' \<and> carried fs es es' \<and>
    (\<forall>did \<in> set seen'. did \<in> set seen \<or> (\<exists>d. decision_named ds did = Some d \<and> (rd_automatic d \<longrightarrow> (\<exists>f \<in> set es'. repair_recorded fs c app d f)))) \<and>
    (\<forall>f \<in> set es'. f \<in> set es \<or> (\<exists>d \<in> set ds. rd_automatic d \<and> directory_recorded fs (rd_resource d) f))"
  using assms
proof (induction items arbitrary: es n seen)
  case (Cons item items)
  from Cons.prems(1) obtain d selected where item: "check_result_item ds seen item = Inr (d, selected)"
    by (auto simp: result_simps)
  note d = check_result_item_Inr [OF item]
  show ?case
  proof (cases selected)
    case False
    with Cons.prems(1) item have "derive_results fs c ds obs app es n (rd_id d # seen) items = Inr (es', n', seen')" by simp
    from Cons.IH [OF this Cons.prems(2)] d False show ?thesis by auto
  next
    case True
    with Cons.prems(1) item obtain x es1 where x: "directory_entry fs c (rd_id d) (rd_resource d) (rd_parameters d) obs app = Inr x"
        and merge: "merge_entry es x = Inr es1"
        and rest: "derive_results fs c ds obs app es1 (n + 1) (rd_id d # seen) items = Inr (es', n', seen')"
      by (auto simp: result_simps)
    note entry = directory_entry_Inr [OF x]
    from merge_carried [OF merge Cons.prems(2), of fs "rd_resource d"] entry have ok: "entries_ok es1" and carry: "carried fs es es1"
      and mine: "\<exists>f \<in> set es1. directory_recorded fs (rd_resource d) f \<and> kept x f"
      and origin: "\<forall>f \<in> set es1. f \<in> set es \<or> directory_recorded fs (rd_resource d) f" by blast+
    from mine entry obtain f where f: "f \<in> set es1" "repair_recorded fs c app d f" by (auto simp: repair_recorded_def kept_def)
    note ih = Cons.IH [OF rest ok]
    from repair_carried [OF _ f] ih have "\<exists>f \<in> set es'. repair_recorded fs c app d f" by blast
    with ih d carry origin True carried_trans [OF carry] show ?thesis by auto
  qed
qed auto

text \<open>
  A manifest derived from a completed repair is a valid child of its parent.  It keeps every resource of
  the parent with all its evidence, and has for every automatic decision an entry with the mode of a
  directory of the root filesystem and the evidence of the repair; every other entry is the parent's.
\<close>

lemma derived_manifest_entries:
  assumes "wf_manifest parent" and "loads plan_text = Some plan_json" and "json_wf plan_json" and "plan_from_dict plan_json = Inr plan"
    and "derive_from_repair loads now parent snapshot (RootTree fs) c r (FileText plan_text) (FileText app_text) obs_file = Inr m"
  shows "wf_manifest m \<and> validate_parent m parent = Inr () \<and> em_rootfs m = snapshot \<and>
    (\<forall>e \<in> set (em_entries parent). \<exists>f \<in> set (em_entries m). kept e f) \<and>
    (\<forall>d \<in> set (rp_decisions plan). rd_automatic d \<longrightarrow>
      (\<exists>f \<in> set (em_entries m). repair_recorded fs c (sha256_hex app_text) d f)) \<and>
    (\<forall>f \<in> set (em_entries m). f \<in> set (em_entries parent) \<or>
      (\<exists>d \<in> set (rp_decisions plan). rd_automatic d \<and> directory_recorded fs (rd_resource d) f))"
proof -
  have plan: "plan_load loads (FileText plan_text) = Inr plan" using assms(2,4) by (simp add: plan_load_def)
  from assms(5) obtain obs items es n seen
    where loop: "derive_results fs c (rp_decisions plan) obs (sha256_hex app_text) (em_entries parent) 0 [] items = Inr (es, n, seen)"
      and missing: "sorted_set (filter (\<lambda>did. did \<notin> set seen) (map rd_id (rp_decisions plan))) = []"
      and derive: "derive_manifest now parent snapshot es (ac_id c) (change_reason n (ac_id c)) = Inr m"
    by (auto simp: derive_from_repair_def regular_directory_def regular_text_def plan result_simps Let_def)
  have "entries_ok (em_entries parent)"
    using wf_manifest_entries [OF assms(1)] assms(1) by (auto simp: entries_ok_def wf_manifest_def)
  note loop' = derive_results_Inr [OF loop this]
  note m = check_manifest_id [OF derive [unfolded derive_manifest_def]]
  have fields: "em_entries m = sort_key en_resource es" "em_rootfs m = snapshot" "em_sample m = em_sample parent"
      "em_parent_version m = Some (em_version parent)" "em_parent_id m = Some (manifest_id parent)"
    by (simp_all only: m env_manifest.simps)
  have ok: "check_manifest m = Inr m" using derive unfolding derive_manifest_def m [symmetric] .
  have set: "set (em_entries m) = set es" by (simp add: fields)
  have wf: "wf_manifest m" using ok loop' by (simp add: wf_manifest_def set entries_ok_def)
  have distinct: "distinct (map rd_id (rp_decisions plan))"
    using plan_accepts [OF assms(4,3)] by (simp add: wf_plan_def)
  have named: "decision_named (rp_decisions plan) (rd_id d) = Some d" if "d \<in> set (rp_decisions plan)" for d
  proof -
    have "distinct (map fst (rev (map (\<lambda>d. (rd_id d, d)) (rp_decisions plan))))"
      using distinct by (simp add: rev_map [symmetric] comp_def)
    then show ?thesis using that by (simp add: decision_named_def)
  qed
  have "\<exists>f \<in> set es. repair_recorded fs c (sha256_hex app_text) d f" if d: "d \<in> set (rp_decisions plan)" "rd_automatic d" for d
  proof -
    have "set (filter (\<lambda>did. did \<notin> set seen) (map rd_id (rp_decisions plan))) = {}"
      using arg_cong [where f = set, OF missing] by simp
    then have "rd_id d \<in> set seen" using d(1) by auto
    then show ?thesis using loop' named [OF d(1)] d(2) by fastforce
  qed
  with wf loop' fields set show ?thesis by (auto simp: validate_parent_Inr carried_def)
qed

end
