(* ===== verification/Snapshot_Properties.thy ===== *)
theory Snapshot_Properties
  imports Snapshot_Clone Environment_Properties
begin

text \<open>
  Properties of the snapshot store: what a captured tree and its copies have in common, and what a
  verified snapshot says about its tree.
\<close>

section \<open>Copies are trees\<close>

lemma copy_of_dir_node: "copy_of J src dst \<Longrightarrow> dir_node dst p = dir_node src p"
  by (cases "node_at src p") (auto simp: copy_of_def dir_node_def rename_node_file split: snap_node.splits elim: rename_node.elims)

lemma copy_of_wf:
  assumes wf: "wf_snap src" and copy: "copy_of J src dst"
  shows "wf_snap dst"
proof -
  have "list_all plain_component p \<and> (p \<noteq> [] \<longrightarrow> dir_node dst (butlast p)) \<and>
      (case n of SnapDir m \<Rightarrow> m \<le> 4095 | SnapFile i \<Rightarrow> map_of (sn_inodes dst) i \<noteq> None \<and> fst (inode_of dst i) \<le> 4095 | _ \<Rightarrow> True)"
    if "(p, n) \<in> set (sn_nodes dst)" for p n
  proof -
    obtain k where k: "(p, k) \<in> set (sn_nodes src)" "n = rename_node J k"
      using \<open>(p, n) \<in> set (sn_nodes dst)\<close> copy_of_in [OF wf copy] by blast
    have old: "list_all plain_component p" "p \<noteq> [] \<longrightarrow> dir_node src (butlast p)"
        "case k of SnapDir m \<Rightarrow> m \<le> 4095 | SnapFile i \<Rightarrow> map_of (sn_inodes src) i \<noteq> None \<and> fst (inode_of src i) \<le> 4095 | _ \<Rightarrow> True"
      using wf k(1) by (auto simp: wf_snap_def list_all_iff)
    have "map_of (sn_inodes dst) (J i) = Some (inode_of src i)" if "k = SnapFile i" for i
      using copy k(1) that by (auto simp: copy_of_def used_inodes_def)
    with old k(2) show ?thesis
      by (cases k) (auto simp: copy_of_dir_node [OF copy] inode_of_def)
  qed
  then show ?thesis
    using wf copy by (auto simp: wf_snap_def list_all_iff copy_of_dir_node [OF copy]) (auto simp: copy_of_def)
qed

lemma unused_group: "i \<notin> used_inodes (sn_nodes fs) \<Longrightarrow> link_group fs i = None"
proof -
  assume "i \<notin> used_inodes (sn_nodes fs)"
  then have "paths_of_inode fs i = []"
    using in_paths_of_inode [of _ fs i] by (cases "paths_of_inode fs i") (auto simp: used_inodes_def)
  then show ?thesis by (simp add: link_group_def)
qed

lemma copy_of_groups:
  assumes wf: "wf_snap src" and copy: "copy_of J src dst" and groups: "groups_distinct src"
  shows "groups_distinct dst"
  unfolding groups_distinct_def
proof (intro allI impI)
  fix j j' g
  assume g: "link_group dst j = Some g" "link_group dst j' = Some g"
  have from_src: "\<exists>i. j = J i \<and> link_group src i = Some g" if "link_group dst j = Some g" for j
  proof -
    have "j \<in> used_inodes (sn_nodes dst)" using unused_group [of j dst] that by auto
    then obtain i where i: "j = J i" "i \<in> used_inodes (sn_nodes src)"
      by (auto simp: used_inodes_def copy_of_in [OF wf copy] rename_node_file)
    with copy_of_group [OF wf copy i(2)] that show ?thesis by auto
  qed
  from from_src [OF g(1)] from_src [OF g(2)] groups show "j = j'" by (auto simp: groups_distinct_def)
qed

section \<open>Entries and manifests are read back as they were written\<close>

lemma snap_int_ok [simp]: "good n \<Longrightarrow> snap_int i f good (JInt n) = Inr n"
  by (simp add: snap_int_def)

lemma snap_string_ok [simp]: "good s \<Longrightarrow> snap_string i f good (JStr s) = Inr s"
  by (simp add: snap_string_def)

lemma snap_type_ok [simp]: "snap_type_from i (JStr (snap_type_value t)) = Inr t"
  by (simp add: snap_type_from_def)

lemmas snap_types_ok [simp] =
  snap_type_ok [of i TyDir for i, simplified] snap_type_ok [of i TyFile for i, simplified] snap_type_ok [of i TyLink for i, simplified]

definition wf_snap_entry :: "snap_entry \<Rightarrow> bool" where
  "wf_snap_entry e \<longleftrightarrow> starts_with (se_path e) ''/'' \<and> \<not> (se_path e = ''/'' \<and> se_type e \<noteq> TyDir) \<and>
     0 \<le> se_mode e \<and> se_mode e \<le> 4095 \<and>
     (case se_type e of
        TyFile \<Rightarrow> (\<exists>n. se_size e = Some n \<and> 0 \<le> n) \<and> (\<exists>s. se_sha e = Some s \<and> is_sha256 s) \<and> se_target e = None
      | TyLink \<Rightarrow> se_size e = None \<and> se_sha e = None \<and> se_target e \<noteq> None
      | TyDir \<Rightarrow> se_size e = None \<and> se_sha e = None \<and> se_target e = None) \<and>
     (\<forall>g. se_group e = Some g \<longrightarrow> se_type e = TyFile \<and> starts_with g ''hl_'')"

lemma snap_entry_roundtrip: "wf_snap_entry e \<Longrightarrow> snap_entry_from i (snap_entry_json e) = Inr e"
  by (cases e; cases "se_type e"; cases "se_group e")
    (auto simp: wf_snap_entry_def snap_entry_from_def snap_entry_json_def snap_payload_def snap_group_def opt_json_def guard_def)

lemma snap_entry_json_inj:
  assumes "sort_json (snap_entry_json e) = sort_json (snap_entry_json f)"
  shows "e = f"
proof -
  let ?d = "\<lambda>e. [(''path'', JStr (se_path e)), (''type'', JStr (snap_type_value (se_type e))), (''mode'', JInt (se_mode e)),
      (''size'', opt_json JInt (se_size e)), (''sha256'', opt_json JStr (se_sha e)),
      (''symlink_target'', opt_json JStr (se_target e)), (''hardlink_group'', opt_json JStr (se_group e))]"
  have "sort_json (JObj (?d e)) = sort_json (JObj (?d f))" using assms by (simp only: snap_entry_json_def)
  note get = sorted_jget [OF this]
  have "se_path e = se_path f" "se_type e = se_type f" "se_mode e = se_mode f" "se_size e = se_size f"
    using get [of "''path''"] get [of "''type''"] get [of "''mode''"] get [of "''size''"]
    by (simp_all add: snap_type_enum.val_eq)
  moreover have "se_sha e = se_sha f" "se_target e = se_target f" "se_group e = se_group f"
    using get [of "''sha256''"] get [of "''symlink_target''"] get [of "''hardlink_group''"] by simp_all
  ultimately show ?thesis by simp
qed

definition entries_json :: "snap_entry list \<Rightarrow> json" where
  "entries_json es = JList (map snap_entry_json es)"

lemma tree_digest_eq:
  assumes "tree_digest es = tree_digest fs"
  shows "es = fs \<or> sha256_collision (canonical_json (entries_json es)) (canonical_json (entries_json fs))"
proof -
  have ff: "float_free (JList (map snap_entry_json xs))" for xs by (simp add: list_all_iff snap_entry_json_def)
  from canonical_sha256_eq [OF assms [unfolded tree_digest_def] ff ff]
  consider "sort_json (JList (map snap_entry_json es)) = sort_json (JList (map snap_entry_json fs))"
    | "sha256_collision (canonical_json (entries_json es)) (canonical_json (entries_json fs))"
    by (auto simp: entries_json_def)
  then show ?thesis
  proof cases
    case 1
    then have "map (\<lambda>e. sort_json (snap_entry_json e)) es = map (\<lambda>e. sort_json (snap_entry_json e)) fs" by (simp add: comp_def)
    then show ?thesis using map_inj_eq [OF _ snap_entry_json_inj] by blast
  qed simp
qed

lemma scan_node_wf:
  assumes "wf_snap fs" "(p, n) \<in> set (sn_nodes fs)" "n \<noteq> SnapOther"
  shows "wf_snap_entry (scan_node fs (p, n))"
proof -
  have plain: "list_all plain_component p" using wf_snap_plain [OF assms(1)] assms(2) by auto
  have slash: "starts_with (guest_path p) ''/''" by (simp add: guest_path_def starts_with_def)
  have root: "guest_path p = ''/'' \<longleftrightarrow> p = []"
    using guest_path_root [OF plain] by (cases "p = []") (auto simp: guest_path_def)
  have dir: "n = SnapDir m" if "p = []" "dir_node fs []" "n = SnapDir m" for m using that by simp
  have "node_at fs p = Some n" using assms(2) node_at_in [OF assms(1)] by simp
  then have rootdir: "p = [] \<Longrightarrow> \<exists>m. n = SnapDir m"
    using assms(1) by (auto simp: wf_snap_def dir_node_def split: snap_node.splits)
  have group: "starts_with g ''hl_''" if "link_group fs i = Some g" for g i
    using that by (auto simp: link_group_def Let_def starts_with_def split: if_splits)
  have mode: "case n of SnapDir m \<Rightarrow> m \<le> 4095 | SnapFile i \<Rightarrow> fst (inode_of fs i) \<le> 4095 | _ \<Rightarrow> True"
    using assms(1,2) by (auto simp: wf_snap_def list_all_iff split: snap_node.splits)
  show ?thesis
    using slash root rootdir group mode assms(3)
    by (cases n) (auto simp: wf_snap_entry_def scan_node_def)
qed

lemma scan_wf:
  assumes "wf_snap fs" "scan_environment fs = Inr es"
  shows "list_all wf_snap_entry es" "sorted (map se_path es)" "distinct (map se_path es)" "es \<noteq> []" "se_path (hd es) = ''/''"
proof -
  obtain m ns where L: "scan_order fs = ([], SnapDir m) # ns" using scan_order_root [OF assms(1)] by blast
  have es: "es = map (scan_node fs) (scan_order fs)" by (rule scan_in_order [OF assms(2)])
  show "list_all wf_snap_entry es"
    using assms(2) scan_node_wf [OF assms(1)]
    by (auto simp: es list_all_iff scan_environment_def list_ex_iff split: if_splits)
  show "sorted (map se_path es)" using assms(2) by (auto simp: scan_environment_def split: if_splits)
  have "distinct (map (\<lambda>(p, n). guest_path p) (scan_order fs))"
    using distinct_guest_paths [OF scan_order_distinct [OF assms(1)]] wf_snap_plain [OF assms(1)] by simp
  then show "distinct (map se_path es)" unfolding es scan_paths .
  show "es \<noteq> []" "se_path (hd es) = ''/''" by (simp_all add: es L guest_path_def)
qed

lemma make_snapshot_id_ok: "is_sha256 d \<Longrightarrow> make_snapshot_id d = Inr (''env_'' @ take 16 d)"
  by (simp add: make_snapshot_id_def guard_def)

lemma tree_digest_hex [simp]: "is_sha256 (tree_digest es)"
  by (simp add: tree_digest_def)

lemma snap_manifest_roundtrip:
  assumes "sp_id m = ''env_'' @ take 16 (sp_sha m)" "sp_sha m = tree_digest (sp_entries m)" "sp_source m \<noteq> []" "sp_rootfs m \<noteq> []"
    and "list_all wf_snap_entry (sp_entries m)" "sorted (map se_path (sp_entries m))" "distinct (map se_path (sp_entries m))"
    and "sp_entries m \<noteq> []" "se_path (hd (sp_entries m)) = ''/''" "sp_generated m = Some now" "now \<noteq> []"
  shows "snap_manifest_from (snap_manifest_json m) = Inr m"
proof -
  have es: "emap_enum snap_entry_from (map snap_entry_json (sp_entries m)) = Inr (sp_entries m)"
    using assms(5) by (intro emap_enum_decode snap_entry_roundtrip) (auto simp: list_all_iff)
  have sha: "is_sha256 (sp_sha m)" using assms(2) by simp
  have sid: "starts_with (sp_id m) ''env_''" using assms(1) by (simp add: starts_with_def)
  show ?thesis
    using assms es sha sid make_snapshot_id_ok [OF sha]
    by (simp add: snap_manifest_from_def snap_manifest_json_def equals_one_def snap_text_def guard_def opt_json_def)
qed

section \<open>Capturing and cloning\<close>

text \<open>The trees that the store holds can be copied.\<close>

definition slot_ok :: "snap_slot \<Rightarrow> bool" where
  "slot_ok x = (case x of SlotDir doc (RootTree fs) \<Rightarrow> wf_snap fs \<and> groups_distinct fs | _ \<Rightarrow> True)"

definition snapshots_ok :: "snap_store \<Rightarrow> bool" where
  "snapshots_ok s \<longleftrightarrow> list_all (\<lambda>(sid, x). slot_ok x) s"

lemma verify_slot_Inr:
  "verify_slot x = Inr (m, fs) \<longleftrightarrow> (\<exists>v. x = Some (SlotDir (DocJson (Some v)) (RootTree fs)) \<and> snap_manifest_from v = Inr m \<and>
     scan_environment fs = Inr (sp_entries m) \<and> tree_digest (sp_entries m) = sp_sha m)"
  by (auto simp: verify_slot_def load_snap_manifest_def validate_snap_rootfs_def result_simps
      split: option.splits snap_slot.splits manifest_doc.splits rootfs_slot.splits)

lemma snap_manifest_id:
  assumes "snap_manifest_from v = Inr m"
  shows "sp_id m = ''env_'' @ take 16 (sp_sha m)"
  using assms by (auto simp: snap_manifest_from_def make_snapshot_id_def result_simps split: json.splits)

lemma verified_clone:
  assumes "verify_slot (resolve_snapshot cwd s sid) = Inr (m, fs)" "wf_snap fs" "groups_distinct fs"
  shows "\<exists>copy. snapshot_clone cwd s sid True = Inr (m, copy) \<and> scan_environment copy = Inr (sp_entries m) \<and>
    wf_snap copy \<and> groups_distinct copy \<and> (\<exists>J. copy_of J fs copy)"
proof -
  from assms(1) have scan: "scan_environment fs = Inr (sp_entries m)" "tree_digest (sp_entries m) = sp_sha m"
    by (auto simp: verify_slot_Inr)
  from clone_environment_copies [OF assms(2,3) scan(1)] obtain J copy
    where copy: "clone_environment fs = Inr copy" "copy_of J fs copy" by blast
  with scan assms(1) copy_of_scan [OF assms(2) copy(2)] copy_of_wf [OF assms(2) copy(2)] copy_of_groups [OF assms(2) copy(2) assms(3)]
  show ?thesis by (auto simp: snapshot_clone_def guard_def)
qed

lemma capture_new:
  assumes "wf_snap fs" "groups_distinct fs" "scan_environment fs = Inr es" "map_of s (''env_'' @ take 16 (tree_digest es)) = None"
    and "now \<noteq> []" "source \<noteq> []"
  shows "\<exists>m v copy. snapshot_capture now source dir s (RootTree fs) = (Inr (m, False), (sp_id m, SlotDir (DocJson (Some v)) (RootTree copy)) # s) \<and>
    sp_entries m = es \<and> sp_id m = ''env_'' @ take 16 (tree_digest es) \<and> sp_sha m = tree_digest es \<and>
    snap_manifest_from v = Inr m \<and> (\<exists>J. copy_of J fs copy)"
proof -
  let ?sid = "''env_'' @ take 16 (tree_digest es)"
  from clone_environment_copies [OF assms(1-3)] obtain J copy where copy: "clone_environment fs = Inr copy" "copy_of J fs copy" by blast
  have scan: "scan_environment copy = Inr es" using copy_of_scan [OF assms(1) copy(2)] assms(3) by simp
  let ?m = "\<lparr>sp_id = ?sid, sp_sha = tree_digest es, sp_source = source, sp_rootfs = dir @ ''/'' @ ?sid @ ''/rootfs'', sp_entries = es,
      sp_generated = Some now\<rparr>"
  have "snap_manifest_from (snap_manifest_json ?m) = Inr ?m"
    using scan_wf [OF assms(1,3)] assms(5,6) by (intro snap_manifest_roundtrip) simp_all
  moreover have "snapshot_capture now source dir s (RootTree fs) =
      (Inr (?m, False), (sp_id ?m, SlotDir (DocJson (Some (snap_manifest_json ?m))) (RootTree copy)) # s)"
    using assms(3,4) copy(1) scan
    by (simp add: snapshot_capture_def validate_snap_rootfs_def make_snapshot_id_ok guard_def Let_def)
  ultimately show ?thesis using copy(2) by (intro exI [of _ ?m] exI [of _ "snap_manifest_json ?m"] exI [of _ copy]) auto
qed

lemma capture_old:
  assumes "scan_environment fs = Inr es" "map_of s (''env_'' @ take 16 (tree_digest es)) = Some slot"
    and "snapshot_capture now source dir s (RootTree fs) = (Inr (m, reused), t)"
  shows "t = s \<and> reused \<and> sp_id m = ''env_'' @ take 16 (tree_digest es) \<and> sp_sha m = tree_digest es \<and>
    (\<exists>old. verify_slot (Some slot) = Inr (m, old))"
proof -
  from assms have "t = s" "reused" and old: "\<exists>old. verify_slot (Some slot) = Inr (m, old)" and sha: "sp_sha m = tree_digest es"
    by (auto simp: snapshot_capture_def validate_snap_rootfs_def make_snapshot_id_ok result_simps split: prod.splits)
  moreover from old have "sp_id m = ''env_'' @ take 16 (sp_sha m)" using snap_manifest_id by (auto simp: verify_slot_Inr)
  ultimately show ?thesis by simp
qed

lemma captured_snapshot:
  assumes "wf_snap fs" and "groups_distinct fs" and "scan_environment fs = Inr es" and "snapshots_ok s"
    and "now \<noteq> []" and "source \<noteq> []" and "snapshot_capture now source dir s (RootTree fs) = (Inr (m, reused), t)"
  shows "(sp_entries m = es \<or> sha256_collision (canonical_json (entries_json (sp_entries m))) (canonical_json (entries_json es))) \<and>
    snapshots_ok t \<and> snapshot_verify cwd t (sp_id m) = Inr m \<and>
    (\<exists>copy. snapshot_clone cwd t (sp_id m) True = Inr (m, copy) \<and> scan_environment copy = Inr (sp_entries m))"
proof -
  let ?sid = "''env_'' @ take 16 (tree_digest es)"
  obtain tree where resolved: "verify_slot (resolve_snapshot cwd t (sp_id m)) = Inr (m, tree)" and tree: "wf_snap tree" "groups_distinct tree"
    and sha: "sp_sha m = tree_digest es" and ok: "snapshots_ok t"
  proof (cases "map_of s ?sid")
    case None
    from capture_new [OF assms(1-3) None assms(5,6), of dir] assms(7) obtain v copy J
      where c: "t = (sp_id m, SlotDir (DocJson (Some v)) (RootTree copy)) # s" "sp_entries m = es" "sp_sha m = tree_digest es"
        "snap_manifest_from v = Inr m" "copy_of J fs copy" by auto
    note copy = copy_of_wf [OF assms(1) c(5)] copy_of_groups [OF assms(1) c(5) assms(2)]
    have "verify_slot (resolve_snapshot cwd t (sp_id m)) = Inr (m, copy)"
      using c copy_of_scan [OF assms(1) c(5)] assms(3) by (simp add: verify_slot_Inr resolve_snapshot_def)
    moreover have "snapshots_ok t" using assms(4) copy c(1) by (simp add: snapshots_ok_def slot_ok_def)
    ultimately show ?thesis using that copy c(3) by blast
  next
    case (Some slot)
    from capture_old [OF assms(3) Some assms(7)] obtain old where c: "t = s" "sp_id m = ?sid" "sp_sha m = tree_digest es"
        "verify_slot (Some slot) = Inr (m, old)" by blast
    have "slot_ok slot" using Some assms(4) by (auto simp: snapshots_ok_def list_all_iff dest: map_of_SomeD)
    then have "wf_snap old" "groups_distinct old" using c(4) by (auto simp: verify_slot_Inr slot_ok_def)
    moreover have "verify_slot (resolve_snapshot cwd t (sp_id m)) = Inr (m, old)" using c Some by (simp add: resolve_snapshot_def)
    ultimately show ?thesis using that c(1,3) assms(4) by blast
  qed
  have "tree_digest (sp_entries m) = tree_digest es" using resolved sha by (auto simp: verify_slot_Inr)
  from tree_digest_eq [OF this] verified_clone [OF resolved tree] resolved ok show ?thesis
    by (auto simp: snapshot_verify_def)
qed

text \<open>
  C13: A captured root filesystem is in the store: the manifest that \<open>capture\<close> returns has the entries of
  the source or, when the store had a snapshot of that digest, two lists of entries with one SHA-256; it
  verifies, and a clone of it succeeds and is scanned to its entries.
\<close>

theorem captured_rootfs_clones_back:
  assumes "wf_snap fs" and "groups_distinct fs" and "scan_environment fs = Inr es" and "snapshots_ok s"
    and "now \<noteq> []" and "source \<noteq> []" and "snapshot_capture now source dir s (RootTree fs) = (Inr (m, reused), t)"
  shows "(sp_entries m = es \<or> sha256_collision (canonical_json (entries_json (sp_entries m))) (canonical_json (entries_json es))) \<and>
    snapshots_ok t \<and> snapshot_verify cwd t (sp_id m) = Inr m \<and>
    (\<exists>copy. snapshot_clone cwd t (sp_id m) True = Inr (m, copy) \<and> scan_environment copy = Inr (sp_entries m))"
  by (rule captured_snapshot [OF assms])

text \<open>A tree with a file that has two names\<close>

definition example_rootfs :: snap_fs where
  "example_rootfs =
     \<lparr>sn_nodes = [([], SnapDir 493), ([''a''], SnapFile 0), ([''b''], SnapFile 0)], sn_inodes = [(0, 420, ''x'')]\<rparr>"

lemma example_rootfs_ok: "wf_snap example_rootfs" "groups_distinct example_rootfs"
proof -
  show "wf_snap example_rootfs"
    by (simp add: wf_snap_def example_rootfs_def dir_node_def node_at_def plain_component_def inode_of_def)
  have "i = 0" if "link_group example_rootfs i = Some g" for i g
  proof (rule ccontr)
    assume "i \<noteq> 0"
    then have "i \<notin> used_inodes (sn_nodes example_rootfs)" by (auto simp: used_inodes_def example_rootfs_def)
    from unused_group [OF this] that show False by simp
  qed
  then show "groups_distinct example_rootfs" by (auto simp: groups_distinct_def)
qed

theorem captured_rootfs_clones_back_witness:
  "\<exists>m t copy. snapshot_capture ''t'' ''r'' ''d'' [] (RootTree example_rootfs) = (Inr (m, False), t) \<and>
    snapshot_clone [] t (sp_id m) True = Inr (m, copy) \<and> scan_environment copy = Inr (sp_entries m)"
proof -
  have "\<exists>es. scan_environment example_rootfs = Inr es" by (simp add: scan_environment_def example_rootfs_def)
  then obtain es where scan: "scan_environment example_rootfs = Inr es" by blast
  from capture_new [OF example_rootfs_ok scan, of "[]" "''t''" "''r''" "''d''"] obtain m t
    where capture: "snapshot_capture ''t'' ''r'' ''d'' [] (RootTree example_rootfs) = (Inr (m, False), t)" by auto
  from captured_rootfs_clones_back [OF example_rootfs_ok scan _ _ _ capture, of "[]"] capture show ?thesis
    by (auto simp: snapshots_ok_def)
qed

end
