(* ===== verification/Repair_Iteration.thy ===== *)
theory Repair_Iteration
  imports Builder_Properties Snapshot_Properties Repair_Step
begin

text \<open>
  The tree that a run of the applier leaves on a copy of the parent snapshot: its scan has the entries of
  the parent and new directories only, and the manifest records them.
\<close>

section \<open>The scan of a repaired tree\<close>

definition authorized_path :: "repair_plan \<Rightarrow> fpath \<Rightarrow> bool" where
  "authorized_path plan p \<longleftrightarrow> (\<exists>d \<in> set (rp_decisions plan). rd_automatic d \<and>
     (\<exists>g. applier_guest_path default_applier_config (rd_resource d) = Inr g \<and> p \<in> set (prefixes_of (pp_comps (pp_parse g)))))"

lemma snap_files_eq:
  "snap_files fs = snap_files gs \<Longrightarrow> sn_inodes fs = sn_inodes gs \<and>
     filter (\<lambda>(p, n). \<not> dir_kind n) (sn_nodes fs) = filter (\<lambda>(p, n). \<not> dir_kind n) (sn_nodes gs)"
  by (simp add: snap_files_def)

lemma paths_of_files: "paths_of_inode fs i = map fst (filter (\<lambda>(p, n). n = SnapFile i) (fst (snap_files fs)))"
proof -
  have "filter (\<lambda>(p, n). n = SnapFile i) (filter (\<lambda>(p, n). \<not> dir_kind n) ns) = filter (\<lambda>(p, n). n = SnapFile i) ns"
    for ns :: "(fpath \<times> snap_node) list"
    by (induction ns) (auto split: prod.splits)
  then show ?thesis by (simp add: paths_of_inode_def snap_files_def)
qed

lemma link_group_files: "snap_files fs = snap_files gs \<Longrightarrow> link_group fs i = link_group gs i"
  by (simp add: link_group_def paths_of_files)

lemma scan_node_files:
  assumes "snap_files fs = snap_files gs"
  shows "scan_node fs = scan_node gs"
proof -
  have "link_group fs = link_group gs" by (rule ext) (rule link_group_files [OF assms])
  moreover have "inode_of fs = inode_of gs" by (simp add: fun_eq_iff inode_of_def snap_files_eq [OF assms, THEN conjunct1])
  ultimately show ?thesis unfolding fun_eq_iff scan_node_def by simp
qed

lemma groups_files: "snap_files fs = snap_files gs \<Longrightarrow> groups_distinct fs = groups_distinct gs"
  unfolding groups_distinct_def using link_group_files [of fs gs] by metis

lemma scan_set: "scan_environment fs = Inr es \<Longrightarrow> set es = scan_node fs ` set (sn_nodes fs)"
  by (auto simp: scan_environment_def split: if_splits)

lemma not_dir_files: "\<not> dir_kind n \<Longrightarrow> (p, n) \<in> set (sn_nodes fs) \<longleftrightarrow> (p, n) \<in> set (fst (snap_files fs))"
  by (simp add: snap_files_def)

lemma repaired_scan:
  assumes wf: "wf_snap fs" "wf_snap gs" and files: "snap_files gs = snap_files fs" and scan: "scan_environment fs = Inr es"
    and old: "\<And>q v. snap_ent fs q = Some v \<Longrightarrow> snap_ent gs q = Some v"
    and new: "\<And>q. snap_ent fs q = None \<Longrightarrow> snap_ent gs q \<noteq> None \<Longrightarrow> P q"
  shows "\<exists>es'. scan_environment gs = Inr es' \<and> set es \<subseteq> set es' \<and>
    (\<forall>e \<in> set es'. e \<in> set es \<or> se_type e = TyDir \<and> (\<exists>p. P p \<and> se_path e = guest_path p))"
proof -
  have dirs: "(p, SnapDir m) \<in> set (sn_nodes gs)" if "(p, SnapDir m) \<in> set (sn_nodes fs)" for p m
  proof -
    have "node_at fs p = Some (SnapDir m)" using that node_at_in [OF wf(1)] by blast
    then have "snap_ent fs p = Some (EDir, m)" by (simp add: snap_ent_def node_entry_def)
    then have "snap_ent gs p = Some (EDir, m)" by (rule old)
    then obtain k where "node_at gs p = Some k" "node_entry gs k = (EDir, m)" by (auto simp: snap_ent_def)
    then have "node_at gs p = Some (SnapDir m)" by (cases k) (simp_all add: node_entry_def)
    then show ?thesis using node_at_in [OF wf(2)] by simp
  qed
  have sub: "set (sn_nodes fs) \<subseteq> set (sn_nodes gs)"
  proof
    fix x
    assume x: "x \<in> set (sn_nodes fs)"
    obtain p n where n: "x = (p, n)" by (cases x)
    show "x \<in> set (sn_nodes gs)"
    proof (cases n)
      case (SnapDir m)
      then show ?thesis using x n dirs by simp
    qed (use x n not_dir_files [of n p fs] not_dir_files [of n p gs] files in simp_all)
  qed
  have "SnapOther \<notin> snd ` set (sn_nodes gs)"
  proof
    assume "SnapOther \<in> snd ` set (sn_nodes gs)"
    then obtain p where "(p, SnapOther) \<in> set (sn_nodes gs)" by force
    then have "(p, SnapOther) \<in> set (sn_nodes fs)" using files by (simp add: not_dir_files)
    then show False using scan by (auto simp: scan_environment_def list_ex_iff split: if_splits)
  qed
  then have "\<exists>es'. scan_environment gs = Inr es'" by (force simp: scan_environment_def list_ex_iff)
  then obtain es' where es': "scan_environment gs = Inr es'" by blast
  have set: "set es' = scan_node fs ` set (sn_nodes gs)" "set es = scan_node fs ` set (sn_nodes fs)"
    using scan_set [OF es'] scan_set [OF scan] scan_node_files [OF files] by simp_all
  have "e \<in> set es \<or> se_type e = TyDir \<and> (\<exists>p. P p \<and> se_path e = guest_path p)" if e: "e \<in> set es'" for e
  proof -
    obtain p n where n: "(p, n) \<in> set (sn_nodes gs)" "e = scan_node fs (p, n)" using e set(1) by auto
    show ?thesis
    proof (cases "(p, n) \<in> set (sn_nodes fs)")
      case True
      then show ?thesis using n(2) set(2) by simp
    next
      case False
      then have "dir_kind n" using n(1) not_dir_files [of n p fs] not_dir_files [of n p gs] files by metis
      then obtain m where m: "n = SnapDir m" by (cases n) auto
      have gs: "node_at gs p = Some n" using n(1) node_at_in [OF wf(2)] by simp
      have "node_at fs p = None"
      proof (rule ccontr)
        assume "node_at fs p \<noteq> None"
        then obtain k where k: "node_at fs p = Some k" by blast
        then have "(p, k) \<in> set (sn_nodes gs)" using sub node_at_in [OF wf(1)] by blast
        then have "node_at gs p = Some k" using node_at_in [OF wf(2)] by blast
        then have "k = n" using gs by simp
        then show False using k False node_at_in [OF wf(1)] by simp
      qed
      then have "P p" using gs by (intro new) (simp_all add: snap_ent_def)
      then show ?thesis using n(2) m by (auto simp: scan_node_def)
    qed
  qed
  with es' sub set show ?thesis by auto
qed

section \<open>The repaired tree\<close>

text \<open>
  The tree after a run that completed on a copy of the parent: its scan has all the entries of the parent
  and new directories on the way to authorized targets only.
\<close>

lemma applied_candidate:
  assumes fin: "ao_result (apply_to_candidate env pf rf candidate) = Inr rep" and plan: "plan_load (re_loads env) pf = Inr plan"
    and wf: "wf_snap candidate" "groups_distinct candidate" and scan: "scan_environment candidate = Inr es"
  defines "fs \<equiv> ao_fs (apply_to_candidate env pf rf candidate)"
  shows "wf_snap fs \<and> groups_distinct fs \<and> (\<exists>es'. scan_environment fs = Inr es' \<and> set es \<subseteq> set es' \<and>
    (\<forall>e \<in> set es'. e \<in> set es \<or> se_type e = TyDir \<and> (\<exists>p. authorized_path plan p \<and> se_path e = guest_path p)))"
proof -
  have "wf_snap fs \<and> snap_files fs = snap_files candidate"
    unfolding fs_def apply_to_candidate_def using wf(1) by (intro snap_kept.apply_file_keep) simp_all
  then have fs: "wf_snap fs" "snap_files fs = snap_files candidate" by simp_all
  have "closed_tree (snap_ent candidate)"
    using wf(1) by (auto simp: closed_tree_def is_dir_snap wf_snap_iff snap_ent_None wf_node_def)
  note run = snap.apply_completed [OF refl this fin [unfolded apply_to_candidate_def] plan,
      folded apply_to_candidate_def fs_def]
  from run have "\<exists>es'. scan_environment fs = Inr es' \<and> set es \<subseteq> set es' \<and>
    (\<forall>e \<in> set es'. e \<in> set es \<or> se_type e = TyDir \<and> (\<exists>p. authorized_path plan p \<and> se_path e = guest_path p))"
    unfolding authorized_path_def by (intro repaired_scan [OF wf(1) fs scan]) blast+
  then show ?thesis using fs wf(2) groups_files [OF fs(2)] by blast
qed

text \<open>An entry of the snapshot and an entry of the manifest that describe the directory of a decision\<close>

definition recorded_directory :: "repair_decision \<Rightarrow> snap_entry \<Rightarrow> manifest_entry \<Rightarrow> bool" where
  "recorded_directory d e f \<longleftrightarrow>
     se_type e = TyDir \<and> se_path e = guest_path (pp_comps (pp_parse (rd_resource d))) \<and>
     en_resource f = ''fs:'' @ rd_resource d \<and> en_kind f = ResDirectory \<and>
     en_value_sha f = canonical_sha256 (directory_value (mode_text (nat (se_mode e))) (rd_resource d))"

lemma recorded_scan:
  assumes "wf_snap fs" "scan_environment fs = Inr es" "directory_recorded fs (rd_resource d) f"
  shows "\<exists>e \<in> set es. recorded_directory d e f"
proof -
  from assms(3) obtain m where m: "node_at fs (pp_comps (pp_parse (rd_resource d))) = Some (SnapDir m)"
    and f: "en_resource f = ''fs:'' @ rd_resource d" "en_kind f = ResDirectory"
      "en_value_sha f = canonical_sha256 (directory_value (mode_text m) (rd_resource d))"
    by (auto simp: directory_recorded_def)
  have "(pp_comps (pp_parse (rd_resource d)), SnapDir m) \<in> set (sn_nodes fs)" using m node_at_in [OF assms(1)] by blast
  then have "scan_node fs (pp_comps (pp_parse (rd_resource d)), SnapDir m) \<in> set es" unfolding scan_set [OF assms(2)] by blast
  then show ?thesis by (rule rev_bexI) (simp add: recorded_directory_def scan_node_def f)
qed

end
