(* ===== verification/Applier_Report.thy ===== *)
theory Applier_Report
  imports Repair_Iteration
begin

text \<open>
  The interface of the applier and the manifest builder: the report of a completed run is accepted by
  the builder, so that an iteration whose repairs can be named in a manifest always gets the next one.
\<close>

section \<open>Results name their decisions\<close>

definition names_decision :: "repair_decision \<Rightarrow> decision_result \<Rightarrow> bool" where
  "names_decision d r \<longleftrightarrow> dr_id r = rd_id d \<and> dr_requirement_id r = rd_requirement_id d \<and>
     dr_action r = action_value (rd_action d) \<and> dr_resource r = rd_resource d"

lemma names_plain [simp]:
  "names_decision d (plain_result d st reason)"
  "names_decision d (preflight_result hroot dry item) \<longleftrightarrow> names_decision d (plain_result (pd_decision item) RPlanned [])"
  "names_decision d (applied_result hroot item actual) \<longleftrightarrow> names_decision d (plain_result (pd_decision item) RPlanned [])"
  by (simp_all add: names_decision_def plain_result_def preflight_result_def applied_result_def)

lemma preflight_names:
  "preflight cfg ops fs hroot dry virt ds = Inr (items, results) \<Longrightarrow> list_all2 names_decision ds results"
  by (induction ds arbitrary: virt items results)
    (auto simp: ebind_Inr_iff if_Inl_iff dest: prepare_directory_Inr split: if_splits)

text \<open>A dictionary of results by the identifier of the decision they name\<close>

definition names_by_id :: "repair_decision set \<Rightarrow> (string \<times> decision_result) list \<Rightarrow> bool" where
  "names_by_id D bd \<longleftrightarrow> (\<forall>(k, r) \<in> set bd. \<exists>d \<in> D. rd_id d = k \<and> names_decision d r)"

lemma apply_items_names:
  "apply_items ops hroot items fs created bd = (Inr bd', fs', created') \<Longrightarrow> names_by_id D bd \<Longrightarrow>
     \<forall>i \<in> set items. pd_decision i \<in> D \<Longrightarrow> names_by_id D bd'"
proof (induction items arbitrary: fs created bd)
  case (Cons item items)
  show ?case
  proof (cases "pd_satisfied item")
    case False
    then obtain actual fs1 created1 where rest: "apply_items ops hroot items fs1 created1
        ((rd_id (pd_decision item), applied_result hroot item actual) # bd) = (Inr bd', fs', created')"
      using Cons.prems(1) by (auto split: prod.splits sum.splits)
    have "names_by_id D ((rd_id (pd_decision item), applied_result hroot item actual) # bd)"
      using Cons.prems(2,3) by (auto simp: names_by_id_def)
    then show ?thesis using Cons.IH [OF rest] Cons.prems(3) by simp
  qed (use Cons in simp)
qed simp

lemma apply_prepared_names:
  assumes pre: "preflight cfg ops fs hroot dry virt ds = Inr (items, initial)"
    and ap: "apply_prepared ops hroot items initial fs0 = (Inr results, fs1, created)"
    and ids: "distinct (map rd_id ds)"
  shows "list_all2 names_decision ds results"
proof -
  obtain bd where items: "apply_items ops hroot items fs0 [] (rev (map (\<lambda>r. (dr_id r, r)) initial)) = (Inr bd, fs1, created)"
      and col: "collect_results bd initial = Inr results"
    using ap by (auto simp: apply_prepared_def split: prod.splits sum.splits)
  note initial = preflight_names [OF pre]
  have start: "names_by_id (set ds) (rev (map (\<lambda>r. (dr_id r, r)) initial))"
    using initial by (fastforce simp: names_by_id_def names_decision_def list_all2_conv_all_nth in_set_conv_nth)
  have "pd_decision i \<in> set ds" if "i \<in> set items" for i
  proof -
    have "pd_decision i \<in> set (map pd_decision items)" using that by simp
    then show ?thesis using preflight_decisions [OF pre] by simp
  qed
  then have bd: "names_by_id (set ds) bd" using apply_items_names [OF items start] by blast
  show ?thesis
  proof (rule list_all2_all_nthI)
    show len: "length ds = length results"
      using list_all2_lengthD [OF initial] list_all2_lengthD [OF collect_results_nth [OF col]] by simp
    fix n
    assume n: "n < length ds"
    then have m: "n < length initial" using list_all2_lengthD [OF initial] by simp
    have "map_of bd (dr_id (initial ! n)) = Some (results ! n)" using list_all2_nthD [OF collect_results_nth [OF col] m] .
    moreover have "dr_id (initial ! n) = rd_id (ds ! n)" using list_all2_nthD [OF initial n] by (simp add: names_decision_def)
    ultimately have "(rd_id (ds ! n), results ! n) \<in> set bd" by (auto dest: map_of_SomeD)
    then obtain d where d: "d \<in> set ds" "rd_id d = rd_id (ds ! n)" "names_decision d (results ! n)"
      using bd by (auto simp: names_by_id_def)
    then have "d = ds ! n" using ids n by (metis distinct_map inj_onD nth_mem)
    with d(3) show "names_decision (ds ! n) (results ! n)" by simp
  qed
qed

section \<open>The report of a completed run\<close>

text \<open>What the builder relies on in a report\<close>

definition reports :: "repair_decision \<Rightarrow> decision_result \<Rightarrow> bool" where
  "reports d r \<longleftrightarrow> names_decision d r \<and> settled d r"

definition completed_report :: "repair_plan \<Rightarrow> string \<Rightarrow> application_report \<Rightarrow> bool" where
  "completed_report plan plan_sha rep \<longleftrightarrow>
     ar_state rep = ACompleted \<and> \<not> ar_dry_run rep \<and> ar_plan_sha256 rep = plan_sha \<and>
     ar_requirements_sha256 rep = rp_source_sha256 plan \<and> list_all2 reports (rp_decisions plan) (ar_results rep)"

text \<open>What the preflight has checked of an automatic decision\<close>

definition directory_decision :: "applier_config \<Rightarrow> repair_decision \<Rightarrow> bool" where
  "directory_decision cfg d \<longleftrightarrow> rd_disposition d = AutoCandidate \<and> rd_action d = CreateDirectory \<and>
     jget (rd_parameters d) ''parents'' = JBool True \<and> (\<exists>mode. parse_mode (rd_id d) (jget (rd_parameters d) ''mode'') = Inr mode) \<and>
     (\<exists>g. applier_guest_path cfg (rd_resource d) = Inr g)"

lemma prepared_decision: "prepare_directory cfg ops fs virt d = Inr item \<Longrightarrow>
    jget (rd_parameters d) ''parents'' = JBool True \<and> (\<exists>mode. parse_mode (rd_id d) (jget (rd_parameters d) ''mode'') = Inr mode) \<and>
     (\<exists>g. applier_guest_path cfg (rd_resource d) = Inr g)"
  by (auto simp: prepare_directory_def result_simps Let_def)

lemma preflight_directories:
  "preflight cfg ops fs hroot dry virt ds = Inr (items, results) \<Longrightarrow> \<forall>d \<in> set ds. rd_automatic d \<longrightarrow> directory_decision cfg d"
proof (induction ds arbitrary: virt items results)
  case (Cons d ds)
  show ?case
  proof (cases "rd_automatic d")
    case False
    with Cons show ?thesis by (auto simp: ebind_Inr_iff)
  next
    case True
    with Cons.prems obtain i items' results' where p: "prepare_directory cfg ops fs virt d = Inr i"
        and r: "preflight cfg ops fs hroot dry (pd_create i @ virt) ds = Inr (items', results')"
        and d: "rd_disposition d = AutoCandidate" "rd_action d = CreateDirectory"
      by (auto simp: ebind_Inr_iff if_Inl_iff split: if_splits)
    with prepared_decision [OF p] Cons.IH [OF r] show ?thesis by (simp add: directory_decision_def)
  qed
qed simp

lemma run_reports:
  assumes out: "apply_file cfg ops id sv loads now pp (FileText t) rp rf hroot False fs = out"
    and fin: "ao_result out = Inr rep" and plan: "plan_load loads (FileText t) = Inr plan"
    and ids: "distinct (map rd_id (rp_decisions plan))"
  shows "completed_report plan (sha256_hex t) rep \<and> (\<forall>d \<in> set (rp_decisions plan). rd_automatic d \<longrightarrow> directory_decision cfg d)"
  using out
proof (cases rule: apply_file_run)
  case (refused e)
  with fin show ?thesis by simp
next
  case (run plan' hr psha rsha)
  from run(1) plan have inputs: "plan' = plan" "psha = sha256_hex t" "rsha = rp_source_sha256 plan"
    by (auto simp: load_inputs_def result_simps split: file_view.splits)
  from run(2) show ?thesis
  proof (cases rule: run_transaction_cases)
    case (preflight e)
    then show ?thesis using fin fail_transaction_Inl by (metis sum.distinct(1))
  next
    case (failed items results res fs1 created e)
    then show ?thesis using fin fail_transaction_Inl by (metis sum.distinct(1))
  next
    case (completed items results results2 fs1 created)
    note parts = completed(1,2) [unfolded inputs(1)]
    have "list_all2 reports (rp_decisions plan) results2"
      using apply_prepared_names [OF parts ids] apply_prepared_settled [OF parts ids]
      by (simp add: reports_def list_all2_conv_all_nth)
    with preflight_directories [OF parts(1)] fin completed(3) inputs(2,3) show ?thesis
      by (auto simp: completed_report_def)
  qed
qed

end
