(* ===== verification/Builder_Success.thy ===== *)
theory Builder_Success
  imports Applier_Report
begin

text \<open>
  When the manifest builder succeeds: the identifiers it needs, evidence that does not clash, and the
  loop over the results of a completed run.
\<close>

section \<open>Identifiers\<close>

lemma show_octal_digits: "list_all ascii_digit (show_octal n)"
proof (induction n rule: show_octal.induct)
  case (1 n)
  have digit: "ascii_digit (char_of (48 + k))" if "k < 8" for k :: nat
    using that by (simp add: ascii_digit_def)
  show ?case
  proof (cases "n < 8")
    case False
    with 1 digit [of "n mod 8"] show ?thesis by (subst show_octal.simps) simp
  qed (use digit in \<open>subst show_octal.simps, simp\<close>)
qed

lemma show_octal_length: "n < 8 ^ Suc k \<Longrightarrow> length (show_octal n) \<le> Suc k"
proof (induction k arbitrary: n)
  case 0
  then show ?case by (subst show_octal.simps) simp
next
  case (Suc k)
  show ?case
  proof (cases "n < 8")
    case False
    have "n div 8 < 8 ^ Suc k" using Suc.prems by (simp add: less_mult_imp_div_less)
    from Suc.IH [OF this] False show ?thesis by (subst show_octal.simps) simp
  qed (subst show_octal.simps, simp)
qed

lemma digit_identifier: "ascii_digit c \<Longrightarrow> env_identifier_char c"
  by (simp add: env_identifier_char_def)

lemma mode_text_ok:
  assumes "m \<le> 4095"
  shows "list_all env_identifier_char (mode_text m) \<and> length (mode_text m) \<le> 4"
proof -
  have "length (show_octal m) \<le> 4" using assms show_octal_length [of m 3] by simp
  moreover have "list_all ascii_digit (mode_text m)"
    using show_octal_digits [of m] by (auto simp: mode_text_def Let_def list_all_iff ascii_digit_def)
  ultimately show ?thesis using digit_identifier by (auto simp: mode_text_def Let_def list_all_iff)
qed

lemma sha_identifier: "is_sha256 s \<Longrightarrow> list_all env_identifier_char (take n s)"
  using lower_hex_identifier by (auto simp: is_sha256_def list_all_iff dest: in_set_takeD)

lemma identifier_append:
  "is_env_identifier a \<Longrightarrow> list_all env_identifier_char b \<Longrightarrow> length a + length b \<le> 256 \<Longrightarrow> is_env_identifier (a @ b)"
  by (cases a) (auto simp: is_env_identifier_def)

lemma value_identifier:
  assumes "m \<le> 4095" "is_sha256 s"
  shows "is_env_identifier (''directory-'' @ mode_text m @ ''-'' @ take 12 s)"
proof (rule identifier_append)
  show "is_env_identifier ''directory-''"
    by (simp add: is_env_identifier_def env_identifier_char_def ascii_upper_def ascii_lower_def ascii_digit_def)
  show "list_all env_identifier_char (mode_text m @ ''-'' @ take 12 s)"
    using mode_text_ok [OF assms(1)] sha_identifier [OF assms(2), of 12] by (simp add: env_identifier_char_def)
  show "length ''directory-'' + length (mode_text m @ ''-'' @ take 12 s) \<le> 256"
    using mode_text_ok [OF assms(1)] min.cobounded2 [of "length s" 12] by (simp del: min.cobounded2)
qed

section \<open>The entry of a directory\<close>

text \<open>The identifiers that a decision needs\<close>

definition recordable :: "attempt_contract \<Rightarrow> repair_decision \<Rightarrow> bool" where
  "recordable c d \<longleftrightarrow> is_env_identifier (''fs:'' @ rd_resource d) \<and> is_env_identifier (ac_id c @ '':repair:'' @ rd_id d)"

definition attempt_named :: "attempt_contract \<Rightarrow> bool" where
  "attempt_named c \<longleftrightarrow> is_env_identifier (ac_id c) \<and> is_env_identifier (ac_id c @ '':observation'')"

lemma guest_path_normal:
  assumes "applier_guest_path cfg res = Inr g"
  shows "starts_with res ''/'' \<and> res \<noteq> ''/'' \<and> ''..'' \<notin> set (pp_parts (pp_parse res)) \<and> pp_str (pp_parse res) = strip_slashes res \<and>
    pp_comps (pp_parse res) \<noteq> [] \<and> pp_comps (pp_parse g) = pp_comps (pp_parse res)"
proof -
  have n: "normal_absolute res" "g = pp_str (pp_parse res)" using assms by (simp_all add: applier_guest_path_Inr)
  from n(1) obtain rt cs where "cs \<noteq> []" "pp_parse res = PPath rt cs" "pp_parse (pp_str (pp_parse res)) = PPath rt cs"
    by (rule normal_absolute_parse)
  then have "pp_comps (pp_parse res) \<noteq> [] \<and> pp_comps (pp_parse g) = pp_comps (pp_parse res)" by (simp add: n(2))
  with assms show ?thesis by (auto simp: applier_guest_path_def Let_def split: if_splits)
qed

lemma observe_components_ok:
  "(\<And>n. n < length cs \<Longrightarrow> dir_node fs (cur @ take (Suc n) cs)) \<Longrightarrow>
     \<exists>r. observe_components fs res cur seen cs = Inr r \<and> (cs \<noteq> [] \<longrightarrow> (\<exists>m. r = Some m \<and> node_at fs (cur @ cs) = Some (SnapDir m)))"
proof (induction fs res cur seen cs rule: observe_components.induct)
  case (2 fs res cur seen c cs)
  have "dir_node fs (cur @ [c])" using 2(2) [of 0] by simp
  then obtain m where m: "node_at fs (cur @ [c]) = Some (SnapDir m)" by (auto simp: dir_node_def split: option.splits snap_node.splits)
  have "dir_node fs ((cur @ [c]) @ take (Suc n) cs)" if "n < length cs" for n using 2(2) [of "Suc n"] that by simp
  from 2(1) [OF m refl this] m show ?case by (cases "cs = []") auto
qed simp

lemma observed_mode_ok:
  assumes "applier_guest_path cfg res = Inr g" and "\<And>q. q \<in> set (prefixes_of (pp_comps (pp_parse res))) \<Longrightarrow> dir_node fs q"
  shows "\<exists>m. observed_directory_mode fs res did = Inr (mode_text m) \<and> node_at fs (pp_comps (pp_parse res)) = Some (SnapDir m)"
proof -
  note n = guest_path_normal [OF assms(1)]
  then have "drop 1 (pp_parts (pp_parse res)) = pp_comps (pp_parse res)" by (simp add: pp_parts_def pp_root_absolute)
  moreover have "\<exists>r. observe_components fs res [] None (pp_comps (pp_parse res)) = Inr r \<and>
      (\<exists>m. r = Some m \<and> node_at fs (pp_comps (pp_parse res)) = Some (SnapDir m))"
    using observe_components_ok [of "pp_comps (pp_parse res)" fs "[]" res None] assms(2) n by (auto simp: set_prefixes_of)
  ultimately show ?thesis using n by (auto simp: observed_directory_mode_def Let_def guard_def)
qed

lemma parse_mode_semantics:
  "parse_mode did v = Inr mode \<Longrightarrow>
    (case v of JStr s \<Rightarrow> guard (list_all octal_digit s \<and> (length s = 3 \<or> (length s = 4 \<and> hd s = CHR ''0''))) e | _ \<Rightarrow> Inl e) = Inr ()"
  by (cases v) (auto simp: guard_def split: if_splits)

lemma evidence_ids: "me_id (observation_evidence c obs) \<noteq> me_id (repair_evidence c did app)"
  by (simp add: observation_evidence_def repair_evidence_def)

lemma provider_ok: "is_provider ''static_directory''"
  by (simp add: is_provider_def ascii_lower_def ascii_digit_def)

lemma directory_entry_ok:
  assumes "wf_snap fs" "directory_decision cfg d" "recordable c d" "attempt_named c" "is_sha256 obs" "is_sha256 app"
    and "\<And>q. q \<in> set (prefixes_of (pp_comps (pp_parse (rd_resource d)))) \<Longrightarrow> dir_node fs q"
  shows "\<exists>e. directory_entry fs c (rd_id d) (rd_resource d) (rd_parameters d) obs app = Inr e \<and> wf_entry e \<and>
    set (en_evidence e) = {observation_evidence c obs, repair_evidence c (rd_id d) app}"
proof -
  let ?ob = "observation_evidence c obs" and ?rep = "repair_evidence c (rd_id d) app"
  from assms(2) obtain mode g where mode: "parse_mode (rd_id d) (jget (rd_parameters d) ''mode'') = Inr mode"
    and parents: "jget (rd_parameters d) ''parents'' = JBool True" and g: "applier_guest_path cfg (rd_resource d) = Inr g"
    by (auto simp: directory_decision_def)
  from observed_mode_ok [OF g assms(7), of "rd_id d"] obtain m
    where m: "observed_directory_mode fs (rd_resource d) (rd_id d) = Inr (mode_text m)"
      "node_at fs (pp_comps (pp_parse (rd_resource d))) = Some (SnapDir m)" by blast
  have "wf_node fs (pp_comps (pp_parse (rd_resource d))) (SnapDir m)" using m(2) assms(1) unfolding wf_snap_iff by blast
  then have bound: "m \<le> 4095" by (simp add: wf_node_def)
  have ev: "check_evidence ?ob = Inr ?ob" "check_evidence ?rep = Inr ?rep"
    using assms(3-6) by (simp_all add: check_evidence_Inr observation_evidence_def repair_evidence_def attempt_named_def recordable_def)
  let ?e = "new_directory_entry c (rd_resource d) (mode_text m) (sort_key me_id [?ob, ?rep])"
  have sorted: "sorted (map me_id (sort_key me_id [?ob, ?rep]))" "distinct (map me_id (sort_key me_id [?ob, ?rep]))"
    using evidence_ids [of c obs "rd_id d" app] by auto
  have set: "set (sort_key me_id [?ob, ?rep]) = {?ob, ?rep}" by (simp add: insert_commute)
  then have ne: "sort_key me_id [?ob, ?rep] \<noteq> []" by auto
  have e: "check_entry ?e = Inr ?e"
    unfolding check_entry_Inr new_directory_entry_def Let_def
    using assms(3,4) value_identifier [OF bound] provider_ok sorted ne
    by (simp add: recordable_def attempt_named_def)
  have "directory_entry fs c (rd_id d) (rd_resource d) (rd_parameters d) obs app = Inr ?e"
    unfolding directory_entry_def parse_mode_semantics [OF mode] using parents m ev e by (simp add: guard_def)
  moreover have evs: "en_evidence ?e = sort_key me_id [?ob, ?rep]" by (simp add: new_directory_entry_def Let_def)
  moreover have "wf_entry ?e" unfolding wf_entry_def evs set using e ev by simp
  ultimately show ?thesis using set by auto
qed

section \<open>Merging\<close>

text \<open>Evidence that agrees: one identifier, one evidence\<close>

definition agree :: "manifest_evidence set \<Rightarrow> manifest_evidence set \<Rightarrow> bool" where
  "agree A B \<longleftrightarrow> (\<forall>x \<in> A. \<forall>y \<in> B. me_id x = me_id y \<longrightarrow> x = y)"

lemma merge_evidence_ok:
  "distinct (map me_id d) \<Longrightarrow> agree (set d) (set xs) \<Longrightarrow> agree (set xs) (set xs) \<Longrightarrow>
     \<exists>d'. merge_evidence d xs = Inr d' \<and> distinct (map me_id d') \<and> set d' = set d \<union> set xs"
proof (induction d xs rule: merge_evidence.induct)
  case (2 d x xs)
  have ok: "\<not> (\<exists>y \<in> set d. me_id y = me_id x \<and> y \<noteq> x)" using 2(3) by (auto simp: agree_def)
  have set: "set (upsert me_id x d) = insert x (set d)"
    using 2(3) by (auto simp: upsert_set [OF 2(2)] agree_def)
  have "agree (set (upsert me_id x d)) (set xs)" "agree (set xs) (set xs)"
    using 2(3,4) by (auto simp: set agree_def)
  from 2(1) [OF ok upsert_distinct [OF 2(2)] this] ok set show ?case by auto
qed simp

lemma merge_entry_ok:
  assumes ok: "entries_ok es" and new: "wf_entry new" and agree: "\<And>e. e \<in> set es \<Longrightarrow> agree (set (en_evidence e)) (set (en_evidence new))"
  shows "\<exists>es'. merge_entry es new = Inr es' \<and> entries_ok es' \<and>
    (\<forall>f \<in> set es'. f \<in> set es \<or> (\<exists>ev. set (en_evidence f) = ev \<union> set (en_evidence new) \<and> (ev = {} \<or> (\<exists>e \<in> set es. ev = set (en_evidence e)))))"
proof -
  have d: "distinct (map en_resource es)" and wf: "\<forall>e \<in> set es. wf_entry e" using ok by (simp_all add: entries_ok_def)
  have dict: "dict_values en_resource es = es" using d by (rule dict_values_distinct)
  obtain x where merge: "merge_entry es new = Inr (sort_key en_resource (upsert en_resource x es))"
    and evidence: "set (en_evidence x) = set (en_evidence new) \<or> (\<exists>e \<in> set es. set (en_evidence x) = set (en_evidence e) \<union> set (en_evidence new))"
  proof (cases "find (\<lambda>e. en_resource e = en_resource new) es")
    case None
    then show ?thesis using that [of new] by (simp add: merge_entry_def dict)
  next
    case (Some old)
    then have old: "old \<in> set es" "en_resource old = en_resource new" by (auto simp: find_Some_iff)
    have wf_old: "wf_entry old" using wf old(1) by blast
    note ids = wf_entry_ids [OF wf_old] wf_entry_ids [OF new]
    have "agree (set (en_evidence new)) (set (en_evidence new))"
      using ids(2) unfolding agree_def by (metis distinct_map inj_onD)
    from merge_evidence_ok [OF ids(1) agree [OF old(1)] this] obtain ev
      where ev: "merge_evidence (en_evidence old) (en_evidence new) = Inr ev" "distinct (map me_id ev)"
        "set ev = set (en_evidence old) \<union> set (en_evidence new)" by blast
    let ?x = "merged_entry old new ev"
    have checks: "check_entry old = Inr old" "check_entry new = Inr new" using wf_old new by (simp_all add: wf_entry_def)
    have "ev \<noteq> []" using ev(3) checks by (auto simp: check_entry_Inr)
    then have sorted: "sort_key me_id ev \<noteq> []" "sorted (map me_id (sort_key me_id ev))" "distinct (map me_id (sort_key me_id ev))"
      using ev(2) by (simp_all add: distinct_map flip: set_empty)
    have "check_entry ?x = Inr ?x"
      using checks sorted unfolding check_entry_Inr merged_entry_def Let_def by simp
    then have "merge_entry es new = Inr (sort_key en_resource (upsert en_resource ?x es))"
      using ev(1) by (simp add: merge_entry_def dict Some dict_values_distinct [OF ids(1)])
    moreover have "set (en_evidence ?x) = set (en_evidence old) \<union> set (en_evidence new)"
      using ev(3) by (simp add: merged_entry_def Let_def)
    ultimately show ?thesis using that old(1) by blast
  qed
  have "entries_ok (sort_key en_resource (upsert en_resource x es))" using merge_entry_step [OF merge ok new] by blast
  moreover have "f \<in> set es \<or> f = x" if "f \<in> set (sort_key en_resource (upsert en_resource x es))" for f
    using that by (auto simp: upsert_set [OF d])
  ultimately show ?thesis using merge evidence by (metis sup_bot_left)
qed

section \<open>The loop\<close>

definition attempt_evidence :: "attempt_contract \<Rightarrow> string \<Rightarrow> string \<Rightarrow> manifest_evidence set" where
  "attempt_evidence c obs app = insert (observation_evidence c obs) (range (\<lambda>did. repair_evidence c did app))"

lemma attempt_evidence_agree: "agree (attempt_evidence c obs app) (attempt_evidence c obs app)"
  by (auto simp: agree_def attempt_evidence_def observation_evidence_def repair_evidence_def)

lemma agree_Un: "agree (A \<union> B) C \<longleftrightarrow> agree A C \<and> agree B C"
  by (auto simp: agree_def)

lemma agree_mono: "agree A C \<Longrightarrow> B \<subseteq> A \<Longrightarrow> D \<subseteq> C \<Longrightarrow> agree B D"
  by (auto simp: agree_def)

text \<open>No evidence of the entries clashes with that of the attempt.\<close>

definition unclaimed :: "attempt_contract \<Rightarrow> string \<Rightarrow> string \<Rightarrow> manifest_entry list \<Rightarrow> bool" where
  "unclaimed c obs app es \<longleftrightarrow> (\<forall>e \<in> set es. agree (set (en_evidence e)) (attempt_evidence c obs app))"

text \<open>A result that the loop accepts\<close>

definition acceptable :: "repair_decision list \<Rightarrow> repair_decision \<Rightarrow> (string \<times> json) list \<Rightarrow> bool" where
  "acceptable ds d item \<longleftrightarrow> d \<in> set ds \<and> result_key item = rd_id d \<and>
     (\<forall>seen. rd_id d \<notin> set seen \<longrightarrow> check_result_item ds seen item = Inr (d, rd_automatic d))"

lemma derive_results_ok:
  assumes entry: "\<And>d. d \<in> set ds \<Longrightarrow> rd_automatic d \<Longrightarrow> rd_action d = CreateDirectory \<and>
      (\<exists>e. directory_entry fs c (rd_id d) (rd_resource d) (rd_parameters d) obs app = Inr e \<and> wf_entry e \<and>
        set (en_evidence e) = {observation_evidence c obs, repair_evidence c (rd_id d) app})"
    and "entries_ok es" "unclaimed c obs app es" "list_all2 (acceptable ds) picked items"
    and "distinct (map rd_id picked)" "set (map rd_id picked) \<inter> set seen = {}"
  shows "\<exists>es' seen'. derive_results fs c ds obs app es n seen items = Inr (es', n + length (filter rd_automatic picked), seen') \<and>
    set seen' = set (map rd_id picked) \<union> set seen"
  using assms(2-)
proof (induction items arbitrary: picked es n seen)
  case (Cons item items)
  from Cons.prems(3) obtain d picked' where p: "picked = d # picked'" "acceptable ds d item" "list_all2 (acceptable ds) picked' items"
    by (auto simp: list_all2_Cons2)
  have fresh: "rd_id d \<notin> set seen" "set (map rd_id picked') \<inter> set (rd_id d # seen) = {}" "distinct (map rd_id picked')"
    using Cons.prems(4,5) by (auto simp: p(1))
  have d: "d \<in> set ds" "check_result_item ds seen item = Inr (d, rd_automatic d)" using p(2) fresh(1) by (auto simp: acceptable_def)
  show ?case
  proof (cases "rd_automatic d")
    case False
    from Cons.IH [OF Cons.prems(1,2) p(3) fresh(3,2), of n] d(2) False show ?thesis by (auto simp: p(1))
  next
    case True
    from entry [OF d(1) True] obtain e where e: "rd_action d = CreateDirectory"
        "directory_entry fs c (rd_id d) (rd_resource d) (rd_parameters d) obs app = Inr e" "wf_entry e"
        "set (en_evidence e) \<subseteq> attempt_evidence c obs app"
      by (auto simp: attempt_evidence_def)
    have "agree (set (en_evidence f)) (set (en_evidence e))" if "f \<in> set es" for f
      using Cons.prems(2) that e(4) by (auto simp: unclaimed_def intro: agree_mono)
    from merge_entry_ok [OF Cons.prems(1) e(3) this] obtain es1 where es1: "merge_entry es e = Inr es1" "entries_ok es1"
      and evs: "\<forall>f \<in> set es1. f \<in> set es \<or> (\<exists>ev. set (en_evidence f) = ev \<union> set (en_evidence e) \<and>
        (ev = {} \<or> (\<exists>g \<in> set es. ev = set (en_evidence g))))" by blast
    have "agree (set (en_evidence f)) (attempt_evidence c obs app)" if "f \<in> set es1" for f
    proof -
      have mine: "agree (set (en_evidence e)) (attempt_evidence c obs app)"
        by (rule agree_mono [OF attempt_evidence_agree e(4) subset_refl])
      from bspec [OF evs that] show ?thesis
      proof (elim disjE exE conjE)
        assume "f \<in> set es"
        then show ?thesis using Cons.prems(2) by (simp add: unclaimed_def)
      next
        fix ev
        assume "set (en_evidence f) = ev \<union> set (en_evidence e)" "ev = {}"
        then show ?thesis using mine by simp
      next
        fix ev
        assume ev: "set (en_evidence f) = ev \<union> set (en_evidence e)" "\<exists>g \<in> set es. ev = set (en_evidence g)"
        then have "agree ev (attempt_evidence c obs app)" using Cons.prems(2) by (auto simp: unclaimed_def)
        with mine show ?thesis by (simp add: ev(1) agree_Un)
      qed
    qed
    then have "unclaimed c obs app es1" by (simp add: unclaimed_def)
    from Cons.IH [OF es1(2) this p(3) fresh(3,2), of "n + 1"] obtain es' seen' where
        rest: "derive_results fs c ds obs app es1 (n + 1) (rd_id d # seen) items = Inr (es', n + 1 + length (filter rd_automatic picked'), seen')"
        "set seen' = set (map rd_id picked') \<union> set (rd_id d # seen)" by blast
    have "derive_results fs c ds obs app es n seen (item # items) = Inr (es', n + length (filter rd_automatic picked), seen')"
      using d(2) True e(1,2) es1(1) rest(1) by (simp add: p(1) guard_def)
    with rest(2) show ?thesis by (simp add: p(1))
  qed
qed simp

end
