(* ===== verification/Iteration_Properties.thy ===== *)
theory Iteration_Properties
  imports Builder_Success Session_Properties Apply_Properties
begin

text \<open>
  Properties of the step from one iteration to the next: what a repaired snapshot has kept and gained,
  and when the step succeeds.
\<close>

section \<open>What the step keeps\<close>

lemma resolved_slot_ok:
  assumes "snapshots_ok s" "snapshots_ok cwd" "verify_slot (resolve_snapshot cwd s sid) = Inr (m, fs)"
  shows "wf_snap fs" "groups_distinct fs"
proof -
  have "slot_ok x" if "resolve_snapshot cwd s sid = Some x" for x
    using that assms(1,2) by (auto simp: resolve_snapshot_def snapshots_ok_def list_all_iff dest!: map_of_SomeD split: option.splits)
  then show "wf_snap fs" "groups_distinct fs" using assms(3) by (auto simp: verify_slot_Inr slot_ok_def)
qed

text \<open>The stages of a step that returns: the verified parent, the repaired tree and its scan, the capture, the derivation\<close>

lemma build_repaired_stages:
  assumes "snapshots_ok s" "snapshots_ok (re_cwd env)" "plan_load (re_loads env) pf = Inr plan"
    and "build_repaired_snapshot env s sid pf rf obf parent c r = (Inr (new, app, m), t)"
  obtains pm sm fs es reused where "snapshot_verify (re_cwd env) s sid = Inr pm" "wf_snap fs" "groups_distinct fs"
    "scan_environment fs = Inr es" "set (sp_entries pm) \<subseteq> set es"
    "\<forall>e \<in> set es. e \<in> set (sp_entries pm) \<or> se_type e = TyDir \<and> (\<exists>p. authorized_path plan p \<and> se_path e = guest_path p)"
    "snapshot_capture (re_now env) (re_rootfs env) (re_store env) s (RootTree fs) = (Inr (sm, reused), t)" "new = sp_id sm"
    "derive_from_repair (re_loads env) (re_now env) parent new (RootTree fs) c r pf (FileText app) obf = Inr m"
proof -
  let ?out = "\<lambda>candidate. apply_to_candidate env pf rf candidate"
  from assms(4) obtain pm candidate rep sm reused where clone: "snapshot_clone (re_cwd env) s sid True = Inr (pm, candidate)"
    and run: "ao_result (?out candidate) = Inr rep"
    and capture: "snapshot_capture (re_now env) (re_rootfs env) (re_store env) s (RootTree (ao_fs (?out candidate))) = (Inr (sm, reused), t)"
      "new = sp_id sm"
    and derive: "derive_from_repair (re_loads env) (re_now env) parent new (RootTree (ao_fs (?out candidate))) c r pf (FileText app) obf = Inr m"
    by (rule build_repaired_Inr)
  from clone obtain fs where slot: "verify_slot (resolve_snapshot (re_cwd env) s sid) = Inr (pm, fs)"
    by (auto simp: snapshot_clone_def result_simps)
  note wf = resolved_slot_ok [OF assms(1,2) slot]
  from verified_clone [OF slot wf] clone have copy: "scan_environment candidate = Inr (sp_entries pm)" "wf_snap candidate"
      "groups_distinct candidate" by auto
  have "snapshot_verify (re_cwd env) s sid = Inr pm" using slot by (simp add: snapshot_verify_def)
  with applied_candidate [OF run assms(3) copy(2,3,1)] that capture derive show thesis by blast
qed

text \<open>
  C4: One iteration to the next.  When the repaired snapshot and the next manifest are built, both snapshots
  verify; the scan of the new root filesystem has every entry of the parent snapshot, files and links
  with their modes, digests and groups included, and nothing else but directories on the way to targets
  the plan authorizes; the manifest is a valid child of the parent that references the new snapshot, keeps
  every resource of the parent with its evidence, and for every automatic decision has an entry with the
  evidence of the repair and the mode that the directory has in the scan.  The entries of the stored
  snapshot are those of the scan, or two texts with one SHA-256 have been found.
\<close>

theorem repaired_snapshot_extends_parent:
  assumes "wf_manifest parent" and "snapshots_ok s" and "snapshots_ok (re_cwd env)"
    and "re_loads env plan_text = Some plan_json" and "json_wf plan_json" and "plan_from_dict plan_json = Inr plan"
    and "re_now env \<noteq> []" and "re_rootfs env \<noteq> []"
    and "build_repaired_snapshot env s sid (FileText plan_text) rf obf parent c r = (Inr (new, app, m), t)"
  shows "\<exists>before after es. snapshot_verify (re_cwd env) s sid = Inr before \<and> snapshot_verify (re_cwd env) t new = Inr after \<and>
    (sp_entries after = es \<or> sha256_collision (canonical_json (entries_json (sp_entries after))) (canonical_json (entries_json es))) \<and>
    set (sp_entries before) \<subseteq> set es \<and>
    (\<forall>e \<in> set es. e \<in> set (sp_entries before) \<or>
      se_type e = TyDir \<and> (\<exists>p. authorized_path plan p \<and> se_path e = guest_path p)) \<and>
    wf_manifest m \<and> validate_parent m parent = Inr () \<and> em_rootfs m = new \<and>
    (\<forall>e \<in> set (em_entries parent). \<exists>f \<in> set (em_entries m). kept e f) \<and>
    (\<forall>d \<in> set (rp_decisions plan). rd_automatic d \<longrightarrow> (\<exists>e \<in> set es. \<exists>f \<in> set (em_entries m).
      recorded_directory d e f \<and> repair_evidence c (rd_id d) (sha256_hex app) \<in> set (en_evidence f)))"
proof -
  have plan: "plan_load (re_loads env) (FileText plan_text) = Inr plan" using assms(4,6) by (simp add: plan_load_def)
  obtain pm sm fs es reused where pm: "snapshot_verify (re_cwd env) s sid = Inr pm" and fs: "wf_snap fs" "groups_distinct fs"
    and es: "scan_environment fs = Inr es" "set (sp_entries pm) \<subseteq> set es"
      "\<forall>e \<in> set es. e \<in> set (sp_entries pm) \<or> se_type e = TyDir \<and> (\<exists>p. authorized_path plan p \<and> se_path e = guest_path p)"
    and capture: "snapshot_capture (re_now env) (re_rootfs env) (re_store env) s (RootTree fs) = (Inr (sm, reused), t)"
    and new: "new = sp_id sm" and derive: "derive_from_repair (re_loads env) (re_now env) parent new (RootTree fs)
      c r (FileText plan_text) (FileText app) obf = Inr m"
    by (rule build_repaired_stages [OF assms(2,3) plan assms(9)])
  note stored = captured_snapshot [OF fs es(1) assms(2,7,8) capture, of "re_cwd env"]
  note recorded = derived_manifest_entries [OF assms(1,4-6) derive]
  have "\<exists>e \<in> set es. \<exists>f \<in> set (em_entries m). recorded_directory d e f \<and>
      repair_evidence c (rd_id d) (sha256_hex app) \<in> set (en_evidence f)" if "d \<in> set (rp_decisions plan)" "rd_automatic d" for d
  proof -
    from recorded that obtain f where "f \<in> set (em_entries m)" "directory_recorded fs (rd_resource d) f"
        "repair_evidence c (rd_id d) (sha256_hex app) \<in> set (en_evidence f)"
      unfolding repair_recorded_def by blast
    with recorded_scan [OF fs(1) es(1) this(2)] show ?thesis by blast
  qed
  then show ?thesis using stored recorded pm es(2,3) unfolding new by (intro exI [of _ pm] exI [of _ sm] exI [of _ es]) simp
qed

section \<open>When the step succeeds\<close>

definition result_fields :: "decision_result \<Rightarrow> (string \<times> json) list" where
  "result_fields r = (case result_to_dict r of JObj d \<Rightarrow> d | _ \<Rightarrow> [])"

lemma result_to_fields: "result_to_dict r = JObj (result_fields r)"
  by (simp add: result_fields_def result_to_dict_def)

lemma jget_result [simp]:
  "jget (result_fields r) ''decision_id'' = JStr (dr_id r)" "jget (result_fields r) ''resource'' = JStr (dr_resource r)"
  "jget (result_fields r) ''action'' = JStr (dr_action r)" "jget (result_fields r) ''requirement_id'' = JStr (dr_requirement_id r)"
  "jget (result_fields r) ''status'' = JStr (result_status_value (dr_status r))"
  by (simp_all add: result_fields_def result_to_dict_def)

lemma result_key_fields: "result_key (result_fields r) = dr_id r"
  by (cases "dr_id r") (simp_all add: result_key_def)

lemma acceptable_result:
  assumes "distinct (map rd_id ds)" "d \<in> set ds" "reports d r" "rd_id d \<noteq> []" "rd_automatic d \<Longrightarrow> rd_disposition d = AutoCandidate"
  shows "acceptable ds d (result_fields r)"
proof -
  have "map_of (rev (map (\<lambda>d. (rd_id d, d)) ds)) (rd_id d) = Some d"
  proof -
    have "distinct (map fst (rev (map (\<lambda>d. (rd_id d, d)) ds)))" using assms(1) by (simp add: rev_map [symmetric] comp_def)
    then show ?thesis using assms(2) by (simp add: map_of_eq_Some_iff)
  qed
  moreover have "result_status_value (dr_status r) \<noteq> []" by (cases "dr_status r") simp_all
  ultimately show ?thesis
    using assms(2-5) by (auto simp: acceptable_def check_result_item_def required_string_def guard_def result_key_fields
        reports_def names_decision_def settled_def)
qed

lemma json_objects_map: "json_objects (JList (map JObj ds)) = Some ds"
  by (induction ds) (simp_all add: json_objects_def)

lemma application_accepted:
  assumes "completed_report plan plan_sha rep"
  shows "check_application plan_sha (rp_source_sha256 plan) (application_fields texts rep) = Inr (map result_fields (ar_results rep))"
proof -
  have "json_objects (JList (map result_to_dict (ar_results rep))) = Some (map result_fields (ar_results rep))"
  proof -
    have "map result_to_dict (ar_results rep) = map JObj (map result_fields (ar_results rep))" by (simp add: result_to_fields)
    then show ?thesis by (simp only: json_objects_map)
  qed
  then show ?thesis
    using assms by (simp add: check_application_def application_fields_def completed_report_def required_one_def guard_def)
qed

lemma sorted_acceptable:
  assumes "list_all2 (acceptable ds) ds' items"
  shows "\<exists>picked. list_all2 (acceptable ds) picked (sort_key result_key items) \<and> mset picked = mset ds'"
proof -
  let ?pairs = "zip ds' items"
  let ?sorted = "sort_key (\<lambda>x. result_key (snd x)) ?pairs"
  have len: "length ds' = length items" using assms by (rule list_all2_lengthD)
  have items: "map snd ?sorted = sort_key result_key items"
  proof -
    have "map snd (sort_key (\<lambda>x. f (snd x)) xs) = sort_key f (map snd xs)" for f :: "'x \<Rightarrow> string" and xs :: "('y \<times> 'x) list"
    proof (induction xs)
      case (Cons x xs)
      have "map snd (insort_key (\<lambda>x. f (snd x)) y ys) = insort_key f (snd y) (map snd ys)" for y :: "'y \<times> 'x" and ys
        by (induction ys) simp_all
      with Cons show ?case by simp
    qed simp
    from this [of result_key ?pairs] show ?thesis using len by simp
  qed
  have "list_all2 (acceptable ds) (map fst ?sorted) (map snd ?sorted)"
    using assms by (auto simp: list_all2_iff in_set_conv_nth zip_map_fst_snd)
  moreover have "mset (map fst ?sorted) = mset ds'"
    using arg_cong [where f = "image_mset fst", of "mset ?sorted" "mset ?pairs"] len by (simp add: mset_map [symmetric])
  ultimately show ?thesis unfolding items by blast
qed

lemma py_strip_keeps: "x \<in> set s \<Longrightarrow> \<not> py_space x \<Longrightarrow> py_strip s \<noteq> []"
proof -
  assume x: "x \<in> set s" "\<not> py_space x"
  then have "x \<in> set (dropWhile py_space s)"
    by (metis Un_iff set_append set_takeWhileD takeWhile_dropWhile_id)
  then show ?thesis using x(2) by (auto simp: py_strip_def rstrip_while_def)
qed

lemma change_reason_kept: "py_strip (change_reason n aid) \<noteq> []"
  by (rule py_strip_keeps [of "CHR ''R''"]) (simp_all add: change_reason_def py_space_def)

lemma derived_ok:
  assumes "wf_manifest parent" "entries_ok es" "is_env_identifier snapshot" "is_env_identifier aid" "iso_instant now \<noteq> None"
    and "is_env_identifier (manifest_id parent)"
  shows "\<exists>m. derive_manifest now parent snapshot es aid (change_reason n aid) = Inr m"
proof -
  have "check_manifest parent = Inr parent" using assms(1) by (simp add: wf_manifest_def)
  moreover have "distinct (map en_resource (sort_key en_resource es))" using assms(2) by (simp add: entries_ok_def distinct_map)
  ultimately show ?thesis
    using assms(3-6) change_reason_kept [of n aid]
    unfolding derive_manifest_def by (intro exI) (unfold check_manifest_Inr check_lineage_Inr, auto)
qed

lemma snapshot_identifier: "is_sha256 s \<Longrightarrow> is_env_identifier (''env_'' @ take 16 s)"
  using sha_identifier [of s 16] min.cobounded2 [of "length s" 16]
  by (intro identifier_append)
    (simp_all add: is_env_identifier_def env_identifier_char_def ascii_upper_def ascii_lower_def ascii_digit_def del: min.cobounded2)

text \<open>What the step needs of the attempt: identifiers, and that the parent has no other evidence under its names\<close>

definition attempt_recordable :: "env_manifest \<Rightarrow> repair_plan \<Rightarrow> attempt_contract \<Rightarrow> bool" where
  "attempt_recordable parent plan c \<longleftrightarrow> attempt_named c \<and> is_env_identifier (manifest_id parent) \<and>
     (\<forall>d \<in> set (rp_decisions plan). rd_automatic d \<longrightarrow> recordable c d) \<and>
     (\<forall>e \<in> set (em_entries parent). \<forall>ev \<in> set (en_evidence e). \<not> starts_with (me_id ev) (ac_id c @ '':''))"

lemma derive_from_repair_ok:
  assumes parent: "wf_manifest parent" and plan: "wf_plan plan" "plan_load loads (FileText plan_text) = Inr plan"
    and report: "completed_report plan (sha256_hex plan_text) rep" "loads app_text = Some (application_to_dict texts rep)"
    and decisions: "\<And>d. d \<in> set (rp_decisions plan) \<Longrightarrow> rd_automatic d \<Longrightarrow> directory_decision cfg d \<and>
      (\<forall>q \<in> set (prefixes_of (pp_comps (pp_parse (rd_resource d)))). dir_node fs q)"
    and tree: "wf_snap fs" and named: "attempt_recordable parent plan c" and source: "check_source parent c r = Inr ()"
    and obs: "load_observation loads (Some obs_text) = Inr ob" "ap_observation (as_progress r) = Some (sha256_hex obs_text)"
      "io_plan_sha ob = sha256_hex plan_text" "io_requirements_sha ob = rp_source_sha256 plan"
    and some: "d \<in> set (rp_decisions plan)" "rd_automatic d" and ids: "is_env_identifier snapshot" "iso_instant now \<noteq> None"
  shows "\<exists>m. derive_from_repair loads now parent snapshot (RootTree fs) c r (FileText plan_text) (FileText app_text) (FileText obs_text) = Inr m"
proof -
  let ?ds = "rp_decisions plan" and ?obs = "sha256_hex obs_text" and ?app = "sha256_hex app_text"
  have distinct: "distinct (map rd_id ?ds)" and nonempty: "\<forall>d \<in> set ?ds. rd_id d \<noteq> []"
    using plan(1) by (auto simp: wf_plan_def wf_decision_def make_decision_id_def list_all_iff)
  have entry: "rd_action d = CreateDirectory \<and> (\<exists>e. directory_entry fs c (rd_id d) (rd_resource d) (rd_parameters d) ?obs ?app = Inr e \<and>
      wf_entry e \<and> set (en_evidence e) = {observation_evidence c ?obs, repair_evidence c (rd_id d) ?app})"
    if "d \<in> set ?ds" "rd_automatic d" for d
    using directory_entry_ok [OF tree, of cfg d c ?obs ?app] decisions [OF that] named that
    by (auto simp: attempt_recordable_def directory_decision_def)
  have entries: "entries_ok (em_entries parent)"
    using wf_manifest_entries [OF parent] parent by (auto simp: entries_ok_def wf_manifest_def)
  have "unclaimed c ?obs ?app (em_entries parent)"
    using named by (fastforce simp: unclaimed_def agree_def attempt_evidence_def attempt_recordable_def starts_with_def
        observation_evidence_def repair_evidence_def)
  moreover have "list_all2 (acceptable ?ds) ?ds (map result_fields (ar_results rep))"
  proof (rule list_all2_all_nthI)
    have reports: "list_all2 reports ?ds (ar_results rep)" using report(1) by (simp add: completed_report_def)
    then show "length ?ds = length (map result_fields (ar_results rep))" by (auto dest: list_all2_lengthD)
    fix k
    assume k: "k < length ?ds"
    then have "?ds ! k \<in> set ?ds" by simp
    with acceptable_result [OF distinct this list_all2_nthD [OF reports k]] nonempty decisions k list_all2_lengthD [OF reports]
    show "acceptable ?ds (?ds ! k) (map result_fields (ar_results rep) ! k)" by (auto simp: directory_decision_def)
  qed
  from sorted_acceptable [OF this] obtain picked where picked: "list_all2 (acceptable ?ds) picked
      (sort_key result_key (map result_fields (ar_results rep)))" "mset picked = mset ?ds" by blast
  have same: "set picked = set ?ds" "distinct (map rd_id picked)"
    using picked(2) distinct by (metis mset_eq_setD) (metis distinct mset_map picked(2) mset_eq_imp_distinct_iff)
  from derive_results_ok [OF entry entries calculation picked(1) same(2), of "[]" 0] obtain es seen
    where loop: "derive_results fs c ?ds ?obs ?app (em_entries parent) 0 [] (sort_key result_key (map result_fields (ar_results rep))) =
        Inr (es, length (filter rd_automatic picked), seen)" and seen: "set seen = rd_id ` set ?ds"
    by (auto simp: same(1))
  have missing: "sorted_set (filter (\<lambda>did. did \<notin> set seen) (map rd_id ?ds)) = []"
    by (simp add: seen filter_map filter_False comp_def)
  have n: "0 < length (filter rd_automatic picked)" using some same(1) by (auto simp: filter_empty_conv)
  have "entries_ok es" using derive_results_Inr [OF loop entries] by blast
  from derived_ok [OF parent this ids(1) _ ids(2), of "ac_id c" "length (filter rd_automatic picked)"] named obtain m
    where m: "derive_manifest now parent snapshot es (ac_id c) (change_reason (length (filter rd_automatic picked)) (ac_id c)) = Inr m"
    by (auto simp: attempt_recordable_def attempt_named_def)
  have app: "(case loads app_text of Some (JObj d) \<Rightarrow> Inr d | _ \<Rightarrow> Inl (BuildInvalid ''application'')) = Inr (application_fields texts rep)"
    by (simp add: report(2) application_to_dict_def)
  show ?thesis
    unfolding derive_from_repair_def regular_directory_def regular_text_def
    using missing n by (simp add: source plan(2) obs app application_accepted [OF report(1)] loop m guard_def Let_def)
qed

lemma is_dir_candidate: "wf_snap fs \<Longrightarrow> closed_tree (snap_ent fs)"
  by (auto simp: closed_tree_def is_dir_snap wf_snap_iff snap_ent_None wf_node_def)

text \<open>
  The store can take a snapshot with this digest: the identifier is free, or the snapshot that has it is
  intact and has this digest, such as the parent's after a repair that created nothing.
\<close>

definition intact_snapshot :: "string \<Rightarrow> snap_slot \<Rightarrow> bool" where
  "intact_snapshot digest slot \<longleftrightarrow> (\<exists>doc fs es m. slot = SlotDir doc (RootTree fs) \<and>
     load_snap_manifest doc = Inr m \<and> scan_environment fs = Inr es \<and> tree_digest es = digest \<and>
     sp_entries m = es \<and> sp_sha m = digest)"

definition free_or_intact :: "snap_store \<Rightarrow> string \<Rightarrow> bool" where
  "free_or_intact s digest \<longleftrightarrow>
     (\<forall>slot. map_of s (''env_'' @ take 16 digest) = Some slot \<longrightarrow> intact_snapshot digest slot)"

lemma intact_snapshot_iff:
  "intact_snapshot digest slot \<longleftrightarrow> (\<exists>m old. verify_slot (Some slot) = Inr (m, old) \<and> sp_sha m = digest)"
proof
  assume "\<exists>m old. verify_slot (Some slot) = Inr (m, old) \<and> sp_sha m = digest"
  then obtain m old v where "slot = SlotDir (DocJson (Some v)) (RootTree old)" "load_snap_manifest (DocJson (Some v)) = Inr m"
      "scan_environment old = Inr (sp_entries m)" "tree_digest (sp_entries m) = digest" "sp_sha m = digest"
    by (auto simp: verify_slot_Inr load_snap_manifest_def)
  then show "intact_snapshot digest slot" unfolding intact_snapshot_def by blast
next
  assume "intact_snapshot digest slot"
  then obtain doc fs m where m: "slot = SlotDir doc (RootTree fs)" "load_snap_manifest doc = Inr m"
      "scan_environment fs = Inr (sp_entries m)" "tree_digest (sp_entries m) = digest" "sp_sha m = digest"
    unfolding intact_snapshot_def by blast
  from m(2) obtain v where "doc = DocJson (Some v)" "snap_manifest_from v = Inr m"
    by (auto simp: load_snap_manifest_def split: manifest_doc.splits option.splits)
  with m show "\<exists>m old. verify_slot (Some slot) = Inr (m, old) \<and> sp_sha m = digest" by (auto simp: verify_slot_Inr)
qed

lemma capture_returns_iff:
  assumes "wf_snap fs" "groups_distinct fs" "scan_environment fs = Inr es" "now \<noteq> []" "source \<noteq> []"
  shows "(\<exists>m reused t. snapshot_capture now source dir s (RootTree fs) = (Inr (m, reused), t) \<and>
      sp_id m = ''env_'' @ take 16 (tree_digest es)) \<longleftrightarrow> free_or_intact s (tree_digest es)"
    and "snapshot_capture now source dir s (RootTree fs) = (Inr (m, reused), t) \<Longrightarrow> sp_id m = ''env_'' @ take 16 (tree_digest es)"
proof -
  let ?sid = "''env_'' @ take 16 (tree_digest es)"
  show id: "sp_id m = ?sid" if "snapshot_capture now source dir s (RootTree fs) = (Inr (m, reused), t)" for m reused t
  proof (cases "map_of s ?sid")
    case None
    from capture_new [OF assms(1-3) None assms(4,5), of dir] that show ?thesis by auto
  next
    case (Some slot)
    from capture_old [OF assms(3) Some that] show ?thesis by simp
  qed
  show "(\<exists>m reused t. snapshot_capture now source dir s (RootTree fs) = (Inr (m, reused), t) \<and> sp_id m = ?sid) \<longleftrightarrow>
      free_or_intact s (tree_digest es)"
  proof (cases "map_of s ?sid")
    case None
    with capture_new [OF assms(1-3) None assms(4,5), of dir] show ?thesis by (auto simp: free_or_intact_def)
  next
    case (Some slot)
    have "snapshot_capture now source dir s (RootTree fs) = (Inr (m, True), s)"
      if "verify_slot (Some slot) = Inr (m, old)" "sp_sha m = tree_digest es" for m old
      using that Some assms(3) by (simp add: snapshot_capture_def validate_snap_rootfs_def make_snapshot_id_ok guard_def)
    moreover have "\<exists>old. verify_slot (Some slot) = Inr (m, old) \<and> sp_sha m = tree_digest es"
      if "snapshot_capture now source dir s (RootTree fs) = (Inr (m, reused), t)" for m reused t
      using capture_old [OF assms(3) Some that] by blast
    ultimately have "(\<exists>m reused t. snapshot_capture now source dir s (RootTree fs) = (Inr (m, reused), t)) \<longleftrightarrow>
        free_or_intact s (tree_digest es)"
      using Some by (auto simp: free_or_intact_def intact_snapshot_iff)
    with id show ?thesis by blast
  qed
qed

lemma completed_repair_recorded:
  assumes "wf_manifest parent" and "wf_plan plan" and "plan_load (re_loads env) (FileText plan_text) = Inr plan"
    and "snapshots_ok s" and "snapshots_ok (re_cwd env)" and "snapshot_clone (re_cwd env) s sid True = Inr (before, candidate)"
    and "ao_result (apply_to_candidate env (FileText plan_text) rf candidate) = Inr rep"
    and "re_loads env (application_text env rep) = Some (application_to_dict (re_texts env) rep)"
    and "d \<in> set (rp_decisions plan)" and "rd_automatic d"
    and "check_source parent c r = Inr ()" and "attempt_recordable parent plan c"
    and "load_observation (re_loads env) (Some obs_text) = Inr ob" and "ap_observation (as_progress r) = Some (sha256_hex obs_text)"
    and "io_plan_sha ob = sha256_hex plan_text" and "io_requirements_sha ob = rp_source_sha256 plan"
    and "iso_instant (re_now env) \<noteq> None" and "re_rootfs env \<noteq> []"
  shows "\<exists>es. scan_environment (ao_fs (apply_to_candidate env (FileText plan_text) rf candidate)) = Inr es \<and>
    ((\<exists>m t. build_repaired_snapshot env s sid (FileText plan_text) rf (FileText obs_text) parent c r =
        (Inr (''env_'' @ take 16 (tree_digest es), application_text env rep, m), t)) \<longleftrightarrow>
      free_or_intact s (tree_digest es))"
proof -
  let ?out = "apply_to_candidate env (FileText plan_text) rf candidate"
  let ?capture = "snapshot_capture (re_now env) (re_rootfs env) (re_store env) s (RootTree (ao_fs ?out))"
  from assms(6) obtain fs where slot: "verify_slot (resolve_snapshot (re_cwd env) s sid) = Inr (before, fs)"
    by (auto simp: snapshot_clone_def result_simps)
  note source = resolved_slot_ok [OF assms(4,5) slot]
  from verified_clone [OF slot source] assms(6) have candidate: "scan_environment candidate = Inr (sp_entries before)" "wf_snap candidate"
      "groups_distinct candidate" by auto
  from applied_candidate [OF assms(7,3) candidate(2,3,1)] obtain es
    where tree: "wf_snap (ao_fs ?out)" "groups_distinct (ao_fs ?out)" and es: "scan_environment (ao_fs ?out) = Inr es" by blast
  have ids: "distinct (map rd_id (rp_decisions plan))" using assms(2) by (simp add: wf_plan_def)
  note run = run_reports [OF refl assms(7) [unfolded apply_to_candidate_def] assms(3) ids]
  note completed = snap.apply_completed [OF refl is_dir_candidate [OF candidate(2)] assms(7) [unfolded apply_to_candidate_def] assms(3),
      folded apply_to_candidate_def]
  have dirs: "directory_decision default_applier_config d \<and>
      (\<forall>q \<in> set (prefixes_of (pp_comps (pp_parse (rd_resource d)))). dir_node (ao_fs ?out) q)"
    if d: "d \<in> set (rp_decisions plan)" "rd_automatic d" for d
  proof -
    from completed d obtain g where "applier_guest_path default_applier_config (rd_resource d) = Inr g"
        "\<forall>q \<in> set (prefixes_of (pp_comps (pp_parse g))). is_dir (snap_ent (ao_fs ?out)) q" by blast
    with guest_path_normal run d show ?thesis by (simp add: is_dir_snap)
  qed
  have "is_env_identifier (''env_'' @ take 16 (tree_digest es))" using snapshot_identifier [of "tree_digest es"] by simp
  from derive_from_repair_ok [OF assms(1-3) _ assms(8) dirs tree(1) assms(12,11,13-16,9,10) this assms(17)] run obtain next_manifest
    where derive: "derive_from_repair (re_loads env) (re_now env) parent (''env_'' @ take 16 (tree_digest es)) (RootTree (ao_fs ?out)) c r
      (FileText plan_text) (FileText (application_text env rep)) (FileText obs_text) = Inr next_manifest" by blast
  have now: "re_now env \<noteq> []" using assms(17) by (auto simp: iso_instant_def iso_datetime_def)
  note captured = capture_returns_iff [OF tree es now assms(18), of "re_store env" s]
  have "(\<exists>m t. build_repaired_snapshot env s sid (FileText plan_text) rf (FileText obs_text) parent c r =
      (Inr (''env_'' @ take 16 (tree_digest es), application_text env rep, m), t)) \<longleftrightarrow> (\<exists>m reused t. ?capture = (Inr (m, reused), t))"
  proof (cases ?capture)
    case (Pair x t)
    show ?thesis
    proof (cases x)
      case (Inr y)
      then show ?thesis using Pair captured(2) derive assms(6,7) by (cases y) (auto simp: build_repaired_snapshot_def)
    qed (use Pair assms(6,7) in \<open>auto simp: build_repaired_snapshot_def\<close>)
  qed
  then show ?thesis using es captured by blast
qed

text \<open>
  C5: When a completed repair is recorded.  Suppose that the plan has an automatic decision, the run on
  a copy of the parent snapshot completes, its report can be read back, the attempt is the one that the
  parent manifest was run with, its observation is that of the plan and every name can be an identifier
  of the manifest.  Then the new root filesystem can be scanned, and the step returns the next snapshot,
  under the identifier made from the digest of the scan, the report and the next manifest if and only if
  the store has no snapshot with that identifier or has one that is intact and has that very digest.
\<close>

theorem completed_repair_is_recorded:
  assumes "wf_manifest parent" and "wf_plan plan" and "plan_load (re_loads env) (FileText plan_text) = Inr plan"
    and "snapshots_ok s" and "snapshots_ok (re_cwd env)" and "snapshot_clone (re_cwd env) s sid True = Inr (before, candidate)"
    and "ao_result (apply_to_candidate env (FileText plan_text) rf candidate) = Inr rep"
    and "re_loads env (application_text env rep) = Some (application_to_dict (re_texts env) rep)"
    and "d \<in> set (rp_decisions plan)" and "rd_automatic d"
    and "check_source parent c r = Inr ()" and "attempt_recordable parent plan c"
    and "load_observation (re_loads env) (Some obs_text) = Inr ob" and "ap_observation (as_progress r) = Some (sha256_hex obs_text)"
    and "io_plan_sha ob = sha256_hex plan_text" and "io_requirements_sha ob = rp_source_sha256 plan"
    and "iso_instant (re_now env) \<noteq> None" and "re_rootfs env \<noteq> []"
  shows "\<exists>es. scan_environment (ao_fs (apply_to_candidate env (FileText plan_text) rf candidate)) = Inr es \<and>
    ((\<exists>m t. build_repaired_snapshot env s sid (FileText plan_text) rf (FileText obs_text) parent c r =
        (Inr (''env_'' @ take 16 (tree_digest es), application_text env rep, m), t)) \<longleftrightarrow>
      free_or_intact s (tree_digest es))"
  by (rule completed_repair_recorded [OF assms])

section \<open>An example step\<close>

text \<open>
  The plan that creates \<open>/v\<close>, run on a snapshot of the example root filesystem.
\<close>

definition step_observation :: iteration_observation where
  "step_observation = ex_observation\<lparr>io_plan_sha := sha256_hex ''p'', io_requirements_sha := sha256_hex ''{}''\<rparr>"

definition step_text :: string where
  "step_text = file_text (observation_to_dict step_observation)"

definition step_texts :: "json \<Rightarrow> string \<Rightarrow> json option" where
  "step_texts app t =
     (if t = ''p'' then Some (plan_to_dict (example_plan ''/v'')) else if t = step_text then Some (observation_to_dict step_observation)
      else Some app)"

definition step_env :: "json \<Rightarrow> snap_store \<Rightarrow> repair_env" where
  "step_env app cwd =
     \<lparr>re_loads = step_texts app, re_texts = (\<lambda>_. []), re_save_error = (\<lambda>_. None), re_umask = 18, re_now = example_time,
      re_plan_path = ''plan.json'', re_requirements_path = ''req.json'', re_rootfs = ''/r'', re_store = ''/s'', re_cwd = cwd\<rparr>"

definition step_contract :: "env_manifest \<Rightarrow> attempt_contract" where
  "step_contract parent = (example_contract example_id)\<lparr>ac_manifest_id := manifest_id parent, ac_manifest_version := 0\<rparr>"

definition step_result :: "env_manifest \<Rightarrow> attempt_result" where
  "step_result parent = (example_result example_id (step_contract parent) [] None)
     \<lparr>as_outcome := RepairRequired, as_fingerprint := Some example_sha, as_progress := \<lparr>ap_goal = False, ap_reason = None, ap_events = 0, ap_coverage = None,
        ap_observation = Some (sha256_hex step_text)\<rparr>\<rparr>"

lemma step_plan_loads: "plan_load (re_loads (step_env app cwd)) (FileText ''p'') = Inr (example_plan ''/v'')"
  by (simp add: plan_load_def plan_roundtrip example_plan_wf step_env_def step_texts_def)

lemma step_run_same: "apply_to_candidate (step_env app cwd) (FileText ''p'') rf candidate = apply_to_candidate (step_env JNull []) (FileText ''p'') rf candidate"
proof -
  have "load_inputs (re_loads (step_env app cwd)) (FileText ''p'') rf v = load_inputs (re_loads (step_env JNull [])) (FileText ''p'') rf v" for v
    unfolding load_inputs_def step_plan_loads ..
  moreover have "re_umask (step_env app cwd) = re_umask (step_env JNull [])" "re_save_error (step_env app cwd) = re_save_error (step_env JNull [])"
      "re_plan_path (step_env app cwd) = re_plan_path (step_env JNull [])" "re_now (step_env app cwd) = re_now (step_env JNull [])"
      "re_requirements_path (step_env app cwd) = re_requirements_path (step_env JNull [])"
      "candidate_view (step_env app cwd) = candidate_view (step_env JNull [])"
    by (simp_all add: step_env_def candidate_view_def)
  ultimately show ?thesis
    unfolding apply_to_candidate_def apply_file_def by (simp cong del: sum.case_cong_weak prod.case_cong_weak)
qed

lemma step_completes:
  assumes "wf_snap candidate" "node_at candidate [''v''] = None"
  shows "\<exists>rep. ao_result (apply_to_candidate (step_env app cwd) (FileText ''p'') (FileText ''{}'') candidate) = Inr rep"
proof -
  have "dir_node candidate []" "node_at candidate [] \<noteq> None" using assms(1) by (auto simp: wf_snap_iff dir_node_kind)
  then have mk: "snap_mkdir 18 candidate [''v''] 493 = (MkOk, put_snap [''v''] (SnapDir (493 - (493 AND 18))) candidate)"
    using assms(2) by (auto simp: snap_mkdir_def)
  have ch: "snap_chmod_call (put_snap [''v''] k candidate) [''v''] 493 = (None, put_snap [''v''] (SnapDir 493) (put_snap [''v''] k candidate))"
    if "dir_kind k" for k
    using that by (simp add: snap_chmod_call_def snap_chmod_dir dir_node_kind)
  have inputs: "load_inputs (re_loads (step_env app cwd)) (FileText ''p'') (FileText ''{}'') (candidate_view (step_env app cwd)) =
      Inr (example_plan ''/v'', ''/r'', sha256_hex ''p'', sha256_hex ''{}'')"
    unfolding load_inputs_def step_plan_loads by (simp add: example_fields candidate_view_def validate_rootfs_def step_env_def)
  have ops: "fs_lstat (snap_ops 18) = snap_lstat" "fs_mkdir (snap_ops 18) = snap_mkdir 18" "fs_chmod (snap_ops 18) = snap_chmod_call"
      "re_umask (step_env app cwd) = 18" "re_save_error (step_env app cwd) = (\<lambda>_. None)"
    by (simp_all add: snap_ops_def step_env_def)
  have stat: "snap_lstat candidate [''v''] = StatMissing" using assms(2) by (simp add: snap_lstat_def snap_ent_def)
  show ?thesis
    unfolding apply_to_candidate_def apply_file_def inputs
    by (simp add: ops run_transaction_def example_fields prepare_directory_def mkdir_parameters_def example_paths parse_mode_default
        stat mk ch apply_prepared_def collect_results_def preflight_result_def plain_result_def applied_result_def Let_def
        del: parse_mode.simps)
qed

lemma step_text_other: "application_text env rep \<noteq> step_text" "step_text \<noteq> ''p''"
proof -
  have shape: "file_text (JObj ((''schema_version'', JInt 1) # (k, v) # d)) = ''{'' @ line_start 1 @ quote_text ''schema_version'' @ '': '' @
      dump_json (JInt 1) @ '','' @ line_start 1 @ quote_text k @ '': '' @ dump_indent 1 v @
      concat (map (\<lambda>x. '','' @ line_start 1 @ x) (map (\<lambda>(k, v). quote_text k @ '': '' @ dump_indent 1 v) d)) @ line_start 0 @ ''}'' @ [CHR 0x0A]" for k v d
    by (simp add: file_text_def join_with_Cons)
  have "quote_text ''applier_version'' @ s \<noteq> quote_text ''generated_at_utc'' @ t" for s t
    by (simp add: quote_text_def escape_char_def)
  then show "application_text env rep \<noteq> step_text"
    by (simp add: application_text_def application_to_dict_def application_fields_def step_text_def observation_to_dict_def shape)
  show "step_text \<noteq> ''p''" by (simp add: step_text_def observation_to_dict_def shape)
qed

lemma step_observation_loads: "load_observation (re_loads (step_env app cwd)) (Some step_text) = Inr step_observation"
proof -
  have "example_time \<noteq> []" by code_simp
  then have "wf_observation step_observation" using observe_wf [OF ex_observes] by (simp add: step_observation_def wf_observation_def metrics_items_def)
  then show ?thesis by (simp add: load_observation_def step_env_def step_texts_def observation_roundtrip step_text_other(2))
qed

lemma step_observation_fields:
  "io_plan_sha step_observation = sha256_hex ''p''"
  "io_requirements_sha step_observation = rp_source_sha256 (example_plan ''/v'')"
  by (simp_all add: step_observation_def example_fields)

lemma step_identifiers: "is_env_identifier ''fs:/v''" "is_env_identifier example_id" "is_env_identifier (example_id @ '':observation'')"
  "is_env_identifier (example_id @ '':repair:repair_'')"
  by (simp_all add: example_id_def is_env_identifier_def env_identifier_char_def ascii_upper_def ascii_lower_def ascii_digit_def)

lemma step_recordable: "attempt_recordable (example_seed rootfs []) (example_plan ''/v'') (step_contract (example_seed rootfs []))"
proof -
  let ?sha = "sha256_hex (''req_1'' @ [CHR 0x00] @ action_value CreateDirectory @ [CHR 0x00] @ disposition_value AutoCandidate @ [CHR 0x00] @ ''/v'')"
  have "length (example_id @ '':repair:repair_'') \<le> 200" by (simp add: example_id_def)
  then have "is_env_identifier ((example_id @ '':repair:repair_'') @ take 16 ?sha)"
    using sha_identifier [of ?sha 16] min.cobounded2 [of "length ?sha" 16]
    by (intro identifier_append step_identifiers) (simp_all del: min.cobounded2 length_append)
  then show ?thesis
    using step_identifiers(1-3) seed_id_identifier [of "example_seed rootfs []"]
    by (simp add: attempt_recordable_def attempt_named_def recordable_def step_contract_def example_contract_def example_fields)
      (simp add: example_decision_def make_decision_id_def)
qed

lemma step_source: "check_source (example_seed rootfs []) (step_contract (example_seed rootfs [])) (step_result (example_seed rootfs [])) = Inr ()"
  by (simp add: check_source_def guard_def step_contract_def step_result_def example_contract_def example_result_def)

text \<open>The snapshot of the example root filesystem, in the working directory\<close>

lemma step_snapshot:
  obtains cwd sid before candidate where "snapshots_ok cwd" "is_env_identifier sid" "starts_with sid ''env_''"
    "snapshot_clone cwd [] sid True = Inr (before, candidate)" "wf_snap candidate" "node_at candidate [''v''] = None"
proof -
  have "\<exists>es. scan_environment example_rootfs = Inr es" by (simp add: scan_environment_def example_rootfs_def)
  then obtain es where scan: "scan_environment example_rootfs = Inr es" by blast
  from capture_new [OF example_rootfs_ok scan, of "[]" "''t''" "''r''" "''d''"] obtain m v copy J
    where m: "sp_entries m = es" "sp_id m = ''env_'' @ take 16 (tree_digest es)" "sp_sha m = tree_digest es"
      "snap_manifest_from v = Inr m" "copy_of J example_rootfs copy" by auto
  let ?cwd = "[(sp_id m, SlotDir (DocJson (Some v)) (RootTree copy))]"
  note copy = copy_of_wf [OF example_rootfs_ok(1) m(5)] copy_of_groups [OF example_rootfs_ok(1) m(5) example_rootfs_ok(2)]
  have "verify_slot (resolve_snapshot ?cwd [] (sp_id m)) = Inr (m, copy)"
    using m copy_of_scan [OF example_rootfs_ok(1) m(5)] scan by (simp add: verify_slot_Inr resolve_snapshot_def)
  from verified_clone [OF this copy] obtain candidate K where c: "snapshot_clone ?cwd [] (sp_id m) True = Inr (m, candidate)"
      "wf_snap candidate" "copy_of K copy candidate" by blast
  have "node_at candidate [''v''] = None" using c(3) m(5) by (simp add: copy_of_def) (simp add: example_rootfs_def node_at_def)
  moreover have "is_env_identifier (sp_id m)" using snapshot_identifier [of "tree_digest es"] m(2) by simp
  moreover have "snapshots_ok ?cwd" using copy by (simp add: snapshots_ok_def slot_ok_def)
  moreover have "starts_with (sp_id m) ''env_''" by (simp add: m(2) starts_with_def)
  ultimately show thesis using that c(1,2) by blast
qed

text \<open>The report of the run, as the text of the saved file is read back\<close>

lemma step_report:
  assumes "wf_snap candidate" "node_at candidate [''v''] = None"
  obtains app rep where "ao_result (apply_to_candidate (step_env app cwd) (FileText ''p'') (FileText ''{}'') candidate) = Inr rep"
    "re_loads (step_env app cwd) (application_text (step_env app cwd) rep) = Some (application_to_dict (re_texts (step_env app cwd)) rep)"
proof -
  from step_completes [OF assms] obtain rep
    where rep: "ao_result (apply_to_candidate (step_env JNull []) (FileText ''p'') (FileText ''{}'') candidate) = Inr rep" by blast
  let ?app = "application_to_dict (\<lambda>_. []) rep"
  have "hd (file_text ?app) = CHR ''{''" by (simp add: file_text_def application_to_dict_def application_fields_def)
  then have "file_text ?app \<noteq> ''p''" "file_text ?app \<noteq> step_text" using step_text_other(1) [of "step_env ?app cwd" rep]
    by (auto simp: application_text_def step_env_def)
  then have "re_loads (step_env ?app cwd) (application_text (step_env ?app cwd) rep) = Some ?app"
    by (simp add: application_text_def step_env_def step_texts_def)
  moreover have "re_texts (step_env ?app cwd) = (\<lambda>_. [])" by (simp add: step_env_def)
  moreover have "ao_result (apply_to_candidate (step_env ?app cwd) (FileText ''p'') (FileText ''{}'') candidate) = Inr rep"
    by (subst step_run_same) (rule rep)
  ultimately show thesis using that [of ?app rep] by simp
qed

lemmas step_facts = step_plan_loads step_source step_recordable step_observation_loads

abbreviation step_build :: "json \<Rightarrow> snap_store \<Rightarrow> string \<Rightarrow> (repair_error + (string \<times> string \<times> env_manifest)) \<times> snap_store" where
  "step_build app cwd sid \<equiv> build_repaired_snapshot (step_env app cwd) [] sid (FileText ''p'') (FileText ''{}'') (FileText step_text)
     (example_seed sid []) (step_contract (example_seed sid [])) (step_result (example_seed sid []))"

lemma step_more:
  "wf_plan (example_plan ''/v'')" "snapshots_ok []" "example_decision ''/v'' \<in> set (rp_decisions (example_plan ''/v''))"
  "rd_automatic (example_decision ''/v'')"
  "ap_observation (as_progress (step_result m)) = Some (sha256_hex step_text)"
  "iso_instant (re_now (step_env app cwd)) \<noteq> None" "re_rootfs (step_env app cwd) \<noteq> []" "re_cwd (step_env app cwd) = cwd"
  "is_env_identifier sid \<Longrightarrow> wf_manifest (example_seed sid [])"
  using example_time_instant
  by (simp_all add: example_plan_wf snapshots_ok_def example_fields step_result_def step_env_def example_seed_wf)

lemma step_inputs:
  obtains app cwd sid before candidate rep where "snapshots_ok (re_cwd (step_env app cwd))" "is_env_identifier sid" "starts_with sid ''env_''"
    "snapshot_clone (re_cwd (step_env app cwd)) [] sid True = Inr (before, candidate)"
    "ao_result (apply_to_candidate (step_env app cwd) (FileText ''p'') (FileText ''{}'') candidate) = Inr rep"
    "re_loads (step_env app cwd) (application_text (step_env app cwd) rep) = Some (application_to_dict (re_texts (step_env app cwd)) rep)"
proof -
  obtain cwd sid before candidate where c: "snapshots_ok cwd" "is_env_identifier sid" "starts_with sid ''env_''"
      "snapshot_clone cwd [] sid True = Inr (before, candidate)" "wf_snap candidate" "node_at candidate [''v''] = None"
    by (rule step_snapshot)
  obtain app rep where run: "ao_result (apply_to_candidate (step_env app cwd) (FileText ''p'') (FileText ''{}'') candidate) = Inr rep"
      "re_loads (step_env app cwd) (application_text (step_env app cwd) rep) = Some (application_to_dict (re_texts (step_env app cwd)) rep)"
    by (rule step_report [OF c(5,6)])
  with c that [of app cwd] show thesis by (simp add: step_more)
qed

theorem completed_repair_is_recorded_witness:
  "\<exists>app cwd sid new text m t. step_build app cwd sid = (Inr (new, text, m), t)"
proof -
  obtain app cwd sid before candidate rep where c: "snapshots_ok (re_cwd (step_env app cwd))" "is_env_identifier sid" "starts_with sid ''env_''"
    "snapshot_clone (re_cwd (step_env app cwd)) [] sid True = Inr (before, candidate)"
    "ao_result (apply_to_candidate (step_env app cwd) (FileText ''p'') (FileText ''{}'') candidate) = Inr rep"
    "re_loads (step_env app cwd) (application_text (step_env app cwd) rep) = Some (application_to_dict (re_texts (step_env app cwd)) rep)"
    by (rule step_inputs)
  from completed_repair_is_recorded [OF step_more(9) [OF c(2)] step_more(1) step_plan_loads step_more(2) c(1,4-6) step_more(3,4) step_facts(2-4)
      step_more(5) step_observation_fields step_more(6,7)]
  obtain new m t where "step_build app cwd sid = (Inr (new, application_text (step_env app cwd) rep, m), t)"
    by (auto simp: free_or_intact_def)
  then show ?thesis by (intro exI)
qed

lemma step_builds:
  obtains app cwd sid new report m t where "snapshots_ok (re_cwd (step_env app cwd))" "is_env_identifier sid" "starts_with sid ''env_''"
    "step_build app cwd sid = (Inr (new, report, m), t)"
proof -
  obtain app cwd sid before candidate rep where c: "snapshots_ok (re_cwd (step_env app cwd))" "is_env_identifier sid" "starts_with sid ''env_''"
    "snapshot_clone (re_cwd (step_env app cwd)) [] sid True = Inr (before, candidate)"
    "ao_result (apply_to_candidate (step_env app cwd) (FileText ''p'') (FileText ''{}'') candidate) = Inr rep"
    "re_loads (step_env app cwd) (application_text (step_env app cwd) rep) = Some (application_to_dict (re_texts (step_env app cwd)) rep)"
    by (rule step_inputs)
  from completed_repair_recorded [OF step_more(9) [OF c(2)] step_more(1) step_plan_loads step_more(2) c(1,4-6) step_more(3,4) step_facts(2-4)
      step_more(5) step_observation_fields step_more(6,7)]
  obtain new m t where "step_build app cwd sid = (Inr (new, application_text (step_env app cwd) rep, m), t)"
    by (auto simp: free_or_intact_def)
  with c(1-3) that show thesis by blast
qed

theorem repaired_snapshot_extends_parent_witness:
  "\<exists>app cwd sid new report m t f. step_build app cwd sid = (Inr (new, report, m), t) \<and> f \<in> set (em_entries m) \<and>
    en_resource f = ''fs:/v'' \<and> (\<exists>after. snapshot_verify cwd t new = Inr after)"
proof -
  obtain app cwd sid new report m t where b: "snapshots_ok (re_cwd (step_env app cwd))" "is_env_identifier sid" "starts_with sid ''env_''"
      "step_build app cwd sid = (Inr (new, report, m), t)"
    by (rule step_builds)
  have loads: "re_loads (step_env app cwd) ''p'' = Some (plan_to_dict (example_plan ''/v''))" by (simp add: step_env_def step_texts_def)
  have now: "re_now (step_env app cwd) \<noteq> []"
    using step_more(6) [of app cwd] by (auto simp: iso_instant_def iso_datetime_def)
  have plan: "plan_from_dict (plan_to_dict (example_plan ''/v'')) = Inr (example_plan ''/v'')" by (simp add: plan_roundtrip example_plan_wf)
  from repaired_snapshot_extends_parent [OF step_more(9) [OF b(2)] step_more(2) b(1) loads example_plan_json plan now step_more(7) b(4)]
  obtain after e f where "snapshot_verify cwd t new = Inr after" "f \<in> set (em_entries m)" "recorded_directory (example_decision ''/v'') e f"
    using step_more(3,4) by (auto simp: step_more(8))
  moreover from this(3) have "en_resource f = ''fs:/v''" by (simp add: recorded_directory_def example_fields)
  ultimately show ?thesis using b(4) by blast
qed

section \<open>Directories that cannot be recorded\<close>

text \<open>
  C18: The planner and the applier accept the path \<open>/a b\<close>, and the builder never makes an entry for it:
  the identifier of an entry has no space.
\<close>

theorem spaced_directory_never_recorded:
  "validate_guest_path ''/a b'' = None \<and> applier_guest_path default_applier_config ''/a b'' = Inr ''/a b'' \<and>
    (\<forall>fs c did params obs app e. directory_entry fs c did ''/a b'' params obs app \<noteq> Inr e)"
proof (intro conjI allI notI)
  show "validate_guest_path ''/a b'' = None" "applier_guest_path default_applier_config ''/a b'' = Inr ''/a b''"
    by code_simp+
  fix fs c did params obs app e
  assume "directory_entry fs c did ''/a b'' params obs app = Inr e"
  from directory_entry_Inr [OF this] have "is_env_identifier ''fs:/a b''"
    by (auto simp: wf_entry_def check_entry_Inr directory_recorded_def)
  then show False by (simp add: is_env_identifier_def env_identifier_char_def ascii_upper_def ascii_lower_def ascii_digit_def)
qed

end
