(* ===== verification/Session_Paths.thy ===== *)
theory Session_Paths
  imports Iteration_Properties
begin

text \<open>
  The paths of a session: the directories of iterations and what is below them.
\<close>

section \<open>Relative paths\<close>

lemma pp_parse_relative:
  assumes "\<forall>c \<in> set cs. c \<noteq> [] \<and> c \<noteq> ''.'' \<and> slash \<notin> set c" and "cs \<noteq> []"
  shows "pp_parse (join_with [slash] cs) = PPath [] cs"
proof -
  have "hd cs \<noteq> []" "slash \<notin> set (hd cs)" using assms by (metis hd_in_set)+
  then have "hd (join_with [slash] cs) \<noteq> slash" using join_with_head [of cs "[slash]"] assms(2) by (metis hd_in_set)
  then have "lead_slashes (join_with [slash] cs) = 0" by (simp add: lead_slashes_zero)
  moreover have "filter (\<lambda>x. x \<noteq> [] \<and> x \<noteq> ''.'') (split_on slash (join_with [slash] cs)) = cs"
    using assms split_join [of cs slash] by (auto simp: filter_id_conv)
  ultimately show ?thesis by (simp add: pp_parse_def)
qed

abbreviation plain_path :: "string list \<Rightarrow> bool" where
  "plain_path cs \<equiv> cs \<noteq> [] \<and> (\<forall>c \<in> set cs. plain_component c)"

definition path_text :: "string list \<Rightarrow> string" where
  "path_text cs = join_with [slash] cs"

lemma parse_path_text: "plain_path cs \<Longrightarrow> pp_parse (path_text cs) = PPath [] cs"
  unfolding path_text_def by (rule pp_parse_relative) (auto simp: plain_component_def)

lemma below_path_text: "plain_path cs \<Longrightarrow> below (path_text cs) names = path_text (cs @ names)"
  unfolding below_def parse_path_text by (simp add: pp_str_def path_text_def)

lemma path_text_inj: "plain_path cs \<Longrightarrow> plain_path ds \<Longrightarrow> path_text cs = path_text ds \<longleftrightarrow> cs = ds"
  by (metis parse_path_text ppath.sel(2))

lemma relative_path_text: "plain_path cs \<Longrightarrow> relative_path (path_text cs)"
  by (auto simp: relative_path_def parse_path_text plain_component_def)

lemma path_text_not_Nil: "plain_path cs \<Longrightarrow> path_text cs \<noteq> []"
  unfolding path_text_def using join_with_head [of cs "[slash]"] by (auto simp: plain_component_def)

section \<open>Iterations\<close>

lemma digits_plain: "list_all ascii_digit s \<Longrightarrow> s \<noteq> [] \<Longrightarrow> plain_component s"
  by (cases s) (auto simp: plain_component_def ascii_digit_def list_all_iff)

lemma pad4_plain: "plain_component (pad4 k)"
  using show_nat_hd [of k] by (intro digits_plain pad4_digits) (auto simp: pad4_def Let_def)

lemma pad4_inj: "pad4 k = pad4 l \<longleftrightarrow> k = l"
  by (metis pad4_value)

lemma iteration_directory_text: "iteration_directory k = path_text [''iterations'', pad4 k]"
  by (simp add: iteration_directory_def pad4_def path_text_def)

text \<open>A path below the directory of an iteration\<close>

definition iteration_path :: "nat \<Rightarrow> string list \<Rightarrow> string" where
  "iteration_path k names = path_text (''iterations'' # pad4 k # names)"

lemma iteration_plain: "list_all plain_component names \<Longrightarrow> plain_path (''iterations'' # pad4 k # names)"
  using pad4_plain by (auto simp: list_all_iff) (simp add: plain_component_def)

lemma below_iteration: "below (iteration_directory k) names = iteration_path k names"
  using below_path_text [OF iteration_plain [of "[]" k], of names] by (simp add: iteration_directory_text iteration_path_def)

lemma below_iteration_path: "list_all plain_component names \<Longrightarrow> below (iteration_path k names) [] = iteration_path k names"
  using below_path_text [OF iteration_plain [of names k], of "[]"] by (simp add: iteration_path_def)

lemma iteration_path_inj:
  "list_all plain_component ns \<Longrightarrow> list_all plain_component ms \<Longrightarrow> iteration_path k ns = iteration_path l ms \<longleftrightarrow> k = l \<and> ns = ms"
  unfolding iteration_path_def using path_text_inj [OF iteration_plain [of ns k] iteration_plain [of ms l]] pad4_inj by simp

lemma iteration_path_join: "names \<noteq> [] \<Longrightarrow> iteration_directory k @ ''/'' @ join_with [slash] names = iteration_path k names"
  by (cases names) (simp_all add: iteration_directory_text iteration_path_def path_text_def)

lemma plain_names [simp]:
  "plain_component ''iteration.json''" "plain_component ''observation.json''" "plain_component ''artifacts''"
  "plain_component ''artifact_manifest.json''" "plain_component ''repair_application.json''" "plain_component ''execution_attempt.json''"
  by (simp_all add: plain_component_def)

lemma iteration_files:
  "iteration_directory k @ ''/iteration.json'' = iteration_path k [''iteration.json'']"
  "iteration_directory k @ ''/repair_application.json'' = iteration_path k [''repair_application.json'']"
  using iteration_path_join [of "[''iteration.json'']" k] iteration_path_join [of "[''repair_application.json'']" k] by simp_all

lemma iteration_path_relative:
  "list_all plain_component names \<Longrightarrow> relative_path (iteration_path k names) \<and> iteration_path k names \<noteq> []"
  unfolding iteration_path_def using relative_path_text [OF iteration_plain] path_text_not_Nil [OF iteration_plain] by blast

lemma iteration_directory_relative: "relative_path (iteration_directory k)" "iteration_directory k \<noteq> []"
  using iteration_path_relative [of "[]" k] by (simp_all add: iteration_path_def iteration_directory_text)

section \<open>Attempts\<close>

lemma attempt_id_plain:
  assumes "is_attempt_id aid"
  shows "plain_component aid"
proof -
  let ?r = "drop 8 aid"
  let ?h = "dropWhile ascii_digit ?r"
  from assms have start: "starts_with aid ''attempt-''" and h: "starts_with ?h ''-''" "list_all lower_hex (drop 1 ?h)"
    by (auto simp: is_attempt_id_def Let_def)
  have "slash \<notin> set (takeWhile ascii_digit ?r)" by (auto simp: ascii_digit_def dest: set_takeWhileD)
  moreover have "slash \<notin> set ?h"
    using h by (cases ?h) (auto simp: starts_with_def lower_hex_def ascii_digit_def list_all_iff)
  ultimately have r: "slash \<notin> set ?r" by (metis Un_iff set_append takeWhile_dropWhile_id)
  have aid: "aid = ''attempt-'' @ ?r"
  proof -
    have "take 8 aid = ''attempt-''" using start by (simp only: starts_with_def) (simp add: eval_nat_numeral)
    then show ?thesis using append_take_drop_id [of 8 aid] by simp
  qed
  show ?thesis by (subst aid) (use r in \<open>simp add: plain_component_def\<close>)
qed

definition attempt_file :: "string \<Rightarrow> string \<Rightarrow> string" where
  "attempt_file aid name = path_text [''attempts'', aid, name]"

lemma attempt_files:
  "''attempts/'' @ aid @ ''/contract.json'' = attempt_file aid ''contract.json''"
  "''attempts/'' @ aid @ ''/result.json'' = attempt_file aid ''result.json''"
  by (simp_all add: attempt_file_def path_text_def)

lemma attempt_file_relative:
  "is_attempt_id aid \<Longrightarrow> plain_component name \<Longrightarrow> relative_path (attempt_file aid name) \<and> attempt_file aid name \<noteq> []"
  unfolding attempt_file_def
  by (intro conjI relative_path_text path_text_not_Nil) (simp_all add: attempt_id_plain, simp_all add: plain_component_def)

end
