(* ===== verification/Session_Verified.thy ===== *)
theory Session_Verified
  imports Session_Paths
begin

text \<open>
  What verification of a session depends on: the parts of a successful verification, and the changes of
  the session directory that keep it.
\<close>

section \<open>The parts of a verification\<close>

lemma verify_artifact_manifest_now: "verify_artifact_manifest v now t = verify_artifact_manifest v later t"
  by (simp add: verify_artifact_manifest_def build_artifact_manifest_def split: option.splits)

definition bundle_verified :: "session_host \<Rightarrow> session_world \<Rightarrow> iteration_record \<Rightarrow> string \<Rightarrow> bool" where
  "bundle_verified h w r ap \<longleftrightarrow> (\<exists>t. sw_bundles w (below (ir_directory r) [''artifacts'']) = Some t \<and>
     verify_artifact_manifest
       (case map_of t [''artifact_manifest.json''] of
          Some (NodeFile s) \<Rightarrow> (if below ap [] = below (ir_directory r) [''artifacts'', ''artifact_manifest.json'']
            then sh_loads h s else None)
        | _ \<Rightarrow> None) [] t = Inr ())"

definition observation_verified :: "session_world \<Rightarrow> string \<Rightarrow> attempt_result \<Rightarrow> iteration_observation \<Rightarrow> bool" where
  "observation_verified w op res ob \<longleftrightarrow>
     (\<exists>v. sw_files w (below op []) = ArtFile (Some v) \<and> observation_from_dict v = Inr ob \<and>
        ap_observation (as_progress res) = Some (sha256_hex (file_text v))) \<and>
     ap_goal (as_progress res) = io_goal ob \<and> ap_reason (as_progress res) = io_reason ob \<and>
     ap_events (as_progress res) = pm_guest_total (io_metrics ob)"

lemma read_observation_Inr:
  "read_observation w p = Inr ob \<longleftrightarrow> (\<exists>v. sw_files w (below p []) = ArtFile (Some v) \<and> observation_from_dict v = Inr ob)"
  by (auto simp: read_observation_def split: artifact.splits option.splits)

lemma verify_completed_Inr:
  "verify_completed h w r result = Inr ob \<longleftrightarrow> (\<exists>op ap res. ir_observation r = Some op \<and> ir_artifacts r = Some ap \<and>
     ir_result r = Some (''attempts/'' @ ir_attempt r @ ''/result.json'') \<and> result = Some res \<and>
     bundle_verified h w r ap \<and> observation_verified w op res ob)"
proof (cases "ir_observation r"; cases "ir_artifacts r"; cases "ir_result r"; cases result)
  fix op ap rp res
  assume *: "ir_observation r = Some op" "ir_artifacts r = Some ap" "ir_result r = Some rp" "result = Some res"
  show ?thesis
    unfolding verify_completed_def * option.case prod.case
    by (cases "sw_bundles w (below (ir_directory r) [''artifacts''])")
      (auto simp: bundle_verified_def observation_verified_def ebind_Inr_iff err_map_Inr_iff guard_Inr_iff read_observation_Inr
        verify_artifact_manifest_now [of _ "sh_clock h 0" _ "[]"])
qed (simp_all add: verify_completed_def)

definition record_verified ::
    "session_host \<Rightarrow> snap_store \<Rightarrow> session_world \<Rightarrow> session_manifest \<Rightarrow> env_manifest list \<Rightarrow> iteration_record
     \<Rightarrow> attempt_result option \<Rightarrow> iteration_observation option \<Rightarrow> bool" where
  "record_verified h cwd w m chain r res obs \<longleftrightarrow>
     (\<exists>x. snapshot_verify cwd (sw_snapshots w) (ir_snapshot r) = Inr x) \<and>
     ir_manifest_version r = ir_index r \<and> ir_manifest_version r < int (length chain) \<and>
     (let em = chain ! nat (ir_manifest_version r) in
        manifest_id em = ir_manifest_id r \<and> em_rootfs em = ir_snapshot r \<and> em_sample em = sm_sample m) \<and>
     (\<exists>v. sw_files w (below (ir_directory r) [''iteration.json'']) = ArtFile (Some v) \<and> record_from_dict v = Inr r) \<and>
     (\<exists>c. verify_attempt (sw_attempts w) (ir_attempt r) (ir_state r = IterationCompleted) = Inr (c, res) \<and>
        validate_contract_binding m r c = Inr ()) \<and>
     ir_contract r = ''attempts/'' @ ir_attempt r @ ''/contract.json'' \<and>
     (ir_state r = IterationPrepared \<longrightarrow> res = None \<and> obs = None) \<and>
     (ir_state r = IterationCompleted \<longrightarrow> (\<exists>ob. obs = Some ob \<and> verify_completed h w r res = Inr ob))"

lemma iteration_state_cases: "s \<noteq> IterationCompleted \<longleftrightarrow> s = IterationPrepared"
  by (cases s) simp_all

lemma verify_record_Inr:
  "verify_record h env w m chain r = Inr (res, obs) \<longleftrightarrow> record_verified h (re_cwd env) w m chain r res obs"
proof -
  have raw: "(case a of ArtFile (Some v) \<Rightarrow> record_from_dict v | ArtFile None \<Rightarrow> Inl SessEscapedJson | _ \<Rightarrow> Inl SessOs) = Inr x \<longleftrightarrow>
      (\<exists>v. a = ArtFile (Some v) \<and> record_from_dict v = Inr x)" for a x
    by (cases a) (auto split: option.splits)
  show ?thesis
  proof (cases "ir_state r")
    case IterationPrepared
    then show ?thesis
      unfolding verify_record_def record_verified_def Let_def
      by (simp only: ebind_Inr_iff err_map_Inr_iff guard_Inr_iff raw split_paired_Ex prod.case) auto
  next
    case IterationCompleted
    then show ?thesis
      unfolding verify_record_def record_verified_def Let_def
      by (simp only: ebind_Inr_iff err_map_Inr_iff guard_Inr_iff raw split_paired_Ex prod.case) (auto simp: ebind_Inr_iff)
  qed
qed

definition chain_verified :: "session_manifest \<Rightarrow> env_store \<Rightarrow> env_manifest list \<Rightarrow> bool" where
  "chain_verified m s chain \<longleftrightarrow> verify_env_chain s None = Inr chain \<and> manifest_id (hd chain) = sm_seed_manifest m \<and>
     em_rootfs (hd chain) = sm_seed m \<and> em_sample (hd chain) = sm_sample m \<and> length chain = max 1 (length (sm_iterations m))"

definition tail_verified :: "session_world \<Rightarrow> session_manifest \<Rightarrow> (attempt_result option \<times> iteration_observation option) list \<Rightarrow> bool" where
  "tail_verified w m evidence \<longleftrightarrow> (\<exists>stop. tail_stop_reason w m (map snd evidence) = Inr stop \<and>
     verify_terminal_state m (map fst evidence) stop = Inr ())"

definition records_verified ::
    "session_host \<Rightarrow> snap_store \<Rightarrow> session_world \<Rightarrow> session_manifest \<Rightarrow> env_manifest list
     \<Rightarrow> (attempt_result option \<times> iteration_observation option) list \<Rightarrow> bool" where
  "records_verified h cwd w m chain evidence \<longleftrightarrow>
     list_all2 (\<lambda>r (res, obs). record_verified h cwd w m chain r res obs) (sm_iterations m) evidence"

lemma emap_Inr_list_all2: "emap f xs = Inr ys \<longleftrightarrow> list_all2 (\<lambda>x y. f x = Inr y) xs ys"
  by (induction xs arbitrary: ys) (auto simp: ebind_Inr_iff list_all2_Cons1)

lemma verify_session_Inr:
  "verify_session h env w = Inr m \<longleftrightarrow>
     sw_directory w \<and> \<not> sw_locked w \<and> controller_load h w = Inr m \<and>
     (\<exists>x. snapshot_verify (re_cwd env) (sw_snapshots w) (sm_seed m) = Inr x) \<and>
     list_attempt_ids (sw_attempts w) = Inr (map ir_attempt (sm_iterations m)) \<and>
     (\<exists>chain evidence. chain_verified m (sw_manifests w) chain \<and> records_verified h (re_cwd env) w m chain evidence \<and>
        tail_verified w m evidence)"
proof -
  have records: "emap (verify_record h env w m chain) (sm_iterations m) = Inr evidence \<longleftrightarrow>
      records_verified h (re_cwd env) w m chain evidence" for m chain evidence
  proof -
    have "(\<lambda>r y. verify_record h env w m chain r = Inr y) = (\<lambda>r (res, obs). record_verified h (re_cwd env) w m chain r res obs)"
      by (auto simp: fun_eq_iff verify_record_Inr)
    then show ?thesis unfolding emap_Inr_list_all2 records_verified_def by simp
  qed
  show ?thesis
  proof (cases "sw_directory w \<and> \<not> sw_locked w")
    case True
    then show ?thesis
      unfolding verify_session_def with_lock_def chain_verified_def tail_verified_def
      by (simp only: if_False simp_thms fst_conv ebind_Inr_iff err_map_Inr_iff guard_Inr_iff records) auto
  qed (auto simp: verify_session_def with_lock_def)
qed

section \<open>Changes that keep a verification\<close>

text \<open>The files that the verification of a record reads; bundles that exist stay as they are.\<close>

definition record_files :: "iteration_record \<Rightarrow> string set" where
  "record_files r = insert (below (ir_directory r) [''iteration.json'']) ((\<lambda>op. below op []) ` set_option (ir_observation r))"

definition files_kept :: "string set \<Rightarrow> session_world \<Rightarrow> session_world \<Rightarrow> bool" where
  "files_kept ps w v \<longleftrightarrow> (\<forall>p \<in> ps. sw_files v p = sw_files w p) \<and> (\<forall>p t. sw_bundles w p = Some t \<longrightarrow> sw_bundles v p = Some t)"

text \<open>Snapshots that verify go on verifying.\<close>

definition snapshots_kept :: "snap_store \<Rightarrow> snap_store \<Rightarrow> snap_store \<Rightarrow> bool" where
  "snapshots_kept cwd s t \<longleftrightarrow> (\<forall>sid. (\<exists>x. snapshot_verify cwd s sid = Inr x) \<longrightarrow> (\<exists>x. snapshot_verify cwd t sid = Inr x))"

definition same_subject :: "session_manifest \<Rightarrow> session_manifest \<Rightarrow> bool" where
  "same_subject m n \<longleftrightarrow> sm_sample n = sm_sample m \<and> sm_packed n = sm_packed m \<and> sm_goal n = sm_goal m"

lemma verify_completed_kept:
  assumes "verify_completed h w r res = Inr ob" "files_kept (record_files r) w v" "sh_loads h' = sh_loads h"
  shows "verify_completed h' v r res = Inr ob"
proof -
  have "bundle_verified h' v r ap" if "bundle_verified h w r ap" for ap
    using that assms(2) unfolding bundle_verified_def assms(3) by (auto simp: files_kept_def)
  moreover have "observation_verified v op x ob" if "observation_verified w op x ob" "ir_observation r = Some op" for op x
    using that assms(2) by (auto simp: observation_verified_def files_kept_def record_files_def)
  ultimately show ?thesis using assms(1) unfolding verify_completed_Inr by blast
qed

lemma record_verified_kept:
  assumes "record_verified h cwd w m chain r res obs" "files_kept (record_files r) w v" "snapshots_kept cwd (sw_snapshots w) (sw_snapshots v)"
    and "same_subject m n" "0 \<le> ir_index r" "sh_loads h' = sh_loads h"
    and "\<And>x. verify_attempt (sw_attempts w) (ir_attempt r) (ir_state r = IterationCompleted) = Inr x \<Longrightarrow>
      verify_attempt (sw_attempts v) (ir_attempt r) (ir_state r = IterationCompleted) = Inr x"
  shows "record_verified h' cwd v n (chain @ later) r res obs"
proof -
  have binding: "validate_contract_binding n r c = validate_contract_binding m r c" for c
    using assms(4) by (simp add: validate_contract_binding_def same_subject_def)
  have "(chain @ later) ! nat (ir_manifest_version r) = chain ! nat (ir_manifest_version r)"
    using assms(1,5) by (auto simp: record_verified_def nth_append nat_less_iff)
  moreover have "\<exists>x. snapshot_verify cwd (sw_snapshots v) (ir_snapshot r) = Inr x"
    using assms(1,3) by (auto simp: record_verified_def snapshots_kept_def)
  moreover have "\<exists>x. sw_files v (below (ir_directory r) [''iteration.json'']) = ArtFile (Some x) \<and> record_from_dict x = Inr r"
    using assms(1,2) by (auto simp: record_verified_def files_kept_def record_files_def)
  ultimately show ?thesis
    using assms(1,4,7) verify_completed_kept [OF _ assms(2,6)]
    by (auto simp: record_verified_def binding same_subject_def Let_def)
qed

end
