(* ===== verification/Session_Step.thy ===== *)
theory Session_Step
  imports Session_Verified
begin

text \<open>
  The invariant of a session, and the environment that the next iteration runs in.
\<close>

section \<open>Snapshots and manifests\<close>

lemma snapshot_verify_slot: "(\<exists>x. snapshot_verify cwd s sid = Inr x) \<longleftrightarrow> (\<exists>x. verify_slot (resolve_snapshot cwd s sid) = Inr x)"
  by (auto simp: snapshot_verify_def ebind_Inr_iff)

lemma captured_store:
  assumes "wf_snap fs" "groups_distinct fs" "scan_environment fs = Inr es" "snapshots_ok s" "now \<noteq> []" "source \<noteq> []"
    and "snapshot_capture now source dir s (RootTree fs) = (Inr (m, reused), t)"
  shows "snapshots_ok t \<and> snapshots_kept cwd s t \<and> snapshot_verify cwd t (sp_id m) = Inr m \<and> starts_with (sp_id m) ''env_''"
proof -
  note stored = captured_snapshot [OF assms, of cwd]
  let ?sid = "''env_'' @ take 16 (tree_digest es)"
  have "(t = s \<or> (\<exists>x. t = (sp_id m, x) # s)) \<and> sp_id m = ?sid"
  proof (cases "map_of s ?sid")
    case None
    from capture_new [OF assms(1-3) None assms(5,6), of dir] assms(7) show ?thesis by auto
  next
    case (Some slot)
    from capture_old [OF assms(3) Some assms(7)] show ?thesis by simp
  qed
  then have t: "t = s \<or> (\<exists>x. t = (sp_id m, x) # s)" and sid: "sp_id m = ?sid" by blast+
  have "snapshots_kept cwd s t"
    unfolding snapshots_kept_def
  proof (intro allI impI)
    fix sid
    assume old: "\<exists>x. snapshot_verify cwd s sid = Inr x"
    show "\<exists>x. snapshot_verify cwd t sid = Inr x"
    proof (cases "sid = sp_id m")
      case True
      then show ?thesis using stored by blast
    next
      case False
      then have "resolve_snapshot cwd t sid = resolve_snapshot cwd s sid" using t by (auto simp: resolve_snapshot_def)
      then show ?thesis using old by (simp add: snapshot_verify_slot)
    qed
  qed
  with stored sid show ?thesis by (simp add: starts_with_def)
qed

lemma built_environment:
  assumes "wf_manifest parent" "snapshots_ok s" "snapshots_ok (re_cwd env)" "\<forall>t v. re_loads env t = Some v \<longrightarrow> json_wf v"
    and "re_now env \<noteq> []" "re_rootfs env \<noteq> []"
    and "build_repaired_snapshot env s sid pf rf obf parent c r = (Inr (new, app, m), t)"
  shows "wf_manifest m \<and> validate_parent m parent = Inr () \<and> em_rootfs m = new \<and> snapshots_ok t \<and>
    snapshots_kept (re_cwd env) s t \<and> (\<exists>x. snapshot_verify (re_cwd env) t new = Inr x) \<and> starts_with new ''env_''"
proof -
  from assms(7) obtain fs0 where "derive_from_repair (re_loads env) (re_now env) parent new fs0 c r pf (FileText app) obf = Inr m"
    by (rule build_repaired_Inr) blast
  then obtain plan_text plan where pf: "pf = FileText plan_text" and plan: "plan_load (re_loads env) pf = Inr plan"
    by (auto simp: derive_from_repair_def regular_text_def result_simps split: file_view.splits)
  from plan pf obtain v where v: "re_loads env plan_text = Some v" "plan_from_dict v = Inr plan"
    by (auto simp: plan_load_def split: option.splits)
  obtain pm sm fs es reused where fs: "wf_snap fs" "groups_distinct fs" "scan_environment fs = Inr es"
    and capture: "snapshot_capture (re_now env) (re_rootfs env) (re_store env) s (RootTree fs) = (Inr (sm, reused), t)" "new = sp_id sm"
    and derive: "derive_from_repair (re_loads env) (re_now env) parent new (RootTree fs) c r pf (FileText app) obf = Inr m"
    by (rule build_repaired_stages [OF assms(2,3) plan assms(7)])
  have "json_wf v" using assms(4) v(1) by blast
  from derived_manifest_entries [OF assms(1) v(1) this v(2) derive [unfolded pf]]
    captured_store [OF fs assms(2,5,6) capture(1), of "re_cwd env"] capture(2) show ?thesis by auto
qed

lemma child_version:
  assumes "wf_manifest c" "validate_parent c p = Inr ()" "wf_manifest p"
  shows "em_version c = em_version p + 1" "em_sample c = em_sample p"
proof -
  have "em_parent_version c = Some (em_version p)" "em_sample c = em_sample p" using assms(2) by (simp_all add: validate_parent_Inr)
  moreover have "check_lineage c = Inr ()" using assms(1) by (simp add: wf_manifest_def check_manifest_Inr)
  ultimately show "em_version c = em_version p + 1" "em_sample c = em_sample p"
    by (auto simp: check_lineage_Inr split: if_splits)
qed

section \<open>The invariant of a session\<close>

text \<open>The calls of a session are made on one host; only its clock and the paths of the staging directories differ.\<close>

definition session_site :: "session_host \<Rightarrow> snap_store \<Rightarrow> bool" where
  "session_site h0 cwd \<longleftrightarrow> sh_path h0 \<noteq> [] \<and> sh_resolve h0 (sh_path h0) = sh_path h0 \<and>
     sh_resolve h0 (sh_path h0 @ ''/manifests'') = sh_path h0 @ ''/manifests'' \<and>
     (\<forall>t v. sh_loads h0 t = Some v \<longrightarrow> json_wf v) \<and> snapshots_ok cwd"

definition session_caller :: "session_host \<Rightarrow> snap_store \<Rightarrow> session_host \<Rightarrow> repair_env \<Rightarrow> bool" where
  "session_caller h0 cwd h env \<longleftrightarrow> sh_path h = sh_path h0 \<and> sh_resolve h = sh_resolve h0 \<and> sh_loads h = sh_loads h0 \<and>
     sh_between h = id \<and> (\<forall>k. sh_clock h k \<noteq> []) \<and> re_cwd env = cwd \<and> re_now env \<noteq> [] \<and> re_rootfs env \<noteq> []"

definition manifests_ok :: "session_manifest \<Rightarrow> env_store \<Rightarrow> env_manifest list \<Rightarrow> bool" where
  "manifests_ok m s ms \<longleftrightarrow> s = store_of ms \<and> env_history ms \<and> manifest_id (hd ms) = sm_seed_manifest m \<and>
     em_rootfs (hd ms) = sm_seed m \<and> em_sample (hd ms) = sm_sample m \<and> length ms = max 1 (length (sm_iterations m))"

definition attempts_ok :: "attempt_store \<Rightarrow> string list \<Rightarrow> bool" where
  "attempts_ok s ids \<longleftrightarrow> (\<exists>es. s = StoreDir es \<and> map fst es = ids \<and> (\<forall>(aid, e) \<in> set es. is_attempt_id aid \<and> (\<exists>d. e = EntryDir d))) \<and>
     map attempt_number ids = [0..<length ids]"

definition places_ok :: "session_world \<Rightarrow> iteration_record list \<Rightarrow> bool" where
  "places_ok w its \<longleftrightarrow> map ir_directory its = map iteration_directory [0..<length its] \<and>
     (\<forall>k < length its. \<forall>p. ir_observation (its ! k) = Some p \<longrightarrow> p = iteration_path k [''observation.json'']) \<and>
     (\<forall>k \<ge> length its. \<forall>names. list_all plain_component names \<longrightarrow> sw_files w (iteration_path k names) = ArtMissing)"

definition manifest_ok :: "session_host \<Rightarrow> session_manifest \<Rightarrow> bool" where
  "manifest_ok h0 m \<longleftrightarrow> wf_session m \<and> sm_dir m = sh_path h0 \<and> sm_manifests m = sh_path h0 @ ''/manifests'' \<and>
     int (length (sm_iterations m)) \<le> sm_max m \<and> sm_max m \<le> 10000"

definition session_ok :: "session_host \<Rightarrow> snap_store \<Rightarrow> session_world \<Rightarrow> session_manifest \<Rightarrow> env_manifest list \<Rightarrow> bool" where
  "session_ok h0 cwd w m ms \<longleftrightarrow> sw_directory w \<and> \<not> sw_locked w \<and> sw_session w = ArtFile (Some (session_to_dict m)) \<and>
     manifest_ok h0 m \<and> manifests_ok m (sw_manifests w) ms \<and> snapshots_ok (sw_snapshots w) \<and>
     (\<exists>x. snapshot_verify cwd (sw_snapshots w) (sm_seed m) = Inr x) \<and>
     attempts_ok (sw_attempts w) (map ir_attempt (sm_iterations m)) \<and> places_ok w (sm_iterations m) \<and>
     (\<exists>evidence. records_verified h0 cwd w m ms evidence \<and> tail_verified w m evidence)"

lemma places_ok_files:
  assumes "places_ok w its" "k < length its"
  shows "ir_directory (its ! k) = iteration_directory k"
    "record_files (its ! k) \<subseteq> {iteration_path k [''iteration.json''], iteration_path k [''observation.json'']}"
proof -
  have "map ir_directory its ! k = map iteration_directory [0..<length its] ! k" using assms(1) by (simp only: places_ok_def)
  then show dir: "ir_directory (its ! k) = iteration_directory k" using assms(2) by simp
  show "record_files (its ! k) \<subseteq> {iteration_path k [''iteration.json''], iteration_path k [''observation.json'']}"
    using assms by (auto simp: record_files_def dir below_iteration below_iteration_path places_ok_def)
qed

lemma saved_session_loads:
  assumes "manifest_ok h0 m" "session_site h0 cwd" "session_caller h0 cwd h env" "sw_session w = ArtFile (Some (session_to_dict m))"
  shows "controller_load h w = Inr m"
  using assms by (simp add: controller_load_def load_session_def session_roundtrip manifest_ok_def session_site_def session_caller_def guard_def)

lemma attempts_ok_list: "attempts_ok s ids \<Longrightarrow> list_attempt_ids s = Inr ids"
proof -
  assume "attempts_ok s ids"
  then obtain es where s: "s = StoreDir es" "map fst es = ids" "\<forall>(aid, e) \<in> set es. is_attempt_id aid \<and> (\<exists>d. e = EntryDir d)"
      and sorted: "map attempt_number ids = [0..<length ids]" by (auto simp: attempts_ok_def)
  have "emap check_store_entry es = Inr (map fst es)"
    by (rule emap_all) (use s(3) in \<open>auto simp: check_store_entry_def validate_attempt_id_def guard_def\<close>)
  moreover have "sorted (map attempt_number ids)" by (simp only: sorted sorted_upt)
  ultimately show ?thesis by (simp add: list_attempt_ids_def s(1,2) sort_key_id_if_sorted)
qed

lemma records_host: "sh_loads h = sh_loads h0 \<Longrightarrow> records_verified h cwd w m ms evidence = records_verified h0 cwd w m ms evidence"
proof -
  assume loads: "sh_loads h = sh_loads h0"
  have "verify_completed h w r res = Inr ob \<longleftrightarrow> verify_completed h0 w r res = Inr ob" for r res ob
    unfolding verify_completed_Inr bundle_verified_def loads ..
  then show ?thesis by (simp add: records_verified_def record_verified_def)
qed

lemma session_ok_verifies:
  assumes "session_ok h0 cwd w m ms" "session_site h0 cwd" "session_caller h0 cwd h env"
  shows "verify_session h env w = Inr m"
proof -
  have hist: "env_history ms" "sw_manifests w = store_of ms" "length ms = max 1 (length (sm_iterations m))"
    using assms(1) by (simp_all add: session_ok_def manifests_ok_def)
  moreover have "length ms \<le> 10000" using hist(3) assms(1) by (simp add: session_ok_def manifest_ok_def)
  moreover have "ms \<noteq> []" using hist(3) by auto
  ultimately have "verify_env_chain (sw_manifests w) None = Inr ms" using verify_history [of ms] by simp
  then have "chain_verified m (sw_manifests w) ms" using assms(1) by (simp add: session_ok_def manifests_ok_def chain_verified_def)
  moreover have "controller_load h w = Inr m" using saved_session_loads [OF _ assms(2,3)] assms(1) by (simp add: session_ok_def)
  moreover have "list_attempt_ids (sw_attempts w) = Inr (map ir_attempt (sm_iterations m))"
    using assms(1) attempts_ok_list by (simp add: session_ok_def)
  moreover have cwd: "re_cwd env = cwd" using assms(3) by (simp add: session_caller_def)
  moreover obtain evidence where "records_verified h cwd w m ms evidence" "tail_verified w m evidence"
    using assms(1,3) records_host [of h h0] by (auto simp: session_ok_def session_caller_def)
  ultimately show ?thesis using assms(1) unfolding verify_session_Inr cwd session_ok_def by blast
qed

section \<open>The environment of the next iteration\<close>

lemma session_record:
  assumes "session_ok h0 cwd w m ms" "k < length (sm_iterations m)"
  shows "ir_index (sm_iterations m ! k) = int k" "wf_record (sm_iterations m ! k)" "ir_manifest_version (sm_iterations m ! k) = int k"
proof -
  have wf: "wf_session m" using assms(1) by (simp add: session_ok_def manifest_ok_def)
  then have "map ir_index (sm_iterations m) ! k = map int [0..<length (sm_iterations m)] ! k" by (simp only: wf_session_def)
  then show index: "ir_index (sm_iterations m ! k) = int k" using assms(2) by simp
  show "wf_record (sm_iterations m ! k)" using wf assms(2) by (auto simp: wf_session_def list_all_length)
  from assms(1) obtain evidence where "records_verified h0 cwd w m ms evidence" by (auto simp: session_ok_def)
  then obtain res obs where "record_verified h0 cwd w m ms (sm_iterations m ! k) res obs"
    using assms(2) unfolding records_verified_def by (metis (no_types, lifting) case_prodE list_all2_nthD)
  then show "ir_manifest_version (sm_iterations m ! k) = int k" using index by (simp add: record_verified_def)
qed

lemma last_iteration: "sm_iterations m \<noteq> [] \<Longrightarrow> last (sm_iterations m) = sm_iterations m ! (length (sm_iterations m) - 1)"
  by (rule last_conv_nth)

lemma previous_attempt_Inr:
  assumes "previous_attempt w m prev = Inr (old, c, res)"
  shows "ir_state prev = IterationCompleted \<and> env_load (sw_manifests w) (ir_manifest_version prev) = Inr old \<and>
    verify_attempt (sw_attempts w) (ir_attempt prev) True = Inr (c, Some res) \<and> as_outcome res = RepairRequired \<and>
    validate_contract_binding m prev c = Inr () \<and> manifest_id old = ir_manifest_id prev \<and> em_rootfs old = ir_snapshot prev"
proof -
  have *: "(case x of None \<Rightarrow> Inl e | Some y \<Rightarrow> f y) = Inr z \<longleftrightarrow> (\<exists>y. x = Some y \<and> f y = Inr z)" for x e f z
    by (cases x) simp_all
  show ?thesis
    using assms unfolding previous_attempt_def
    by (simp only: ebind_Inr_iff err_map_Inr_iff guard_Inr_iff split_paired_Ex prod.case * sum.inject prod.inject) auto
qed

definition step_fits ::
    "snap_store \<Rightarrow> session_world \<Rightarrow> session_world \<Rightarrow> session_manifest \<Rightarrow> env_manifest list \<Rightarrow> env_manifest list \<Rightarrow> environment_step \<Rightarrow> bool" where
  "step_fits cwd w v m ms later step \<longleftrightarrow> (case step of (parent, snapshot, report, em) \<Rightarrow>
     sw_manifests v = store_of (ms @ later) \<and> env_history (ms @ later) \<and> length (ms @ later) = Suc (length (sm_iterations m)) \<and>
     last (ms @ later) = em \<and> em_rootfs em = snapshot \<and> em_sample em = sm_sample m \<and> em_version em = int (length (sm_iterations m)) \<and>
     snapshots_ok (sw_snapshots v) \<and> snapshots_kept cwd (sw_snapshots w) (sw_snapshots v) \<and>
     (\<exists>x. snapshot_verify cwd (sw_snapshots v) snapshot = Inr x) \<and> starts_with snapshot ''env_'' \<and>
     pred_option (\<lambda>s. starts_with s ''env_'') parent)"

lemma seed_step_fits:
  assumes "session_ok h0 cwd w m ms" "sm_iterations m = []" "seed_environment w m = Inr step"
  shows "step_fits cwd w w m ms [] step"
proof -
  have ms: "manifests_ok m (sw_manifests w) ms" "snapshots_ok (sw_snapshots w)" "\<exists>x. snapshot_verify cwd (sw_snapshots w) (sm_seed m) = Inr x"
      "starts_with (sm_seed m) ''env_''"
    using assms(1) by (simp_all add: session_ok_def manifest_ok_def wf_session_def)
  then obtain e where e: "ms = [e]" using assms(2) by (auto simp: manifests_ok_def length_Suc_conv)
  then have "env_load (sw_manifests w) 0 = Inr e" using ms(1) history_load [of ms 0] by (simp add: manifests_ok_def)
  then have "step = (None, sm_seed m, None, e)" using assms(3) by (auto simp: seed_environment_def result_simps)
  moreover have "em_version e = 0" using ms(1) e history_version [of ms 0] by (simp add: manifests_ok_def)
  ultimately show ?thesis using ms e assms(2) by (auto simp: step_fits_def manifests_ok_def snapshots_kept_def)
qed

lemma repaired_step_fits:
  assumes ok: "session_ok h0 cwd w m ms" and site: "session_site h0 cwd" "session_caller h0 cwd h env"
    and some: "sm_iterations m \<noteq> []"
    and step: "repaired_environment h env w m (last (sm_iterations m)) = (Inr step, v)"
  shows "\<exists>later. step_fits cwd w v m ms later step"
proof -
  let ?n = "length (sm_iterations m)" and ?prev = "last (sm_iterations m)" and ?env = "env\<lparr>re_loads := sh_loads h\<rparr>"
  note prev = session_record [OF ok, of "?n - 1", folded last_iteration [OF some]]
  have n: "?n - 1 < ?n" using some by (cases "sm_iterations m") auto
  have ms: "env_history ms" "sw_manifests w = store_of ms" "length ms = ?n" "em_sample (hd ms) = sm_sample m"
    using ok some n by (auto simp: session_ok_def manifests_ok_def)
  have env: "re_cwd ?env = cwd" "snapshots_ok cwd" "\<forall>t v. re_loads ?env t = Some v \<longrightarrow> json_wf v" "re_now ?env \<noteq> []" "re_rootfs ?env \<noteq> []"
    using site by (auto simp: session_site_def session_caller_def)
  have snaps: "snapshots_ok (sw_snapshots w)" using ok by (simp add: session_ok_def)
  from step obtain old c res snapshot report em s ms' where attempt: "previous_attempt w m ?prev = Inr (old, c, res)"
    and build: "build_repaired_snapshot ?env (sw_snapshots w) (ir_snapshot ?prev) (repair_input w ?prev ''repair_plan.json'')
        (repair_input w ?prev ''runtime_requirements.json'') (observation_input w ?prev) old c res = (Inr (snapshot, report, em), s)"
    and save: "env_save id (sw_manifests w) em = (Inr (), ms')"
    and v: "v = w\<lparr>sw_snapshots := s, sw_manifests := ms'\<rparr>" "step = (Some (ir_snapshot ?prev), snapshot, Some report, em)"
    by (auto simp: repaired_environment_def split: sum.splits prod.splits)
  have "env_load (sw_manifests w) (int (?n - 1)) = Inr old"
    using previous_attempt_Inr [OF attempt] prev(3) [OF n] by simp
  then have old: "old = ms ! (?n - 1)" using history_load [OF ms(1)] ms(2) by (auto split: if_splits)
  moreover have "ms \<noteq> []" using ms(3) some by auto
  ultimately have old': "wf_manifest old" "em_version old = int (?n - 1)" "old = last ms"
    using ms n history_version [OF ms(1)] last_conv_nth [of ms] by (auto simp: env_history_def)
  note built = built_environment [OF old'(1) snaps _ env(3-5) build, unfolded env(1), OF env(2)]
  then have child: "em_version em = int ?n" using child_version(1) [of em old] old' n by auto
  from save have "env_save (\<lambda>s. s) (store_of ms) em = (Inr (), ms')" by (simp add: ms(2) id_def)
  from save_history [OF ms(1) _ this] built child ms(3) have saved: "ms' = store_of (ms @ [em])" "env_history (ms @ [em])" by auto
  have "em_sample em = sm_sample m"
  proof -
    have "em_sample e = sm_sample m" if "e \<in> set ms" for e
    proof -
      from ok obtain evidence where "records_verified h0 cwd w m ms evidence" by (auto simp: session_ok_def)
      moreover from that ms(3) obtain k where k: "k < ?n" "e = ms ! k" by (auto simp: in_set_conv_nth)
      ultimately obtain res obs where "record_verified h0 cwd w m ms (sm_iterations m ! k) res obs"
        unfolding records_verified_def by (metis (no_types, lifting) case_prodE list_all2_nthD)
      then show ?thesis using session_record(3) [OF ok k(1)] k(2) by (simp add: record_verified_def Let_def)
    qed
    moreover have "em_sample em = em_sample old" using built old'(1) child_version(2) [of em old] by blast
    moreover have "old \<in> set ms" unfolding old'(3) using ms(3) some by (intro last_in_set) auto
    ultimately show ?thesis by simp
  qed
  moreover have "starts_with (ir_snapshot ?prev) ''env_''" using prev(2) [OF n] by (simp add: wf_record_def)
  ultimately show ?thesis
    using built saved child ms(3) by (intro exI [of _ "[em]"]) (simp add: step_fits_def v)
qed

lemma next_environment_fits:
  assumes "session_ok h0 cwd w m ms" "session_site h0 cwd" "session_caller h0 cwd h env"
    and "next_environment h env w m (length (sm_iterations m)) = (Inr step, v)"
  shows "\<exists>later. step_fits cwd w v m ms later step"
proof (cases "sm_iterations m = []")
  case True
  with assms(4) have "v = w" "seed_environment w m = Inr step"
    by (auto simp: next_environment_def ebind_Inr_iff guard_Inr_iff split: sum.splits prod.splits if_splits)
  with seed_step_fits [OF assms(1) True] show ?thesis by blast
next
  case False
  with assms(4) have "repaired_environment h env w m (last (sm_iterations m)) = (Inr step, v)"
    by (auto simp: next_environment_def ebind_Inr_iff guard_Inr_iff split: sum.splits prod.splits if_splits)
  from repaired_step_fits [OF assms(1-3) False this] show ?thesis .
qed

section \<open>The next attempt\<close>

lemma attempt_id_made:
  assumes "make_attempt_id (int k) purpose sample mid = Inr aid"
  shows "is_attempt_id aid" "attempt_number aid = k"
proof -
  let ?sha = "canonical_sha256 (JObj [(''attempt_index'', JInt (int k)), (''purpose'', JStr (purpose_value purpose)),
        (''sample_sha256'', JStr sample), (''environment_manifest_id'', JStr mid)])"
  from assms have aid: "aid = ''attempt-'' @ pad3 k @ ''-'' @ take 12 ?sha"
    by (auto simp: make_attempt_id_def result_simps)
  have digits: "list_all ascii_digit (pad3 k)" "3 \<le> length (pad3 k)" "digits_value (pad3 k) = k"
    using show_nat_digits [of k] digits_value_zeros [of "3 - length (show_nat k)" "show_nat k"]
    by (auto simp: pad3_def Let_def digits_value_show_nat list_all_iff) (simp add: ascii_digit_def)
  have "takeWhile ascii_digit (pad3 k @ CHR ''-'' # s) = pad3 k" "dropWhile ascii_digit (pad3 k @ CHR ''-'' # s) = CHR ''-'' # s" for s
    using digits(1) by (simp_all add: list_all_iff takeWhile_append dropWhile_append)
  moreover have "drop 8 aid = pad3 k @ CHR ''-'' # take 12 ?sha" by (simp add: aid)
  moreover have "is_sha256 ?sha" by simp
  then have "length ?sha = 64" "list_all lower_hex ?sha" by (simp_all add: is_sha256_def)
  ultimately show "is_attempt_id aid" "attempt_number aid = k"
    using digits by (auto simp: is_attempt_id_def attempt_number_def aid starts_with_def Let_def list_all_iff dest: in_set_takeD)
qed

lemma verify_attempt_Inr:
  "verify_attempt s aid b = Inr (c, res) \<longleftrightarrow> load_contract s aid = Inr c \<and>
     (case res of None \<Rightarrow> store_artifact s aid ResultSlot = ArtMissing \<and> \<not> b | Some r \<Rightarrow> load_result s aid = Inr r)"
proof -
  have "load_result s aid \<noteq> Inr r" if "store_artifact s aid ResultSlot \<in> {ArtMissing, ArtSymlink}" for r
    using that by (auto simp: load_result_Inr)
  then show ?thesis
    by (cases "store_artifact s aid ResultSlot"; cases res) (auto simp: verify_attempt_def ebind_Inr_iff)
qed

lemma verify_attempt_keeps:
  assumes "verify_attempt s aid b = Inr x" "\<And>sl. store_artifact t aid sl = store_artifact s aid sl"
  shows "verify_attempt t aid b = Inr x"
proof -
  obtain c res where x: "x = (c, res)" by fastforce
  have contract: "load_contract t aid = Inr d \<longleftrightarrow> load_contract s aid = Inr d" for d
    by (simp add: load_contract_Inr assms(2))
  have "load_result t aid = Inr r \<longleftrightarrow> load_result s aid = Inr r" for r
    by (simp add: load_result_Inr assms(2) contract)
  with assms show ?thesis by (simp add: x verify_attempt_Inr contract split: option.splits)
qed

lemma put_entry_new: "k \<notin> fst ` set es \<Longrightarrow> Attempt_Store.put_entry k e es = es @ [(k, e)]"
  by (induction es) auto

lemma put_entry_last: "k \<notin> fst ` set es \<Longrightarrow> Attempt_Store.put_entry k e (es @ [(k, f)]) = es @ [(k, e)]"
  by (induction es) auto

lemma attempts_ok_fresh: "attempts_ok s ids \<Longrightarrow> attempt_number aid = length ids \<Longrightarrow> aid \<notin> set ids"
proof
  assume "attempts_ok s ids" "attempt_number aid = length ids" "aid \<in> set ids"
  then have "length ids \<in> set [0..<length ids]" unfolding attempts_ok_def by (metis image_eqI list.set_map)
  then show False by simp
qed

lemma contract_saved:
  assumes ok: "attempts_ok s ids" and id: "is_attempt_id (ac_id c)" "attempt_number (ac_id c) = length ids" and c: "check_contract c = Inr c"
    and save: "save_contract id s c = (Inr (), t)"
  shows "attempts_ok t (ids @ [ac_id c])" "verify_attempt t (ac_id c) False = Inr (c, None)"
    "aid \<in> set ids \<Longrightarrow> verify_attempt s aid b = Inr x \<Longrightarrow> verify_attempt t aid b = Inr x"
proof -
  from ok obtain es where s: "s = StoreDir es" "map fst es = ids" "\<forall>(aid, e) \<in> set es. is_attempt_id aid \<and> (\<exists>d. e = EntryDir d)"
      "map attempt_number ids = [0..<length ids]" by (auto simp: attempts_ok_def)
  have new: "ac_id c \<notin> fst ` set es" using attempts_ok_fresh [OF ok id(2)] unfolding s(2) [symmetric] set_map .
  then have none: "map_of es (ac_id c) = None" by (simp add: map_of_eq_None_iff)
  let ?d = "\<lparr>ad_contract = ArtFile (Some (contract_to_dict c)), ad_result = ArtMissing\<rparr>"
  have at: "map_of (es @ [(ac_id c, e)]) (ac_id c) = Some e" for e using none by (simp add: map_add_def)
  have t: "t = StoreDir (es @ [(ac_id c, EntryDir ?d)])"
    using save id(1) none new
    by (simp add: save_contract_def save_artifact_def prepare_attempt_directory_def s(1) publish_def put_entry_new put_entry_last at
        del: Attempt_Store.map_of_put_entry map_of_append) (simp add: empty_directory_def)
  show "attempts_ok t (ids @ [ac_id c])"
    using s id by (auto simp: attempts_ok_def t)
  have here: "store_artifact t (ac_id c) ContractSlot = ArtFile (Some (contract_to_dict c))" "store_artifact t (ac_id c) ResultSlot = ArtMissing"
    using none by (simp_all add: store_artifact_def store_directory_def t map_add_def)
  then show "verify_attempt t (ac_id c) False = Inr (c, None)"
    using contract_roundtrip [OF c] id(1) by (simp add: verify_attempt_Inr load_contract_Inr)
  show "verify_attempt t aid b = Inr x" if "aid \<in> set ids" "verify_attempt s aid b = Inr x"
  proof (rule verify_attempt_keeps [OF that(2)])
    fix sl
    have "aid \<noteq> ac_id c" using that(1) new s(2) by auto
    then show "store_artifact t aid sl = store_artifact s aid sl"
      by (simp add: store_artifact_def store_directory_def t s(1) map_add_def split: option.splits)
  qed
qed

end
