(* ===== verification/Session_Preparation.thy ===== *)
theory Session_Preparation
  imports Session_Step
begin

text \<open>
  A call of \<open>prepare_next\<close> that returns keeps the invariant of a session.
\<close>

section \<open>Preparing the next iteration\<close>

lemma contract_made:
  assumes "create_contract now (int k) purpose sample packed mid version goal stage = Inr c"
  shows "check_contract c = Inr c" "is_attempt_id (ac_id c)" "attempt_number (ac_id c) = k" "ac_index c = int k" "ac_sample c = sample"
    "ac_packed c = packed" "ac_manifest_id c = mid" "ac_manifest_version c = version" "ac_goal c = goal"
proof -
  from assms obtain aid where aid: "make_attempt_id (int k) purpose sample mid = Inr aid"
      and c: "check_contract \<lparr>ac_id = aid, ac_index = int k, ac_purpose = purpose, ac_sample = sample, ac_packed = packed,
        ac_manifest_id = mid, ac_manifest_version = version, ac_goal = goal, ac_stage = stage, ac_schema = 1, ac_version = 1, ac_created = now\<rparr> = Inr c"
    unfolding create_contract_def ebind_Inr_iff by blast
  note same = check_contract_id [OF c]
  show "check_contract c = Inr c" using c same by simp
  show "is_attempt_id (ac_id c)" "attempt_number (ac_id c) = k" using attempt_id_made [OF aid] by (simp_all add: same)
  show "ac_index c = int k" "ac_sample c = sample" "ac_packed c = packed" "ac_manifest_id c = mid" "ac_manifest_version c = version"
    "ac_goal c = goal" by (simp_all add: same)
qed

lemma prepare_next_parts:
  assumes "prepare_next h env w = (Inr r, w')"
  obtains m step v c st where "controller_load h w = Inr m" "next_index m = Inr (length (sm_iterations m))"
    "next_environment h env w m (length (sm_iterations m)) = (Inr step, v)"
    "create_contract (sh_clock h 0) (int (length (sm_iterations m))) Discovery (sm_sample m) (sm_packed m)
       (manifest_id (snd (snd (snd step)))) (em_version (snd (snd (snd step)))) (sm_goal m) PreOepDiscovery = Inr c"
    "save_contract (sh_between h) (sw_attempts v) c = (Inr (), st)"
    "start_iteration h m (length (sm_iterations m)) step c (v\<lparr>sw_attempts := st\<rparr>) = (Inr r, w')"
proof -
  from assms obtain m i where m: "controller_load h w = Inr m" "next_index m = Inr i"
    by (auto simp: prepare_next_def with_lock_def ebind_Inr_iff split: if_splits sum.splits)
  then have i: "i = length (sm_iterations m)" by (simp add: next_index_Inr)
  obtain x v where step: "next_environment h env w m i = (x, v)" by fastforce
  from assms m step obtain s where x: "x = Inr s"
    by (auto simp: prepare_next_def with_lock_def split: if_splits sum.splits)
  obtain p sid rep em where s: "s = (p, sid, rep, em)" by (cases s) auto
  from assms m step x s that show thesis unfolding i
    by (auto simp: prepare_next_def with_lock_def split: if_splits sum.splits prod.splits)
qed

lemma start_iteration_world:
  assumes "start_iteration h m n step c w = (Inr r, w')"
  shows "r = prepared_record n step c"
    "sw_session w' = ArtFile (Some (session_to_dict (replace_session (sh_clock h 1) m (sm_iterations m @ [r]) None None)))"
    "sw_files w' (iteration_path n [''iteration.json'']) = ArtFile (Some (record_to_dict r))"
    "p \<notin> {iteration_path n [''iteration.json''], iteration_path n [''repair_application.json'']} \<Longrightarrow> sw_files w' p = sw_files w p"
    "sw_attempts w' = sw_attempts w" "sw_bundles w' = sw_bundles w" "sw_snapshots w' = sw_snapshots w" "sw_manifests w' = sw_manifests w"
    "sw_directory w' = sw_directory w" "sw_locked w' = sw_locked w"
  using assms start_iteration_done [OF assms]
  by (auto simp: start_iteration_def Let_def iteration_files put_file_def save_session_def split: if_splits prod.splits option.splits)

lemma prepared_record_wf:
  assumes "is_attempt_id (ac_id c)" "starts_with snapshot ''env_''" "pred_option (\<lambda>s. starts_with s ''env_'') parent" "0 \<le> em_version em"
  shows "wf_record (prepared_record n (parent, snapshot, report, em) c)"
proof -
  have "starts_with (manifest_id em) ''manifest-v''" by (simp add: manifest_id_def starts_with_def)
  moreover have "starts_with (ac_id c) ''attempt-''" using assms(1) by (simp add: is_attempt_id_def Let_def)
  moreover have "relative_path (''attempts/'' @ ac_id c @ ''/contract.json'')"
    using attempt_file_relative [OF assms(1), of "''contract.json''"] unfolding attempt_files by (simp add: plain_component_def)
  moreover have "optional_path (case report of None \<Rightarrow> None | Some x \<Rightarrow> Some (iteration_directory n @ ''/repair_application.json''))"
    using iteration_path_relative [of "[''repair_application.json'']" n] by (simp add: optional_path_def iteration_files split: option.splits)
  ultimately show ?thesis
    using assms iteration_directory_relative [of n] by (simp add: wf_record_def prepared_record_def optional_path_def)
qed

lemma records_verified_more:
  assumes "records_verified h0 cwd w m ms evidence" "sm_iterations n = sm_iterations m @ [r]"
    and "\<And>q res obs. q \<in> set (sm_iterations m) \<Longrightarrow> record_verified h0 cwd w m ms q res obs \<Longrightarrow> record_verified h0 cwd v n ns q res obs"
    and "record_verified h0 cwd v n ns r res obs"
  shows "records_verified h0 cwd v n ns (evidence @ [(res, obs)])"
proof -
  have "list_all2 (\<lambda>r (res, obs). record_verified h0 cwd v n ns r res obs) (sm_iterations m) evidence"
    using assms(1) unfolding records_verified_def by (rule list.rel_mono_strong) (use assms(3) in auto)
  then show ?thesis using assms(2,4) by (simp add: records_verified_def list_all2_appendI)
qed

lemma next_environment_open:
  assumes "next_environment h env w m i = (res, w')"
  shows "sw_directory w' = sw_directory w" "sw_locked w' = sw_locked w"
  using arg_cong [OF next_environment_keeps [OF assms], of sw_directory] arg_cong [OF next_environment_keeps [OF assms], of sw_locked]
  by simp_all

lemma prepared_step:
  assumes ok: "session_ok h0 cwd w m ms" and site: "session_site h0 cwd" "session_caller h0 cwd h env"
    and step: "prepare_next h env w = (Inr r, w')"
  shows "\<exists>later. session_ok h0 cwd w' (replace_session (sh_clock h 1) m (sm_iterations m @ [r]) None None) (ms @ later)"
proof (rule prepare_next_parts [OF step])
  fix m1 st c v t
  let ?n = "length (sm_iterations m)"
  assume "controller_load h w = Inr m1" "next_index m1 = Inr (length (sm_iterations m1))"
    and "next_environment h env w m1 (length (sm_iterations m1)) = (Inr st, v)"
    and "create_contract (sh_clock h 0) (int (length (sm_iterations m1))) Discovery (sm_sample m1) (sm_packed m1)
       (manifest_id (snd (snd (snd st)))) (em_version (snd (snd (snd st)))) (sm_goal m1) PreOepDiscovery = Inr c"
    and "save_contract (sh_between h) (sw_attempts v) c = (Inr (), t)"
    and "start_iteration h m1 (length (sm_iterations m1)) st c (v\<lparr>sw_attempts := t\<rparr>) = (Inr r, w')"
  moreover have "controller_load h w = Inr m"
    using ok by (intro saved_session_loads [OF _ site]) (simp_all add: session_ok_def)
  ultimately have index: "next_index m = Inr ?n" and environment: "next_environment h env w m ?n = (Inr st, v)"
    and made: "create_contract (sh_clock h 0) (int ?n) Discovery (sm_sample m) (sm_packed m)
       (manifest_id (snd (snd (snd st)))) (em_version (snd (snd (snd st)))) (sm_goal m) PreOepDiscovery = Inr c"
    and save: "save_contract (sh_between h) (sw_attempts v) c = (Inr (), t)"
    and start: "start_iteration h m ?n st c (v\<lparr>sw_attempts := t\<rparr>) = (Inr r, w')" by simp_all
  obtain parent snapshot report em where st: "st = (parent, snapshot, report, em)" by (cases st) auto
  let ?m = "replace_session (sh_clock h 1) m (sm_iterations m @ [r]) None None"
  note c = contract_made [OF made, unfolded st snd_conv]
  note w' = start_iteration_world [OF start, unfolded session_world.simps]
  note v = next_environment_session [OF environment]
  obtain later where fits: "step_fits cwd w v m ms later st" using next_environment_fits [OF ok site environment] by blast
  note fit = fits [unfolded step_fits_def st prod.case]
  have h: "sh_between h = id" "sh_clock h k \<noteq> []" for k using site(2) by (simp_all add: session_caller_def)
  have r: "r = prepared_record ?n st c" by (rule w'(1))
  have ids: "attempts_ok (sw_attempts w) (map ir_attempt (sm_iterations m))" using ok by (simp add: session_ok_def)
  note saved = contract_saved [OF ids c(2) _ c(1) save [unfolded h(1) v(4)], unfolded length_map, OF c(3)]
  have free: "sw_files w (iteration_path k names) = ArtMissing" if "?n \<le> k" "list_all plain_component names" for k names
    using ok that by (simp add: session_ok_def places_ok_def)
  have kept: "files_kept (record_files (sm_iterations m ! k)) w w'" if k: "k < ?n" for k
  proof -
    have "sw_files w' p = sw_files w p" if "p \<in> record_files (sm_iterations m ! k)" for p
      using that k places_ok_files(2) [of w "sm_iterations m" k] ok w'(4) [of p] v(2)
      by (auto simp: session_ok_def iteration_path_inj)
    then show ?thesis using v(3) w'(6) by (simp add: files_kept_def)
  qed
  have wf: "wf_record r"
    using prepared_record_wf [OF c(2), of snapshot parent em ?n report] fit r st by simp
  have m: "manifest_ok h0 ?m"
    using ok wf h(2) index unfolding session_ok_def manifest_ok_def
    by (auto simp: wf_session_def replace_session_def next_index_Inr r)
  have same: "same_subject m ?m" by (simp add: same_subject_def replace_session_def)
  have fields: "ir_index r = int ?n" "ir_state r = IterationPrepared" "ir_directory r = iteration_directory ?n" "ir_attempt r = ac_id c"
      "ir_contract r = ''attempts/'' @ ac_id c @ ''/contract.json''" "ir_manifest_version r = int ?n" "ir_manifest_id r = manifest_id em"
      "ir_snapshot r = snapshot" "ir_stop r = None"
    using fit by (simp_all add: r st prepared_record_def)
  have new: "record_verified h0 cwd w' ?m (ms @ later) r None None"
  proof -
    have "ms @ later \<noteq> []" "length (ms @ later) = Suc ?n" using fit by auto
    then have "(ms @ later) ! nat (int ?n) = em" using fit last_conv_nth [of "ms @ later"] by simp
    moreover have "validate_contract_binding ?m r c = Inr ()"
      using c fit by (simp add: validate_contract_binding_def fields replace_session_def guard_def)
    ultimately show ?thesis
      using fit saved(2) w'(3,5,7) record_roundtrip [OF wf]
      by (auto simp: record_verified_def fields below_iteration Let_def replace_session_def)
  qed
  obtain evidence where old: "records_verified h0 cwd w m ms evidence" using ok by (auto simp: session_ok_def)
  have "records_verified h0 cwd w' ?m (ms @ later) (evidence @ [(None, None)])"
  proof (rule records_verified_more [OF old _ _ new])
    show "sm_iterations ?m = sm_iterations m @ [r]" by (simp add: replace_session_def)
    fix q res obs
    assume q: "q \<in> set (sm_iterations m)" "record_verified h0 cwd w m ms q res obs"
    then obtain k where k: "k < ?n" "q = sm_iterations m ! k" by (auto simp: in_set_conv_nth)
    then have "0 \<le> ir_index q" using session_record(1) [OF ok] by simp
    moreover have "ir_attempt q \<in> set (map ir_attempt (sm_iterations m))" using q(1) by simp
    ultimately show "record_verified h0 cwd w' ?m (ms @ later) q res obs"
      using fit w'(5,7) saved(3) by (intro record_verified_kept [OF q(2) kept [OF k(1), folded k(2)] _ same]) simp_all
  qed
  moreover have "tail_verified w' ?m (evidence @ [(None, None)])"
    using index by (simp add: tail_verified_def tail_stop_reason_def verify_terminal_state_def replace_session_def fields guard_def next_index_Inr)
  moreover have "places_ok w' (sm_iterations m @ [r])"
  proof -
    have "sw_files w' (iteration_path k names) = ArtMissing" if "?n < k" "list_all plain_component names" for k names
      using that free [of k names] w'(4) [of "iteration_path k names"] v(2) by (simp add: iteration_path_inj)
    then show ?thesis using ok by (auto simp: session_ok_def places_ok_def fields nth_append r st prepared_record_def)
  qed
  moreover have "manifests_ok ?m (sw_manifests w') (ms @ later)"
  proof -
    have "hd (ms @ later) = hd ms" using ok by (cases ms) (auto simp: session_ok_def manifests_ok_def)
    then show ?thesis using ok fit w'(8) by (simp add: session_ok_def manifests_ok_def replace_session_def)
  qed
  moreover have "\<exists>x. snapshot_verify cwd (sw_snapshots w') (sm_seed ?m) = Inr x"
    using ok fit w'(7) by (simp add: session_ok_def snapshots_kept_def replace_session_def)
  moreover have "sw_directory w'" "\<not> sw_locked w'" using ok w'(9,10) next_environment_open [OF environment]
    by (simp_all add: session_ok_def)
  moreover have "attempts_ok (sw_attempts w') (map ir_attempt (sm_iterations ?m))" using saved(1) w'(5) by (simp add: replace_session_def fields)
  ultimately show ?thesis
    using m fit w'(2,7) unfolding session_ok_def by (intro exI [of _ later]) (auto simp: replace_session_def)
qed

end
