(* ===== verification/Session_Completion.thy ===== *)
theory Session_Completion
  imports Session_Preparation
begin

text \<open>
  A call of \<open>complete_iteration\<close> that returns keeps the invariant of a session.
\<close>

section \<open>Completing an iteration\<close>

text \<open>The artifact manifest that a completion writes\<close>

definition written_manifest :: "session_host \<Rightarrow> completion \<Rightarrow> json option" where
  "written_manifest h cp =
     (case cp_source cp of
        None \<Rightarrow> None
      | Some source \<Rightarrow> (case copy_artifacts source of Inl e \<Rightarrow> None | Inr t \<Rightarrow> Some (JObj (build_artifact_manifest (sh_clock h 1) t))))"

text \<open>What a completion needs to be verifiable: its manifest is read back, and its reason is not the empty text.\<close>

definition completion_ok :: "session_host \<Rightarrow> completion \<Rightarrow> bool" where
  "completion_ok h cp \<longleftrightarrow> (cp_goal cp \<or> cp_reason cp \<noteq> Some []) \<and> (\<forall>v. written_manifest h cp = Some v \<longrightarrow> sh_loads h (file_text v) = Some v)"

lemma map_of_put_node: "map_of (put_node p n t) p = Some n"
proof (cases "p \<in> fst ` set t")
  case True
  then show ?thesis by (induction t) (auto simp: put_node_def)
next
  case False
  then have "map_of t p = None" by (simp add: map_of_eq_None_iff)
  with False show ?thesis by (simp add: put_node_def map_add_def)
qed

lemma gathered:
  assumes "gather_artifacts h w m r cp = Inr (t, ob, pd)"
  obtains u where "written_manifest h cp = Some (JObj (build_artifact_manifest (sh_clock h 1) u))"
    "t = put_node [''artifact_manifest.json''] (NodeFile (file_text (JObj (build_artifact_manifest (sh_clock h 1) u)))) u"
    "observe_artifacts (sh_loads h) (sh_clock h 0) (tree_view u) (ir_snapshot r) (cp_goal cp) (cp_reason cp) = Inr ob"
    "sw_bundles w (below (ir_directory r) [''artifacts'']) = None"
proof -
  from assms obtain source where source: "cp_source cp = Some source" by (auto simp: gather_artifacts_def split: option.splits)
  with assms obtain u where u: "copy_artifacts source = Inr u" by (auto simp: gather_artifacts_def result_simps)
  then have "written_manifest h cp = Some (JObj (build_artifact_manifest (sh_clock h 1) u))" by (simp add: written_manifest_def source)
  moreover have "t = put_node [''artifact_manifest.json''] (NodeFile (file_text (JObj (build_artifact_manifest (sh_clock h 1) u)))) u"
    "observe_artifacts (sh_loads h) (sh_clock h 0) (tree_view u) (ir_snapshot r) (cp_goal cp) (cp_reason cp) = Inr ob"
    "sw_bundles w (below (ir_directory r) [''artifacts'']) = None"
    using assms by (auto simp: gather_artifacts_def source u result_simps)
  ultimately show thesis by (rule that)
qed

lemma gathered_verifies:
  assumes "gather_artifacts h w m r cp = Inr (t, ob, pd)" "completion_ok h cp" "sh_loads h0 = sh_loads h"
    and "ir_directory q = iteration_directory k" "sw_bundles v (iteration_path k [''artifacts'']) = Some t"
  shows "bundle_verified h0 v q (iteration_path k [''artifacts'', ''artifact_manifest.json''])"
proof (rule gathered [OF assms(1)])
  fix u
  assume v: "written_manifest h cp = Some (JObj (build_artifact_manifest (sh_clock h 1) u))"
    and t: "t = put_node [''artifact_manifest.json''] (NodeFile (file_text (JObj (build_artifact_manifest (sh_clock h 1) u)))) u"
  have loads: "sh_loads h (file_text (JObj (build_artifact_manifest (sh_clock h 1) u))) = Some (JObj (build_artifact_manifest (sh_clock h 1) u))"
    using assms(2) v by (simp add: completion_ok_def)
  have "bundle_text t = bundle_text u" by (simp add: bundle_text_def t put_manifest_files)
  then have verified: "verify_artifact_manifest (Some (JObj (build_artifact_manifest (sh_clock h 1) u))) [] t = Inr ()"
    by (simp add: verify_artifact_manifest_def build_artifact_manifest_def guard_def)
  have "map_of t [''artifact_manifest.json''] = Some (NodeFile (file_text (JObj (build_artifact_manifest (sh_clock h 1) u))))"
    unfolding t by (rule map_of_put_node)
  then show ?thesis
    unfolding bundle_verified_def assms(3,4) below_iteration
    by (intro exI [of _ t]) (simp add: assms(5) below_iteration_path loads [simplified] verified [simplified])
qed

lemma result_saved:
  assumes ok: "attempts_ok s ids" and id: "as_id res \<in> set ids" and c: "load_contract s (as_id res) = Inr c"
    and none: "store_artifact s (as_id res) ResultSlot = ArtMissing" and res: "wf_result res" "ap_reason (as_progress res) \<noteq> Some []"
    and save: "save_result id s res = (Inr (), t)"
  shows "attempts_ok t ids" "verify_attempt t (as_id res) True = Inr (c, Some res)"
    "aid \<noteq> as_id res \<Longrightarrow> verify_attempt s aid b = Inr x \<Longrightarrow> verify_attempt t aid b = Inr x"
proof -
  from ok obtain es where s: "s = StoreDir es" "map fst es = ids" "\<forall>(aid, e) \<in> set es. is_attempt_id aid \<and> (\<exists>d. e = EntryDir d)"
      "map attempt_number ids = [0..<length ids]" by (auto simp: attempts_ok_def)
  from c obtain d where d: "is_attempt_id (as_id res)" "map_of es (as_id res) = Some (EntryDir d)"
    by (auto simp: load_contract_Inr store_artifact_def store_directory_def s(1) split: option.splits store_entry.splits)
  have empty: "ad_result d = ArtMissing" using none d by (simp add: store_artifact_def store_directory_def s(1))
  have link: "validate_result_link c res = Inr ()" using save c by (auto simp: save_result_def split: sum.splits)
  let ?d = "d\<lparr>ad_result := ArtFile (Some (attempt_result_to_dict res))\<rparr>"
  have t: "t = StoreDir (Attempt_Store.put_entry (as_id res) (EntryDir ?d) es)"
    using save d empty by (simp add: save_result_def c [unfolded s(1)] link save_artifact_def prepare_attempt_directory_def s(1) publish_def)
  have keys: "map fst (Attempt_Store.put_entry k e xs) = map fst xs" if "k \<in> fst ` set xs" for k e and xs :: "(string \<times> store_entry) list"
    using that by (induction k e xs rule: Attempt_Store.put_entry.induct) auto
  have entries: "set (Attempt_Store.put_entry k e xs) \<subseteq> insert (k, e) (set xs)" for k e and xs :: "(string \<times> store_entry) list"
    by (induction k e xs rule: Attempt_Store.put_entry.induct) auto
  have key: "as_id res \<in> fst ` set es" using id s(2) by auto
  show "attempts_ok t ids"
    unfolding attempts_ok_def
  proof (intro conjI exI ballI)
    show "t = StoreDir (Attempt_Store.put_entry (as_id res) (EntryDir ?d) es)" by (rule t)
    show "map fst (Attempt_Store.put_entry (as_id res) (EntryDir ?d) es) = ids" using keys [OF key] s(2) by simp
    show "map attempt_number ids = [0..<length ids]" by (rule s(4))
    fix x
    assume "x \<in> set (Attempt_Store.put_entry (as_id res) (EntryDir ?d) es)"
    then have "x = (as_id res, EntryDir ?d) \<or> x \<in> set es" using entries by blast
    then show "case x of (aid, e) \<Rightarrow> is_attempt_id aid \<and> (\<exists>d. e = EntryDir d)" using s(3) d(1) by auto
  qed
  have here: "store_artifact t (as_id res) sl = (case sl of ContractSlot \<Rightarrow> store_artifact s (as_id res) sl
      | ResultSlot \<Rightarrow> ArtFile (Some (attempt_result_to_dict res)))" for sl
    using d by (cases sl) (simp_all add: store_artifact_def store_directory_def t s(1))
  have "load_contract t (as_id res) = Inr c" using c here [of ContractSlot] by (simp add: load_contract_Inr)
  moreover have "load_result t (as_id res) = Inr res"
    using here [of ResultSlot] d(1) link calculation result_roundtrip [OF res] by (simp add: load_result_Inr)
  ultimately show "verify_attempt t (as_id res) True = Inr (c, Some res)" by (simp add: verify_attempt_Inr)
  show "verify_attempt t aid b = Inr x" if "aid \<noteq> as_id res" "verify_attempt s aid b = Inr x"
    by (rule verify_attempt_keeps [OF that(2)]) (use that(1) in \<open>simp add: store_artifact_def store_directory_def t s(1)\<close>)
qed

lemma finish_iteration_world:
  assumes "(Inr r', w') = finish_iteration h m k r pd verdict w"
  shows "r' = completed_record r pd (snd verdict)"
    "sw_session w' = ArtFile (Some (session_to_dict (replace_session (sh_clock h 3) m ((sm_iterations m)[k := r']) (Some (fst verdict))
       (map_option stop_reason_value (snd verdict)))))"
    "sw_files w' = (sw_files w)(below (ir_directory r) [''iteration.json''] := ArtFile (Some (record_to_dict r')))"
    "sw_attempts w' = sw_attempts w" "sw_bundles w' = sw_bundles w" "sw_snapshots w' = sw_snapshots w" "sw_manifests w' = sw_manifests w"
    "sw_directory w' = sw_directory w" "sw_locked w' = sw_locked w"
  using assms by (simp_all add: finish_iteration_def Let_def put_file_def save_session_def)

lemma examine_completion_parts:
  assumes "examine_completion h w cp = Inr (m, r, c, t, ob, pd)"
  shows "controller_load h w = Inr m" "latest_prepared m (cp_index cp) = Inr r" "load_contract (sw_attempts w) (ir_attempt r) = Inr c"
    "validate_contract_binding m r c = Inr ()" "gather_artifacts h w m r cp = Inr (t, ob, pd)"
  using assms by (auto simp: examine_completion_def ebind_Inr_iff err_map_Inr_iff)

lemma completed_record_wf:
  assumes "wf_record r" "ir_directory r = iteration_directory k" "is_attempt_id (ir_attempt r)"
  shows "wf_record (completed_record r pd stop)"
proof -
  have "stop_reason_value x \<noteq> []" for x by (cases x) simp_all
  then have "map_option stop_reason_value stop \<noteq> Some []" by (cases stop) simp_all
  moreover have "optional_path (Some (''attempts/'' @ ir_attempt r @ ''/result.json''))"
    using attempt_file_relative [OF assms(3), of "''result.json''"] unfolding attempt_files
    by (simp add: optional_path_def plain_component_def)
  moreover have "optional_path (Some (below (ir_directory r) [''observation.json'']))"
    "optional_path (Some (below (ir_directory r) [''artifacts'', ''artifact_manifest.json'']))"
    using iteration_path_relative [of "[''observation.json'']" k] iteration_path_relative [of "[''artifacts'', ''artifact_manifest.json'']" k]
    by (simp_all add: optional_path_def assms(2) below_iteration)
  ultimately show ?thesis using assms(1) by (simp add: wf_record_def completed_record_def)
qed

lemma prior_observations_same:
  "(\<And>q op. q \<in> set rs \<Longrightarrow> ir_observation q = Some op \<Longrightarrow> sw_files v (below op []) = sw_files w (below op [])) \<Longrightarrow>
    prior_observations v rs = prior_observations w rs"
  unfolding prior_observations_def by (rule emap_cong) (auto simp: map_filter_set read_observation_def)

lemma completed_step:
  assumes ok: "session_ok h0 cwd w m ms" and site: "session_site h0 cwd" "session_caller h0 cwd h env"
    and call: "completion_ok h cp" and step: "complete_iteration h w cp = (Inr r', w')"
  shows "\<exists>state stop. session_ok h0 cwd w' (replace_session (sh_clock h 3) m (butlast (sm_iterations m) @ [r']) (Some state) stop) ms"
proof (rule complete_iteration_parts [OF step])
  fix m1 r c t ob pd stop res st
  assume ex: "examine_completion h w cp = Inr (m1, r, c, t, ob, pd)"
    and stop: "decide_stop_reason (store_evidence r t ob w) m1 (nat (cp_index cp)) ob = Inr stop"
    and build: "build_attempt_result h c ob (tree_file t ''repair_plan.json'') (cp_exit cp) (cp_timed_out cp) = Inr res"
    and save: "save_result (sh_between h) (sw_attempts w) res = (Inr (), st)"
    and fin: "(Inr r', w') = finish_iteration h m1 (nat (cp_index cp)) r pd (resolve_transition (as_outcome res) stop)
       ((store_evidence r t ob w)\<lparr>sw_attempts := st\<rparr>)"
  note parts = examine_completion_parts [OF ex]
  have h: "sh_between h = id" "sh_clock h i \<noteq> []" "sh_loads h0 = sh_loads h" for i using site(2) by (simp_all add: session_caller_def)
  have "controller_load h w = Inr m" using ok by (intro saved_session_loads [OF _ site]) (simp_all add: session_ok_def)
  then have m1: "m1 = m" using parts(1) by simp
  have prepared: "latest_prepared m (cp_index cp) = Inr r" using parts(2) m1 by simp
  then obtain qs where qs: "sm_iterations m = qs @ [r]" "butlast (sm_iterations m) = qs"
    by (cases "sm_iterations m" rule: rev_cases) (auto simp: latest_prepared_Inr)
  with prepared have r: "cp_index cp = int (length qs)" "ir_state r = IterationPrepared" "sm_state m = SessionActive"
    by (auto simp: latest_prepared_Inr)
  let ?n = "length qs"
  have nth: "sm_iterations m ! ?n = r" "?n < length (sm_iterations m)" by (simp_all add: qs)
  have index: "nat (cp_index cp) = ?n" using r(1) by simp
  note rec = session_record [OF ok nth(2), unfolded nth(1)]
  have places: "places_ok w (sm_iterations m)" using ok by (simp add: session_ok_def)
  note dir = places_ok_files(1) [OF places nth(2), unfolded nth(1)]
  let ?v = "resolve_transition (as_outcome res) stop"
  let ?m = "replace_session (sh_clock h 3) m (qs @ [r']) (Some (fst ?v)) (map_option stop_reason_value (snd ?v))"
  note w' = finish_iteration_world [OF fin, unfolded m1 index session_world.simps store_evidence_fields dir below_iteration]
  have r': "r' = completed_record r pd (snd ?v)" by (rule w'(1))
  have files: "sw_files w' = (sw_files w)(iteration_path ?n [''observation.json''] := ArtFile (Some (observation_to_dict ob)),
      iteration_path ?n [''iteration.json''] := ArtFile (Some (record_to_dict r')))"
    using w'(3) by (simp add: store_evidence_def put_file_def dir below_iteration)
  have bundles: "sw_bundles w' = (sw_bundles w)(iteration_path ?n [''artifacts''] \<mapsto> t)"
    using w'(5) by (simp add: store_evidence_def put_file_def dir below_iteration)
  have fresh: "sw_bundles w (iteration_path ?n [''artifacts'']) = None"
    by (rule gathered [OF parts(5)]) (simp add: dir below_iteration)
  have other: "sw_snapshots w' = sw_snapshots w" "sw_manifests w' = sw_manifests w" "sw_directory w'" "\<not> sw_locked w'" "sw_attempts w' = st"
    using ok w'(4,6-9) by (simp_all add: session_ok_def store_evidence_def put_file_def)
  have kept: "files_kept (record_files (qs ! i)) w w'" if i: "i < ?n" for i
  proof -
    have "i < length (sm_iterations m)" "sm_iterations m ! i = qs ! i" using i by (simp_all add: qs nth_append)
    then have "record_files (qs ! i) \<subseteq> {iteration_path i [''iteration.json''], iteration_path i [''observation.json'']}"
      using places_ok_files(2) [OF places, of i] by simp
    then show ?thesis using i fresh by (auto simp: files_kept_def files bundles iteration_path_inj)
  qed
  obtain evidence where old: "records_verified h0 cwd w m ms evidence" using ok by (auto simp: session_ok_def)
  then obtain ev res0 obs0 where ev: "evidence = ev @ [(res0, obs0)]" "list_all2 (\<lambda>r (res, obs). record_verified h0 cwd w m ms r res obs) qs ev"
      "record_verified h0 cwd w m ms r res0 obs0"
    by (auto simp: records_verified_def qs list_all2_append1 list_all2_Cons1)
  have aid: "ac_id c = ir_attempt r" using parts(4) by (auto simp: validate_contract_binding_def result_simps)
  obtain code fp progress where result: "check_exit_code (cp_exit cp) = Inr code" "check_result res = Inr res"
      "progress = \<lparr>ap_goal = io_goal ob, ap_reason = io_reason ob, ap_events = pm_guest_total (io_metrics ob), ap_coverage = None,
        ap_observation = Some (sha256_hex (file_text (observation_to_dict ob)))\<rparr>"
      "check_progress progress = Inr progress"
      "res = \<lparr>as_id = ac_id c, as_contract = contract_sha256 c, as_outcome = fst (classify_outcome ob code (cp_timed_out cp)),
        as_initial = ac_stage c, as_final = ac_stage c, as_progress = progress, as_transitions = [], as_fingerprint = fp,
        as_started = ac_created c, as_finished = sh_clock h 2, as_schema = 1, as_version = 1\<rparr>"
    by (rule build_attempt_result_Inr [OF build])
  have fields: "as_id res = ir_attempt r" "as_progress res = progress" "as_transitions res = []" by (simp_all add: result(5) aid)
  have wf: "wf_result res" using result(2,4) by (simp add: wf_result_def fields)
  obtain u where observed: "observe_artifacts (sh_loads h) (sh_clock h 0) (tree_view u) (ir_snapshot r) (cp_goal cp) (cp_reason cp) = Inr ob"
    by (rule gathered [OF parts(5)])
  have reason: "ap_reason (as_progress res) \<noteq> Some []"
    using call observe_fields(2) [OF observed] by (auto simp: fields(2) result(3) completion_ok_def)
  have ids: "attempts_ok (sw_attempts w) (map ir_attempt (sm_iterations m))" using ok by (simp add: session_ok_def)
  have mine: "as_id res \<in> set (map ir_attempt (sm_iterations m))" by (simp add: fields qs)
  have none: "store_artifact (sw_attempts w) (as_id res) ResultSlot = ArtMissing"
    using ev(3) r(2) by (auto simp: record_verified_def verify_attempt_Inr fields)
  note saved = result_saved [OF ids mine _ none wf reason save [unfolded h(1)], unfolded fields, OF parts(3)]
  have attempt: "is_attempt_id (ir_attempt r)" using parts(3) by (simp add: load_contract_Inr)
  have rec': "wf_record r'" using completed_record_wf [OF rec(2) dir attempt] r' by simp
  have new: "ir_index r' = int ?n" "ir_state r' = IterationCompleted" "ir_directory r' = iteration_directory ?n" "ir_attempt r' = ir_attempt r"
      "ir_contract r' = ir_contract r" "ir_manifest_version r' = ir_manifest_version r" "ir_manifest_id r' = ir_manifest_id r"
      "ir_snapshot r' = ir_snapshot r" "ir_observation r' = Some (iteration_path ?n [''observation.json''])"
      "ir_artifacts r' = Some (iteration_path ?n [''artifacts'', ''artifact_manifest.json''])"
      "ir_result r' = Some (''attempts/'' @ ir_attempt r @ ''/result.json'')" "ir_stop r' = map_option stop_reason_value (snd ?v)"
    using rec(1) by (simp_all add: r' completed_record_def dir below_iteration)
  have "stop_reason_value x \<noteq> []" for x by (cases x) simp_all
  then have "map_option stop_reason_value x \<noteq> Some []" for x by (cases x) simp_all
  then have m: "manifest_ok h0 ?m"
    using ok rec' h(2) new(1) site(1) by (simp add: session_ok_def manifest_ok_def wf_session_def replace_session_def qs session_site_def)
  have same: "same_subject m ?m" by (simp add: same_subject_def replace_session_def)
  have "observation_from_dict (observation_to_dict ob) = Inr ob" using observe_wf [OF observed h(2)] by (rule observation_roundtrip)
  then have "observation_verified w' (iteration_path ?n [''observation.json'']) res ob"
    by (simp add: observation_verified_def files below_iteration_path iteration_path_inj fields(2) result(3))
  moreover have "bundle_verified h0 w' r' (iteration_path ?n [''artifacts'', ''artifact_manifest.json''])"
    using gathered_verifies [OF parts(5) call h(3) new(3)] bundles by simp
  ultimately have completed: "verify_completed h0 w' r' (Some res) = Inr ob" by (simp add: verify_completed_Inr new)
  have rec_new: "record_verified h0 cwd w' ?m ms r' (Some res) (Some ob)"
  proof -
    have "validate_contract_binding ?m r' c = Inr ()"
      using parts(4) new by (simp add: validate_contract_binding_def replace_session_def m1 rec(1))
    then show ?thesis
      using ev(3) completed saved(2) record_roundtrip [OF rec']
      by (auto simp: record_verified_def new other files below_iteration Let_def replace_session_def rec(1))
  qed
  have rec_old: "list_all2 (\<lambda>r (res, obs). record_verified h0 cwd w' ?m ms r res obs) qs ev"
  proof (rule list.rel_mono_strong [OF ev(2)])
    fix q e
    assume q: "q \<in> set qs" "case e of (res, obs) \<Rightarrow> record_verified h0 cwd w m ms q res obs"
    then obtain i where i: "i < ?n" "q = qs ! i" by (auto simp: in_set_conv_nth)
    have at: "i < length (sm_iterations m)" "sm_iterations m ! i = q" using i by (simp_all add: qs nth_append)
    have "0 \<le> ir_index q" using session_record(1) [OF ok at(1)] at(2) by simp
    moreover have "ir_attempt q \<noteq> ir_attempt r"
    proof
      assume *: "ir_attempt q = ir_attempt r"
      have "map attempt_number (map ir_attempt (sm_iterations m)) = [0..<length (sm_iterations m)]"
        using ids by (simp add: attempts_ok_def)
      then have "attempt_number (ir_attempt (sm_iterations m ! j)) = j" if "j < length (sm_iterations m)" for j
        using that by (metis (no_types, lifting) add.left_neutral diff_zero length_map nth_map nth_upt)
      from this [OF at(1)] this [OF nth(2)] show False using i(1) * at(2) nth(1) by simp
    qed
    ultimately show "case e of (res, obs) \<Rightarrow> record_verified h0 cwd w' ?m ms q res obs"
      using q(2) record_verified_kept [of h0 cwd w m ms q _ _ w' ?m h0 "[]", OF _ kept [OF i(1), folded i(2)] _ same]
        saved(3) other by (auto simp: snapshots_kept_def)
  qed
  have records: "records_verified h0 cwd w' ?m ms (ev @ [(Some res, Some ob)])"
    using rec_old rec_new by (simp add: records_verified_def replace_session_def list_all2_appendI)
  have "tail_verified w' ?m (ev @ [(Some res, Some ob)])"
  proof -
    have "prior_observations w' qs = prior_observations (store_evidence r t ob w) qs"
    proof (rule prior_observations_same)
      fix q op
      assume q: "q \<in> set qs" "ir_observation q = Some op"
      then obtain i where i: "i < ?n" "q = qs ! i" by (auto simp: in_set_conv_nth)
      then have "op = iteration_path i [''observation.json'']"
        using places q(2) unfolding places_ok_def qs by (metis length_append_singleton less_Suc_eq nth_append)
      then show "sw_files w' (below op []) = sw_files (store_evidence r t ob w) (below op [])"
        using i(1) by (simp add: below_iteration_path files store_evidence_def put_file_def dir below_iteration iteration_path_inj)
    qed
    then have "decide_stop_reason w' ?m ?n ob = Inr stop"
      using stop unfolding m1 index by (cases "io_goal ob") (simp_all add: decide_stop_reason_def replace_session_def qs)
    then have "tail_stop_reason w' ?m (map snd (ev @ [(Some res, Some ob)])) = Inr stop"
      by (simp add: tail_stop_reason_def replace_session_def new)
    moreover have "verify_terminal_state ?m (map fst (ev @ [(Some res, Some ob)])) stop = Inr ()"
      by (simp add: verify_terminal_state_def replace_session_def new Let_def guard_def split: prod.splits)
    ultimately show ?thesis by (auto simp: tail_verified_def)
  qed
  moreover have "places_ok w' (qs @ [r'])"
    using places by (auto simp: places_ok_def qs new files iteration_path_inj nth_append less_Suc_eq split: if_splits)
  moreover have "manifests_ok ?m (sw_manifests w') ms" "snapshots_ok (sw_snapshots w')"
      "\<exists>x. snapshot_verify cwd (sw_snapshots w') (sm_seed ?m) = Inr x"
    using ok by (simp_all add: session_ok_def manifests_ok_def replace_session_def qs other)
  moreover have "attempts_ok (sw_attempts w') (map ir_attempt (sm_iterations ?m))"
    using saved(1) by (simp add: other replace_session_def qs new)
  moreover have "sw_session w' = ArtFile (Some (session_to_dict ?m))" using w'(2) by (simp add: qs)
  ultimately have "session_ok h0 cwd w' ?m ms"
    using m records other(3,4) unfolding session_ok_def by (auto simp: replace_session_def)
  then show ?thesis using qs by auto
qed

end
