(* ===== verification/Session_History.thy ===== *)
theory Session_History
  imports Session_Completion
begin

text \<open>
  A session is started in a state that has the invariant, and every history of calls keeps it.
\<close>

section \<open>Starting a session\<close>

definition request_ok :: "session_request \<Rightarrow> bool" where
  "request_ok q \<longleftrightarrow> starts_with (sq_id q) ''session_'' \<and> sq_store q \<noteq> [] \<and> sq_source q \<noteq> [] \<and> sq_max q \<le> 10000 \<and>
     (case sq_seed q of RootTree fs \<Rightarrow> wf_snap fs \<and> groups_distinct fs | _ \<Rightarrow> True)"

lemma seed_made:
  assumes "create_seed_manifest now sample rootfs = Inr seed"
  shows "wf_manifest seed" "em_version seed = 0" "em_rootfs seed = rootfs" "em_sample seed = sample"
    "starts_with (manifest_id seed) ''manifest-v0000-''"
proof -
  note same = check_manifest_id [OF assms [unfolded create_seed_manifest_def]]
  show fields: "em_version seed = 0" "em_rootfs seed = rootfs" "em_sample seed = sample" by (simp_all add: same)
  have "check_manifest seed = Inr seed" using assms unfolding create_seed_manifest_def same [symmetric] .
  then show "wf_manifest seed" by (simp add: wf_manifest_def) (simp add: same)
  show "starts_with (manifest_id seed) ''manifest-v0000-''" by (simp add: manifest_id_def fields pad4_zero starts_with_def)
qed

lemma capture_source:
  assumes "snapshot_capture now source dir s seed = (Inr (m, reused), t)"
  obtains fs es where "seed = RootTree fs" "scan_environment fs = Inr es"
proof -
  from assms obtain fs where fs: "seed = RootTree fs"
    by (auto simp: snapshot_capture_def validate_snap_rootfs_def result_simps split: rootfs_slot.splits)
  with assms that show thesis
    by (cases "scan_environment fs") (auto simp: snapshot_capture_def validate_snap_rootfs_def)
qed

lemma initialized_step:
  assumes site: "session_site h0 cwd" "session_caller h0 cwd h env" and q: "request_ok q" and snaps: "snapshots_ok (sw_snapshots w)"
    and run: "initialize_session h q w = (Inr m, w')"
  shows "\<exists>seed. session_ok h0 cwd w' m [seed]"
proof -
  have h: "sh_path h = sh_path h0" "\<And>i. sh_clock h i \<noteq> []" using site(2) by (simp_all add: session_caller_def)
  from run have check: "check_request q = Inr ()" "\<not> sw_directory w"
    by (auto simp: initialize_session_def ebind_Inr_iff guard_Inr_iff split: sum.splits)
  from run obtain snapshot reused s where capture: "snapshot_capture (sh_clock h 0) (sq_source q) (sq_store q) (sw_snapshots w) (sq_seed q) =
      (Inr (snapshot, reused), s)"
    by (auto simp: initialize_session_def split: sum.splits prod.splits)
  with run check obtain seed where seed: "create_seed_manifest (sh_clock h 0) (sq_sample q) (sp_id snapshot) = Inr seed"
    by (cases "create_seed_manifest (sh_clock h 0) (sq_sample q) (sp_id snapshot)") (auto simp: initialize_session_def guard_def)
  obtain out ms where out: "env_save id EnvNoStore seed = (out, ms)" by fastforce
  with run check capture seed have save: "env_save id EnvNoStore seed = (Inr (), ms)" and m: "m = new_session h q snapshot seed"
      and w': "w' = \<lparr>sw_directory = True, sw_locked = False, sw_session = ArtFile (Some (session_to_dict m)),
        sw_attempts = StoreDir [], sw_files = (\<lambda>_. ArtMissing), sw_bundles = (\<lambda>_. None), sw_snapshots = s, sw_manifests = ms\<rparr>"
    by (cases out; simp add: initialize_session_def Let_def guard_def)+
  obtain fs es where fs: "sq_seed q = RootTree fs" "scan_environment fs = Inr es" by (rule capture_source [OF capture])
  have tree: "wf_snap fs" "groups_distinct fs" "sq_source q \<noteq> []" using q fs(1) by (simp_all add: request_ok_def)
  note stored = captured_store [OF tree(1,2) fs(2) snaps h(2) tree(3) capture [unfolded fs(1)], of cwd]
  note seed' = seed_made [OF seed]
  have "env_save (\<lambda>s. s) (store_of []) seed = (Inr (), ms)" using save by (simp add: env_save_created id_def)
  from save_history [OF history_Nil seed'(1) this] have hist: "ms = store_of [seed]" "env_history [seed]" by auto
  have wf: "wf_session m"
    using check(1) q stored seed'(5) h(2) site(1)
    by (auto simp: wf_session_def m new_session_def request_ok_def check_request_def result_simps session_site_def h(1))
  have budget: "sm_max m = sq_max q" "sm_iterations m = []" "sm_state m = SessionActive" "sm_stop m = None" by (simp_all add: m new_session_def)
  have "session_ok h0 cwd w' m [seed]"
    unfolding session_ok_def
  proof (intro conjI exI [of _ "[]"])
    show "manifest_ok h0 m" using wf q by (simp add: manifest_ok_def budget request_ok_def wf_session_def) (simp add: m new_session_def h(1))
    show "manifests_ok m (sw_manifests w') [seed]"
      using hist seed' by (simp add: manifests_ok_def w') (simp add: m new_session_def)
    show "\<exists>x. snapshot_verify cwd (sw_snapshots w') (sm_seed m) = Inr x" using stored by (auto simp: w' m new_session_def)
    show "records_verified h0 cwd w' m [seed] []" by (simp add: records_verified_def budget)
    show "tail_verified w' m []" by (simp add: tail_verified_def tail_stop_reason_def verify_terminal_state_def budget guard_def)
    show "attempts_ok (sw_attempts w') (map ir_attempt (sm_iterations m))" by (simp add: attempts_ok_def w' budget)
  qed (use stored in \<open>simp_all add: w' places_ok_def budget\<close>)
  then show ?thesis ..
qed

section \<open>The claim of a run\<close>

text \<open>The process that runs an iteration writes its claim into the directory of the iteration.\<close>

definition claim_file :: "nat \<Rightarrow> string" where
  "claim_file k = iteration_path k [''execution_attempt.json'']"

lemma claimed_step:
  assumes ok: "session_ok h0 cwd w m ms" and k: "sw_files w (iteration_path k [''iteration.json'']) \<noteq> ArtMissing"
  shows "session_ok h0 cwd (put_file (claim_file k) v w) m ms"
proof -
  let ?w = "put_file (claim_file k) v w"
  have places: "places_ok w (sm_iterations m)" using ok by (simp add: session_ok_def)
  have fields: "sw_snapshots ?w = sw_snapshots w" "sw_manifests ?w = sw_manifests w" "sw_attempts ?w = sw_attempts w"
      "sw_session ?w = sw_session w" "sw_directory ?w = sw_directory w" "sw_locked ?w = sw_locked w" "sw_bundles ?w = sw_bundles w"
      "sw_files ?w = (sw_files w)(claim_file k := ArtFile (Some v))" by (simp_all add: put_file_def)
  have index: "k < length (sm_iterations m)"
  proof (rule ccontr)
    assume "\<not> k < length (sm_iterations m)"
    then show False using places k by (simp add: places_ok_def)
  qed
  have same: "sw_files ?w p = sw_files w p" if "p \<in> record_files (sm_iterations m ! i)" "i < length (sm_iterations m)" for p i
    using that places_ok_files(2) [OF places that(2)] by (auto simp: put_file_def claim_file_def iteration_path_inj)
  obtain evidence where evidence: "records_verified h0 cwd w m ms evidence" "tail_verified w m evidence" using ok by (auto simp: session_ok_def)
  have "records_verified h0 cwd ?w m ms evidence"
    unfolding records_verified_def
  proof (rule list.rel_mono_strong [OF evidence(1) [unfolded records_verified_def]])
    fix r e
    assume r: "r \<in> set (sm_iterations m)" "case e of (res, obs) \<Rightarrow> record_verified h0 cwd w m ms r res obs"
    then obtain i where i: "i < length (sm_iterations m)" "r = sm_iterations m ! i" by (auto simp: in_set_conv_nth)
    have "files_kept (record_files r) w ?w" using same i by (simp add: files_kept_def fields)
    moreover have "0 \<le> ir_index r" using session_record(1) [OF ok i(1)] i(2) by simp
    ultimately show "case e of (res, obs) \<Rightarrow> record_verified h0 cwd ?w m ms r res obs"
      using r(2) record_verified_kept [of h0 cwd w m ms r _ _ ?w m h0 "[]"]
      by (auto simp: fields snapshots_kept_def same_subject_def)
  qed
  moreover have "tail_verified ?w m evidence"
  proof -
    have "prior_observations ?w (take j (sm_iterations m)) = prior_observations w (take j (sm_iterations m))" for j
    proof (rule prior_observations_same)
      fix q op
      assume "q \<in> set (take j (sm_iterations m))" "ir_observation q = Some op"
      then obtain i where "i < length (sm_iterations m)" "q = sm_iterations m ! i" "below op [] \<in> record_files q"
        by (auto simp: in_set_conv_nth record_files_def dest!: in_set_takeD)
      then show "sw_files ?w (below op []) = sw_files w (below op [])" using same by simp
    qed
    then have "decide_stop_reason ?w m j ob = decide_stop_reason w m j ob" for j ob unfolding decide_stop_reason_def by simp
    then have "tail_stop_reason ?w m obs = tail_stop_reason w m obs" for obs
      by (cases "last obs") (simp_all add: tail_stop_reason_def)
    then show ?thesis using evidence(2) by (simp add: tail_verified_def)
  qed
  moreover have "places_ok ?w (sm_iterations m)"
    using places index by (auto simp: places_ok_def put_file_def claim_file_def iteration_path_inj)
  ultimately show ?thesis using ok unfolding session_ok_def fields by blast
qed

section \<open>Sessions\<close>

text \<open>
  The states of a session directory after \<open>initialize\<close> and calls that returned, on one host: \<open>h0\<close> gives its
  paths and \<open>json.loads\<close>, \<open>cwd\<close> the snapshots in its working directory.
\<close>

inductive session_history :: "session_host \<Rightarrow> snap_store \<Rightarrow> session_world \<Rightarrow> bool" for h0 cwd where
  initialized: "session_caller h0 cwd h env \<Longrightarrow> request_ok q \<Longrightarrow> snapshots_ok (sw_snapshots w) \<Longrightarrow>
    initialize_session h q w = (Inr m, v) \<Longrightarrow> session_history h0 cwd v"
| prepared: "session_history h0 cwd w \<Longrightarrow> session_caller h0 cwd h env \<Longrightarrow> prepare_next h env w = (Inr r, v) \<Longrightarrow>
    session_history h0 cwd v"
| completed: "session_history h0 cwd w \<Longrightarrow> session_caller h0 cwd h env \<Longrightarrow> completion_ok h cp \<Longrightarrow>
    complete_iteration h w cp = (Inr r, v) \<Longrightarrow> session_history h0 cwd v"
| claimed: "session_history h0 cwd w \<Longrightarrow> sw_files w (iteration_path k [''iteration.json'']) \<noteq> ArtMissing \<Longrightarrow>
    session_history h0 cwd (put_file (claim_file k) claim w)"

lemma session_history_ok:
  assumes "session_history h0 cwd w" "session_site h0 cwd"
  shows "\<exists>m ms. session_ok h0 cwd w m ms"
  using assms(1)
proof induction
  case (initialized h env q w m v)
  then show ?case using initialized_step [OF assms(2)] by blast
next
  case (prepared w h env r v)
  then show ?case using prepared_step [OF _ assms(2)] by blast
next
  case (completed w h env cp r v)
  then show ?case using completed_step [OF _ assms(2)] by blast
next
  case (claimed w k claim)
  then show ?case using claimed_step by blast
qed

end
