(* ===== verification/Session_Cycle.thy ===== *)
theory Session_Cycle
  imports Session_History
begin

text \<open>
  The first iteration of a session can be prepared; an example session runs through one cycle.
\<close>

section \<open>The first iteration\<close>

lemma goal_identifier: "is_goal_id s \<Longrightarrow> is_identifier s"
  by (cases s) (auto simp: is_goal_id_def is_identifier_def)

lemma sha_identifier_chars: "is_sha256 s \<Longrightarrow> list_all identifier_char (take n s)"
  by (auto simp: is_sha256_def list_all_iff lower_hex_def identifier_char_def ascii_lower_def dest!: in_set_takeD)

lemma seed_identifier: "em_version em = 0 \<Longrightarrow> is_identifier (manifest_id em)"
  using sha_identifier_chars [of "manifest_sha256 em" 16]
  by (simp add: manifest_id_def pad4_zero is_identifier_def manifest_sha256_def identifier_char_def ascii_upper_def ascii_lower_def ascii_digit_def)

lemma made_identifier: "is_attempt_id aid \<Longrightarrow> length aid \<le> 128 \<Longrightarrow> is_identifier aid"
proof -
  assume id: "is_attempt_id aid" "length aid \<le> 128"
  let ?r = "drop 8 aid"
  let ?h = "dropWhile ascii_digit ?r"
  from id have "take 8 aid = ''attempt-''" by (simp only: is_attempt_id_def Let_def starts_with_def) (simp add: eval_nat_numeral)
  then have aid: "aid = ''attempt-'' @ ?r" using append_take_drop_id [of 8 aid] by simp
  have "list_all identifier_char (takeWhile ascii_digit ?r)"
    by (auto simp: list_all_iff identifier_char_def dest: set_takeWhileD)
  moreover have "list_all identifier_char ?h"
    using id(1) by (cases ?h) (auto simp: is_attempt_id_def Let_def starts_with_def list_all_iff lower_hex_def identifier_char_def ascii_lower_def)
  ultimately have "list_all identifier_char ?r" by (metis list_all_append takeWhile_dropWhile_id)
  moreover have "length (''attempt-'' @ ?r) \<le> 128" using id(2) aid by metis
  ultimately have "is_identifier (''attempt-'' @ ?r)"
    by (simp add: is_identifier_def ascii_lower_def identifier_char_def)
  then show ?thesis using aid by metis
qed

lemma first_contract:
  assumes "iso_instant now \<noteq> None" "is_sha256 sample" "is_sha256 packed" "is_identifier mid" "is_identifier goal"
  shows "\<exists>c. create_contract now 0 Discovery sample packed mid 0 goal PreOepDiscovery = Inr c"
proof -
  have "\<exists>aid. make_attempt_id 0 Discovery sample mid = Inr aid \<and> length aid \<le> 128"
    using assms(2,4) by (simp add: make_attempt_id_def check_sha256_def guard_def) (simp add: pad3_def show_nat.simps)
  then obtain aid where aid: "make_attempt_id 0 Discovery sample mid = Inr aid" "length aid \<le> 128" by blast
  with made_identifier attempt_id_made(1) [of 0] have "is_identifier aid" by simp
  then show ?thesis using assms by (auto simp: create_contract_def aid(1) check_contract_Inr)
qed

lemma first_prepared:
  assumes ok: "session_ok h0 cwd w m ms" and site: "session_site h0 cwd" "session_caller h0 cwd h env"
    and first: "sm_iterations m = []" and now: "iso_instant (sh_clock h 0) \<noteq> None"
  shows "\<exists>r v. prepare_next h env w = (Inr r, v)"
proof -
  have wf: "wf_session m" "sm_max m \<le> 10000" using ok by (simp_all add: session_ok_def manifest_ok_def)
  have load: "controller_load h w = Inr m" using ok by (intro saved_session_loads [OF _ site]) (simp_all add: session_ok_def)
  obtain evidence where "tail_verified w m evidence" using ok by (auto simp: session_ok_def)
  then have "sm_state m = SessionActive" using first by (auto simp: tail_verified_def verify_terminal_state_def guard_Inr_iff)
  then have index: "next_index m = Inr 0" using wf(1) first by (simp add: next_index_Inr wf_session_def)
  have ms: "manifests_ok m (sw_manifests w) ms" using ok by (simp add: session_ok_def)
  then obtain em where em: "ms = [em]" using first by (auto simp: manifests_ok_def length_Suc_conv)
  have version: "em_version em = 0" using ms em history_version [of ms 0] by (simp add: manifests_ok_def)
  have "env_load (sw_manifests w) 0 = Inr em" using ms em history_load [of ms 0] by (simp add: manifests_ok_def)
  then have seed: "next_environment h env w m 0 = (Inr (None, sm_seed m, None, em), w)"
    using ms em by (simp add: next_environment_def seed_environment_def manifests_ok_def guard_def)
  obtain c where c: "create_contract (sh_clock h 0) 0 Discovery (sm_sample m) (sm_packed m) (manifest_id em) 0 (sm_goal m) PreOepDiscovery = Inr c"
    using first_contract [OF now, of "sm_sample m" "sm_packed m" "manifest_id em" "sm_goal m"] wf(1) seed_identifier [OF version] goal_identifier
    by (auto simp: wf_session_def)
  have "is_attempt_id (ac_id c)" using contract_made(2) [of _ 0] c by simp
  moreover have "sw_attempts w = StoreDir []" using ok first by (simp add: session_ok_def attempts_ok_def)
  ultimately obtain st where save: "save_contract id (sw_attempts w) c = (Inr (), st)"
    by (simp add: save_contract_def save_artifact_def prepare_attempt_directory_def publish_def)
  have clone: "\<exists>x. snapshot_clone cwd (sw_snapshots w) (sm_seed m) True = Inr x"
  proof -
    obtain x fs where slot: "verify_slot (resolve_snapshot cwd (sw_snapshots w) (sm_seed m)) = Inr (x, fs)"
      using ok by (auto simp: session_ok_def snapshot_verify_slot)
    have "snapshots_ok (sw_snapshots w)" "snapshots_ok cwd" using ok site(1) by (simp_all add: session_ok_def session_site_def)
    from verified_clone [OF slot resolved_slot_ok [OF this slot]] show ?thesis by blast
  qed
  have "sw_files w (iteration_path 0 [''iteration.json'']) = ArtMissing" using ok first by (simp add: session_ok_def places_ok_def)
  then have start: "\<exists>r v. start_iteration h m 0 step c (w\<lparr>sw_attempts := st\<rparr>) = (Inr r, v)" for step
    by (simp add: start_iteration_def iteration_files Let_def)
  have "sw_directory w" "\<not> sw_locked w" "sh_between h = id" "re_cwd env = cwd"
    using ok site(2) by (simp_all add: session_ok_def session_caller_def)
  then show ?thesis
    using clone start [of "(None, sm_seed m, None, em)"]
    by (auto simp: prepare_next_def with_lock_def load index seed c version save)
qed

section \<open>An example session\<close>

text \<open>
  A session on the example root filesystem: it is initialized, its first iteration is prepared, and completed
  with the artifacts of the example.
\<close>

definition ex_request :: session_request where
  "ex_request = \<lparr>sq_id = ''session_0'', sq_store = ''/p'', sq_source = ''/r'', sq_seed = RootTree example_rootfs,
     sq_sample = example_sha, sq_packed = example_sha, sq_goal = ''e1'', sq_max = 3\<rparr>"

definition ex_nothing :: session_world where
  "ex_nothing = \<lparr>sw_directory = False, sw_locked = False, sw_session = ArtMissing, sw_attempts = StoreMissing, sw_files = (\<lambda>_. ArtMissing),
     sw_bundles = (\<lambda>_. None), sw_snapshots = [], sw_manifests = EnvNoStore\<rparr>"

lemma ex_site: "session_site ex_host []"
proof -
  have "json_wf (plan_to_dict ex_plan)" "json_wf (JObj ex_manifest)"
    by (simp_all add: plan_to_dict_def ex_plan_def plan_summary_def counts_json_wf ex_manifest_def build_artifact_manifest_def
        list_all_iff file_entry_def Let_def)
  then show ?thesis by (auto simp: session_site_def ex_host_def snapshots_ok_def split: if_splits)
qed

lemma ex_caller: "session_caller ex_host [] ex_host (step_env JNull [])"
proof -
  have "example_time \<noteq> []" by code_simp
  then show ?thesis by (simp add: session_caller_def ex_host_def step_env_def)
qed

lemma initialize_returns:
  assumes "check_request q = Inr ()" "\<not> sw_directory w"
    and "snapshot_capture (sh_clock h 0) (sq_source q) (sq_store q) (sw_snapshots w) (sq_seed q) = (Inr (snapshot, reused), s)"
    and "is_env_identifier (sp_id snapshot)" "iso_instant (sh_clock h 0) \<noteq> None"
  shows "\<exists>v. initialize_session h q w = (Inr (new_session h q snapshot
    \<lparr>em_sample = sq_sample q, em_version = 0, em_rootfs = sp_id snapshot, em_entries = [], em_attempt = ''preflight'',
      em_reason = ''Captured the immutable sparse seed environment before the first packed execution attempt.'',
      em_parent_version = None, em_parent_id = None, em_schema = 2, em_model = 1, em_generated = sh_clock h 0\<rparr>), v) \<and>
    sw_bundles v = (\<lambda>_. None)"
proof -
  let ?seed = "\<lparr>em_sample = sq_sample q, em_version = 0, em_rootfs = sp_id snapshot, em_entries = [], em_attempt = ''preflight'',
      em_reason = ''Captured the immutable sparse seed environment before the first packed execution attempt.'',
      em_parent_version = None, em_parent_id = None, em_schema = 2, em_model = 1, em_generated = sh_clock h 0\<rparr>"
  have "is_sha256 (sq_sample q)" using assms(1) by (auto simp: check_request_def result_simps)
  moreover have "py_strip (em_reason ?seed) \<noteq> []" by (rule py_strip_keeps [of "CHR ''C''"]) (simp_all add: py_space_def)
  moreover have "is_env_identifier ''preflight''"
    by (simp add: is_env_identifier_def env_identifier_char_def ascii_upper_def ascii_lower_def ascii_digit_def)
  ultimately have "create_seed_manifest (sh_clock h 0) (sq_sample q) (sp_id snapshot) = Inr ?seed"
    using assms(4,5) unfolding create_seed_manifest_def check_manifest_Inr check_lineage_Inr by simp
  moreover have "\<exists>ms. env_save id EnvNoStore ?seed = (Inr (), ms)"
    by (simp add: env_save_def rename_over_def)
  ultimately show ?thesis using assms(1-3) by (auto simp: initialize_session_def guard_def Let_def)
qed

lemma ex_initialized:
  "\<exists>m v. initialize_session ex_host ex_request ex_nothing = (Inr m, v) \<and> sm_iterations m = [] \<and> sw_bundles v = (\<lambda>_. None)"
proof -
  have time: "sh_clock ex_host k = example_time" "example_time \<noteq> []" for k by (simp add: ex_host_def) code_simp
  have "\<exists>es. scan_environment example_rootfs = Inr es" by (simp add: scan_environment_def example_rootfs_def)
  then obtain es where scan: "scan_environment example_rootfs = Inr es" by blast
  from capture_new [OF example_rootfs_ok scan, of "[]" example_time "''/r''" "''/p''"] time(2) obtain x t
    where x: "snapshot_capture example_time ''/r'' ''/p'' [] (RootTree example_rootfs) = (Inr (x, False), t)"
      "sp_id x = ''env_'' @ take 16 (tree_digest es)" by auto
  have "is_goal_id ''e1''" by code_simp
  then have "check_request ex_request = Inr ()" by (simp add: check_request_def ex_request_def guard_def)
  moreover have "is_env_identifier (sp_id x)" using snapshot_identifier [of "tree_digest es"] x(2) by simp
  ultimately obtain seed v where "initialize_session ex_host ex_request ex_nothing = (Inr (new_session ex_host ex_request x seed), v)"
      "sw_bundles v = (\<lambda>_. None)"
    using initialize_returns [of ex_request ex_nothing ex_host x False t] x(1) example_time_instant
    by (auto simp: time ex_request_def ex_nothing_def)
  moreover have "sm_iterations (new_session ex_host ex_request x seed) = []" by (simp add: new_session_def)
  ultimately show ?thesis by blast
qed

lemma ex_request_ok: "request_ok ex_request" "snapshots_ok (sw_snapshots ex_nothing)"
  using example_rootfs_ok by (simp_all add: request_ok_def ex_request_def starts_with_def ex_nothing_def snapshots_ok_def)

lemma ex_gathers:
  assumes "sw_bundles w (below (ir_directory r) [''artifacts'']) = None"
  shows "\<exists>ob. gather_artifacts ex_host w m r (ex_completion ex) = Inr (ex_stored, ob, compare_observations None ob) \<and>
    io_goal ob = False \<and> io_reason ob = None \<and> io_metrics ob = build_metrics [] [] [] []"
proof -
  obtain e where e: "collect_evidence (sh_loads ex_host) (tree_view ex_tree) = Inr e" "make_observation example_time ''env_0'' False None e = ex_observation"
    using ex_observes by (auto simp: observe_artifacts_def ebind_Inr_iff)
  let ?ob = "make_observation example_time (ir_snapshot r) False None e"
  have "observe_artifacts (sh_loads ex_host) example_time (tree_view ex_tree) (ir_snapshot r) False None = Inr ?ob"
    by (simp add: observe_artifacts_def e(1))
  moreover have "io_metrics ?ob = io_metrics (make_observation example_time ''env_0'' False None e)"
    by (simp add: make_observation_def Let_def split: prod.splits)
  then have "io_metrics ?ob = build_metrics [] [] [] []" by (simp add: e(2) ex_observation_fields)
  moreover have "io_goal ?ob = False" "io_reason ?ob = None" by (simp_all add: make_observation_def Let_def split: prod.splits)
  moreover have "copy_artifacts ex_tree = Inr ex_tree" by code_simp
  moreover have "tree_file ex_tree ''repair_plan.json'' = FileText ''P''" "map_of ex_tree [''artifact_manifest.json''] = None" by code_simp+
  moreover have "sh_clock ex_host k = example_time" for k by (simp add: ex_host_def)
  ultimately show ?thesis
    using assms by (simp add: gather_artifacts_def ex_completion_def ex_plan_loads previous_observation_def ex_stored_def ex_manifest_def)
qed

lemma exited_result:
  assumes "check_contract c = Inr c" "ac_created c = example_time" "io_goal ob = False" "io_reason ob = None" "io_metrics ob = build_metrics [] [] [] []"
  shows "\<exists>res. build_attempt_result ex_host c ob pf (JInt 0) False = Inr res \<and> as_id res = ac_id c \<and> validate_result_link c res = Inr ()"
proof -
  let ?res = "\<lparr>as_id = ac_id c, as_contract = contract_sha256 c, as_outcome = Exited, as_initial = ac_stage c, as_final = ac_stage c,
      as_progress = \<lparr>ap_goal = False, ap_reason = None, ap_events = 0, ap_coverage = None,
        ap_observation = Some (sha256_hex (file_text (observation_to_dict ob)))\<rparr>,
      as_transitions = [], as_fingerprint = None, as_started = example_time, as_finished = example_time, as_schema = 1, as_version = 1\<rparr>"
  have "check_result ?res = Inr ?res"
    using example_time_instant assms(1) by (auto simp: check_result_Inr check_contract_Inr contract_sha256_def failure_outcomes_def)
  moreover have "classify_outcome ob (Some 0) False = (Exited, None)" by (simp add: classify_outcome_def assms(3,5) ex_metrics)
  moreover have "check_progress (as_progress ?res) = Inr (as_progress ?res)" by (simp add: check_progress_Inr)
  moreover have "sh_clock ex_host k = example_time" for k by (simp add: ex_host_def)
  ultimately have "build_attempt_result ex_host c ob pf (JInt 0) False = Inr ?res"
    by (simp add: build_attempt_result_def check_exit_code_def assms(2-5) ex_metrics)
  then show ?thesis by (intro exI [of _ ?res]) (simp add: validate_result_link_Inr)
qed

lemma first_completed:
  assumes ok: "session_ok ex_host [] w m ms" and one: "sm_iterations m = [r]" "ir_state r = IterationPrepared"
    and free: "sw_bundles w = (\<lambda>_. None)" "sw_files w (claim_file 0) = ArtMissing"
    and c: "load_contract (sw_attempts w) (ir_attempt r) = Inr c" "ac_created c = example_time"
  shows "\<exists>r' v. complete_iteration ex_host w (ex_completion (JInt 0)) = (Inr r', v)"
proof -
  have load: "controller_load ex_host w = Inr m"
    using ok by (intro saved_session_loads [OF _ ex_site ex_caller]) (simp_all add: session_ok_def)
  obtain evidence where evidence: "records_verified ex_host [] w m ms evidence" "tail_verified w m evidence" using ok by (auto simp: session_ok_def)
  then obtain res obs where rec: "record_verified ex_host [] w m ms r res obs" by (auto simp: records_verified_def one list_all2_Cons1)
  then have attempt: "validate_contract_binding m r c = Inr ()" "store_artifact (sw_attempts w) (ir_attempt r) ResultSlot = ArtMissing"
    using c(1) one(2) by (auto simp: record_verified_def verify_attempt_Inr)
  have active: "sm_state m = SessionActive"
    using evidence(2) by (auto simp: tail_verified_def verify_terminal_state_def one guard_Inr_iff split: if_splits)
  have dir: "ir_directory r = iteration_directory 0" using ok by (simp add: session_ok_def places_ok_def one)
  have prepared: "latest_prepared m (cp_index (ex_completion ex)) = Inr r" for ex
    by (simp add: latest_prepared_Inr ex_completion_def one active)
  obtain ob where ob: "gather_artifacts ex_host w m r (ex_completion (JInt 0)) = Inr (ex_stored, ob, compare_observations None ob)"
      "io_goal ob = False" "io_reason ob = None" "io_metrics ob = build_metrics [] [] [] []"
    using ex_gathers [of w r m "JInt 0"] free(1) by auto
  have examined: "examine_completion ex_host w (ex_completion (JInt 0)) = Inr (m, r, c, ex_stored, ob, compare_observations None ob)"
    using free(2) by (simp add: examine_completion_def load prepared c(1) attempt(1) dir below_iteration claim_file_def validate_execution_claim_def ob(1))
  obtain result where result: "build_attempt_result ex_host c ob (tree_file ex_stored ''repair_plan.json'') (JInt 0) False = Inr result"
      "as_id result = ac_id c" "validate_result_link c result = Inr ()"
    using exited_result [OF contract_accepts c(2) ob(2-4)] c(1) by (auto simp: load_contract_Inr)
  have id: "as_id result = ir_attempt r" using attempt(1) result(2) by (auto simp: validate_contract_binding_def result_simps)
  obtain st where st: "save_result id (sw_attempts w) result = (Inr (), st)"
    using save_missing_result [of "sw_attempts w" result c] c(1) result(3) attempt(2) id by auto
  have decide: "decide_stop_reason v m 0 ob = Inr (Some StopNoRepairs)" for v
    by (simp add: decide_stop_reason_def ob prior_observations_def List.map_filter_simps stop_for_def ex_metrics)
  have "sw_directory w" "\<not> sw_locked w" "sh_between ex_host = id" "cp_index (ex_completion ex) = 0" "cp_exit (ex_completion ex) = ex"
      "\<not> cp_timed_out (ex_completion ex)" for ex
    using ok by (simp_all add: session_ok_def ex_host_def ex_completion_def)
  then show ?thesis by (simp add: complete_iteration_def with_lock_def examined decide result(1) st Let_def finish_iteration_def)
qed

end
