(* ===== verification/Repair_Retry.thy ===== *)
theory Repair_Retry
  imports Session_Cycle
begin

text \<open>
  A repair whose manifest was saved and whose iteration was not prepared, and what the next calls do.
\<close>

section \<open>A repair that was saved and not prepared\<close>

lemma report_time:
  assumes "ao_result (apply_to_candidate env pf rf fs) = Inr rep"
  shows "ar_generated_at rep = re_now env"
  using assms
  by (auto simp: apply_to_candidate_def apply_file_def run_transaction_def fail_transaction_def Let_def
      split: sum.splits prod.splits option.splits if_splits)

text \<open>The text of a report: its identifier and its time come after a constant head.\<close>

definition report_head :: string where
  "report_head = ''{'' @ line_start 1 @ quote_text ''schema_version'' @ '': '' @ dump_json (JInt 1) @
     '','' @ line_start 1 @ quote_text ''applier_version'' @ '': '' @ dump_json (JInt 1) @
     '','' @ line_start 1 @ quote_text ''application_id'' @ '': ''"

definition report_middle :: string where
  "report_middle = '','' @ line_start 1 @ quote_text ''generated_at_utc'' @ '': ''"

lemma report_text:
  "\<exists>tail. application_text env r = report_head @ quote_text (ar_id r) @ report_middle @ quote_text (ar_generated_at r) @ tail"
proof -
  obtain rest where fields: "application_fields (re_texts env) r = [(''schema_version'', JInt 1), (''applier_version'', JInt 1),
      (''application_id'', JStr (ar_id r)), (''generated_at_utc'', JStr (ar_generated_at r))] @ rest"
    by (simp add: application_fields_def)
  show ?thesis
    unfolding application_text_def application_to_dict_def file_text_def fields
    by (simp add: join_with_Cons report_head_def report_middle_def del: quote_text_def)
qed

text \<open>The texts of two reports that were made at different times are different.\<close>

lemma report_text_time:
  assumes "application_text env a = application_text env' b"
  shows "ar_generated_at a = ar_generated_at b"
proof -
  obtain s where s: "application_text env a = report_head @ quote_text (ar_id a) @ report_middle @ quote_text (ar_generated_at a) @ s"
    using report_text by blast
  obtain t where t: "application_text env' b = report_head @ quote_text (ar_id b) @ report_middle @ quote_text (ar_generated_at b) @ t"
    using report_text by blast
  have "quote_with escape_char (ar_id a) @ (report_middle @ quote_text (ar_generated_at a) @ s) =
      quote_with escape_char (ar_id b) @ (report_middle @ quote_text (ar_generated_at b) @ t)"
    using assms by (simp only: s t same_append_eq quote_text_with)
  from writer.quote_with_cancel [OF this] have "quote_with escape_char (ar_generated_at a) @ s = quote_with escape_char (ar_generated_at b) @ t"
    by (simp only: same_append_eq quote_text_with)
  from writer.quote_with_cancel [OF this] show ?thesis ..
qed

lemma derive_results_count:
  "derive_results fs c ds obs app es n seen items = Inr (es', n', seen') \<Longrightarrow> n < n' \<Longrightarrow> \<exists>d \<in> set ds. rd_automatic d"
proof (induction items arbitrary: es n seen)
  case (Cons item items)
  from Cons.prems(1) obtain d selected where item: "check_result_item ds seen item = Inr (d, selected)" by (auto simp: result_simps)
  show ?case
  proof (cases selected)
    case True
    with check_result_item_Inr [OF item] show ?thesis by blast
  next
    case False
    with Cons.prems(1) item have "derive_results fs c ds obs app es n (rd_id d # seen) items = Inr (es', n', seen')" by simp
    from Cons.IH [OF this Cons.prems(2)] show ?thesis .
  qed
qed simp

text \<open>What a step that returned has recorded: for some decision of the plan an entry with the evidence of its report\<close>

lemma built_evidence:
  assumes "wf_manifest parent" "\<forall>t v. pf = FileText t \<longrightarrow> re_loads env t = Some v \<longrightarrow> json_wf v" "plan_load (re_loads env) pf = Inr plan"
    and "build_repaired_snapshot env s sid pf rf obf parent c r = (Inr (new, app, m), t)"
  shows "(\<exists>d \<in> set (rp_decisions plan). rd_automatic d) \<and> (\<forall>d \<in> set (rp_decisions plan). rd_automatic d \<longrightarrow>
    (\<exists>f \<in> set (em_entries m). en_resource f = ''fs:'' @ rd_resource d \<and> repair_evidence c (rd_id d) (sha256_hex app) \<in> set (en_evidence f)))"
proof -
  from assms(4) obtain fs where derive: "derive_from_repair (re_loads env) (re_now env) parent new (RootTree fs) c r pf (FileText app) obf = Inr m"
    by (rule build_repaired_Inr)
  then obtain plan_text where pf: "pf = FileText plan_text" by (auto simp: derive_from_repair_def regular_text_def result_simps split: file_view.splits)
  from assms(3) pf obtain v where v: "re_loads env plan_text = Some v" "plan_from_dict v = Inr plan"
    by (auto simp: plan_load_def split: option.splits)
  have "json_wf v" using assms(2) v(1) pf by blast
  note recorded = derived_manifest_entries [OF assms(1) v(1) this v(2) derive [unfolded pf]]
  from derive obtain obs items es n seen where
      "derive_results fs c (rp_decisions plan) obs (sha256_hex app) (em_entries parent) 0 [] items = Inr (es, n, seen)" "0 < n"
    by (auto simp: derive_from_repair_def regular_directory_def regular_text_def assms(3) [unfolded pf] pf result_simps Let_def)
  from derive_results_count [OF this] recorded show ?thesis unfolding repair_recorded_def directory_recorded_def by blast
qed

lemma undated_entries: "undated m = undated n \<Longrightarrow> em_entries m = em_entries n"
  by (metis env_manifest.select_convs(4) env_manifest.surjective env_manifest.update_convs(11) undated_def)

lemma same_evidence:
  assumes "wf_manifest m" "em_entries n = em_entries m" "wf_manifest n"
    and "f \<in> set (em_entries m)" "g \<in> set (em_entries n)" "en_resource f = en_resource g"
    and "x \<in> set (en_evidence f)" "y \<in> set (en_evidence g)" "me_id x = me_id y"
  shows "x = y"
proof -
  have "distinct (map en_resource (em_entries m))" using wf_manifest_entries [OF assms(1)] by blast
  then have "f = g" using assms(2,4-6) by (metis distinct_map inj_onD)
  moreover have "wf_entry f" using assms(1,4) by (simp add: wf_manifest_def)
  then have "distinct (map me_id (en_evidence f))" by (rule wf_entry_ids)
  ultimately show ?thesis using assms(7-9) by (metis distinct_map inj_onD)
qed

lemma built_valid:
  assumes "wf_manifest parent" "\<forall>t v. pf = FileText t \<longrightarrow> re_loads env t = Some v \<longrightarrow> json_wf v" "plan_load (re_loads env) pf = Inr plan"
    and "build_repaired_snapshot env s sid pf rf obf parent c r = (Inr (new, app, m), t)"
  shows "wf_manifest m" "em_version m = em_version parent + 1" "\<exists>rep. app = application_text env rep \<and> ar_generated_at rep = re_now env"
proof -
  from assms(4) obtain fs rep candidate where derive: "derive_from_repair (re_loads env) (re_now env) parent new (RootTree fs) c r pf (FileText app) obf = Inr m"
    and rep: "app = application_text env rep" "ao_result (apply_to_candidate env pf rf candidate) = Inr rep"
    by (rule build_repaired_Inr)
  then obtain plan_text where pf: "pf = FileText plan_text" by (auto simp: derive_from_repair_def regular_text_def result_simps split: file_view.splits)
  from assms(3) pf obtain v where v: "re_loads env plan_text = Some v" "plan_from_dict v = Inr plan"
    by (auto simp: plan_load_def split: option.splits)
  have "json_wf v" using assms(2) v(1) pf by blast
  note recorded = derived_manifest_entries [OF assms(1) v(1) this v(2) derive [unfolded pf]]
  then show "wf_manifest m" "em_version m = em_version parent + 1" using child_version(1) assms(1) by blast+
  show "\<exists>rep. app = application_text env rep \<and> ar_generated_at rep = re_now env" using rep report_time by blast
qed

text \<open>The manifest of a repair and the manifest of its repetition: one version, and two identifiers\<close>

lemma repeated_manifest:
  assumes "wf_manifest old" "wf_manifest old2" "manifest_id old2 = manifest_id old" "ac_id c2 = ac_id c"
    and loads: "\<forall>t v. pf = FileText t \<longrightarrow> re_loads env t = Some v \<longrightarrow> json_wf v" "re_loads env2 = re_loads env" and now: "re_now env2 \<noteq> re_now env"
    and plan: "plan_load (re_loads env) pf = Inr plan"
    and first: "build_repaired_snapshot env s sid pf rf obf old c r = (Inr (new, a, m), t)"
    and again: "build_repaired_snapshot env2 s2 sid2 pf rf2 obf2 old2 c2 r2 = (Inr (new2, b, m2), t2)"
  shows "em_version m2 = em_version m" "manifest_id m2 = manifest_id m \<Longrightarrow> sha256_collision a b \<or>
    short_collision (canonical_json (JObj (manifest_identity m))) (canonical_json (JObj (manifest_identity m2)))"
proof -
  have loads2: "\<forall>t v. pf = FileText t \<longrightarrow> re_loads env2 t = Some v \<longrightarrow> json_wf v" "plan_load (re_loads env2) pf = Inr plan" using loads plan by simp_all
  note one = built_valid [OF assms(1) loads(1) plan first] and two = built_valid [OF assms(2) loads2 again]
  have "0 \<le> em_version old" "0 \<le> em_version old2" using assms(1,2) wf_manifest_version by blast+
  then have "em_version old2 = em_version old" using manifest_id_eq(1) [OF assms(3)] by simp
  then show "em_version m2 = em_version m" using one(2) two(2) by simp
  assume id: "manifest_id m2 = manifest_id m"
  note evidence = built_evidence [OF assms(1) loads(1) plan first] built_evidence [OF assms(2) loads2 again]
  then obtain d where auto: "d \<in> set (rp_decisions plan)" "rd_automatic d" by blast
  with evidence obtain f g where d: "f \<in> set (em_entries m)" "en_resource f = ''fs:'' @ rd_resource d"
      "repair_evidence c (rd_id d) (sha256_hex a) \<in> set (en_evidence f)"
      "g \<in> set (em_entries m2)" "en_resource g = ''fs:'' @ rd_resource d"
      "repair_evidence c2 (rd_id d) (sha256_hex b) \<in> set (en_evidence g)" by blast
  show "sha256_collision a b \<or> short_collision (canonical_json (JObj (manifest_identity m))) (canonical_json (JObj (manifest_identity m2)))"
  proof (cases "undated m = undated m2")
    case True
    have "repair_evidence c (rd_id d) (sha256_hex a) = repair_evidence c2 (rd_id d) (sha256_hex b)"
      by (rule same_evidence [OF one(1) _ two(1) d(1,4) _ d(3,6)])
        (simp_all add: undated_entries [OF True] d(2,5) repair_evidence_def assms(4))
    then have "sha256_hex a = sha256_hex b" by (simp add: repair_evidence_def)
    moreover have "a \<noteq> b" using one(3) two(3) now report_text_time by metis
    ultimately show ?thesis by (simp add: sha256_collision_def)
  next
    case False
    then show ?thesis using manifest_id_eq(2) [OF id [symmetric]] by blast
  qed
qed

lemma saved_version:
  assumes "env_save id s m = (Inr (), t)" "wf_manifest m"
  shows "\<exists>fs v old. t = EnvDir fs \<and> map_of fs (em_version m) = Some (EnvFile v) \<and> decode_manifest v = Inr old \<and> manifest_id old = manifest_id m"
proof -
  have "decode_manifest (Some (manifest_to_dict m)) = Inr m" using manifest_roundtrip [OF assms(2)] by (simp add: decode_manifest_def)
  then show ?thesis
    using assms(1)
    by (auto simp: env_save_def rename_over_def map_of_put_version Let_def split: env_store.splits option.splits manifest_file.splits sum.splits if_splits)
qed

lemma save_version_again:
  assumes "map_of fs (em_version m) = Some (EnvFile v)" "decode_manifest v = Inr old" "0 \<le> em_version m"
  shows "env_save id (EnvDir fs) m = (if manifest_id old \<noteq> manifest_id m then Inl (EnvImmutable (em_version m)) else Inr (), EnvDir fs)"
  using assms by (simp add: env_save_def)

lemma previous_attempt_ids:
  assumes "previous_attempt w m prev = Inr (old, c, res)"
  shows "wf_manifest old" "manifest_id old = ir_manifest_id prev" "ac_id c = ir_attempt prev"
proof -
  note parts = previous_attempt_Inr [OF assms]
  then show "manifest_id old = ir_manifest_id prev" by blast
  from parts obtain v where "decode_manifest v = Inr old"
    by (auto simp: env_load_def result_simps split: env_store.splits option.splits manifest_file.splits)
  then show "wf_manifest old" by (rule decode_manifest_wf)
  show "ac_id c = ir_attempt prev" using parts by (auto simp: validate_contract_binding_def result_simps)
qed

lemma repaired_parts:
  assumes "next_environment h env w m i = (Inr (parent, sid, Some a, em), v)"
  obtains old c res s where "i \<noteq> 0" "previous_attempt w m (last (sm_iterations m)) = Inr (old, c, res)"
    "build_repaired_snapshot (env\<lparr>re_loads := sh_loads h\<rparr>) (sw_snapshots w) (ir_snapshot (last (sm_iterations m)))
       (repair_input w (last (sm_iterations m)) ''repair_plan.json'') (repair_input w (last (sm_iterations m)) ''runtime_requirements.json'')
       (observation_input w (last (sm_iterations m))) old c res = (Inr (sid, a, em), s)"
    "env_save id (sw_manifests w) em = (Inr (), sw_manifests v)"
proof -
  have "i \<noteq> 0"
  proof
    assume "i = 0"
    with assms show False by (auto simp: next_environment_def seed_environment_def result_simps split: sum.splits prod.splits)
  qed
  with assms that show thesis
    by (auto simp: next_environment_def repaired_environment_def result_simps split: sum.splits prod.splits)
qed

lemma prepare_next_late:
  assumes "prepare_next h env w = (Inl e, w')" "controller_load h w = Inr m" "next_index m = Inr i" "next_environment h env w m i = (x, v)"
    and "sw_directory w" "\<not> sw_locked w"
  shows "sw_session w' = sw_session w" "sw_bundles w' = sw_bundles w" "sw_manifests w' = sw_manifests v"
  using assms next_environment_session [OF assms(4)] next_environment_open [OF assms(4)]
  by (auto simp: prepare_next_def with_lock_def start_iteration_def Let_def split: sum.splits prod.splits if_splits)

definition frozen :: "session_world \<Rightarrow> env_store \<Rightarrow> session_world \<Rightarrow> bool" where
  "frozen w ms u \<longleftrightarrow> sw_session u = sw_session w \<and> sw_bundles u = sw_bundles w \<and> sw_manifests u = ms"

text \<open>The digests of two repairs: their reports, or the identities of their manifests, collide.\<close>

definition repair_collision :: "string \<times> env_manifest \<Rightarrow> string \<times> env_manifest \<Rightarrow> bool" where
  "repair_collision x y \<longleftrightarrow> sha256_collision (fst x) (fst y) \<or>
     short_collision (canonical_json (JObj (manifest_identity (snd x)))) (canonical_json (JObj (manifest_identity (snd y))))"

lemma repeated_environment:
  assumes first: "next_environment h env w m i = (Inr (parent, sid, Some a, em), v)"
    and loads: "\<forall>t j. repair_input w (last (sm_iterations m)) ''repair_plan.json'' = FileText t \<longrightarrow> sh_loads h t = Some j \<longrightarrow> json_wf j" "sh_loads h2 = sh_loads h" "re_now env2 \<noteq> re_now env"
    and frozen: "frozen w (sw_manifests v) u" and again: "next_environment h2 env2 u m i = (x, u')"
  shows "frozen w (sw_manifests v) u'" "x = Inr step \<Longrightarrow>
    \<exists>p n b em2. step = (p, n, Some b, em2) \<and> repair_collision (a, em) (b, em2)"
proof -
  let ?prev = "last (sm_iterations m)"
  obtain old c res s where i: "i \<noteq> 0" and attempt: "previous_attempt w m ?prev = Inr (old, c, res)"
    and build: "build_repaired_snapshot (env\<lparr>re_loads := sh_loads h\<rparr>) (sw_snapshots w) (ir_snapshot ?prev)
       (repair_input w ?prev ''repair_plan.json'') (repair_input w ?prev ''runtime_requirements.json'')
       (observation_input w ?prev) old c res = (Inr (sid, a, em), s)"
    and save: "env_save id (sw_manifests w) em = (Inr (), sw_manifests v)"
    by (rule repaired_parts [OF first])
  note ids = previous_attempt_ids [OF attempt]
  obtain fs where "derive_from_repair (sh_loads h) (re_now env) old sid (RootTree fs) c res (repair_input w ?prev ''repair_plan.json'')
      (FileText a) (observation_input w ?prev) = Inr em"
    by (rule build_repaired_Inr [OF build]) simp
  then obtain plan where plan: "plan_load (sh_loads h) (repair_input w ?prev ''repair_plan.json'') = Inr plan"
    by (auto simp: derive_from_repair_def result_simps)
  have inputs: "repair_input u ?prev name = repair_input w ?prev name" for name
    using frozen by (simp add: repair_input_def frozen_def)
  have wf: "wf_manifest em"
    using built_valid(1) [OF ids(1) _ _ build] loads(1) plan by simp
  from saved_version [OF save wf] obtain es y prior where store: "sw_manifests v = EnvDir es" "map_of es (em_version em) = Some (EnvFile y)"
      "decode_manifest y = Inr prior" "manifest_id prior = manifest_id em" by blast
  have "frozen w (sw_manifests v) u' \<and> (x = Inr step \<longrightarrow> (\<exists>p n b em2. step = (p, n, Some b, em2) \<and> repair_collision (a, em) (b, em2)))"
  proof (cases "previous_attempt u m ?prev")
    case (Inl e)
    with again i frozen show ?thesis by (auto simp: next_environment_def repaired_environment_def)
  next
    case (Inr z)
    then obtain old2 c2 res2 where attempt2: "previous_attempt u m ?prev = Inr (old2, c2, res2)" by (cases z) auto
    note ids2 = previous_attempt_ids [OF attempt2]
    obtain q t where build2: "build_repaired_snapshot (env2\<lparr>re_loads := sh_loads h2\<rparr>) (sw_snapshots u) (ir_snapshot ?prev)
       (repair_input u ?prev ''repair_plan.json'') (repair_input u ?prev ''runtime_requirements.json'')
       (observation_input u ?prev) old2 c2 res2 = (q, t)" by fastforce
    show ?thesis
    proof (cases q)
      case (Inl e)
      with again i frozen attempt2 build2 show ?thesis by (auto simp: next_environment_def repaired_environment_def frozen_def)
    next
      case (Inr k)
      then obtain n b em2 where q: "q = Inr (n, b, em2)" by (cases k) auto
      have same: "em_version em2 = em_version em" "manifest_id em2 = manifest_id em \<Longrightarrow> repair_collision (a, em) (b, em2)"
        using repeated_manifest [OF ids(1) ids2(1) _ _ _ _ _ _ build build2 [unfolded q inputs]] ids(2,3) ids2(2,3) loads plan
        by (simp_all add: repair_collision_def)
      have "env_save id (sw_manifests u) em2 =
          (if manifest_id prior \<noteq> manifest_id em2 then Inl (EnvImmutable (em_version em2)) else Inr (), sw_manifests v)"
        using save_version_again [of es em2 y prior] store same(1) wf_manifest_version [OF wf] frozen by (simp add: frozen_def)
      with again i frozen attempt2 build2 same(2) store(4) show ?thesis
        by (auto simp: next_environment_def repaired_environment_def q frozen_def result_simps split: if_splits)
    qed
  qed
  then show "frozen w (sw_manifests v) u'" "x = Inr step \<Longrightarrow> \<exists>p n b em2. step = (p, n, Some b, em2) \<and> repair_collision (a, em) (b, em2)"
    by blast+
qed

section \<open>Calls after the failure\<close>

text \<open>Hosts of one session: the same paths and the same \<open>json.loads\<close>\<close>

definition same_host :: "session_host \<Rightarrow> session_host \<Rightarrow> bool" where
  "same_host h h2 \<longleftrightarrow> sh_path h2 = sh_path h \<and> sh_resolve h2 = sh_resolve h \<and> sh_loads h2 = sh_loads h"

text \<open>The states that calls lead to that raise, at other times than \<open>now\<close>, or that try to complete an iteration\<close>

inductive retries :: "session_host \<Rightarrow> string \<Rightarrow> session_world \<Rightarrow> session_world \<Rightarrow> bool" for h now w where
  start: "retries h now w w"
| prepare: "retries h now w u \<Longrightarrow> same_host h h2 \<Longrightarrow> re_now env2 \<noteq> now \<Longrightarrow> prepare_next h2 env2 u = (Inl e, v) \<Longrightarrow> retries h now w v"
| complete: "retries h now w u \<Longrightarrow> same_host h h2 \<Longrightarrow> complete_iteration h2 u cp = (x, v) \<Longrightarrow> retries h now w v"

lemma controller_load_same:
  "same_host h h2 \<Longrightarrow> sw_session u = sw_session w \<Longrightarrow> controller_load h2 u = controller_load h w"
  by (simp add: controller_load_def load_session_def same_host_def)

lemma completed_refuses:
  assumes "controller_load h w = Inr m" "sm_iterations m \<noteq> []" "ir_state (last (sm_iterations m)) = IterationCompleted"
  shows "\<exists>e. complete_iteration h w cp = (Inl e, w)"
proof -
  have "latest_prepared m (cp_index cp) \<noteq> Inr r" for r
    using assms(2,3) last_iteration [OF assms(2)] by (auto simp: latest_prepared_Inr)
  then obtain e where "latest_prepared m (cp_index cp) = Inl e" by (cases "latest_prepared m (cp_index cp)") auto
  then have "examine_completion h w cp = Inl e" by (simp add: examine_completion_def assms(1))
  then show ?thesis by (simp add: complete_iteration_def with_lock_def)
qed

lemma prepare_next_open:
  assumes "prepare_next h env w = (x, v)"
  shows "sw_directory v = sw_directory w" "sw_locked v = sw_locked w"
  using assms next_environment_open
  by (fastforce simp: prepare_next_def with_lock_def start_iteration_def Let_def put_file_def save_session_def
      split: sum.splits prod.splits if_splits option.splits)+

text \<open>What the failed call leaves, and what no later call changes\<close>

lemma retries_frozen:
  assumes first: "next_environment h env w m i = (Inr (parent, sid, Some a, em), v)"
    and loads: "\<forall>t j. repair_input w (last (sm_iterations m)) ''repair_plan.json'' = FileText t \<longrightarrow> sh_loads h t = Some j \<longrightarrow> json_wf j"
    and session: "controller_load h w = Inr m" "next_index m = Inr i"
    and w1: "frozen w (sw_manifests v) w1" "sw_directory w1" "\<not> sw_locked w1"
    and "retries h (re_now env) w1 u"
  shows "frozen w (sw_manifests v) u \<and> sw_directory u \<and> \<not> sw_locked u"
  using assms(8)
proof induction
  case start
  then show ?case using w1 by simp
next
  case (prepare u h2 env2 e v2)
  have load: "controller_load h2 u = Inr m"
    using controller_load_same [OF prepare.hyps(2), of u w] prepare.IH session(1) by (simp add: frozen_def)
  obtain x u1 where env: "next_environment h2 env2 u m i = (x, u1)" by fastforce
  have "frozen w (sw_manifests v) u1"
    using repeated_environment(1) [OF first loads _ prepare.hyps(3) _ env] prepare.hyps(2) prepare.IH by (simp add: same_host_def)
  then show ?case
    using prepare_next_late [OF prepare.hyps(4) load session(2) env] prepare_next_open [OF prepare.hyps(4)] prepare.IH
    by (simp add: frozen_def)
next
  case (complete u h2 cp x v2)
  obtain old c res s where some: "i \<noteq> 0" "previous_attempt w m (last (sm_iterations m)) = Inr (old, c, res)"
    by (rule repaired_parts [OF first])
  have load: "controller_load h2 u = Inr m"
    using controller_load_same [OF complete.hyps(2), of u w] complete.IH session(1) by (simp add: frozen_def)
  have "sm_iterations m \<noteq> []" using some(1) session(2) by (auto simp: next_index_Inr)
  then have "v2 = u"
    using completed_refuses [OF load, of cp] previous_attempt_Inr [OF some(2)] complete.hyps(3) by auto
  then show ?case using complete.IH by simp
qed

lemma saved_repair_blocks:
  assumes fails: "prepare_next h env w = (Inl e, w1)" and open_session: "sw_directory w" "\<not> sw_locked w"
    and session: "controller_load h w = Inr m" "next_index m = Inr i"
    and saved: "next_environment h env w m i = (Inr (parent, sid, Some a, em), v)"
    and loads: "\<forall>t j. repair_input w (last (sm_iterations m)) ''repair_plan.json'' = FileText t \<longrightarrow> sh_loads h t = Some j \<longrightarrow> json_wf j"
    and later: "retries h (re_now env) w1 u" "same_host h h2" "re_now env2 \<noteq> re_now env"
  shows "\<exists>e. complete_iteration h2 u cp = (Inl e, u)"
    "(\<exists>e u2. prepare_next h2 env2 u = (Inl e, u2)) \<or>
     (\<exists>p n b em2 u2. next_environment h2 env2 u m i = (Inr (p, n, Some b, em2), u2) \<and> repair_collision (a, em) (b, em2))"
proof -
  have w1: "frozen w (sw_manifests v) w1" "sw_directory w1" "\<not> sw_locked w1"
    using prepare_next_late [OF fails session saved open_session] prepare_next_open [OF fails] open_session by (simp_all add: frozen_def)
  have u: "frozen w (sw_manifests v) u" "sw_directory u" "\<not> sw_locked u"
    using retries_frozen [OF saved loads session w1 later(1)] by simp_all
  have load: "controller_load h2 u = Inr m"
    using controller_load_same [OF later(2), of u w] u(1) session(1) by (simp add: frozen_def)
  obtain old c res s where some: "i \<noteq> 0" "previous_attempt w m (last (sm_iterations m)) = Inr (old, c, res)"
    by (rule repaired_parts [OF saved])
  have "sm_iterations m \<noteq> []" using some(1) session(2) by (auto simp: next_index_Inr)
  then show "\<exists>e. complete_iteration h2 u cp = (Inl e, u)"
    using completed_refuses [OF load] previous_attempt_Inr [OF some(2)] by blast
  obtain x u1 where env: "next_environment h2 env2 u m i = (x, u1)" by fastforce
  show "(\<exists>e u2. prepare_next h2 env2 u = (Inl e, u2)) \<or>
     (\<exists>p n b em2 u2. next_environment h2 env2 u m i = (Inr (p, n, Some b, em2), u2) \<and> repair_collision (a, em) (b, em2))"
  proof (cases x)
    case (Inl e2)
    then show ?thesis using u load session(2) env by (simp add: prepare_next_def with_lock_def)
  next
    case (Inr step)
    then show ?thesis
      using repeated_environment(2) [OF saved loads _ later(3) u(1) env, of step] later(2) env by (auto simp: same_host_def)
  qed
qed

end
