(* ===== verification/Stuck_Session.thy ===== *)
theory Stuck_Session
  imports Repair_Retry
begin

text \<open>
  An example session that a saved repair has ended.
\<close>

section \<open>A session that a saved repair has ended\<close>

text \<open>
  The session has one iteration, which ended with a plan to create \<open>/v\<close>; something else is at the place of the
  directory of the next iteration.
\<close>

definition stuck_record :: "string \<Rightarrow> iteration_record" where
  "stuck_record sid =
     \<lparr>ir_index = 0, ir_state = IterationCompleted, ir_directory = iteration_directory 0, ir_snapshot = sid, ir_parent = None,
      ir_manifest_id = manifest_id (example_seed sid []), ir_manifest_version = 0, ir_attempt = example_id,
      ir_contract = ''attempts/'' @ example_id @ ''/contract.json'', ir_application = None,
      ir_observation = Some (iteration_path 0 [''observation.json'']),
      ir_artifacts = Some (iteration_path 0 [''artifacts'', ''artifact_manifest.json'']),
      ir_result = Some (''attempts/'' @ example_id @ ''/result.json''), ir_progress = None, ir_stop = None\<rparr>"

definition stuck_session :: "string \<Rightarrow> session_manifest" where
  "stuck_session sid =
     \<lparr>sm_id = ''session_0'', sm_dir = ''/s'', sm_snapshots = ''/p'', sm_seed = sid, sm_manifests = ''/s/manifests'',
      sm_seed_manifest = manifest_id (example_seed sid []), sm_sample = example_sha, sm_packed = example_sha, sm_goal = ''e1'',
      sm_max = 3, sm_state = SessionActive, sm_stop = None, sm_iterations = [stuck_record sid],
      sm_created = example_time, sm_updated = example_time\<rparr>"

definition stuck_world :: "string \<Rightarrow> session_world" where
  "stuck_world sid =
     (let seed = example_seed sid []; c = step_contract seed in
      \<lparr>sw_directory = True, sw_locked = False, sw_session = ArtFile (Some (session_to_dict (stuck_session sid))),
       sw_attempts = StoreDir [(example_id, EntryDir \<lparr>ad_contract = ArtFile (Some (contract_to_dict c)),
         ad_result = ArtFile (Some (attempt_result_to_dict (step_result seed)))\<rparr>)],
       sw_files = (\<lambda>_. ArtMissing)(iteration_path 0 [''observation.json''] := ArtFile (Some (observation_to_dict step_observation)),
         iteration_path 1 [''iteration.json''] := ArtFile None),
       sw_bundles = [iteration_path 0 [''artifacts''] \<mapsto>
         [([''runtime_requirements.json''], NodeFile ''{}''), ([''repair_plan.json''], NodeFile ''p'')]],
       sw_snapshots = [], sw_manifests = store_of [seed]\<rparr>)"

definition stuck_host :: "json \<Rightarrow> session_host" where
  "stuck_host app =
     \<lparr>sh_path = ''/s'', sh_resolve = id, sh_loads = step_texts app, sh_clock = (\<lambda>_. example_time), sh_between = id\<rparr>"

lemma stuck_loads: "starts_with sid ''env_'' \<Longrightarrow> controller_load (stuck_host app) (stuck_world sid) = Inr (stuck_session sid)"
proof -
  assume sid: "starts_with sid ''env_''"
  have seed: "starts_with (manifest_id (example_seed sid [])) ''manifest-v0000-''" "starts_with (manifest_id (example_seed sid [])) ''manifest-v''"
    by (simp_all add: manifest_id_def pad4_zero starts_with_def example_seed_def)
  have paths: "relative_path (''attempts/'' @ example_id @ ''/contract.json'')" "relative_path (''attempts/'' @ example_id @ ''/result.json'')"
    using attempt_file_relative [of example_id "''contract.json''"] attempt_file_relative [of example_id "''result.json''"]
    unfolding attempt_files by (simp_all add: plain_component_def)
  have "optional_path (Some (iteration_path 0 [''observation.json'']))"
      "optional_path (Some (iteration_path 0 [''artifacts'', ''artifact_manifest.json'']))"
    using iteration_path_relative [of "[''observation.json'']" 0] iteration_path_relative [of "[''artifacts'', ''artifact_manifest.json'']" 0]
    by (simp_all add: optional_path_def)
  moreover have "starts_with example_id ''attempt-''" by (simp add: example_id_def starts_with_def)
  ultimately have "wf_record (stuck_record sid)"
    using sid seed paths iteration_directory_relative [of 0] by (simp add: wf_record_def stuck_record_def optional_path_def)
  moreover have "is_goal_id ''e1''" "example_time \<noteq> []" by code_simp+
  moreover have "ir_index (stuck_record sid) = 0" by (simp add: stuck_record_def)
  ultimately have "wf_session (stuck_session sid)"
    using sid seed by (simp add: wf_session_def stuck_session_def starts_with_def [of "''session_0''"])
  then show ?thesis
    by (simp add: controller_load_def load_session_def stuck_world_def Let_def session_roundtrip guard_def stuck_session_def stuck_host_def)
qed

lemma stuck_history: "is_env_identifier sid \<Longrightarrow> env_history [example_seed sid []]"
  using example_seed_wf [of sid "[]"] by (simp add: env_history_def example_seed_def)

lemma stuck_attempt:
  assumes "is_env_identifier sid" "starts_with sid ''env_''"
  shows "previous_attempt (stuck_world sid) (stuck_session sid) (stuck_record sid) =
    Inr (example_seed sid [], step_contract (example_seed sid []), step_result (example_seed sid []))"
proof -
  let ?seed = "example_seed sid []" and ?w = "stuck_world sid"
  let ?c = "step_contract ?seed" and ?res = "step_result ?seed"
  have at: "store_artifact (sw_attempts ?w) example_id ContractSlot = ArtFile (Some (contract_to_dict ?c))"
      "store_artifact (sw_attempts ?w) example_id ResultSlot = ArtFile (Some (attempt_result_to_dict ?res))"
    by (simp_all add: store_artifact_def store_directory_def stuck_world_def Let_def)
  have "em_version ?seed = 0" by (simp add: example_seed_def)
  then have c: "check_contract ?c = Inr ?c"
    using seed_identifier [of ?seed] example_contract_valid [of example_id]
    by (simp add: step_contract_def check_contract_Inr example_contract_def)
  have "wf_result ?res \<and> ap_reason (as_progress ?res) \<noteq> Some []"
    using example_time_instant
    by (auto simp: wf_result_def check_result_Inr check_progress_Inr step_result_def example_result_def contract_sha256_def failure_outcomes_def)
  then have res: "result_from_dict (attempt_result_to_dict ?res) = Inr ?res" by (simp add: result_roundtrip)
  have "validate_result_link ?c ?res = Inr ()"
    by (simp add: validate_result_link_Inr step_result_def example_result_def step_contract_def example_contract_def)
  then have attempt: "verify_attempt (sw_attempts ?w) example_id True = Inr (?c, Some ?res)"
    using at contract_roundtrip [OF c] res by (simp add: verify_attempt_Inr load_result_Inr load_contract_Inr)
  have "env_load (sw_manifests ?w) 0 = Inr ?seed"
    using history_load [OF stuck_history [OF assms(1)], of 0] by (simp add: stuck_world_def Let_def)
  moreover have "has_repair_inputs ?w (stuck_record sid)"
    by (simp add: has_repair_inputs_def stuck_world_def stuck_record_def below_iteration Let_def)
  moreover have "validate_contract_binding (stuck_session sid) (stuck_record sid) ?c = Inr ()"
    by (simp add: validate_contract_binding_def stuck_session_def stuck_record_def step_contract_def example_contract_def guard_def)
  moreover have "as_outcome ?res = RepairRequired" by (simp add: step_result_def)
  moreover have "em_rootfs ?seed = sid" by (simp add: example_seed_def)
  ultimately show ?thesis using attempt by (simp add: previous_attempt_def guard_def) (simp add: stuck_record_def)
qed

lemma stuck_inputs:
  "repair_input (stuck_world sid) (stuck_record sid) ''repair_plan.json'' = FileText ''p''"
  "repair_input (stuck_world sid) (stuck_record sid) ''runtime_requirements.json'' = FileText ''{}''"
  "observation_input (stuck_world sid) (stuck_record sid) = FileText step_text"
  by (simp_all add: repair_input_def observation_input_def stuck_world_def stuck_record_def below_iteration below_iteration_path
      iteration_path_inj Let_def tree_file_def step_text_def plain_component_def)

lemma stuck_saves:
  assumes "is_env_identifier sid" "wf_manifest em" "validate_parent em (example_seed sid []) = Inr ()" "em_version em = 1"
  shows "\<exists>ms. env_save id (store_of [example_seed sid []]) em = (Inr (), ms)"
proof -
  have "env_load (store_of [example_seed sid []]) 0 = Inr (example_seed sid [])"
    using history_load [OF stuck_history [OF assms(1)], of 0] by simp
  moreover have "em_version (example_seed sid []) = 0" by (simp add: example_seed_def)
  ultimately show ?thesis using assms(3,4)
    by (simp add: env_save_def store_of_def version_file_def rename_over_def)
qed

lemma stuck_environment:
  assumes sid: "is_env_identifier sid" "starts_with sid ''env_''" and build: "step_build app cwd sid = (Inr (new, a, em), t)"
  shows "\<exists>v. next_environment (stuck_host app) (step_env app cwd) (stuck_world sid) (stuck_session sid) 1 =
    (Inr (Some sid, new, Some a, em), v)"
proof -
  let ?env = "step_env app cwd"
  obtain fs where derive: "derive_from_repair (re_loads ?env) (re_now ?env) (example_seed sid []) new (RootTree fs)
      (step_contract (example_seed sid [])) (step_result (example_seed sid [])) (FileText ''p'') (FileText a) (FileText step_text) = Inr em"
    by (rule build_repaired_Inr [OF build])
  have env: "?env\<lparr>re_loads := sh_loads (stuck_host app)\<rparr> = ?env" by (simp add: step_env_def stuck_host_def)
  have valid: "wf_manifest em" "validate_parent em (example_seed sid []) = Inr ()" "em_rootfs em = new" "em_version em = 1"
  proof -
    have loads: "re_loads ?env ''p'' = Some (plan_to_dict (example_plan ''/v''))" by (simp add: step_env_def step_texts_def)
    have plan: "plan_from_dict (plan_to_dict (example_plan ''/v'')) = Inr (example_plan ''/v'')" by (simp add: plan_roundtrip example_plan_wf)
    note recorded = derived_manifest_entries [OF step_more(9) [OF sid(1)] loads example_plan_json plan derive]
    then show wf: "wf_manifest em" "validate_parent em (example_seed sid []) = Inr ()" "em_rootfs em = new" by blast+
    show "em_version em = 1" using child_version(1) [OF wf(1,2) step_more(9) [OF sid(1)]] by (simp add: example_seed_def)
  qed
  have "sw_snapshots (stuck_world sid) = []" "sw_manifests (stuck_world sid) = store_of [example_seed sid []]" "last (sm_iterations (stuck_session sid)) = stuck_record sid"
      "ir_snapshot (stuck_record sid) = sid"
    by (simp_all add: stuck_world_def stuck_session_def stuck_record_def Let_def)
  then show ?thesis
    using stuck_saves [OF sid(1) valid(1,2,4)] build valid(3)
    by (auto simp: next_environment_def repaired_environment_def stuck_attempt [OF sid] env stuck_inputs guard_def)
qed

lemma stuck_fails:
  assumes "is_env_identifier sid" "starts_with sid ''env_''" and build: "step_build app cwd sid = (Inr (new, a, em), t)"
  shows "\<exists>e w1. prepare_next (stuck_host app) (step_env app cwd) (stuck_world sid) = (Inl e, w1)"
proof -
  obtain v where env: "next_environment (stuck_host app) (step_env app cwd) (stuck_world sid) (stuck_session sid) 1 =
    (Inr (Some sid, new, Some a, em), v)" using stuck_environment [OF assms] by blast
  have "sw_files v (iteration_path 1 [''iteration.json'']) \<noteq> ArtMissing"
    using next_environment_session [OF env] by (simp add: stuck_world_def Let_def)
  moreover have "next_index (stuck_session sid) = Inr 1" by (simp add: next_index_Inr stuck_session_def stuck_record_def)
  moreover have "sw_directory (stuck_world sid)" "\<not> sw_locked (stuck_world sid)" by (simp_all add: stuck_world_def Let_def)
  ultimately show ?thesis
    using stuck_loads [OF assms(2)] env
    by (auto simp: prepare_next_def with_lock_def start_iteration_def Let_def iteration_files split: sum.splits prod.splits)
qed

text \<open>The next call, a second later\<close>

definition stuck_env :: "json \<Rightarrow> snap_store \<Rightarrow> repair_env" where
  "stuck_env app cwd = (step_env app cwd)\<lparr>re_now := ''2024-01-01T00:00:01+00:00''\<rparr>"

lemma stuck_later: "re_now (stuck_env app cwd) \<noteq> re_now (step_env app cwd)"
proof -
  have "example_time \<noteq> ''2024-01-01T00:00:01+00:00''" by code_simp
  then show ?thesis by (simp add: stuck_env_def step_env_def)
qed

end
