(* ===== verification/Session_Verification.thy ===== *)
theory Session_Verification
  imports Stuck_Session
begin

text \<open>
  The theorems on whole sessions: every session verifies, its first iteration can be prepared, and a repair
  that was saved but not prepared ends it.
\<close>

section \<open>Every session verifies\<close>

lemma session_environments:
  assumes "session_ok h0 cwd w m ms" "session_site h0 cwd" "session_caller h0 cwd h env"
  shows "verify_session h env w = Inr m" "verify_env_chain (sw_manifests w) None = Inr ms"
    "length ms = max 1 (length (sm_iterations m))"
    "\<forall>k < length (sm_iterations m). ir_manifest_id (sm_iterations m ! k) = manifest_id (ms ! k) \<and>
       ir_snapshot (sm_iterations m ! k) = em_rootfs (ms ! k) \<and>
       (\<exists>x. snapshot_verify cwd (sw_snapshots w) (em_rootfs (ms ! k)) = Inr x)"
proof -
  show "verify_session h env w = Inr m" by (rule session_ok_verifies [OF assms])
  show len: "length ms = max 1 (length (sm_iterations m))" using assms(1) by (simp add: session_ok_def manifests_ok_def)
  have "env_history ms" "sw_manifests w = store_of ms" "ms \<noteq> []" "length ms \<le> 10000"
    using assms(1) len by (auto simp: session_ok_def manifests_ok_def manifest_ok_def)
  then show "verify_env_chain (sw_manifests w) None = Inr ms" using verify_history [of ms] by simp
  show "\<forall>k < length (sm_iterations m). ir_manifest_id (sm_iterations m ! k) = manifest_id (ms ! k) \<and>
      ir_snapshot (sm_iterations m ! k) = em_rootfs (ms ! k) \<and>
      (\<exists>x. snapshot_verify cwd (sw_snapshots w) (em_rootfs (ms ! k)) = Inr x)"
  proof (intro allI impI)
    fix k assume k: "k < length (sm_iterations m)"
    obtain evidence where "records_verified h0 cwd w m ms evidence" using assms(1) by (auto simp: session_ok_def)
    then obtain res obs where "record_verified h0 cwd w m ms (sm_iterations m ! k) res obs"
      using k by (cases "evidence ! k") (auto simp: records_verified_def list_all2_conv_all_nth split: prod.splits)
    then show "ir_manifest_id (sm_iterations m ! k) = manifest_id (ms ! k) \<and> ir_snapshot (sm_iterations m ! k) = em_rootfs (ms ! k) \<and>
        (\<exists>x. snapshot_verify cwd (sw_snapshots w) (em_rootfs (ms ! k)) = Inr x)"
      using session_record(3) [OF assms(1) k] by (auto simp: record_verified_def Let_def)
  qed
qed




text \<open>
  C23: The first iteration of a session that was initialized can be prepared: with any later time of the clock
  \<open>prepare_next\<close> returns a record, of the seed snapshot and the manifest of version 0, and the session with it
  verifies.
\<close>

theorem first_iteration_is_prepared:
  assumes "session_site h0 cwd" "session_caller h0 cwd h env" "session_caller h0 cwd h2 env2"
    and "request_ok q" "snapshots_ok (sw_snapshots w)" "initialize_session h q w = (Inr m, v)" "iso_instant (sh_clock h2 0) \<noteq> None"
  shows "\<exists>r u n. prepare_next h2 env2 v = (Inr r, u) \<and> ir_index r = 0 \<and> ir_snapshot r = sm_seed m \<and>
    ir_manifest_id r = sm_seed_manifest m \<and> verify_session h2 env2 u = Inr n \<and> sm_iterations n = [r]"
proof -
  obtain seed where ok: "session_ok h0 cwd v m [seed]" using initialized_step [OF assms(1,2,4,5,6)] by blast
  have none: "sm_iterations m = []" using assms(6) by (auto simp: initialize_session_def new_session_def Let_def split: sum.splits prod.splits)
  from first_prepared [OF ok assms(1,3) none assms(7)] obtain r u where step: "prepare_next h2 env2 v = (Inr r, u)" by blast
  let ?n = "replace_session (sh_clock h2 1) m [r] None None"
  obtain later where after: "session_ok h0 cwd u ?n (seed # later)" using prepared_step [OF ok assms(1,3) step] none by auto
  have n: "sm_iterations ?n = [r]" "sm_seed ?n = sm_seed m" "sm_seed_manifest ?n = sm_seed_manifest m" by (simp_all add: replace_session_def)
  have "ir_manifest_id r = manifest_id seed" "ir_snapshot r = em_rootfs seed"
    using session_environments(4) [OF after assms(1,3)] n(1) by simp_all
  moreover have "manifest_id seed = sm_seed_manifest m" "em_rootfs seed = sm_seed m"
    using ok by (simp_all add: session_ok_def manifests_ok_def)
  moreover have "ir_index r = 0" using session_record(1) [OF after, of 0] n(1) by simp
  ultimately show ?thesis
    using step session_ok_verifies [OF after assms(1,3)] n(1) by (intro exI [of _ r] exI [of _ u] exI [of _ ?n]) simp
qed

theorem first_iteration_is_prepared_witness:
  "\<exists>m v r u. initialize_session ex_host ex_request ex_nothing = (Inr m, v) \<and>
     prepare_next ex_host (step_env JNull []) v = (Inr r, u) \<and> ir_snapshot r = sm_seed m"
proof -
  obtain m v where v: "initialize_session ex_host ex_request ex_nothing = (Inr m, v)" using ex_initialized by blast
  have "iso_instant (sh_clock ex_host 0) \<noteq> None" using example_time_instant by (simp add: ex_host_def)
  from first_iteration_is_prepared [OF ex_site ex_caller ex_caller ex_request_ok v this] v show ?thesis by blast
qed

section \<open>A saved repair that was not prepared\<close>

text \<open>
  C24: The manifest of a repair is saved before the attempt and the directory of its iteration.  When one of
  these fails, the session has ended: at any other time the repair is run again, its report has another
  digest, and so the manifest has another identifier, which the store refuses for a version it has.  Neither
  \<open>prepare_next\<close> nor \<open>complete_iteration\<close> returns after any number of such calls, unless digests collide.
\<close>

theorem saved_repair_ends_session:
  assumes "prepare_next h env w = (Inl e, w1)" "sw_directory w" "\<not> sw_locked w"
    and "controller_load h w = Inr m" "next_index m = Inr i"
    and "next_environment h env w m i = (Inr (parent, sid, Some a, em), v)"
    and "\<forall>t j. repair_input w (last (sm_iterations m)) ''repair_plan.json'' = FileText t \<longrightarrow> sh_loads h t = Some j \<longrightarrow> json_wf j"
    and "retries h (re_now env) w1 u" "same_host h h2" "re_now env2 \<noteq> re_now env"
  shows "(\<exists>e. complete_iteration h2 u cp = (Inl e, u)) \<and>
    ((\<exists>e u2. prepare_next h2 env2 u = (Inl e, u2)) \<or>
     (\<exists>p n b em2 u2. next_environment h2 env2 u m i = (Inr (p, n, Some b, em2), u2) \<and> repair_collision (a, em) (b, em2)))"
  using saved_repair_blocks [OF assms] by (rule conjI)

theorem saved_repair_ends_session_witness:
  "\<exists>app cwd sid e u. prepare_next (stuck_host app) (step_env app cwd) (stuck_world sid) = (Inl e, u) \<and>
     (\<exists>e. complete_iteration (stuck_host app) u (ex_completion (JInt 0)) = (Inl e, u)) \<and>
     ((\<exists>e u2. prepare_next (stuck_host app) (stuck_env app cwd) u = (Inl e, u2)) \<or>
      (\<exists>x p n b em2 u2. next_environment (stuck_host app) (stuck_env app cwd) u (stuck_session sid) 1 = (Inr (p, n, Some b, em2), u2) \<and>
         repair_collision x (b, em2)))"
proof -
  obtain app cwd sid new a em t where b: "is_env_identifier sid" "starts_with sid ''env_''" "step_build app cwd sid = (Inr (new, a, em), t)"
    by (rule step_builds)
  let ?h = "stuck_host app" and ?env = "step_env app cwd" and ?w = "stuck_world sid" and ?m = "stuck_session sid"
  obtain e u where fails: "prepare_next ?h ?env ?w = (Inl e, u)" using stuck_fails [OF b] by blast
  obtain v where env: "next_environment ?h ?env ?w ?m 1 = (Inr (Some sid, new, Some a, em), v)" using stuck_environment [OF b] by blast
  have "sw_directory ?w" "\<not> sw_locked ?w" "next_index ?m = Inr 1" "last (sm_iterations ?m) = stuck_record sid"
    by (simp_all add: stuck_world_def Let_def next_index_Inr stuck_session_def stuck_record_def)
  moreover from this(4) have "\<forall>t j. repair_input ?w (last (sm_iterations ?m)) ''repair_plan.json'' = FileText t \<longrightarrow>
      sh_loads ?h t = Some j \<longrightarrow> json_wf j"
    using example_plan_json by (simp add: stuck_inputs stuck_host_def step_texts_def)
  moreover have "same_host ?h ?h" by (simp add: same_host_def)
  ultimately have "(\<exists>e. complete_iteration ?h u (ex_completion (JInt 0)) = (Inl e, u)) \<and>
    ((\<exists>e u2. prepare_next ?h (stuck_env app cwd) u = (Inl e, u2)) \<or>
     (\<exists>p n b em2 u2. next_environment ?h (stuck_env app cwd) u ?m 1 = (Inr (p, n, Some b, em2), u2) \<and> repair_collision (a, em) (b, em2)))"
    by (intro saved_repair_ends_session [OF fails _ _ stuck_loads [OF b(2)] _ env _ retries.start _ stuck_later])
  with fails show ?thesis by blast
qed

end
