(* ===== verification/Synthesis_Binding.thy ===== *)
theory Synthesis_Binding
  imports Session_Controller Target_Oracle
begin

text \<open>
  The configuration that the synthesis loop (\<open>taintforge_env/synthesis_loop.py\<close>) binds a session to: the
  identity of the target, of the template and of the analysis scripts, the binding file that records it, and
  its verification.  The choice of an execution backend for an ELF file (\<open>execution_backend.py\<close>) is an
  argument; files outside of the session are read from a map of paths.
\<close>

section \<open>Files\<close>

text \<open>What is at a path; a link to something that exists or to nothing\<close>

datatype loop_path = PathMissing | PathLink bool | PathDir | PathFile string | PathOther

datatype loop_phase = AtOpen | AtVerify | AtLoad | AtPrepare

datatype runner_error = RunnerFailed string | RunnerOs string | RunnerEscapes string

datatype loop_error =
    LoopSymlink string
  | LoopMissing string
  | LoopJson string
  | LoopObject string
  | LoopConfig string
  | LoopBackend string
  | LoopTarget target_error
  | LoopMismatch string
  | LoopVersion string
  | LoopDrift "string list"
  | LoopNoSeed
  | LoopUnbound
  | LoopBusy
  | LoopModified string
  | LoopInvalid string
  | LoopClaimed int string
  | LoopOs string
  | LoopConvert convert_error
  | LoopSession loop_phase session_error
  | LoopRunner runner_error

text \<open>
  The process: its files, \<open>Path.resolve\<close>, \<open>json.loads\<close>, the paths of the modules of the package, the texts of
  exceptions, and the execution backend.  The clock, the controller's host and its repair process depend on
  the number of events logged so far.
\<close>

record exec_plan =
  xp_backend :: string
  xp_trace :: string
  xp_arch :: string
  xp_sha256 :: string
  xp_interpreter :: "string option"
  xp_qemu_path :: "string option"
  xp_qemu_sha256 :: "string option"
  xp_qemu_guest :: "string option"

record loop_host =
  lh_files :: "string \<Rightarrow> loop_path"
  lh_resolve :: "string \<Rightarrow> string"
  lh_loads :: "string \<Rightarrow> json option"
  lh_modules :: "string list"
  lh_text :: "loop_error \<Rightarrow> string"
  lh_guest :: "event_fields \<Rightarrow> string + string"
  lh_plan :: "event_fields \<Rightarrow> string \<Rightarrow> string \<Rightarrow> string \<Rightarrow> string + exec_plan"
  lh_now :: "nat \<Rightarrow> nat \<Rightarrow> string"
  lh_session :: "nat \<Rightarrow> session_host"
  lh_env :: "nat \<Rightarrow> repair_env"
  lh_request :: session_request

definition path_below :: "string \<Rightarrow> string list \<Rightarrow> string" where
  "path_below dir names = pp_str (PPath (pp_root (pp_parse dir)) (pp_comps (pp_parse dir) @ names))"

definition path_at :: "loop_host \<Rightarrow> string \<Rightarrow> loop_path" where
  "path_at h p = lh_files h (pp_str (pp_parse p))"

definition validate_directory :: "loop_host \<Rightarrow> string \<Rightarrow> string \<Rightarrow> loop_error + unit" where
  "validate_directory h p l =
     (case path_at h p of PathLink _ \<Rightarrow> Inl (LoopSymlink l) | PathDir \<Rightarrow> Inr () | _ \<Rightarrow> Inl (LoopMissing l))"

text \<open>\<open>_validate_regular_file\<close>, with the content of the file\<close>

definition regular_file :: "loop_host \<Rightarrow> string \<Rightarrow> string \<Rightarrow> loop_error + string" where
  "regular_file h p l =
     (case path_at h p of PathLink _ \<Rightarrow> Inl (LoopSymlink l) | PathFile s \<Rightarrow> Inr s | _ \<Rightarrow> Inl (LoopMissing l))"

definition load_json_file :: "loop_host \<Rightarrow> string \<Rightarrow> string \<Rightarrow> loop_error + event_fields" where
  "load_json_file h p l =
     ebind (regular_file h p l) (\<lambda>s.
     case lh_loads h s of None \<Rightarrow> Inl (LoopJson l) | Some (JObj d) \<Rightarrow> Inr d | Some _ \<Rightarrow> Inl (LoopObject l))"

text \<open>The same for a file of the session, which the loop writes itself\<close>

definition load_json_artifact :: "artifact \<Rightarrow> string \<Rightarrow> loop_error + event_fields" where
  "load_json_artifact a l =
     (case a of
        ArtSymlink \<Rightarrow> Inl (LoopSymlink l)
      | ArtFile None \<Rightarrow> Inl (LoopJson l)
      | ArtFile (Some (JObj d)) \<Rightarrow> Inr d
      | ArtFile (Some _) \<Rightarrow> Inl (LoopObject l)
      | _ \<Rightarrow> Inl (LoopMissing l))"

definition loop_digest :: "json \<Rightarrow> string" where
  "loop_digest v = sha256_hex (dump_with escape_ascii (sort_json v))"

section \<open>Equality of JSON values\<close>

text \<open>\<open>==\<close> of values without NaN: numbers by their value, objects without regard to the order of keys\<close>

fun json_norm :: "json \<Rightarrow> json" where
  "json_norm (JBool b) = JInt (if b then 1 else 0)"
| "json_norm (JFloat (FloatFin r s)) = (if r \<in> \<int> then JInt \<lfloor>r\<rfloor> else JFloat (FloatFin r []))"
| "json_norm (JList xs) = JList (map json_norm xs)"
| "json_norm (JObj d) = JObj (sort_key fst (map (\<lambda>(k, v). (k, json_norm v)) d))"
| "json_norm v = v"

definition json_equal :: "json \<Rightarrow> json \<Rightarrow> bool" where
  "json_equal v w \<longleftrightarrow> json_norm v = json_norm w"

section \<open>The configuration\<close>

record loop_config =
  lc_session_dir :: string
  lc_template :: string
  lc_project :: string
  lc_store :: "string option"
  lc_seed :: "string option"
  lc_binary :: "string option"
  lc_target :: "string option"
  lc_network :: string
  lc_self_test :: bool
  lc_max_iterations :: int
  lc_timeout :: int
  lc_max_steps :: int
  lc_adopt :: bool
  lc_init_only :: bool

definition check_loop_config :: "loop_host \<Rightarrow> loop_config \<Rightarrow> loop_error + loop_config" where
  "check_loop_config h raw =
     (let c = raw\<lparr>lc_session_dir := lh_resolve h (lc_session_dir raw), lc_template := lh_resolve h (lc_template raw),
            lc_project := lh_resolve h (lc_project raw), lc_store := map_option (lh_resolve h) (lc_store raw),
            lc_seed := map_option (lh_resolve h) (lc_seed raw), lc_binary := map_option (lh_resolve h) (lc_binary raw),
            lc_target := map_option (lh_resolve h) (lc_target raw), lc_network := py_lower (py_strip (lc_network raw))\<rparr>
      in ebind (guard (lc_network c \<in> {''none'', ''controlled''}) (LoopConfig ''network_mode'')) (\<lambda>_.
         ebind (guard (\<not> (lc_self_test c \<and> lc_network c \<noteq> ''controlled'')) (LoopConfig ''network_self_test'')) (\<lambda>_.
         ebind (guard (1 \<le> lc_max_iterations c) (LoopConfig ''max_iterations'')) (\<lambda>_.
         ebind (guard (1 \<le> lc_timeout c) (LoopConfig ''timeout_seconds'')) (\<lambda>_.
         ebind (guard (1 \<le> lc_max_steps c) (LoopConfig ''max_steps'')) (\<lambda>_. Inr c))))))"

section \<open>The identity of the target\<close>

definition required_scripts :: "string list list" where
  "required_scripts =
     [[''scripts'', ''capture_runtime_observations.py''], [''scripts'', ''parse_strace.py''], [''scripts'', ''parse_qemu_strace.py''],
      [''scripts'', ''plan_repairs.py''], [''scripts'', ''generate_report.py'']]"

definition template_names :: "string list" where
  "template_names = [''runtime.json'', ''library_plan.json'', ''library_resolution.json'', ''network_policy.json'']"

definition path_entry :: "string \<Rightarrow> string \<Rightarrow> json" where
  "path_entry p s = JObj [(''path'', JStr p), (''sha256'', JStr (sha256_hex s))]"

definition template_entry :: "loop_host \<Rightarrow> string \<Rightarrow> string \<Rightarrow> loop_error + json list" where
  "template_entry h dir name =
     (let p = path_below dir [name] in
      if path_at h p \<in> {PathMissing, PathLink False} then Inr []
      else ebind (regular_file h p (''template '' @ name)) (\<lambda>s. Inr [path_entry p s]))"

definition template_config_identity :: "loop_host \<Rightarrow> loop_config \<Rightarrow> loop_error + (json list \<times> string)" where
  "template_config_identity h c =
     (let dir = path_below (lc_template c) [''config''] in
      ebind (validate_directory h dir ''template config directory'') (\<lambda>_.
      ebind (emap (template_entry h dir) template_names) (\<lambda>es.
      Inr (concat es, loop_digest (JList (concat es))))))"

definition analysis_stack_identity :: "loop_host \<Rightarrow> loop_config \<Rightarrow> loop_error + (json list \<times> string)" where
  "analysis_stack_identity h c =
     (let scripts = map (path_below (lc_project c)) required_scripts in
      ebind (emap (\<lambda>p. regular_file h p ''analysis script'') scripts) (\<lambda>_.
      ebind (emap (\<lambda>p. ebind (regular_file h p ''analysis stack file'') (\<lambda>s. Inr (path_entry p s)))
               (sorted_set (map (lh_resolve h) (lh_modules h @ scripts)))) (\<lambda>es.
      Inr (es, loop_digest (JList es)))))"

text \<open>Of \<open>execution_backend.py\<close>: where the binary is\<close>

definition resolve_host_binary :: "loop_host \<Rightarrow> event_fields \<Rightarrow> string option \<Rightarrow> string \<Rightarrow> loop_error + string" where
  "resolve_host_binary h runtime explicit project =
     (let raw = (case explicit of Some p \<Rightarrow> JStr p
        | None \<Rightarrow> (if jtruthy (jget runtime ''host_binary'') then jget runtime ''host_binary'' else jget runtime ''host_binary_path''))
      in case raw of
        JStr (c # s) \<Rightarrow>
          (let p = lh_resolve h (if pp_root (pp_parse (c # s)) = [] then path_below project (pp_comps (pp_parse (c # s))) else c # s)
           in case path_at h p of PathFile _ \<Rightarrow> Inr p | _ \<Rightarrow> Inl (LoopBackend ''host binary''))
      | _ \<Rightarrow> Inl (LoopBackend ''host binary''))"

definition resolve_template_rootfs :: "loop_host \<Rightarrow> event_fields \<Rightarrow> loop_config \<Rightarrow> loop_error + string" where
  "resolve_template_rootfs h runtime c =
     (let p = (case jget runtime ''rootfs'' of
          JStr (d # s) \<Rightarrow> (if pp_root (pp_parse (d # s)) = [] then path_below (lc_project c) (pp_comps (pp_parse (d # s))) else d # s)
        | _ \<Rightarrow> path_below (lc_template c) [''rootfs''])
      in ebind (validate_directory h (lh_resolve h p) ''template rootfs'') (\<lambda>_. Inr (lh_resolve h p)))"

definition bound_target_spec :: "loop_host \<Rightarrow> string \<Rightarrow> target_error + target_spec" where
  "bound_target_spec h p =
     load_target_spec (lh_loads h) (lh_resolve h p) (case path_at h p of PathFile s \<Rightarrow> EvFile s | PathMissing \<Rightarrow> EvAbsent | _ \<Rightarrow> EvIrregular)"

text \<open>The path given, or the one of the stored binding\<close>

definition effective_target_spec :: "loop_host \<Rightarrow> loop_config \<Rightarrow> artifact \<Rightarrow> loop_error + string option" where
  "effective_target_spec h c binding =
     (case lc_target c of
        Some p \<Rightarrow> Inr (Some p)
      | None \<Rightarrow>
          (case binding of
             ArtFile _ \<Rightarrow>
               ebind (load_json_artifact binding ''synthesis loop manifest'') (\<lambda>d.
               case jget d ''target_spec_path'' of JStr (x # s) \<Rightarrow> Inr (Some (lh_resolve h (x # s))) | _ \<Rightarrow> Inr None)
           | _ \<Rightarrow> Inr None))"

definition loop_target_spec :: "loop_host \<Rightarrow> string option \<Rightarrow> loop_error + target_spec option" where
  "loop_target_spec h path =
     (case path of
        None \<Rightarrow> Inr None
      | Some p \<Rightarrow> ebind (err_map LoopTarget (bound_target_spec h p)) (\<lambda>s. Inr (Some s)))"

definition opt_str :: "string option \<Rightarrow> json" where
  "opt_str = opt_json JStr"

definition target_identity :: "loop_host \<Rightarrow> loop_config \<Rightarrow> artifact \<Rightarrow> loop_error + event_fields" where
  "target_identity h c binding =
     ebind (validate_directory h (lc_template c) ''template run directory'') (\<lambda>_.
     ebind (validate_directory h (lc_project c) ''project root'') (\<lambda>_.
     let runtime_path = path_below (lc_template c) [''config'', ''runtime.json''] in
     ebind (load_json_file h runtime_path ''template runtime'') (\<lambda>runtime.
     ebind (if lc_network c = ''controlled''
            then ebind (regular_file h (path_below (lc_template c) [''config'', ''network_policy.json'']) ''template network policy'') (\<lambda>_. Inr ())
            else Inr ()) (\<lambda>_.
     ebind (resolve_host_binary h runtime (lc_binary c) (lc_project c)) (\<lambda>binary.
     ebind (err_map LoopBackend (lh_guest h runtime)) (\<lambda>guest.
     ebind (resolve_template_rootfs h runtime c) (\<lambda>rootfs.
     ebind (err_map LoopBackend (lh_plan h runtime binary rootfs guest)) (\<lambda>plan.
     ebind (template_config_identity h c) (\<lambda>(configs, config_digest).
     ebind (analysis_stack_identity h c) (\<lambda>(stack, stack_digest).
     ebind (effective_target_spec h c binding) (\<lambda>spec_path.
     ebind (loop_target_spec h spec_path) (\<lambda>spec.
     ebind (regular_file h runtime_path ''template runtime'') (\<lambda>runtime_text.
     ebind (regular_file h binary ''host binary'') (\<lambda>binary_text.
     Inr [(''template_run_dir'', JStr (lc_template c)), (''template_runtime'', JStr runtime_path),
          (''template_runtime_sha256'', JStr (sha256_hex runtime_text)), (''template_config_files'', JList configs),
          (''template_config_bundle_sha256'', JStr config_digest), (''project_root'', JStr (lc_project c)),
          (''host_binary'', JStr binary), (''host_binary_sha256'', JStr (sha256_hex binary_text)),
          (''execution_backend'', JStr (xp_backend plan)), (''trace_backend'', JStr (xp_trace plan)),
          (''target_arch'', JStr (xp_arch plan)), (''target_elf_sha256'', JStr (xp_sha256 plan)),
          (''target_interpreter'', opt_str (xp_interpreter plan)), (''qemu_host_path'', opt_str (xp_qemu_path plan)),
          (''qemu_host_sha256'', opt_str (xp_qemu_sha256 plan)), (''qemu_guest_path'', opt_str (xp_qemu_guest plan)),
          (''analysis_stack_files'', JList stack), (''analysis_stack_sha256'', JStr stack_digest),
          (''target_spec_path'', opt_str spec_path), (''target_spec_sha256'', opt_str (map_option ts_sha256 spec)),
          (''target_goal_id'', opt_str (map_option ts_goal spec)), (''timeout_seconds'', JInt (lc_timeout c)),
          (''network_mode'', JStr (lc_network c)), (''network_self_test'', JBool (lc_self_test c)),
          (''allow_internet'', JBool False), (''qemu_required_supported'', JBool True)]))))))))))))))"

section \<open>The binding\<close>

definition default_goal :: string where "default_goal = ''phase2.explicit_discovery_goal''"

definition bound_goal :: "event_fields \<Rightarrow> json" where
  "bound_goal d = (if jtruthy (jget d ''target_goal_id'') then jget d ''target_goal_id'' else JStr default_goal)"

definition validate_session_target :: "session_manifest \<Rightarrow> event_fields \<Rightarrow> loop_error + unit" where
  "validate_session_target m identity =
     ebind (guard (JStr (sm_sample m) = jget identity ''target_elf_sha256'') (LoopMismatch ''session sample'')) (\<lambda>_.
     ebind (guard (JStr (sm_packed m) = jget identity ''host_binary_sha256'') (LoopMismatch ''session packed binary'')) (\<lambda>_.
     guard (JStr (sm_goal m) = bound_goal identity) (LoopMismatch ''session goal'')))"

definition binding_payload :: "loop_config \<Rightarrow> session_manifest \<Rightarrow> event_fields \<Rightarrow> loop_error + event_fields" where
  "binding_payload c m identity =
     ebind (validate_session_target m identity) (\<lambda>_.
     Inr ([(''schema_version'', JInt 1), (''loop_version'', JInt 5), (''session_id'', JStr (sm_id m)),
           (''session_dir'', JStr (lc_session_dir c)), (''snapshot_store'', JStr (sm_snapshots m)),
           (''seed_snapshot_id'', JStr (sm_seed m)), (''environment_manifest_store'', JStr (sm_manifests m)),
           (''seed_environment_manifest_id'', JStr (sm_seed_manifest m)), (''sample_sha256'', JStr (sm_sample m)),
           (''packed_binary_sha256'', JStr (sm_packed m)), (''attempt_goal_id'', JStr (sm_goal m)),
           (''max_iterations'', JInt (sm_max m))] @ identity))"

definition binding_keys :: "string list" where
  "binding_keys =
     [''session_id'', ''session_dir'', ''snapshot_store'', ''seed_snapshot_id'', ''environment_manifest_store'',
      ''seed_environment_manifest_id'', ''sample_sha256'', ''packed_binary_sha256'', ''attempt_goal_id'', ''max_iterations'',
      ''template_run_dir'', ''template_runtime'', ''template_runtime_sha256'', ''template_config_files'',
      ''template_config_bundle_sha256'', ''project_root'', ''host_binary'', ''host_binary_sha256'', ''execution_backend'',
      ''trace_backend'', ''target_arch'', ''target_elf_sha256'', ''target_interpreter'', ''qemu_host_path'',
      ''qemu_host_sha256'', ''qemu_guest_path'', ''analysis_stack_files'', ''analysis_stack_sha256'', ''target_spec_path'',
      ''target_spec_sha256'', ''target_goal_id'', ''timeout_seconds'', ''network_mode'', ''network_self_test'',
      ''allow_internet'', ''qemu_required_supported'']"

definition check_versions :: "event_fields \<Rightarrow> loop_error + unit" where
  "check_versions d =
     ebind (guard (json_equal (jget d ''schema_version'') (JInt 1)) (LoopVersion ''schema'')) (\<lambda>_.
     guard (json_equal (jget d ''loop_version'') (JInt 5)) (LoopVersion ''loop''))"

definition verify_config_binding :: "event_fields \<Rightarrow> event_fields \<Rightarrow> loop_error + unit" where
  "verify_config_binding stored current =
     ebind (check_versions stored) (\<lambda>_.
     let drift = filter (\<lambda>k. \<not> json_equal (jget stored k) (jget current k)) binding_keys in
     guard (drift = []) (LoopDrift drift))"

section \<open>Verifying a bound session\<close>

text \<open>A file whose digest is recorded\<close>

definition verify_bound_file :: "loop_host \<Rightarrow> json \<Rightarrow> json \<Rightarrow> string \<Rightarrow> loop_error + string" where
  "verify_bound_file h path digest label =
     ebind (regular_file h (py_text path) label) (\<lambda>s.
     ebind (guard (JStr (sha256_hex s) = digest) (LoopModified label)) (\<lambda>_. Inr s))"

definition verify_bound_entry :: "loop_host \<Rightarrow> string \<Rightarrow> json \<Rightarrow> loop_error + json" where
  "verify_bound_entry h label raw =
     (case raw of
        JObj d \<Rightarrow>
          (case (jget d ''path'', jget d ''sha256'') of
             (JStr p, JStr digest) \<Rightarrow> ebind (verify_bound_file h (JStr p) (JStr digest) label) (\<lambda>s. Inr (path_entry p s))
           | _ \<Rightarrow> Inl (LoopInvalid label))
      | _ \<Rightarrow> Inl (LoopInvalid label))"

definition verify_bound_bundle :: "loop_host \<Rightarrow> json \<Rightarrow> json \<Rightarrow> string \<Rightarrow> loop_error + unit" where
  "verify_bound_bundle h raw digest label =
     (case raw of
        JList xs \<Rightarrow>
          ebind (emap (verify_bound_entry h label) xs) (\<lambda>es.
          guard (digest = JStr (loop_digest (JList es))) (LoopModified label))
      | _ \<Rightarrow> Inl (LoopInvalid label))"

definition session_bindings :: "session_manifest \<Rightarrow> (string \<times> string) list" where
  "session_bindings m =
     [(''environment_manifest_store'', sm_manifests m), (''seed_environment_manifest_id'', sm_seed_manifest m),
      (''sample_sha256'', sm_sample m), (''packed_binary_sha256'', sm_packed m), (''attempt_goal_id'', sm_goal m)]"

definition verify_bound_qemu :: "loop_host \<Rightarrow> event_fields \<Rightarrow> loop_error + unit" where
  "verify_bound_qemu h d =
     (case jget d ''qemu_host_path'' of
        JNull \<Rightarrow> Inr ()
      | JStr p \<Rightarrow>
          (case jget d ''qemu_host_sha256'' of
             JStr digest \<Rightarrow> ebind (verify_bound_file h (JStr p) (JStr digest) ''QEMU executable'') (\<lambda>_. Inr ())
           | _ \<Rightarrow> Inl (LoopInvalid ''QEMU identity''))
      | _ \<Rightarrow> Inl (LoopInvalid ''QEMU identity''))"

definition verify_bound_spec :: "loop_host \<Rightarrow> event_fields \<Rightarrow> loop_error + unit" where
  "verify_bound_spec h d =
     (if jget d ''target_spec_path'' = JNull then Inr ()
      else ebind (err_map LoopTarget (bound_target_spec h (py_text (jget d ''target_spec_path'')))) (\<lambda>s.
        ebind (guard (JStr (ts_sha256 s) = jget d ''target_spec_sha256'') (LoopModified ''target-state specification'')) (\<lambda>_.
        guard (JStr (ts_goal s) = jget d ''target_goal_id'') (LoopMismatch ''target-state goal id''))))"

definition verify_loop_session ::
    "loop_host \<Rightarrow> session_host \<Rightarrow> repair_env \<Rightarrow> artifact \<Rightarrow> session_world \<Rightarrow> loop_error + event_fields" where
  "verify_loop_session h sh env binding w =
     ebind (load_json_artifact binding ''synthesis loop manifest'') (\<lambda>d.
     ebind (check_versions d) (\<lambda>_.
     ebind (err_map (LoopSession AtVerify) (verify_session sh env w)) (\<lambda>m.
     ebind (guard (jget d ''session_id'' = JStr (sm_id m)) (LoopMismatch ''session_id'')) (\<lambda>_.
     ebind (guard (jget d ''seed_snapshot_id'' = JStr (sm_seed m)) (LoopMismatch ''seed snapshot'')) (\<lambda>_.
     ebind (guard (jget d ''snapshot_store'' = JStr (sm_snapshots m)) (LoopMismatch ''snapshot store'')) (\<lambda>_.
     ebind (guard (json_equal (jget d ''max_iterations'') (JInt (sm_max m))) (LoopMismatch ''iteration budget'')) (\<lambda>_.
     let drift = map fst (filter (\<lambda>(k, s). jget d k \<noteq> JStr s) (session_bindings m)) in
     ebind (guard (drift = []) (LoopDrift drift)) (\<lambda>_.
     ebind (verify_bound_file h (jget d ''template_runtime'') (jget d ''template_runtime_sha256'') ''template runtime'') (\<lambda>_.
     ebind (verify_bound_file h (jget d ''host_binary'') (jget d ''host_binary_sha256'') ''host binary'') (\<lambda>_.
     ebind (guard (jget d ''host_binary_sha256'' = JStr (sm_packed m)) (LoopMismatch ''packed binary'')) (\<lambda>_.
     ebind (guard (jget d ''target_elf_sha256'' = JStr (sm_sample m)) (LoopMismatch ''target ELF'')) (\<lambda>_.
     ebind (guard (bound_goal d = JStr (sm_goal m)) (LoopMismatch ''target goal'')) (\<lambda>_.
     ebind (verify_bound_qemu h d) (\<lambda>_.
     ebind (verify_bound_bundle h (jget d ''template_config_files'') (jget d ''template_config_bundle_sha256'') ''template config'') (\<lambda>_.
     ebind (verify_bound_bundle h (jget d ''analysis_stack_files'') (jget d ''analysis_stack_sha256'') ''analysis stack'') (\<lambda>_.
     ebind (verify_bound_spec h d) (\<lambda>_.
     Inr [(''session_id'', JStr (sm_id m)), (''session_state'', JStr (session_state_value (sm_state m))),
          (''stop_reason'', opt_str (sm_stop m)), (''iterations'', JInt (int (length (sm_iterations m)))),
          (''binding_verified'', JBool True), (''artifacts_verified'', JBool True)])))))))))))))))))"

end
