(* ===== verification/Synthesis_Loop.thy ===== *)
theory Synthesis_Loop
  imports Synthesis_Binding
begin

text \<open>
  The synthesis loop (\<open>EnvironmentSynthesisLoop\<close> of \<open>taintforge_env/synthesis_loop.py\<close>): it opens or
  initializes a session, and prepares and runs iterations until the session ends, the steps of the invocation
  are used up, or a call raises.  The runner is an argument, as it is in the code.  What the loop writes beside
  the session, the binding, the log of events and the report, is kept as values.
\<close>

section \<open>State\<close>

record loop_world =
  lw_session :: session_world
  lw_binding :: artifact
  lw_events :: "json list option"  \<comment> \<open>\<open>None\<close> for a link in the place of the log\<close>
  lw_report :: artifact
  lw_markdown :: "string option"  \<comment> \<open>\<open>None\<close> for a link\<close>
  lw_lock_link :: bool
  lw_lock_held :: bool

type_synonym 'a loop_outcome_at = "(loop_error + 'a) \<times> loop_world"

definition lbind :: "('e + 'a) \<times> 'w \<Rightarrow> ('a \<Rightarrow> 'w \<Rightarrow> ('e + 'b) \<times> 'w) \<Rightarrow> ('e + 'b) \<times> 'w" where
  "lbind r k = (case r of (Inl e, w) \<Rightarrow> (Inl e, w) | (Inr a, w) \<Rightarrow> k a w)"

definition pure_at :: "'e + 'a \<Rightarrow> 'w \<Rightarrow> ('e + 'a) \<times> 'w" where
  "pure_at r w = (r, w)"

definition event_count :: "loop_world \<Rightarrow> nat" where
  "event_count w = (case lw_events w of None \<Rightarrow> 0 | Some es \<Rightarrow> length es)"

definition append_event :: "loop_host \<Rightarrow> string \<Rightarrow> event_fields \<Rightarrow> loop_world \<Rightarrow> unit loop_outcome_at" where
  "append_event h event items w =
     (case lw_events w of
        None \<Rightarrow> (Inl (LoopSymlink ''event log''), w)
      | Some es \<Rightarrow>
          (Inr (), w\<lparr>lw_events := Some (es @ [JObj ([(''timestamp_utc'', JStr (lh_now h (length es) 0)), (''event'', JStr event)] @ items)])\<rparr>))"

text \<open>\<open>_atomic_write_json\<close>\<close>

definition write_artifact :: "artifact \<Rightarrow> json \<Rightarrow> loop_error + artifact" where
  "write_artifact a v =
     (case a of ArtSymlink \<Rightarrow> Inl (LoopSymlink ''replace'') | ArtOther \<Rightarrow> Inl (LoopOs ''replace'') | _ \<Rightarrow> Inr (ArtFile (Some v)))"

definition write_binding :: "event_fields \<Rightarrow> loop_world \<Rightarrow> unit loop_outcome_at" where
  "write_binding d w =
     (case write_artifact (lw_binding w) (JObj d) of
        Inl e \<Rightarrow> (Inl e, w)
      | Inr a \<Rightarrow> (Inr (), w\<lparr>lw_binding := a\<rparr>))"

text \<open>\<open>dict.update\<close>\<close>

definition field_update :: "event_fields \<Rightarrow> event_fields \<Rightarrow> event_fields" where
  "field_update d items = foldl (\<lambda>d (k, v). upsert fst (k, v) d) d items"

section \<open>Reports\<close>

definition report_iteration :: "iteration_record \<Rightarrow> json" where
  "report_iteration r = JObj
     [(''index'', JInt (ir_index r)), (''state'', JStr (iteration_state_value (ir_state r))),
      (''environment_snapshot_id'', JStr (ir_snapshot r)), (''parent_snapshot_id'', opt_str (ir_parent r)),
      (''environment_manifest_id'', JStr (ir_manifest_id r)), (''environment_manifest_version'', JInt (ir_manifest_version r)),
      (''attempt_id'', JStr (ir_attempt r)), (''attempt_contract'', JStr (ir_contract r)),
      (''attempt_result'', opt_str (ir_result r)), (''progress'', opt_json JObj (ir_progress r)),
      (''stop_reason'', opt_str (ir_stop r)), (''directory'', JStr (ir_directory r))]"

definition configuration_keys :: "string list" where
  "configuration_keys =
     [''template_run_dir'', ''template_runtime_sha256'', ''host_binary'', ''host_binary_sha256'', ''execution_backend'',
      ''trace_backend'', ''target_arch'', ''target_elf_sha256'', ''qemu_host_path'', ''qemu_host_sha256'',
      ''template_config_bundle_sha256'', ''analysis_stack_sha256'', ''target_spec_path'', ''target_spec_sha256'',
      ''target_goal_id'', ''attempt_goal_id'', ''sample_sha256'', ''packed_binary_sha256'', ''seed_environment_manifest_id'',
      ''timeout_seconds'', ''max_iterations'', ''network_mode'']"

definition report_json :: "string \<Rightarrow> session_manifest \<Rightarrow> event_fields \<Rightarrow> nat \<Rightarrow> json" where
  "report_json now m d executions = JObj
     [(''schema_version'', JInt 1), (''generated_at_utc'', JStr now), (''session_id'', JStr (sm_id m)),
      (''session_state'', JStr (session_state_value (sm_state m))), (''session_stop_reason'', opt_str (sm_stop m)),
      (''loop_outcome'', jget d ''outcome''), (''loop_stop_reason'', jget d ''stop_reason''), (''last_error'', jget d ''last_error''),
      (''invocations'', jget d ''invocations''), (''executions_last_invocation'', JInt (int executions)),
      (''configuration'', JObj (map (\<lambda>k. (k, jget d k)) configuration_keys)),
      (''iterations'', JList (map report_iteration (sm_iterations m)))]"

definition quoted :: "string \<Rightarrow> string" where
  "quoted s = [CHR 0x60] @ s @ [CHR 0x60]"

definition report_row :: "iteration_record \<Rightarrow> string" where
  "report_row r =
     (let classification = (case ir_progress r of None \<Rightarrow> JStr ''n/a'' | Some d \<Rightarrow> jget_or d ''classification'' (JStr ''n/a''))
      in ''| '' @ show_int (ir_index r) @ '' | '' @ quoted (iteration_state_value (ir_state r)) @ '' | '' @ quoted (ir_snapshot r) @
         '' | '' @ quoted (ir_manifest_id r) @ '' | '' @ quoted (ir_attempt r) @ '' | '' @ quoted (py_text classification) @
         '' | '' @ quoted (py_text (opt_str (ir_stop r))) @ '' |'')"

definition report_markdown :: "session_manifest \<Rightarrow> event_fields \<Rightarrow> string" where
  "report_markdown m d =
     rstrip_while py_space (join_with [CHR 0x0A]
       ([''# TaintForge-IoT Environment Synthesis Report'', '''',
         ''- Session: '' @ quoted (sm_id m),
         ''- Session state: '' @ quoted (session_state_value (sm_state m)),
         ''- Session stop reason: '' @ quoted (py_text (opt_str (sm_stop m))),
         ''- Loop outcome: '' @ quoted (py_text (jget d ''outcome'')),
         ''- Loop stop reason: '' @ quoted (py_text (jget d ''stop_reason'')),
         ''- Invocations: '' @ quoted (py_text (jget d ''invocations'')),
         ''- Iterations: '' @ quoted (show_nat (length (sm_iterations m))),
         ''- Last error: '' @ quoted (py_text (jget d ''last_error'')), '''',
         ''## Iterations'', '''',
         ''| Index | State | Snapshot | Manifest | Attempt | Progress | Stop reason |'',
         ''|---:|---|---|---|---|---|---|''] @ map report_row (sm_iterations m))) @ [CHR 0x0A]"

definition write_report :: "string \<Rightarrow> session_manifest \<Rightarrow> event_fields \<Rightarrow> nat \<Rightarrow> loop_world \<Rightarrow> unit loop_outcome_at" where
  "write_report now m d executions w =
     (case write_artifact (lw_report w) (report_json now m d executions) of
        Inl e \<Rightarrow> (Inl e, w)
      | Inr a \<Rightarrow>
          (case lw_markdown w of
             None \<Rightarrow> (Inl (LoopSymlink ''replace''), w\<lparr>lw_report := a\<rparr>)
           | Some _ \<Rightarrow> (Inr (), w\<lparr>lw_report := a, lw_markdown := Some (report_markdown m d)\<rparr>)))"

section \<open>Ending an invocation\<close>

datatype loop_outcome = LoopCompleted | LoopPaused | LoopInitialized | LoopIntervention

fun loop_outcome_value :: "loop_outcome \<Rightarrow> string" where
  "loop_outcome_value LoopCompleted = ''completed''"
| "loop_outcome_value LoopPaused = ''paused''"
| "loop_outcome_value LoopInitialized = ''initialized''"
| "loop_outcome_value LoopIntervention = ''intervention_required''"

record loop_result =
  lr_session :: string
  lr_outcome :: loop_outcome
  lr_stop :: "string option"
  lr_executions :: nat
  lr_total :: nat
  lr_last :: "int option"

definition load_at :: "loop_host \<Rightarrow> loop_phase \<Rightarrow> loop_world \<Rightarrow> loop_error + session_manifest" where
  "load_at h phase w = err_map (LoopSession phase) (controller_load (lh_session h (event_count w)) (lw_session w))"

definition last_index :: "session_manifest \<Rightarrow> int option" where
  "last_index m = (if sm_iterations m = [] then None else Some (ir_index (last (sm_iterations m))))"

definition finalize ::
    "loop_host \<Rightarrow> event_fields \<Rightarrow> int \<Rightarrow> loop_outcome \<Rightarrow> string option \<Rightarrow> nat \<Rightarrow> string option \<Rightarrow> loop_world
     \<Rightarrow> loop_result loop_outcome_at" where
  "finalize h binding invocation outcome stop executions last_error w =
     lbind (pure_at (load_at h AtLoad w) w) (\<lambda>m w.
     let updated = field_update binding
           [(''updated_at_utc'', JStr (lh_now h (event_count w) 1)), (''invocations'', JInt invocation),
            (''outcome'', JStr (loop_outcome_value outcome)), (''stop_reason'', opt_str stop), (''last_error'', opt_str last_error),
            (''last_iteration_index'', opt_json JInt (last_index m)), (''executions_last_invocation'', JInt (int executions))]
     in lbind (write_binding updated w) (\<lambda>_ w.
        lbind (write_report (lh_now h (event_count w) 2) m updated executions w) (\<lambda>_ w.
        (Inr \<lparr>lr_session = sm_id m, lr_outcome = outcome, lr_stop = stop, lr_executions = executions,
              lr_total = length (sm_iterations m), lr_last = last_index m\<rparr>, w))))"

definition finish_invocation ::
    "loop_host \<Rightarrow> event_fields \<Rightarrow> int \<Rightarrow> loop_outcome \<Rightarrow> string option \<Rightarrow> nat \<Rightarrow> loop_world \<Rightarrow> loop_result loop_outcome_at" where
  "finish_invocation h binding invocation outcome stop executions w =
     lbind (finalize h binding invocation outcome stop executions None w) (\<lambda>r w.
     lbind (append_event h ''invocation_finished'' [(''invocation_id'', JInt invocation),
        (''outcome'', JStr (loop_outcome_value outcome)), (''stop_reason'', opt_str stop)] w) (\<lambda>_ w. (Inr r, w)))"

section \<open>One pass\<close>

record runner_result =
  px_index :: int
  px_attempt :: string
  px_attempt_result :: string
  px_exit :: int
  px_timed_out :: bool
  px_stop :: "string option"
  px_progress :: event_fields
  px_target :: bool
  px_network :: string
  px_network_manifest :: "string option"
  px_evaluation :: "string option"

record runner_config =
  pc_session_dir :: string
  pc_index :: int
  pc_template :: string
  pc_project :: string
  pc_timeout :: int
  pc_binary :: "string option"
  pc_target :: "string option"
  pc_network :: string
  pc_self_test :: bool

type_synonym loop_runner = "runner_config \<Rightarrow> session_world \<Rightarrow> (runner_error + runner_result) \<times> session_world"

definition runner_config_of :: "loop_config \<Rightarrow> iteration_record \<Rightarrow> string option \<Rightarrow> runner_config" where
  "runner_config_of c r spec =
     \<lparr>pc_session_dir = lc_session_dir c, pc_index = ir_index r, pc_template = lc_template c, pc_project = lc_project c,
      pc_timeout = lc_timeout c, pc_binary = lc_binary c, pc_target = spec, pc_network = lc_network c, pc_self_test = lc_self_test c\<rparr>"

definition verify_at :: "loop_host \<Rightarrow> loop_world \<Rightarrow> loop_error + session_manifest" where
  "verify_at h w = err_map (LoopSession AtVerify)
     (verify_session (lh_session h (event_count w)) (lh_env h (event_count w)) (lw_session w))"

text \<open>The claim of an earlier run of the iteration\<close>

definition claim_stage :: "event_fields \<Rightarrow> string" where
  "claim_stage d =
     (let stage = text_or (jget d ''stage'') ''unknown'' in
      if stage = ''failed'' \<and> jget d ''malware_started'' = JBool False \<and> jget d ''retry_safe'' = JBool True then ''retry-safe failed''
      else stage)"

definition check_claim :: "session_world \<Rightarrow> iteration_record \<Rightarrow> loop_error + unit" where
  "check_claim w r =
     (case sw_files w (below (ir_directory r) [''execution_attempt.json'']) of
        ArtMissing \<Rightarrow> Inr ()
      | a \<Rightarrow> ebind (load_json_artifact a ''execution claim'') (\<lambda>d. Inl (LoopClaimed (ir_index r) (claim_stage d))))"

definition with_session :: "(session_error + 'a) \<times> session_world \<Rightarrow> loop_phase \<Rightarrow> loop_world \<Rightarrow> 'a loop_outcome_at" where
  "with_session r phase w = (err_map (LoopSession phase) (fst r), w\<lparr>lw_session := snd r\<rparr>)"

definition prepared_event :: "int \<Rightarrow> iteration_record \<Rightarrow> event_fields" where
  "prepared_event invocation r =
     [(''invocation_id'', JInt invocation), (''iteration'', JInt (ir_index r)),
      (''environment_snapshot_id'', JStr (ir_snapshot r)), (''environment_manifest_id'', JStr (ir_manifest_id r)),
      (''environment_manifest_version'', JInt (ir_manifest_version r)), (''attempt_id'', JStr (ir_attempt r)),
      (''parent_snapshot_id'', opt_str (ir_parent r))]"

text \<open>The iteration to run: the prepared one, or the next\<close>

definition next_iteration :: "loop_host \<Rightarrow> int \<Rightarrow> session_manifest \<Rightarrow> loop_world \<Rightarrow> iteration_record loop_outcome_at" where
  "next_iteration h invocation m w =
     (if sm_iterations m \<noteq> [] \<and> ir_state (last (sm_iterations m)) = IterationPrepared then (Inr (last (sm_iterations m)), w)
      else
        lbind (with_session (prepare_next (lh_session h (event_count w)) (lh_env h (event_count w)) (lw_session w)) AtPrepare w) (\<lambda>r w.
        lbind (append_event h ''iteration_prepared'' (prepared_event invocation r) w) (\<lambda>_ w.
        lbind (pure_at (verify_at h w) w) (\<lambda>_ w. (Inr r, w)))))"

definition completed_event :: "int \<Rightarrow> runner_result \<Rightarrow> event_fields" where
  "completed_event invocation x =
     [(''invocation_id'', JInt invocation), (''iteration'', JInt (px_index x)), (''attempt_id'', JStr (px_attempt x)),
      (''attempt_result'', JStr (px_attempt_result x)), (''guest_exit_code'', JInt (px_exit x)), (''timed_out'', JBool (px_timed_out x)),
      (''stop_reason'', opt_str (px_stop x)), (''progress'', JObj (px_progress x)), (''target_reached'', JBool (px_target x)),
      (''network_mode'', JStr (px_network x)), (''network_manifest'', opt_str (px_network_manifest x)),
      (''target_evaluation'', opt_str (px_evaluation x))]"

text \<open>Up to the return of the runner, and what follows it\<close>

definition run_iteration ::
    "loop_host \<Rightarrow> loop_config \<Rightarrow> loop_runner \<Rightarrow> int \<Rightarrow> session_manifest \<Rightarrow> loop_world \<Rightarrow> runner_result loop_outcome_at" where
  "run_iteration h c runner invocation m w =
     lbind (next_iteration h invocation m w) (\<lambda>r w.
     lbind (pure_at (check_claim (lw_session w) r) w) (\<lambda>_ w.
     lbind (pure_at (effective_target_spec h c (lw_binding w)) w) (\<lambda>spec w.
     lbind (append_event h ''iteration_execution_started'' [(''invocation_id'', JInt invocation), (''iteration'', JInt (ir_index r))] w) (\<lambda>_ w.
     case runner (runner_config_of c r spec) (lw_session w) of
       (Inl e, s) \<Rightarrow> (Inl (LoopRunner e), w\<lparr>lw_session := s\<rparr>)
     | (Inr x, s) \<Rightarrow> (Inr x, w\<lparr>lw_session := s\<rparr>)))))"

definition after_iteration :: "loop_host \<Rightarrow> int \<Rightarrow> runner_result \<Rightarrow> loop_world \<Rightarrow> unit loop_outcome_at" where
  "after_iteration h invocation x w =
     lbind (append_event h ''iteration_completed'' (completed_event invocation x) w) (\<lambda>_ w.
     lbind (pure_at (verify_at h w) w) (\<lambda>_ w. (Inr (), w)))"

text \<open>How the invocation ends before the next iteration, if it does\<close>

definition pass_end :: "loop_config \<Rightarrow> nat \<Rightarrow> session_manifest \<Rightarrow> (loop_outcome \<times> string option) option" where
  "pass_end c executions m =
     (case sm_state m of
        SessionCompleted \<Rightarrow> Some (LoopCompleted, sm_stop m)
      | SessionFailed \<Rightarrow> Some (LoopIntervention, sm_stop m)
      | SessionActive \<Rightarrow>
          (if lc_max_steps c \<le> int executions then Some (LoopPaused, Some ''invocation_step_limit'') else None))"

text \<open>An error comes with the number of executions so far.\<close>

definition with_count :: "nat \<Rightarrow> 'a loop_outcome_at \<Rightarrow> (loop_error \<times> nat + 'a) \<times> loop_world" where
  "with_count n r = (err_map (\<lambda>e. (e, n)) (fst r), snd r)"

function drive ::
    "loop_host \<Rightarrow> loop_config \<Rightarrow> loop_runner \<Rightarrow> event_fields \<Rightarrow> int \<Rightarrow> nat \<Rightarrow> loop_world
     \<Rightarrow> (loop_error \<times> nat + loop_result) \<times> loop_world" where
  "drive h c runner binding invocation n w =
     (case load_at h AtLoad w of
        Inl e \<Rightarrow> (Inl (e, n), w)
      | Inr m \<Rightarrow>
          (case pass_end c n m of
             Some (outcome, stop) \<Rightarrow> with_count n (finish_invocation h binding invocation outcome stop n w)
           | None \<Rightarrow>
               (case run_iteration h c runner invocation m w of
                  (Inl e, v) \<Rightarrow> (Inl (e, n), v)
                | (Inr x, v) \<Rightarrow>
                    (case after_iteration h invocation x v of
                       (Inl e, u) \<Rightarrow> (Inl (e, Suc n), u)
                     | (Inr _, u) \<Rightarrow> drive h c runner binding invocation (Suc n) u))))"
  by pat_completeness auto

termination
  by (relation "measure (\<lambda>(h, c, runner, binding, invocation, n, w). nat (lc_max_steps c - int n))")
    (auto simp: pass_end_def split: session_state.splits if_splits)

declare drive.simps [simp del]

section \<open>Opening a session\<close>

definition open_binding ::
    "loop_host \<Rightarrow> loop_config \<Rightarrow> event_fields \<Rightarrow> bool \<Rightarrow> session_manifest \<Rightarrow> loop_world \<Rightarrow> event_fields loop_outcome_at" where
  "open_binding h c identity created m w =
     lbind (pure_at (binding_payload c m identity) w) (\<lambda>current w.
     if lw_binding w \<noteq> ArtMissing
     then lbind (pure_at (load_json_artifact (lw_binding w) ''synthesis loop manifest'') w) (\<lambda>stored w.
          lbind (pure_at (verify_config_binding stored current) w) (\<lambda>_ w. (Inr stored, w)))
     else if \<not> created \<and> \<not> lc_adopt c then (Inl LoopUnbound, w)
     else
       (let now = JStr (lh_now h (event_count w) 3);
            binding = field_update current [(''created_at_utc'', now), (''updated_at_utc'', now), (''invocations'', JInt 0),
              (''outcome'', JStr ''not_started''), (''stop_reason'', JNull), (''last_error'', JNull)]
        in lbind (write_binding binding w) (\<lambda>_ w.
           lbind (append_event h ''loop_bound'' [(''session_id'', JStr (sm_id m)), (''adopted'', JBool (\<not> created))] w) (\<lambda>_ w.
           (Inr binding, w)))))"

text \<open>
  A new session: the request has the identifier made of the time and the seed filesystem at the path; its
  digests and goal are those of the target.
\<close>

definition identity_text :: "event_fields \<Rightarrow> string \<Rightarrow> string" where
  "identity_text d k = (case jget d k of JStr s \<Rightarrow> s | _ \<Rightarrow> [])"

definition session_request_for :: "loop_host \<Rightarrow> loop_config \<Rightarrow> event_fields \<Rightarrow> string \<Rightarrow> string \<Rightarrow> session_request" where
  "session_request_for h c identity store seed =
     (lh_request h)\<lparr>sq_store := store, sq_source := seed, sq_sample := identity_text identity ''target_elf_sha256'',
        sq_packed := identity_text identity ''host_binary_sha256'',
        sq_goal := (case bound_goal identity of JStr s \<Rightarrow> s | _ \<Rightarrow> []), sq_max := lc_max_iterations c\<rparr>"

definition open_session :: "loop_host \<Rightarrow> loop_config \<Rightarrow> event_fields \<Rightarrow> loop_world \<Rightarrow> (bool \<times> session_manifest) loop_outcome_at" where
  "open_session h c identity w =
     (case sw_session (lw_session w) of
        ArtSymlink \<Rightarrow> (Inl (LoopSymlink ''session manifest''), w)
      | ArtMissing \<Rightarrow>
          (case (lc_store c, lc_seed c) of
             (Some store, Some seed) \<Rightarrow>
               lbind (with_session (initialize_session (lh_session h (event_count w))
                  (session_request_for h c identity store seed) (lw_session w)) AtOpen w) (\<lambda>m w. (Inr (True, m), w))
           | _ \<Rightarrow> (Inl LoopNoSeed, w))
      | _ \<Rightarrow> lbind (pure_at (load_at h AtOpen w) w) (\<lambda>m w. (Inr (False, m), w)))"

definition open_or_initialize :: "loop_host \<Rightarrow> loop_config \<Rightarrow> loop_world \<Rightarrow> event_fields loop_outcome_at" where
  "open_or_initialize h c w =
     lbind (pure_at (target_identity h c (lw_binding w)) w) (\<lambda>identity w.
     lbind (open_session h c identity w) (\<lambda>(created, m) w.
     open_binding h c identity created m w))"

section \<open>An invocation\<close>

text \<open>The exceptions of the controller that \<open>run\<close> catches: \<open>IterationControllerError\<close> and \<open>OSError\<close>\<close>

fun session_caught :: "session_error \<Rightarrow> bool" where
  "session_caught (SessSnapshot e) = (e = SnapOs)"
| "session_caught (SessEscapedAttempt e) = False"
| "session_caught (SessEscapedObservation e) = False"
| "session_caught SessEscapedJson = False"
| "session_caught (SessRepair (RepairSnapshot e)) = (e = SnapOs)"
| "session_caught (SessRepair (RepairBuild (BuildManifest e))) = False"
| "session_caught e = True"

text \<open>A failure of a call, another error of the loop itself, or an exception that is not caught\<close>

datatype failure_kind = CallFailed | LoopFailed | NotCaught

fun failure_kind_of :: "loop_error \<Rightarrow> failure_kind" where
  "failure_kind_of (LoopSession p e) = (if session_caught e then CallFailed else NotCaught)"
| "failure_kind_of (LoopRunner (RunnerEscapes s)) = NotCaught"
| "failure_kind_of (LoopRunner e) = CallFailed"
| "failure_kind_of (LoopOs s) = CallFailed"
| "failure_kind_of (LoopConvert e) = NotCaught"
| "failure_kind_of e = LoopFailed"

definition handle_failure ::
    "loop_host \<Rightarrow> event_fields \<Rightarrow> int \<Rightarrow> loop_error \<Rightarrow> nat \<Rightarrow> loop_world \<Rightarrow> loop_result loop_outcome_at" where
  "handle_failure h binding invocation e executions w =
     (if failure_kind_of e = NotCaught then (Inl e, w)
      else
        lbind (append_event h ''invocation_failed'' [(''invocation_id'', JInt invocation), (''error'', JStr (lh_text h e))] w) (\<lambda>_ w.
        lbind (finalize h binding invocation LoopIntervention
          (Some (if failure_kind_of e = CallFailed then ''execution_or_transition_failure'' else ''operator_intervention_required''))
          executions (Some (lh_text h e)) w) (\<lambda>_ w. (Inl e, w))))"

definition run_invocation ::
    "loop_host \<Rightarrow> loop_config \<Rightarrow> loop_runner \<Rightarrow> event_fields \<Rightarrow> int \<Rightarrow> loop_world \<Rightarrow> (loop_error \<times> nat + loop_result) \<times> loop_world" where
  "run_invocation h c runner binding invocation w =
     (case verify_at h w of
        Inl e \<Rightarrow> (Inl (e, 0), w)
      | Inr _ \<Rightarrow>
          (if lc_init_only c
           then with_count 0 (finish_invocation h binding invocation LoopInitialized (Some ''initialize_only'') 0 w)
           else drive h c runner binding invocation 0 w))"

definition run_loop :: "loop_host \<Rightarrow> loop_config \<Rightarrow> loop_runner \<Rightarrow> loop_world \<Rightarrow> loop_result loop_outcome_at" where
  "run_loop h c runner w =
     (if lw_lock_link w then (Inl (LoopSymlink ''lock''), w)
      else if lw_lock_held w then (Inl LoopBusy, w)
      else
        lbind (open_or_initialize h c w) (\<lambda>binding w.
        lbind (pure_at (err_map LoopConvert (py_int (jget_or binding ''invocations'' (JInt 0)))) w) (\<lambda>invocations w.
        lbind (append_event h ''invocation_started'' [(''invocation_id'', JInt (invocations + 1)),
           (''max_steps'', JInt (lc_max_steps c)), (''initialize_only'', JBool (lc_init_only c))] w) (\<lambda>_ w.
        case run_invocation h c runner binding (invocations + 1) w of
          (Inl (e, n), v) \<Rightarrow> handle_failure h binding (invocations + 1) e n v
        | (Inr r, v) \<Rightarrow> (Inr r, v)))))"

definition loop_status :: "loop_host \<Rightarrow> loop_world \<Rightarrow> loop_error + (event_fields \<times> json)" where
  "loop_status h w =
     ebind (load_json_artifact (lw_binding w) ''synthesis loop manifest'') (\<lambda>d.
     ebind (load_at h AtLoad w) (\<lambda>m. Inr (d, session_to_dict m)))"

end
