(* ===== verification/Loop_Properties.thy ===== *)
theory Loop_Properties
  imports Synthesis_Loop Session_Verification
begin

text \<open>
  Lemmas on the synthesis loop: what an invocation leaves, which calls of the runner it makes, and what it keeps
  of a session.
\<close>

section \<open>Sequencing\<close>

lemma lbind_simps [simp]: "lbind (Inl e, w) k = (Inl e, w)" "lbind (Inr a, w) k = k a w" "pure_at r w = (r, w)"
  by (simp_all add: lbind_def pure_at_def)

lemma lbind_Inr: "lbind r k = (Inr b, v) \<longleftrightarrow> (\<exists>a w. r = (Inr a, w) \<and> k a w = (Inr b, v))"
  by (auto simp: lbind_def split: prod.splits sum.splits)

lemma lbind_cong: "r = r' \<Longrightarrow> (\<And>a w. r' = (Inr a, w) \<Longrightarrow> k a w = k' a w) \<Longrightarrow> lbind r k = lbind r' k'"
  by (auto simp: lbind_def split: prod.splits sum.splits)

section \<open>What an invocation writes\<close>

lemma map_of_upsert: "map_of (upsert fst (k, v) d) = (map_of d)(k \<mapsto> v)"
  by (induction d) auto

lemma jget_upsert: "jget_or (upsert fst (k, v) d) k' x = (if k' = k then v else jget_or d k' x)"
  by (simp add: jget_or_def map_of_upsert)

lemma append_event_keeps [simp]:
  "lw_session (snd (append_event h e items w)) = lw_session w" "lw_binding (snd (append_event h e items w)) = lw_binding w"
  by (simp_all add: append_event_def split: option.splits)

lemma append_event_Inr: "append_event h e items w = (Inr u, v) \<Longrightarrow> lw_session v = lw_session w \<and> lw_binding v = lw_binding w"
  using append_event_keeps [of h e items w] by simp

lemma append_event_Inl: "append_event h e items w = (Inl x, v) \<Longrightarrow> x = LoopSymlink ''event log'' \<and> v = w"
  by (simp add: append_event_def split: option.splits)

lemma finalize_keeps: "lw_session (snd (finalize h d iv out stop n err w)) = lw_session w"
  by (auto simp: finalize_def lbind_def pure_at_def write_binding_def write_report_def Let_def split: sum.splits option.splits)

lemma finalize_Inl: "finalize h d iv out stop n err w = (Inl x, v) \<Longrightarrow>
    load_at h AtLoad w = Inl x \<or> x \<in> {LoopSymlink ''replace'', LoopOs ''replace''}"
  by (auto simp: finalize_def lbind_def pure_at_def write_binding_def write_report_def write_artifact_def Let_def
      split: sum.splits option.splits artifact.splits)

lemma finalize_Inr:
  assumes "finalize h d iv out stop n err w = (Inr r, v)"
  obtains m b where "load_at h AtLoad w = Inr m" "lw_session v = lw_session w" "lw_binding v = ArtFile (Some (JObj b))"
    "r = \<lparr>lr_session = sm_id m, lr_outcome = out, lr_stop = stop, lr_executions = n, lr_total = length (sm_iterations m), lr_last = last_index m\<rparr>"
    "jget b ''outcome'' = JStr (loop_outcome_value out)" "jget b ''invocations'' = JInt iv"
    "jget b ''executions_last_invocation'' = JInt (int n)"
  using assms
  by (auto simp: finalize_def lbind_def pure_at_def write_binding_def write_report_def write_artifact_def Let_def field_update_def jget_upsert
      split: sum.splits option.splits artifact.splits)

section \<open>How the loop ends\<close>

lemma drive_ends:
  "drive h c runner d iv n w = (Inr r, v) \<Longrightarrow> int n \<le> lc_max_steps c \<Longrightarrow>
    \<exists>u m. finish_invocation h d iv (lr_outcome r) (lr_stop r) (lr_executions r) u = (Inr r, v) \<and> load_at h AtLoad u = Inr m \<and>
      pass_end c (lr_executions r) m = Some (lr_outcome r, lr_stop r) \<and> int (lr_executions r) \<le> lc_max_steps c"
proof (induction h c runner d iv n w arbitrary: r v rule: drive.induct)
  case (1 h c runner d iv n w)
  note step = "1.prems"(1) [unfolded drive.simps [of h c runner d iv n w]]
  obtain m where m: "load_at h AtLoad w = Inr m" using step by (cases "load_at h AtLoad w") auto
  show ?case
  proof (cases "pass_end c n m")
    case (Some p)
    then obtain out stop where p: "pass_end c n m = Some (out, stop)" by (cases p) auto
    with step m obtain fin: "finish_invocation h d iv out stop n w = (Inr r, v)"
      by (cases "finish_invocation h d iv out stop n w"; cases "fst (finish_invocation h d iv out stop n w)") (auto simp: with_count_def)
    then have "lr_outcome r = out" "lr_stop r = stop" "lr_executions r = n"
      by (auto simp: finish_invocation_def lbind_Inr elim: finalize_Inr)
    with fin m p "1.prems"(2) show ?thesis by auto
  next
    case None
    then have less: "int (Suc n) \<le> lc_max_steps c" by (auto simp: pass_end_def split: session_state.splits if_splits)
    from step m None obtain x u where x: "run_iteration h c runner iv m w = (Inr x, u)"
      by (cases "run_iteration h c runner iv m w"; cases "fst (run_iteration h c runner iv m w)") auto
    with step m None obtain t where t: "after_iteration h iv x u = (Inr (), t)"
      by (cases "after_iteration h iv x u"; cases "fst (after_iteration h iv x u)") auto
    from step m None x t have "drive h c runner d iv (Suc n) t = (Inr r, v)" by simp
    from "1.IH" [OF m None x [symmetric] _ t [symmetric] _ this less] show ?thesis by simp
  qed
qed

lemma finish_invocation_Inr:
  assumes "finish_invocation h d iv out stop n w = (Inr r, v)"
  obtains m b where "load_at h AtLoad w = Inr m" "lw_session v = lw_session w" "lw_binding v = ArtFile (Some (JObj b))"
    "r = \<lparr>lr_session = sm_id m, lr_outcome = out, lr_stop = stop, lr_executions = n, lr_total = length (sm_iterations m), lr_last = last_index m\<rparr>"
    "jget b ''outcome'' = JStr (loop_outcome_value out)" "jget b ''invocations'' = JInt iv"
    "jget b ''executions_last_invocation'' = JInt (int n)"
proof -
  from assms obtain u where "finalize h d iv out stop n None w = (Inr r, u)" "lw_session v = lw_session u" "lw_binding v = lw_binding u"
    by (auto simp: finish_invocation_def lbind_Inr dest!: append_event_Inr)
  then show thesis by (auto intro: that elim!: finalize_Inr)
qed

section \<open>Which iterations are run\<close>

text \<open>The latest iteration of an active session, prepared and without a claim\<close>

definition loop_ready :: "loop_host \<Rightarrow> session_world \<Rightarrow> runner_config \<Rightarrow> bool" where
  "loop_ready h s pc \<longleftrightarrow> (\<exists>k m r. controller_load (lh_session h k) s = Inr m \<and> sm_state m = SessionActive \<and> sm_iterations m \<noteq> [] \<and>
     r = last (sm_iterations m) \<and> ir_state r = IterationPrepared \<and> pc_index pc = ir_index r \<and>
     sw_files s (below (ir_directory r) [''execution_attempt.json'']) = ArtMissing)"

lemma record_reload_directory: "record_from_dict (record_to_dict r) = Inr r' \<Longrightarrow> ir_directory r' = ir_directory r"
  by (auto simp: record_from_dict_def record_to_dict_def result_simps session_field_Inr Let_def)

lemma session_reload_last:
  assumes "session_from_dict (session_to_dict m) = Inr m'" "sm_iterations m = its @ [r]"
  shows "sm_iterations m' \<noteq> [] \<and> record_from_dict (record_to_dict r) = Inr (last (sm_iterations m'))"
proof -
  have "emap record_from_dict (map record_to_dict (sm_iterations m)) = Inr (sm_iterations m')"
    using assms(1) by (auto simp: session_from_dict_def session_to_dict_def result_simps)
  then have "list_all2 (\<lambda>v x. record_from_dict v = Inr x) (map record_to_dict (its @ [r])) (sm_iterations m')"
    unfolding assms(2) by (simp only: emap_Inr_list_all2)
  then show ?thesis by (auto simp: list_all2_append1 list_all2_Cons1)
qed

lemma check_claim_Inr: "check_claim s r = Inr () \<Longrightarrow> sw_files s (below (ir_directory r) [''execution_attempt.json'']) = ArtMissing"
  by (auto simp: check_claim_def result_simps split: artifact.splits)

lemma verify_at_load: "verify_at h w = Inr m \<Longrightarrow> controller_load (lh_session h (event_count w)) (lw_session w) = Inr m"
  by (auto simp: verify_at_def err_map_Inr_iff verify_session_Inr)

lemma next_iteration_ready:
  assumes load: "load_at h AtLoad w = Inr m" "pass_end c n m = None" and it: "next_iteration h iv m w = (Inr r, v)"
    and claim: "check_claim (lw_session v) r = Inr ()"
  shows "loop_ready h (lw_session v) (runner_config_of c r spec)"
proof -
  have m: "controller_load (lh_session h (event_count w)) (lw_session w) = Inr m" using load(1) by (simp add: load_at_def err_map_Inr_iff)
  have active: "sm_state m = SessionActive" using load(2) by (cases "sm_state m") (auto simp: pass_end_def)
  note free = check_claim_Inr [OF claim]
  show ?thesis
  proof (cases "sm_iterations m \<noteq> [] \<and> ir_state (last (sm_iterations m)) = IterationPrepared")
    case True
    then show ?thesis using it m active free by (auto simp: next_iteration_def loop_ready_def runner_config_of_def)
  next
    case False
    with it obtain s t m' where step: "prepare_next (lh_session h (event_count w)) (lh_env h (event_count w)) (lw_session w) = (Inr r, s)"
      and v: "verify_at h v = Inr m'" "lw_session v = s"
      by (cases "prepare_next (lh_session h (event_count w)) (lh_env h (event_count w)) (lw_session w)")
        (auto simp: next_iteration_def lbind_Inr with_session_def err_map_Inr_iff split: if_splits dest!: append_event_Inr)
    from prepare_next_done [OF step] controller_load_Inr [OF m] have s: "ir_state r = IterationPrepared"
        "sw_session s = ArtFile (Some (session_to_dict (replace_session (sh_clock (lh_session h (event_count w)) 1) m (sm_iterations m @ [r]) None None)))"
      by auto
    from verify_at_load [OF v(1)] have m': "controller_load (lh_session h (event_count v)) s = Inr m'" by (simp add: v(2))
    then have reload: "session_from_dict (session_to_dict (replace_session (sh_clock (lh_session h (event_count w)) 1) m (sm_iterations m @ [r]) None None)) = Inr m'"
      using controller_load_Inr [OF m'] s(2) by (simp add: load_session_def)
    from session_reload_last [OF reload] have last: "sm_iterations m' \<noteq> []" "record_from_dict (record_to_dict r) = Inr (last (sm_iterations m'))"
      by (auto simp: replace_session_def)
    have "sm_state m' = SessionActive" using session_reload(3) [OF reload] active by (simp add: replace_session_def)
    with last m' free s(1) v(2) record_reload [OF last(2)] record_reload_directory [OF last(2)] show ?thesis
      unfolding loop_ready_def
      by (intro exI [of _ "event_count v"] exI [of _ m'] exI [of _ "last (sm_iterations m')"]) (simp add: runner_config_of_def)
  qed
qed

lemma drive_runner_cong:
  assumes "\<And>pc s. loop_ready h s pc \<Longrightarrow> runner pc s = runner' pc s"
  shows "drive h c runner d iv n w = drive h c runner' d iv n w"
  using assms
proof (induction h c runner d iv n w rule: drive.induct)
  case (1 h c runner d iv n w)
  show ?case
  proof (cases "load_at h AtLoad w")
    case (Inl e)
    then show ?thesis by (simp add: drive.simps)
  next
    case (Inr m)
    note m = this
    show ?thesis
    proof (cases "pass_end c n m")
      case (Some p)
      with m show ?thesis by (cases p) (simp add: drive.simps)
    next
      case None
      have same: "run_iteration h c runner iv m w = run_iteration h c runner' iv m w"
        unfolding run_iteration_def
        by (intro lbind_cong refl)
          (auto simp: lbind_Inr pure_at_def "1.prems" next_iteration_ready [OF m None] dest!: append_event_Inr split: sum.splits prod.splits)
      show ?thesis
      proof (cases "run_iteration h c runner iv m w")
        case (Pair x v)
        show ?thesis
        proof (cases x)
          case (Inl e)
          with m None Pair same [symmetric] show ?thesis by (simp add: drive.simps)
        next
          case (Inr y)
          note y = this
          obtain z u where z: "after_iteration h iv y v = (z, u)" by fastforce
          show ?thesis
          proof (cases z)
            case (Inl e)
            with m None Pair same [symmetric] y z show ?thesis by (simp add: drive.simps)
          next
            case (Inr a)
            with "1.IH" [OF m None _ y z [symmetric]] Pair y "1.prems" have "drive h c runner d iv (Suc n) u = drive h c runner' d iv (Suc n) u"
              by (metis prod.exhaust)
            with m None Pair same [symmetric] y z Inr show ?thesis by (simp add: drive.simps [of h c _ d iv n w])
          qed
        qed
      qed
    qed
  qed
qed


lemma run_loop_runner_cong:
  assumes "\<And>pc s. loop_ready h s pc \<Longrightarrow> runner pc s = runner' pc s"
  shows "run_loop h c runner w = run_loop h c runner' w"
proof -
  have "run_invocation h c runner d iv u = run_invocation h c runner' d iv u" for d iv u
    using drive_runner_cong [of h runner runner', OF assms] by (simp add: run_invocation_def split: sum.splits)
  then show ?thesis by (simp add: run_loop_def cong: lbind_cong)
qed

section \<open>What the loop keeps of a session\<close>

text \<open>
  The runner claims iterations and completes the prepared one, and leaves the session alone otherwise; every
  call of the controller has the host of the session.
\<close>

definition loop_site :: "session_host \<Rightarrow> snap_store \<Rightarrow> loop_host \<Rightarrow> bool" where
  "loop_site h0 cwd h \<longleftrightarrow> session_site h0 cwd \<and> (\<forall>k. session_caller h0 cwd (lh_session h k) (lh_env h k))"

definition runner_keeps :: "session_host \<Rightarrow> snap_store \<Rightarrow> loop_runner \<Rightarrow> bool" where
  "runner_keeps h0 cwd runner \<longleftrightarrow> (\<forall>pc s x t. session_history h0 cwd s \<longrightarrow> runner pc s = (x, t) \<longrightarrow> session_history h0 cwd t)"

text \<open>A session that loads, which calls that raise keep\<close>

definition loads_still :: "session_host \<Rightarrow> snap_store \<Rightarrow> session_world \<Rightarrow> bool" where
  "loads_still h0 cwd s \<longleftrightarrow> (\<exists>w. session_history h0 cwd w \<and> sw_session s = sw_session w)"

lemma history_loads:
  assumes "loop_site h0 cwd h" "loads_still h0 cwd (lw_session w)"
  shows "\<exists>m. load_at h phase w = Inr m"
proof -
  obtain s where s: "session_history h0 cwd s" "sw_session (lw_session w) = sw_session s" using assms(2) by (auto simp: loads_still_def)
  from session_history_ok [OF s(1)] assms(1) obtain m ms where "session_ok h0 cwd s m ms" by (auto simp: loop_site_def)
  then have "manifest_ok h0 m" "sw_session (lw_session w) = ArtFile (Some (session_to_dict m))" using s(2) by (simp_all add: session_ok_def)
  then have "controller_load (lh_session h (event_count w)) (lw_session w) = Inr m"
    using saved_session_loads [of h0 m cwd _ "lh_env h (event_count w)"] assms(1) by (simp add: loop_site_def)
  then show ?thesis by (simp add: load_at_def)
qed

lemma history_verifies:
  assumes "loop_site h0 cwd h" "session_history h0 cwd (lw_session w)"
  shows "\<exists>m. verify_at h w = Inr m"
  using session_history_ok [OF assms(2)] session_ok_verifies assms(1) by (fastforce simp: loop_site_def verify_at_def)

lemma history_still: "session_history h0 cwd s \<Longrightarrow> loads_still h0 cwd s"
  by (auto simp: loads_still_def)

text \<open>An error that is no failure to load or to verify the session\<close>

fun no_damage :: "loop_error \<Rightarrow> bool" where
  "no_damage (LoopSession AtLoad e) = False"
| "no_damage (LoopSession AtVerify e) = False"
| "no_damage e = True"

lemma finish_no_damage:
  assumes "loop_site h0 cwd h" "loads_still h0 cwd (lw_session w)" "finish_invocation h d iv out stop n w = (Inl e, v)"
  shows "no_damage e \<and> lw_session v = lw_session w"
proof -
  obtain m where m: "load_at h AtLoad w = Inr m" using history_loads [OF assms(1,2)] by blast
  obtain x u where fin: "finalize h d iv out stop n None w = (x, u)" by fastforce
  with finalize_keeps [of h d iv out stop n None w] have u: "lw_session u = lw_session w" by simp
  show ?thesis
  proof (cases x)
    case (Inl y)
    with assms(3) fin u finalize_Inl [of h d iv out stop n None w y u] m show ?thesis by (auto simp: finish_invocation_def)
  next
    case (Inr r)
    obtain y t where ev: "append_event h ''invocation_finished'' [(''invocation_id'', JInt iv),
        (''outcome'', JStr (loop_outcome_value out)), (''stop_reason'', opt_str stop)] u = (y, t)" by fastforce
    with assms(3) fin u Inr show ?thesis by (cases y) (auto simp: finish_invocation_def dest!: append_event_Inl)
  qed
qed

lemma next_iteration_keeps:
  assumes site: "loop_site h0 cwd h" and hist: "session_history h0 cwd (lw_session w)" and it: "next_iteration h iv m w = (x, v)"
  shows "loads_still h0 cwd (lw_session v)" "x = Inr r \<Longrightarrow> session_history h0 cwd (lw_session v)" "x = Inl e \<Longrightarrow> no_damage e"
proof -
  have "loads_still h0 cwd (lw_session v) \<and> (\<forall>r. x = Inr r \<longrightarrow> session_history h0 cwd (lw_session v)) \<and> (\<forall>e. x = Inl e \<longrightarrow> no_damage e)"
  proof (cases "sm_iterations m \<noteq> [] \<and> ir_state (last (sm_iterations m)) = IterationPrepared")
    case True
    then show ?thesis using it hist history_still by (auto simp: next_iteration_def)
  next
    case False
    let ?k = "event_count w"
    obtain y s where step: "prepare_next (lh_session h ?k) (lh_env h ?k) (lw_session w) = (y, s)" by fastforce
    show ?thesis
    proof (cases y)
      case (Inl e)
      have "loads_still h0 cwd s" using prepare_next_failed [OF step [unfolded Inl]] hist by (auto simp: loads_still_def)
      then show ?thesis using it False step Inl by (auto simp: next_iteration_def with_session_def)
    next
      case (Inr r)
      have s: "session_history h0 cwd s"
        using session_history.prepared [OF hist _ step [unfolded Inr]] site by (auto simp: loop_site_def)
      obtain z u where ev: "append_event h ''iteration_prepared'' (prepared_event iv r) (w\<lparr>lw_session := s\<rparr>) = (z, u)" by fastforce
      have u: "lw_session u = s"
        using append_event_keeps(1) [of h "''iteration_prepared''" "prepared_event iv r" "w\<lparr>lw_session := s\<rparr>"] ev by simp
      obtain n where "verify_at h u = Inr n" using history_verifies [OF site, of u] s u by auto
      then show ?thesis using it False step Inr ev u s history_still [OF s]
        by (cases z) (auto simp: next_iteration_def with_session_def dest: append_event_Inl)
    qed
  qed
  then show "loads_still h0 cwd (lw_session v)" "x = Inr r \<Longrightarrow> session_history h0 cwd (lw_session v)" "x = Inl e \<Longrightarrow> no_damage e"
    by blast+
qed


lemma run_iteration_keeps:
  assumes site: "loop_site h0 cwd h" "runner_keeps h0 cwd runner" and hist: "session_history h0 cwd (lw_session w)"
    and run: "run_iteration h c runner iv m w = (x, v)"
  shows "loads_still h0 cwd (lw_session v)" "x = Inr r \<Longrightarrow> session_history h0 cwd (lw_session v)" "x = Inl e \<Longrightarrow> no_damage e"
proof -
  have "loads_still h0 cwd (lw_session v) \<and> (\<forall>r. x = Inr r \<longrightarrow> session_history h0 cwd (lw_session v)) \<and> (\<forall>e. x = Inl e \<longrightarrow> no_damage e)"
  proof -
    obtain y u where it: "next_iteration h iv m w = (y, u)" by fastforce
    note kept = next_iteration_keeps [OF site(1) hist it]
    show ?thesis
    proof (cases y)
      case (Inl e)
      then show ?thesis using run kept it by (auto simp: run_iteration_def)
    next
      case (Inr r)
      note 2 = it [unfolded Inr] and u = kept(2) [OF Inr]
    show ?thesis
    proof (cases "check_claim (lw_session u) r")
      case (Inl e)
      then have "no_damage e"
        by (auto simp: check_claim_def load_json_artifact_def split: artifact.splits option.splits json.splits)
      then show ?thesis using run 2 Inl u history_still by (auto simp: run_iteration_def)
    next
      case (Inr a)
      note claim = this
      show ?thesis
      proof (cases "effective_target_spec h c (lw_binding u)")
        case (Inl e)
        then have "no_damage e"
          by (auto simp: effective_target_spec_def load_json_artifact_def Let_def split: artifact.splits option.splits json.splits list.splits)
        then show ?thesis using run 2 claim Inl u history_still by (auto simp: run_iteration_def)
      next
        case (Inr spec)
        obtain z t where ev: "append_event h ''iteration_execution_started'' [(''invocation_id'', JInt iv), (''iteration'', JInt (ir_index r))] u = (z, t)"
          by fastforce
        show ?thesis
        proof (cases z)
          case (Inl e)
          then show ?thesis using run 2 claim Inr ev u history_still append_event_Inl [OF ev [unfolded Inl]] by (auto simp: run_iteration_def)
        next
          case (Inr b)
          have t: "lw_session t = lw_session u" using append_event_Inr [OF ev [unfolded Inr]] by simp
          obtain y s where y: "runner (runner_config_of c r spec) (lw_session t) = (y, s)" by fastforce
          then have s: "session_history h0 cwd s" using site(2) u t unfolding runner_keeps_def by metis
          from run 2 claim \<open>effective_target_spec h c (lw_binding u) = Inr spec\<close> ev Inr y
          show ?thesis using s history_still [OF s] by (cases y) (auto simp: run_iteration_def)
        qed
      qed
    qed
    qed
  qed
  then show "loads_still h0 cwd (lw_session v)" "x = Inr r \<Longrightarrow> session_history h0 cwd (lw_session v)" "x = Inl e \<Longrightarrow> no_damage e"
    by blast+
qed

lemma after_iteration_keeps:
  assumes site: "loop_site h0 cwd h" and hist: "session_history h0 cwd (lw_session w)" and run: "after_iteration h iv r w = (x, v)"
  shows "lw_session v = lw_session w" "x = Inl e \<Longrightarrow> no_damage e"
proof -
  obtain z u where ev: "append_event h ''iteration_completed'' (completed_event iv r) w = (z, u)" by fastforce
  have u: "lw_session u = lw_session w" using append_event_keeps(1) [of h "''iteration_completed''" "completed_event iv r" w] ev by simp
  obtain n where "verify_at h u = Inr n" using history_verifies [OF site, of u] hist u by auto
  then show "lw_session v = lw_session w" "x = Inl e \<Longrightarrow> no_damage e"
    using run ev u by (cases z; auto simp: after_iteration_def dest: append_event_Inl)+
qed

lemma drive_keeps:
  "loop_site h0 cwd h \<Longrightarrow> runner_keeps h0 cwd runner \<Longrightarrow> session_history h0 cwd (lw_session w) \<Longrightarrow>
    drive h c runner d iv n w = (x, v) \<Longrightarrow>
    loads_still h0 cwd (lw_session v) \<and> (\<forall>r. x = Inr r \<longrightarrow> session_history h0 cwd (lw_session v)) \<and> (\<forall>e k. x = Inl (e, k) \<longrightarrow> no_damage e)"
proof (induction h c runner d iv n w arbitrary: x v rule: drive.induct)
  case (1 h c runner d iv n w)
  note site = "1.prems"(1,2) and hist = "1.prems"(3) and step = "1.prems"(4) [unfolded drive.simps [of h c runner d iv n w]]
  obtain m where m: "load_at h AtLoad w = Inr m" using history_loads [OF site(1) history_still [OF hist]] by blast
  show ?case
  proof (cases "pass_end c n m")
    case (Some p)
    then obtain out stop where p: "pass_end c n m = Some (out, stop)" by (cases p) auto
    obtain y u where fin: "finish_invocation h d iv out stop n w = (y, u)" by fastforce
    show ?thesis
    proof (cases y)
      case (Inl e)
      with step m p fin finish_no_damage [OF site(1) history_still [OF hist] fin [unfolded Inl]] show ?thesis
        using history_still [OF hist] by (auto simp: with_count_def)
    next
      case (Inr r)
      from fin [unfolded Inr] have "lw_session u = lw_session w" by (rule finish_invocation_Inr)
      with step m p fin Inr show ?thesis using hist history_still [OF hist] by (auto simp: with_count_def)
    qed
  next
    case None
    obtain y u where run: "run_iteration h c runner iv m w = (y, u)" by fastforce
    note u = run_iteration_keeps [OF site hist run]
    show ?thesis
    proof (cases y)
      case (Inl e)
      with step m None run u show ?thesis by auto
    next
      case (Inr z)
      obtain q t where after: "after_iteration h iv z u = (q, t)" by fastforce
      note t = after_iteration_keeps [OF site(1) u(2) [OF Inr] after]
      show ?thesis
      proof (cases q)
        case (Inl e)
        with step m None run Inr after t u(1) show ?thesis by auto
      next
        case Inr2: (Inr b)
        have "drive h c runner d iv (Suc n) t = (x, v)" using step m None run Inr after Inr2 by simp
        from "1.IH" [OF m None _ Inr after [symmetric] Inr2 site _ this] run t(1) u(2) [OF Inr] show ?thesis by simp
      qed
    qed
  qed
qed

section \<open>Whole invocations\<close>

text \<open>An invocation on a session that exists leaves opening it to what is read\<close>

lemma open_session_keeps:
  assumes "sw_session (lw_session w) = ArtFile a" "open_session h c identity w = (x, v)"
  shows "lw_session v = lw_session w"
  using assms by (cases "load_at h AtOpen w") (auto simp: open_session_def)

lemma open_binding_keeps: "open_binding h c identity created m w = (x, v) \<Longrightarrow> lw_session v = lw_session w"
  by (auto simp: open_binding_def lbind_def pure_at_def write_binding_def append_event_def Let_def
      split: sum.splits option.splits if_splits)

lemma open_or_initialize_keeps:
  assumes "sw_session (lw_session w) = ArtFile a" "open_or_initialize h c w = (x, v)"
  shows "lw_session v = lw_session w"
proof (cases "target_identity h c (lw_binding w)")
  case (Inl e)
  then show ?thesis using assms(2) by (simp add: open_or_initialize_def)
next
  case (Inr identity)
  obtain y u where u: "open_session h c identity w = (y, u)" by fastforce
  with open_session_keeps [OF assms(1)] have keep: "lw_session u = lw_session w" by blast
  show ?thesis
    using assms(2) Inr u keep by (cases y) (auto simp: open_or_initialize_def split: prod.splits dest: open_binding_keeps)
qed

text \<open>
  An invocation that returns: it runs at most as many iterations as the configuration allows, and its result
  tells how the session stands that it leaves.
\<close>

definition result_describes :: "loop_host \<Rightarrow> loop_config \<Rightarrow> loop_result \<Rightarrow> loop_world \<Rightarrow> bool" where
  "result_describes h c r v \<longleftrightarrow> (\<exists>k m. controller_load (lh_session h k) (lw_session v) = Inr m \<and>
     lr_session r = sm_id m \<and> lr_total r = length (sm_iterations m) \<and> lr_last r = last_index m \<and>
     (if lc_init_only c then lr_outcome r = LoopInitialized else pass_end c (lr_executions r) m = Some (lr_outcome r, lr_stop r)))"

lemma finish_describes:
  assumes fin: "finish_invocation h d iv out stop n w = (Inr r, v)" and load: "load_at h AtLoad w = Inr m"
    and "if lc_init_only c then out = LoopInitialized else pass_end c n m = Some (out, stop)"
  shows "result_describes h c r v \<and> lw_session v = lw_session w \<and> lr_executions r = n"
  using fin
proof (rule finish_invocation_Inr)
  fix m' b
  assume m': "load_at h AtLoad w = Inr m'" and keep: "lw_session v = lw_session w"
    and r: "r = \<lparr>lr_session = sm_id m', lr_outcome = out, lr_stop = stop, lr_executions = n,
      lr_total = length (sm_iterations m'), lr_last = last_index m'\<rparr>"
  from m' load have "m' = m" by simp
  with r keep load assms(3) show ?thesis
    by (auto simp: result_describes_def load_at_def err_map_Inr_iff intro!: exI [of _ "event_count w"])
qed

lemma run_invocation_describes:
  assumes run: "run_invocation h c runner d iv w = (Inr r, v)" and steps: "0 \<le> lc_max_steps c"
  shows "result_describes h c r v \<and> int (lr_executions r) \<le> lc_max_steps c"
proof (cases "lc_init_only c")
  case True
  obtain x u where fin: "finish_invocation h d iv LoopInitialized (Some ''initialize_only'') 0 w = (x, u)" by fastforce
  with run True have inv: "finish_invocation h d iv LoopInitialized (Some ''initialize_only'') 0 w = (Inr r, v)"
    by (cases x) (auto simp: run_invocation_def with_count_def split: sum.splits)
  from inv obtain m where "load_at h AtLoad w = Inr m" by (rule finish_invocation_Inr)
  from finish_describes [OF inv this, of c] True steps show ?thesis by simp
next
  case False
  with run have "drive h c runner d iv 0 w = (Inr r, v)" by (auto simp: run_invocation_def split: sum.splits)
  from drive_ends [OF this] steps obtain u m where fin: "finish_invocation h d iv (lr_outcome r) (lr_stop r) (lr_executions r) u = (Inr r, v)" "load_at h AtLoad u = Inr m"
    and ends: "pass_end c (lr_executions r) m = Some (lr_outcome r, lr_stop r)" "int (lr_executions r) \<le> lc_max_steps c" by auto
  from finish_describes [OF fin, of c] False ends show ?thesis by simp
qed

lemma handle_failure_raises: "fst (handle_failure h d n e k w) \<noteq> Inr r"
  by (auto simp: handle_failure_def lbind_def split: sum.splits prod.splits)

lemma run_loop_Inr:
  assumes "run_loop h c runner w = (Inr r, v)"
  obtains d u n t where "open_or_initialize h c w = (Inr d, u)" "lw_session t = lw_session u"
    "run_invocation h c runner d n t = (Inr r, v)"
proof -
  let ?go = "\<lambda>d n t. case run_invocation h c runner d (n + 1) t of (Inl (e, k), v) \<Rightarrow> handle_failure h d (n + 1) e k v | (Inr r, v) \<Rightarrow> (Inr r, v)"
  have free: "\<not> lw_lock_link w" "\<not> lw_lock_held w" using assms by (auto simp: run_loop_def split: if_splits)
  from assms obtain d u n t b where u: "open_or_initialize h c w = (Inr d, u)"
    and t: "append_event h ''invocation_started'' [(''invocation_id'', JInt (n + 1)),
      (''max_steps'', JInt (lc_max_steps c)), (''initialize_only'', JBool (lc_init_only c))] u = (Inr b, t)"
    and go: "?go d n t = (Inr r, v)"
    unfolding run_loop_def if_not_P [OF free(1)] if_not_P [OF free(2)] lbind_Inr pure_at_def prod.inject by blast
  obtain x s where x: "run_invocation h c runner d (n + 1) t = (x, s)" by fastforce
  have "x = Inr r \<and> s = v"
  proof (cases x)
    case (Inl y)
    with go x handle_failure_raises [of h d "n + 1" "fst y" "snd y" s r] show ?thesis by (cases y) simp
  next
    case (Inr y)
    with go x show ?thesis by simp
  qed
  with x u append_event_Inr [OF t] show thesis by (intro that [of d u t "n + 1"]) simp_all
qed

theorem run_loop_describes:
  assumes "run_loop h c runner w = (Inr r, v)" "0 \<le> lc_max_steps c"
  shows "result_describes h c r v \<and> int (lr_executions r) \<le> lc_max_steps c"
  using assms(1) by (rule run_loop_Inr) (rule run_invocation_describes [OF _ assms(2)])

theorem run_loop_verifies:
  assumes site: "loop_site h0 cwd h" "runner_keeps h0 cwd runner" and hist: "session_history h0 cwd (lw_session w)"
    and run: "run_loop h c runner w = (Inr r, v)"
  shows "session_history h0 cwd (lw_session v) \<and> (\<exists>m. verify_at h v = Inr m)"
proof -
  from session_history_ok [OF hist] site(1) obtain m ms where "session_ok h0 cwd (lw_session w) m ms" by (auto simp: loop_site_def)
  then have saved: "sw_session (lw_session w) = ArtFile (Some (session_to_dict m))" by (simp add: session_ok_def)
  from run obtain d u n t where u: "open_or_initialize h c w = (Inr d, u)" "lw_session t = lw_session u"
    "run_invocation h c runner d n t = (Inr r, v)" by (rule run_loop_Inr)
  with open_or_initialize_keeps [OF saved u(1)] hist have t: "session_history h0 cwd (lw_session t)" by simp
  have "session_history h0 cwd (lw_session v)"
  proof (cases "lc_init_only c")
    case True
    obtain x q where fin: "finish_invocation h d n LoopInitialized (Some ''initialize_only'') 0 t = (x, q)" by fastforce
    with u(3) True have "finish_invocation h d n LoopInitialized (Some ''initialize_only'') 0 t = (Inr r, v)"
      by (cases x) (auto simp: run_invocation_def with_count_def split: sum.splits)
    then have "lw_session v = lw_session t" by (rule finish_invocation_Inr)
    then show ?thesis using t by simp
  next
    case False
    with u(3) have "drive h c runner d n 0 t = (Inr r, v)" by (auto simp: run_invocation_def split: sum.splits)
    from drive_keeps [OF site t this] show ?thesis by simp
  qed
  then show ?thesis using history_verifies [OF site(1)] by blast
qed

end
