(* ===== verification/Spec2Isabelle.thy ===== *)
theory Spec2Isabelle
  imports Apply_Properties Egress_Properties Extraction_Properties Attempt_Properties Target_Properties
    Session_Properties Session_Verification Loop_Properties
begin

text \<open>
  A verification library for the Python package \<open>taintforge_env\<close> of TaintForge-IoT, the system that
  runs a packed binary in a reconstructed environment, extracts what the run needed, plans and applies
  repairs of the root filesystem, and iterates until a target state is reached.

  \<^bold>\<open>Parts of the program and theories.\<close>  In the order the data flows:
  \<^item> \<open>requirement_extractor.py\<close> and \<open>observations.py\<close> (theories \<open>Requirement_Extractor\<close>,
    \<open>Python_Text\<close>, \<open>Extraction_Properties\<close>): the normalized events of one run become a report
    of runtime requirements; one definition per extraction pass, the mutable dictionary of pending
    requirements is an association list.
  \<^item> \<open>requirements.py\<close> (\<open>Requirements\<close>, with the field checks shared by the codecs in
    \<open>Field_Checks\<close>, enumerations in \<open>Enums\<close>) and \<open>repair_plan.py\<close> (\<open>Repair_Plan\<close>): the
    persisted report and plan, their validation and codec.
  \<^item> \<open>repair_planner.py\<close> (\<open>Repair_Planner\<close>, with \<open>Posix_Path\<close>, \<open>Url_Split\<close> and
    \<open>Ip_Address\<close> for the parts of the standard library it calls): one decision per requirement.
  \<^item> \<open>repair_applier.py\<close> (\<open>Repair_Applier\<close>; \<open>Applier_Transaction\<close>, \<open>Applier_Results\<close> and
    \<open>Applier_Tree\<close> hold the lemmas and the model of a directory tree, \<open>Applier_Credit\<close> what the report
    credits each decision with): preflight, transaction and rollback over an interface of filesystem
    calls, locales interpreted on the tree.
    \<open>Guest_Paths\<close>, \<open>Repair_Pipeline\<close> and \<open>Apply_Properties\<close> relate it to the planner.
  \<^item> \<open>network_modes.py\<close>, \<open>egress_policy.py\<close> (\<open>Network_Modes\<close>, \<open>Egress_Policy\<close>,
    \<open>Egress_Properties\<close>): which network modes are live, and which requests leave the sandbox.
  \<^item> \<open>attempt.py\<close> (\<open>Attempt\<close>, \<open>Attempt_Store\<close>, \<open>Attempt_Properties\<close>, with
    \<open>Canonical_Json\<close>, \<open>Sha256\<close> and \<open>Iso_Time\<close>): contracts and results of execution attempts,
    the machine of execution stages, and the append-only store.
  \<^item> \<open>target_state_oracle.py\<close> (\<open>Target_Spec\<close>, \<open>Target_Oracle\<close>, \<open>Target_Properties\<close>): the
    specification of a target state and its evaluation against the files of a run.
  \<^item> \<open>progress_oracle.py\<close> (\<open>Progress_Oracle\<close>): normalization, fingerprints and metrics of the
    artifacts of an iteration, and the comparison of two iterations.
  \<^item> \<open>environment_manifest.py\<close> (\<open>Environment_Manifest\<close>, \<open>Environment_Properties\<close>): the record of
    what an environment consists of and why, with its identifier and codec, and the store of one file per
    version; \<open>environment_snapshot.py\<close> (\<open>Environment_Snapshot\<close>; \<open>Snapshot_Clone\<close> and
    \<open>Snapshot_Properties\<close>): scan, digest and copy of a root filesystem, a list of paths with the inodes
    they name, and the content-addressed store; \<open>environment_manifest_builder.py\<close>
    (\<open>Manifest_Builder\<close>, \<open>Builder_Properties\<close>, \<open>Builder_Success\<close>): the seed manifest and the
    manifest derived from a repair.
  \<^item> \<open>_build_repaired_snapshot\<close> of the controller (\<open>Repair_Step\<close>, with \<open>Json_Text\<close>): clone, apply,
    capture and derive.  \<open>Snapshot_Tree\<close> gives the applier's filesystem calls on a snapshot,
    \<open>Applier_Report\<close>, \<open>Repair_Iteration\<close> and \<open>Iteration_Properties\<close> what a step records.
  \<^item> \<open>iteration_controller.py\<close> (\<open>Session_Manifest\<close>, \<open>Artifact_Bundle\<close>,
    \<open>Session_Controller\<close>; lemmas in \<open>Session_Runs\<close>, an example in \<open>Session_Example\<close>,
    properties in \<open>Session_Properties\<close>): the session of iterations.  A call takes the state of the
    session directory with its stores (\<open>session_world\<close>) and returns it with a result or an error.
    The proof that sessions verify goes through \<open>Session_Paths\<close> (the files of iterations),
    \<open>Session_Verified\<close> (the parts of a verification and what they read), \<open>Session_Step\<close> (the
    invariant), \<open>Session_Preparation\<close>, \<open>Session_Completion\<close>, \<open>Session_History\<close> (one theory per
    call), \<open>Session_Cycle\<close>, \<open>Repair_Retry\<close>, \<open>Stuck_Session\<close> and \<open>Session_Verification\<close>.
  \<^item> \<open>synthesis_loop.py\<close> (\<open>Synthesis_Binding\<close>, \<open>Synthesis_Loop\<close>, \<open>Loop_Properties\<close>): the
    configuration that a session is bound to and its verification, and the invocation that prepares and runs
    iterations until the session ends, the steps are used up or a call raises.  The runner and the choice of an
    execution backend are arguments; other files are read from a map of paths, and the state
    (\<open>loop_world\<close>) is the session with the binding, the log of events and the report.

  \<open>Prelude\<close> holds results, JSON values, and the string functions all of them use.

  \<^bold>\<open>What the groups of lemmas show.\<close>  For every persisted artifact: what the loader accepts is
  well-formed, and well-formed values load back as written.  For the planner: totality, order, and the
  exact condition of an automatic repair.  For the applier: no run touches what it should not, a run
  that raises restores the tree, a completed run creates its targets and reports each directory under the
  first decision that needs it.  For the extractor: the report is well-formed and merges exactly the
  observations, field by field.  For the egress policy: the exact condition of an allowed request, down to
  the address.  For attempts: stage chains, append-only publication, digests that bind results to
  contracts.  For the oracles: the verdict of a target, what a repeated fingerprint means.  For
  environments: saved manifests are one immutable chain that its last identifier fixes, a captured
  filesystem is cloned back, the snapshot after a repair is the parent's plus authorized directories, and
  a completed repair is recorded exactly when the store can take its snapshot.  For sessions: every session
  made by calls that returned verifies, the first iteration can be prepared, the state and the stop reason
  after each iteration, the bound on the number of calls,
  what an artifact digest protects, and the failures that end a session: one after the artifacts were
  stored, and one after the manifest of a repair was saved.  For the loop: the runner is only called on the
  prepared, unclaimed iteration of an active session, an invocation that returns stays within its steps and
  tells how the session stands, and a runner that keeps the history leaves a session that verifies.

  \<^bold>\<open>Assumptions.\<close>  Text is ASCII.  \<open>json.loads\<close> and the clock are arguments; files the program
  writes as JSON are kept as values.  Floats are exact rationals with the text \<open>repr\<close> prints, and are
  only compared.  No recursion needs fuel: loops are structural or have a measure.  Collisions of
  SHA-256 are named in the statements as the two texts that collide.  Of the machine: symbolic links have
  mode 0777, the reads and writes of a copy succeed, the directories that a walk cannot read do not matter
  for its order, and the umask is an argument.  Sessions have at most 10000 iterations, the versions that
  the store finds.  A history of calls (\<open>session_history\<close>) has one host: the same paths and
  \<open>json.loads\<close>, no other process between a test and the call after it, and a manifest of artifacts that is
  read back as it was written.

  \<^bold>\<open>Not modelled.\<close>  The plain \<open>save\<close> methods (temporary file, \<open>fsync\<close>, rename) and a crash between
  them; the root filesystem that is cloned into the directory of an iteration; process control
  (\<open>prebuilt_runner.py\<close>, \<open>orchestrator.py\<close>, the backends of \<open>execution_backend.py\<close>), network servers
  (\<open>controlled_network_backend.py\<close>, \<open>transparent_logger.py\<close>, \<open>c2_record_broker.py\<close>), the
  trace parsers, ELF inspection, report rendering, the scripts, and the C plug-ins.
\<close>

end
